(* ===== verification/Prelude.thy ===== *)
theory Prelude
  imports Main "HOL-Library.Char_ord"
begin

text \<open>
  Shared vocabulary of the development: the parts of the JavaScript language and standard
  library that the frontend of OPNGMS uses, and the lemmas on them that the components share.

  \<^item> Strings. A string is a list of characters; a character stands for one Latin-1 code unit
    (code points 0 to 255). \<open>trim\<close>, \<open>toLowerCase\<close>, \<open>split\<close>, \<open>join\<close>,
    \<open>startsWith\<close>, \<open>includes\<close>, \<open>replace\<close> follow ECMAScript on these strings.
  \<^item> Objects used as records (\<open>Record<string, T>\<close>) and \<open>Map\<close>s. Both are insertion-ordered
    association lists with distinct keys; enumerating an object lists the array-index keys first,
    in ascending order. Only own properties are modelled.
  \<^item> JSON values, their truthiness, and optional values (\<open>undefined\<close> is \<open>None\<close>).

  The locale \<open>keyed_store\<close> states the contract of a keyed container once; objects interpret it,
  and the facts on folds of updates are proved in it.
\<close>

named_theorems js_defs \<open>definitions of the string and object primitives\<close>

section \<open>Strings\<close>

definition is_ws :: "char \<Rightarrow> bool" where
  "is_ws c \<longleftrightarrow> (of_char c :: nat) \<in> {9, 10, 11, 12, 13, 32, 160}"

definition trim_left :: "string \<Rightarrow> string" where
  "trim_left s = dropWhile is_ws s"

definition js_trim :: "string \<Rightarrow> string" where
  "js_trim s = rev (dropWhile is_ws (rev (dropWhile is_ws s)))"

definition lower_char :: "char \<Rightarrow> char" where
  "lower_char c = (let n = (of_char c :: nat) in
     if 65 \<le> n \<and> n \<le> 90 \<or> 192 \<le> n \<and> n \<le> 222 \<and> n \<noteq> 215 then char_of (n + 32) else c)"

definition to_lower :: "string \<Rightarrow> string" where
  "to_lower s = map lower_char s"

fun split_by :: "(char \<Rightarrow> bool) \<Rightarrow> string \<Rightarrow> string list" where
  "split_by p [] = [[]]"
| "split_by p (c # cs) =
     (if p c then [] # split_by p cs
      else (case split_by p cs of [] \<Rightarrow> [[c]] | w # ws \<Rightarrow> (c # w) # ws))"

definition split_on :: "char \<Rightarrow> string \<Rightarrow> string list" where
  "split_on d s = split_by (\<lambda>c. c = d) s"

fun js_join :: "string \<Rightarrow> string list \<Rightarrow> string" where
  "js_join sep [] = []"
| "js_join sep [w] = w"
| "js_join sep (w # v # ws) = w @ sep @ js_join sep (v # ws)"

definition starts_with :: "string \<Rightarrow> string \<Rightarrow> bool" where
  "starts_with s p \<longleftrightarrow> take (length p) s = p"

fun str_includes :: "string \<Rightarrow> string \<Rightarrow> bool" where
  "str_includes [] p = (p = [])"
| "str_includes (c # cs) p = (starts_with (c # cs) p \<or> str_includes cs p)"

text \<open>\<open>s.replace(pat, rep)\<close> for a string pattern and a replacement without \<open>$\<close>.\<close>

fun replace_first :: "string \<Rightarrow> string \<Rightarrow> string \<Rightarrow> string" where
  "replace_first [] pat rep = (if pat = [] then rep else [])"
| "replace_first (c # cs) pat rep =
     (if starts_with (c # cs) pat then rep @ drop (length pat) (c # cs)
      else c # replace_first cs pat rep)"

text \<open>\<open>xs.filter(Boolean)\<close> on an array of strings drops the empty ones.\<close>

definition filter_truthy :: "string list \<Rightarrow> string list" where
  "filter_truthy ws = filter (\<lambda>w. w \<noteq> []) ws"

fun show_nat :: "nat \<Rightarrow> string" where
  "show_nat n = (if n < 10 then [char_of (48 + n)]
                 else show_nat (n div 10) @ [char_of (48 + n mod 10)])"

declare show_nat.simps [simp del]

definition show_int :: "int \<Rightarrow> string" where
  "show_int i = (if i < 0 then ''-'' @ show_nat (nat (- i)) else show_nat (nat i))"

lemmas [js_defs] = trim_left_def js_trim_def to_lower_def split_on_def starts_with_def
  filter_truthy_def

lemma starts_with_append [simp]: "starts_with (p @ s) p"
  by (simp add: starts_with_def)

lemma starts_with_iff: "starts_with s p \<longleftrightarrow> (\<exists>t. s = p @ t)"
  by (metis append_take_drop_id starts_with_append starts_with_def)

lemma split_by_ne [simp]: "split_by p s \<noteq> []"
  by (induction s) (auto split: list.splits)

lemma split_by_no_sep: "\<forall>w \<in> set (split_by p s). \<forall>c \<in> set w. \<not> p c"
proof (induction s)
  case (Cons a s)
  then show ?case by (cases "split_by p s") auto
qed simp

lemma split_by_chars: "\<forall>w \<in> set (split_by p s). set w \<subseteq> set s"
proof (induction s)
  case (Cons a s)
  then show ?case by (cases "split_by p s") auto
qed simp

lemma split_by_free [simp]: "\<forall>c \<in> set w. \<not> p c \<Longrightarrow> split_by p w = [w]"
  by (induction w) auto

lemma split_by_append_sep:
  "\<forall>c \<in> set w. \<not> p c \<Longrightarrow> p d \<Longrightarrow> split_by p (w @ d # s) = w # split_by p s"
  by (induction w) auto

text \<open>Splitting is the inverse of joining with the separator, for words that do not contain it.\<close>

lemma split_by_join:
  assumes "ws \<noteq> []" and "\<forall>w \<in> set ws. \<forall>c \<in> set w. \<not> p c" and "p d"
  shows "split_by p (js_join [d] ws) = ws"
  using assms(1,2)
proof (induction "[d]" ws rule: js_join.induct)
  case (3 w v ws)
  then show ?case using assms(3) by (simp add: split_by_append_sep)
qed auto

lemma split_on_join:
  "ws \<noteq> [] \<Longrightarrow> \<forall>w \<in> set ws. d \<notin> set w \<Longrightarrow> split_on d (js_join [d] ws) = ws"
  unfolding split_on_def by (rule split_by_join) auto

lemma join_split_on: "js_join [d] (split_on d s) = s"
proof (induction s)
  case (Cons c s)
  show ?case
  proof (cases "split_by (\<lambda>c. c = d) s")
    case (Cons w ws)
    then show ?thesis using Cons.IH by (cases ws) (auto simp: split_on_def)
  qed simp
qed (simp add: split_on_def)

lemma dropWhile_rev_id: "s = [] \<or> \<not> P (last s) \<Longrightarrow> rev (dropWhile P (rev s)) = s"
  by (cases s rule: rev_cases) auto

text \<open>A string that starts and ends with no white space is a fixed point of \<open>trim\<close>; \<open>trim\<close>
  always returns such a string.\<close>

definition trimmed :: "string \<Rightarrow> bool" where
  "trimmed s \<longleftrightarrow> s = [] \<or> \<not> is_ws (hd s) \<and> \<not> is_ws (last s)"

lemma js_trim_id [simp]: "trimmed s \<Longrightarrow> js_trim s = s"
proof -
  assume t: "trimmed s"
  then have "dropWhile is_ws s = s" by (cases s) (auto simp: trimmed_def)
  moreover have "rev (dropWhile is_ws (rev s)) = s"
    using t by (intro dropWhile_rev_id) (auto simp: trimmed_def)
  ultimately show ?thesis by (simp add: js_trim_def)
qed

lemma last_dropWhile: "dropWhile P s \<noteq> [] \<Longrightarrow> last (dropWhile P s) = last s"
  by (induction s) (auto split: if_splits)

lemma trimmed_trim [simp]: "trimmed (js_trim s)"
proof (cases "js_trim s = []")
  case False
  let ?u = "dropWhile is_ws s"
  have d: "dropWhile is_ws (rev ?u) \<noteq> []" using False by (simp add: js_trim_def)
  have hd_u: "\<not> is_ws (hd ?u)"
    using d by (metis dropWhile.simps(1) hd_dropWhile rev.simps(1))
  have "hd (js_trim s) = hd ?u"
    using d by (metis (no_types, lifting) js_trim_def hd_rev last_dropWhile last_rev rev_is_Nil_conv rev_rev_ident)
  moreover have "\<not> is_ws (last (js_trim s))"
    using d hd_dropWhile [OF d] by (simp add: js_trim_def last_rev)
  ultimately show ?thesis using hd_u by (simp add: trimmed_def)
qed (simp add: trimmed_def)

lemma js_trim_idem [simp]: "js_trim (js_trim s) = js_trim s"
  by simp

lemma set_js_trim: "set (js_trim s) \<subseteq> set s"
  unfolding js_trim_def by (auto dest!: set_dropWhileD)

text \<open>The idiom \<open>s.split(sep).map(trim).filter(Boolean)\<close>, used for every multi-line and
  comma-separated input of the application.\<close>

definition split_trim :: "(char \<Rightarrow> bool) \<Rightarrow> string \<Rightarrow> string list" where
  "split_trim p s = filter_truthy (map js_trim (split_by p s))"

definition clean_words :: "(char \<Rightarrow> bool) \<Rightarrow> string list \<Rightarrow> bool" where
  "clean_words p ws \<longleftrightarrow> (\<forall>w \<in> set ws. w \<noteq> [] \<and> trimmed w \<and> (\<forall>c \<in> set w. \<not> p c))"

lemma split_trim_clean: "clean_words p (split_trim p s)"
proof -
  have "\<not> p c" if "w \<in> set (split_by p s)" "c \<in> set (js_trim w)" for w c
    using that set_js_trim split_by_no_sep by blast
  then show ?thesis
    by (auto simp: clean_words_def split_trim_def filter_truthy_def)
qed

lemma split_trim_join:
  assumes "clean_words p ws" and "p d"
  shows "split_trim p (js_join [d] ws) = ws"
proof (cases "ws = []")
  case True
  then show ?thesis by (simp add: split_trim_def filter_truthy_def js_trim_def)
next
  case False
  have s: "split_by p (js_join [d] ws) = ws"
    using False assms by (intro split_by_join) (auto simp: clean_words_def)
  have m: "map js_trim ws = ws"
    using assms(1) by (intro map_idI) (auto simp: clean_words_def)
  have f: "filter_truthy ws = ws"
    using assms(1) by (auto simp: filter_truthy_def clean_words_def filter_id_conv)
  show ?thesis by (simp add: split_trim_def s m f)
qed

text \<open>\<open>indexOf\<close>, with \<open>None\<close> for -1.\<close>

fun index_of :: "'a list \<Rightarrow> 'a \<Rightarrow> nat option" where
  "index_of [] x = None"
| "index_of (y # ys) x = (if y = x then Some 0 else map_option Suc (index_of ys x))"

lemma index_of_Some: "index_of xs x = Some i \<Longrightarrow> i < length xs \<and> xs ! i = x"
  by (induction xs arbitrary: i) (auto split: if_splits)

lemma index_of_None: "index_of xs x = None \<longleftrightarrow> x \<notin> set xs"
  by (induction xs) auto

section \<open>Keyed containers\<close>

text \<open>The contract of a container that is read and written by key, and what follows for the loops
  that fill one: the last write to a key wins, and no other key changes.\<close>

locale keyed_store =
  fixes get :: "'m \<Rightarrow> 'k \<Rightarrow> 'v option"
    and put :: "'k \<Rightarrow> 'v \<Rightarrow> 'm \<Rightarrow> 'm"
    and nothing :: "'m"
  assumes get_nothing: "get nothing k = None"
    and get_put: "get (put k v m) k' = (if k' = k then Some v else get m k')"
begin

lemma get_foldl_put:
  "get (foldl (\<lambda>m (k, v). put k v m) m kvs) k =
     (case map_of (rev kvs) k of None \<Rightarrow> get m k | Some v \<Rightarrow> Some v)"
proof (induction kvs arbitrary: m)
  case (Cons kv kvs)
  then show ?case
    by (cases kv, cases "map_of (rev kvs) k") (simp_all add: get_put map_add_def)
qed simp

lemma get_fill:
  "get (foldl (\<lambda>m x. put (f x) (g x) m) m xs) k =
     (case map_of (rev (map (\<lambda>x. (f x, g x)) xs)) k of None \<Rightarrow> get m k | Some v \<Rightarrow> Some v)"
  using get_foldl_put [of m "map (\<lambda>x. (f x, g x)) xs" k] by (simp add: foldl_map)

lemma get_fill_keys:
  "get (foldl (\<lambda>m x. put (f x) (g x) m) nothing xs) k \<noteq> None \<longleftrightarrow> k \<in> f ` set xs"
proof -
  have "map_of (rev (map (\<lambda>x. (f x, g x)) xs)) k = None \<longleftrightarrow> k \<notin> f ` set xs"
    by (auto simp: map_of_eq_None_iff image_iff)
  then show ?thesis by (auto simp: get_fill get_nothing split: option.splits)
qed

lemma get_fill_fun:
  assumes "k \<in> f ` set xs" and "\<And>x y. x \<in> set xs \<Longrightarrow> y \<in> set xs \<Longrightarrow> f x = f y \<Longrightarrow> g x = g y"
    and "x \<in> set xs" and "f x = k"
  shows "get (foldl (\<lambda>m x. put (f x) (g x) m) m xs) k = Some (g x)"
proof -
  have "map_of (rev (map (\<lambda>x. (f x, g x)) xs)) k \<noteq> None"
    unfolding map_of_eq_None_iff using assms(1) by (simp add: image_image)
  then obtain v where v: "map_of (rev (map (\<lambda>x. (f x, g x)) xs)) k = Some v"
    by blast
  then have "(k, v) \<in> set (rev (map (\<lambda>x. (f x, g x)) xs))" by (rule map_of_SomeD)
  then obtain y where "y \<in> set xs" "f y = k" "v = g y" by auto
  then have "v = g x" using assms(2) [OF _ assms(3), of y] assms(4) by simp
  with v show ?thesis by (simp add: get_fill)
qed

end

section \<open>Objects used as records\<close>

type_synonym 'v obj = "(string \<times> 'v) list"

definition obj_get :: "'v obj \<Rightarrow> string \<Rightarrow> 'v option" where
  "obj_get ob k = map_of ob k"

fun obj_set :: "string \<Rightarrow> 'v \<Rightarrow> 'v obj \<Rightarrow> 'v obj" where
  "obj_set k v [] = [(k, v)]"
| "obj_set k v ((k', v') # ob) = (if k = k' then (k, v) # ob else (k', v') # obj_set k v ob)"

definition obj_del :: "string \<Rightarrow> 'v obj \<Rightarrow> 'v obj" where
  "obj_del k ob = filter (\<lambda>(k', _). k' \<noteq> k) ob"

definition obj_has :: "'v obj \<Rightarrow> string \<Rightarrow> bool" where
  "obj_has ob k \<longleftrightarrow> k \<in> fst ` set ob"

text \<open>\<open>{...a, ...b}\<close> and \<open>Object.fromEntries\<close>.\<close>

definition obj_spread :: "'v obj \<Rightarrow> 'v obj \<Rightarrow> 'v obj" where
  "obj_spread a b = foldl (\<lambda>m (k, v). obj_set k v m) a b"

definition from_entries :: "(string \<times> 'v) list \<Rightarrow> 'v obj" where
  "from_entries kvs = foldl (\<lambda>m (k, v). obj_set k v m) [] kvs"

text \<open>Property enumeration order: array-index keys ascending, then the others by insertion.\<close>

definition is_digit :: "char \<Rightarrow> bool" where
  "is_digit c \<longleftrightarrow> 48 \<le> (of_char c :: nat) \<and> (of_char c :: nat) \<le> 57"

definition digits_value :: "string \<Rightarrow> nat" where
  "digits_value s = foldl (\<lambda>n c. 10 * n + (of_char c - 48)) 0 s"

definition is_index_key :: "string \<Rightarrow> bool" where
  "is_index_key s \<longleftrightarrow> s \<noteq> [] \<and> (\<forall>c \<in> set s. is_digit c) \<and> (hd s = CHR ''0'' \<longrightarrow> s = ''0'')
     \<and> digits_value s < 4294967295"

definition obj_entries :: "'v obj \<Rightarrow> (string \<times> 'v) list" where
  "obj_entries ob = sort_key (\<lambda>(k, _). digits_value k) (filter (\<lambda>(k, _). is_index_key k) ob)
                  @ filter (\<lambda>(k, _). \<not> is_index_key k) ob"

definition obj_keys :: "'v obj \<Rightarrow> string list" where
  "obj_keys ob = map fst (obj_entries ob)"

definition obj_values :: "'v obj \<Rightarrow> 'v list" where
  "obj_values ob = map snd (obj_entries ob)"

definition obj_wf :: "'v obj \<Rightarrow> bool" where
  "obj_wf ob \<longleftrightarrow> distinct (map fst ob)"

lemma obj_get_set: "obj_get (obj_set k v ob) k' = (if k' = k then Some v else obj_get ob k')"
  by (induction ob) (auto simp: obj_get_def)

interpretation rec: keyed_store obj_get obj_set "[]"
  by unfold_locales (simp_all add: obj_get_set, simp add: obj_get_def)

lemma obj_get_Nil [simp]: "obj_get [] k = None"
  by (simp add: obj_get_def)

lemma obj_has_iff: "obj_has ob k \<longleftrightarrow> obj_get ob k \<noteq> None"
  by (auto simp: obj_has_def obj_get_def map_of_eq_None_iff)

lemma fst_obj_set: "fst ` set (obj_set k v ob) = insert k (fst ` set ob)"
  by (induction k v ob rule: obj_set.induct) (auto simp: insert_commute)

lemma obj_wf_set [simp]: "obj_wf ob \<Longrightarrow> obj_wf (obj_set k v ob)"
proof (induction ob)
  case (Cons a ob)
  then show ?case using fst_obj_set [of k v ob] by (cases a) (auto simp: obj_wf_def)
qed (simp add: obj_wf_def)

lemma obj_wf_Nil [simp]: "obj_wf []"
  by (simp add: obj_wf_def)

lemma obj_wf_spread [simp]: "obj_wf a \<Longrightarrow> obj_wf (obj_spread a b)"
  unfolding obj_spread_def by (induction b arbitrary: a) auto

lemma obj_wf_from_entries [simp]: "obj_wf (from_entries kvs)"
  using obj_wf_spread [of "[]" kvs] by (simp add: from_entries_def obj_spread_def)

lemma obj_wf_del [simp]: "obj_wf ob \<Longrightarrow> obj_wf (obj_del k ob)"
  by (induction ob) (auto simp: obj_wf_def obj_del_def)

lemma obj_get_del: "obj_get (obj_del k ob) k' = (if k' = k then None else obj_get ob k')"
  by (induction ob) (auto simp: obj_get_def obj_del_def)

lemma obj_get_map_of_rev: "obj_wf ob \<Longrightarrow> map_of (rev ob) k = obj_get ob k"
proof -
  assume "obj_wf ob"
  then have "map_of (rev ob) = map_of ob"
    by (subst map_of_inject_set) (simp_all add: obj_wf_def flip: rev_map)
  then show ?thesis by (simp add: obj_get_def)
qed

lemma obj_get_spread:
  "obj_wf b \<Longrightarrow> obj_get (obj_spread a b) k = (case obj_get b k of None \<Rightarrow> obj_get a k | Some v \<Rightarrow> Some v)"
  by (simp add: obj_spread_def rec.get_foldl_put obj_get_map_of_rev)

lemma obj_get_from_entries: "obj_get (from_entries kvs) k = map_of (rev kvs) k"
  by (simp add: from_entries_def rec.get_foldl_put split: option.splits)

lemma set_obj_entries [simp]: "set (obj_entries ob) = set ob"
  by (auto simp: obj_entries_def)

lemma obj_wf_in_set: "obj_wf ob \<Longrightarrow> (k, v) \<in> set ob \<longleftrightarrow> obj_get ob k = Some v"
  by (simp add: obj_wf_def obj_get_def)

lemma map_of_entries: "obj_wf ob \<Longrightarrow> map_of (obj_entries ob) k = obj_get ob k"
proof -
  assume wf: "obj_wf ob"
  have "distinct (map fst (obj_entries ob))"
    using wf by (simp add: obj_wf_def distinct_map obj_entries_def inj_on_def) fastforce
  then have "map_of (obj_entries ob) = map_of ob"
    using wf by (subst map_of_inject_set) (simp_all add: obj_wf_def)
  then show ?thesis by (simp add: obj_get_def)
qed

lemma distinct_entries: "obj_wf ob \<Longrightarrow> distinct (map fst (obj_entries ob))"
  by (simp add: obj_wf_def distinct_map obj_entries_def inj_on_def) fastforce

section \<open>JSON values\<close>

datatype json = JNull | JBool bool | JNum int | JStr string | JArr "json list"
  | JObj "(string \<times> json) list"

text \<open>\<open>undefined\<close> is \<open>None\<close>. Truthiness as in \<open>if (x)\<close>.\<close>

fun truthy :: "json \<Rightarrow> bool" where
  "truthy JNull = False"
| "truthy (JBool b) = b"
| "truthy (JNum n) = (n \<noteq> 0)"
| "truthy (JStr s) = (s \<noteq> [])"
| "truthy _ = True"

definition otruthy :: "json option \<Rightarrow> bool" where
  "otruthy v = (case v of None \<Rightarrow> False | Some x \<Rightarrow> truthy x)"

text \<open>Truthiness of a \<open>string | null | undefined\<close>.\<close>

definition struthy :: "string option \<Rightarrow> bool" where
  "struthy v = (case v of None \<Rightarrow> False | Some s \<Rightarrow> s \<noteq> [])"

definition jopt :: "string option \<Rightarrow> json" where
  "jopt v = (case v of None \<Rightarrow> JNull | Some s \<Rightarrow> JStr s)"

definition jstrs :: "string list \<Rightarrow> json" where
  "jstrs ws = JArr (map JStr ws)"

definition nullish_or :: "'a option \<Rightarrow> 'a \<Rightarrow> 'a" where
  "nullish_or v d = (case v of None \<Rightarrow> d | Some x \<Rightarrow> x)"

lemma otruthy_simps [simp]: "otruthy None = False" "otruthy (Some x) = truthy x"
  by (simp_all add: otruthy_def)

lemma struthy_simps [simp]: "struthy None = False" "struthy (Some s) = (s \<noteq> [])"
  by (simp_all add: struthy_def)

lemma jopt_simps [simp]: "jopt None = JNull" "jopt (Some s) = JStr s"
  by (simp_all add: jopt_def)

lemma nullish_or_simps [simp]: "nullish_or None d = d" "nullish_or (Some x) d = x"
  by (simp_all add: nullish_or_def)

lemma struthy_iff: "struthy v \<longleftrightarrow> (\<exists>s. v = Some s \<and> s \<noteq> [])"
  by (cases v) auto

lemma jopt_inject [simp]: "jopt a = jopt b \<longleftrightarrow> a = b"
  by (cases a; cases b) auto

section \<open>Browser storage\<close>

text \<open>One cell of \<open>localStorage\<close>: what is stored under a key, or \<open>Blocked\<close> when every access
  throws (private browsing, quota).\<close>

datatype storage = Blocked | Stored "string option"

fun storage_set :: "string \<Rightarrow> storage \<Rightarrow> storage" where
  "storage_set v Blocked = Blocked"
| "storage_set v (Stored w) = Stored (Some v)"

end
