(* ===== verification/Api.thy ===== *)
theory Api
  imports Prelude
begin

text \<open>
  The HTTP boundary of the frontend (\<^verbatim>\<open>frontend/src/api\<close>): requests, replies, the CSRF
  cookie and the middleware that copies it into a header, and the shapes of the
  query and mutation objects that the hooks hand to the query library.

  \<^item> The library that sends requests and caches replies is not part of the program. A query is the
    record of what the program gives it: the key, the \<open>enabled\<close> flag, the request, and what the
    query function makes of a reply. A mutation is its request, what the mutation function makes of
    the reply, and the cache operations of \<open>onSuccess\<close>.
  \<^item> A reply either never arrives (\<open>Rejected\<close>, a rejected promise) or has a body on the success
    side, a body on the error side (both possibly absent) and a status code.
  \<^item> Messages taken from a dictionary are written as their key path.
  \<^item> \<open>decodeURIComponent\<close> is a parameter; \<open>None\<close> is its \<open>URIError\<close>.
\<close>

section \<open>Requests and replies\<close>

datatype http_method = GET | POST | PUT | PATCH | DELETE

fun method_name :: "http_method \<Rightarrow> string" where
  "method_name GET = ''GET''"
| "method_name POST = ''POST''"
| "method_name PUT = ''PUT''"
| "method_name PATCH = ''PATCH''"
| "method_name DELETE = ''DELETE''"

record request =
  rq_method :: http_method
  rq_path :: string
  rq_params :: "json obj"
  rq_query :: "json obj"
  rq_body :: "json option"
  rq_headers :: "string obj"

datatype api_result = Rejected | Reply (reply_data: "json option") (reply_error: "json option") (reply_status: nat)

definition api_call :: "http_method \<Rightarrow> string \<Rightarrow> json obj \<Rightarrow> json obj \<Rightarrow> json option \<Rightarrow> request" where
  "api_call m path params qry body =
     \<lparr>rq_method = m, rq_path = path, rq_params = params, rq_query = qry, rq_body = body,
      rq_headers = []\<rparr>"

section \<open>The CSRF token\<close>

definition csrf_lit :: string where
  "csrf_lit = ''opngms_csrf=''"

definition after_lit :: "string \<Rightarrow> string option" where
  "after_lit s = (if starts_with s csrf_lit
                  then Some (takeWhile (\<lambda>c. c \<noteq> CHR '';'') (drop (length csrf_lit) s)) else None)"

text \<open>The second alternative of the regular expression: a semicolon, white space, the name.\<close>

fun scan_semicolon :: "string \<Rightarrow> string option" where
  "scan_semicolon [] = None"
| "scan_semicolon (c # cs) =
     (if c = CHR '';'' then
        (case after_lit (trim_left cs) of Some v \<Rightarrow> Some v | None \<Rightarrow> scan_semicolon cs)
      else scan_semicolon cs)"

definition csrf_match :: "string \<Rightarrow> string option" where
  "csrf_match cookie = (case after_lit cookie of Some v \<Rightarrow> Some v | None \<Rightarrow> scan_semicolon cookie)"

definition csrfToken :: "(string \<Rightarrow> string option) \<Rightarrow> string \<Rightarrow> string option" where
  "csrfToken decodeURIComponent cookie =
     (case csrf_match cookie of None \<Rightarrow> Some [] | Some v \<Rightarrow> decodeURIComponent v)"

text \<open>The reference reading of a cookie header: split it at semicolons, drop the white space in
  front of every piece but the first, and take the first piece that has the name.\<close>

definition cookie_pieces :: "string \<Rightarrow> string list" where
  "cookie_pieces cookie = (case split_on CHR '';'' cookie of [] \<Rightarrow> [] | w # ws \<Rightarrow> w # map trim_left ws)"

definition csrf_reference :: "string \<Rightarrow> string option" where
  "csrf_reference cookie = map_option (drop (length csrf_lit))
     (find (\<lambda>p. starts_with p csrf_lit) (cookie_pieces cookie))"

lemma takeWhile_sep: "d \<notin> set w \<Longrightarrow> takeWhile (\<lambda>c. c \<noteq> d) (w @ d # s) = w"
  by (induction w) auto

lemma starts_with_Cons [simp]:
  "starts_with [] (c # p) = False" "starts_with s []"
  "starts_with (a # s) (c # p) = (a = c \<and> starts_with s p)"
  by (auto simp: starts_with_def)

lemma starts_with_before_sep:
  "d \<notin> set p \<Longrightarrow> starts_with (w @ d # s) p \<longleftrightarrow> starts_with w p"
proof (induction p arbitrary: w)
  case (Cons c p)
  then show ?case by (cases w) auto
qed simp

lemma after_lit_piece:
  "CHR '';'' \<notin> set w \<Longrightarrow>
     after_lit (w @ CHR '';'' # s) = (if starts_with w csrf_lit then Some (drop (length csrf_lit) w) else None)"
proof -
  assume w: "CHR '';'' \<notin> set w"
  have l: "CHR '';'' \<notin> set csrf_lit" by (simp add: csrf_lit_def)
  show ?thesis
  proof (cases "starts_with w csrf_lit")
    case True
    then obtain t where "w = csrf_lit @ t" by (auto simp: starts_with_iff)
    then show ?thesis using w by (simp add: after_lit_def takeWhile_sep)
  next
    case False
    then show ?thesis using starts_with_before_sep [OF l, of w s] by (simp add: after_lit_def)
  qed
qed

lemma after_lit_last:
  "CHR '';'' \<notin> set w \<Longrightarrow>
     after_lit w = (if starts_with w csrf_lit then Some (drop (length csrf_lit) w) else None)"
  by (auto simp: after_lit_def takeWhile_eq_all_conv dest: in_set_dropD)

lemma scan_free: "CHR '';'' \<notin> set w \<Longrightarrow> scan_semicolon (w @ s) = scan_semicolon s"
  by (induction w) auto

lemma trim_left_piece:
  "CHR '';'' \<notin> set w \<Longrightarrow> trim_left (w @ CHR '';'' # s) = trim_left w @ CHR '';'' # s"
  by (induction w) (auto simp: trim_left_def is_ws_def)

lemma trim_left_free: "d \<notin> set w \<Longrightarrow> d \<notin> set (trim_left w)"
  by (auto simp: trim_left_def dest: set_dropWhileD)

lemma split_on_cases:
  obtains (last) "CHR '';'' \<notin> set s" "split_on CHR '';'' s = [s]"
  | (more) w r where "s = w @ CHR '';'' # r" "CHR '';'' \<notin> set w"
      "split_on CHR '';'' s = w # split_on CHR '';'' r"
proof (cases "CHR '';'' \<in> set s")
  case True
  then obtain w r where s: "s = w @ CHR '';'' # r" "CHR '';'' \<notin> set w"
    by (meson split_list_first)
  moreover from s have "split_on CHR '';'' s = w # split_on CHR '';'' r"
    unfolding split_on_def s(1) by (intro split_by_append_sep) auto
  ultimately show thesis using more by blast
next
  case False
  then have "split_on CHR '';'' s = [s]"
    unfolding split_on_def by (intro split_by_free) auto
  with False show thesis using last by blast
qed

lemma scan_semicolon_reference:
  "scan_semicolon (CHR '';'' # s) = map_option (drop (length csrf_lit))
     (find (\<lambda>p. starts_with p csrf_lit) (map trim_left (split_on CHR '';'' s)))"
proof (induction s rule: length_induct)
  case (1 s)
  show ?case
  proof (cases rule: split_on_cases [of s])
    case last
    then show ?thesis
      using scan_free [of s "[]"] by (simp add: after_lit_last trim_left_free)
  next
    case (more w r)
    then have "scan_semicolon (CHR '';'' # r) = map_option (drop (length csrf_lit))
       (find (\<lambda>p. starts_with p csrf_lit) (map trim_left (split_on CHR '';'' r)))"
      using 1 by simp
    moreover have "after_lit (trim_left s) =
        (if starts_with (trim_left w) csrf_lit then Some (drop (length csrf_lit) (trim_left w)) else None)"
      using more by (simp add: trim_left_piece after_lit_piece trim_left_free)
    moreover have "scan_semicolon s = scan_semicolon (CHR '';'' # r)"
      using more(1) scan_free [OF more(2)] by (simp del: scan_semicolon.simps)
    ultimately show ?thesis using more by simp
  qed
qed

text \<open>On every cookie string the regular-expression search of \<^verbatim>\<open>csrf.ts\<close> returns what the
  cookie header means: the value of the first cookie named \<open>opngms_csrf\<close> when the header is
  split at its semicolons, and nothing when there is none.\<close>

lemma csrf_match_reference: "csrf_match cookie = csrf_reference cookie"
proof (cases rule: split_on_cases [of cookie])
  case last
  then show ?thesis
    using scan_free [of cookie "[]"]
    by (simp add: csrf_match_def csrf_reference_def cookie_pieces_def after_lit_last)
next
  case (more w r)
  moreover have "scan_semicolon cookie = scan_semicolon (CHR '';'' # r)"
    using more(1) scan_free [OF more(2)] by (simp del: scan_semicolon.simps)
  ultimately show ?thesis
    by (simp add: csrf_match_def csrf_reference_def cookie_pieces_def after_lit_piece
        scan_semicolon_reference del: scan_semicolon.simps)
qed

section \<open>The middleware\<close>

definition upper_char :: "char \<Rightarrow> char" where
  "upper_char c = (let n = (of_char c :: nat) in
     if 97 \<le> n \<and> n \<le> 122 \<or> 224 \<le> n \<and> n \<le> 254 \<and> n \<noteq> 247 then char_of (n - 32) else c)"

definition to_upper :: "string \<Rightarrow> string" where
  "to_upper s = map upper_char s"

definition MUTATING :: "string list" where
  "MUTATING = [''POST'', ''PUT'', ''PATCH'', ''DELETE'']"

definition csrfMiddleware :: "(string \<Rightarrow> string option) \<Rightarrow> string \<Rightarrow> request \<Rightarrow> request option" where
  "csrfMiddleware decode cookie rq =
     (if to_upper (method_name (rq_method rq)) \<in> set MUTATING then
        (case csrfToken decode cookie of
           None \<Rightarrow> None
         | Some tok \<Rightarrow> Some (rq\<lparr>rq_headers := obj_set ''X-OPNGMS-CSRF'' tok (rq_headers rq)\<rparr>))
      else Some rq)"

lemma mutating_method: "to_upper (method_name m) \<in> set MUTATING \<longleftrightarrow> m \<noteq> GET"
  by (cases m) (simp_all add: to_upper_def MUTATING_def upper_char_def)

text \<open>C1. Every mutating request that leaves the client carries the session token: a request with a
  method other than GET goes out with the header set to the decoded value of the first cookie named
  \<open>opngms_csrf\<close> (the empty string when there is none) and every other part of it unchanged; a GET
  request goes out unchanged; a request is held back only when it is mutating and the cookie value does
  not decode.\<close>

theorem csrf_middleware_spec:
  "csrfMiddleware decode cookie rq =
     (if rq_method rq = GET then Some rq
      else map_option (\<lambda>tok. rq\<lparr>rq_headers := obj_set ''X-OPNGMS-CSRF'' tok (rq_headers rq)\<rparr>)
             (case csrf_reference cookie of None \<Rightarrow> Some [] | Some v \<Rightarrow> decode v))
   \<and> map_option (\<lambda>rq'. obj_get (rq_headers rq') ''X-OPNGMS-CSRF'') (csrfMiddleware decode cookie rq) =
     (if rq_method rq = GET then Some (obj_get (rq_headers rq) ''X-OPNGMS-CSRF'')
      else map_option Some (csrfToken decode cookie))"
  by (auto simp: csrfMiddleware_def csrfToken_def mutating_method csrf_match_reference [symmetric]
      rec.get_put split: option.splits)

section \<open>Queries and mutations\<close>

datatype failure = NetworkError | Err string | PasskeyConfigError string | LastFactorError string
  | Cancelled string

datatype cache_op = Invalidate "json list" | SetData "json list" "json option" | ClearCache
  | RefreshMe | Goto string | Download string

text \<open>A message shown by the notification library.\<close>

datatype notice = Info string | Failure string

record query =
  q_key :: "json list"
  q_enabled :: bool
  q_request :: "int \<Rightarrow> request"
  q_fn :: "api_result \<Rightarrow> failure + json option"

record infinite_query =
  iq_key :: "json list"
  iq_enabled :: bool
  iq_request :: "string option \<Rightarrow> request"
  iq_fn :: "api_result \<Rightarrow> failure + json \<times> string option"
  iq_next :: "json \<times> string option \<Rightarrow> string option"

record mutation =
  m_request :: request
  m_fn :: "api_result \<Rightarrow> failure + json option"
  m_success :: "json option \<Rightarrow> cache_op list"

definition http_ok :: "nat \<Rightarrow> bool" where
  "http_ok s \<longleftrightarrow> 200 \<le> s \<and> s \<le> 299"

text \<open>The four ways the hooks read a reply: \<open>if (error || !data) throw; return data\<close>,
  \<open>if (error) throw; return data ?? []\<close>, \<open>if (error) throw; return data\<close>, and
  \<open>if (error) throw\<close>.\<close>

definition nullish :: "json option \<Rightarrow> bool" where
  "nullish v \<longleftrightarrow> v = None \<or> v = Some JNull"

fun need_data :: "string \<Rightarrow> api_result \<Rightarrow> failure + json option" where
  "need_data msg Rejected = Inl NetworkError"
| "need_data msg (Reply d e s) = (if otruthy e \<or> \<not> otruthy d then Inl (Err msg) else Inr d)"

fun data_or_empty :: "string \<Rightarrow> api_result \<Rightarrow> failure + json option" where
  "data_or_empty msg Rejected = Inl NetworkError"
| "data_or_empty msg (Reply d e s) =
     (if otruthy e then Inl (Err msg) else Inr (if nullish d then Some (JArr []) else d))"

fun any_data :: "string \<Rightarrow> api_result \<Rightarrow> failure + json option" where
  "any_data msg Rejected = Inl NetworkError"
| "any_data msg (Reply d e s) = (if otruthy e then Inl (Err msg) else Inr d)"

fun no_data :: "string \<Rightarrow> api_result \<Rightarrow> failure + json option" where
  "no_data msg Rejected = Inl NetworkError"
| "no_data msg (Reply d e s) = (if otruthy e then Inl (Err msg) else Inr None)"

text \<open>The readers that never look at \<open>error\<close>: \<open>return data ?? []\<close> and \<open>return data\<close>.\<close>

fun unchecked_or_empty :: "api_result \<Rightarrow> failure + json option" where
  "unchecked_or_empty Rejected = Inl NetworkError"
| "unchecked_or_empty (Reply d e s) = Inr (if nullish d then Some (JArr []) else d)"

fun unchecked_data :: "api_result \<Rightarrow> failure + json option" where
  "unchecked_data Rejected = Inl NetworkError"
| "unchecked_data (Reply d e s) = Inr d"

text \<open>Reading a property of a value that may be absent (\<open>x?.k\<close>).\<close>

fun field :: "json option \<Rightarrow> string \<Rightarrow> json option" where
  "field (Some (JObj ob)) k = obj_get ob k"
| "field _ k = None"

fun str_field :: "json option \<Rightarrow> string option" where
  "str_field (Some (JStr s)) = Some s"
| "str_field _ = None"

definition or_empty :: "json option \<Rightarrow> json" where
  "or_empty v = (case v of None \<Rightarrow> JArr [] | Some JNull \<Rightarrow> JArr [] | Some x \<Rightarrow> x)"

definition mk_query :: "json list \<Rightarrow> bool \<Rightarrow> request \<Rightarrow> (api_result \<Rightarrow> failure + json option) \<Rightarrow> query" where
  "mk_query key en rq f = \<lparr>q_key = key, q_enabled = en, q_request = (\<lambda>_. rq), q_fn = f\<rparr>"

definition mk_mutation ::
  "request \<Rightarrow> (api_result \<Rightarrow> failure + json option) \<Rightarrow> (json option \<Rightarrow> cache_op list) \<Rightarrow> mutation" where
  "mk_mutation rq f ok = \<lparr>m_request = rq, m_fn = f, m_success = ok\<rparr>"

definition invalidates :: "json list \<Rightarrow> json option \<Rightarrow> cache_op list" where
  "invalidates key = (\<lambda>_. [Invalidate key])"

definition no_ops :: "json option \<Rightarrow> cache_op list" where
  "no_ops = (\<lambda>_. [])"

text \<open>Path parameters of the tenant- and device-scoped endpoints.\<close>

definition t_params :: "string option \<Rightarrow> json obj" where
  "t_params a = [(''tenant_id'', jopt a)]"

definition td_params :: "string option \<Rightarrow> string option \<Rightarrow> json obj" where
  "td_params a d = [(''tenant_id'', jopt a), (''device_id'', jopt d)]"

lemmas hook_simps = mk_query_def mk_mutation_def api_call_def t_params_def td_params_def
  invalidates_def no_ops_def

lemma need_data_Inr: "need_data msg r = Inr v \<longleftrightarrow>
    (\<exists>s e. r = Reply v e s \<and> \<not> otruthy e \<and> otruthy v)"
  by (cases r) auto

end
