(* ===== verification/Dates.thy ===== *)
theory Dates
  imports Prelude
begin

text \<open>
  Instants and the time windows of the frontend. An instant is its time value, the number of
  milliseconds since the epoch (\<open>Date.getTime\<close>). \<open>toISOString\<close> is the function of the
  language's standard library on such a value; the windows are those of
  \<^verbatim>\<open>monitoring/range.ts\<close>, \<^verbatim>\<open>perimeter/perimeterHooks.ts\<close> and
  \<^verbatim>\<open>overview/attackerCountriesHooks.ts\<close>.
\<close>

section \<open>The ISO form of an instant\<close>

text \<open>The civil date of a day number of the proleptic Gregorian calendar (day 0 is 1970-01-01). The
  count starts at 1 March of year 0, so that the leap day is the last day of a year.\<close>

definition civil_of_days :: "int \<Rightarrow> int \<times> int \<times> int" where
  "civil_of_days d =
     (let z = d + 719468; era = z div 146097; doe = z mod 146097;
          yoe = (doe - doe div 1460 + doe div 36524 - doe div 146096) div 365;
          doy = doe - (365 * yoe + yoe div 4 - yoe div 100);
          mp = (5 * doy + 2) div 153;
          m = (if mp < 10 then mp + 3 else mp - 9)
      in (yoe + era * 400 + (if m \<le> 2 then 1 else 0), m, doy - (153 * mp + 2) div 5 + 1))"

definition pad :: "nat \<Rightarrow> int \<Rightarrow> string" where
  "pad w i = (let s = show_nat (nat i) in replicate (w - length s) CHR ''0'' @ s)"

definition iso_year :: "int \<Rightarrow> string" where
  "iso_year y = (if 0 \<le> y \<and> y \<le> 9999 then pad 4 y
                 else (if y < 0 then ''-'' else ''+'') @ pad 6 \<bar>y\<bar>)"

definition toISOString :: "int \<Rightarrow> string" where
  "toISOString t =
     (let (y, m, d) = civil_of_days (t div 86400000); r = t mod 86400000
      in iso_year y @ ''-'' @ pad 2 m @ ''-'' @ pad 2 d @ ''T'' @ pad 2 (r div 3600000) @ '':''
         @ pad 2 (r div 60000 mod 60) @ '':'' @ pad 2 (r div 1000 mod 60) @ ''.''
         @ pad 3 (r mod 1000) @ ''Z'')"

section \<open>Time windows\<close>

datatype range = R1h | R24h | R7d

fun range_name :: "range \<Rightarrow> string" where
  "range_name R1h = ''1h''"
| "range_name R24h = ''24h''"
| "range_name R7d = ''7d''"

fun SPAN_SECONDS :: "range \<Rightarrow> int" where
  "SPAN_SECONDS R1h = 3600"
| "SPAN_SECONDS R24h = 86400"
| "SPAN_SECONDS R7d = 604800"

fun BUCKET_SECONDS :: "range \<Rightarrow> int" where
  "BUCKET_SECONDS R1h = 60"
| "BUCKET_SECONDS R24h = 300"
| "BUCKET_SECONDS R7d = 3600"

record range_params =
  rp_from :: string
  rp_to :: string
  rp_bucket :: int

definition rangeToParams :: "range \<Rightarrow> int \<Rightarrow> range_params" where
  "rangeToParams r now =
     \<lparr>rp_from = toISOString (now - SPAN_SECONDS r * 1000), rp_to = toISOString now,
      rp_bucket = BUCKET_SECONDS r\<rparr>"

definition DAY_MS :: int where
  "DAY_MS = 24 * 60 * 60 * 1000"

definition rangeFrom :: "int \<Rightarrow> int \<Rightarrow> string \<times> string" where
  "rangeFrom now windowDays = (toISOString (now - windowDays * DAY_MS), toISOString now)"

definition defaultRange :: "int \<Rightarrow> string \<times> string" where
  "defaultRange now = (toISOString (now - 7 * DAY_MS), toISOString now)"

text \<open>The endpoint's limit on points per series that the comment of \<open>rangeToParams\<close> names.\<close>

definition MAX_POINTS :: int where
  "MAX_POINTS = 5000"

lemma range_name_inject [simp]: "range_name r = range_name r' \<longleftrightarrow> r = r'"
  by (cases r; cases r') simp_all

text \<open>The number of buckets a preset asks for divides its span exactly and stays under the limit.\<close>

lemma bucket_count:
  "SPAN_SECONDS r mod rp_bucket (rangeToParams r now) = 0"
  "SPAN_SECONDS r div rp_bucket (rangeToParams r now) \<le> MAX_POINTS"
  by (cases r; simp add: rangeToParams_def MAX_POINTS_def)+

end
