(* ===== verification/HooksDevice.thy ===== *)
theory HooksDevice
  imports Api Dates
begin

text \<open>
  The hooks of a device's pages: configuration model and changes, catalog, firmware, plugins,
  monitoring, reliability and configuration-audit events, log forwarding, log search, and the queries
  and mutations of \<^verbatim>\<open>DevicesPage\<close>, \<^verbatim>\<open>DeviceDetailPage\<close>, \<^verbatim>\<open>DeviceActions\<close> and
  \<^verbatim>\<open>DeviceCreateModal\<close>.

  \<open>activeId\<close> is the active tenant that \<open>useTenant()\<close> returns, an argument of every hook here.
  A mutation hook takes the variables of \<open>mutate\<close> as its last arguments. \<open>mounted\<close> is the
  instant at which a hook that fixes its time window in \<open>useMemo\<close> was mounted; a query function
  that reads the clock gets the instant of the fetch from \<open>q_request\<close>.
\<close>

section \<open>Configuration model (config/hooks.ts)\<close>

fun config_model_fn :: "api_result \<Rightarrow> failure + json option" where
  "config_model_fn Rejected = Inl NetworkError"
| "config_model_fn (Reply d e s) =
     (if s = 404 then Inr (Some JNull)
      else if otruthy e then Inl (Err ''en.errors.configModelLoad'') else Inr d)"

definition useConfigModel :: "string option \<Rightarrow> string option \<Rightarrow> query" where
  "useConfigModel activeId deviceId =
     mk_query [JStr ''config-model'', jopt activeId, jopt deviceId]
       (struthy activeId \<and> struthy deviceId)
       (api_call GET ''/api/tenants/{tenant_id}/devices/{device_id}/config/model''
          (td_params activeId deviceId) [] None)
       config_model_fn"

fun config_capabilities_fn :: "api_result \<Rightarrow> failure + json option" where
  "config_capabilities_fn Rejected = Inl NetworkError"
| "config_capabilities_fn (Reply d e s) =
     (if s = 404 then Inr (Some JNull)
      else if otruthy e then Inl (Err ''en.errors.configCapabilitiesLoad'')
      else Inr (if nullish d then Some JNull else d))"

definition useConfigCapabilities :: "string option \<Rightarrow> string option \<Rightarrow> query" where
  "useConfigCapabilities activeId deviceId =
     mk_query [JStr ''config-capabilities'', jopt activeId, jopt deviceId]
       (struthy activeId \<and> struthy deviceId)
       (api_call GET ''/api/tenants/{tenant_id}/devices/{device_id}/config/capabilities''
          (td_params activeId deviceId) [] None)
       config_capabilities_fn"

section \<open>Configuration changes (config/changeHooks.ts)\<close>

definition changes_listKey :: "string option \<Rightarrow> string option \<Rightarrow> json list" where
  "changes_listKey t d = [JStr ''config-changes'', jopt t, jopt d]"

definition useConfigChanges :: "string option \<Rightarrow> string option \<Rightarrow> query" where
  "useConfigChanges activeId deviceId =
     mk_query (changes_listKey activeId deviceId) (struthy activeId \<and> struthy deviceId)
       (api_call GET ''/api/tenants/{tenant_id}/devices/{device_id}/config/changes''
          (td_params activeId deviceId) [] None)
       (data_or_empty ''en.errors.configChangesLoad'')"

definition useCreateChange :: "string option \<Rightarrow> string \<Rightarrow> json \<Rightarrow> mutation" where
  "useCreateChange activeId deviceId body =
     mk_mutation
       (api_call POST ''/api/tenants/{tenant_id}/devices/{device_id}/config/changes''
          (td_params activeId (Some deviceId)) [] (Some body))
       (need_data ''en.errors.configChangeAction'')
       (invalidates (changes_listKey activeId (Some deviceId)))"

definition change_params :: "string option \<Rightarrow> string \<Rightarrow> string \<Rightarrow> json obj" where
  "change_params activeId deviceId changeId =
     td_params activeId (Some deviceId) @ [(''change_id'', JStr changeId)]"

definition useScheduleChange :: "string option \<Rightarrow> string \<Rightarrow> string \<Rightarrow> string option \<Rightarrow> mutation" where
  "useScheduleChange activeId deviceId changeId scheduled_at =
     mk_mutation
       (api_call POST ''/api/tenants/{tenant_id}/devices/{device_id}/config/changes/{change_id}/schedule''
          (change_params activeId deviceId changeId) []
          (Some (JObj [(''scheduled_at'', jopt scheduled_at)])))
       (need_data ''en.errors.configChangeAction'')
       (invalidates (changes_listKey activeId (Some deviceId)))"

definition useCancelChange :: "string option \<Rightarrow> string \<Rightarrow> string \<Rightarrow> mutation" where
  "useCancelChange activeId deviceId changeId =
     mk_mutation
       (api_call POST ''/api/tenants/{tenant_id}/devices/{device_id}/config/changes/{change_id}/cancel''
          (change_params activeId deviceId changeId) [] None)
       (need_data ''en.errors.configChangeAction'')
       (invalidates (changes_listKey activeId (Some deviceId)))"

definition useRevertChange :: "string option \<Rightarrow> string \<Rightarrow> string \<Rightarrow> mutation" where
  "useRevertChange activeId deviceId changeId =
     mk_mutation
       (api_call POST ''/api/tenants/{tenant_id}/devices/{device_id}/config/changes/{change_id}/revert''
          (change_params activeId deviceId changeId) [] (Some (JObj [])))
       (need_data ''en.errors.configChangeAction'')
       (invalidates (changes_listKey activeId (Some deviceId)))"

definition useDriftCheck :: "string option \<Rightarrow> string \<Rightarrow> query" where
  "useDriftCheck activeId deviceId =
     mk_query [JStr ''config-drift'', jopt activeId, JStr deviceId] False
       (api_call GET ''/api/tenants/{tenant_id}/devices/{device_id}/config/drift-check''
          (td_params activeId (Some deviceId)) [] None)
       (need_data ''en.errors.configChangeAction'')"

definition usePreviewChange :: "string option \<Rightarrow> string \<Rightarrow> string option \<Rightarrow> query" where
  "usePreviewChange activeId deviceId changeId =
     mk_query [JStr ''config-change-preview'', jopt activeId, JStr deviceId, jopt changeId]
       (struthy activeId \<and> struthy changeId)
       (api_call GET ''/api/tenants/{tenant_id}/devices/{device_id}/config/changes/{change_id}/preview''
          (td_params activeId (Some deviceId) @ [(''change_id'', jopt changeId)]) [] None)
       (any_data ''en.errors.configChangeAction'')"

section \<open>Catalog (catalog/catalogHooks.ts)\<close>

definition useDeviceCatalog :: "string option \<Rightarrow> string \<Rightarrow> query" where
  "useDeviceCatalog activeId deviceId =
     mk_query [JStr ''device-catalog'', jopt activeId, JStr deviceId]
       (struthy activeId \<and> deviceId \<noteq> [])
       (api_call GET ''/api/tenants/{tenant_id}/devices/{device_id}/catalog''
          (td_params activeId (Some deviceId)) [] None)
       (need_data ''t.catalog.loadFailed'')"

definition useCatalogModel :: "string option \<Rightarrow> string \<Rightarrow> string option \<Rightarrow> query" where
  "useCatalogModel activeId deviceId modelId =
     mk_query [JStr ''catalog-model'', jopt activeId, JStr deviceId, jopt modelId]
       (struthy activeId \<and> deviceId \<noteq> [] \<and> struthy modelId)
       (api_call GET ''/api/tenants/{tenant_id}/devices/{device_id}/catalog/models/{model_id}''
          (td_params activeId (Some deviceId) @ [(''model_id'', jopt modelId)]) [] None)
       (need_data ''t.catalog.loadFailed'')"

definition useCatalogDiff :: "string option \<Rightarrow> string \<Rightarrow> string option \<Rightarrow> query" where
  "useCatalogDiff activeId deviceId from =
     mk_query [JStr ''catalog-diff'', jopt activeId, JStr deviceId, jopt from]
       (struthy activeId \<and> deviceId \<noteq> [])
       (api_call GET ''/api/tenants/{tenant_id}/devices/{device_id}/catalog/diff''
          (td_params activeId (Some deviceId))
          (if struthy from then [(''from'', jopt from)] else []) None)
       (need_data ''t.catalog.loadFailed'')"

definition useConfigMap :: "string option \<Rightarrow> string \<Rightarrow> query" where
  "useConfigMap activeId deviceId =
     mk_query [JStr ''config-map'', jopt activeId, JStr deviceId]
       (struthy activeId \<and> deviceId \<noteq> [])
       (api_call GET ''/api/tenants/{tenant_id}/devices/{device_id}/config/map''
          (td_params activeId (Some deviceId)) [] None)
       (need_data ''t.catalog.loadFailed'')"

definition useProposeCatalogChange :: "string option \<Rightarrow> string \<Rightarrow> json \<Rightarrow> mutation" where
  "useProposeCatalogChange activeId deviceId body =
     mk_mutation
       (api_call POST ''/api/tenants/{tenant_id}/devices/{device_id}/catalog/changes''
          (td_params activeId (Some deviceId)) [] (Some body))
       (need_data ''t.catalog.proposeFailed'') no_ops"

section \<open>Firmware (firmware/hooks.ts)\<close>

definition TERMINAL :: "string set" where
  "TERMINAL = {''done'', ''failed''}"

definition firmware_key :: "string option \<Rightarrow> string \<Rightarrow> json list" where
  "firmware_key activeId deviceId = [JStr ''firmware-actions'', jopt activeId, JStr deviceId]"

definition useFirmwareActions :: "string option \<Rightarrow> string \<Rightarrow> query" where
  "useFirmwareActions activeId deviceId =
     mk_query (firmware_key activeId deviceId) (struthy activeId \<and> deviceId \<noteq> [])
       (api_call GET ''/api/tenants/{tenant_id}/devices/{device_id}/firmware/actions''
          (td_params activeId (Some deviceId)) [] None)
       (need_data ''firmware actions load failed'')"

text \<open>The polling interval of that query, from the statuses of the rows it holds (\<open>None\<close> before
  the first reply): milliseconds, or \<open>None\<close> for \<open>false\<close>.\<close>

definition firmware_refetchInterval :: "string list option \<Rightarrow> nat option" where
  "firmware_refetchInterval statuses =
     (if \<exists>s \<in> set (nullish_or statuses []). s \<notin> TERMINAL then Some 3000 else None)"

definition useFirmwareCheck :: "string option \<Rightarrow> string \<Rightarrow> mutation" where
  "useFirmwareCheck activeId deviceId =
     mk_mutation
       (api_call POST ''/api/tenants/{tenant_id}/devices/{device_id}/firmware/check''
          (td_params activeId (Some deviceId)) [] None)
       (need_data ''t.firmware.checkFailed'') no_ops"

definition useCreateFirmwareAction :: "string option \<Rightarrow> string \<Rightarrow> json \<Rightarrow> mutation" where
  "useCreateFirmwareAction activeId deviceId body =
     mk_mutation
       (api_call POST ''/api/tenants/{tenant_id}/devices/{device_id}/firmware/action''
          (td_params activeId (Some deviceId)) [] (Some body))
       (need_data ''t.firmware.actionFailed'')
       (invalidates (firmware_key activeId deviceId))"

section \<open>Plugins (plugins/pluginsHooks.ts)\<close>

definition useDevicePlugins :: "string option \<Rightarrow> string \<Rightarrow> query" where
  "useDevicePlugins activeId deviceId =
     mk_query [JStr ''device-plugins'', jopt activeId, JStr deviceId]
       (struthy activeId \<and> deviceId \<noteq> [])
       (api_call GET ''/api/tenants/{tenant_id}/devices/{device_id}/plugins''
          (td_params activeId (Some deviceId)) [] None)
       (need_data ''t.plugins.loadFailed'')"

fun plugin_models_fn :: "api_result \<Rightarrow> failure + json option" where
  "plugin_models_fn Rejected = Inl NetworkError"
| "plugin_models_fn (Reply d e s) = (if otruthy e \<or> \<not> otruthy d then Inr (Some (JArr [])) else Inr d)"

definition usePluginModels :: "string option \<Rightarrow> string \<Rightarrow> query" where
  "usePluginModels activeId deviceId =
     mk_query [JStr ''plugin-models'', jopt activeId, JStr deviceId]
       (struthy activeId \<and> deviceId \<noteq> [])
       (api_call GET ''/api/tenants/{tenant_id}/devices/{device_id}/plugin-models''
          (td_params activeId (Some deviceId)) [] None)
       plugin_models_fn"

section \<open>Monitoring (monitoring/hooks.ts)\<close>

definition useTenantHealth :: "string option \<Rightarrow> query" where
  "useTenantHealth activeId =
     mk_query [JStr ''health'', jopt activeId] (struthy activeId)
       (api_call GET ''/api/tenants/{tenant_id}/health'' (t_params activeId) [] None)
       (any_data ''en.errors.fleetHealthLoad'')"

definition useAlerts :: "string option \<Rightarrow> bool \<Rightarrow> query" where
  "useAlerts activeId active =
     mk_query [JStr ''alerts'', jopt activeId, JBool active] (struthy activeId)
       (api_call GET ''/api/tenants/{tenant_id}/alerts'' (t_params activeId)
          [(''active'', JBool active)] None)
       (data_or_empty ''en.errors.alertsLoad'')"

definition useDeviceMetrics :: "string option \<Rightarrow> string option \<Rightarrow> string \<Rightarrow> range \<Rightarrow> query" where
  "useDeviceMetrics activeId deviceId metric r =
     \<lparr>q_key = [JStr ''metrics'', jopt activeId, jopt deviceId, JStr metric, JStr (range_name r)],
      q_enabled = struthy activeId \<and> struthy deviceId,
      q_request = (\<lambda>now. let p = rangeToParams r now in
        api_call GET ''/api/tenants/{tenant_id}/devices/{device_id}/metrics''
          (td_params activeId deviceId)
          [(''metric'', JStr metric), (''from'', JStr (rp_from p)), (''to'', JStr (rp_to p)),
           (''bucket'', JNum (rp_bucket p))] None),
      q_fn = any_data ''en.errors.metricsLoad''\<rparr>"

fun metric_labels_fn :: "api_result \<Rightarrow> failure + json option" where
  "metric_labels_fn Rejected = Inl NetworkError"
| "metric_labels_fn (Reply d e s) =
     (if otruthy e then Inr (Some (JObj [])) else Inr (if nullish d then Some (JObj []) else d))"

definition useMetricLabels :: "string option \<Rightarrow> string option \<Rightarrow> query" where
  "useMetricLabels activeId deviceId =
     mk_query [JStr ''metric-labels'', jopt activeId, jopt deviceId]
       (struthy activeId \<and> struthy deviceId)
       (api_call GET ''/api/tenants/{tenant_id}/devices/{device_id}/metric-labels''
          (td_params activeId deviceId) [] None)
       metric_labels_fn"

section \<open>Service and configuration-audit events\<close>

text \<open>\<^verbatim>\<open>reliability/reliabilityHooks.ts\<close> and \<^verbatim>\<open>configaudit/configAuditHooks.ts\<close>. The two
  timelines read the same endpoint; they differ in the source they ask for and in the message.\<close>

definition PAGE_SIZE :: int where
  "PAGE_SIZE = 50"

fun event_page_fn :: "string \<Rightarrow> api_result \<Rightarrow> failure + json \<times> string option" where
  "event_page_fn msg Rejected = Inl NetworkError"
| "event_page_fn msg (Reply d e s) =
     (if otruthy e then Inl (Err msg)
      else Inr (or_empty (field d ''items''), str_field (field d ''next_cursor'')))"

definition event_page_request ::
  "string \<Rightarrow> string option \<Rightarrow> string \<Rightarrow> string option \<Rightarrow> request" where
  "event_page_request source activeId deviceId pageParam =
     api_call GET ''/api/tenants/{tenant_id}/events'' (t_params activeId)
       ([(''source'', JStr source), (''device_id'', JStr deviceId), (''limit'', JNum PAGE_SIZE)]
        @ (case pageParam of None \<Rightarrow> [] | Some c \<Rightarrow> [(''after'', JStr c)])) None"

definition useReliabilityEvents :: "string option \<Rightarrow> string \<Rightarrow> infinite_query" where
  "useReliabilityEvents activeId deviceId =
     \<lparr>iq_key = [JStr ''reliability-events'', jopt activeId, JStr deviceId],
      iq_enabled = struthy activeId \<and> deviceId \<noteq> [],
      iq_request = event_page_request ''service'' activeId deviceId,
      iq_fn = event_page_fn ''en.reliability.loadError'',
      iq_next = snd\<rparr>"

definition useReliabilitySummary :: "int \<Rightarrow> string option \<Rightarrow> query" where
  "useReliabilitySummary mounted activeId =
     (let frm = toISOString (mounted - DAY_MS) in
      mk_query [JStr ''reliability-summary'', jopt activeId, JStr frm] (struthy activeId)
        (api_call GET ''/api/tenants/{tenant_id}/events/top'' (t_params activeId)
           [(''source'', JStr ''service''), (''field'', JStr ''name''), (''from'', JStr frm),
            (''limit'', JNum 10)] None)
        (data_or_empty ''en.reliability.loadError''))"

definition isDirectChannel :: "string \<Rightarrow> bool" where
  "isDirectChannel action \<longleftrightarrow> action = ''gui'' \<or> action = ''system'' \<or> action = ''api_external''"

definition channelLabel :: "string \<Rightarrow> string obj \<Rightarrow> string" where
  "channelLabel action channels = nullish_or (obj_get channels action) action"

definition useConfigAuditEvents :: "string option \<Rightarrow> string \<Rightarrow> infinite_query" where
  "useConfigAuditEvents activeId deviceId =
     \<lparr>iq_key = [JStr ''config-audit-events'', jopt activeId, JStr deviceId],
      iq_enabled = struthy activeId \<and> deviceId \<noteq> [],
      iq_request = event_page_request ''config_audit'' activeId deviceId,
      iq_fn = event_page_fn ''en.configAudit.loadError'',
      iq_next = snd\<rparr>"

definition useConfigAuditSummary :: "int \<Rightarrow> string option \<Rightarrow> query" where
  "useConfigAuditSummary mounted activeId =
     (let frm = toISOString (mounted - DAY_MS) in
      mk_query [JStr ''config-audit-summary'', jopt activeId, JStr frm] (struthy activeId)
        (api_call GET ''/api/tenants/{tenant_id}/events/top'' (t_params activeId)
           [(''source'', JStr ''config_audit''), (''field'', JStr ''action''), (''from'', JStr frm),
            (''limit'', JNum 10)] None)
        (data_or_empty ''en.configAudit.loadError''))"

section \<open>Log forwarding and log search (logs)\<close>

definition log_forwarding_key :: "string option \<Rightarrow> string \<Rightarrow> json list" where
  "log_forwarding_key activeId deviceId = [JStr ''log-forwarding'', jopt activeId, JStr deviceId]"

definition useLogForwardingStatus :: "string option \<Rightarrow> string \<Rightarrow> query" where
  "useLogForwardingStatus activeId deviceId =
     mk_query (log_forwarding_key activeId deviceId) (struthy activeId \<and> deviceId \<noteq> [])
       (api_call GET ''/api/tenants/{tenant_id}/devices/{device_id}/log-forwarding''
          (td_params activeId (Some deviceId)) [] None)
       (need_data ''status failed'')"

definition useEnableLogForwarding :: "string option \<Rightarrow> string \<Rightarrow> mutation" where
  "useEnableLogForwarding activeId deviceId =
     mk_mutation
       (api_call POST ''/api/tenants/{tenant_id}/devices/{device_id}/log-forwarding/enable''
          (td_params activeId (Some deviceId)) [] None)
       (need_data ''enable failed'') (invalidates (log_forwarding_key activeId deviceId))"

definition useDisableLogForwarding :: "string option \<Rightarrow> string \<Rightarrow> mutation" where
  "useDisableLogForwarding activeId deviceId =
     mk_mutation
       (api_call POST ''/api/tenants/{tenant_id}/devices/{device_id}/log-forwarding/disable''
          (td_params activeId (Some deviceId)) [] None)
       (need_data ''disable failed'') (invalidates (log_forwarding_key activeId deviceId))"

definition useRotateLogForwarding :: "string option \<Rightarrow> string \<Rightarrow> mutation" where
  "useRotateLogForwarding activeId deviceId =
     mk_mutation
       (api_call POST ''/api/tenants/{tenant_id}/devices/{device_id}/log-forwarding/rotate''
          (td_params activeId (Some deviceId)) [] None)
       (need_data ''rotate failed'') (invalidates (log_forwarding_key activeId deviceId))"

definition useRevokeLogForwarding :: "string option \<Rightarrow> string \<Rightarrow> string option \<Rightarrow> mutation" where
  "useRevokeLogForwarding activeId deviceId reason =
     mk_mutation
       (api_call POST ''/api/tenants/{tenant_id}/devices/{device_id}/log-forwarding/revoke''
          (td_params activeId (Some deviceId)) [] (Some (JObj [(''reason'', jopt reason)])))
       (need_data ''revoke failed'') (invalidates (log_forwarding_key activeId deviceId))"

definition useLogSearch :: "string option \<Rightarrow> json \<Rightarrow> mutation" where
  "useLogSearch activeId body =
     mk_mutation
       (api_call POST ''/api/tenants/{tenant_id}/logs/search'' (t_params activeId) [] (Some body))
       (need_data ''Log search failed'') no_ops"

section \<open>The device list and the device page\<close>

definition devices_key :: "string option \<Rightarrow> json list" where
  "devices_key tenantId = [JStr ''devices'', jopt tenantId]"

definition device_key :: "string option \<Rightarrow> string option \<Rightarrow> json list" where
  "device_key tenantId deviceId = [JStr ''device'', jopt tenantId, jopt deviceId]"

definition DevicesPage_query :: "string option \<Rightarrow> query" where
  "DevicesPage_query activeId =
     mk_query (devices_key activeId) (struthy activeId)
       (api_call GET ''/api/tenants/{tenant_id}/devices'' (t_params activeId) [] None)
       unchecked_or_empty"

definition DeviceDetailPage_query :: "string option \<Rightarrow> string option \<Rightarrow> query" where
  "DeviceDetailPage_query activeId deviceId =
     mk_query (device_key activeId deviceId) (struthy activeId \<and> struthy deviceId)
       (api_call GET ''/api/tenants/{tenant_id}/devices/{device_id}''
          (td_params activeId deviceId) [] None)
       unchecked_data"

definition DeviceActions_test :: "string \<Rightarrow> string \<Rightarrow> mutation" where
  "DeviceActions_test tenantId deviceId =
     mk_mutation
       (api_call POST ''/api/tenants/{tenant_id}/devices/{device_id}/test-connection''
          (td_params (Some tenantId) (Some deviceId)) [] None)
       (need_data ''test failed'')
       (\<lambda>_. [Invalidate (device_key (Some tenantId) (Some deviceId)),
             Invalidate (devices_key (Some tenantId))])"

definition DeviceActions_remove :: "string \<Rightarrow> string \<Rightarrow> mutation" where
  "DeviceActions_remove tenantId deviceId =
     mk_mutation
       (api_call DELETE ''/api/tenants/{tenant_id}/devices/{device_id}''
          (td_params (Some tenantId) (Some deviceId)) [] None)
       (no_data ''delete failed'')
       (\<lambda>_. [Invalidate (devices_key (Some tenantId)), Goto ''/devices''])"

record device_form =
  df_name :: string
  df_base_url :: string
  df_api_key :: string
  df_api_secret :: string
  df_verify_tls :: bool
  df_tls_fingerprint :: string

definition device_form_initial :: device_form where
  "device_form_initial =
     \<lparr>df_name = [], df_base_url = [], df_api_key = [], df_api_secret = [], df_verify_tls = True,
      df_tls_fingerprint = []\<rparr>"

definition create_body :: "device_form \<Rightarrow> json" where
  "create_body v =
     (let rest = [(''name'', JStr (df_name v)), (''base_url'', JStr (df_base_url v)),
                  (''api_key'', JStr (df_api_key v)), (''api_secret'', JStr (df_api_secret v)),
                  (''verify_tls'', JBool (df_verify_tls v))];
          fingerprint = (if df_verify_tls v then [] else js_trim (df_tls_fingerprint v))
      in JObj (if fingerprint \<noteq> [] then obj_set ''tls_fingerprint'' (JStr fingerprint) rest else rest))"

definition DeviceCreateModal_mutation :: "string \<Rightarrow> device_form \<Rightarrow> mutation" where
  "DeviceCreateModal_mutation tenantId v =
     mk_mutation
       (api_call POST ''/api/tenants/{tenant_id}/devices'' (t_params (Some tenantId)) []
          (Some (create_body v)))
       (any_data ''create failed'') (invalidates (devices_key (Some tenantId)))"

end
