(* ===== verification/HooksTenant.thy ===== *)
theory HooksTenant
  imports HooksDevice
begin

text \<open>
  The hooks of a tenant's pages: reports, report schedules and settings, retention, perimeter attackers
  and attacker countries, template overrides, previews and applications, profiles, and the
  introspection hooks of the template forms.

  Two groups of mutations call \<open>fetch\<close> directly because they move binary data; they set the
  CSRF header themselves, so their request is built from the cookie (\<open>None\<close> when its value does
  not decode) and does not pass through the middleware. \<open>base\<close> is \<open>VITE_API_BASE ?? ""\<close>.
\<close>

section \<open>Reports (reports/reportHooks.ts)\<close>

definition generatedReportsKey :: "string option \<Rightarrow> json list" where
  "generatedReportsKey tenantId = [JStr ''generated-reports'', jopt tenantId]"

definition useGeneratedReports :: "string option \<Rightarrow> query" where
  "useGeneratedReports activeId =
     mk_query (generatedReportsKey activeId) (struthy activeId)
       (api_call GET ''/api/tenants/{tenant_id}/reports'' (t_params activeId) [] None)
       (data_or_empty ''en.errors.reportsLoad'')"

text \<open>A template literal prints \<open>null\<close> for a missing tenant. The outcome of \<open>fetch\<close> is
  \<open>res.ok\<close>, the status in 200..299.\<close>

definition in_template :: "string option \<Rightarrow> string" where
  "in_template v = nullish_or v ''null''"

fun fetch_fn :: "string \<Rightarrow> api_result \<Rightarrow> failure + json option" where
  "fetch_fn msg Rejected = Inl NetworkError"
| "fetch_fn msg (Reply d e s) = (if \<not> http_ok s then Inl (Err msg) else Inr None)"

definition useGenerateReport ::
  "(string \<Rightarrow> string option) \<Rightarrow> string \<Rightarrow> string \<Rightarrow> string option \<Rightarrow> string \<Rightarrow> string \<Rightarrow> mutation option" where
  "useGenerateReport decode cookie base activeId from to =
     map_option (\<lambda>tok. mk_mutation
       \<lparr>rq_method = POST, rq_path = base @ ''/api/tenants/'' @ in_template activeId @ ''/reports'',
        rq_params = [], rq_query = [],
        rq_body = Some (JObj [(''from'', JStr from), (''to'', JStr to)]),
        rq_headers = [(''X-OPNGMS-CSRF'', tok), (''Content-Type'', ''application/json'')]\<rparr>
       (fetch_fn ''en.errors.reportGenerate'')
       (\<lambda>_. [Download ''report.pdf'', Invalidate (generatedReportsKey activeId)]))
     (csrfToken decode cookie)"

definition useDownloadReport :: "string \<Rightarrow> string option \<Rightarrow> string \<Rightarrow> mutation" where
  "useDownloadReport base activeId reportId =
     mk_mutation
       \<lparr>rq_method = GET,
        rq_path = base @ ''/api/tenants/'' @ in_template activeId @ ''/reports/'' @ reportId @ ''/download'',
        rq_params = [], rq_query = [], rq_body = None, rq_headers = []\<rparr>
       (fetch_fn ''en.errors.reportsLoad'')
       (\<lambda>_. [Download (''report-'' @ reportId @ ''.pdf'')])"

section \<open>Report schedules (reports/scheduleHooks.ts)\<close>

definition schedules_key :: "string option \<Rightarrow> json list" where
  "schedules_key tid = [JStr ''report-schedules'', jopt tid]"

definition useReportSchedules :: "string option \<Rightarrow> query" where
  "useReportSchedules activeId =
     mk_query (schedules_key activeId) (struthy activeId)
       (api_call GET ''/api/tenants/{tenant_id}/report-schedules'' (t_params activeId) [] None)
       (need_data ''Failed to load schedules'')"

definition useUpsertReportSchedule :: "string option \<Rightarrow> json \<Rightarrow> mutation" where
  "useUpsertReportSchedule activeId body =
     mk_mutation
       (api_call PUT ''/api/tenants/{tenant_id}/report-schedules'' (t_params activeId) [] (Some body))
       (need_data ''Failed to save schedule'') (invalidates (schedules_key activeId))"

definition schedule_params :: "string option \<Rightarrow> string \<Rightarrow> json obj" where
  "schedule_params activeId scheduleId = t_params activeId @ [(''schedule_id'', JStr scheduleId)]"

definition useDeleteReportSchedule :: "string option \<Rightarrow> string \<Rightarrow> mutation" where
  "useDeleteReportSchedule activeId scheduleId =
     mk_mutation
       (api_call DELETE ''/api/tenants/{tenant_id}/report-schedules/{schedule_id}''
          (schedule_params activeId scheduleId) [] None)
       (no_data ''Failed to delete schedule'') (invalidates (schedules_key activeId))"

definition useSendScheduleNow :: "string option \<Rightarrow> string \<Rightarrow> mutation" where
  "useSendScheduleNow activeId scheduleId =
     mk_mutation
       (api_call POST ''/api/tenants/{tenant_id}/report-schedules/{schedule_id}/send-now''
          (schedule_params activeId scheduleId) [] None)
       (no_data ''Failed to send now'') no_ops"

section \<open>Report settings (reports/settingsHooks.ts)\<close>

definition settingsKey :: "string option \<Rightarrow> json list" where
  "settingsKey tenantId = [JStr ''report-settings'', jopt tenantId]"

definition languagesKey :: "string option \<Rightarrow> json list" where
  "languagesKey tenantId = [JStr ''report-languages'', jopt tenantId]"

definition useReportSettings :: "string option \<Rightarrow> query" where
  "useReportSettings activeId =
     mk_query (settingsKey activeId) (struthy activeId)
       (api_call GET ''/api/tenants/{tenant_id}/reports/settings'' (t_params activeId) [] None)
       (any_data ''en.errors.reportSettingsLoad'')"

definition useReportLanguages :: "string option \<Rightarrow> query" where
  "useReportLanguages activeId =
     mk_query (languagesKey activeId) (struthy activeId)
       (api_call GET ''/api/tenants/{tenant_id}/reports/languages'' (t_params activeId) [] None)
       (any_data ''en.errors.reportSettingsLoad'')"

definition useUpdateReportSettings :: "string option \<Rightarrow> json \<Rightarrow> mutation" where
  "useUpdateReportSettings activeId body =
     mk_mutation
       (api_call PUT ''/api/tenants/{tenant_id}/reports/settings'' (t_params activeId) [] (Some body))
       (need_data ''en.errors.reportSettingsAction'') (invalidates (settingsKey activeId))"

text \<open>The multipart body is represented by its one field.\<close>

definition useUploadLogo ::
  "(string \<Rightarrow> string option) \<Rightarrow> string \<Rightarrow> string \<Rightarrow> string option \<Rightarrow> json \<Rightarrow> mutation option" where
  "useUploadLogo decode cookie base activeId logo =
     map_option (\<lambda>tok. mk_mutation
       \<lparr>rq_method = PUT,
        rq_path = base @ ''/api/tenants/'' @ in_template activeId @ ''/reports/settings/logo'',
        rq_params = [], rq_query = [], rq_body = Some (JObj [(''file'', logo)]),
        rq_headers = [(''X-OPNGMS-CSRF'', tok)]\<rparr>
       (fetch_fn ''en.errors.reportSettingsAction'') (invalidates (settingsKey activeId)))
     (csrfToken decode cookie)"

definition useDeleteLogo :: "string option \<Rightarrow> mutation" where
  "useDeleteLogo activeId =
     mk_mutation
       (api_call DELETE ''/api/tenants/{tenant_id}/reports/settings/logo'' (t_params activeId) [] None)
       (no_data ''en.errors.reportSettingsAction'') (invalidates (settingsKey activeId))"

section \<open>Retention (retention/retentionHooks.ts)\<close>

definition retentionKey :: "string option \<Rightarrow> json list" where
  "retentionKey tenantId = [JStr ''retention'', jopt tenantId]"

definition useRetention :: "string option \<Rightarrow> query" where
  "useRetention activeId =
     mk_query (retentionKey activeId) (struthy activeId)
       (api_call GET ''/api/tenants/{tenant_id}/retention'' (t_params activeId) [] None)
       (any_data ''en.errors.retentionLoad'')"

definition useUpdateRetention :: "string option \<Rightarrow> json \<Rightarrow> mutation" where
  "useUpdateRetention activeId vals =
     mk_mutation
       (api_call PUT ''/api/tenants/{tenant_id}/retention'' (t_params activeId) []
          (Some (JObj [(''values'', vals)])))
       (need_data ''en.errors.retentionSave'') (invalidates (retentionKey activeId))"

section \<open>Perimeter attackers and attacker countries\<close>

datatype perimeter_kind = LoginFailed | FirewallBlock

fun kind_name :: "perimeter_kind \<Rightarrow> string" where
  "kind_name LoginFailed = ''login_failed''"
| "kind_name FirewallBlock = ''firewall_block''"

definition usePerimeterAttackers ::
  "int \<Rightarrow> string option \<Rightarrow> perimeter_kind \<Rightarrow> int option \<Rightarrow> int option \<Rightarrow> query" where
  "usePerimeterAttackers mounted activeId kind windowDays lim =
     (let (frm, to) = rangeFrom mounted (nullish_or windowDays 7); limit = nullish_or lim 5 in
      mk_query [JStr ''perimeter-attackers'', jopt activeId, JStr (kind_name kind), JStr frm, JStr to,
                JNum limit] (struthy activeId)
        (api_call GET ''/api/tenants/{tenant_id}/perimeter/attackers'' (t_params activeId)
           [(''kind'', JStr (kind_name kind)), (''frm'', JStr frm), (''to'', JStr to),
            (''limit'', JNum limit)] None)
        (data_or_empty ''en.errors.perimeterLoad''))"

definition useAttackerCountries ::
  "int \<Rightarrow> string option \<Rightarrow> string option \<Rightarrow> string option \<Rightarrow> query" where
  "useAttackerCountries mounted activeId opt_frm opt_to =
     (let (rfrm, rto) = defaultRange mounted; frm = nullish_or opt_frm rfrm; to = nullish_or opt_to rto in
      mk_query [JStr ''attacker-countries'', jopt activeId, JStr frm, JStr to] (struthy activeId)
        (api_call GET ''/api/tenants/{tenant_id}/attacker-countries'' (t_params activeId)
           [(''frm'', JStr frm), (''to'', JStr to)] None)
        (data_or_empty ''en.errors.attackerCountriesLoad''))"

section \<open>Introspection for the template forms (templates/settingHooks.ts)\<close>

definition useSettingEndpoints :: query where
  "useSettingEndpoints =
     mk_query [JStr ''setting-endpoints''] True
       (api_call GET ''/api/opnsense/setting-endpoints'' [] [] None)
       (need_data ''setting endpoints load failed'')"

definition useTenantDevices :: "string option \<Rightarrow> query" where
  "useTenantDevices activeId =
     mk_query (devices_key activeId) (struthy activeId)
       (api_call GET ''/api/tenants/{tenant_id}/devices'' (t_params activeId) [] None)
       (need_data ''devices load failed'')"

definition useIdsRulesets :: "string option \<Rightarrow> string \<Rightarrow> mutation" where
  "useIdsRulesets activeId deviceId =
     mk_mutation
       (api_call GET ''/api/tenants/{tenant_id}/devices/{device_id}/opnsense/ids/rulesets''
          (td_params activeId (Some deviceId)) [] None)
       (need_data ''t.templates.ids.loadFailed'') no_ops"

definition useFirewallRuleModel :: "string option \<Rightarrow> string \<Rightarrow> mutation" where
  "useFirewallRuleModel activeId deviceId =
     mk_mutation
       (api_call GET ''/api/tenants/{tenant_id}/devices/{device_id}/opnsense/firewall/rule-model''
          (td_params activeId (Some deviceId)) [] None)
       (need_data ''t.templates.fw.loadFailed'') no_ops"

definition useMonitTestModel :: "string option \<Rightarrow> string \<Rightarrow> mutation" where
  "useMonitTestModel activeId deviceId =
     mk_mutation
       (api_call GET ''/api/tenants/{tenant_id}/devices/{device_id}/opnsense/monit/test-model''
          (td_params activeId (Some deviceId)) [] None)
       (need_data ''t.templates.monit.loadFailed'') no_ops"

definition useIntrospectSetting :: "string option \<Rightarrow> string \<Rightarrow> string \<Rightarrow> mutation" where
  "useIntrospectSetting activeId deviceId endpointKey =
     mk_mutation
       (api_call GET ''/api/tenants/{tenant_id}/devices/{device_id}/opnsense/settings/{endpoint_key}''
          (td_params activeId (Some deviceId) @ [(''endpoint_key'', JStr endpointKey)]) [] None)
       (need_data ''t.templates.setting.loadFailed'') no_ops"

section \<open>Applying templates (templates/applyHooks.ts)\<close>

definition useUpsertOverride :: "string option \<Rightarrow> string \<Rightarrow> json \<Rightarrow> mutation" where
  "useUpsertOverride activeId templateId body_patch =
     mk_mutation
       (api_call PUT ''/api/tenants/{tenant_id}/templates/{template_id}/override''
          (t_params activeId @ [(''template_id'', JStr templateId)]) []
          (Some (JObj [(''body_patch'', body_patch)])))
       (need_data ''t.templates.apply.failed'') no_ops"

definition template_params :: "string option \<Rightarrow> string \<Rightarrow> string \<Rightarrow> json obj" where
  "template_params activeId deviceId templateId =
     td_params activeId (Some deviceId) @ [(''template_id'', JStr templateId)]"

definition usePreviewTemplate :: "string option \<Rightarrow> string \<Rightarrow> string \<Rightarrow> json \<Rightarrow> mutation" where
  "usePreviewTemplate activeId deviceId templateId bindings =
     mk_mutation
       (api_call POST ''/api/tenants/{tenant_id}/devices/{device_id}/templates/{template_id}/preview''
          (template_params activeId deviceId templateId) []
          (Some (JObj [(''bindings'', bindings)])))
       (need_data ''t.templates.apply.failed'') no_ops"

definition useApplyTemplate ::
  "string option \<Rightarrow> string \<Rightarrow> string \<Rightarrow> string option \<Rightarrow> json \<Rightarrow> mutation" where
  "useApplyTemplate activeId deviceId templateId scheduled_at bindings =
     mk_mutation
       (api_call POST ''/api/tenants/{tenant_id}/devices/{device_id}/templates/{template_id}/apply''
          (template_params activeId deviceId templateId) []
          (Some (JObj [(''scheduled_at'', jopt scheduled_at), (''bindings'', bindings)])))
       (need_data ''t.templates.apply.failed'')
       (invalidates [JStr ''config-changes'', jopt activeId, JStr deviceId])"

section \<open>Profiles (profiles/hooks.ts)\<close>

definition profiles_key :: "json list" where
  "profiles_key = [JStr ''profiles'']"

definition useProfiles :: query where
  "useProfiles = mk_query profiles_key True (api_call GET ''/api/profiles'' [] [] None)
     (need_data ''profiles load failed'')"

definition useCreateProfile :: "json \<Rightarrow> mutation" where
  "useCreateProfile body =
     mk_mutation (api_call POST ''/api/profiles'' [] [] (Some body))
       (need_data ''t.templates.profiles.saveFailed'') (invalidates profiles_key)"

definition useUpdateProfile :: "string \<Rightarrow> json \<Rightarrow> mutation" where
  "useUpdateProfile profileId body =
     mk_mutation
       (api_call PUT ''/api/profiles/{profile_id}'' [(''profile_id'', JStr profileId)] [] (Some body))
       (need_data ''t.templates.profiles.saveFailed'') (invalidates profiles_key)"

definition useDeleteProfile :: "string \<Rightarrow> mutation" where
  "useDeleteProfile profileId =
     mk_mutation
       (api_call DELETE ''/api/profiles/{profile_id}'' [(''profile_id'', JStr profileId)] [] None)
       (no_data ''t.templates.profiles.saveFailed'') (invalidates profiles_key)"

definition profile_params :: "string option \<Rightarrow> string \<Rightarrow> string \<Rightarrow> json obj" where
  "profile_params activeId deviceId profileId =
     td_params activeId (Some deviceId) @ [(''profile_id'', JStr profileId)]"

definition usePreviewProfile :: "string option \<Rightarrow> string \<Rightarrow> string \<Rightarrow> json \<Rightarrow> mutation" where
  "usePreviewProfile activeId deviceId profileId bindings =
     mk_mutation
       (api_call POST ''/api/tenants/{tenant_id}/devices/{device_id}/profiles/{profile_id}/preview''
          (profile_params activeId deviceId profileId) []
          (Some (JObj [(''bindings'', bindings)])))
       (need_data ''t.templates.profiles.apply.failed'') no_ops"

definition useApplyProfile ::
  "string option \<Rightarrow> string \<Rightarrow> string \<Rightarrow> string option \<Rightarrow> json \<Rightarrow> mutation" where
  "useApplyProfile activeId deviceId profileId scheduled_at bindings =
     mk_mutation
       (api_call POST ''/api/tenants/{tenant_id}/devices/{device_id}/profiles/{profile_id}/apply''
          (profile_params activeId deviceId profileId) []
          (Some (JObj [(''scheduled_at'', jopt scheduled_at), (''bindings'', bindings)])))
       (need_data ''t.templates.profiles.apply.failed'')
       (invalidates [JStr ''config-changes'', jopt activeId, JStr deviceId])"

end
