(* ===== verification/WebAuthn.thy ===== *)
theory WebAuthn
  imports Api "HOL-Library.Word"
begin

text \<open>
  The browser side of passkeys (\<^verbatim>\<open>security/webauthnClient.ts\<close>): base64url in both directions,
  the options handed to the authenticator and the credential sent back. Bytes are 8-bit words. \<open>btoa\<close>
  and \<open>atob\<close> are the platform's functions on binary strings; the authenticator itself
  (\<open>navigator.credentials\<close>) is an argument that either fails, returns \<open>null\<close> (\<open>Inr None\<close>) or
  returns a credential.
\<close>

type_synonym bytes = "8 word list"

section \<open>Base 64\<close>

definition b64_alphabet :: string where
  "b64_alphabet = ''ABCDEFGHIJKLMNOPQRSTUVWXYZabcdefghijklmnopqrstuvwxyz0123456789+/''"

text \<open>Three bytes are four groups of six bits; a rest of one or two bytes is padded with zero bits.\<close>

fun enc6 :: "nat list \<Rightarrow> nat list" where
  "enc6 (a # b # c # r) = (a div 4) # (a mod 4 * 16 + b div 16) # (b mod 16 * 4 + c div 64) # (c mod 64) # enc6 r"
| "enc6 [a, b] = [a div 4, a mod 4 * 16 + b div 16, b mod 16 * 4]"
| "enc6 [a] = [a div 4, a mod 4 * 16]"
| "enc6 [] = []"

fun dec6 :: "nat list \<Rightarrow> nat list" where
  "dec6 (p # q # r # s # t) = (p * 4 + q div 16) # (q mod 16 * 16 + r div 4) # (r mod 4 * 64 + s) # dec6 t"
| "dec6 [p, q, r] = [p * 4 + q div 16, q mod 16 * 16 + r div 4]"
| "dec6 [p, q] = [p * 4 + q div 16]"
| "dec6 _ = []"

definition btoa :: "string \<Rightarrow> string" where
  "btoa s = map (\<lambda>n. b64_alphabet ! n) (enc6 (map of_char s))
          @ (case length s mod 3 of 0 \<Rightarrow> [] | Suc 0 \<Rightarrow> ''=='' | _ \<Rightarrow> ''='')"

text \<open>Decoding as the platform specifies it: drop white space, drop up to two padding signs when the
  length is a multiple of four, fail on a rest of one or on a character outside the alphabet.\<close>

definition ascii_ws :: "char \<Rightarrow> bool" where
  "ascii_ws c \<longleftrightarrow> (of_char c :: nat) \<in> {9, 10, 12, 13, 32}"

definition drop_pad :: "string \<Rightarrow> string" where
  "drop_pad s =
     (if s \<noteq> [] \<and> last s = CHR ''='' then
        (if butlast s \<noteq> [] \<and> last (butlast s) = CHR ''='' then butlast (butlast s) else butlast s)
      else s)"

fun sextets :: "string \<Rightarrow> nat list option" where
  "sextets [] = Some []"
| "sextets (c # cs) =
     (case index_of b64_alphabet c of None \<Rightarrow> None | Some n \<Rightarrow> map_option (Cons n) (sextets cs))"

definition atob :: "string \<Rightarrow> string option" where
  "atob s =
     (let u = filter (\<lambda>c. \<not> ascii_ws c) s;
          v = (if length u mod 4 = 0 then drop_pad u else u)
      in if length v mod 4 = 1 then None
         else map_option (\<lambda>ns. map char_of (dec6 ns)) (sextets v))"

section \<open>Base 64 in URLs\<close>

definition base64urlToBytes :: "string \<Rightarrow> bytes option" where
  "base64urlToBytes v =
     (let padded = map (\<lambda>c. if c = CHR ''_'' then CHR ''/'' else c)
                     (map (\<lambda>c. if c = CHR ''-'' then CHR ''+'' else c) v);
          pad = (if length padded mod 4 = 0 then []
                 else replicate (4 - length padded mod 4) CHR ''='')
      in map_option (map (\<lambda>c. word_of_nat (of_char c))) (atob (padded @ pad)))"

definition strip_pad :: "string \<Rightarrow> string" where
  "strip_pad s = rev (dropWhile (\<lambda>c. c = CHR ''='') (rev s))"

definition bytesToBase64url :: "bytes \<Rightarrow> string" where
  "bytesToBase64url b =
     strip_pad (map (\<lambda>c. if c = CHR ''/'' then CHR ''_'' else c)
       (map (\<lambda>c. if c = CHR ''+'' then CHR ''-'' else c) (btoa (map (\<lambda>w. char_of (unat w)) b))))"

subsection \<open>Round trip\<close>

lemma enc6_bound: "\<forall>n \<in> set ns. n < 256 \<Longrightarrow> \<forall>n \<in> set (enc6 ns). n < 64"
  by (induction ns rule: enc6.induct) auto

lemma group_ends: "a < 256 \<Longrightarrow> b < 256 \<Longrightarrow> (a::nat) div 4 * 4 + (a mod 4 * 16 + b div 16) div 16 = a"
  by simp

lemma group_middle:
  "b < 256 \<Longrightarrow> c < 256 \<Longrightarrow> ((a::nat) mod 4 * 16 + b div 16) mod 16 * 16 + (b mod 16 * 4 + c div 64) div 4 = b"
proof -
  assume "b < 256" "c < 256"
  then have "b div 16 < 16" "c div 64 < 4" by simp_all
  then have "(a mod 4 * 16 + b div 16) mod 16 = b div 16" "(b mod 16 * 4 + c div 64) div 4 = b mod 16"
    by simp_all
  then show ?thesis by simp
qed

lemma group_last: "c < 256 \<Longrightarrow> ((b::nat) mod 16 * 4 + c div 64) mod 4 * 64 + c mod 64 = c"
proof -
  assume "c < 256"
  then have "(b mod 16 * 4 + c div 64) mod 4 = c div 64" by simp
  then show ?thesis by simp
qed

lemma dec6_enc6: "\<forall>n \<in> set ns. n < 256 \<Longrightarrow> dec6 (enc6 ns) = ns"
proof (induction ns rule: enc6.induct)
  case (1 a b c r)
  then have "a < 256" "b < 256" "c < 256" "dec6 (enc6 r) = r" by simp_all
  then show ?case
    by (simp only: enc6.simps dec6.simps list.inject group_ends group_middle group_last simp_thms)
next
  case (2 a b)
  then show ?case using group_ends [of a b] group_middle [of b 0 a] by simp
next
  case (3 a)
  then show ?case using group_ends [of a 0] by simp
qed simp

lemma enc6_length:
  "length (enc6 ns) mod 4 = (case length ns mod 3 of 0 \<Rightarrow> 0 | Suc 0 \<Rightarrow> 2 | _ \<Rightarrow> 3)"
proof (induction ns rule: enc6.induct)
  case (1 a b c r)
  have "length (enc6 (a # b # c # r)) mod 4 = length (enc6 r) mod 4" by simp
  moreover have "length (a # b # c # r) mod 3 = length r mod 3" by simp
  ultimately show ?case using 1 by (simp only:)
qed (simp_all add: numeral_2_eq_2)

lemma alphabet_distinct: "distinct b64_alphabet"
  by (simp add: b64_alphabet_def)

lemma alphabet_length: "length b64_alphabet = 64"
  by (simp add: b64_alphabet_def)

lemma alphabet_chars:
  "set b64_alphabet \<inter> {CHR ''='', CHR ''-'', CHR ''_''} = {}" "\<forall>c \<in> set b64_alphabet. \<not> ascii_ws c"
  by (simp_all add: b64_alphabet_def ascii_ws_def)

lemma index_of_nth: "distinct xs \<Longrightarrow> i < length xs \<Longrightarrow> index_of xs (xs ! i) = Some i"
proof -
  assume d: "distinct xs" and i: "i < length xs"
  then obtain j where j: "index_of xs (xs ! i) = Some j"
    using index_of_None [of xs "xs ! i"] by auto
  from index_of_Some [OF this] have "j < length xs" "xs ! j = xs ! i" by simp_all
  then show ?thesis using j d i by (simp add: nth_eq_iff_index_eq)
qed

lemma sextets_alphabet: "\<forall>n \<in> set ns. n < 64 \<Longrightarrow> sextets (map (\<lambda>n. b64_alphabet ! n) ns) = Some ns"
  by (induction ns) (auto simp: index_of_nth alphabet_distinct alphabet_length)

lemma strip_pad_clean: "\<forall>c \<in> set s. c \<noteq> CHR ''='' \<Longrightarrow> \<forall>c \<in> set e. c = CHR ''='' \<Longrightarrow> strip_pad (s @ e) = s"
proof -
  assume s: "\<forall>c \<in> set s. c \<noteq> CHR ''=''" and e: "\<forall>c \<in> set e. c = CHR ''=''"
  have "dropWhile (\<lambda>c. c = CHR ''='') (rev e @ rev s) = dropWhile (\<lambda>c. c = CHR ''='') (rev s)"
    by (rule dropWhile_append2) (use e in auto)
  also have "\<dots> = rev s" using s by (cases "rev s") (auto simp: dropWhile_eq_self_iff)
  finally show ?thesis by (simp add: strip_pad_def)
qed

definition url_char :: "char \<Rightarrow> char" where
  "url_char c = (if c = CHR ''+'' then CHR ''-'' else if c = CHR ''/'' then CHR ''_'' else c)"

definition unurl_char :: "char \<Rightarrow> char" where
  "unurl_char c = (if c = CHR ''-'' then CHR ''+'' else if c = CHR ''_'' then CHR ''/'' else c)"

lemma unurl_url: "c \<in> set b64_alphabet \<Longrightarrow> unurl_char (url_char c) = c"
  using alphabet_chars(1) by (auto simp: url_char_def unurl_char_def)

lemma byte_less: "unat (w :: 8 word) < 256"
  using unsigned_less [of w, where ?'a = nat] by simp

lemma encode_url:
  "bytesToBase64url b = map url_char (map (\<lambda>n. b64_alphabet ! n) (enc6 (map unat b)))"
proof -
  let ?codes = "map (of_char :: char \<Rightarrow> nat) (map (\<lambda>w. char_of (unat w)) b)"
  let ?e = "case length b mod 3 of 0 \<Rightarrow> [] | Suc 0 \<Rightarrow> ''=='' | _ \<Rightarrow> ''=''"
  note lt = byte_less
  have codes: "?codes = map unat b" using lt by (simp add: comp_def)
  have bound: "\<forall>n \<in> set (enc6 (map unat b)). n < 64" using lt by (intro enc6_bound) auto
  then have in_alpha: "set (map (\<lambda>n. b64_alphabet ! n) (enc6 (map unat b))) \<subseteq> set b64_alphabet"
    by (auto simp: alphabet_length)
  have fuse: "map (\<lambda>c. if c = CHR ''/'' then CHR ''_'' else c)
      (map (\<lambda>c. if c = CHR ''+'' then CHR ''-'' else c) s) = map url_char s" for s
    by (auto simp: url_char_def)
  have pad: "\<forall>c \<in> set (map url_char ?e). c = CHR ''=''" 
    by (cases "length b mod 3"; cases "length b mod 3 - 1") (auto simp: url_char_def)
  have clean: "\<forall>c \<in> set (map url_char (map (\<lambda>n. b64_alphabet ! n) (enc6 (map unat b)))). c \<noteq> CHR ''=''"
    using in_alpha alphabet_chars(1) by (auto simp: url_char_def)
  show ?thesis
    unfolding bytesToBase64url_def btoa_def fuse codes map_append length_map
    by (rule strip_pad_clean [OF clean pad])
qed

lemma drop_pad_replicate:
  "\<forall>c \<in> set s. c \<noteq> CHR ''='' \<Longrightarrow> k \<le> 2 \<Longrightarrow> drop_pad (s @ replicate k CHR ''='') = s"
proof -
  assume s: "\<forall>c \<in> set s. c \<noteq> CHR ''=''" and "k \<le> 2"
  then consider "k = 0" | "k = 1" | "k = 2" by linarith
  then show ?thesis
  proof cases
    case 1
    then show ?thesis using s by (cases s rule: rev_cases) (auto simp: drop_pad_def)
  next
    case 2
    then show ?thesis using s by (cases s rule: rev_cases) (simp_all add: drop_pad_def butlast_append)
  next
    case 3
    then show ?thesis by (simp add: drop_pad_def numeral_2_eq_2 butlast_append)
  qed
qed

lemma atob_padded:
  assumes "\<forall>n \<in> set ns. n < 64" and "length ns mod 4 \<noteq> 1"
  shows "atob (map (\<lambda>n. b64_alphabet ! n) ns
           @ (if length ns mod 4 = 0 then [] else replicate (4 - length ns mod 4) CHR ''=''))
         = Some (map char_of (dec6 ns))"
proof -
  let ?s = "map (\<lambda>n. b64_alphabet ! n) ns"
  let ?k = "if length ns mod 4 = 0 then 0 else 4 - length ns mod 4"
  have sub: "set ?s \<subseteq> set b64_alphabet" using assms(1) by (auto simp: alphabet_length)
  have k: "?k \<le> 2" using assms(2) by (cases "length ns mod 4 = 0") auto
  have ws: "\<not> ascii_ws CHR ''=''" by (simp add: ascii_ws_def)
  have "filter (\<lambda>c. \<not> ascii_ws c) (?s @ replicate ?k CHR ''='') = ?s @ replicate ?k CHR ''=''"
    using sub alphabet_chars(2) ws by (intro filter_True) auto
  moreover have "length (?s @ replicate ?k CHR ''='') mod 4 = 0"
  proof (cases "length ns mod 4 = 0")
    case False
    then have "(length ns + (4 - length ns mod 4)) mod 4 = 0" by presburger
    then show ?thesis using False by simp
  qed simp
  moreover have "drop_pad (?s @ replicate ?k CHR ''='') = ?s"
    using sub alphabet_chars(1) k by (intro drop_pad_replicate) auto
  moreover have "?s @ (if length ns mod 4 = 0 then [] else replicate (4 - length ns mod 4) CHR ''='')
      = ?s @ replicate ?k CHR ''=''" by simp
  ultimately show ?thesis
    using assms(2) sextets_alphabet [OF assms(1)] by (simp only: atob_def Let_def) simp
qed

lemma base64url_decode_encode: "base64urlToBytes (bytesToBase64url b) = Some b"
proof -
  let ?ns = "enc6 (map unat b)"
  note lt = byte_less
  have bound: "\<forall>n \<in> set ?ns. n < 64" using lt by (intro enc6_bound) auto
  have fuse: "map (\<lambda>c. if c = CHR ''_'' then CHR ''/'' else c)
      (map (\<lambda>c. if c = CHR ''-'' then CHR ''+'' else c) s) = map unurl_char s" for s
    by (auto simp: unurl_char_def)
  have unurl: "map unurl_char (bytesToBase64url b) = map (\<lambda>n. b64_alphabet ! n) ?ns"
    unfolding encode_url using bound unurl_url by (auto simp: alphabet_length)
  have len: "length ?ns mod 4 \<noteq> 1" unfolding enc6_length by (auto split: nat.splits)
  have dec: "dec6 ?ns = map unat b" using lt by (intro dec6_enc6) auto
  have bytes: "map (\<lambda>c. word_of_nat (of_char c)) (map char_of (map unat b)) = b"
    by (induction b) (simp_all add: lt)
  let ?p = "map unurl_char (bytesToBase64url b)"
  have "base64urlToBytes (bytesToBase64url b) = map_option (map (\<lambda>c. word_of_nat (of_char c)))
      (atob (?p @ (if length ?p mod 4 = 0 then [] else replicate (4 - length ?p mod 4) CHR ''='')))"
    by (simp only: base64urlToBytes_def Let_def fuse)
  then show ?thesis
    using atob_padded [OF bound len] by (simp only: unurl length_map dec bytes option.map)
qed

text \<open>Base64url round trip: decoding what the client encodes returns the bytes, for every byte
  string, and the encoding uses only letters, digits, the hyphen and the underscore, without padding.\<close>

theorem base64url_roundtrip:
  "base64urlToBytes (bytesToBase64url b) = Some b
   \<and> set (bytesToBase64url b) \<subseteq> set ''ABCDEFGHIJKLMNOPQRSTUVWXYZabcdefghijklmnopqrstuvwxyz0123456789-_''"
proof
  note lt = byte_less
  have "\<forall>n \<in> set (enc6 (map unat b)). n < 64" using lt by (intro enc6_bound) auto
  then have "set (bytesToBase64url b) \<subseteq> url_char ` set b64_alphabet"
    unfolding encode_url by (auto simp: alphabet_length)
  also have "\<dots> \<subseteq> set ''ABCDEFGHIJKLMNOPQRSTUVWXYZabcdefghijklmnopqrstuvwxyz0123456789-_''"
    by (simp add: b64_alphabet_def url_char_def)
  finally show "set (bytesToBase64url b) \<subseteq> \<dots>" .
qed (rule base64url_decode_encode)

section \<open>Registration and authentication\<close>

text \<open>Reading the loosely typed options: a value that is used as text must be a string, else the
  conversion throws (which exception is not distinguished).\<close>

fun as_string :: "json option \<Rightarrow> string option" where
  "as_string (Some (JStr s)) = Some s"
| "as_string _ = None"

definition bytes_field :: "json option \<Rightarrow> bytes option" where
  "bytes_field v = Option.bind (as_string v) base64urlToBytes"

record descriptor =
  ds_id :: bytes
  ds_type :: "json option"
  ds_transports :: "json option"

definition toDescriptor :: "json \<Rightarrow> descriptor option" where
  "toDescriptor d =
     map_option (\<lambda>i. \<lparr>ds_id = i, ds_type = field (Some d) ''type'',
        ds_transports = (if otruthy (field (Some d) ''transports'') then field (Some d) ''transports'' else None)\<rparr>)
       (bytes_field (field (Some d) ''id''))"

fun map_opt :: "('a \<Rightarrow> 'b option) \<Rightarrow> 'a list \<Rightarrow> 'b list option" where
  "map_opt f [] = Some []"
| "map_opt f (x # xs) = Option.bind (f x) (\<lambda>y. map_option (Cons y) (map_opt f xs))"

text \<open>\<open>undefined\<close> (no list) is \<open>Some None\<close>; a list whose ids do not decode throws, \<open>None\<close>.\<close>

fun toDescriptors :: "json option \<Rightarrow> descriptor list option option" where
  "toDescriptors (Some (JArr ds)) = map_option Some (map_opt toDescriptor ds)"
| "toDescriptors _ = Some None"

definition not_null :: "json option \<Rightarrow> json option" where
  "not_null v = (if nullish v then None else v)"

definition if_truthy :: "json option \<Rightarrow> json option" where
  "if_truthy v = (if otruthy v then v else None)"

record creation_options =
  co_challenge :: bytes
  co_rp :: "json option"
  co_user_id :: bytes
  co_user_name :: "json option"
  co_user_displayName :: "json option"
  co_pubKeyCredParams :: "json option"
  co_timeout :: "json option"
  co_attestation :: "json option"
  co_authenticatorSelection :: "json option"
  co_excludeCredentials :: "descriptor list option"

definition creation_of :: "json \<Rightarrow> creation_options option" where
  "creation_of j =
     (let o' = field (Some j); user = field (o' ''user'') in
      Option.bind (bytes_field (o' ''challenge'')) (\<lambda>ch.
      Option.bind (bytes_field (user ''id'')) (\<lambda>uid.
      Option.bind (toDescriptors (o' ''excludeCredentials'')) (\<lambda>ex.
      Some \<lparr>co_challenge = ch, co_rp = o' ''rp'', co_user_id = uid, co_user_name = user ''name'',
            co_user_displayName = user ''displayName'', co_pubKeyCredParams = o' ''pubKeyCredParams'',
            co_timeout = not_null (o' ''timeout''), co_attestation = if_truthy (o' ''attestation''),
            co_authenticatorSelection = if_truthy (o' ''authenticatorSelection''),
            co_excludeCredentials = ex\<rparr>))))"

record request_options =
  ro_challenge :: bytes
  ro_timeout :: "json option"
  ro_rpId :: "json option"
  ro_userVerification :: "json option"
  ro_allowCredentials :: "descriptor list option"

definition request_of :: "json \<Rightarrow> request_options option" where
  "request_of j =
     (let o' = field (Some j) in
      Option.bind (bytes_field (o' ''challenge'')) (\<lambda>ch.
      Option.bind (toDescriptors (o' ''allowCredentials'')) (\<lambda>al.
      Some \<lparr>ro_challenge = ch, ro_timeout = not_null (o' ''timeout''), ro_rpId = if_truthy (o' ''rpId''),
            ro_userVerification = if_truthy (o' ''userVerification''), ro_allowCredentials = al\<rparr>)))"

text \<open>The credential an authenticator returns. \<open>at_transports\<close> is \<open>None\<close> when the response has no
  \<open>getTransports\<close>.\<close>

record attestation =
  at_id :: string
  at_rawId :: bytes
  at_type :: string
  at_attachment :: "string option"
  at_attestationObject :: bytes
  at_clientDataJSON :: bytes
  at_transports :: "string list option"
  at_extensions :: json

record assertion =
  an_id :: string
  an_rawId :: bytes
  an_type :: string
  an_attachment :: "string option"
  an_authenticatorData :: bytes
  an_clientDataJSON :: bytes
  an_signature :: bytes
  an_userHandle :: "bytes option"
  an_extensions :: json

definition optional :: "string \<Rightarrow> string option \<Rightarrow> json obj" where
  "optional k v = (case v of None \<Rightarrow> [] | Some s \<Rightarrow> [(k, JStr s)])"

definition attestation_json :: "attestation \<Rightarrow> json" where
  "attestation_json c =
     JObj ([(''id'', JStr (at_id c)), (''rawId'', JStr (bytesToBase64url (at_rawId c))),
            (''type'', JStr (at_type c))] @ optional ''authenticatorAttachment'' (at_attachment c) @
           [(''response'', JObj [(''attestationObject'', JStr (bytesToBase64url (at_attestationObject c))),
                               (''clientDataJSON'', JStr (bytesToBase64url (at_clientDataJSON c))),
                               (''transports'', jstrs (nullish_or (at_transports c) []))]),
            (''clientExtensionResults'', at_extensions c)])"

definition assertion_json :: "assertion \<Rightarrow> json" where
  "assertion_json c =
     JObj ([(''id'', JStr (an_id c)), (''rawId'', JStr (bytesToBase64url (an_rawId c))),
            (''type'', JStr (an_type c))] @ optional ''authenticatorAttachment'' (an_attachment c) @
           [(''response'', JObj [(''authenticatorData'', JStr (bytesToBase64url (an_authenticatorData c))),
                               (''clientDataJSON'', JStr (bytesToBase64url (an_clientDataJSON c))),
                               (''signature'', JStr (bytesToBase64url (an_signature c))),
                               (''userHandle'', jopt (map_option bytesToBase64url (an_userHandle c)))]),
            (''clientExtensionResults'', an_extensions c)])"

definition createCredential ::
  "(creation_options \<Rightarrow> failure + attestation option) \<Rightarrow> json \<Rightarrow> failure + json" where
  "createCredential authenticator optionsJson =
     (case creation_of optionsJson of
        None \<Rightarrow> Inl (Err ''malformed options'')
      | Some publicKey \<Rightarrow>
          (case authenticator publicKey of
             Inl err \<Rightarrow> Inl err
           | Inr None \<Rightarrow> Inl (Cancelled ''WebAuthn registration was cancelled'')
           | Inr (Some c) \<Rightarrow> Inr (attestation_json c)))"

definition getAssertion ::
  "(request_options \<Rightarrow> failure + assertion option) \<Rightarrow> json \<Rightarrow> failure + json" where
  "getAssertion authenticator optionsJson =
     (case request_of optionsJson of
        None \<Rightarrow> Inl (Err ''malformed options'')
      | Some publicKey \<Rightarrow>
          (case authenticator publicKey of
             Inl err \<Rightarrow> Inl err
           | Inr None \<Rightarrow> Inl (Cancelled ''WebAuthn authentication was cancelled'')
           | Inr (Some c) \<Rightarrow> Inr (assertion_json c)))"

lemma bytes_field_encoded [simp]: "bytes_field (Some (JStr (bytesToBase64url b))) = Some b"
  by (simp add: bytes_field_def base64url_decode_encode)

definition descriptor_json :: "bytes \<Rightarrow> string \<Rightarrow> json" where
  "descriptor_json b ty = JObj [(''id'', JStr (bytesToBase64url b)), (''type'', JStr ty)]"

lemma toDescriptors_encoded:
  "toDescriptors (Some (JArr (map (\<lambda>b. descriptor_json b ty) bs))) =
     Some (Some (map (\<lambda>b. \<lparr>ds_id = b, ds_type = Some (JStr ty), ds_transports = None\<rparr>) bs))"
proof -
  have "toDescriptor (descriptor_json b ty) = Some \<lparr>ds_id = b, ds_type = Some (JStr ty), ds_transports = None\<rparr>"
    for b by (simp add: toDescriptor_def descriptor_json_def obj_get_def)
  then have "map_opt toDescriptor (map (\<lambda>b. descriptor_json b ty) bs) =
      Some (map (\<lambda>b. \<lparr>ds_id = b, ds_type = Some (JStr ty), ds_transports = None\<rparr>) bs)"
    by (induction bs) simp_all
  then show ?thesis by simp
qed

text \<open>C36. A sign-in with a passkey carries bytes unchanged in both directions. For options in which
  the server encoded a challenge and a list of credential ids, the authenticator is asked for exactly
  those bytes; when it answers with an assertion, decoding the fields of the JSON that goes back gives
  the authenticator's data, client data, signature, raw id and user handle; and it answering nothing is
  reported as a cancellation.\<close>

theorem assertion_transport:
  assumes "field (Some j) ''challenge'' = Some (JStr (bytesToBase64url ch))"
    and "field (Some j) ''allowCredentials'' = Some (JArr (map (\<lambda>b. descriptor_json b ''public-key'') ids))"
  shows "\<exists>opts. ro_challenge opts = ch
      \<and> map_option (map ds_id) (ro_allowCredentials opts) = Some ids
      \<and> (authenticator opts = Inr None \<longrightarrow>
           getAssertion authenticator j = Inl (Cancelled ''WebAuthn authentication was cancelled''))
      \<and> (\<forall>c. authenticator opts = Inr (Some c) \<longrightarrow> (\<exists>r. getAssertion authenticator j = Inr r
           \<and> bytes_field (field (Some r) ''rawId'') = Some (an_rawId c)
           \<and> bytes_field (field (field (Some r) ''response'') ''authenticatorData'') = Some (an_authenticatorData c)
           \<and> bytes_field (field (field (Some r) ''response'') ''clientDataJSON'') = Some (an_clientDataJSON c)
           \<and> bytes_field (field (field (Some r) ''response'') ''signature'') = Some (an_signature c)
           \<and> bytes_field (field (field (Some r) ''response'') ''userHandle'') = an_userHandle c))"
proof -
  let ?ds = "map (\<lambda>b. \<lparr>ds_id = b, ds_type = Some (JStr ''public-key''), ds_transports = None\<rparr>) ids"
  obtain opts where opts: "request_of j = Some opts" "ro_challenge opts = ch" "ro_allowCredentials opts = Some ?ds"
    using assms toDescriptors_encoded [of "''public-key''" ids] by (simp add: request_of_def Let_def)
  have handle: "bytes_field (Some (jopt (map_option bytesToBase64url h))) = h" for h
    by (cases h) (simp_all add: bytes_field_def [of "Some JNull"])
  show ?thesis
    by (intro exI [of _ opts])
       (auto simp: getAssertion_def opts assertion_json_def obj_get_def optional_def handle comp_def
         split: option.splits)
qed

definition sample_bytes :: bytes where
  "sample_bytes = [1, 255, 62, 63]"

definition sample_options :: json where
  "sample_options = JObj [(''challenge'', JStr (bytesToBase64url sample_bytes)),
     (''allowCredentials'', JArr (map (\<lambda>b. descriptor_json b ''public-key'') [sample_bytes]))]"

definition sample_authenticator :: "request_options \<Rightarrow> failure + assertion option" where
  "sample_authenticator o' = (if ro_challenge o' = sample_bytes then
     Inr (Some \<lparr>an_id = ''k'', an_rawId = sample_bytes, an_type = ''public-key'', an_attachment = None,
       an_authenticatorData = [], an_clientDataJSON = [7], an_signature = sample_bytes, an_userHandle = None,
       an_extensions = JObj []\<rparr>) else Inr None)"

theorem assertion_transport_witness:
  "\<exists>r. getAssertion sample_authenticator sample_options = Inr r
     \<and> bytes_field (field (field (Some r) ''response'') ''signature'') = Some sample_bytes"
proof -
  have "field (Some sample_options) ''challenge'' = Some (JStr (bytesToBase64url sample_bytes))"
    "field (Some sample_options) ''allowCredentials'' =
       Some (JArr (map (\<lambda>b. descriptor_json b ''public-key'') [sample_bytes]))"
    by (simp_all add: sample_options_def obj_get_def)
  from assertion_transport [OF this, of sample_authenticator] obtain opts where
    "ro_challenge opts = sample_bytes"
    "\<forall>c. sample_authenticator opts = Inr (Some c) \<longrightarrow> (\<exists>r. getAssertion sample_authenticator sample_options = Inr r
       \<and> bytes_field (field (field (Some r) ''response'') ''signature'') = Some (an_signature c))"
    by blast
  then show ?thesis by (auto simp: sample_authenticator_def)
qed

text \<open>A registration carries bytes unchanged in both directions: the challenge, the user id and
  the excluded credentials reach the authenticator as the server's bytes, and the JSON that goes back
  decodes to the raw id, the attestation object and the client data of the new credential, with its
  transports (none when the browser cannot tell).\<close>

theorem attestation_transport:
  assumes "field (Some j) ''challenge'' = Some (JStr (bytesToBase64url ch))"
    and "field (field (Some j) ''user'') ''id'' = Some (JStr (bytesToBase64url uid))"
    and "field (Some j) ''excludeCredentials'' = Some (JArr (map (\<lambda>b. descriptor_json b ''public-key'') ids))"
  shows "\<exists>opts. co_challenge opts = ch \<and> co_user_id opts = uid
      \<and> map_option (map ds_id) (co_excludeCredentials opts) = Some ids
      \<and> (authenticator opts = Inr None \<longrightarrow>
           createCredential authenticator j = Inl (Cancelled ''WebAuthn registration was cancelled''))
      \<and> (\<forall>c. authenticator opts = Inr (Some c) \<longrightarrow> (\<exists>r. createCredential authenticator j = Inr r
           \<and> bytes_field (field (Some r) ''rawId'') = Some (at_rawId c)
           \<and> bytes_field (field (field (Some r) ''response'') ''attestationObject'') = Some (at_attestationObject c)
           \<and> bytes_field (field (field (Some r) ''response'') ''clientDataJSON'') = Some (at_clientDataJSON c)
           \<and> field (field (Some r) ''response'') ''transports'' = Some (jstrs (nullish_or (at_transports c) []))))"
proof -
  let ?ds = "map (\<lambda>b. \<lparr>ds_id = b, ds_type = Some (JStr ''public-key''), ds_transports = None\<rparr>) ids"
  obtain opts where opts: "creation_of j = Some opts" "co_challenge opts = ch" "co_user_id opts = uid"
      "co_excludeCredentials opts = Some ?ds"
    using assms toDescriptors_encoded [of "''public-key''" ids] by (simp add: creation_of_def Let_def)
  show ?thesis
    by (intro exI [of _ opts])
       (auto simp: createCredential_def opts attestation_json_def obj_get_def optional_def comp_def
         split: option.splits)
qed

definition sample_creation :: json where
  "sample_creation = JObj [(''challenge'', JStr (bytesToBase64url sample_bytes)),
     (''user'', JObj [(''id'', JStr (bytesToBase64url [9]))]),
     (''excludeCredentials'', JArr (map (\<lambda>b. descriptor_json b ''public-key'') []))]"

theorem attestation_transport_witness:
  "createCredential (\<lambda>_. Inr None) sample_creation = Inl (Cancelled ''WebAuthn registration was cancelled'')"
proof -
  have "field (Some sample_creation) ''challenge'' = Some (JStr (bytesToBase64url sample_bytes))"
    "field (field (Some sample_creation) ''user'') ''id'' = Some (JStr (bytesToBase64url [9]))"
    "field (Some sample_creation) ''excludeCredentials'' =
       Some (JArr (map (\<lambda>b. descriptor_json b ''public-key'') []))"
    by (simp_all add: sample_creation_def obj_get_def)
  from attestation_transport [OF this, of "\<lambda>_. Inr None"] show ?thesis by blast
qed

end
