(* ===== verification/HooksAdmin.thy ===== *)
theory HooksAdmin
  imports WebAuthn
begin

text \<open>
  The hooks of the pages that are not scoped to a tenant: SMTP and system settings, the audit ledger,
  user groups, multi-factor authentication and passkeys, sessions, trusted devices, the log fleet, the
  template library, and the two queries behind the authentication and tenant providers.
\<close>

section \<open>SMTP (admin/smtpHooks.ts)\<close>

definition smtpKey :: "json list" where
  "smtpKey = [JStr ''smtp-settings'']"

definition useSmtpSettings :: query where
  "useSmtpSettings = mk_query smtpKey True (api_call GET ''/api/admin/smtp'' [] [] None)
     (need_data ''Failed to load SMTP settings'')"

definition useUpdateSmtpSettings :: "json \<Rightarrow> mutation" where
  "useUpdateSmtpSettings body =
     mk_mutation (api_call PUT ''/api/admin/smtp'' [] [] (Some body))
       (need_data ''Failed to save SMTP settings'') (\<lambda>data. [SetData smtpKey data])"

definition useTestSmtp :: "json \<Rightarrow> mutation" where
  "useTestSmtp body =
     mk_mutation (api_call POST ''/api/admin/smtp/test'' [] [] (Some body))
       (need_data ''Test send failed'') no_ops"

text \<open>The reply is an open record; the address is checked to be a non-empty string before use.\<close>

fun oauth_url_fn :: "api_result \<Rightarrow> failure + json option" where
  "oauth_url_fn Rejected = Inl NetworkError"
| "oauth_url_fn (Reply d e s) =
     (if otruthy e \<or> \<not> otruthy d then Inl (Err ''Failed to start OAuth'')
      else case str_field (field d ''authorize_url'') of
          None \<Rightarrow> Inl (Err ''Failed to start OAuth'')
        | Some url \<Rightarrow> if url = [] then Inl (Err ''Failed to start OAuth'') else Inr (Some (JStr url)))"

definition useSmtpOAuthConnect :: "string \<Rightarrow> mutation" where
  "useSmtpOAuthConnect provider =
     mk_mutation
       (api_call GET ''/api/admin/smtp/oauth/{provider}/authorize''
          [(''provider'', JStr provider)] [] None)
       oauth_url_fn no_ops"

section \<open>System settings (admin/systemHooks.ts)\<close>

definition livePushKey :: "json list" where
  "livePushKey = [JStr ''live-push'']"

definition useLivePush :: query where
  "useLivePush = mk_query livePushKey True (api_call GET ''/api/admin/live-push'' [] [] None)
     (need_data ''Failed to load live-push setting'')"

definition useSetLivePush :: "bool \<Rightarrow> mutation" where
  "useSetLivePush enabled =
     mk_mutation
       (api_call PUT ''/api/admin/live-push'' [] [] (Some (JObj [(''enabled'', JBool enabled)])))
       (need_data ''Failed to update live-push setting'') (\<lambda>data. [SetData livePushKey data])"

definition runtimeSettingsKey :: "json list" where
  "runtimeSettingsKey = [JStr ''runtime-settings'']"

definition useRuntimeSettings :: query where
  "useRuntimeSettings =
     mk_query runtimeSettingsKey True (api_call GET ''/api/admin/settings'' [] [] None)
       (need_data ''Failed to load runtime settings'')"

definition useUpdateRuntimeSettings :: "json \<Rightarrow> mutation" where
  "useUpdateRuntimeSettings vals =
     mk_mutation
       (api_call PUT ''/api/admin/settings'' [] [] (Some (JObj [(''values'', vals)])))
       (need_data ''Failed to update runtime settings'')
       (\<lambda>data. [SetData runtimeSettingsKey data])"

section \<open>Audit ledger (audit/auditHooks.ts)\<close>

text \<open>The filters as an object of optional values (\<open>undefined\<close> is \<open>None\<close>). \<open>clean\<close> is the
  loop over \<open>Object.entries\<close> with its two \<open>continue\<close>s.\<close>

fun clean_loop :: "(string \<times> json option) list \<Rightarrow> json obj \<Rightarrow> json obj" where
  "clean_loop [] out = out"
| "clean_loop ((k, None) # kvs) out = clean_loop kvs out"
| "clean_loop ((k, Some JNull) # kvs) out = clean_loop kvs out"
| "clean_loop ((k, Some (JStr s)) # kvs) out =
     (if js_trim s = [] then clean_loop kvs out else clean_loop kvs (obj_set k (JStr s) out))"
| "clean_loop ((k, Some v) # kvs) out = clean_loop kvs (obj_set k v out)"

definition clean :: "json option obj \<Rightarrow> json obj" where
  "clean filters = clean_loop (obj_entries filters) []"

definition useAuditQuery :: "json option obj \<Rightarrow> query" where
  "useAuditQuery filters =
     (let query = clean filters in
      mk_query [JStr ''audit'', JObj query] True
        (api_call GET ''/api/admin/audit'' [] query None)
        (need_data ''audit query failed''))"

definition pick_fields :: "string list \<Rightarrow> json obj \<Rightarrow> json obj" where
  "pick_fields ks ob = List.map_filter (\<lambda>k. map_option (\<lambda>v. (k, v)) (obj_get ob k)) ks"

definition downloadAuditCsv :: "json option obj \<Rightarrow> mutation" where
  "downloadAuditCsv filters =
     mk_mutation
       (api_call GET ''/api/admin/audit/export.csv'' []
          (pick_fields [''actor_email'', ''tenant_id'', ''action'', ''frm'', ''to''] (clean filters)) None)
       (need_data ''export failed'') (\<lambda>_. [Download ''audit.csv''])"

section \<open>User groups (groups/groupHooks.ts)\<close>

definition groupsKey :: "json list" where
  "groupsKey = [JStr ''groups'']"

definition group_params :: "string \<Rightarrow> json obj" where
  "group_params groupId = [(''group_id'', JStr groupId)]"

definition useGroups :: query where
  "useGroups = mk_query groupsKey True (api_call GET ''/api/groups'' [] [] None)
     (need_data ''Failed to load groups'')"

definition useCreateGroup :: "json \<Rightarrow> mutation" where
  "useCreateGroup body =
     mk_mutation (api_call POST ''/api/groups'' [] [] (Some body))
       (need_data ''Failed to create group'') (invalidates groupsKey)"

definition useUpdateGroup :: "string \<Rightarrow> json \<Rightarrow> mutation" where
  "useUpdateGroup groupId body =
     mk_mutation (api_call PATCH ''/api/groups/{group_id}'' (group_params groupId) [] (Some body))
       (need_data ''Failed to update group'') (invalidates groupsKey)"

definition useDeleteGroup :: "string \<Rightarrow> mutation" where
  "useDeleteGroup groupId =
     mk_mutation (api_call DELETE ''/api/groups/{group_id}'' (group_params groupId) [] None)
       (no_data ''Failed to delete group'') (invalidates groupsKey)"

definition useSetGroupMembers :: "string \<Rightarrow> string list \<Rightarrow> mutation" where
  "useSetGroupMembers groupId userIds =
     mk_mutation
       (api_call PUT ''/api/groups/{group_id}/members'' (group_params groupId) []
          (Some (JObj [(''user_ids'', jstrs userIds)])))
       (need_data ''Failed to set members'') (invalidates groupsKey)"

definition useAddGroupGrant :: "string \<Rightarrow> json \<Rightarrow> mutation" where
  "useAddGroupGrant groupId body =
     mk_mutation
       (api_call POST ''/api/groups/{group_id}/grants'' (group_params groupId) [] (Some body))
       (need_data ''Failed to add grant'') (invalidates groupsKey)"

definition useDeleteGroupGrant :: "string \<Rightarrow> string \<Rightarrow> mutation" where
  "useDeleteGroupGrant groupId grantId =
     mk_mutation
       (api_call DELETE ''/api/groups/{group_id}/grants/{grant_id}''
          (group_params groupId @ [(''grant_id'', JStr grantId)]) [] None)
       (no_data ''Failed to delete grant'') (invalidates groupsKey)"

definition my_tenants_key :: "json list" where
  "my_tenants_key = [JStr ''my-tenants'']"

definition useAllTenants :: query where
  "useAllTenants = mk_query my_tenants_key True (api_call GET ''/api/me/tenants'' [] [] None)
     (need_data ''Failed to load tenants'')"

section \<open>Multi-factor authentication (security/mfaHooks.ts)\<close>

definition mfaStatusKey :: "json list" where
  "mfaStatusKey = [JStr ''mfa'', JStr ''status'']"

definition mfaPolicyKey :: "json list" where
  "mfaPolicyKey = [JStr ''mfa'', JStr ''policy'']"

definition passkeysKey :: "json list" where
  "passkeysKey = [JStr ''mfa'', JStr ''passkeys'']"

definition usersKey :: "json list" where
  "usersKey = [JStr ''users'']"

definition password_body :: "string \<Rightarrow> json" where
  "password_body password = JObj [(''password'', JStr password)]"

definition useMfaStatus :: query where
  "useMfaStatus = mk_query mfaStatusKey True (api_call GET ''/api/me/mfa'' [] [] None)
     (need_data ''en.mfa.statusError'')"

definition useMfaSetup :: "string \<Rightarrow> mutation" where
  "useMfaSetup password =
     mk_mutation (api_call POST ''/api/me/mfa/setup'' [] [] (Some (password_body password)))
       (need_data ''en.mfa.setupError'') no_ops"

definition useMfaConfirm :: "string \<Rightarrow> mutation" where
  "useMfaConfirm code =
     mk_mutation
       (api_call POST ''/api/me/mfa/confirm'' [] []
          (Some (JObj [(''code'', JStr code), (''remember_device'', JBool False)])))
       (need_data ''en.mfa.confirmError'') (invalidates mfaStatusKey)"

definition useMfaDisable :: "string \<Rightarrow> mutation" where
  "useMfaDisable password =
     mk_mutation (api_call POST ''/api/me/mfa/disable'' [] [] (Some (password_body password)))
       (no_data ''en.mfa.disableError'') (invalidates mfaStatusKey)"

definition useMfaRegenerate :: "string \<Rightarrow> mutation" where
  "useMfaRegenerate password =
     mk_mutation
       (api_call POST ''/api/me/mfa/recovery/regenerate'' [] [] (Some (password_body password)))
       (need_data ''en.mfa.regenerateError'') (invalidates mfaStatusKey)"

definition useWebAuthnCredentials :: "bool \<Rightarrow> query" where
  "useWebAuthnCredentials enabled =
     mk_query passkeysKey enabled (api_call GET ''/api/me/mfa/webauthn/credentials'' [] [] None)
       (data_or_empty ''en.mfa.passkeys.listError'')"

text \<open>Adding a passkey is three steps: the begin request, the browser's \<open>create\<close> on what it
  returned, and the complete request with the credential. The
  mutation stops at the first step that fails.\<close>

definition addPasskey_begin :: "string \<Rightarrow> request" where
  "addPasskey_begin password =
     api_call POST ''/api/me/mfa/webauthn/register/begin'' [] [] (Some (password_body password))"

fun addPasskey_begin_fn :: "api_result \<Rightarrow> failure + json option" where
  "addPasskey_begin_fn Rejected = Inl NetworkError"
| "addPasskey_begin_fn (Reply d e s) =
     (if otruthy e \<or> \<not> otruthy d then
        Inl (if s = 409 then PasskeyConfigError ''en.mfa.passkeys.notConfigured''
             else Err ''en.mfa.passkeys.addError'')
      else Inr d)"

definition credential_transports :: "json \<Rightarrow> json" where
  "credential_transports credential =
     (case field (field (Some credential) ''response'') ''transports'' of
        None \<Rightarrow> JNull | Some v \<Rightarrow> v)"

definition addPasskey_complete :: "json \<Rightarrow> string \<Rightarrow> request" where
  "addPasskey_complete credential name =
     api_call POST ''/api/me/mfa/webauthn/register/complete'' [] []
       (Some (JObj [(''credential'', credential), (''name'', JStr name),
                    (''transports'', credential_transports credential)]))"

definition useAddPasskey ::
  "(creation_options \<Rightarrow> failure + attestation option) \<Rightarrow> (request \<Rightarrow> api_result) \<Rightarrow> string \<Rightarrow> string
    \<Rightarrow> request list \<times> (failure + json option) \<times> cache_op list" where
  "useAddPasskey authenticator send password name =
     (let rq1 = addPasskey_begin password in
      case addPasskey_begin_fn (send rq1) of
        Inl err \<Rightarrow> ([rq1], Inl err, [])
      | Inr d \<Rightarrow>
          (case d of
             None \<Rightarrow> ([rq1], Inl (Err ''en.mfa.passkeys.addError''), [])
           | Some options \<Rightarrow>
             (case createCredential authenticator options of
                Inl err \<Rightarrow> ([rq1], Inl err, [])
              | Inr credential \<Rightarrow>
                  (let rq2 = addPasskey_complete credential name in
                   case need_data ''en.mfa.passkeys.addError'' (send rq2) of
                     Inl err \<Rightarrow> ([rq1, rq2], Inl err, [])
                   | Inr d' \<Rightarrow> ([rq1, rq2], Inr d', [Invalidate passkeysKey, Invalidate mfaStatusKey])))))"

fun removePasskey_fn :: "api_result \<Rightarrow> failure + json option" where
  "removePasskey_fn Rejected = Inl NetworkError"
| "removePasskey_fn (Reply d e s) =
     (if otruthy e then
        Inl (if s = 409 then LastFactorError ''en.mfa.passkeys.lastFactorError''
             else Err ''en.mfa.passkeys.removeError'')
      else Inr None)"

definition useRemovePasskey :: "string \<Rightarrow> mutation" where
  "useRemovePasskey credId =
     mk_mutation
       (api_call DELETE ''/api/me/mfa/webauthn/credentials/{cred_id}'' [(''cred_id'', JStr credId)] [] None)
       removePasskey_fn (\<lambda>_. [Invalidate passkeysKey, Invalidate mfaStatusKey])"

definition useMfaPolicy :: query where
  "useMfaPolicy = mk_query mfaPolicyKey True (api_call GET ''/api/admin/mfa-policy'' [] [] None)
     (need_data ''en.mfa.policyLoadError'')"

definition useSetMfaPolicy :: "string \<Rightarrow> mutation" where
  "useSetMfaPolicy mode =
     mk_mutation (api_call PUT ''/api/admin/mfa-policy'' [] [] (Some (JObj [(''mode'', JStr mode)])))
       (need_data ''en.mfa.policySaveError'') (\<lambda>data. [SetData mfaPolicyKey data])"

definition useUsers :: query where
  "useUsers = mk_query usersKey True (api_call GET ''/api/users'' [] [] None)
     (data_or_empty ''en.mfa.usersLoadError'')"

definition trusted_toggle_key :: "json list" where
  "trusted_toggle_key = [JStr ''trusted-device-toggle'']"

fun enabled_fn :: "string \<Rightarrow> api_result \<Rightarrow> failure + json option" where
  "enabled_fn msg Rejected = Inl NetworkError"
| "enabled_fn msg (Reply d e s) =
     (if otruthy e \<or> \<not> otruthy d then Inl (Err msg) else Inr (field d ''enabled''))"

definition useTrustedDeviceToggle :: query where
  "useTrustedDeviceToggle =
     mk_query trusted_toggle_key True (api_call GET ''/api/admin/trusted-device-enabled'' [] [] None)
       (enabled_fn ''Failed to load setting'')"

definition useSetTrustedDeviceToggle :: "bool \<Rightarrow> mutation" where
  "useSetTrustedDeviceToggle enabled =
     mk_mutation
       (api_call PUT ''/api/admin/trusted-device-enabled'' [] []
          (Some (JObj [(''enabled'', JBool enabled)])))
       (enabled_fn ''Failed to update setting'') (invalidates trusted_toggle_key)"

definition useResetUserMfa :: "string \<Rightarrow> mutation" where
  "useResetUserMfa userId =
     mk_mutation
       (api_call POST ''/api/users/{user_id}/mfa/reset'' [(''user_id'', JStr userId)] [] None)
       (no_data ''en.mfa.resetError'') (invalidates usersKey)"

section \<open>Sessions and trusted devices (security)\<close>

definition sessionsKey :: "json list" where
  "sessionsKey = [JStr ''sessions'']"

definition useSessions :: query where
  "useSessions = mk_query sessionsKey True (api_call GET ''/api/sessions'' [] [] None)
     (data_or_empty ''en.sessions.loadError'')"

definition useLogoutAll :: mutation where
  "useLogoutAll =
     mk_mutation (api_call POST ''/api/logout-all'' [] [] None)
       (no_data ''en.sessions.logoutAllError'') (\<lambda>_. [ClearCache, RefreshMe, Goto ''/login''])"

definition trusted_devices_key :: "json list" where
  "trusted_devices_key = [JStr ''trusted-devices'']"

definition useTrustedDevices :: "bool \<Rightarrow> query" where
  "useTrustedDevices enabled =
     mk_query trusted_devices_key enabled (api_call GET ''/api/me/trusted-devices'' [] [] None)
       (need_data ''Failed to load trusted devices'')"

definition useRevokeTrustedDevice :: "string \<Rightarrow> mutation" where
  "useRevokeTrustedDevice deviceId =
     mk_mutation
       (api_call DELETE ''/api/me/trusted-devices/{device_id}'' [(''device_id'', JStr deviceId)] [] None)
       (no_data ''Could not revoke the device'') (invalidates trusted_devices_key)"

definition useRevokeAllTrustedDevices :: mutation where
  "useRevokeAllTrustedDevices =
     mk_mutation (api_call DELETE ''/api/me/trusted-devices'' [] [] None)
       (no_data ''Could not revoke trusted devices'') (invalidates trusted_devices_key)"

section \<open>Log fleet (logs/logFleetHooks.ts)\<close>

definition useSilentTenantAlerts :: query where
  "useSilentTenantAlerts =
     mk_query [JStr ''silent-tenant-alerts''] True
       (api_call GET ''/api/admin/silent-tenant-alerts'' [] [] None)
       (need_data ''silent alerts failed'')"

definition useLogFleet :: "string \<Rightarrow> query" where
  "useLogFleet window =
     mk_query [JStr ''log-fleet'', JStr window] True
       (api_call GET ''/api/admin/log-fleet'' [] [(''window'', JStr window)] None)
       (need_data ''log fleet failed'')"

definition downloadLogFleet :: "string \<Rightarrow> string \<Rightarrow> mutation" where
  "downloadLogFleet window format =
     mk_mutation
       (api_call GET ''/api/admin/log-fleet/export'' []
          [(''window'', JStr window), (''format'', JStr format)] None)
       (need_data ''export failed'')
       (\<lambda>_. [Download (''log-fleet-'' @ window @ ''.'' @ format)])"

definition useLogFleetDevices :: "string option \<Rightarrow> string \<Rightarrow> query" where
  "useLogFleetDevices tenantId window =
     mk_query [JStr ''log-fleet-devices'', jopt tenantId, JStr window] (struthy tenantId)
       (api_call GET ''/api/admin/log-fleet/tenants/{tenant_id}/devices'' (t_params tenantId)
          [(''window'', JStr window)] None)
       (need_data ''log fleet devices failed'')"

section \<open>Template library (templates/hooks.ts)\<close>

definition templates_key :: "json list" where
  "templates_key = [JStr ''templates'']"

definition useTemplates :: query where
  "useTemplates = mk_query templates_key True (api_call GET ''/api/templates'' [] [] None)
     (need_data ''templates load failed'')"

definition useCreateTemplate :: "json \<Rightarrow> mutation" where
  "useCreateTemplate body =
     mk_mutation (api_call POST ''/api/templates'' [] [] (Some body))
       (need_data ''t.templates.saveFailed'') (invalidates templates_key)"

definition useUpdateTemplate :: "string \<Rightarrow> json \<Rightarrow> mutation" where
  "useUpdateTemplate templateId body =
     mk_mutation
       (api_call PUT ''/api/templates/{template_id}'' [(''template_id'', JStr templateId)] [] (Some body))
       (need_data ''t.templates.saveFailed'') (invalidates templates_key)"

definition useDeleteTemplate :: "string \<Rightarrow> mutation" where
  "useDeleteTemplate templateId =
     mk_mutation
       (api_call DELETE ''/api/templates/{template_id}'' [(''template_id'', JStr templateId)] [] None)
       (no_data ''t.templates.saveFailed'') (invalidates templates_key)"

section \<open>The providers' queries\<close>

definition me_key :: "json list" where
  "me_key = [JStr ''me'']"

fun me_fn :: "api_result \<Rightarrow> failure + json option" where
  "me_fn Rejected = Inl NetworkError"
| "me_fn (Reply d e s) =
     (if s = 401 then Inr (Some JNull) else Inr (if nullish d then Some JNull else d))"

definition AuthProvider_query :: query where
  "AuthProvider_query = mk_query me_key True (api_call GET ''/api/me'' [] [] None) me_fn"

definition TenantProvider_query :: query where
  "TenantProvider_query =
     mk_query my_tenants_key True (api_call GET ''/api/me/tenants'' [] [] None) unchecked_or_empty"

section \<open>What cleaning keeps\<close>

text \<open>A filter survives \<open>clean\<close> exactly when it is set, not null and not a blank string, and then
  with its own value.\<close>

fun active_filter :: "json option \<Rightarrow> json option" where
  "active_filter None = None"
| "active_filter (Some JNull) = None"
| "active_filter (Some (JStr s)) = (if js_trim s = [] then None else Some (JStr s))"
| "active_filter (Some v) = Some v"

lemma get_clean_loop:
  "distinct (map fst kvs) \<Longrightarrow> obj_get (clean_loop kvs out) k =
     (case Option.bind (map_of kvs k) active_filter of None \<Rightarrow> obj_get out k | Some v \<Rightarrow> Some v)"
  by (induction kvs out rule: clean_loop.induct)
     (auto simp: obj_get_set split: option.splits simp flip: map_of_eq_None_iff)

lemma get_clean: "obj_wf filters \<Longrightarrow> obj_get (clean filters) k = Option.bind (obj_get filters k) active_filter"
  by (simp add: clean_def get_clean_loop distinct_entries map_of_entries split: option.splits)

end
