(* ===== verification/QueryCoherence.thy ===== *)
theory QueryCoherence
  imports HooksTenant HooksAdmin
begin

text \<open>
  The hooks of the application taken together. The inductive predicates list, one rule per hook, every
  query and mutation the application hands to the query library: \<open>tenant_query a\<close> and
  \<open>tenant_mutation a\<close> those built for the active tenant \<open>a\<close>, \<open>global_query\<close> and
  \<open>global_mutation\<close> the others, \<open>raw_mutation\<close> those that call \<open>fetch\<close> themselves.
  The cache of the library is shared by all of them and addressed by key alone, so what makes it sound
  is proved here about the set of all hooks: a key determines the request behind it, keys of different
  tenants differ, a mutation invalidates or writes only keys that some query of the application reads,
  for its own tenant, and every mutating request carries the session token.
\<close>

section \<open>The hooks of the application\<close>

inductive tenant_query :: "string option \<Rightarrow> query \<Rightarrow> bool" where
  "tenant_query a (useConfigModel a d)"
| "tenant_query a (useConfigCapabilities a d)"
| "tenant_query a (useConfigChanges a d)"
| "tenant_query a (useDriftCheck a dv)"
| "tenant_query a (usePreviewChange a dv c)"
| "tenant_query a (useDeviceCatalog a dv)"
| "tenant_query a (useCatalogModel a dv c)"
| "tenant_query a (useCatalogDiff a dv c)"
| "tenant_query a (useConfigMap a dv)"
| "tenant_query a (useFirmwareActions a dv)"
| "tenant_query a (useDevicePlugins a dv)"
| "tenant_query a (usePluginModels a dv)"
| "tenant_query a (useTenantHealth a)"
| "tenant_query a (useAlerts a active)"
| "tenant_query a (useDeviceMetrics a d metric r)"
| "tenant_query a (useMetricLabels a d)"
| "tenant_query a (useReliabilitySummary mounted a)"
| "tenant_query a (useConfigAuditSummary mounted a)"
| "tenant_query a (useLogForwardingStatus a dv)"
| "tenant_query a (DevicesPage_query a)"
| "tenant_query a (DeviceDetailPage_query a d)"
| "tenant_query a (useGeneratedReports a)"
| "tenant_query a (useReportSchedules a)"
| "tenant_query a (useReportSettings a)"
| "tenant_query a (useReportLanguages a)"
| "tenant_query a (useRetention a)"
| "tenant_query a (usePerimeterAttackers mounted a kind wd lim)"
| "tenant_query a (useAttackerCountries mounted a ofr oto)"
| "tenant_query a (useTenantDevices a)"

inductive global_query :: "query \<Rightarrow> bool" where
  "global_query useSettingEndpoints"
| "global_query useProfiles"
| "global_query useSmtpSettings"
| "global_query useLivePush"
| "global_query useRuntimeSettings"
| "global_query (useAuditQuery filters)"
| "global_query useGroups"
| "global_query useAllTenants"
| "global_query useMfaStatus"
| "global_query (useWebAuthnCredentials en)"
| "global_query useMfaPolicy"
| "global_query useUsers"
| "global_query useTrustedDeviceToggle"
| "global_query useSessions"
| "global_query (useTrustedDevices en)"
| "global_query useSilentTenantAlerts"
| "global_query (useLogFleet window)"
| "global_query (useLogFleetDevices tid window)"
| "global_query useTemplates"
| "global_query AuthProvider_query"
| "global_query TenantProvider_query"

inductive tenant_infinite :: "string option \<Rightarrow> infinite_query \<Rightarrow> bool" where
  "tenant_infinite a (useReliabilityEvents a dv)"
| "tenant_infinite a (useConfigAuditEvents a dv)"

inductive tenant_mutation :: "string option \<Rightarrow> mutation \<Rightarrow> bool" where
  "tenant_mutation a (useCreateChange a dv body)"
| "tenant_mutation a (useScheduleChange a dv c sched)"
| "tenant_mutation a (useCancelChange a dv c)"
| "tenant_mutation a (useRevertChange a dv c)"
| "tenant_mutation a (useProposeCatalogChange a dv body)"
| "tenant_mutation a (useFirmwareCheck a dv)"
| "tenant_mutation a (useCreateFirmwareAction a dv body)"
| "tenant_mutation a (useEnableLogForwarding a dv)"
| "tenant_mutation a (useDisableLogForwarding a dv)"
| "tenant_mutation a (useRotateLogForwarding a dv)"
| "tenant_mutation a (useRevokeLogForwarding a dv reason)"
| "tenant_mutation a (useLogSearch a body)"
| "tenant_mutation (Some t) (DeviceActions_test t dv)"
| "tenant_mutation (Some t) (DeviceActions_remove t dv)"
| "tenant_mutation (Some t) (DeviceCreateModal_mutation t form)"
| "tenant_mutation a (useUpsertReportSchedule a body)"
| "tenant_mutation a (useDeleteReportSchedule a c)"
| "tenant_mutation a (useSendScheduleNow a c)"
| "tenant_mutation a (useUpdateReportSettings a body)"
| "tenant_mutation a (useDeleteLogo a)"
| "tenant_mutation a (useUpdateRetention a body)"
| "tenant_mutation a (useIdsRulesets a dv)"
| "tenant_mutation a (useFirewallRuleModel a dv)"
| "tenant_mutation a (useMonitTestModel a dv)"
| "tenant_mutation a (useIntrospectSetting a dv c)"
| "tenant_mutation a (useUpsertOverride a c body)"
| "tenant_mutation a (usePreviewTemplate a dv c body)"
| "tenant_mutation a (useApplyTemplate a dv c sched body)"
| "tenant_mutation a (usePreviewProfile a dv c body)"
| "tenant_mutation a (useApplyProfile a dv c sched body)"

inductive global_mutation :: "mutation \<Rightarrow> bool" where
  "global_mutation (useCreateProfile body)"
| "global_mutation (useUpdateProfile c body)"
| "global_mutation (useDeleteProfile c)"
| "global_mutation (useUpdateSmtpSettings body)"
| "global_mutation (useTestSmtp body)"
| "global_mutation (useSmtpOAuthConnect c)"
| "global_mutation (useSetLivePush en)"
| "global_mutation (useUpdateRuntimeSettings body)"
| "global_mutation (downloadAuditCsv filters)"
| "global_mutation (useCreateGroup body)"
| "global_mutation (useUpdateGroup c body)"
| "global_mutation (useDeleteGroup c)"
| "global_mutation (useSetGroupMembers c us)"
| "global_mutation (useAddGroupGrant c body)"
| "global_mutation (useDeleteGroupGrant c c')"
| "global_mutation (useMfaSetup c)"
| "global_mutation (useMfaConfirm c)"
| "global_mutation (useMfaDisable c)"
| "global_mutation (useMfaRegenerate c)"
| "global_mutation (useRemovePasskey c)"
| "global_mutation (useSetMfaPolicy c)"
| "global_mutation (useSetTrustedDeviceToggle en)"
| "global_mutation (useResetUserMfa c)"
| "global_mutation useLogoutAll"
| "global_mutation (useRevokeTrustedDevice c)"
| "global_mutation useRevokeAllTrustedDevices"
| "global_mutation (downloadLogFleet c c')"
| "global_mutation (useCreateTemplate body)"
| "global_mutation (useUpdateTemplate c body)"
| "global_mutation (useDeleteTemplate c)"

inductive raw_mutation ::
  "(string \<Rightarrow> string option) \<Rightarrow> string \<Rightarrow> string option \<Rightarrow> mutation \<Rightarrow> bool" for decode cookie where
  "useGenerateReport decode cookie base a from to = Some m \<Longrightarrow> raw_mutation decode cookie a m"
| "useUploadLogo decode cookie base a logo = Some m \<Longrightarrow> raw_mutation decode cookie a m"
| "raw_mutation decode cookie a (useDownloadReport base a c)"

text \<open>A fetch the cache can make: a key, whether it is enabled, and the request for it at an
  instant and a page cursor.\<close>

inductive tenant_fetch ::
  "string option \<Rightarrow> json list \<Rightarrow> bool \<Rightarrow> (int \<Rightarrow> string option \<Rightarrow> request) \<Rightarrow> bool" where
  "tenant_query a q \<Longrightarrow> tenant_fetch a (q_key q) (q_enabled q) (\<lambda>now _. q_request q now)"
| "tenant_infinite a iq \<Longrightarrow> tenant_fetch a (iq_key iq) (iq_enabled iq) (\<lambda>_ p. iq_request iq p)"

inductive app_fetch :: "json list \<Rightarrow> (int \<Rightarrow> string option \<Rightarrow> request) \<Rightarrow> bool" where
  "tenant_fetch a k en f \<Longrightarrow> app_fetch k f"
| "global_query q \<Longrightarrow> app_fetch (q_key q) (\<lambda>now _. q_request q now)"

text \<open>The key an operation on the cache names.\<close>

fun touched :: "cache_op \<Rightarrow> json list option" where
  "touched (Invalidate k) = Some k"
| "touched (SetData k v) = Some k"
| "touched _ = None"

text \<open>The requests that leave the client: those of the hooks through the middleware, and those of
  the hooks that call \<open>fetch\<close> themselves as they are.\<close>

inductive leaves :: "(string \<Rightarrow> string option) \<Rightarrow> string \<Rightarrow> request \<Rightarrow> bool" for decode cookie where
  "app_fetch k f \<Longrightarrow> csrfMiddleware decode cookie (f now p) = Some rq \<Longrightarrow> leaves decode cookie rq"
| "tenant_mutation a m \<Longrightarrow> csrfMiddleware decode cookie (m_request m) = Some rq \<Longrightarrow> leaves decode cookie rq"
| "global_mutation m \<Longrightarrow> csrfMiddleware decode cookie (m_request m) = Some rq \<Longrightarrow> leaves decode cookie rq"
| "raw_mutation decode cookie a m \<Longrightarrow> leaves decode cookie (m_request m)"

lemmas key_defs = changes_listKey_def firmware_key_def log_forwarding_key_def devices_key_def device_key_def
  generatedReportsKey_def schedules_key_def settingsKey_def languagesKey_def retentionKey_def
  profiles_key_def smtpKey_def livePushKey_def runtimeSettingsKey_def groupsKey_def my_tenants_key_def
  mfaStatusKey_def mfaPolicyKey_def passkeysKey_def usersKey_def trusted_toggle_key_def sessionsKey_def
  trusted_devices_key_def templates_key_def me_key_def

lemmas tenant_query_defs =
  useConfigModel_def useConfigCapabilities_def useConfigChanges_def useDriftCheck_def
  usePreviewChange_def useDeviceCatalog_def useCatalogModel_def useCatalogDiff_def
  useConfigMap_def useFirmwareActions_def useDevicePlugins_def usePluginModels_def
  useTenantHealth_def useAlerts_def useDeviceMetrics_def useMetricLabels_def
  useReliabilitySummary_def useConfigAuditSummary_def useLogForwardingStatus_def
  DevicesPage_query_def DeviceDetailPage_query_def useGeneratedReports_def
  useReportSchedules_def useReportSettings_def useReportLanguages_def useRetention_def
  usePerimeterAttackers_def useAttackerCountries_def useTenantDevices_def

lemmas global_query_defs =
  useSettingEndpoints_def useProfiles_def useSmtpSettings_def useLivePush_def
  useRuntimeSettings_def useAuditQuery_def useGroups_def useAllTenants_def useMfaStatus_def
  useWebAuthnCredentials_def useMfaPolicy_def useUsers_def useTrustedDeviceToggle_def
  useSessions_def useTrustedDevices_def useSilentTenantAlerts_def useLogFleet_def
  useLogFleetDevices_def useTemplates_def AuthProvider_query_def TenantProvider_query_def

lemmas tenant_mutation_defs =
  useCreateChange_def useScheduleChange_def useCancelChange_def useRevertChange_def
  useProposeCatalogChange_def useFirmwareCheck_def useCreateFirmwareAction_def
  useEnableLogForwarding_def useDisableLogForwarding_def useRotateLogForwarding_def
  useRevokeLogForwarding_def useLogSearch_def DeviceActions_test_def DeviceActions_remove_def
  DeviceCreateModal_mutation_def useUpsertReportSchedule_def useDeleteReportSchedule_def
  useSendScheduleNow_def useUpdateReportSettings_def useDeleteLogo_def useUpdateRetention_def
  useIdsRulesets_def useFirewallRuleModel_def useMonitTestModel_def useIntrospectSetting_def
  useUpsertOverride_def usePreviewTemplate_def useApplyTemplate_def usePreviewProfile_def
  useApplyProfile_def

lemmas global_mutation_defs =
  useCreateProfile_def useUpdateProfile_def useDeleteProfile_def useUpdateSmtpSettings_def
  useTestSmtp_def useSmtpOAuthConnect_def useSetLivePush_def useUpdateRuntimeSettings_def
  downloadAuditCsv_def useCreateGroup_def useUpdateGroup_def useDeleteGroup_def
  useSetGroupMembers_def useAddGroupGrant_def useDeleteGroupGrant_def useMfaSetup_def
  useMfaConfirm_def useMfaDisable_def useMfaRegenerate_def useRemovePasskey_def
  useSetMfaPolicy_def useSetTrustedDeviceToggle_def useResetUserMfa_def useLogoutAll_def
  useRevokeTrustedDevice_def useRevokeAllTrustedDevices_def downloadLogFleet_def
  useCreateTemplate_def useUpdateTemplate_def useDeleteTemplate_def

section \<open>Keys\<close>

lemmas hook_defs = hook_simps key_defs

text \<open>The key of every query, with the rest of the query left folded.\<close>

lemmas tenant_query_keys = tenant_query_defs
  [THEN arg_cong [where f = q_key], simplified hook_defs Let_def rangeFrom_def defaultRange_def
   prod.case query.simps]

lemmas global_query_keys = global_query_defs
  [THEN arg_cong [where f = q_key], simplified hook_defs Let_def query.simps]

lemma infinite_keys:
  "iq_key (useReliabilityEvents a dv) = [JStr ''reliability-events'', jopt a, JStr dv]"
  "iq_key (useConfigAuditEvents a dv) = [JStr ''config-audit-events'', jopt a, JStr dv]"
  by (simp_all add: useReliabilityEvents_def useConfigAuditEvents_def)

lemma tenant_query_key:
  "tenant_query a q \<Longrightarrow> \<exists>tag rest. q_key q = JStr tag # jopt a # rest"
  by (erule tenant_query.cases) (simp_all add: tenant_query_keys)

text \<open>Queries with the same key come from the same hook with the same arguments, or are one of the
  two pairs of hooks that share a key on purpose; either way their requests agree.\<close>

lemma tenant_query_coherent:
  assumes "tenant_query a q" and "tenant_query b q'" and "q_key q = q_key q'"
  shows "q_request q = q_request q'"
  using assms
  by (elim tenant_query.cases)
     (simp_all add: tenant_query_keys, auto simp: tenant_query_defs hook_defs Let_def rangeFrom_def
      defaultRange_def)

lemma global_query_coherent:
  assumes "global_query q" and "global_query q'" and "q_key q = q_key q'"
  shows "q_request q = q_request q'"
  using assms
  by (elim global_query.cases)
     (simp_all add: global_query_keys, auto simp: global_query_defs hook_defs Let_def)

lemma tenant_global_keys: "tenant_query a q \<Longrightarrow> global_query q' \<Longrightarrow> q_key q \<noteq> q_key q'"
  by (elim tenant_query.cases global_query.cases) (simp_all add: tenant_query_keys global_query_keys)

lemma infinite_tenant_keys: "tenant_infinite a iq \<Longrightarrow> tenant_query b q \<Longrightarrow> iq_key iq \<noteq> q_key q"
  by (elim tenant_infinite.cases tenant_query.cases) (simp_all add: tenant_query_keys infinite_keys)

lemma infinite_global_keys: "tenant_infinite a iq \<Longrightarrow> global_query q \<Longrightarrow> iq_key iq \<noteq> q_key q"
  by (elim tenant_infinite.cases global_query.cases) (simp_all add: global_query_keys infinite_keys)

lemma infinite_coherent:
  "tenant_infinite a iq \<Longrightarrow> tenant_infinite b iq' \<Longrightarrow> iq_key iq = iq_key iq' \<Longrightarrow>
     iq_request iq = iq_request iq'"
  by (elim tenant_infinite.cases) (auto simp: useReliabilityEvents_def useConfigAuditEvents_def)

section \<open>One cache for all hooks\<close>

text \<open>The contract a shared cache needs of its clients: a key has one source. Then what any client finds
  under its key, after any history of fills by any of the clients, was obtained from its own source.\<close>

locale keyed_source =
  fixes source :: "'k \<Rightarrow> 's \<Rightarrow> bool"
  assumes one_source: "source k f \<Longrightarrow> source k g \<Longrightarrow> f = g"
begin

definition fill :: "('k \<times> 's) list \<Rightarrow> 'k \<Rightarrow> 's option" where
  "fill history k = map_of (rev history) k"

lemma fill_own:
  assumes "\<forall>(k, f) \<in> set history. source k f" and "source k g"
  shows "fill history k = (if k \<in> fst ` set history then Some g else None)"
proof (cases "map_of (rev history) k")
  case None
  then show ?thesis by (auto simp: fill_def map_of_eq_None_iff)
next
  case (Some f)
  then have "(k, f) \<in> set history" using map_of_SomeD by fastforce
  then have "f = g" using assms one_source by blast
  with Some show ?thesis using \<open>(k, f) \<in> set history\<close> by (force simp: fill_def)
qed

end

lemma tenant_fetch_functional: "tenant_fetch a k en f \<Longrightarrow> tenant_fetch b k en' g \<Longrightarrow> f = g"
proof (elim tenant_fetch.cases, goal_cases)
  case (1 q q')
  then show ?case using tenant_query_coherent by metis
next
  case (4 iq iq')
  then show ?case using infinite_coherent by metis
qed (use infinite_tenant_keys in metis)+

lemma tenant_fetch_not_global: "tenant_fetch a k en f \<Longrightarrow> global_query q \<Longrightarrow> k \<noteq> q_key q"
  by (metis tenant_fetch.cases tenant_global_keys infinite_global_keys)

lemma app_fetch_functional: "app_fetch k f \<Longrightarrow> app_fetch k g \<Longrightarrow> f = g"
proof (elim app_fetch.cases, goal_cases)
  case (1 a en b en')
  then show ?case using tenant_fetch_functional by metis
next
  case (4 q q')
  then show ?case using global_query_coherent by metis
qed (use tenant_fetch_not_global in metis)+

interpretation qc: keyed_source app_fetch
  by unfold_locales (rule app_fetch_functional)

section \<open>Tenants and tokens\<close>

lemma tenant_query_scope:
  assumes "tenant_query a q"
  shows "q_enabled q \<Longrightarrow> struthy a" and "obj_get (rq_params (q_request q now)) ''tenant_id'' = Some (jopt a)"
    and "rq_method (q_request q now) = GET"
  using assms
  by (auto elim!: tenant_query.cases
      simp: tenant_query_defs hook_defs obj_get_def Let_def rangeFrom_def defaultRange_def)

lemma tenant_infinite_scope:
  assumes "tenant_infinite a iq"
  shows "iq_enabled iq \<Longrightarrow> struthy a" and "obj_get (rq_params (iq_request iq p)) ''tenant_id'' = Some (jopt a)"
    and "rq_method (iq_request iq p) = GET" and "\<exists>tag rest. iq_key iq = JStr tag # jopt a # rest"
  using assms
  by (auto elim!: tenant_infinite.cases simp: useReliabilityEvents_def useConfigAuditEvents_def
      event_page_request_def hook_defs obj_get_def)

lemma tenant_fetch_scope:
  assumes "tenant_fetch a k en f"
  shows "en \<Longrightarrow> struthy a" and "obj_get (rq_params (f now p)) ''tenant_id'' = Some (jopt a)"
    and "rq_method (f now p) = GET" and "\<exists>tag rest. k = JStr tag # jopt a # rest"
  using assms
  by (auto elim!: tenant_fetch.cases simp: tenant_query_scope(2,3) tenant_infinite_scope(2,3)
      dest: tenant_query_scope(1) tenant_infinite_scope(1) tenant_query_key tenant_infinite_scope(4))

lemma global_query_get: "global_query q \<Longrightarrow> rq_method (q_request q now) = GET"
  by (auto elim!: global_query.cases simp: global_query_defs hook_defs Let_def)

lemma app_fetch_get: "app_fetch k f \<Longrightarrow> rq_method (f now p) = GET"
  by (auto elim!: app_fetch.cases simp: tenant_fetch_scope(3) global_query_get)

lemma middleware_token:
  assumes "csrfMiddleware decode cookie rq = Some rq'" and "rq_method rq' \<noteq> GET"
  shows "obj_get (rq_headers rq') ''X-OPNGMS-CSRF'' = csrfToken decode cookie"
  using assms
  by (auto simp: csrfMiddleware_def mutating_method rec.get_put split: if_splits option.splits)

lemma raw_token:
  assumes "raw_mutation decode cookie a m" and "rq_method (m_request m) \<noteq> GET"
  shows "obj_get (rq_headers (m_request m)) ''X-OPNGMS-CSRF'' = csrfToken decode cookie"
  using assms
  by (auto elim!: raw_mutation.cases simp: useGenerateReport_def useUploadLogo_def
      useDownloadReport_def mk_mutation_def obj_get_def)

text \<open>C8. The query cache is shared soundly. After any history of fetches by any of the
  application's queries, what a query finds under its own key was fetched by its own request: two
  hooks never share a key unless they make the same request.\<close>

theorem cache_holds_own_request:
  assumes "\<forall>(k, f) \<in> set history. app_fetch k f" and "app_fetch k g"
  shows "map_of (rev history) k = (if k \<in> fst ` set history then Some g else None)"
  using qc.fill_own [OF assms] by (simp add: qc.fill_def)

theorem cache_holds_own_request_witness:
  "map_of (rev [(q_key (useTenantDevices (Some ''t1'')), \<lambda>now (_::string option). q_request (useTenantDevices (Some ''t1'')) now)])
       (q_key (DevicesPage_query (Some ''t1''))) =
     Some (\<lambda>now _. q_request (DevicesPage_query (Some ''t1'')) now)"
proof -
  let ?f = "\<lambda>now (_::string option). q_request (useTenantDevices (Some ''t1'')) now"
  have "app_fetch (q_key (useTenantDevices (Some ''t1''))) ?f"
    using tenant_query.intros(29) by (rule app_fetch.intros(1) [OF tenant_fetch.intros(1)])
  moreover have "app_fetch (q_key (DevicesPage_query (Some ''t1'')))
      (\<lambda>now _. q_request (DevicesPage_query (Some ''t1'')) now)"
    using tenant_query.intros(20) by (rule app_fetch.intros(1) [OF tenant_fetch.intros(1)])
  ultimately show ?thesis
    using cache_holds_own_request [of "[(q_key (useTenantDevices (Some ''t1'')), ?f)]"]
    by (simp add: useTenantDevices_def DevicesPage_query_def mk_query_def)
qed

text \<open>C9. Tenant isolation of reads. A query built for the active tenant is enabled only when a
  tenant is selected, its request names exactly that tenant, and no query built for another tenant
  (or for none) has the same key, so switching tenant never serves the data of the previous one.\<close>

theorem tenant_isolation:
  assumes "tenant_fetch a k en f"
  shows "(en \<longrightarrow> (\<exists>t. a = Some t \<and> t \<noteq> [])) \<and>
    obj_get (rq_params (f now p)) ''tenant_id'' = Some (jopt a) \<and>
    (\<forall>b en' g. b \<noteq> a \<longrightarrow> \<not> tenant_fetch b k en' g) \<and>
    (\<forall>q. global_query q \<longrightarrow> k \<noteq> q_key q)"
proof (intro conjI allI impI)
  show "\<exists>t. a = Some t \<and> t \<noteq> []" if en
    using tenant_fetch_scope(1) [OF assms that] by (simp add: struthy_iff)
  show "\<not> tenant_fetch b k en' g" if "b \<noteq> a" for b en' g
    using tenant_fetch_scope(4) [OF assms] tenant_fetch_scope(4) [of b k en' g] that by auto
qed (use tenant_fetch_scope(2) tenant_fetch_not_global assms in blast)+

theorem tenant_isolation_witness:
  "(\<forall>en' g. \<not> tenant_fetch (Some ''t2'') (q_key (useTenantHealth (Some ''t1''))) en' g) \<and>
   obj_get (rq_params (q_request (useTenantHealth (Some ''t1'')) 0)) ''tenant_id'' = Some (JStr ''t1'')"
proof -
  have "tenant_query (Some ''t1'') (useTenantHealth (Some ''t1''))" by (rule tenant_query.intros)
  from tenant_isolation [OF tenant_fetch.intros(1) [OF this], where now = 0] show ?thesis by simp
qed

text \<open>The keys that tenant mutations name, each as the key of a query for the same tenant.\<close>

lemma tenant_read_key: "tenant_query a q \<Longrightarrow> q_key q = k \<Longrightarrow> \<exists>en f. tenant_fetch a k en f"
  using tenant_fetch.intros(1) by blast

lemma tenant_read_keys:
  "\<exists>en f. tenant_fetch a [JStr ''config-changes'', jopt a, JStr dv] en f"
  "\<exists>en f. tenant_fetch a [JStr ''firmware-actions'', jopt a, JStr dv] en f"
  "\<exists>en f. tenant_fetch a [JStr ''log-forwarding'', jopt a, JStr dv] en f"
  "\<exists>en f. tenant_fetch a [JStr ''generated-reports'', jopt a] en f"
  "\<exists>en f. tenant_fetch a [JStr ''report-schedules'', jopt a] en f"
  "\<exists>en f. tenant_fetch a [JStr ''report-settings'', jopt a] en f"
  "\<exists>en f. tenant_fetch a [JStr ''retention'', jopt a] en f"
  "\<exists>en f. tenant_fetch (Some t) [JStr ''devices'', JStr t] en f"
  "\<exists>en f. tenant_fetch (Some t) [JStr ''device'', JStr t, JStr dv] en f"
  by (rule tenant_read_key [OF tenant_query.intros(3) [of _ "Some dv"]]
      tenant_read_key [OF tenant_query.intros(10)] tenant_read_key [OF tenant_query.intros(19)]
      tenant_read_key [OF tenant_query.intros(22)] tenant_read_key [OF tenant_query.intros(23)]
      tenant_read_key [OF tenant_query.intros(24)] tenant_read_key [OF tenant_query.intros(26)]
      tenant_read_key [OF tenant_query.intros(20)]
      tenant_read_key [OF tenant_query.intros(21) [of _ "Some dv"]];
      simp add: tenant_query_keys; fail)+

lemma global_read_keys:
  "\<exists>q. global_query q \<and> q_key q = [JStr ''profiles'']"
  "\<exists>q. global_query q \<and> q_key q = [JStr ''smtp-settings'']"
  "\<exists>q. global_query q \<and> q_key q = [JStr ''live-push'']"
  "\<exists>q. global_query q \<and> q_key q = [JStr ''runtime-settings'']"
  "\<exists>q. global_query q \<and> q_key q = [JStr ''groups'']"
  "\<exists>q. global_query q \<and> q_key q = [JStr ''mfa'', JStr ''status'']"
  "\<exists>q. global_query q \<and> q_key q = [JStr ''mfa'', JStr ''policy'']"
  "\<exists>q. global_query q \<and> q_key q = [JStr ''mfa'', JStr ''passkeys'']"
  "\<exists>q. global_query q \<and> q_key q = [JStr ''users'']"
  "\<exists>q. global_query q \<and> q_key q = [JStr ''trusted-device-toggle'']"
  "\<exists>q. global_query q \<and> q_key q = [JStr ''trusted-devices'']"
  "\<exists>q. global_query q \<and> q_key q = [JStr ''templates'']"
  by (metis global_query.intros global_query_keys)+

lemma tenant_mutation_scope:
  "tenant_mutation a m \<Longrightarrow> obj_get (rq_params (m_request m)) ''tenant_id'' = Some (jopt a)"
  by (erule tenant_mutation.cases)
     (simp_all add: tenant_mutation_defs hook_simps change_params_def schedule_params_def
      template_params_def profile_params_def obj_get_def)

lemma tenant_mutation_keys:
  "tenant_mutation a m \<Longrightarrow> opn \<in> set (m_success m d) \<Longrightarrow> touched opn = Some k \<Longrightarrow>
     \<exists>en f. tenant_fetch a k en f"
  by (erule tenant_mutation.cases)
     (auto simp: tenant_mutation_defs hook_defs tenant_read_keys)

lemma raw_mutation_keys:
  "raw_mutation decode cookie a m \<Longrightarrow> opn \<in> set (m_success m d) \<Longrightarrow> touched opn = Some k \<Longrightarrow>
     \<exists>en f. tenant_fetch a k en f"
  by (erule raw_mutation.cases)
     (auto simp: useGenerateReport_def useUploadLogo_def useDownloadReport_def hook_defs
      tenant_read_keys)

lemma global_mutation_keys:
  "global_mutation m \<Longrightarrow> opn \<in> set (m_success m d) \<Longrightarrow> touched opn = Some k \<Longrightarrow>
     \<exists>q. global_query q \<and> q_key q = k"
  by (erule global_mutation.cases)
     (auto simp: global_mutation_defs hook_defs global_read_keys)

text \<open>Writes stay within their tenant and keep the cache honest. A mutation built for a tenant
  sends its request to that tenant, and every key it invalidates or writes on success is the key of a
  query that the application reads for the same tenant; the keys that the other mutations touch are
  keys of queries that no tenant owns. No invalidation names a key nobody reads.\<close>

theorem mutations_touch_read_keys:
  "(tenant_mutation a m \<longrightarrow> obj_get (rq_params (m_request m)) ''tenant_id'' = Some (jopt a)) \<and>
   (tenant_mutation a m \<or> raw_mutation decode cookie a m \<longrightarrow> opn \<in> set (m_success m d) \<longrightarrow>
      touched opn = Some k \<longrightarrow> (\<exists>en f. tenant_fetch a k en f)) \<and>
   (global_mutation m \<longrightarrow> opn \<in> set (m_success m d) \<longrightarrow> touched opn = Some k \<longrightarrow>
      (\<exists>q. global_query q \<and> q_key q = k))"
  using tenant_mutation_scope tenant_mutation_keys raw_mutation_keys global_mutation_keys by blast

theorem mutations_touch_read_keys_witness:
  "\<exists>en f. tenant_fetch (Some ''t1'') [JStr ''firmware-actions'', JStr ''t1'', JStr ''d1''] en f"
proof -
  have "tenant_mutation (Some ''t1'') (useCreateFirmwareAction (Some ''t1'') ''d1'' JNull)"
    by (rule tenant_mutation.intros)
  with mutations_touch_read_keys
    [of "Some ''t1''" "useCreateFirmwareAction (Some ''t1'') ''d1'' JNull" Some "[]"
        "Invalidate [JStr ''firmware-actions'', JStr ''t1'', JStr ''d1'']" None]
  show ?thesis by (simp add: useCreateFirmwareAction_def hook_defs)
qed

text \<open>Session token on every write. Every request with a method other than GET that leaves the
  client, whether through the middleware or from the hooks that call \<open>fetch\<close> themselves, carries
  the decoded token of the session cookie in its header; and reads of the cache are GET requests.\<close>

theorem writes_carry_token:
  assumes "leaves decode cookie rq" and "rq_method rq \<noteq> GET"
  shows "obj_get (rq_headers rq) ''X-OPNGMS-CSRF'' = csrfToken decode cookie \<and>
    csrfToken decode cookie \<noteq> None \<and> (\<forall>k f now p. app_fetch k f \<longrightarrow> rq_method (f now p) = GET)"
proof -
  have "obj_get (rq_headers rq) ''X-OPNGMS-CSRF'' = csrfToken decode cookie"
    using assms by (auto elim!: leaves.cases dest: middleware_token raw_token)
  moreover have "csrfToken decode cookie \<noteq> None"
    using assms by (cases rule: leaves.cases)
      (auto simp: csrfMiddleware_def mutating_method app_fetch_get useGenerateReport_def
        useUploadLogo_def useDownloadReport_def mk_mutation_def elim!: raw_mutation.cases
        split: if_splits option.splits)
  ultimately show ?thesis using app_fetch_get by blast
qed

theorem writes_carry_token_witness:
  "\<exists>m. useUploadLogo Some ''a=1; opngms_csrf=tok'' [] (Some ''t1'') JNull = Some m \<and>
     obj_get (rq_headers (m_request m)) ''X-OPNGMS-CSRF'' = Some ''tok''"
proof -
  have tok: "csrfToken Some ''a=1; opngms_csrf=tok'' = Some ''tok''" by code_simp
  then obtain m where m: "useUploadLogo Some ''a=1; opngms_csrf=tok'' [] (Some ''t1'') JNull = Some m"
    by (simp add: useUploadLogo_def)
  then have "rq_method (m_request m) \<noteq> GET" by (auto simp: useUploadLogo_def mk_mutation_def)
  with writes_carry_token [OF leaves.intros(4) [OF raw_mutation.intros(2) [OF m]]] m tok
  show ?thesis by simp
qed

end
