(* ===== verification/Session.thy ===== *)
theory Session
  imports HooksAdmin
begin

text \<open>
  Who is signed in, for which tenant, and what they may open: the authentication provider and the
  route guards (\<^verbatim>\<open>auth\<close>, \<^verbatim>\<open>App.tsx\<close>, \<^verbatim>\<open>components/AppShell.tsx\<close>), the
  permissions hook next to the backend's authorization matrix it mirrors
  (\<^verbatim>\<open>backend/app/core/rbac.py\<close>), and the tenant provider with its persisted selection
  (\<^verbatim>\<open>tenant/TenantProvider.tsx\<close>, \<^verbatim>\<open>components/TenantSwitcher.tsx\<close>).

  A screen is what a component renders: nothing, a redirect, the multi-factor setup gate, or a page
  by name. Which route of a table a path selects is the router library's business: it is the parameter
  \<open>pick\<close>, of which only that it selects a route of the table is used.
\<close>

section \<open>Users and tenants\<close>

record me =
  me_id :: string
  me_email :: string
  me_name :: string
  is_superadmin :: bool
  mfa_setup_required :: "bool option"

record my_tenant =
  mt_id :: string
  mt_name :: string
  mt_slug :: string
  mt_role :: "string option"

text \<open>The state of a query as the providers read it: \<open>isLoading\<close> and \<open>data\<close>.\<close>

record 'd query_state =
  qs_loading :: bool
  qs_data :: "'d option"

record auth_state =
  as_me :: "me option"
  as_loading :: bool

text \<open>\<open>data\<close> is \<open>Me | null | undefined\<close>; \<open>data ?? null\<close> flattens it.\<close>

definition AuthProvider :: "me option query_state \<Rightarrow> auth_state" where
  "AuthProvider q = \<lparr>as_me = nullish_or (qs_data q) None, as_loading = qs_loading q\<rparr>"

definition useIsSuperadmin :: "auth_state \<Rightarrow> bool" where
  "useIsSuperadmin s = nullish_or (map_option is_superadmin (as_me s)) False"

section \<open>Permissions\<close>

record permissions =
  pm_role :: "string option"
  isTenantAdmin :: bool
  isOperator :: bool

definition active_role :: "my_tenant list \<Rightarrow> string option \<Rightarrow> string option" where
  "active_role tenants activeId =
     Option.bind (find (\<lambda>t. Some (mt_id t) = activeId) tenants) mt_role"

definition usePermissions :: "auth_state \<Rightarrow> my_tenant list \<Rightarrow> string option \<Rightarrow> permissions" where
  "usePermissions s tenants activeId =
     (let isSuperadmin = nullish_or (map_option is_superadmin (as_me s)) False;
          role = active_role tenants activeId;
          ta = isSuperadmin \<or> role = Some ''tenant_admin'';
          op = ta \<or> role = Some ''operator''
      in \<lparr>pm_role = role, isTenantAdmin = ta, isOperator = op\<rparr>)"

text \<open>The backend's authorization matrix.\<close>

datatype action = TENANT_MANAGE | USER_MANAGE | TEMPLATE_MANAGE | GROUP_MANAGE | LOG_FLEET_VIEW
  | SYSTEM_MANAGE | AUDIT_VIEW | MEMBERSHIP_MANAGE | DEVICE_VIEW | DEVICE_WRITE | CONFIG_PUSH
  | REPORT_GENERATE | REPORT_CONFIG | RETENTION_CONFIG | LOG_VIEW

definition ORG_ACTIONS :: "action set" where
  "ORG_ACTIONS = {TENANT_MANAGE, USER_MANAGE, TEMPLATE_MANAGE, GROUP_MANAGE, LOG_FLEET_VIEW,
     SYSTEM_MANAGE, AUDIT_VIEW}"

fun TENANT_MATRIX :: "action \<Rightarrow> string set" where
  "TENANT_MATRIX MEMBERSHIP_MANAGE = {''tenant_admin''}"
| "TENANT_MATRIX DEVICE_VIEW = {''tenant_admin'', ''operator'', ''read_only''}"
| "TENANT_MATRIX DEVICE_WRITE = {''tenant_admin'', ''operator''}"
| "TENANT_MATRIX CONFIG_PUSH = {''tenant_admin'', ''operator''}"
| "TENANT_MATRIX REPORT_GENERATE = {''tenant_admin'', ''operator''}"
| "TENANT_MATRIX REPORT_CONFIG = {''tenant_admin''}"
| "TENANT_MATRIX RETENTION_CONFIG = {''tenant_admin''}"
| "TENANT_MATRIX LOG_VIEW = {''tenant_admin'', ''operator''}"
| "TENANT_MATRIX _ = {}"

definition can :: "bool \<Rightarrow> string option \<Rightarrow> action \<Rightarrow> bool" where
  "can super role act =
     (if super then True else if act \<in> ORG_ACTIONS then False
      else case role of None \<Rightarrow> False | Some r \<Rightarrow> r \<in> TENANT_MATRIX act)"

definition ROLE_RANK :: "string \<Rightarrow> nat" where
  "ROLE_RANK r = (if r = ''read_only'' then 1 else if r = ''operator'' then 2
                  else if r = ''tenant_admin'' then 3 else 0)"

fun highest_loop :: "string option list \<Rightarrow> string option \<Rightarrow> nat \<Rightarrow> string option" where
  "highest_loop [] best best_rank = best"
| "highest_loop (role # roles) best best_rank =
     (let rank = ROLE_RANK (nullish_or role []) in
      if rank > best_rank then highest_loop roles role rank else highest_loop roles best best_rank)"

definition highest_role :: "string option list \<Rightarrow> string option" where
  "highest_role roles = highest_loop roles None 0"

section \<open>Navigation and routes\<close>

definition AppShellNav :: "auth_state \<Rightarrow> my_tenant list \<Rightarrow> string option \<Rightarrow> string list" where
  "AppShellNav s tenants activeId =
     (let p = usePermissions s tenants activeId;
          super = (case as_me s of None \<Rightarrow> False | Some m \<Rightarrow> is_superadmin m)
      in [''/'', ''/devices'', ''/alerts'', ''/perimeter'', ''/reports'']
         @ (if isOperator p then [''/logs''] else [])
         @ (if isTenantAdmin p then [''/reports/settings''] else [])
         @ (if isTenantAdmin p then [''/reports/schedule''] else [])
         @ [''/security/sessions'', ''/security/mfa'']
         @ (if super then [''/admin/groups''] else [])
         @ (if super then [''/admin/templates''] else [])
         @ (if super then [''/admin/smtp''] else [])
         @ (if super then [''/admin/log-fleet''] else [])
         @ (if super then [''/admin/system''] else [])
         @ (if super then [''/admin/audit''] else []))"

datatype screen = Nothing | NavigateTo string | MfaSetupGate | Page string

definition RequireSuperadmin :: "auth_state \<Rightarrow> screen \<Rightarrow> screen" where
  "RequireSuperadmin s children =
     (if \<not> (case as_me s of None \<Rightarrow> False | Some m \<Rightarrow> is_superadmin m) then NavigateTo ''/''
      else children)"

definition AppShell_routes :: "auth_state \<Rightarrow> (string \<times> screen) list" where
  "AppShell_routes s =
     [(''/'', Page ''OverviewPage''), (''/devices'', Page ''DevicesPage''),
      (''/devices/:deviceId'', Page ''DeviceDetailPage''), (''/alerts'', Page ''AlertsPage''),
      (''/perimeter'', Page ''PerimeterPage''), (''/reports'', Page ''ReportsPage''),
      (''/reports/settings'', Page ''ReportSettingsPage''),
      (''/reports/schedule'', Page ''ReportSchedulePage''), (''/logs'', Page ''LogsPage''),
      (''/security/sessions'', Page ''SessionsPage''), (''/security/mfa'', Page ''MfaPage''),
      (''/admin/groups'', RequireSuperadmin s (Page ''GroupsPage'')),
      (''/admin/templates'', RequireSuperadmin s (Page ''TemplateLibraryPage'')),
      (''/admin/smtp'', RequireSuperadmin s (Page ''SmtpSettingsPage'')),
      (''/admin/log-fleet'', RequireSuperadmin s (Page ''LogFleetPage'')),
      (''/admin/system'', RequireSuperadmin s (Page ''SystemSettingsPage'')),
      (''/admin/audit'', RequireSuperadmin s (Page ''AuditPage''))]"

definition ProtectedRoute :: "auth_state \<Rightarrow> screen \<Rightarrow> screen" where
  "ProtectedRoute s children =
     (if as_loading s then Nothing
      else case as_me s of
        None \<Rightarrow> NavigateTo ''/login''
      | Some m \<Rightarrow> if nullish_or (mfa_setup_required m) False then MfaSetupGate else children)"

text \<open>What the router renders for a path: the outer table of \<^verbatim>\<open>App.tsx\<close>, then the shell's.
  \<open>pick\<close> is the pattern the router selects among those of the shell's table.\<close>

definition App :: "(string list \<Rightarrow> string \<Rightarrow> string option) \<Rightarrow> auth_state \<Rightarrow> string \<Rightarrow> screen" where
  "App pick s path =
     (if path = ''/login'' then Page ''LoginPage''
      else ProtectedRoute s
        (case pick (map fst (AppShell_routes s)) path of
           None \<Rightarrow> Nothing
         | Some pat \<Rightarrow> nullish_or (map_of (AppShell_routes s) pat) Nothing))"

text \<open>Signing out of the shell: the reply's status is not looked at, but a rejected request stops
  the handler.\<close>

definition logout_request :: request where
  "logout_request = api_call POST ''/api/logout'' [] [] None"

fun logout :: "api_result \<Rightarrow> cache_op list" where
  "logout Rejected = []"
| "logout (Reply d e s) = [ClearCache, RefreshMe, Goto ''/login'']"

section \<open>The tenant provider\<close>

fun readPersistedId :: "storage \<Rightarrow> string option" where
  "readPersistedId Blocked = None"
| "readPersistedId (Stored v) = v"

definition persistId :: "string \<Rightarrow> storage \<Rightarrow> storage" where
  [simp]: "persistId i st = storage_set i st"

record tenant_state =
  tp_storedId :: "string option"
  tp_query :: "my_tenant list query_state"
  tp_storage :: storage

definition tp_tenants :: "tenant_state \<Rightarrow> my_tenant list" where
  "tp_tenants s = nullish_or (qs_data (tp_query s)) []"

definition TenantProvider_mount :: "my_tenant list query_state \<Rightarrow> storage \<Rightarrow> tenant_state" where
  "TenantProvider_mount q st = \<lparr>tp_storedId = readPersistedId st, tp_query = q, tp_storage = st\<rparr>"

definition setActiveId :: "string \<Rightarrow> tenant_state \<Rightarrow> tenant_state" where
  "setActiveId i s = s\<lparr>tp_storage := persistId i (tp_storage s), tp_storedId := Some i\<rparr>"

text \<open>The memoised derivation: the effective id, and the storage after it (it persists a fallback).\<close>

definition effectiveActive :: "tenant_state \<Rightarrow> string option \<times> storage" where
  "effectiveActive s =
     (let tenants = tp_tenants s in
      if qs_loading (tp_query s) \<or> tenants = [] then (tp_storedId s, tp_storage s)
      else if struthy (tp_storedId s) \<and> (\<exists>t \<in> set tenants. Some (mt_id t) = tp_storedId s)
           then (tp_storedId s, tp_storage s)
      else let fallback = mt_id (hd tenants) in
           (Some fallback,
            if fallback \<noteq> [] then persistId fallback (tp_storage s) else tp_storage s))"

definition tp_activeId :: "tenant_state \<Rightarrow> string option" where
  "tp_activeId s = fst (effectiveActive s)"

definition render :: "tenant_state \<Rightarrow> tenant_state" where
  "render s = s\<lparr>tp_storage := snd (effectiveActive s)\<rparr>"

text \<open>The switcher offers the tenants of the list, and its change handler ignores an empty value.\<close>

definition TenantSwitcher_options :: "tenant_state \<Rightarrow> (string \<times> string) list" where
  "TenantSwitcher_options s = map (\<lambda>t. (mt_id t, mt_name t)) (tp_tenants s)"

definition TenantSwitcher_onChange :: "string option \<Rightarrow> tenant_state \<Rightarrow> tenant_state" where
  "TenantSwitcher_onChange v s =
     (case v of None \<Rightarrow> s | Some i \<Rightarrow> if i = [] then s else setActiveId i s)"

text \<open>Runs of the provider in which the list of tenants, once loaded, stays the same: mounting,
  replies to the tenant query, and choices among the offered options, each followed by a render.\<close>

inductive session :: "my_tenant list \<Rightarrow> storage \<Rightarrow> tenant_state \<Rightarrow> bool" for ts st where
  mounted: "session ts st (render (TenantProvider_mount \<lparr>qs_loading = True, qs_data = None\<rparr> st))"
| loaded: "session ts st s \<Longrightarrow>
     session ts st (render (s\<lparr>tp_query := \<lparr>qs_loading = False, qs_data = Some ts\<rparr>\<rparr>))"
| chosen: "session ts st s \<Longrightarrow> v \<in> fst ` set (TenantSwitcher_options s) \<Longrightarrow>
     session ts st (render (TenantSwitcher_onChange (Some v) s))"

section \<open>What is proved\<close>

lemmas session_simps = usePermissions_def Let_def

definition is_super :: "auth_state \<Rightarrow> bool" where
  "is_super s = (case as_me s of None \<Rightarrow> False | Some m \<Rightarrow> is_superadmin m)"

lemma is_super_nullish: "nullish_or (map_option is_superadmin (as_me s)) False = is_super s"
  by (cases "as_me s") (simp_all add: is_super_def)

text \<open>The actions of the backend behind the pages of the shell.\<close>

definition page_needs :: "string \<Rightarrow> action set" where
  "page_needs path =
     (if path = ''/logs'' then {LOG_VIEW}
      else if path \<in> {''/reports/settings'', ''/reports/schedule''} then {REPORT_CONFIG}
      else if path = ''/admin/groups'' then {GROUP_MANAGE}
      else if path = ''/admin/templates'' then {TEMPLATE_MANAGE}
      else if path = ''/admin/smtp'' then {USER_MANAGE}
      else if path = ''/admin/system'' then {SYSTEM_MANAGE}
      else if path = ''/admin/log-fleet'' then {LOG_FLEET_VIEW}
      else if path = ''/admin/audit'' then {AUDIT_VIEW}
      else {})"

lemma can_simps [simp]:
  "can True role a"
  "can False role LOG_VIEW \<longleftrightarrow> role = Some ''tenant_admin'' \<or> role = Some ''operator''"
  "can False role DEVICE_WRITE \<longleftrightarrow> role = Some ''tenant_admin'' \<or> role = Some ''operator''"
  "can False role CONFIG_PUSH \<longleftrightarrow> role = Some ''tenant_admin'' \<or> role = Some ''operator''"
  "can False role REPORT_GENERATE \<longleftrightarrow> role = Some ''tenant_admin'' \<or> role = Some ''operator''"
  "can False role REPORT_CONFIG \<longleftrightarrow> role = Some ''tenant_admin''"
  "can False role MEMBERSHIP_MANAGE \<longleftrightarrow> role = Some ''tenant_admin''"
  "can False role RETENTION_CONFIG \<longleftrightarrow> role = Some ''tenant_admin''"
  "a \<in> ORG_ACTIONS \<Longrightarrow> \<not> can False role a"
  by (auto simp: can_def ORG_ACTIONS_def split: option.splits)

text \<open>C15. The interface shows what the backend allows. For every user and active tenant, the flags
  of the permissions hook are exactly the backend's decisions: the tenant-administrator flag is the
  decision for configuring reports, retention and membership, the operator flag the decision for
  writing devices, pushing configuration, generating reports and viewing logs.\<close>

theorem permissions_match_backend:
  "isTenantAdmin (usePermissions s ts a) = can (is_super s) (active_role ts a) REPORT_CONFIG
   \<and> isTenantAdmin (usePermissions s ts a) = can (is_super s) (active_role ts a) RETENTION_CONFIG
   \<and> isTenantAdmin (usePermissions s ts a) = can (is_super s) (active_role ts a) MEMBERSHIP_MANAGE
   \<and> isOperator (usePermissions s ts a) = can (is_super s) (active_role ts a) DEVICE_WRITE
   \<and> isOperator (usePermissions s ts a) = can (is_super s) (active_role ts a) CONFIG_PUSH
   \<and> isOperator (usePermissions s ts a) = can (is_super s) (active_role ts a) REPORT_GENERATE
   \<and> isOperator (usePermissions s ts a) = can (is_super s) (active_role ts a) LOG_VIEW"
  by (cases "is_super s") (auto simp: session_simps is_super_nullish)

lemma nav_mem:
  "path \<in> set (AppShellNav s ts a) \<longleftrightarrow>
     path \<in> {''/'', ''/devices'', ''/alerts'', ''/perimeter'', ''/reports'', ''/security/sessions'', ''/security/mfa''}
     \<or> path = ''/logs'' \<and> isOperator (usePermissions s ts a)
     \<or> path \<in> {''/reports/settings'', ''/reports/schedule''} \<and> isTenantAdmin (usePermissions s ts a)
     \<or> path \<in> {''/admin/groups'', ''/admin/templates'', ''/admin/smtp'', ''/admin/log-fleet'', ''/admin/system'',
               ''/admin/audit''} \<and> is_super s"
  by (auto simp: AppShellNav_def Let_def is_super_def)

text \<open>Every link of the navigation leads to a page the backend will serve, and none is missing:
  a page of the shell is linked exactly when the backend allows the actions behind it.\<close>

theorem nav_matches_backend:
  assumes "path \<in> fst ` set (AppShell_routes s)" and "path \<noteq> ''/devices/:deviceId''"
  shows "path \<in> set (AppShellNav s ts a) \<longleftrightarrow>
    (\<forall>act \<in> page_needs path. can (is_super s) (active_role ts a) act)"
proof -
  have "path \<in> {''/'', ''/devices'', ''/alerts'', ''/perimeter'', ''/reports'', ''/reports/settings'',
      ''/reports/schedule'', ''/logs'', ''/security/sessions'', ''/security/mfa'', ''/admin/groups'',
      ''/admin/templates'', ''/admin/smtp'', ''/admin/log-fleet'', ''/admin/system'', ''/admin/audit''}"
    using assms by (auto simp: AppShell_routes_def)
  then show ?thesis
    by (cases "is_super s")
       (auto simp: nav_mem page_needs_def session_simps is_super_nullish ORG_ACTIONS_def)
qed

definition sample_user :: "bool \<Rightarrow> auth_state" where
  "sample_user super =
     \<lparr>as_me = Some \<lparr>me_id = ''u1'', me_email = ''u@x'', me_name = ''U'', is_superadmin = super,
        mfa_setup_required = None\<rparr>, as_loading = False\<rparr>"

definition sample_tenants :: "my_tenant list" where
  "sample_tenants =
     [\<lparr>mt_id = ''t1'', mt_name = ''A'', mt_slug = ''a'', mt_role = Some ''operator''\<rparr>,
      \<lparr>mt_id = ''t2'', mt_name = ''B'', mt_slug = ''b'', mt_role = Some ''read_only''\<rparr>]"

theorem nav_matches_backend_witness:
  "''/logs'' \<in> set (AppShellNav (sample_user False) sample_tenants (Some ''t1''))
   \<and> ''/admin/audit'' \<notin> set (AppShellNav (sample_user False) sample_tenants (Some ''t1''))"
  using nav_matches_backend [of "''/logs''" "sample_user False" sample_tenants "Some ''t1''"]
    nav_matches_backend [of "''/admin/audit''" "sample_user False" sample_tenants "Some ''t1''"]
  by (simp add: AppShell_routes_def page_needs_def sample_user_def sample_tenants_def is_super_def
      active_role_def ORG_ACTIONS_def)

text \<open>The pages behind the superadmin guard.\<close>

definition admin_pages :: "string set" where
  "admin_pages = {''GroupsPage'', ''TemplateLibraryPage'', ''SmtpSettingsPage'', ''LogFleetPage'',
     ''SystemSettingsPage'', ''AuditPage''}"

lemma routes_guard:
  "map_of (AppShell_routes s) pat = Some (Page p) \<Longrightarrow> p \<in> admin_pages \<Longrightarrow> is_super s"
  by (auto simp: AppShell_routes_def RequireSuperadmin_def is_super_def admin_pages_def
      split: if_splits)

lemma routes_gate: "map_of (AppShell_routes s) pat \<noteq> Some MfaSetupGate"
  by (auto simp: AppShell_routes_def RequireSuperadmin_def)

text \<open>C12. Route guards. Whatever path is opened and however the router matches it, a page other than
  the login page is rendered only for a signed-in user whose session state is known and who owes no
  multi-factor enrolment, and an administration page only for a superadmin; a user who owes enrolment
  sees the setup gate on every path, and an unknown user is sent to the login page.\<close>

theorem routes_guarded:
  assumes "path \<noteq> ''/login''"
  shows "(App pick s path = Page p \<longrightarrow>
      (\<exists>m. as_me s = Some m \<and> \<not> as_loading s \<and> mfa_setup_required m \<noteq> Some True \<and>
           (p \<in> admin_pages \<longrightarrow> is_superadmin m)))
    \<and> (as_loading s \<longrightarrow> App pick s path = Nothing)
    \<and> (\<not> as_loading s \<and> as_me s = None \<longrightarrow> App pick s path = NavigateTo ''/login'')
    \<and> (\<not> as_loading s \<longrightarrow> as_me s = Some m' \<longrightarrow>
         App pick s path = MfaSetupGate \<longleftrightarrow> mfa_setup_required m' = Some True)"
proof -
  let ?child = "case pick (map fst (AppShell_routes s)) path of None \<Rightarrow> Nothing
    | Some pat \<Rightarrow> nullish_or (map_of (AppShell_routes s) pat) Nothing"
  have app: "App pick s path = ProtectedRoute s ?child" using assms by (simp add: App_def)
  have page: "is_super s" if "?child = Page p" "p \<in> admin_pages" for p
    using that routes_guard by (auto split: option.splits simp: nullish_or_def)
  have gate: "?child \<noteq> MfaSetupGate"
    using routes_gate by (auto split: option.splits simp: nullish_or_def)
  have req: "nullish_or (mfa_setup_required m) False \<longleftrightarrow> mfa_setup_required m = Some True" for m :: me
    by (cases "mfa_setup_required m") auto
  show ?thesis
    unfolding app using page gate
    by (auto simp: ProtectedRoute_def req is_super_def split: option.splits if_splits)
qed

theorem routes_guarded_witness:
  "App (\<lambda>ps p. List.find (\<lambda>q. q = p) ps) (sample_user False) ''/admin/audit'' \<noteq> Page ''AuditPage''
   \<and> App (\<lambda>ps p. List.find (\<lambda>q. q = p) ps) (sample_user True) ''/admin/audit'' = Page ''AuditPage''"
proof
  show "App (\<lambda>ps p. List.find (\<lambda>q. q = p) ps) (sample_user False) ''/admin/audit'' \<noteq> Page ''AuditPage''"
    using routes_guarded [of "''/admin/audit''" "\<lambda>ps p. List.find (\<lambda>q. q = p) ps" "sample_user False"
        "''AuditPage''"]
    by (auto simp: sample_user_def admin_pages_def)
  show "App (\<lambda>ps p. List.find (\<lambda>q. q = p) ps) (sample_user True) ''/admin/audit'' = Page ''AuditPage''"
    by (simp add: App_def AppShell_routes_def sample_user_def ProtectedRoute_def RequireSuperadmin_def)
qed

subsection \<open>The active tenant\<close>

lemma activeId_eq:
  "tp_activeId s =
     (if qs_loading (tp_query s) \<or> tp_tenants s = [] then tp_storedId s
      else if struthy (tp_storedId s) \<and> (\<exists>t \<in> set (tp_tenants s). Some (mt_id t) = tp_storedId s)
           then tp_storedId s
      else Some (mt_id (hd (tp_tenants s))))"
  by (auto simp: tp_activeId_def effectiveActive_def Let_def)

lemma activeId_in_list:
  assumes "\<not> qs_loading (tp_query s)" and "tp_tenants s \<noteq> []"
  shows "\<exists>t \<in> set (tp_tenants s). tp_activeId s = Some (mt_id t)"
proof (cases "struthy (tp_storedId s) \<and> (\<exists>t \<in> set (tp_tenants s). Some (mt_id t) = tp_storedId s)")
  case True
  then show ?thesis using assms by (metis activeId_eq)
next
  case False
  then show ?thesis using assms by (auto simp: activeId_eq)
qed

lemma render_fields [simp]:
  "tp_storedId (render s) = tp_storedId s" "tp_query (render s) = tp_query s"
  "tp_tenants (render s) = tp_tenants s"
  by (simp_all add: render_def tp_tenants_def)

lemma activeId_cong:
  "tp_storedId s = tp_storedId s' \<Longrightarrow> tp_query s = tp_query s' \<Longrightarrow> tp_activeId s = tp_activeId s'"
  by (simp only: activeId_eq tp_tenants_def)

lemma activeId_render [simp]: "tp_activeId (render s) = tp_activeId s"
  by (rule activeId_cong) simp_all

text \<open>The storage of a run always reads back the selection: the stored id, or the fallback that
  stands in for it once the list is known.\<close>

definition storage_agrees :: "tenant_state \<Rightarrow> bool" where
  "storage_agrees s \<longleftrightarrow> (case tp_storage s of
      Blocked \<Rightarrow> True
    | Stored v \<Rightarrow> v = tp_storedId s \<or> (\<not> qs_loading (tp_query s) \<and> tp_tenants s \<noteq> [] \<and> v = tp_activeId s))"

lemma render_agrees:
  assumes "tp_storage s = Blocked \<or> tp_storage s = Stored (tp_storedId s) \<or>
      \<not> qs_loading (tp_query s) \<and> tp_tenants s \<noteq> [] \<and> tp_storage s = Stored (tp_activeId s)"
  shows "storage_agrees (render s)"
  using assms
  by (auto simp: storage_agrees_def render_def effectiveActive_def tp_activeId_def tp_tenants_def Let_def
      split: storage.splits)

definition ids_ok :: "my_tenant list \<Rightarrow> bool" where
  "ids_ok ts \<longleftrightarrow> (\<forall>t \<in> set ts. mt_id t \<noteq> [])"

text \<open>The state of a run over a fixed list: still loading, or loaded with that list.\<close>

lemma session_query:
  "session ts st s \<Longrightarrow> tp_query s = \<lparr>qs_loading = True, qs_data = None\<rparr>
     \<or> tp_query s = \<lparr>qs_loading = False, qs_data = Some ts\<rparr>"
  by (induction rule: session.induct)
     (auto simp: TenantProvider_mount_def TenantSwitcher_onChange_def setActiveId_def)

lemma session_agrees: "session ts st s \<Longrightarrow> storage_agrees s"
proof (induction rule: session.induct)
  case mounted
  show ?case by (rule render_agrees) (cases st; simp add: TenantProvider_mount_def)
next
  case (loaded s)
  from session_query [OF loaded(1)] show ?case
  proof
    assume "tp_query s = \<lparr>qs_loading = True, qs_data = None\<rparr>"
    with loaded(2) show ?thesis
      by (intro render_agrees) (auto simp: storage_agrees_def split: storage.splits)
  next
    assume q: "tp_query s = \<lparr>qs_loading = False, qs_data = Some ts\<rparr>"
    then have "s\<lparr>tp_query := \<lparr>qs_loading = False, qs_data = Some ts\<rparr>\<rparr> = s" by simp
    then show ?thesis
      using loaded(2) by (intro render_agrees) (auto simp: storage_agrees_def split: storage.splits)
  qed
next
  case (chosen s v)
  show ?case
  proof (cases "v = []")
    case True
    then show ?thesis using chosen(3)
      by (intro render_agrees)
         (auto simp: storage_agrees_def TenantSwitcher_onChange_def split: storage.splits)
  next
    case False
    then show ?thesis
      by (intro render_agrees, cases "tp_storage s")
         (auto simp: TenantSwitcher_onChange_def setActiveId_def)
  qed
qed

text \<open>The selection that a later visit makes of the storage it finds, over the same list.\<close>

definition revisit :: "my_tenant list \<Rightarrow> storage \<Rightarrow> string option" where
  "revisit ts st = tp_activeId (TenantProvider_mount \<lparr>qs_loading = False, qs_data = Some ts\<rparr> st)"

lemma choose_active:
  assumes "v \<in> fst ` set (TenantSwitcher_options s)" and "v \<noteq> []" and "\<not> qs_loading (tp_query s)"
  shows "tp_activeId (render (TenantSwitcher_onChange (Some v) s)) = Some v"
  using assms
  by (auto simp: TenantSwitcher_onChange_def TenantSwitcher_options_def setActiveId_def tp_activeId_def
      effectiveActive_def tp_tenants_def Let_def render_def)



subsection \<open>Roles from several grants\<close>

definition role_rank :: "string option \<Rightarrow> nat" where
  "role_rank r = ROLE_RANK (nullish_or r [])"

fun needed_rank :: "action \<Rightarrow> nat" where
  "needed_rank DEVICE_VIEW = 1"
| "needed_rank DEVICE_WRITE = 2"
| "needed_rank CONFIG_PUSH = 2"
| "needed_rank REPORT_GENERATE = 2"
| "needed_rank LOG_VIEW = 2"
| "needed_rank MEMBERSHIP_MANAGE = 3"
| "needed_rank REPORT_CONFIG = 3"
| "needed_rank RETENTION_CONFIG = 3"
| "needed_rank _ = 4"

text \<open>The matrix is monotone in the rank of the role: an action is allowed from a rank on.\<close>

lemma can_rank: "can False role act \<longleftrightarrow> needed_rank act \<le> role_rank role"
  by (cases act; cases role)
     (auto simp: can_def ORG_ACTIONS_def role_rank_def ROLE_RANK_def)

lemma rank_highest_loop:
  "best_rank = role_rank best \<Longrightarrow>
     role_rank (highest_loop roles best best_rank) = Max (set (map role_rank (best # roles)))"
proof (induction roles arbitrary: best best_rank)
  case (Cons r roles)
  then show ?case
    by (cases "role_rank r > role_rank best"; cases "roles = []")
       (auto simp: role_rank_def Let_def max_def)
qed simp

text \<open>Several grants add up to their best. The role that the backend resolves for a user who
  reaches a tenant through a membership and any number of group grants allows an action exactly when
  one of the single roles does.\<close>

theorem highest_role_sound:
  "can False (highest_role roles) act \<longleftrightarrow> (\<exists>r \<in> set roles. can False r act)"
proof -
  have n: "0 < needed_rank act" by (cases act) simp_all
  have "role_rank None = 0" by (simp add: role_rank_def ROLE_RANK_def)
  then have "role_rank (highest_role roles) = Max (set (map role_rank (None # roles)))"
    unfolding highest_role_def using rank_highest_loop [of 0 None roles] by simp
  then have "needed_rank act \<le> role_rank (highest_role roles) \<longleftrightarrow>
      (\<exists>r \<in> set (None # roles). needed_rank act \<le> role_rank r)"
    by (simp add: Max_ge_iff)
  then show ?thesis using n by (simp add: can_rank \<open>role_rank None = 0\<close>)
qed

end
