(* ===== verification/ConfirmFlow.thy ===== *)
theory ConfirmFlow
  imports Api
begin

text \<open>
  The confirmation pattern of the application (\<^verbatim>\<open>components/ConfirmModal.tsx\<close> and its callers):
  a row is chosen, a modal asks, confirming sends the request for the chosen row and closes the modal
  whatever the outcome, cancelling closes it. The locale states what a component provides for this
  pattern; every component with such a modal interprets it, and what follows for every sequence of the
  user's actions is proved once: the requests sent are those of the rows confirmed, one per
  confirmation of an open modal, and none for a row that was cancelled.
\<close>

datatype 'a confirm_event = Select 'a | Cancel | Confirm api_result

text \<open>The specification: the rows confirmed by a sequence of actions, from the row currently chosen.\<close>

fun confirmed :: "'a confirm_event list \<Rightarrow> 'a option \<Rightarrow> 'a list" where
  "confirmed [] cur = []"
| "confirmed (Select a # es) cur = confirmed es (Some a)"
| "confirmed (Cancel # es) cur = confirmed es None"
| "confirmed (Confirm r # es) None = confirmed es None"
| "confirmed (Confirm r # es) (Some a) = a # confirmed es None"

fun selections :: "'a confirm_event list \<Rightarrow> 'a list" where
  "selections [] = []"
| "selections (Select a # es) = a # selections es"
| "selections (_ # es) = selections es"

lemma confirmed_selected: "set (confirmed es cur) \<subseteq> set (selections es) \<union> set_option cur"
  by (induction es cur rule: confirmed.induct) auto

lemma confirmed_length:
  "length (confirmed es cur) \<le> length (selections es) + (if cur = None then 0 else 1)"
  by (induction es cur rule: confirmed.induct) auto

locale confirm_flow =
  fixes target :: "'s \<Rightarrow> 'a option"
    and select :: "'a \<Rightarrow> 's \<Rightarrow> 's"
    and cancel :: "'s \<Rightarrow> 's"
    and request_for :: "'a \<Rightarrow> request"
    and settle :: "api_result \<Rightarrow> 's \<Rightarrow> 's"
  assumes target_select: "target (select a s) = Some a"
    and target_cancel: "target (cancel s) = None"
    and target_settle: "target (settle r s) = None"
begin

fun flow :: "'a confirm_event list \<Rightarrow> 's \<Rightarrow> request list" where
  "flow [] s = []"
| "flow (Select a # es) s = flow es (select a s)"
| "flow (Cancel # es) s = flow es (cancel s)"
| "flow (Confirm r # es) s =
     (case target s of None \<Rightarrow> flow es s | Some a \<Rightarrow> request_for a # flow es (settle r s))"

lemma flow_confirmed: "flow es s = map request_for (confirmed es (target s))"
  by (induction es s rule: flow.induct)
     (auto simp: target_select target_cancel target_settle split: option.splits)

lemma flow_only_confirmed:
  assumes "target s = None"
  shows "set (flow es s) \<subseteq> request_for ` set (selections es)" and "length (flow es s) \<le> length (selections es)"
  using confirmed_selected [of es None] confirmed_length [of es None] assms
  by (auto simp: flow_confirmed)

end

section \<open>The modal\<close>

record confirm_modal =
  cm_title :: string
  cm_body :: "string option"
  cm_cancel :: string
  cm_confirm :: string
  cm_loading :: bool

definition ConfirmModal ::
  "bool \<Rightarrow> string option \<Rightarrow> string option \<Rightarrow> string option \<Rightarrow> string option \<Rightarrow> bool option \<Rightarrow> confirm_modal option" where
  "ConfirmModal opened title body confirmLabel cancelLabel loading =
     (if opened then Some
        \<lparr>cm_title = nullish_or title ''t.confirm.title'', cm_body = (if struthy body then body else None),
         cm_cancel = nullish_or cancelLabel ''t.confirm.cancel'',
         cm_confirm = nullish_or confirmLabel ''t.confirm.confirm'', cm_loading = nullish_or loading False\<rparr>
      else None)"

end
