(* ===== verification/View.thy ===== *)
theory View
  imports Session ConfirmFlow
begin

text \<open>
  What a component renders. A view is the list of the elements of the component's markup in order;
  containers that only arrange their children are left out. An element carries the text it shows (a
  dictionary key such as \<open>t.alerts.title\<close>, or content), an input its label and value, and a
  button its label, whether it is enabled, and the event its click raises.

  The locale \<open>listing\<close> is the contract of a component that shows the list a query returned: it
  shows a loader exactly while loading, the error text exactly after a failure, the empty text exactly
  for an empty list, and the rows of the list in order. The lists of the overview, perimeter, reliability,
  audit, alert, fleet and change views interpret it.
\<close>

section \<open>Elements\<close>

datatype 'e elem =
    Loader
  | Alert string string
  | Text string
  | Title string
  | Badge string string
  | Link string string
  | Image string
  | Field string string
  | Choice string "(string \<times> string) list" "string option"
  | Choices string "(string \<times> string) list" "string list"
  | Toggle string bool
  | Button string bool 'e
  | Row "'e elem list"
  | Table "string list" "'e elem list"
  | Section "'e elem list"
  | Dialog string "'e elem list"

text \<open>The states of a query a component reads: \<open>data\<close>, \<open>isLoading\<close>, and \<open>error\<close> or
  \<open>isError\<close>.\<close>

record 'd remote =
  rm_data :: "'d option"
  rm_loading :: bool
  rm_error :: bool

text \<open>\<open>cond && element\<close>.\<close>

definition onlyif :: "bool \<Rightarrow> 'a list \<Rightarrow> 'a list" where
  "onlyif b xs = (if b then xs else [])"

text \<open>The characters beyond Latin-1 that components write themselves, by name.\<close>

definition mdash :: string where
  "mdash = ''&mdash;''"

definition ndash :: string where
  "ndash = ''&ndash;''"

definition rarr :: string where
  "rarr = ''&rarr;''"

definition hellip :: string where
  "hellip = ''&hellip;''"

text \<open>A button that shows a spinner while a request is pending is disabled meanwhile.\<close>

definition Busy_button :: "string \<Rightarrow> bool \<Rightarrow> bool \<Rightarrow> 'e \<Rightarrow> 'e elem" where
  "Busy_button label pending enabled e = Button label (\<not> pending \<and> enabled) e"

text \<open>\<open>s || d\<close> on strings.\<close>

definition or_else :: "string \<Rightarrow> string \<Rightarrow> string" where
  "or_else s d = (if s = [] then d else s)"

definition remote_list :: "'d list remote \<Rightarrow> 'd list" where
  "remote_list q = nullish_or (rm_data q) []"

text \<open>The confirmation modal as elements; only the confirming button waits for a pending request.\<close>

definition confirm_dialog :: "bool \<Rightarrow> string \<Rightarrow> string \<Rightarrow> string option \<Rightarrow> bool option \<Rightarrow> 'e \<Rightarrow> 'e \<Rightarrow> 'e elem list" where
  "confirm_dialog opened title body confirmLabel pending cancelled confirmed_event =
     (case ConfirmModal opened (Some title) (Some body) confirmLabel None pending of None \<Rightarrow> []
      | Some m \<Rightarrow> [Dialog (cm_title m) ((case cm_body m of None \<Rightarrow> [] | Some b \<Rightarrow> [Text b])
                    @ [Button (cm_cancel m) True cancelled, Busy_button (cm_confirm m) (cm_loading m) True confirmed_event])])"

lemma onlyif_simps [simp]: "onlyif b [] = []" "onlyif True xs = xs" "onlyif False xs = []" "set (onlyif b xs) = (if b then set xs else {})"
  "map f (onlyif b xs) = onlyif b (map f xs)"
  by (simp_all add: onlyif_def)

section \<open>Reading a view\<close>

fun rows_of :: "'e elem \<Rightarrow> 'e elem list list" where
  "rows_of (Row cells) = [cells]"
| "rows_of (Table heads rs) = concat (map rows_of rs)"
| "rows_of (Section es) = concat (map rows_of es)"
| "rows_of (Dialog title es) = concat (map rows_of es)"
| "rows_of _ = []"

definition rows_shown :: "'e elem list \<Rightarrow> 'e elem list list" where
  "rows_shown es = concat (map rows_of es)"

text \<open>The events that a click can raise: those of the enabled buttons, wherever they are.\<close>

fun clicks_of :: "'e elem \<Rightarrow> 'e list" where
  "clicks_of (Button label enabled e) = onlyif enabled [e]"
| "clicks_of (Row cells) = concat (map clicks_of cells)"
| "clicks_of (Table heads rs) = concat (map clicks_of rs)"
| "clicks_of (Section es) = concat (map clicks_of es)"
| "clicks_of (Dialog title es) = concat (map clicks_of es)"
| "clicks_of _ = []"

definition clicks :: "'e elem list \<Rightarrow> 'e list" where
  "clicks es = concat (map clicks_of es)"

lemma Busy_button_simps [simp]:
  "rows_of (Busy_button l p b e) = []" "clicks_of (Busy_button l p b e) = onlyif (\<not> p \<and> b) [e]"
  "Busy_button l p b e \<noteq> Loader" "Busy_button l p b e \<noteq> Text t" "Busy_button l p b e \<noteq> Alert c t"
  "Loader \<noteq> Busy_button l p b e" "Text t \<noteq> Busy_button l p b e" "Alert c t \<noteq> Busy_button l p b e"
  by (simp_all add: Busy_button_def)

lemma rows_shown_simps [simp]:
  "rows_shown [] = []" "rows_shown (e # es) = rows_of e @ rows_shown es"
  "rows_shown (es @ es') = rows_shown es @ rows_shown es'"
  "rows_shown (onlyif b es) = onlyif b (rows_shown es)"
  by (simp_all add: rows_shown_def onlyif_def)

lemma rows_shown_rows [simp]: "rows_shown (map (\<lambda>x. Row (f x)) xs) = map f xs"
  by (induction xs) simp_all

lemma concat_rows [simp]: "concat (map (rows_of \<circ> (\<lambda>x. Row (f x))) xs) = map f xs"
  by (induction xs) simp_all

lemma clicks_simps [simp]:
  "clicks [] = []" "clicks (e # es) = clicks_of e @ clicks es" "clicks (es @ es') = clicks es @ clicks es'"
  "clicks (onlyif b es) = onlyif b (clicks es)"
  by (simp_all add: clicks_def onlyif_def)

lemma onlyif_rows [simp]: "onlyif (xs \<noteq> []) (map f xs) = map f xs"
  by (cases xs) simp_all

lemma set_clicks_map [simp]: "set (clicks (map f xs)) = (\<Union>x \<in> set xs. set (clicks_of (f x)))"
  by (induction xs) simp_all

lemma clicks_of_container [simp]:
  "clicks_of (Row es) = clicks es" "clicks_of (Section es) = clicks es" "clicks_of (Dialog t es) = clicks es"
  "clicks_of (Table hs es) = clicks es"
  by (simp_all add: clicks_def)

declare clicks_of.simps(2-5) [simp del]

lemma confirm_dialog_clicks [simp]:
  "clicks (confirm_dialog opened title body label pending c k) =
     onlyif opened (c # onlyif (\<not> nullish_or pending False) [k])"
  "rows_shown (confirm_dialog opened title body label pending c k) = []"
  by (simp_all add: confirm_dialog_def ConfirmModal_def split: option.splits)

section \<open>Lists\<close>

text \<open>What a list owes the query it shows.\<close>

definition shows_query :: "('d list remote \<Rightarrow> 'e elem list) \<Rightarrow> ('d \<Rightarrow> 'e elem list) \<Rightarrow> 'e elem \<Rightarrow> 'e elem \<Rightarrow> 'd list remote \<Rightarrow> bool" where
  "shows_query view row failed nothing q \<longleftrightarrow>
     (Loader \<in> set (view q) \<longleftrightarrow> rm_loading q) \<and> (failed \<in> set (view q) \<longleftrightarrow> rm_error q)
     \<and> (nothing \<in> set (view q) \<longleftrightarrow> rm_data q = Some []) \<and> rows_shown (view q) = map row (remote_list q)"

locale listing =
  fixes view :: "'d list remote \<Rightarrow> 'e elem list"
    and row :: "'d \<Rightarrow> 'e elem list"
    and failed :: "'e elem"
    and nothing :: "'e elem"
  assumes loading_iff: "Loader \<in> set (view q) \<longleftrightarrow> rm_loading q"
    and failed_iff: "failed \<in> set (view q) \<longleftrightarrow> rm_error q"
    and nothing_iff: "nothing \<in> set (view q) \<longleftrightarrow> rm_data q = Some []"
    and rows_eq: "rows_shown (view q) = map row (remote_list q)"
begin

text \<open>What the list says and what the query holds agree: two states of the query that look the same
  have the same loading and error flags, the same verdict on emptiness, and the same rows.\<close>

lemma looks_same:
  assumes "view q = view q'"
  shows "rm_loading q = rm_loading q' \<and> rm_error q = rm_error q' \<and> (rm_data q = Some []) = (rm_data q' = Some [])
    \<and> map row (remote_list q) = map row (remote_list q')"
  using assms loading_iff failed_iff nothing_iff rows_eq by metis

lemma row_shown: "rm_data q = Some ds \<Longrightarrow> d \<in> set ds \<Longrightarrow> row d \<in> set (rows_shown (view q))"
  by (simp add: rows_eq remote_list_def)

lemma faithful: "shows_query view row failed nothing q"
  using loading_iff failed_iff nothing_iff rows_eq by (simp add: shows_query_def)

text \<open>A settled query is never shown as a blank: there is a row, the empty text or the error text.\<close>

lemma never_blank:
  assumes "\<not> rm_loading q" and "rm_data q \<noteq> None \<or> rm_error q"
  shows "rows_shown (view q) \<noteq> [] \<or> nothing \<in> set (view q) \<or> failed \<in> set (view q)"
  using assms by (cases "rm_data q") (auto simp: rows_eq nothing_iff failed_iff remote_list_def)

end

end
