(* ===== verification/I18n.thy ===== *)
theory I18n
  imports Prelude
begin

text \<open>
  The interface language (\<^verbatim>\<open>i18n/locale.ts\<close>, \<^verbatim>\<open>i18n/index.ts\<close>,
  \<^verbatim>\<open>components/DirectionSync.tsx\<close>): detection of the initial locale from the storage and the
  browser, and the provider that loads dictionaries on demand. The dictionaries are an argument
  (\<open>dicts l\<close> is the one the module of locale \<open>l\<close> exports); a load is in flight until it lands or
  fails, in any order. The native names of the languages, which are only displayed, are left out.
\<close>

section \<open>Locales (i18n/locale.ts)\<close>

definition SUPPORTED_LOCALES :: "string list" where
  "SUPPORTED_LOCALES =
     [''en'', ''it'', ''es'', ''fr'', ''de'', ''pt'', ''nl'', ''ru'', ''ar'', ''zh'', ''zh-TW'', ''ja'']"

definition RTL_LOCALES :: "string set" where
  "RTL_LOCALES = {''ar''}"

definition isRtl :: "string \<Rightarrow> bool" where
  "isRtl l \<longleftrightarrow> l \<in> RTL_LOCALES"

definition DEFAULT_LOCALE :: string where
  "DEFAULT_LOCALE = ''en''"

definition isLocale :: "string option \<Rightarrow> bool" where
  "isLocale v = (case v of None \<Rightarrow> False | Some s \<Rightarrow> s \<noteq> [] \<and> s \<in> set SUPPORTED_LOCALES)"

text \<open>The body of the loop over the browser's languages: the locale returned for a tag, if any.\<close>

definition traditional :: "string \<Rightarrow> bool" where
  "traditional lang \<longleftrightarrow> str_includes lang ''hant'' \<or> str_includes lang ''tw'' \<or> str_includes lang ''hk''
     \<or> str_includes lang ''mo''"

definition locale_of_tag :: "string \<Rightarrow> string option" where
  "locale_of_tag raw =
     (if raw = [] then None
      else let lang = to_lower raw; supportedLower = map to_lower SUPPORTED_LOCALES in
        case index_of supportedLower lang of
          Some i \<Rightarrow> Some (SUPPORTED_LOCALES ! i)
        | None \<Rightarrow>
            if starts_with lang ''zh'' then Some (if traditional lang then ''zh-TW'' else ''zh'')
            else map_option (\<lambda>i. SUPPORTED_LOCALES ! i)
                   (index_of supportedLower (hd (split_on CHR ''-'' lang))))"

fun detect_langs :: "string list \<Rightarrow> string option" where
  "detect_langs [] = None"
| "detect_langs (raw # langs) =
     (case locale_of_tag raw of Some l \<Rightarrow> Some l | None \<Rightarrow> detect_langs langs)"

text \<open>The browser: \<open>navigator.languages\<close> (possibly missing) and \<open>navigator.language\<close>; \<open>None\<close>
  when reading them throws.\<close>

type_synonym navigator = "(string list option \<times> string) option"

definition nav_langs :: "string list option \<Rightarrow> string \<Rightarrow> string list" where
  "nav_langs languages language = (case languages of None \<Rightarrow> [language] | Some ls \<Rightarrow> if ls = [] then [language] else ls)"

definition detectInitialLocale :: "storage \<Rightarrow> navigator \<Rightarrow> string" where
  "detectInitialLocale st nav =
     (case st of
        Stored v \<Rightarrow> if isLocale v then the v
                     else (case nav of None \<Rightarrow> DEFAULT_LOCALE
                           | Some (ls, l) \<Rightarrow> nullish_or (detect_langs (nav_langs ls l)) DEFAULT_LOCALE)
      | Blocked \<Rightarrow> (case nav of None \<Rightarrow> DEFAULT_LOCALE
                   | Some (ls, l) \<Rightarrow> nullish_or (detect_langs (nav_langs ls l)) DEFAULT_LOCALE))"

definition persistLocale :: "string \<Rightarrow> storage \<Rightarrow> storage" where
  "persistLocale l st = storage_set l st"

definition direction :: "string \<Rightarrow> string" where
  "direction l = (if isRtl l then ''rtl'' else ''ltr'')"

section \<open>The provider (i18n/index.ts)\<close>

record 'd i18n =
  il_locale :: string
  il_cache :: "string \<rightharpoonup> 'd"
  il_loading :: "string list"
  il_html_lang :: string
  il_storage :: storage

definition effective :: "string option \<Rightarrow> 'd i18n \<Rightarrow> string" where
  "effective override s = nullish_or override (il_locale s)"

definition i18n_t :: "string option \<Rightarrow> 'd \<Rightarrow> 'd i18n \<Rightarrow> 'd" where
  "i18n_t override en s = nullish_or (il_cache s (effective override s)) en"

text \<open>The two effects, run after a render in which the effective locale changed: reflect it on the
  document, and start a load unless it is cached.\<close>

definition i18n_effects :: "string option \<Rightarrow> 'd i18n \<Rightarrow> 'd i18n" where
  "i18n_effects override s =
     (let s' = s\<lparr>il_html_lang := effective override s\<rparr> in
      if il_cache s' (effective override s') \<noteq> None then s'
      else s'\<lparr>il_loading := il_loading s' @ [effective override s']\<rparr>)"

definition i18n_mount ::
  "string option \<Rightarrow> 'd \<Rightarrow> string \<Rightarrow> storage \<Rightarrow> navigator \<Rightarrow> 'd i18n" where
  "i18n_mount override en html_lang st nav =
     i18n_effects override
       \<lparr>il_locale = nullish_or override (detectInitialLocale st nav), il_cache = [''en'' \<mapsto> en],
        il_loading = [], il_html_lang = html_lang, il_storage = st\<rparr>"

definition setLocale :: "string option \<Rightarrow> string \<Rightarrow> 'd i18n \<Rightarrow> 'd i18n" where
  "setLocale override l s =
     (if \<not> isLocale (Some l) then s
      else let s' = s\<lparr>il_storage := persistLocale l (il_storage s), il_locale := l\<rparr> in
           if effective override s' \<noteq> effective override s then i18n_effects override s' else s')"

text \<open>A load landing stores the dictionary under the locale it was started for (a cancelled effect
  still stores it; it only skips the re-render).\<close>

definition load_landed :: "(string \<Rightarrow> 'd) \<Rightarrow> string \<Rightarrow> 'd i18n \<Rightarrow> 'd i18n" where
  "load_landed dicts l s = s\<lparr>il_cache := (il_cache s)(l \<mapsto> dicts l), il_loading := remove1 l (il_loading s)\<rparr>"

definition load_failed :: "string \<Rightarrow> 'd i18n \<Rightarrow> 'd i18n" where
  "load_failed l s = s\<lparr>il_loading := remove1 l (il_loading s)\<rparr>"

definition locale_options :: "string list" where
  "locale_options = SUPPORTED_LOCALES"

text \<open>Runs of the provider, with the set of locales some load of which has failed.\<close>

inductive i18n_run :: "(string \<Rightarrow> 'd) \<Rightarrow> string option \<Rightarrow> 'd i18n \<Rightarrow> string set \<Rightarrow> bool"
  for dicts override where
  mount: "i18n_run dicts override (i18n_mount override (dicts ''en'') h st nav) {}"
| set_locale: "i18n_run dicts override s F \<Longrightarrow> i18n_run dicts override (setLocale override l s) F"
| landed: "i18n_run dicts override s F \<Longrightarrow> l \<in> set (il_loading s) \<Longrightarrow>
     i18n_run dicts override (load_landed dicts l s) F"
| failed: "i18n_run dicts override s F \<Longrightarrow> l \<in> set (il_loading s) \<Longrightarrow>
     i18n_run dicts override (load_failed l s) (insert l F)"

section \<open>Detection\<close>

lemma locale_of_tag_supported: "locale_of_tag raw = Some l \<Longrightarrow> l \<in> set SUPPORTED_LOCALES"
proof -
  have zh: "''zh'' \<in> set SUPPORTED_LOCALES" "''zh-TW'' \<in> set SUPPORTED_LOCALES"
    by (simp_all add: SUPPORTED_LOCALES_def)
  assume "locale_of_tag raw = Some l"
  then show ?thesis
    unfolding locale_of_tag_def Let_def
    by (auto split: if_splits option.splits dest!: index_of_Some intro: zh)
qed

lemma detect_langs_supported: "detect_langs ls = Some l \<Longrightarrow> l \<in> set SUPPORTED_LOCALES"
  by (induction ls) (auto split: option.splits dest: locale_of_tag_supported)

lemma default_supported: "DEFAULT_LOCALE \<in> set SUPPORTED_LOCALES"
  by (simp add: DEFAULT_LOCALE_def SUPPORTED_LOCALES_def)

lemma isLocale_Some: "isLocale (Some l) \<longleftrightarrow> l \<in> set SUPPORTED_LOCALES"
  by (auto simp: isLocale_def SUPPORTED_LOCALES_def)

lemma detect_supported: "detectInitialLocale st nav \<in> set SUPPORTED_LOCALES"
proof -
  have "nullish_or (detect_langs ls) DEFAULT_LOCALE \<in> set SUPPORTED_LOCALES" for ls
    by (cases "detect_langs ls") (auto simp: default_supported dest: detect_langs_supported)
  then show ?thesis
    by (auto simp: detectInitialLocale_def default_supported isLocale_def split: storage.splits option.splits)
qed

text \<open>Distinct supported locales stay distinct in lower case, so a tag that differs from a supported
  locale only in case selects that locale.\<close>

lemma lower_locales_distinct: "distinct (map to_lower SUPPORTED_LOCALES)"
  by code_simp

lemma locale_of_tag_exact:
  assumes "l \<in> set SUPPORTED_LOCALES" and "to_lower raw = to_lower l"
  shows "locale_of_tag raw = Some l"
proof -
  obtain i where i: "i < length SUPPORTED_LOCALES" "SUPPORTED_LOCALES ! i = l"
    using assms(1) by (auto simp: in_set_conv_nth)
  have "index_of (map to_lower SUPPORTED_LOCALES) (to_lower raw) = Some i"
  proof (cases "index_of (map to_lower SUPPORTED_LOCALES) (to_lower raw)")
    case None
    then show ?thesis using assms i by (auto simp: index_of_None)
  next
    case (Some j)
    then show ?thesis
      using index_of_Some [OF Some] i assms(2) lower_locales_distinct
      by (auto simp: nth_eq_iff_index_eq [OF lower_locales_distinct, symmetric] simp del: nth_map)
         (metis length_map nth_map nth_eq_iff_index_eq)
  qed
  moreover have "raw \<noteq> []" using assms by (auto simp: to_lower_def SUPPORTED_LOCALES_def)
  ultimately show ?thesis using i by (simp add: locale_of_tag_def Let_def)
qed

text \<open>The initial locale is sound. It is always a supported locale; a choice made through the
  provider is the locale found at the next visit, whatever the browser prefers, when the storage
  works; and without a stored choice a browser whose first language is a supported locale, in any
  case, gets that locale.\<close>

theorem detect_initial_sound:
  "detectInitialLocale st nav \<in> set SUPPORTED_LOCALES
   \<and> (l \<in> set SUPPORTED_LOCALES \<longrightarrow> il_storage s \<noteq> Blocked \<longrightarrow>
        detectInitialLocale (il_storage (setLocale override l s)) nav = l)
   \<and> (l \<in> set SUPPORTED_LOCALES \<longrightarrow> to_lower raw = to_lower l \<longrightarrow>
        detectInitialLocale (Stored None) (Some (Some (raw # langs), lang)) = l)"
proof (intro conjI impI)
  assume l: "l \<in> set SUPPORTED_LOCALES"
  have "il_storage (i18n_effects ov x) = il_storage x" for ov and x :: "'a i18n"
    by (simp add: i18n_effects_def Let_def)
  then show "detectInitialLocale (il_storage (setLocale override l s)) nav = l" if "il_storage s \<noteq> Blocked"
    using l that
    by (cases "il_storage s")
       (simp_all add: setLocale_def isLocale_Some persistLocale_def detectInitialLocale_def Let_def)
  show "detectInitialLocale (Stored None) (Some (Some (raw # langs), lang)) = l"
    if "to_lower raw = to_lower l"
    using locale_of_tag_exact [OF l that]
    by (simp add: detectInitialLocale_def isLocale_def nav_langs_def)
qed (rule detect_supported)

definition sample_i18n :: "nat i18n" where
  "sample_i18n = i18n_mount None 0 [] (Stored None) None"

theorem detect_initial_sound_witness:
  "detectInitialLocale (il_storage (setLocale None ''de'' sample_i18n)) (Some (Some [''fr''], ''fr'')) = ''de''
   \<and> detectInitialLocale (Stored None) (Some (Some [''ZH-tw''], ''en'')) = ''zh-TW''"
proof -
  have "''de'' \<in> set SUPPORTED_LOCALES" "''zh-TW'' \<in> set SUPPORTED_LOCALES"
    by (simp_all add: SUPPORTED_LOCALES_def)
  moreover have "il_storage sample_i18n \<noteq> Blocked"
    by (simp add: sample_i18n_def i18n_mount_def i18n_effects_def Let_def)
  moreover have "to_lower ''ZH-tw'' = to_lower ''zh-TW''" by code_simp
  ultimately show ?thesis
    using detect_initial_sound [of "Stored None" "Some (Some [''fr''], ''fr'')" "''de''" sample_i18n None]
      detect_initial_sound [of "Stored None" None "''zh-TW''" sample_i18n None "''ZH-tw''" "[]" "''en''"]
    by simp
qed

section \<open>The dictionary on screen\<close>

definition i18n_inv :: "(string \<Rightarrow> 'd) \<Rightarrow> string option \<Rightarrow> 'd i18n \<Rightarrow> string set \<Rightarrow> bool" where
  "i18n_inv dicts override s F \<longleftrightarrow>
     (\<forall>l d. il_cache s l = Some d \<longrightarrow> d = dicts l) \<and> il_cache s ''en'' \<noteq> None
     \<and> il_html_lang s = effective override s
     \<and> (il_cache s (effective override s) = None \<longrightarrow>
          effective override s \<in> set (il_loading s) \<union> F)"

lemma effects_inv:
  assumes "\<forall>l d. il_cache s l = Some d \<longrightarrow> d = dicts l" and "il_cache s ''en'' \<noteq> None"
  shows "i18n_inv dicts override (i18n_effects override s) F"
  using assms by (auto simp: i18n_inv_def i18n_effects_def effective_def Let_def)

lemma i18n_run_inv: "i18n_run dicts override s F \<Longrightarrow> i18n_inv dicts override s F"
proof (induction rule: i18n_run.induct)
  case (mount h st nav)
  show ?case unfolding i18n_mount_def by (rule effects_inv) (auto split: if_splits)
next
  case (set_locale s F l)
  show ?case
  proof (cases "isLocale (Some l) \<and> effective override (s\<lparr>il_locale := l\<rparr>) \<noteq> effective override s")
    case True
    let ?s' = "s\<lparr>il_storage := persistLocale l (il_storage s), il_locale := l\<rparr>"
    have "setLocale override l s = i18n_effects override ?s'"
      using True by (auto simp: setLocale_def Let_def effective_def)
    moreover have "i18n_inv dicts override (i18n_effects override ?s') F"
      by (rule effects_inv) (use set_locale(2) in \<open>simp_all add: i18n_inv_def\<close>)
    ultimately show ?thesis by simp
  next
    case False
    then show ?thesis
      using set_locale(2) by (auto simp: setLocale_def Let_def effective_def i18n_inv_def)
  qed
next
  case (landed s F l)
  then show ?case by (auto simp: i18n_inv_def load_landed_def effective_def in_set_remove1)
next
  case (failed s F l)
  then show ?case
    by (cases "effective override s = l") (auto simp: i18n_inv_def load_failed_def effective_def in_set_remove1)
qed

text \<open>The right dictionary, however loads race. In every run of the provider (any sequence of
  locale changes, with loads landing or failing in any order), the dictionary on screen is the active
  locale's or English, never another locale's; it is the active locale's as soon as no load of that
  locale is in flight and none has failed; and the document's language attribute is the active locale.\<close>

theorem dictionary_on_screen:
  assumes "i18n_run dicts override s F"
  shows "i18n_t override (dicts ''en'') s \<in> {dicts (effective override s), dicts ''en''}
    \<and> (effective override s \<notin> set (il_loading s) \<longrightarrow> effective override s \<notin> F \<longrightarrow>
         i18n_t override (dicts ''en'') s = dicts (effective override s))
    \<and> il_html_lang s = effective override s"
proof -
  from i18n_run_inv [OF assms] have inv: "i18n_inv dicts override s F" .
  show ?thesis
  proof (cases "il_cache s (effective override s)")
    case None
    then show ?thesis using inv by (auto simp: i18n_inv_def i18n_t_def)
  next
    case (Some d)
    then show ?thesis using inv by (auto simp: i18n_inv_def i18n_t_def)
  qed
qed

theorem dictionary_on_screen_witness:
  "\<exists>s. i18n_run length None s {} \<and> il_locale s = ''de'' \<and> i18n_t None (length ''en'') s = length ''de''"
proof -
  let ?m = "i18n_mount None (length ''en'') [] (Stored None) None"
  let ?s = "load_landed length ''de'' (setLocale None ''de'' ?m)"
  have "''de'' \<in> set (il_loading (setLocale None ''de'' ?m))"
    by (simp add: setLocale_def i18n_mount_def i18n_effects_def effective_def isLocale_def SUPPORTED_LOCALES_def
        detectInitialLocale_def DEFAULT_LOCALE_def Let_def)
  then have run: "i18n_run length None ?s {}" by (intro i18n_run.intros)
  have "il_locale ?s = ''de''" "il_loading ?s = []"
    by (simp_all add: load_landed_def setLocale_def i18n_mount_def i18n_effects_def effective_def isLocale_def
        SUPPORTED_LOCALES_def detectInitialLocale_def DEFAULT_LOCALE_def Let_def)
  with dictionary_on_screen [OF run] run show ?thesis by (auto simp: effective_def)
qed

end
