(* ===== verification/Dictionary.thy ===== *)
theory Dictionary
  imports Prelude "HOL-Library.Sublist"
begin

text \<open>
  The signature of a dictionary (\<^verbatim>\<open>i18n/*.ts\<close>): a tree of keys whose leaves are texts, of which
  only the placeholders are kept, in the order they occur (\<open>{days}\<close> is \<open>''days''\<close>); the words of
  a text are opaque, and no text has a brace outside a placeholder. On the other side, the texts
  themselves: filling a placeholder with \<open>replace\<close> and \<open>replaceAll\<close> is proved on any string
  with the placeholders of the signature.
\<close>

section \<open>Signatures\<close>

datatype dict = Words "string list" | Group "(string \<times> dict) list"

text \<open>Entries of a group: texts without placeholders (their keys separated by blanks), a text with
  placeholders, a nested group.\<close>

definition plain :: "string \<Rightarrow> (string \<times> dict) list" where
  "plain ks = map (\<lambda>k. (k, Words [])) (split_on CHR '' '' ks)"

definition holes :: "string \<Rightarrow> string list \<Rightarrow> (string \<times> dict) list" where
  "holes k hs = [(k, Words hs)]"

definition sect :: "string \<Rightarrow> (string \<times> dict) list \<Rightarrow> (string \<times> dict) list" where
  "sect k kvs = [(k, Group kvs)]"

text \<open>Reading \<open>t.a.b.c\<close>.\<close>

fun dict_at :: "dict \<Rightarrow> string list \<Rightarrow> string list option" where
  "dict_at (Words hs) [] = Some hs"
| "dict_at (Group kvs) (k # ks) = (case map_of kvs k of None \<Rightarrow> None | Some d \<Rightarrow> dict_at d ks)"
| "dict_at _ _ = None"

text \<open>The leaves with their paths, and the absence of repeated keys.\<close>

primrec flatten :: "dict \<Rightarrow> (string list \<times> string list) list" where
  "flatten (Words hs) = [([], hs)]"
| "flatten (Group kvs) = concat (map (\<lambda>(k, ls). map (\<lambda>(p, hs). (k # p, hs)) ls) (map (map_prod id flatten) kvs))"

primrec dict_wf :: "dict \<Rightarrow> bool" where
  "dict_wf (Words hs) = True"
| "dict_wf (Group kvs) = (distinct (map fst kvs) \<and> list_all snd (map (map_prod id dict_wf) kvs))"

text \<open>The type \<open>Localized<typeof T>\<close> of a dictionary with the keys of \<open>T\<close>: the same leaves, none
  missing and none more.\<close>

definition Localized :: "dict \<Rightarrow> dict \<Rightarrow> bool" where
  "Localized T d \<longleftrightarrow> dict_wf d \<and> fst ` set (flatten d) = fst ` set (flatten T)"

lemma flatten_lookup: "dict_wf d \<Longrightarrow> (p, hs) \<in> set (flatten d) \<longleftrightarrow> dict_at d p = Some hs"
proof (induction d arbitrary: p)
  case (Words x)
  then show ?case by (cases p) auto
next
  case (Group kvs)
  show ?case
  proof (cases p)
    case Nil
    then show ?thesis by auto
  next
    case (Cons k ks)
    have wf: "distinct (map fst kvs)" "\<forall>kv \<in> set kvs. dict_wf (snd kv)"
      using Group.prems by (auto simp: list_all_iff)
    have "(p, hs) \<in> set (flatten (Group kvs)) \<longleftrightarrow> (\<exists>d. (k, d) \<in> set kvs \<and> (ks, hs) \<in> set (flatten d))"
      using Cons by force
    also have "\<dots> \<longleftrightarrow> (\<exists>d. (k, d) \<in> set kvs \<and> dict_at d ks = Some hs)"
      using Group.IH wf(2) by (metis prod_set_simps(2) singletonI snd_conv snds.intros)
    also have "\<dots> \<longleftrightarrow> dict_at (Group kvs) p = Some hs"
      using Cons wf(1) by (auto split: option.splits dest: eq_key_imp_eq_value)
    finally show ?thesis .
  qed
qed

section \<open>Texts\<close>

datatype seg = Lit string | Hole string

fun seg_string :: "seg \<Rightarrow> string" where
  "seg_string (Lit s) = s"
| "seg_string (Hole n) = ''{'' @ n @ ''}''"

definition text_of :: "seg list \<Rightarrow> string" where
  "text_of segs = concat (map seg_string segs)"

fun holes_in :: "seg list \<Rightarrow> string list" where
  "holes_in [] = []"
| "holes_in (Lit s # segs) = holes_in segs"
| "holes_in (Hole n # segs) = n # holes_in segs"

definition brace_free :: "string \<Rightarrow> bool" where
  "brace_free s \<longleftrightarrow> CHR ''{'' \<notin> set s \<and> CHR ''}'' \<notin> set s"

fun seg_ok :: "seg \<Rightarrow> bool" where
  "seg_ok (Lit s) = brace_free s"
| "seg_ok (Hole n) = brace_free n"

text \<open>A text with the placeholders \<open>hs\<close> and no other brace, in which the values \<open>vs\<close> are already
  filled in.\<close>

definition filled :: "string \<Rightarrow> string list \<Rightarrow> string list \<Rightarrow> bool" where
  "filled x hs vs \<longleftrightarrow>
     (\<exists>segs. x = text_of segs \<and> holes_in segs = hs \<and> list_all seg_ok segs \<and> (\<forall>v \<in> set vs. Lit v \<in> set segs))"

text \<open>\<open>s.replaceAll(pat, rep)\<close> for a nonempty pattern and a replacement without \<open>$\<close>.\<close>

function replace_all :: "string \<Rightarrow> string \<Rightarrow> string \<Rightarrow> string" where
  "replace_all [] pat rep = []"
| "replace_all (c # cs) pat rep =
     (if pat \<noteq> [] \<and> starts_with (c # cs) pat then rep @ replace_all (drop (length pat) (c # cs)) pat rep
      else c # replace_all cs pat rep)"
  by pat_completeness auto
termination
proof (relation "measure (\<lambda>(s, pat, rep). length s)", goal_cases)
  case (2 c cs pat rep)
  then show ?case by (cases pat) auto
qed auto

section \<open>Filling a placeholder\<close>

definition hole :: "string \<Rightarrow> string" where
  "hole n = ''{'' @ n @ ''}''"

fun fill_first :: "string \<Rightarrow> string \<Rightarrow> seg list \<Rightarrow> seg list" where
  "fill_first n v [] = []"
| "fill_first n v (Lit s # segs) = Lit s # fill_first n v segs"
| "fill_first n v (Hole m # segs) = (if m = n then Lit v # segs else Hole m # fill_first n v segs)"

fun fill_all :: "string \<Rightarrow> string \<Rightarrow> seg list \<Rightarrow> seg list" where
  "fill_all n v [] = []"
| "fill_all n v (Lit s # segs) = Lit s # fill_all n v segs"
| "fill_all n v (Hole m # segs) = (if m = n then Lit v else Hole m) # fill_all n v segs"

lemma starts_brace [simp]:
  "starts_with (c # cs) (hole n) \<longleftrightarrow> c = CHR ''{'' \<and> starts_with cs (n @ ''}'')"
  by (auto simp: starts_with_def hole_def)

lemma skip_first: "CHR ''{'' \<notin> set s \<Longrightarrow> replace_first (s @ x) (hole n) v = s @ replace_first x (hole n) v"
  by (induction s) auto

lemma skip_all: "CHR ''{'' \<notin> set s \<Longrightarrow> replace_all (s @ x) (hole n) v = s @ replace_all x (hole n) v"
  by (induction s) auto

lemma starts_name:
  assumes "brace_free m" and "brace_free n"
  shows "starts_with (m @ CHR ''}'' # x) (n @ ''}'') \<longleftrightarrow> m = n"
  using assms
proof (induction m arbitrary: n)
  case Nil
  then show ?case by (cases n) (auto simp: starts_with_def brace_free_def)
next
  case (Cons c m)
  show ?case
  proof (cases n)
    case Nil
    then show ?thesis using Cons.prems by (auto simp: starts_with_def brace_free_def)
  next
    case n: (Cons d n')
    then show ?thesis using Cons.IH [of n'] Cons.prems by (auto simp: starts_with_def brace_free_def)
  qed
qed

lemma text_of_simps [simp]: "text_of [] = []" "text_of (g # segs) = seg_string g @ text_of segs"
  by (simp_all add: text_of_def)

lemma hole_replaced:
  assumes "brace_free m" and "brace_free n"
  shows "replace_first (CHR ''{'' # m @ CHR ''}'' # x) (hole n) v =
           (if m = n then v @ x else CHR ''{'' # m @ CHR ''}'' # replace_first x (hole n) v)"
    and "replace_all (CHR ''{'' # m @ CHR ''}'' # x) (hole n) v =
           (if m = n then v @ replace_all x (hole n) v else CHR ''{'' # m @ CHR ''}'' # replace_all x (hole n) v)"
proof -
  have m: "CHR ''{'' \<notin> set (m @ ''}'')" using assms(1) by (simp add: brace_free_def)
  have d: "m = n \<Longrightarrow> drop (length (hole n)) (CHR ''{'' # m @ CHR ''}'' # x) = x" by (simp add: hole_def)
  have h: "hole n \<noteq> []" by (simp add: hole_def)
  show "replace_first (CHR ''{'' # m @ CHR ''}'' # x) (hole n) v =
           (if m = n then v @ x else CHR ''{'' # m @ CHR ''}'' # replace_first x (hole n) v)"
    using skip_first [OF m, of x n v] starts_name [OF assms, of x] d by auto
  show "replace_all (CHR ''{'' # m @ CHR ''}'' # x) (hole n) v =
           (if m = n then v @ replace_all x (hole n) v else CHR ''{'' # m @ CHR ''}'' # replace_all x (hole n) v)"
    using skip_all [OF m, of x n v] starts_name [OF assms, of x] d h by auto
qed

lemma replace_first_text:
  assumes "list_all seg_ok segs" and "brace_free n"
  shows "replace_first (text_of segs) (hole n) v = text_of (fill_first n v segs)"
  using assms(1)
proof (induction segs rule: holes_in.induct)
  case 1
  then show ?case by (simp add: hole_def)
next
  case (2 s segs)
  then show ?case by (simp add: skip_first brace_free_def)
next
  case (3 m segs)
  then show ?case using hole_replaced(1) [of m n "text_of segs" v] assms(2) by simp
qed

lemma replace_all_text:
  assumes "list_all seg_ok segs" and "brace_free n"
  shows "replace_all (text_of segs) (hole n) v = text_of (fill_all n v segs)"
  using assms(1)
proof (induction segs rule: holes_in.induct)
  case (2 s segs)
  then show ?case by (simp add: skip_all brace_free_def)
next
  case (3 m segs)
  then show ?case using hole_replaced(2) [of m n "text_of segs" v] assms(2) by simp
qed simp

lemma fill_ok: "list_all seg_ok segs \<Longrightarrow> brace_free v \<Longrightarrow> list_all seg_ok (fill_first n v segs)"
  "list_all seg_ok segs \<Longrightarrow> brace_free v \<Longrightarrow> list_all seg_ok (fill_all n v segs)"
  by (induction segs rule: holes_in.induct) auto

lemma holes_fill [simp]: "holes_in (fill_first n v segs) = remove1 n (holes_in segs)"
  "holes_in (fill_all n v segs) = removeAll n (holes_in segs)"
  by (induction segs rule: holes_in.induct) auto

lemma fill_shows: "Lit w \<in> set segs \<Longrightarrow> Lit w \<in> set (fill_first n v segs) \<and> Lit w \<in> set (fill_all n v segs)"
  "n \<in> set (holes_in segs) \<Longrightarrow> Lit v \<in> set (fill_first n v segs) \<and> Lit v \<in> set (fill_all n v segs)"
  by (induction segs rule: holes_in.induct) auto

text \<open>The facts every use of a placeholder needs: what remains to be filled, that the value is on
  screen, and that a text without placeholders has no braces.\<close>

lemma filled_first:
  assumes "filled x hs vs" and "n \<in> set hs" and "brace_free n" and "brace_free v"
  shows "filled (replace_first x (hole n) v) (remove1 n hs) (v # vs)"
proof -
  obtain segs where s: "x = text_of segs" "holes_in segs = hs" "list_all seg_ok segs" "\<forall>w \<in> set vs. Lit w \<in> set segs"
    using assms(1) by (auto simp: filled_def)
  have "replace_first x (hole n) v = text_of (fill_first n v segs)"
    using replace_first_text [OF s(3) assms(3)] s(1) by simp
  then show ?thesis unfolding filled_def
    using s fill_ok(1) [OF s(3) assms(4)] fill_shows assms(2) by (intro exI [of _ "fill_first n v segs"]) auto
qed

lemma filled_all:
  assumes "filled x hs vs" and "n \<in> set hs" and "brace_free n" and "brace_free v"
  shows "filled (replace_all x (hole n) v) (removeAll n hs) (v # vs)"
proof -
  obtain segs where s: "x = text_of segs" "holes_in segs = hs" "list_all seg_ok segs" "\<forall>w \<in> set vs. Lit w \<in> set segs"
    using assms(1) by (auto simp: filled_def)
  have "replace_all x (hole n) v = text_of (fill_all n v segs)"
    using replace_all_text [OF s(3) assms(3)] s(1) by simp
  then show ?thesis unfolding filled_def
    using s fill_ok(2) [OF s(3) assms(4)] fill_shows assms(2) by (intro exI [of _ "fill_all n v segs"]) auto
qed

lemma sublist_text_of: "Lit v \<in> set segs \<Longrightarrow> sublist v (text_of segs)"
  by (induction segs) (auto intro: sublist_appendI simp: sublist_append)

lemma filled_done:
  assumes "filled x [] vs"
  shows "brace_free x \<and> (\<forall>v \<in> set vs. sublist v x)"
proof -
  have "list_all seg_ok segs \<Longrightarrow> holes_in segs = [] \<Longrightarrow> brace_free (text_of segs)" for segs
    by (induction segs rule: holes_in.induct) (auto simp: brace_free_def)
  then show ?thesis using assms sublist_text_of by (auto simp: filled_def)
qed

end
