(* ===== verification/DictEn.thy ===== *)
theory DictEn
  imports Dictionary
begin

text \<open>
  The dictionary of the locale \<open>en\<close> (\<^verbatim>\<open>i18n/en.ts\<close>), one definition per section of the file: its
  keys in order, with the placeholders of each text that has any.
\<close>

definition en_common :: "(string \<times> dict) list" where
  "en_common =
     plain ''appName logout none language cancel''"

definition en_nav :: "(string \<times> dict) list" where
  "en_nav =
     plain ''overview devices alerts perimeter reportSettings reportSchedule reports logs sessions''
     @ plain ''mfa templates smtp logFleet system groups audit''"

definition en_login :: "(string \<times> dict) list" where
  "en_login =
     plain ''title email password passwordToggle submit invalidCredentials''
     @ sect ''mfa'' (
       plain ''title codeHint recoveryHint codeLabel recoveryLabel verify useRecovery useCode''
       @ plain ''invalidCode or usePasskey passkeyError passkeyNotSupported''
       @ holes ''rememberDevice'' [''days'']
       @ plain ''rememberDeviceHelp'')"

definition en_tenant :: "(string \<times> dict) list" where
  "en_tenant =
     plain ''activeLabel none''"

definition en_overview :: "(string \<times> dict) list" where
  "en_overview =
     plain ''title activeAlerts noActiveAlerts healthLoadError alertsLoadError''
     @ sect ''attackerCountries'' (
       plain ''title mapTitle empty private unknown attribution'')"

definition en_alerts :: "(string \<times> dict) list" where
  "en_alerts =
     plain ''title active history loadError noAlerts colType colLabel colSeverity colOpened''
     @ plain ''colResolved colDevice''"

definition en_devices :: "(string \<times> dict) list" where
  "en_devices =
     plain ''title add loadError colName colUrl colStatus colFirmware''"

definition en_deviceDetail :: "(string \<times> dict) list" where
  "en_deviceDetail =
     plain ''url status firmware loadError''"

definition en_deviceActions :: "(string \<times> dict) list" where
  "en_deviceActions =
     plain ''testConnection delete testResult testNotification testFailed deleteFailed openWebGui''"

definition en_firmware :: "(string \<times> dict) list" where
  "en_firmware =
     plain ''title tab check upToDate updatesAvailable downloadSize rebootNeeded newMajor update''
     @ plain ''upgrade updateConfirm upgradeConfirm plugins pluginName install remove installConfirm''
     @ plain ''removeConfirm runNow scheduleAt schedule recentActions noActions actionQueued''
     @ plain ''actionFailed checkFailed kind status when result''"

definition en_plugins :: "(string \<times> dict) list" where
  "en_plugins =
     plain ''tab title subtitle search name status version installed notInstalled locked install''
     @ plain ''remove installConfirm removeConfirm empty loadFailed configure configureTitle''"

definition en_templates :: "(string \<times> dict) list" where
  "en_templates =
     plain ''tab libraryTitle superadminOnly name kind type content description create edit save''
     @ plain ''delete deleteConfirm empty created updated saveFailed''
     @ sect ''apply'' (
       plain ''title pick override saveOverride overrideSaved preview previewTitle applyConfirm''
       @ plain ''runNow scheduleAt schedule queued failed none'')
     @ plain ''templatesTab kindLabel kindAlias kindSetting''
     @ sect ''setting'' (
       plain ''endpoint referenceDevice load loadHint noDevice loadFailed noFields hardwareNote'')
     @ plain ''kindFirewallRule''
     @ sect ''fw'' (
       plain ''referenceDevice load loadHint noDevice loadFailed descriptionRequired interface''
       @ plain ''floating note'')
     @ plain ''kindMonitTest''
     @ sect ''monit'' (
       plain ''referenceDevice load loadHint noDevice loadFailed nameRequired note attachSystem''
       @ plain ''attachSystemNote'')
     @ plain ''kindIdsRulesets''
     @ sect ''ids'' (
       plain ''referenceDevice load loadHint noDevice loadFailed rulesets noRulesets note'')
     @ plain ''kindIdsPolicy''
     @ sect ''idsPolicy'' (
       plain ''description enabled prio action newAction rulesets referenceDevice load loadHint''
       @ plain ''noDevice noRulesets loadFailed content contentKey contentValues contentKeyInvalid''
       @ plain ''addContent descriptionRequired note'')
     @ sect ''profiles'' (
       plain ''tab name description members create edit save delete deleteConfirm empty created''
       @ plain ''updated saveFailed memberCount''
       @ sect ''apply'' (
         plain ''title pick preview previewTitle interface floating empty applyConfirm runNow''
         @ plain ''scheduleAt schedule queued failed''))"

definition en_deviceCreate :: "(string \<times> dict) list" where
  "en_deviceCreate =
     plain ''title name url apiKey apiSecret verifyTls tlsWarning tlsFingerprintLabel''
     @ plain ''tlsFingerprintPlaceholder save created createFailed''"

definition en_health :: "(string \<times> dict) list" where
  "en_health =
     plain ''totalDevices activeAlerts''"

definition en_logForwarding :: "(string \<times> dict) list" where
  "en_logForwarding =
     plain ''tab''"

definition en_catalog :: "(string \<times> dict) list" where
  "en_catalog =
     plain ''tab searchModels noModels selectModel readOnly unreachable liveValues propose preview''
     @ plain ''noChanges proposed proposeFailed loadFailed openWebgui searchAll''
     @ sect ''grid'' (
       plain ''add save edit delete empty'')
     @ sect ''diff'' (
       plain ''baseline noBaseline''
       @ holes ''newSince'' [''v'']
       @ holes ''changedSince'' [''v'']
       @ plain ''changes'')
     @ sect ''map'' (
       plain ''tabMenu tabMap editInCatalog readOnly''
       @ holes ''staleBanner'' [''when''])"

definition en_config :: "(string \<times> dict) list" where
  "en_config =
     plain ''tabInfo tabHealth tabConfig capabilities version interfaces configuredSections''
     @ plain ''available hidden noConfigYet nic''
     @ sect ''changes'' (
       plain ''title propose none colKind colOperation colTarget colStatus colScheduled preview''
       @ plain ''schedule cancel revert reverts applyNow pickTime checkDrift driftUnreachable''
       @ plain ''driftInSync driftDrifted driftMissing driftUnsupported driftFields operation name''
       @ plain ''type content create add set delete'')"

definition en_deviceHealth :: "(string \<times> dict) list" where
  "en_deviceHealth =
     plain ''title cpu memory disk trafficIn trafficOut gatewayRtt gatewayLoss vpnUp''"

definition en_chart :: "(string \<times> dict) list" where
  "en_chart =
     plain ''noData''"

definition en_reports :: "(string \<times> dict) list" where
  "en_reports =
     sect ''page'' (
       plain ''title generate from to period kind created size download none generated kindOnDemand''
       @ plain ''kindScheduled'')
     @ sect ''settings'' (
       plain ''pageTitle title owner timezone fromEmail logo upload remove language save adminsOnly''
       @ plain ''saved logoUploaded logoRemoved hasLogo noLogo'')
     @ sect ''sections'' (
       plain ''title description customizeForDevice summary health alerts_wan attacks''
       @ plain ''attacker_countries failed_logins firewall_blocks web data status firmware_config''
       @ plain ''applications web_filter'')"

definition en_sessions :: "(string \<times> dict) list" where
  "en_sessions =
     plain ''pageTitle colLastSeen colCreated colExpires colIp colUserAgent current logoutAll''
     @ plain ''loadError logoutAllError''"

definition en_mfa :: "(string \<times> dict) list" where
  "en_mfa =
     plain ''pageTitle intro status enabled disabled recoveryRemaining statusError enroll''
     @ plain ''enrollStart password passwordHint scanHint secretLabel confirmCodeLabel confirmHint''
     @ plain ''confirm cancel setupError confirmError recoveryTitle recoveryIntro recoveryWarning''
     @ plain ''copyAll copied download done regenerate regenerateError disable disableConfirmTitle''
     @ plain ''disableConfirmBody disableError disabledNotice policyTitle policyIntro policyOff''
     @ plain ''policyAll policyPrivileged policyLoadError policySaveError policySaved usersTitle''
     @ plain ''colUser colEmail colRole superadmin member reset resetConfirmTitle resetConfirmBody''
     @ plain ''resetError resetDone usersLoadError gateTitle gateIntro''
     @ sect ''passkeys'' (
       plain ''title intro add accountPassword name namePlaceholder unnamed colName colCreated''
       @ plain ''remove removeConfirmTitle removeConfirmBody addedNotice removedNotice addError''
       @ plain ''removeError listError lastFactorError notConfigured notSupported'')
     @ sect ''trustedDeviceToggle'' (
       plain ''label help'')
     @ sect ''trustedDevices'' (
       plain ''title intro colDevice colIp colLastUsed colExpires revoke revokeAll confirmTitle''
       @ plain ''confirmBody revokeAllConfirmTitle revokeAllConfirmBody empty loadError revokeError''
       @ plain ''unknownDevice'')"

definition en_groups :: "(string \<times> dict) list" where
  "en_groups =
     plain ''title description superadminOnly name namePlaceholder descriptionField''
     @ plain ''descriptionPlaceholder members membersPlaceholder noMembers grants noGrants addGrant''
     @ plain ''allTenants tenant tenantPlaceholder role roleTenantAdmin roleOperator roleReadOnly''
     @ plain ''allTenantsScope create createTitle save delete deleteConfirm removeGrant empty created''
     @ plain ''updated deleted membersSaved grantAdded grantRemoved saveFailed loadError''"

definition en_confirm :: "(string \<times> dict) list" where
  "en_confirm =
     plain ''title cancel confirm deleteDevice deleteDeviceBody''"

definition en_errors :: "(string \<times> dict) list" where
  "en_errors =
     plain ''fleetHealthLoad alertsLoad metricsLoad configModelLoad configCapabilitiesLoad''
     @ plain ''configChangesLoad configChangeAction reportSettingsLoad reportSettingsAction''
     @ plain ''reportsLoad reportGenerate attackerCountriesLoad perimeterLoad auditLoad retentionLoad''
     @ plain ''retentionSave''"

definition en_system :: "(string \<times> dict) list" where
  "en_system =
     plain ''title subtitle''
     @ sect ''livePush'' (
       plain ''label help loadError enabled disabled updateError'')
     @ sect ''runtime'' (
       plain ''title subtitle loadError save discard saved saveError defaultLabel impactsTitle''
       @ holes ''impactItem'' [''tenant'', ''store'', ''range'', ''store'', ''bound'']
       @ sect ''groups'' (
         plain ''firmware distribution maintenance retention security_login security_session'')
       @ sect ''items'' (
         sect ''firmware_max_status_polls'' (
           plain ''label help'')
         @ sect ''firmware_poll_interval_seconds'' (
           plain ''label help'')
         @ sect ''catalog_auto_fetch'' (
           plain ''label help'')
         @ sect ''geoip_auto_fetch'' (
           plain ''label help'')
         @ sect ''silent_alert_enabled'' (
           plain ''label help'')
         @ sect ''silent_alert_after_hours'' (
           plain ''label help'')
         @ sect ''perimeter_retention_days'' (
           plain ''label help'')
         @ sect ''events_retention_days'' (
           plain ''label help'')
         @ sect ''metrics_retention_days'' (
           plain ''label help'')
         @ sect ''log_lake_retention_days'' (
           plain ''label help'')
         @ sect ''login_max_attempts'' (
           plain ''label help'')
         @ sect ''login_lockout_window_seconds'' (
           plain ''label help'')
         @ sect ''session_ttl_hours'' (
           plain ''label help'')
         @ sect ''session_idle_minutes'' (
           plain ''label help'')
         @ sect ''trusted_device_days'' (
           plain ''label help'')))"

definition en_logFleet :: "(string \<times> dict) list" where
  "en_logFleet =
     plain ''title loadError exportCsv exportPdf exportFailed silentBadge silentAlertsTitle''
     @ plain ''silentAlertsBody volume devicesTitle devicesLoadError noDevices''
     @ sect ''stats'' (
       plain ''tenantsForwarding enabledDevices silentTenants'')
     @ sect ''table'' (
       plain ''tenant device forwarding revoked lastLog'')"

definition en_perimeter :: "(string \<times> dict) list" where
  "en_perimeter =
     plain ''title subtitle failedLogins firewallBlocks failedLoginsHelp firewallBlocksHelp ip''
     @ plain ''country user port count lastSeen empty viewAll loadError''"

definition en_retention :: "(string \<times> dict) list" where
  "en_retention =
     plain ''title subtitle inheritHint save saved''
     @ sect ''stores'' (
       plain ''perimeter events metrics log_lake'')
     @ plain ''warningTitle''
     @ holes ''warningItem'' [''frequency'', ''range'', ''store'', ''bound'']"

definition en_audit :: "(string \<times> dict) list" where
  "en_audit =
     plain ''title subtitle''
     @ sect ''filters'' (
       plain ''actor tenant action from to apply reset'')
     @ sect ''columns'' (
       plain ''time actor tenant action target ip details'')
     @ plain ''empty export exportFailed''
     @ holes ''page'' [''page'']
     @ holes ''showingTotal'' [''total'']
     @ plain ''prev next''"

definition en_reliability :: "(string \<times> dict) list" where
  "en_reliability =
     plain ''tab title subtitle time category name severity process message''
     @ sect ''categories'' (
       plain ''reboot service disk'')
     @ sect ''severities'' (
       plain ''high medium low'')
     @ plain ''loadMore empty loading loadError last24h''"

definition en_configAudit :: "(string \<times> dict) list" where
  "en_configAudit =
     plain ''tab title subtitle time area actor ip channel change direct''
     @ sect ''channels'' (
       plain ''api gui system opngms api_external'')
     @ plain ''loadMore empty loading loadError last24h''"

definition en_smtp :: "(string \<times> dict) list" where
  "en_smtp =
     plain ''authMethod authPassword authOauth oauthProvider oauthGoogle oauthMicrosoft''
     @ plain ''oauthClientId oauthClientSecret oauthRefreshToken oauthTenantId oauthSecretSaved''
     @ plain ''oauthConnect oauthConnectGoogle oauthConnectMicrosoft oauthExperimental''
     @ plain ''oauthExperimentalNote oauthConnectNeedsCreds oauthConnected oauthConnectFailed''"

definition en_dict :: dict where
  "en_dict = Group
     [(''common'', Group en_common), (''nav'', Group en_nav), (''login'', Group en_login), (''tenant'',
     Group en_tenant), (''overview'', Group en_overview), (''alerts'', Group en_alerts), (''devices'',
     Group en_devices), (''deviceDetail'', Group en_deviceDetail), (''deviceActions'', Group en_deviceActions),
     (''firmware'', Group en_firmware), (''plugins'', Group en_plugins), (''templates'', Group en_templates),
     (''deviceCreate'', Group en_deviceCreate), (''health'', Group en_health), (''logForwarding'',
     Group en_logForwarding), (''catalog'', Group en_catalog), (''config'', Group en_config),
     (''deviceHealth'', Group en_deviceHealth), (''chart'', Group en_chart), (''reports'', Group en_reports),
     (''sessions'', Group en_sessions), (''mfa'', Group en_mfa), (''groups'', Group en_groups), (''confirm'',
     Group en_confirm), (''errors'', Group en_errors), (''system'', Group en_system), (''logFleet'',
     Group en_logFleet), (''perimeter'', Group en_perimeter), (''retention'', Group en_retention), (''audit'',
     Group en_audit), (''reliability'', Group en_reliability), (''configAudit'', Group en_configAudit),
     (''smtp'', Group en_smtp)]"

lemmas en_defs = en_common_def en_nav_def en_login_def en_tenant_def en_overview_def en_alerts_def en_devices_def
  en_deviceDetail_def en_deviceActions_def en_firmware_def en_plugins_def en_templates_def
  en_deviceCreate_def en_health_def en_logForwarding_def en_catalog_def en_config_def en_deviceHealth_def
  en_chart_def en_reports_def en_sessions_def en_mfa_def en_groups_def en_confirm_def en_errors_def
  en_system_def en_logFleet_def en_perimeter_def en_retention_def en_audit_def en_reliability_def
  en_configAudit_def en_smtp_def

end
