(* ===== verification/DictIt.thy ===== *)
theory DictIt
  imports Dictionary
begin

text \<open>
  The dictionary of the locale \<open>it\<close> (\<^verbatim>\<open>i18n/it.ts\<close>), one definition per section of the file: its
  keys in order, with the placeholders of each text that has any.
\<close>

definition it_common :: "(string \<times> dict) list" where
  "it_common =
     plain ''appName logout none language cancel''"

definition it_nav :: "(string \<times> dict) list" where
  "it_nav =
     plain ''overview devices alerts perimeter reportSettings reportSchedule reports logs sessions''
     @ plain ''mfa templates smtp logFleet system groups audit''"

definition it_login :: "(string \<times> dict) list" where
  "it_login =
     plain ''title email password passwordToggle submit invalidCredentials''
     @ sect ''mfa'' (
       plain ''title codeHint recoveryHint codeLabel recoveryLabel verify useRecovery useCode''
       @ plain ''invalidCode or usePasskey passkeyError passkeyNotSupported''
       @ holes ''rememberDevice'' [''days'']
       @ plain ''rememberDeviceHelp'')"

definition it_tenant :: "(string \<times> dict) list" where
  "it_tenant =
     plain ''activeLabel none''"

definition it_overview :: "(string \<times> dict) list" where
  "it_overview =
     plain ''title activeAlerts noActiveAlerts healthLoadError alertsLoadError''
     @ sect ''attackerCountries'' (
       plain ''title mapTitle empty private unknown attribution'')"

definition it_alerts :: "(string \<times> dict) list" where
  "it_alerts =
     plain ''title active history loadError noAlerts colType colLabel colSeverity colOpened''
     @ plain ''colResolved colDevice''"

definition it_devices :: "(string \<times> dict) list" where
  "it_devices =
     plain ''title add loadError colName colUrl colStatus colFirmware''"

definition it_deviceDetail :: "(string \<times> dict) list" where
  "it_deviceDetail =
     plain ''url status firmware loadError''"

definition it_deviceActions :: "(string \<times> dict) list" where
  "it_deviceActions =
     plain ''testConnection delete testResult testNotification testFailed deleteFailed openWebGui''"

definition it_firmware :: "(string \<times> dict) list" where
  "it_firmware =
     plain ''title tab check upToDate updatesAvailable downloadSize rebootNeeded newMajor update''
     @ plain ''upgrade updateConfirm upgradeConfirm plugins pluginName install remove installConfirm''
     @ plain ''removeConfirm runNow scheduleAt schedule recentActions noActions actionQueued''
     @ plain ''actionFailed checkFailed kind status when result''"

definition it_plugins :: "(string \<times> dict) list" where
  "it_plugins =
     plain ''tab title subtitle search name status version installed notInstalled locked install''
     @ plain ''remove installConfirm removeConfirm empty loadFailed configure configureTitle''"

definition it_templates :: "(string \<times> dict) list" where
  "it_templates =
     plain ''tab libraryTitle superadminOnly name kind type content description create edit save''
     @ plain ''delete deleteConfirm empty created updated saveFailed''
     @ sect ''apply'' (
       plain ''title pick override saveOverride overrideSaved preview previewTitle applyConfirm''
       @ plain ''runNow scheduleAt schedule queued failed none'')
     @ plain ''templatesTab kindLabel kindAlias kindSetting''
     @ sect ''setting'' (
       plain ''endpoint referenceDevice load loadHint noDevice loadFailed noFields hardwareNote'')
     @ plain ''kindFirewallRule''
     @ sect ''fw'' (
       plain ''referenceDevice load loadHint noDevice loadFailed descriptionRequired interface''
       @ plain ''floating note'')
     @ plain ''kindMonitTest''
     @ sect ''monit'' (
       plain ''referenceDevice load loadHint noDevice loadFailed nameRequired note attachSystem''
       @ plain ''attachSystemNote'')
     @ plain ''kindIdsRulesets''
     @ sect ''ids'' (
       plain ''referenceDevice load loadHint noDevice loadFailed rulesets noRulesets note'')
     @ plain ''kindIdsPolicy''
     @ sect ''idsPolicy'' (
       plain ''description enabled prio action newAction rulesets referenceDevice load loadHint''
       @ plain ''noDevice noRulesets loadFailed content contentKey contentValues contentKeyInvalid''
       @ plain ''addContent descriptionRequired note'')
     @ sect ''profiles'' (
       plain ''tab name description members create edit save delete deleteConfirm empty created''
       @ plain ''updated saveFailed memberCount''
       @ sect ''apply'' (
         plain ''title pick preview previewTitle interface floating empty applyConfirm runNow''
         @ plain ''scheduleAt schedule queued failed''))"

definition it_deviceCreate :: "(string \<times> dict) list" where
  "it_deviceCreate =
     plain ''title name url apiKey apiSecret verifyTls tlsWarning tlsFingerprintLabel''
     @ plain ''tlsFingerprintPlaceholder save created createFailed''"

definition it_health :: "(string \<times> dict) list" where
  "it_health =
     plain ''totalDevices activeAlerts''"

definition it_logForwarding :: "(string \<times> dict) list" where
  "it_logForwarding =
     plain ''tab''"

definition it_catalog :: "(string \<times> dict) list" where
  "it_catalog =
     plain ''tab searchModels noModels selectModel readOnly unreachable liveValues propose preview''
     @ plain ''noChanges proposed proposeFailed loadFailed openWebgui searchAll''
     @ sect ''grid'' (
       plain ''add save edit delete empty'')
     @ sect ''diff'' (
       plain ''baseline noBaseline''
       @ holes ''newSince'' [''v'']
       @ holes ''changedSince'' [''v'']
       @ plain ''changes'')
     @ sect ''map'' (
       plain ''tabMenu tabMap editInCatalog readOnly''
       @ holes ''staleBanner'' [''when''])"

definition it_config :: "(string \<times> dict) list" where
  "it_config =
     plain ''tabInfo tabHealth tabConfig capabilities version interfaces configuredSections''
     @ plain ''available hidden noConfigYet nic''
     @ sect ''changes'' (
       plain ''title propose none colKind colOperation colTarget colStatus colScheduled preview''
       @ plain ''schedule cancel revert reverts applyNow pickTime checkDrift driftUnreachable''
       @ plain ''driftInSync driftDrifted driftMissing driftUnsupported driftFields operation name''
       @ plain ''type content create add set delete'')"

definition it_deviceHealth :: "(string \<times> dict) list" where
  "it_deviceHealth =
     plain ''title cpu memory disk trafficIn trafficOut gatewayRtt gatewayLoss vpnUp''"

definition it_chart :: "(string \<times> dict) list" where
  "it_chart =
     plain ''noData''"

definition it_reports :: "(string \<times> dict) list" where
  "it_reports =
     sect ''page'' (
       plain ''title generate from to period kind created size download none generated kindOnDemand''
       @ plain ''kindScheduled'')
     @ sect ''settings'' (
       plain ''pageTitle title owner timezone fromEmail logo upload remove language save adminsOnly''
       @ plain ''saved logoUploaded logoRemoved hasLogo noLogo'')
     @ sect ''sections'' (
       plain ''title description customizeForDevice summary health alerts_wan attacks''
       @ plain ''attacker_countries failed_logins firewall_blocks web data status firmware_config''
       @ plain ''applications web_filter'')"

definition it_sessions :: "(string \<times> dict) list" where
  "it_sessions =
     plain ''pageTitle colLastSeen colCreated colExpires colIp colUserAgent current logoutAll''
     @ plain ''loadError logoutAllError''"

definition it_mfa :: "(string \<times> dict) list" where
  "it_mfa =
     plain ''pageTitle intro status enabled disabled recoveryRemaining statusError enroll''
     @ plain ''enrollStart password passwordHint scanHint secretLabel confirmCodeLabel confirmHint''
     @ plain ''confirm cancel setupError confirmError recoveryTitle recoveryIntro recoveryWarning''
     @ plain ''copyAll copied download done regenerate regenerateError disable disableConfirmTitle''
     @ plain ''disableConfirmBody disableError disabledNotice policyTitle policyIntro policyOff''
     @ plain ''policyAll policyPrivileged policyLoadError policySaveError policySaved usersTitle''
     @ plain ''colUser colEmail colRole superadmin member reset resetConfirmTitle resetConfirmBody''
     @ plain ''resetError resetDone usersLoadError gateTitle gateIntro''
     @ sect ''passkeys'' (
       plain ''title intro add accountPassword name namePlaceholder unnamed colName colCreated''
       @ plain ''remove removeConfirmTitle removeConfirmBody addedNotice removedNotice addError''
       @ plain ''removeError listError lastFactorError notConfigured notSupported'')
     @ sect ''trustedDeviceToggle'' (
       plain ''label help'')
     @ sect ''trustedDevices'' (
       plain ''title intro colDevice colIp colLastUsed colExpires revoke revokeAll confirmTitle''
       @ plain ''confirmBody revokeAllConfirmTitle revokeAllConfirmBody empty loadError revokeError''
       @ plain ''unknownDevice'')"

definition it_groups :: "(string \<times> dict) list" where
  "it_groups =
     plain ''title description superadminOnly name namePlaceholder descriptionField''
     @ plain ''descriptionPlaceholder members membersPlaceholder noMembers grants noGrants addGrant''
     @ plain ''allTenants tenant tenantPlaceholder role roleTenantAdmin roleOperator roleReadOnly''
     @ plain ''allTenantsScope create createTitle save delete deleteConfirm removeGrant empty created''
     @ plain ''updated deleted membersSaved grantAdded grantRemoved saveFailed loadError''"

definition it_confirm :: "(string \<times> dict) list" where
  "it_confirm =
     plain ''title cancel confirm deleteDevice deleteDeviceBody''"

definition it_errors :: "(string \<times> dict) list" where
  "it_errors =
     plain ''fleetHealthLoad alertsLoad metricsLoad configModelLoad configCapabilitiesLoad''
     @ plain ''configChangesLoad configChangeAction reportSettingsLoad reportSettingsAction''
     @ plain ''reportsLoad reportGenerate attackerCountriesLoad perimeterLoad auditLoad retentionLoad''
     @ plain ''retentionSave''"

definition it_system :: "(string \<times> dict) list" where
  "it_system =
     plain ''title subtitle''
     @ sect ''livePush'' (
       plain ''label help loadError enabled disabled updateError'')
     @ sect ''runtime'' (
       plain ''title subtitle loadError save discard saved saveError defaultLabel impactsTitle''
       @ holes ''impactItem'' [''tenant'', ''store'', ''range'', ''store'', ''bound'']
       @ sect ''groups'' (
         plain ''firmware distribution maintenance retention security_login security_session'')
       @ sect ''items'' (
         sect ''firmware_max_status_polls'' (
           plain ''label help'')
         @ sect ''firmware_poll_interval_seconds'' (
           plain ''label help'')
         @ sect ''catalog_auto_fetch'' (
           plain ''label help'')
         @ sect ''geoip_auto_fetch'' (
           plain ''label help'')
         @ sect ''silent_alert_enabled'' (
           plain ''label help'')
         @ sect ''silent_alert_after_hours'' (
           plain ''label help'')
         @ sect ''perimeter_retention_days'' (
           plain ''label help'')
         @ sect ''events_retention_days'' (
           plain ''label help'')
         @ sect ''metrics_retention_days'' (
           plain ''label help'')
         @ sect ''log_lake_retention_days'' (
           plain ''label help'')
         @ sect ''login_max_attempts'' (
           plain ''label help'')
         @ sect ''login_lockout_window_seconds'' (
           plain ''label help'')
         @ sect ''session_ttl_hours'' (
           plain ''label help'')
         @ sect ''session_idle_minutes'' (
           plain ''label help'')
         @ sect ''trusted_device_days'' (
           plain ''label help'')))"

definition it_logFleet :: "(string \<times> dict) list" where
  "it_logFleet =
     plain ''title loadError exportCsv exportPdf exportFailed silentBadge silentAlertsTitle''
     @ plain ''silentAlertsBody volume devicesTitle devicesLoadError noDevices''
     @ sect ''stats'' (
       plain ''tenantsForwarding enabledDevices silentTenants'')
     @ sect ''table'' (
       plain ''tenant device forwarding revoked lastLog'')"

definition it_perimeter :: "(string \<times> dict) list" where
  "it_perimeter =
     plain ''title subtitle failedLogins firewallBlocks failedLoginsHelp firewallBlocksHelp ip''
     @ plain ''country user port count lastSeen empty viewAll loadError''"

definition it_retention :: "(string \<times> dict) list" where
  "it_retention =
     plain ''title subtitle inheritHint save saved''
     @ sect ''stores'' (
       plain ''perimeter events metrics log_lake'')
     @ plain ''warningTitle''
     @ holes ''warningItem'' [''frequency'', ''range'', ''store'', ''bound'']"

definition it_audit :: "(string \<times> dict) list" where
  "it_audit =
     plain ''title subtitle''
     @ sect ''filters'' (
       plain ''actor tenant action from to apply reset'')
     @ sect ''columns'' (
       plain ''time actor tenant action target ip details'')
     @ plain ''empty export exportFailed''
     @ holes ''page'' [''page'']
     @ holes ''showingTotal'' [''total'']
     @ plain ''prev next''"

definition it_reliability :: "(string \<times> dict) list" where
  "it_reliability =
     plain ''tab title subtitle time category name severity process message''
     @ sect ''categories'' (
       plain ''reboot service disk'')
     @ sect ''severities'' (
       plain ''high medium low'')
     @ plain ''loadMore empty loading loadError last24h''"

definition it_configAudit :: "(string \<times> dict) list" where
  "it_configAudit =
     plain ''tab title subtitle time area actor ip channel change direct''
     @ sect ''channels'' (
       plain ''api gui system opngms api_external'')
     @ plain ''loadMore empty loading loadError last24h''"

definition it_smtp :: "(string \<times> dict) list" where
  "it_smtp =
     plain ''authMethod authPassword authOauth oauthProvider oauthGoogle oauthMicrosoft''
     @ plain ''oauthClientId oauthClientSecret oauthRefreshToken oauthTenantId oauthSecretSaved''
     @ plain ''oauthConnect oauthConnectGoogle oauthConnectMicrosoft oauthExperimental''
     @ plain ''oauthExperimentalNote oauthConnectNeedsCreds oauthConnected oauthConnectFailed''"

definition it_dict :: dict where
  "it_dict = Group
     [(''common'', Group it_common), (''nav'', Group it_nav), (''login'', Group it_login), (''tenant'',
     Group it_tenant), (''overview'', Group it_overview), (''alerts'', Group it_alerts), (''devices'',
     Group it_devices), (''deviceDetail'', Group it_deviceDetail), (''deviceActions'', Group it_deviceActions),
     (''firmware'', Group it_firmware), (''plugins'', Group it_plugins), (''templates'', Group it_templates),
     (''deviceCreate'', Group it_deviceCreate), (''health'', Group it_health), (''logForwarding'',
     Group it_logForwarding), (''catalog'', Group it_catalog), (''config'', Group it_config),
     (''deviceHealth'', Group it_deviceHealth), (''chart'', Group it_chart), (''reports'', Group it_reports),
     (''sessions'', Group it_sessions), (''mfa'', Group it_mfa), (''groups'', Group it_groups), (''confirm'',
     Group it_confirm), (''errors'', Group it_errors), (''system'', Group it_system), (''logFleet'',
     Group it_logFleet), (''perimeter'', Group it_perimeter), (''retention'', Group it_retention), (''audit'',
     Group it_audit), (''reliability'', Group it_reliability), (''configAudit'', Group it_configAudit),
     (''smtp'', Group it_smtp)]"

lemmas it_defs = it_common_def it_nav_def it_login_def it_tenant_def it_overview_def it_alerts_def it_devices_def
  it_deviceDetail_def it_deviceActions_def it_firmware_def it_plugins_def it_templates_def
  it_deviceCreate_def it_health_def it_logForwarding_def it_catalog_def it_config_def it_deviceHealth_def
  it_chart_def it_reports_def it_sessions_def it_mfa_def it_groups_def it_confirm_def it_errors_def
  it_system_def it_logFleet_def it_perimeter_def it_retention_def it_audit_def it_reliability_def
  it_configAudit_def it_smtp_def

end
