(* ===== verification/DictEs.thy ===== *)
theory DictEs
  imports Dictionary
begin

text \<open>
  The dictionary of the locale \<open>es\<close> (\<^verbatim>\<open>i18n/es.ts\<close>), one definition per section of the file: its
  keys in order, with the placeholders of each text that has any.
\<close>

definition es_common :: "(string \<times> dict) list" where
  "es_common =
     plain ''appName logout none language cancel''"

definition es_nav :: "(string \<times> dict) list" where
  "es_nav =
     plain ''overview devices alerts perimeter reportSettings reportSchedule reports logs sessions''
     @ plain ''mfa templates smtp logFleet system groups audit''"

definition es_login :: "(string \<times> dict) list" where
  "es_login =
     plain ''title email password passwordToggle submit invalidCredentials''
     @ sect ''mfa'' (
       plain ''title codeHint recoveryHint codeLabel recoveryLabel verify useRecovery useCode''
       @ plain ''invalidCode or usePasskey passkeyError passkeyNotSupported''
       @ holes ''rememberDevice'' [''days'']
       @ plain ''rememberDeviceHelp'')"

definition es_tenant :: "(string \<times> dict) list" where
  "es_tenant =
     plain ''activeLabel none''"

definition es_overview :: "(string \<times> dict) list" where
  "es_overview =
     plain ''title activeAlerts noActiveAlerts healthLoadError alertsLoadError''
     @ sect ''attackerCountries'' (
       plain ''title mapTitle empty private unknown attribution'')"

definition es_alerts :: "(string \<times> dict) list" where
  "es_alerts =
     plain ''title active history loadError noAlerts colType colLabel colSeverity colOpened''
     @ plain ''colResolved colDevice''"

definition es_devices :: "(string \<times> dict) list" where
  "es_devices =
     plain ''title add loadError colName colUrl colStatus colFirmware''"

definition es_deviceDetail :: "(string \<times> dict) list" where
  "es_deviceDetail =
     plain ''url status firmware loadError''"

definition es_deviceActions :: "(string \<times> dict) list" where
  "es_deviceActions =
     plain ''testConnection delete testResult testNotification testFailed deleteFailed openWebGui''"

definition es_firmware :: "(string \<times> dict) list" where
  "es_firmware =
     plain ''title tab check upToDate updatesAvailable downloadSize rebootNeeded newMajor update''
     @ plain ''upgrade updateConfirm upgradeConfirm plugins pluginName install remove installConfirm''
     @ plain ''removeConfirm runNow scheduleAt schedule recentActions noActions actionQueued''
     @ plain ''actionFailed checkFailed kind status when result''"

definition es_plugins :: "(string \<times> dict) list" where
  "es_plugins =
     plain ''tab title subtitle search name status version installed notInstalled locked install''
     @ plain ''remove installConfirm removeConfirm empty loadFailed configure configureTitle''"

definition es_templates :: "(string \<times> dict) list" where
  "es_templates =
     plain ''tab libraryTitle superadminOnly name kind type content description create edit save''
     @ plain ''delete deleteConfirm empty created updated saveFailed''
     @ sect ''apply'' (
       plain ''title pick override saveOverride overrideSaved preview previewTitle applyConfirm''
       @ plain ''runNow scheduleAt schedule queued failed none'')
     @ plain ''templatesTab kindLabel kindAlias kindSetting''
     @ sect ''setting'' (
       plain ''endpoint referenceDevice load loadHint noDevice loadFailed noFields hardwareNote'')
     @ plain ''kindFirewallRule''
     @ sect ''fw'' (
       plain ''referenceDevice load loadHint noDevice loadFailed descriptionRequired interface''
       @ plain ''floating note'')
     @ plain ''kindMonitTest''
     @ sect ''monit'' (
       plain ''referenceDevice load loadHint noDevice loadFailed nameRequired note attachSystem''
       @ plain ''attachSystemNote'')
     @ plain ''kindIdsRulesets''
     @ sect ''ids'' (
       plain ''referenceDevice load loadHint noDevice loadFailed rulesets noRulesets note'')
     @ plain ''kindIdsPolicy''
     @ sect ''idsPolicy'' (
       plain ''description enabled prio action newAction rulesets referenceDevice load loadHint''
       @ plain ''noDevice noRulesets loadFailed content contentKey contentValues contentKeyInvalid''
       @ plain ''addContent descriptionRequired note'')
     @ sect ''profiles'' (
       plain ''tab name description members create edit save delete deleteConfirm empty created''
       @ plain ''updated saveFailed memberCount''
       @ sect ''apply'' (
         plain ''title pick preview previewTitle interface floating empty applyConfirm runNow''
         @ plain ''scheduleAt schedule queued failed''))"

definition es_deviceCreate :: "(string \<times> dict) list" where
  "es_deviceCreate =
     plain ''title name url apiKey apiSecret verifyTls tlsWarning tlsFingerprintLabel''
     @ plain ''tlsFingerprintPlaceholder save created createFailed''"

definition es_health :: "(string \<times> dict) list" where
  "es_health =
     plain ''totalDevices activeAlerts''"

definition es_logForwarding :: "(string \<times> dict) list" where
  "es_logForwarding =
     plain ''tab''"

definition es_catalog :: "(string \<times> dict) list" where
  "es_catalog =
     plain ''tab searchModels noModels selectModel readOnly unreachable liveValues propose preview''
     @ plain ''noChanges proposed proposeFailed loadFailed openWebgui searchAll''
     @ sect ''grid'' (
       plain ''add save edit delete empty'')
     @ sect ''diff'' (
       plain ''baseline noBaseline''
       @ holes ''newSince'' [''v'']
       @ holes ''changedSince'' [''v'']
       @ plain ''changes'')
     @ sect ''map'' (
       plain ''tabMenu tabMap editInCatalog readOnly''
       @ holes ''staleBanner'' [''when''])"

definition es_config :: "(string \<times> dict) list" where
  "es_config =
     plain ''tabInfo tabHealth tabConfig capabilities version interfaces configuredSections''
     @ plain ''available hidden noConfigYet nic''
     @ sect ''changes'' (
       plain ''title propose none colKind colOperation colTarget colStatus colScheduled preview''
       @ plain ''schedule cancel revert reverts applyNow pickTime checkDrift driftUnreachable''
       @ plain ''driftInSync driftDrifted driftMissing driftUnsupported driftFields operation name''
       @ plain ''type content create add set delete'')"

definition es_deviceHealth :: "(string \<times> dict) list" where
  "es_deviceHealth =
     plain ''title cpu memory disk trafficIn trafficOut gatewayRtt gatewayLoss vpnUp''"

definition es_chart :: "(string \<times> dict) list" where
  "es_chart =
     plain ''noData''"

definition es_reports :: "(string \<times> dict) list" where
  "es_reports =
     sect ''page'' (
       plain ''title generate from to period kind created size download none generated kindOnDemand''
       @ plain ''kindScheduled'')
     @ sect ''settings'' (
       plain ''pageTitle title owner timezone fromEmail logo upload remove language save adminsOnly''
       @ plain ''saved logoUploaded logoRemoved hasLogo noLogo'')
     @ sect ''sections'' (
       plain ''title description customizeForDevice summary health alerts_wan attacks''
       @ plain ''attacker_countries failed_logins firewall_blocks web data status firmware_config''
       @ plain ''applications web_filter'')"

definition es_sessions :: "(string \<times> dict) list" where
  "es_sessions =
     plain ''pageTitle colLastSeen colCreated colExpires colIp colUserAgent current logoutAll''
     @ plain ''loadError logoutAllError''"

definition es_mfa :: "(string \<times> dict) list" where
  "es_mfa =
     plain ''pageTitle intro status enabled disabled recoveryRemaining statusError enroll''
     @ plain ''enrollStart password passwordHint scanHint secretLabel confirmCodeLabel confirmHint''
     @ plain ''confirm cancel setupError confirmError recoveryTitle recoveryIntro recoveryWarning''
     @ plain ''copyAll copied download done regenerate regenerateError disable disableConfirmTitle''
     @ plain ''disableConfirmBody disableError disabledNotice policyTitle policyIntro policyOff''
     @ plain ''policyAll policyPrivileged policyLoadError policySaveError policySaved usersTitle''
     @ plain ''colUser colEmail colRole superadmin member reset resetConfirmTitle resetConfirmBody''
     @ plain ''resetError resetDone usersLoadError gateTitle gateIntro''
     @ sect ''passkeys'' (
       plain ''title intro add accountPassword name namePlaceholder unnamed colName colCreated''
       @ plain ''remove removeConfirmTitle removeConfirmBody addedNotice removedNotice addError''
       @ plain ''removeError listError lastFactorError notConfigured notSupported'')
     @ sect ''trustedDeviceToggle'' (
       plain ''label help'')
     @ sect ''trustedDevices'' (
       plain ''title intro colDevice colIp colLastUsed colExpires revoke revokeAll confirmTitle''
       @ plain ''confirmBody revokeAllConfirmTitle revokeAllConfirmBody empty loadError revokeError''
       @ plain ''unknownDevice'')"

definition es_groups :: "(string \<times> dict) list" where
  "es_groups =
     plain ''title description superadminOnly name namePlaceholder descriptionField''
     @ plain ''descriptionPlaceholder members membersPlaceholder noMembers grants noGrants addGrant''
     @ plain ''allTenants tenant tenantPlaceholder role roleTenantAdmin roleOperator roleReadOnly''
     @ plain ''allTenantsScope create createTitle save delete deleteConfirm removeGrant empty created''
     @ plain ''updated deleted membersSaved grantAdded grantRemoved saveFailed loadError''"

definition es_confirm :: "(string \<times> dict) list" where
  "es_confirm =
     plain ''title cancel confirm deleteDevice deleteDeviceBody''"

definition es_errors :: "(string \<times> dict) list" where
  "es_errors =
     plain ''fleetHealthLoad alertsLoad metricsLoad configModelLoad configCapabilitiesLoad''
     @ plain ''configChangesLoad configChangeAction reportSettingsLoad reportSettingsAction''
     @ plain ''reportsLoad reportGenerate attackerCountriesLoad perimeterLoad auditLoad retentionLoad''
     @ plain ''retentionSave''"

definition es_system :: "(string \<times> dict) list" where
  "es_system =
     plain ''title subtitle''
     @ sect ''livePush'' (
       plain ''label help loadError enabled disabled updateError'')
     @ sect ''runtime'' (
       plain ''title subtitle loadError save discard saved saveError defaultLabel impactsTitle''
       @ holes ''impactItem'' [''tenant'', ''store'', ''range'', ''store'', ''bound'']
       @ sect ''groups'' (
         plain ''firmware distribution maintenance retention security_login security_session'')
       @ sect ''items'' (
         sect ''firmware_max_status_polls'' (
           plain ''label help'')
         @ sect ''firmware_poll_interval_seconds'' (
           plain ''label help'')
         @ sect ''catalog_auto_fetch'' (
           plain ''label help'')
         @ sect ''geoip_auto_fetch'' (
           plain ''label help'')
         @ sect ''silent_alert_enabled'' (
           plain ''label help'')
         @ sect ''silent_alert_after_hours'' (
           plain ''label help'')
         @ sect ''perimeter_retention_days'' (
           plain ''label help'')
         @ sect ''events_retention_days'' (
           plain ''label help'')
         @ sect ''metrics_retention_days'' (
           plain ''label help'')
         @ sect ''log_lake_retention_days'' (
           plain ''label help'')
         @ sect ''login_max_attempts'' (
           plain ''label help'')
         @ sect ''login_lockout_window_seconds'' (
           plain ''label help'')
         @ sect ''session_ttl_hours'' (
           plain ''label help'')
         @ sect ''session_idle_minutes'' (
           plain ''label help'')
         @ sect ''trusted_device_days'' (
           plain ''label help'')))"

definition es_logFleet :: "(string \<times> dict) list" where
  "es_logFleet =
     plain ''title loadError exportCsv exportPdf exportFailed silentBadge silentAlertsTitle''
     @ plain ''silentAlertsBody volume devicesTitle devicesLoadError noDevices''
     @ sect ''stats'' (
       plain ''tenantsForwarding enabledDevices silentTenants'')
     @ sect ''table'' (
       plain ''tenant device forwarding revoked lastLog'')"

definition es_perimeter :: "(string \<times> dict) list" where
  "es_perimeter =
     plain ''title subtitle failedLogins firewallBlocks failedLoginsHelp firewallBlocksHelp ip''
     @ plain ''country user port count lastSeen empty viewAll loadError''"

definition es_retention :: "(string \<times> dict) list" where
  "es_retention =
     plain ''title subtitle inheritHint save saved''
     @ sect ''stores'' (
       plain ''perimeter events metrics log_lake'')
     @ plain ''warningTitle''
     @ holes ''warningItem'' [''frequency'', ''range'', ''store'', ''bound'']"

definition es_audit :: "(string \<times> dict) list" where
  "es_audit =
     plain ''title subtitle''
     @ sect ''filters'' (
       plain ''actor tenant action from to apply reset'')
     @ sect ''columns'' (
       plain ''time actor tenant action target ip details'')
     @ plain ''empty export exportFailed''
     @ holes ''page'' [''page'']
     @ holes ''showingTotal'' [''total'']
     @ plain ''prev next''"

definition es_reliability :: "(string \<times> dict) list" where
  "es_reliability =
     plain ''tab title subtitle time category name severity process message''
     @ sect ''categories'' (
       plain ''reboot service disk'')
     @ sect ''severities'' (
       plain ''high medium low'')
     @ plain ''loadMore empty loading loadError last24h''"

definition es_configAudit :: "(string \<times> dict) list" where
  "es_configAudit =
     plain ''tab title subtitle time area actor ip channel change direct''
     @ sect ''channels'' (
       plain ''api gui system opngms api_external'')
     @ plain ''loadMore empty loading loadError last24h''"

definition es_smtp :: "(string \<times> dict) list" where
  "es_smtp =
     plain ''authMethod authPassword authOauth oauthProvider oauthGoogle oauthMicrosoft''
     @ plain ''oauthClientId oauthClientSecret oauthRefreshToken oauthTenantId oauthSecretSaved''
     @ plain ''oauthConnect oauthConnectGoogle oauthConnectMicrosoft oauthExperimental''
     @ plain ''oauthExperimentalNote oauthConnectNeedsCreds oauthConnected oauthConnectFailed''"

definition es_dict :: dict where
  "es_dict = Group
     [(''common'', Group es_common), (''nav'', Group es_nav), (''login'', Group es_login), (''tenant'',
     Group es_tenant), (''overview'', Group es_overview), (''alerts'', Group es_alerts), (''devices'',
     Group es_devices), (''deviceDetail'', Group es_deviceDetail), (''deviceActions'', Group es_deviceActions),
     (''firmware'', Group es_firmware), (''plugins'', Group es_plugins), (''templates'', Group es_templates),
     (''deviceCreate'', Group es_deviceCreate), (''health'', Group es_health), (''logForwarding'',
     Group es_logForwarding), (''catalog'', Group es_catalog), (''config'', Group es_config),
     (''deviceHealth'', Group es_deviceHealth), (''chart'', Group es_chart), (''reports'', Group es_reports),
     (''sessions'', Group es_sessions), (''mfa'', Group es_mfa), (''groups'', Group es_groups), (''confirm'',
     Group es_confirm), (''errors'', Group es_errors), (''system'', Group es_system), (''logFleet'',
     Group es_logFleet), (''perimeter'', Group es_perimeter), (''retention'', Group es_retention), (''audit'',
     Group es_audit), (''reliability'', Group es_reliability), (''configAudit'', Group es_configAudit),
     (''smtp'', Group es_smtp)]"

lemmas es_defs = es_common_def es_nav_def es_login_def es_tenant_def es_overview_def es_alerts_def es_devices_def
  es_deviceDetail_def es_deviceActions_def es_firmware_def es_plugins_def es_templates_def
  es_deviceCreate_def es_health_def es_logForwarding_def es_catalog_def es_config_def es_deviceHealth_def
  es_chart_def es_reports_def es_sessions_def es_mfa_def es_groups_def es_confirm_def es_errors_def
  es_system_def es_logFleet_def es_perimeter_def es_retention_def es_audit_def es_reliability_def
  es_configAudit_def es_smtp_def

end
