(* ===== verification/DictFr.thy ===== *)
theory DictFr
  imports Dictionary
begin

text \<open>
  The dictionary of the locale \<open>fr\<close> (\<^verbatim>\<open>i18n/fr.ts\<close>), one definition per section of the file: its
  keys in order, with the placeholders of each text that has any.
\<close>

definition fr_common :: "(string \<times> dict) list" where
  "fr_common =
     plain ''appName logout none language cancel''"

definition fr_nav :: "(string \<times> dict) list" where
  "fr_nav =
     plain ''overview devices alerts perimeter reportSettings reportSchedule reports logs sessions''
     @ plain ''mfa templates smtp logFleet system groups audit''"

definition fr_login :: "(string \<times> dict) list" where
  "fr_login =
     plain ''title email password passwordToggle submit invalidCredentials''
     @ sect ''mfa'' (
       plain ''title codeHint recoveryHint codeLabel recoveryLabel verify useRecovery useCode''
       @ plain ''invalidCode or usePasskey passkeyError passkeyNotSupported''
       @ holes ''rememberDevice'' [''days'']
       @ plain ''rememberDeviceHelp'')"

definition fr_tenant :: "(string \<times> dict) list" where
  "fr_tenant =
     plain ''activeLabel none''"

definition fr_overview :: "(string \<times> dict) list" where
  "fr_overview =
     plain ''title activeAlerts noActiveAlerts healthLoadError alertsLoadError''
     @ sect ''attackerCountries'' (
       plain ''title mapTitle empty private unknown attribution'')"

definition fr_alerts :: "(string \<times> dict) list" where
  "fr_alerts =
     plain ''title active history loadError noAlerts colType colLabel colSeverity colOpened''
     @ plain ''colResolved colDevice''"

definition fr_devices :: "(string \<times> dict) list" where
  "fr_devices =
     plain ''title add loadError colName colUrl colStatus colFirmware''"

definition fr_deviceDetail :: "(string \<times> dict) list" where
  "fr_deviceDetail =
     plain ''url status firmware loadError''"

definition fr_deviceActions :: "(string \<times> dict) list" where
  "fr_deviceActions =
     plain ''testConnection delete testResult testNotification testFailed deleteFailed openWebGui''"

definition fr_firmware :: "(string \<times> dict) list" where
  "fr_firmware =
     plain ''title tab check upToDate updatesAvailable downloadSize rebootNeeded newMajor update''
     @ plain ''upgrade updateConfirm upgradeConfirm plugins pluginName install remove installConfirm''
     @ plain ''removeConfirm runNow scheduleAt schedule recentActions noActions actionQueued''
     @ plain ''actionFailed checkFailed kind status when result''"

definition fr_plugins :: "(string \<times> dict) list" where
  "fr_plugins =
     plain ''tab title subtitle search name status version installed notInstalled locked install''
     @ plain ''remove installConfirm removeConfirm empty loadFailed configure configureTitle''"

definition fr_templates :: "(string \<times> dict) list" where
  "fr_templates =
     plain ''tab libraryTitle superadminOnly name kind type content description create edit save''
     @ plain ''delete deleteConfirm empty created updated saveFailed''
     @ sect ''apply'' (
       plain ''title pick override saveOverride overrideSaved preview previewTitle applyConfirm''
       @ plain ''runNow scheduleAt schedule queued failed none'')
     @ plain ''templatesTab kindLabel kindAlias kindSetting''
     @ sect ''setting'' (
       plain ''endpoint referenceDevice load loadHint noDevice loadFailed noFields hardwareNote'')
     @ plain ''kindFirewallRule''
     @ sect ''fw'' (
       plain ''referenceDevice load loadHint noDevice loadFailed descriptionRequired interface''
       @ plain ''floating note'')
     @ plain ''kindMonitTest''
     @ sect ''monit'' (
       plain ''referenceDevice load loadHint noDevice loadFailed nameRequired note attachSystem''
       @ plain ''attachSystemNote'')
     @ plain ''kindIdsRulesets''
     @ sect ''ids'' (
       plain ''referenceDevice load loadHint noDevice loadFailed rulesets noRulesets note'')
     @ plain ''kindIdsPolicy''
     @ sect ''idsPolicy'' (
       plain ''description enabled prio action newAction rulesets referenceDevice load loadHint''
       @ plain ''noDevice noRulesets loadFailed content contentKey contentValues contentKeyInvalid''
       @ plain ''addContent descriptionRequired note'')
     @ sect ''profiles'' (
       plain ''tab name description members create edit save delete deleteConfirm empty created''
       @ plain ''updated saveFailed memberCount''
       @ sect ''apply'' (
         plain ''title pick preview previewTitle interface floating empty applyConfirm runNow''
         @ plain ''scheduleAt schedule queued failed''))"

definition fr_deviceCreate :: "(string \<times> dict) list" where
  "fr_deviceCreate =
     plain ''title name url apiKey apiSecret verifyTls tlsWarning tlsFingerprintLabel''
     @ plain ''tlsFingerprintPlaceholder save created createFailed''"

definition fr_health :: "(string \<times> dict) list" where
  "fr_health =
     plain ''totalDevices activeAlerts''"

definition fr_logForwarding :: "(string \<times> dict) list" where
  "fr_logForwarding =
     plain ''tab''"

definition fr_catalog :: "(string \<times> dict) list" where
  "fr_catalog =
     plain ''tab searchModels noModels selectModel readOnly unreachable liveValues propose preview''
     @ plain ''noChanges proposed proposeFailed loadFailed openWebgui searchAll''
     @ sect ''grid'' (
       plain ''add save edit delete empty'')
     @ sect ''diff'' (
       plain ''baseline noBaseline''
       @ holes ''newSince'' [''v'']
       @ holes ''changedSince'' [''v'']
       @ plain ''changes'')
     @ sect ''map'' (
       plain ''tabMenu tabMap editInCatalog readOnly''
       @ holes ''staleBanner'' [''when''])"

definition fr_config :: "(string \<times> dict) list" where
  "fr_config =
     plain ''tabInfo tabHealth tabConfig capabilities version interfaces configuredSections''
     @ plain ''available hidden noConfigYet nic''
     @ sect ''changes'' (
       plain ''title propose none colKind colOperation colTarget colStatus colScheduled preview''
       @ plain ''schedule cancel revert reverts applyNow pickTime checkDrift driftUnreachable''
       @ plain ''driftInSync driftDrifted driftMissing driftUnsupported driftFields operation name''
       @ plain ''type content create add set delete'')"

definition fr_deviceHealth :: "(string \<times> dict) list" where
  "fr_deviceHealth =
     plain ''title cpu memory disk trafficIn trafficOut gatewayRtt gatewayLoss vpnUp''"

definition fr_chart :: "(string \<times> dict) list" where
  "fr_chart =
     plain ''noData''"

definition fr_reports :: "(string \<times> dict) list" where
  "fr_reports =
     sect ''page'' (
       plain ''title generate from to period kind created size download none generated kindOnDemand''
       @ plain ''kindScheduled'')
     @ sect ''settings'' (
       plain ''pageTitle title owner timezone fromEmail logo upload remove language save adminsOnly''
       @ plain ''saved logoUploaded logoRemoved hasLogo noLogo'')
     @ sect ''sections'' (
       plain ''title description customizeForDevice summary health alerts_wan attacks''
       @ plain ''attacker_countries failed_logins firewall_blocks web data status firmware_config''
       @ plain ''applications web_filter'')"

definition fr_sessions :: "(string \<times> dict) list" where
  "fr_sessions =
     plain ''pageTitle colLastSeen colCreated colExpires colIp colUserAgent current logoutAll''
     @ plain ''loadError logoutAllError''"

definition fr_mfa :: "(string \<times> dict) list" where
  "fr_mfa =
     plain ''pageTitle intro status enabled disabled recoveryRemaining statusError enroll''
     @ plain ''enrollStart password passwordHint scanHint secretLabel confirmCodeLabel confirmHint''
     @ plain ''confirm cancel setupError confirmError recoveryTitle recoveryIntro recoveryWarning''
     @ plain ''copyAll copied download done regenerate regenerateError disable disableConfirmTitle''
     @ plain ''disableConfirmBody disableError disabledNotice policyTitle policyIntro policyOff''
     @ plain ''policyAll policyPrivileged policyLoadError policySaveError policySaved usersTitle''
     @ plain ''colUser colEmail colRole superadmin member reset resetConfirmTitle resetConfirmBody''
     @ plain ''resetError resetDone usersLoadError gateTitle gateIntro''
     @ sect ''passkeys'' (
       plain ''title intro add accountPassword name namePlaceholder unnamed colName colCreated''
       @ plain ''remove removeConfirmTitle removeConfirmBody addedNotice removedNotice addError''
       @ plain ''removeError listError lastFactorError notConfigured notSupported'')
     @ sect ''trustedDeviceToggle'' (
       plain ''label help'')
     @ sect ''trustedDevices'' (
       plain ''title intro colDevice colIp colLastUsed colExpires revoke revokeAll confirmTitle''
       @ plain ''confirmBody revokeAllConfirmTitle revokeAllConfirmBody empty loadError revokeError''
       @ plain ''unknownDevice'')"

definition fr_groups :: "(string \<times> dict) list" where
  "fr_groups =
     plain ''title description superadminOnly name namePlaceholder descriptionField''
     @ plain ''descriptionPlaceholder members membersPlaceholder noMembers grants noGrants addGrant''
     @ plain ''allTenants tenant tenantPlaceholder role roleTenantAdmin roleOperator roleReadOnly''
     @ plain ''allTenantsScope create createTitle save delete deleteConfirm removeGrant empty created''
     @ plain ''updated deleted membersSaved grantAdded grantRemoved saveFailed loadError''"

definition fr_confirm :: "(string \<times> dict) list" where
  "fr_confirm =
     plain ''title cancel confirm deleteDevice deleteDeviceBody''"

definition fr_errors :: "(string \<times> dict) list" where
  "fr_errors =
     plain ''fleetHealthLoad alertsLoad metricsLoad configModelLoad configCapabilitiesLoad''
     @ plain ''configChangesLoad configChangeAction reportSettingsLoad reportSettingsAction''
     @ plain ''reportsLoad reportGenerate attackerCountriesLoad perimeterLoad auditLoad retentionLoad''
     @ plain ''retentionSave''"

definition fr_system :: "(string \<times> dict) list" where
  "fr_system =
     plain ''title subtitle''
     @ sect ''livePush'' (
       plain ''label help loadError enabled disabled updateError'')
     @ sect ''runtime'' (
       plain ''title subtitle loadError save discard saved saveError defaultLabel impactsTitle''
       @ holes ''impactItem'' [''tenant'', ''store'', ''range'', ''store'', ''bound'']
       @ sect ''groups'' (
         plain ''firmware distribution maintenance retention security_login security_session'')
       @ sect ''items'' (
         sect ''firmware_max_status_polls'' (
           plain ''label help'')
         @ sect ''firmware_poll_interval_seconds'' (
           plain ''label help'')
         @ sect ''catalog_auto_fetch'' (
           plain ''label help'')
         @ sect ''geoip_auto_fetch'' (
           plain ''label help'')
         @ sect ''silent_alert_enabled'' (
           plain ''label help'')
         @ sect ''silent_alert_after_hours'' (
           plain ''label help'')
         @ sect ''perimeter_retention_days'' (
           plain ''label help'')
         @ sect ''events_retention_days'' (
           plain ''label help'')
         @ sect ''metrics_retention_days'' (
           plain ''label help'')
         @ sect ''log_lake_retention_days'' (
           plain ''label help'')
         @ sect ''login_max_attempts'' (
           plain ''label help'')
         @ sect ''login_lockout_window_seconds'' (
           plain ''label help'')
         @ sect ''session_ttl_hours'' (
           plain ''label help'')
         @ sect ''session_idle_minutes'' (
           plain ''label help'')
         @ sect ''trusted_device_days'' (
           plain ''label help'')))"

definition fr_logFleet :: "(string \<times> dict) list" where
  "fr_logFleet =
     plain ''title loadError exportCsv exportPdf exportFailed silentBadge silentAlertsTitle''
     @ plain ''silentAlertsBody volume devicesTitle devicesLoadError noDevices''
     @ sect ''stats'' (
       plain ''tenantsForwarding enabledDevices silentTenants'')
     @ sect ''table'' (
       plain ''tenant device forwarding revoked lastLog'')"

definition fr_perimeter :: "(string \<times> dict) list" where
  "fr_perimeter =
     plain ''title subtitle failedLogins firewallBlocks failedLoginsHelp firewallBlocksHelp ip''
     @ plain ''country user port count lastSeen empty viewAll loadError''"

definition fr_retention :: "(string \<times> dict) list" where
  "fr_retention =
     plain ''title subtitle inheritHint save saved''
     @ sect ''stores'' (
       plain ''perimeter events metrics log_lake'')
     @ plain ''warningTitle''
     @ holes ''warningItem'' [''frequency'', ''range'', ''store'', ''bound'']"

definition fr_audit :: "(string \<times> dict) list" where
  "fr_audit =
     plain ''title subtitle''
     @ sect ''filters'' (
       plain ''actor tenant action from to apply reset'')
     @ sect ''columns'' (
       plain ''time actor tenant action target ip details'')
     @ plain ''empty export exportFailed''
     @ holes ''page'' [''page'']
     @ holes ''showingTotal'' [''total'']
     @ plain ''prev next''"

definition fr_reliability :: "(string \<times> dict) list" where
  "fr_reliability =
     plain ''tab title subtitle time category name severity process message''
     @ sect ''categories'' (
       plain ''reboot service disk'')
     @ sect ''severities'' (
       plain ''high medium low'')
     @ plain ''loadMore empty loading loadError last24h''"

definition fr_configAudit :: "(string \<times> dict) list" where
  "fr_configAudit =
     plain ''tab title subtitle time area actor ip channel change direct''
     @ sect ''channels'' (
       plain ''api gui system opngms api_external'')
     @ plain ''loadMore empty loading loadError last24h''"

definition fr_smtp :: "(string \<times> dict) list" where
  "fr_smtp =
     plain ''authMethod authPassword authOauth oauthProvider oauthGoogle oauthMicrosoft''
     @ plain ''oauthClientId oauthClientSecret oauthRefreshToken oauthTenantId oauthSecretSaved''
     @ plain ''oauthConnect oauthConnectGoogle oauthConnectMicrosoft oauthExperimental''
     @ plain ''oauthExperimentalNote oauthConnectNeedsCreds oauthConnected oauthConnectFailed''"

definition fr_dict :: dict where
  "fr_dict = Group
     [(''common'', Group fr_common), (''nav'', Group fr_nav), (''login'', Group fr_login), (''tenant'',
     Group fr_tenant), (''overview'', Group fr_overview), (''alerts'', Group fr_alerts), (''devices'',
     Group fr_devices), (''deviceDetail'', Group fr_deviceDetail), (''deviceActions'', Group fr_deviceActions),
     (''firmware'', Group fr_firmware), (''plugins'', Group fr_plugins), (''templates'', Group fr_templates),
     (''deviceCreate'', Group fr_deviceCreate), (''health'', Group fr_health), (''logForwarding'',
     Group fr_logForwarding), (''catalog'', Group fr_catalog), (''config'', Group fr_config),
     (''deviceHealth'', Group fr_deviceHealth), (''chart'', Group fr_chart), (''reports'', Group fr_reports),
     (''sessions'', Group fr_sessions), (''mfa'', Group fr_mfa), (''groups'', Group fr_groups), (''confirm'',
     Group fr_confirm), (''errors'', Group fr_errors), (''system'', Group fr_system), (''logFleet'',
     Group fr_logFleet), (''perimeter'', Group fr_perimeter), (''retention'', Group fr_retention), (''audit'',
     Group fr_audit), (''reliability'', Group fr_reliability), (''configAudit'', Group fr_configAudit),
     (''smtp'', Group fr_smtp)]"

lemmas fr_defs = fr_common_def fr_nav_def fr_login_def fr_tenant_def fr_overview_def fr_alerts_def fr_devices_def
  fr_deviceDetail_def fr_deviceActions_def fr_firmware_def fr_plugins_def fr_templates_def
  fr_deviceCreate_def fr_health_def fr_logForwarding_def fr_catalog_def fr_config_def fr_deviceHealth_def
  fr_chart_def fr_reports_def fr_sessions_def fr_mfa_def fr_groups_def fr_confirm_def fr_errors_def
  fr_system_def fr_logFleet_def fr_perimeter_def fr_retention_def fr_audit_def fr_reliability_def
  fr_configAudit_def fr_smtp_def

end
