(* ===== verification/DictDe.thy ===== *)
theory DictDe
  imports Dictionary
begin

text \<open>
  The dictionary of the locale \<open>de\<close> (\<^verbatim>\<open>i18n/de.ts\<close>), one definition per section of the file: its
  keys in order, with the placeholders of each text that has any.
\<close>

definition de_common :: "(string \<times> dict) list" where
  "de_common =
     plain ''appName logout none language cancel''"

definition de_nav :: "(string \<times> dict) list" where
  "de_nav =
     plain ''overview devices alerts perimeter reportSettings reportSchedule reports logs sessions''
     @ plain ''mfa templates smtp logFleet system groups audit''"

definition de_login :: "(string \<times> dict) list" where
  "de_login =
     plain ''title email password passwordToggle submit invalidCredentials''
     @ sect ''mfa'' (
       plain ''title codeHint recoveryHint codeLabel recoveryLabel verify useRecovery useCode''
       @ plain ''invalidCode or usePasskey passkeyError passkeyNotSupported''
       @ holes ''rememberDevice'' [''days'']
       @ plain ''rememberDeviceHelp'')"

definition de_tenant :: "(string \<times> dict) list" where
  "de_tenant =
     plain ''activeLabel none''"

definition de_overview :: "(string \<times> dict) list" where
  "de_overview =
     plain ''title activeAlerts noActiveAlerts healthLoadError alertsLoadError''
     @ sect ''attackerCountries'' (
       plain ''title mapTitle empty private unknown attribution'')"

definition de_alerts :: "(string \<times> dict) list" where
  "de_alerts =
     plain ''title active history loadError noAlerts colType colLabel colSeverity colOpened''
     @ plain ''colResolved colDevice''"

definition de_devices :: "(string \<times> dict) list" where
  "de_devices =
     plain ''title add loadError colName colUrl colStatus colFirmware''"

definition de_deviceDetail :: "(string \<times> dict) list" where
  "de_deviceDetail =
     plain ''url status firmware loadError''"

definition de_deviceActions :: "(string \<times> dict) list" where
  "de_deviceActions =
     plain ''testConnection delete testResult testNotification testFailed deleteFailed openWebGui''"

definition de_firmware :: "(string \<times> dict) list" where
  "de_firmware =
     plain ''title tab check upToDate updatesAvailable downloadSize rebootNeeded newMajor update''
     @ plain ''upgrade updateConfirm upgradeConfirm plugins pluginName install remove installConfirm''
     @ plain ''removeConfirm runNow scheduleAt schedule recentActions noActions actionQueued''
     @ plain ''actionFailed checkFailed kind status when result''"

definition de_plugins :: "(string \<times> dict) list" where
  "de_plugins =
     plain ''tab title subtitle search name status version installed notInstalled locked install''
     @ plain ''remove installConfirm removeConfirm empty loadFailed configure configureTitle''"

definition de_templates :: "(string \<times> dict) list" where
  "de_templates =
     plain ''tab libraryTitle superadminOnly name kind type content description create edit save''
     @ plain ''delete deleteConfirm empty created updated saveFailed''
     @ sect ''apply'' (
       plain ''title pick override saveOverride overrideSaved preview previewTitle applyConfirm''
       @ plain ''runNow scheduleAt schedule queued failed none'')
     @ plain ''templatesTab kindLabel kindAlias kindSetting''
     @ sect ''setting'' (
       plain ''endpoint referenceDevice load loadHint noDevice loadFailed noFields hardwareNote'')
     @ plain ''kindFirewallRule''
     @ sect ''fw'' (
       plain ''referenceDevice load loadHint noDevice loadFailed descriptionRequired interface''
       @ plain ''floating note'')
     @ plain ''kindMonitTest''
     @ sect ''monit'' (
       plain ''referenceDevice load loadHint noDevice loadFailed nameRequired note attachSystem''
       @ plain ''attachSystemNote'')
     @ plain ''kindIdsRulesets''
     @ sect ''ids'' (
       plain ''referenceDevice load loadHint noDevice loadFailed rulesets noRulesets note'')
     @ plain ''kindIdsPolicy''
     @ sect ''idsPolicy'' (
       plain ''description enabled prio action newAction rulesets referenceDevice load loadHint''
       @ plain ''noDevice noRulesets loadFailed content contentKey contentValues contentKeyInvalid''
       @ plain ''addContent descriptionRequired note'')
     @ sect ''profiles'' (
       plain ''tab name description members create edit save delete deleteConfirm empty created''
       @ plain ''updated saveFailed memberCount''
       @ sect ''apply'' (
         plain ''title pick preview previewTitle interface floating empty applyConfirm runNow''
         @ plain ''scheduleAt schedule queued failed''))"

definition de_deviceCreate :: "(string \<times> dict) list" where
  "de_deviceCreate =
     plain ''title name url apiKey apiSecret verifyTls tlsWarning tlsFingerprintLabel''
     @ plain ''tlsFingerprintPlaceholder save created createFailed''"

definition de_health :: "(string \<times> dict) list" where
  "de_health =
     plain ''totalDevices activeAlerts''"

definition de_logForwarding :: "(string \<times> dict) list" where
  "de_logForwarding =
     plain ''tab''"

definition de_catalog :: "(string \<times> dict) list" where
  "de_catalog =
     plain ''tab searchModels noModels selectModel readOnly unreachable liveValues propose preview''
     @ plain ''noChanges proposed proposeFailed loadFailed openWebgui searchAll''
     @ sect ''grid'' (
       plain ''add save edit delete empty'')
     @ sect ''diff'' (
       plain ''baseline noBaseline''
       @ holes ''newSince'' [''v'']
       @ holes ''changedSince'' [''v'']
       @ plain ''changes'')
     @ sect ''map'' (
       plain ''tabMenu tabMap editInCatalog readOnly''
       @ holes ''staleBanner'' [''when''])"

definition de_config :: "(string \<times> dict) list" where
  "de_config =
     plain ''tabInfo tabHealth tabConfig capabilities version interfaces configuredSections''
     @ plain ''available hidden noConfigYet nic''
     @ sect ''changes'' (
       plain ''title propose none colKind colOperation colTarget colStatus colScheduled preview''
       @ plain ''schedule cancel revert reverts applyNow pickTime checkDrift driftUnreachable''
       @ plain ''driftInSync driftDrifted driftMissing driftUnsupported driftFields operation name''
       @ plain ''type content create add set delete'')"

definition de_deviceHealth :: "(string \<times> dict) list" where
  "de_deviceHealth =
     plain ''title cpu memory disk trafficIn trafficOut gatewayRtt gatewayLoss vpnUp''"

definition de_chart :: "(string \<times> dict) list" where
  "de_chart =
     plain ''noData''"

definition de_reports :: "(string \<times> dict) list" where
  "de_reports =
     sect ''page'' (
       plain ''title generate from to period kind created size download none generated kindOnDemand''
       @ plain ''kindScheduled'')
     @ sect ''settings'' (
       plain ''pageTitle title owner timezone fromEmail logo upload remove language save adminsOnly''
       @ plain ''saved logoUploaded logoRemoved hasLogo noLogo'')
     @ sect ''sections'' (
       plain ''title description customizeForDevice summary health alerts_wan attacks''
       @ plain ''attacker_countries failed_logins firewall_blocks web data status firmware_config''
       @ plain ''applications web_filter'')"

definition de_sessions :: "(string \<times> dict) list" where
  "de_sessions =
     plain ''pageTitle colLastSeen colCreated colExpires colIp colUserAgent current logoutAll''
     @ plain ''loadError logoutAllError''"

definition de_mfa :: "(string \<times> dict) list" where
  "de_mfa =
     plain ''pageTitle intro status enabled disabled recoveryRemaining statusError enroll''
     @ plain ''enrollStart password passwordHint scanHint secretLabel confirmCodeLabel confirmHint''
     @ plain ''confirm cancel setupError confirmError recoveryTitle recoveryIntro recoveryWarning''
     @ plain ''copyAll copied download done regenerate regenerateError disable disableConfirmTitle''
     @ plain ''disableConfirmBody disableError disabledNotice policyTitle policyIntro policyOff''
     @ plain ''policyAll policyPrivileged policyLoadError policySaveError policySaved usersTitle''
     @ plain ''colUser colEmail colRole superadmin member reset resetConfirmTitle resetConfirmBody''
     @ plain ''resetError resetDone usersLoadError gateTitle gateIntro''
     @ sect ''passkeys'' (
       plain ''title intro add accountPassword name namePlaceholder unnamed colName colCreated''
       @ plain ''remove removeConfirmTitle removeConfirmBody addedNotice removedNotice addError''
       @ plain ''removeError listError lastFactorError notConfigured notSupported'')
     @ sect ''trustedDeviceToggle'' (
       plain ''label help'')
     @ sect ''trustedDevices'' (
       plain ''title intro colDevice colIp colLastUsed colExpires revoke revokeAll confirmTitle''
       @ plain ''confirmBody revokeAllConfirmTitle revokeAllConfirmBody empty loadError revokeError''
       @ plain ''unknownDevice'')"

definition de_groups :: "(string \<times> dict) list" where
  "de_groups =
     plain ''title description superadminOnly name namePlaceholder descriptionField''
     @ plain ''descriptionPlaceholder members membersPlaceholder noMembers grants noGrants addGrant''
     @ plain ''allTenants tenant tenantPlaceholder role roleTenantAdmin roleOperator roleReadOnly''
     @ plain ''allTenantsScope create createTitle save delete deleteConfirm removeGrant empty created''
     @ plain ''updated deleted membersSaved grantAdded grantRemoved saveFailed loadError''"

definition de_confirm :: "(string \<times> dict) list" where
  "de_confirm =
     plain ''title cancel confirm deleteDevice deleteDeviceBody''"

definition de_errors :: "(string \<times> dict) list" where
  "de_errors =
     plain ''fleetHealthLoad alertsLoad metricsLoad configModelLoad configCapabilitiesLoad''
     @ plain ''configChangesLoad configChangeAction reportSettingsLoad reportSettingsAction''
     @ plain ''reportsLoad reportGenerate attackerCountriesLoad perimeterLoad auditLoad retentionLoad''
     @ plain ''retentionSave''"

definition de_system :: "(string \<times> dict) list" where
  "de_system =
     plain ''title subtitle''
     @ sect ''livePush'' (
       plain ''label help loadError enabled disabled updateError'')
     @ sect ''runtime'' (
       plain ''title subtitle loadError save discard saved saveError defaultLabel impactsTitle''
       @ holes ''impactItem'' [''tenant'', ''store'', ''range'', ''store'', ''bound'']
       @ sect ''groups'' (
         plain ''firmware distribution maintenance retention security_login security_session'')
       @ sect ''items'' (
         sect ''firmware_max_status_polls'' (
           plain ''label help'')
         @ sect ''firmware_poll_interval_seconds'' (
           plain ''label help'')
         @ sect ''catalog_auto_fetch'' (
           plain ''label help'')
         @ sect ''geoip_auto_fetch'' (
           plain ''label help'')
         @ sect ''silent_alert_enabled'' (
           plain ''label help'')
         @ sect ''silent_alert_after_hours'' (
           plain ''label help'')
         @ sect ''perimeter_retention_days'' (
           plain ''label help'')
         @ sect ''events_retention_days'' (
           plain ''label help'')
         @ sect ''metrics_retention_days'' (
           plain ''label help'')
         @ sect ''log_lake_retention_days'' (
           plain ''label help'')
         @ sect ''login_max_attempts'' (
           plain ''label help'')
         @ sect ''login_lockout_window_seconds'' (
           plain ''label help'')
         @ sect ''session_ttl_hours'' (
           plain ''label help'')
         @ sect ''session_idle_minutes'' (
           plain ''label help'')
         @ sect ''trusted_device_days'' (
           plain ''label help'')))"

definition de_logFleet :: "(string \<times> dict) list" where
  "de_logFleet =
     plain ''title loadError exportCsv exportPdf exportFailed silentBadge silentAlertsTitle''
     @ plain ''silentAlertsBody volume devicesTitle devicesLoadError noDevices''
     @ sect ''stats'' (
       plain ''tenantsForwarding enabledDevices silentTenants'')
     @ sect ''table'' (
       plain ''tenant device forwarding revoked lastLog'')"

definition de_perimeter :: "(string \<times> dict) list" where
  "de_perimeter =
     plain ''title subtitle failedLogins firewallBlocks failedLoginsHelp firewallBlocksHelp ip''
     @ plain ''country user port count lastSeen empty viewAll loadError''"

definition de_retention :: "(string \<times> dict) list" where
  "de_retention =
     plain ''title subtitle inheritHint save saved''
     @ sect ''stores'' (
       plain ''perimeter events metrics log_lake'')
     @ plain ''warningTitle''
     @ holes ''warningItem'' [''frequency'', ''range'', ''store'', ''bound'']"

definition de_audit :: "(string \<times> dict) list" where
  "de_audit =
     plain ''title subtitle''
     @ sect ''filters'' (
       plain ''actor tenant action from to apply reset'')
     @ sect ''columns'' (
       plain ''time actor tenant action target ip details'')
     @ plain ''empty export exportFailed''
     @ holes ''page'' [''page'']
     @ holes ''showingTotal'' [''total'']
     @ plain ''prev next''"

definition de_reliability :: "(string \<times> dict) list" where
  "de_reliability =
     plain ''tab title subtitle time category name severity process message''
     @ sect ''categories'' (
       plain ''reboot service disk'')
     @ sect ''severities'' (
       plain ''high medium low'')
     @ plain ''loadMore empty loading loadError last24h''"

definition de_configAudit :: "(string \<times> dict) list" where
  "de_configAudit =
     plain ''tab title subtitle time area actor ip channel change direct''
     @ sect ''channels'' (
       plain ''api gui system opngms api_external'')
     @ plain ''loadMore empty loading loadError last24h''"

definition de_smtp :: "(string \<times> dict) list" where
  "de_smtp =
     plain ''authMethod authPassword authOauth oauthProvider oauthGoogle oauthMicrosoft''
     @ plain ''oauthClientId oauthClientSecret oauthRefreshToken oauthTenantId oauthSecretSaved''
     @ plain ''oauthConnect oauthConnectGoogle oauthConnectMicrosoft oauthExperimental''
     @ plain ''oauthExperimentalNote oauthConnectNeedsCreds oauthConnected oauthConnectFailed''"

definition de_dict :: dict where
  "de_dict = Group
     [(''common'', Group de_common), (''nav'', Group de_nav), (''login'', Group de_login), (''tenant'',
     Group de_tenant), (''overview'', Group de_overview), (''alerts'', Group de_alerts), (''devices'',
     Group de_devices), (''deviceDetail'', Group de_deviceDetail), (''deviceActions'', Group de_deviceActions),
     (''firmware'', Group de_firmware), (''plugins'', Group de_plugins), (''templates'', Group de_templates),
     (''deviceCreate'', Group de_deviceCreate), (''health'', Group de_health), (''logForwarding'',
     Group de_logForwarding), (''catalog'', Group de_catalog), (''config'', Group de_config),
     (''deviceHealth'', Group de_deviceHealth), (''chart'', Group de_chart), (''reports'', Group de_reports),
     (''sessions'', Group de_sessions), (''mfa'', Group de_mfa), (''groups'', Group de_groups), (''confirm'',
     Group de_confirm), (''errors'', Group de_errors), (''system'', Group de_system), (''logFleet'',
     Group de_logFleet), (''perimeter'', Group de_perimeter), (''retention'', Group de_retention), (''audit'',
     Group de_audit), (''reliability'', Group de_reliability), (''configAudit'', Group de_configAudit),
     (''smtp'', Group de_smtp)]"

lemmas de_defs = de_common_def de_nav_def de_login_def de_tenant_def de_overview_def de_alerts_def de_devices_def
  de_deviceDetail_def de_deviceActions_def de_firmware_def de_plugins_def de_templates_def
  de_deviceCreate_def de_health_def de_logForwarding_def de_catalog_def de_config_def de_deviceHealth_def
  de_chart_def de_reports_def de_sessions_def de_mfa_def de_groups_def de_confirm_def de_errors_def
  de_system_def de_logFleet_def de_perimeter_def de_retention_def de_audit_def de_reliability_def
  de_configAudit_def de_smtp_def

end
