(* ===== verification/DictZhTW.thy ===== *)
theory DictZhTW
  imports Dictionary
begin

text \<open>
  The dictionary of the locale \<open>zh-TW\<close> (\<^verbatim>\<open>i18n/zhTW.ts\<close>), one definition per section of the file: its
  keys in order, with the placeholders of each text that has any.
\<close>

definition zhTW_common :: "(string \<times> dict) list" where
  "zhTW_common =
     plain ''appName logout none language cancel''"

definition zhTW_nav :: "(string \<times> dict) list" where
  "zhTW_nav =
     plain ''overview devices alerts perimeter reportSettings reportSchedule reports logs sessions''
     @ plain ''mfa templates smtp logFleet system groups audit''"

definition zhTW_login :: "(string \<times> dict) list" where
  "zhTW_login =
     plain ''title email password passwordToggle submit invalidCredentials''
     @ sect ''mfa'' (
       plain ''title codeHint recoveryHint codeLabel recoveryLabel verify useRecovery useCode''
       @ plain ''invalidCode or usePasskey passkeyError passkeyNotSupported''
       @ holes ''rememberDevice'' [''days'']
       @ plain ''rememberDeviceHelp'')"

definition zhTW_tenant :: "(string \<times> dict) list" where
  "zhTW_tenant =
     plain ''activeLabel none''"

definition zhTW_overview :: "(string \<times> dict) list" where
  "zhTW_overview =
     plain ''title activeAlerts noActiveAlerts healthLoadError alertsLoadError''
     @ sect ''attackerCountries'' (
       plain ''title mapTitle empty private unknown attribution'')"

definition zhTW_alerts :: "(string \<times> dict) list" where
  "zhTW_alerts =
     plain ''title active history loadError noAlerts colType colLabel colSeverity colOpened''
     @ plain ''colResolved colDevice''"

definition zhTW_devices :: "(string \<times> dict) list" where
  "zhTW_devices =
     plain ''title add loadError colName colUrl colStatus colFirmware''"

definition zhTW_deviceDetail :: "(string \<times> dict) list" where
  "zhTW_deviceDetail =
     plain ''url status firmware loadError''"

definition zhTW_deviceActions :: "(string \<times> dict) list" where
  "zhTW_deviceActions =
     plain ''testConnection delete testResult testNotification testFailed deleteFailed openWebGui''"

definition zhTW_firmware :: "(string \<times> dict) list" where
  "zhTW_firmware =
     plain ''title tab check upToDate updatesAvailable downloadSize rebootNeeded newMajor update''
     @ plain ''upgrade updateConfirm upgradeConfirm plugins pluginName install remove installConfirm''
     @ plain ''removeConfirm runNow scheduleAt schedule recentActions noActions actionQueued''
     @ plain ''actionFailed checkFailed kind status when result''"

definition zhTW_plugins :: "(string \<times> dict) list" where
  "zhTW_plugins =
     plain ''tab title subtitle search name status version installed notInstalled locked install''
     @ plain ''remove installConfirm removeConfirm empty loadFailed configure configureTitle''"

definition zhTW_templates :: "(string \<times> dict) list" where
  "zhTW_templates =
     plain ''tab libraryTitle superadminOnly name kind type content description create edit save''
     @ plain ''delete deleteConfirm empty created updated saveFailed''
     @ sect ''apply'' (
       plain ''title pick override saveOverride overrideSaved preview previewTitle applyConfirm''
       @ plain ''runNow scheduleAt schedule queued failed none'')
     @ plain ''templatesTab kindLabel kindAlias kindSetting''
     @ sect ''setting'' (
       plain ''endpoint referenceDevice load loadHint noDevice loadFailed noFields hardwareNote'')
     @ plain ''kindFirewallRule''
     @ sect ''fw'' (
       plain ''referenceDevice load loadHint noDevice loadFailed descriptionRequired interface''
       @ plain ''floating note'')
     @ plain ''kindMonitTest''
     @ sect ''monit'' (
       plain ''referenceDevice load loadHint noDevice loadFailed nameRequired note attachSystem''
       @ plain ''attachSystemNote'')
     @ plain ''kindIdsRulesets''
     @ sect ''ids'' (
       plain ''referenceDevice load loadHint noDevice loadFailed rulesets noRulesets note'')
     @ plain ''kindIdsPolicy''
     @ sect ''idsPolicy'' (
       plain ''description enabled prio action newAction rulesets referenceDevice load loadHint''
       @ plain ''noDevice noRulesets loadFailed content contentKey contentValues contentKeyInvalid''
       @ plain ''addContent descriptionRequired note'')
     @ sect ''profiles'' (
       plain ''tab name description members create edit save delete deleteConfirm empty created''
       @ plain ''updated saveFailed memberCount''
       @ sect ''apply'' (
         plain ''title pick preview previewTitle interface floating empty applyConfirm runNow''
         @ plain ''scheduleAt schedule queued failed''))"

definition zhTW_deviceCreate :: "(string \<times> dict) list" where
  "zhTW_deviceCreate =
     plain ''title name url apiKey apiSecret verifyTls tlsWarning tlsFingerprintLabel''
     @ plain ''tlsFingerprintPlaceholder save created createFailed''"

definition zhTW_health :: "(string \<times> dict) list" where
  "zhTW_health =
     plain ''totalDevices activeAlerts''"

definition zhTW_logForwarding :: "(string \<times> dict) list" where
  "zhTW_logForwarding =
     plain ''tab''"

definition zhTW_catalog :: "(string \<times> dict) list" where
  "zhTW_catalog =
     plain ''tab searchModels noModels selectModel readOnly unreachable liveValues propose preview''
     @ plain ''noChanges proposed proposeFailed loadFailed openWebgui searchAll''
     @ sect ''grid'' (
       plain ''add save edit delete empty'')
     @ sect ''diff'' (
       plain ''baseline noBaseline''
       @ holes ''newSince'' [''v'']
       @ holes ''changedSince'' [''v'']
       @ plain ''changes'')
     @ sect ''map'' (
       plain ''tabMenu tabMap editInCatalog readOnly''
       @ holes ''staleBanner'' [''when''])"

definition zhTW_config :: "(string \<times> dict) list" where
  "zhTW_config =
     plain ''tabInfo tabHealth tabConfig capabilities version interfaces configuredSections''
     @ plain ''available hidden noConfigYet nic''
     @ sect ''changes'' (
       plain ''title propose none colKind colOperation colTarget colStatus colScheduled preview''
       @ plain ''schedule cancel revert reverts applyNow pickTime checkDrift driftUnreachable''
       @ plain ''driftInSync driftDrifted driftMissing driftUnsupported driftFields operation name''
       @ plain ''type content create add set delete'')"

definition zhTW_deviceHealth :: "(string \<times> dict) list" where
  "zhTW_deviceHealth =
     plain ''title cpu memory disk trafficIn trafficOut gatewayRtt gatewayLoss vpnUp''"

definition zhTW_chart :: "(string \<times> dict) list" where
  "zhTW_chart =
     plain ''noData''"

definition zhTW_reports :: "(string \<times> dict) list" where
  "zhTW_reports =
     sect ''page'' (
       plain ''title generate from to period kind created size download none generated kindOnDemand''
       @ plain ''kindScheduled'')
     @ sect ''settings'' (
       plain ''pageTitle title owner timezone fromEmail logo upload remove language save adminsOnly''
       @ plain ''saved logoUploaded logoRemoved hasLogo noLogo'')
     @ sect ''sections'' (
       plain ''title description customizeForDevice summary health alerts_wan attacks''
       @ plain ''attacker_countries failed_logins firewall_blocks web data status firmware_config''
       @ plain ''applications web_filter'')"

definition zhTW_sessions :: "(string \<times> dict) list" where
  "zhTW_sessions =
     plain ''pageTitle colLastSeen colCreated colExpires colIp colUserAgent current logoutAll''
     @ plain ''loadError logoutAllError''"

definition zhTW_mfa :: "(string \<times> dict) list" where
  "zhTW_mfa =
     plain ''pageTitle intro status enabled disabled recoveryRemaining statusError enroll''
     @ plain ''enrollStart password passwordHint scanHint secretLabel confirmCodeLabel confirmHint''
     @ plain ''confirm cancel setupError confirmError recoveryTitle recoveryIntro recoveryWarning''
     @ plain ''copyAll copied download done regenerate regenerateError disable disableConfirmTitle''
     @ plain ''disableConfirmBody disableError disabledNotice policyTitle policyIntro policyOff''
     @ plain ''policyAll policyPrivileged policyLoadError policySaveError policySaved usersTitle''
     @ plain ''colUser colEmail colRole superadmin member reset resetConfirmTitle resetConfirmBody''
     @ plain ''resetError resetDone usersLoadError gateTitle gateIntro''
     @ sect ''passkeys'' (
       plain ''title intro add accountPassword name namePlaceholder unnamed colName colCreated''
       @ plain ''remove removeConfirmTitle removeConfirmBody addedNotice removedNotice addError''
       @ plain ''removeError listError lastFactorError notConfigured notSupported'')
     @ sect ''trustedDeviceToggle'' (
       plain ''label help'')
     @ sect ''trustedDevices'' (
       plain ''title intro colDevice colIp colLastUsed colExpires revoke revokeAll confirmTitle''
       @ plain ''confirmBody revokeAllConfirmTitle revokeAllConfirmBody empty loadError revokeError''
       @ plain ''unknownDevice'')"

definition zhTW_groups :: "(string \<times> dict) list" where
  "zhTW_groups =
     plain ''title description superadminOnly name namePlaceholder descriptionField''
     @ plain ''descriptionPlaceholder members membersPlaceholder noMembers grants noGrants addGrant''
     @ plain ''allTenants tenant tenantPlaceholder role roleTenantAdmin roleOperator roleReadOnly''
     @ plain ''allTenantsScope create createTitle save delete deleteConfirm removeGrant empty created''
     @ plain ''updated deleted membersSaved grantAdded grantRemoved saveFailed loadError''"

definition zhTW_confirm :: "(string \<times> dict) list" where
  "zhTW_confirm =
     plain ''title cancel confirm deleteDevice deleteDeviceBody''"

definition zhTW_errors :: "(string \<times> dict) list" where
  "zhTW_errors =
     plain ''fleetHealthLoad alertsLoad metricsLoad configModelLoad configCapabilitiesLoad''
     @ plain ''configChangesLoad configChangeAction reportSettingsLoad reportSettingsAction''
     @ plain ''reportsLoad reportGenerate attackerCountriesLoad perimeterLoad auditLoad retentionLoad''
     @ plain ''retentionSave''"

definition zhTW_system :: "(string \<times> dict) list" where
  "zhTW_system =
     plain ''title subtitle''
     @ sect ''livePush'' (
       plain ''label help loadError enabled disabled updateError'')
     @ sect ''runtime'' (
       plain ''title subtitle loadError save discard saved saveError defaultLabel impactsTitle''
       @ holes ''impactItem'' [''tenant'', ''store'', ''range'', ''store'', ''bound'']
       @ sect ''groups'' (
         plain ''firmware distribution maintenance retention security_login security_session'')
       @ sect ''items'' (
         sect ''firmware_max_status_polls'' (
           plain ''label help'')
         @ sect ''firmware_poll_interval_seconds'' (
           plain ''label help'')
         @ sect ''catalog_auto_fetch'' (
           plain ''label help'')
         @ sect ''geoip_auto_fetch'' (
           plain ''label help'')
         @ sect ''silent_alert_enabled'' (
           plain ''label help'')
         @ sect ''silent_alert_after_hours'' (
           plain ''label help'')
         @ sect ''perimeter_retention_days'' (
           plain ''label help'')
         @ sect ''events_retention_days'' (
           plain ''label help'')
         @ sect ''metrics_retention_days'' (
           plain ''label help'')
         @ sect ''log_lake_retention_days'' (
           plain ''label help'')
         @ sect ''login_max_attempts'' (
           plain ''label help'')
         @ sect ''login_lockout_window_seconds'' (
           plain ''label help'')
         @ sect ''session_ttl_hours'' (
           plain ''label help'')
         @ sect ''session_idle_minutes'' (
           plain ''label help'')
         @ sect ''trusted_device_days'' (
           plain ''label help'')))"

definition zhTW_logFleet :: "(string \<times> dict) list" where
  "zhTW_logFleet =
     plain ''title loadError exportCsv exportPdf exportFailed silentBadge silentAlertsTitle''
     @ plain ''silentAlertsBody volume devicesTitle devicesLoadError noDevices''
     @ sect ''stats'' (
       plain ''tenantsForwarding enabledDevices silentTenants'')
     @ sect ''table'' (
       plain ''tenant device forwarding revoked lastLog'')"

definition zhTW_perimeter :: "(string \<times> dict) list" where
  "zhTW_perimeter =
     plain ''title subtitle failedLogins firewallBlocks failedLoginsHelp firewallBlocksHelp ip''
     @ plain ''country user port count lastSeen empty viewAll loadError''"

definition zhTW_retention :: "(string \<times> dict) list" where
  "zhTW_retention =
     plain ''title subtitle inheritHint save saved''
     @ sect ''stores'' (
       plain ''perimeter events metrics log_lake'')
     @ plain ''warningTitle''
     @ holes ''warningItem'' [''frequency'', ''range'', ''store'', ''bound'']"

definition zhTW_audit :: "(string \<times> dict) list" where
  "zhTW_audit =
     plain ''title subtitle''
     @ sect ''filters'' (
       plain ''actor tenant action from to apply reset'')
     @ sect ''columns'' (
       plain ''time actor tenant action target ip details'')
     @ plain ''empty export exportFailed''
     @ holes ''page'' [''page'']
     @ holes ''showingTotal'' [''total'']
     @ plain ''prev next''"

definition zhTW_reliability :: "(string \<times> dict) list" where
  "zhTW_reliability =
     plain ''tab title subtitle time category name severity process message''
     @ sect ''categories'' (
       plain ''reboot service disk'')
     @ sect ''severities'' (
       plain ''high medium low'')
     @ plain ''loadMore empty loading loadError last24h''"

definition zhTW_configAudit :: "(string \<times> dict) list" where
  "zhTW_configAudit =
     plain ''tab title subtitle time area actor ip channel change direct''
     @ sect ''channels'' (
       plain ''api gui system opngms api_external'')
     @ plain ''loadMore empty loading loadError last24h''"

definition zhTW_smtp :: "(string \<times> dict) list" where
  "zhTW_smtp =
     plain ''authMethod authPassword authOauth oauthProvider oauthGoogle oauthMicrosoft''
     @ plain ''oauthClientId oauthClientSecret oauthRefreshToken oauthTenantId oauthSecretSaved''
     @ plain ''oauthConnect oauthConnectGoogle oauthConnectMicrosoft oauthExperimental''
     @ plain ''oauthExperimentalNote oauthConnectNeedsCreds oauthConnected oauthConnectFailed''"

definition zhTW_dict :: dict where
  "zhTW_dict = Group
     [(''common'', Group zhTW_common), (''nav'', Group zhTW_nav), (''login'', Group zhTW_login), (''tenant'',
     Group zhTW_tenant), (''overview'', Group zhTW_overview), (''alerts'', Group zhTW_alerts), (''devices'',
     Group zhTW_devices), (''deviceDetail'', Group zhTW_deviceDetail), (''deviceActions'',
     Group zhTW_deviceActions), (''firmware'', Group zhTW_firmware), (''plugins'', Group zhTW_plugins),
     (''templates'', Group zhTW_templates), (''deviceCreate'', Group zhTW_deviceCreate), (''health'',
     Group zhTW_health), (''logForwarding'', Group zhTW_logForwarding), (''catalog'', Group zhTW_catalog),
     (''config'', Group zhTW_config), (''deviceHealth'', Group zhTW_deviceHealth), (''chart'',
     Group zhTW_chart), (''reports'', Group zhTW_reports), (''sessions'', Group zhTW_sessions), (''mfa'',
     Group zhTW_mfa), (''groups'', Group zhTW_groups), (''confirm'', Group zhTW_confirm), (''errors'',
     Group zhTW_errors), (''system'', Group zhTW_system), (''logFleet'', Group zhTW_logFleet), (''perimeter'',
     Group zhTW_perimeter), (''retention'', Group zhTW_retention), (''audit'', Group zhTW_audit),
     (''reliability'', Group zhTW_reliability), (''configAudit'', Group zhTW_configAudit), (''smtp'',
     Group zhTW_smtp)]"

lemmas zhTW_defs = zhTW_common_def zhTW_nav_def zhTW_login_def zhTW_tenant_def zhTW_overview_def zhTW_alerts_def
  zhTW_devices_def zhTW_deviceDetail_def zhTW_deviceActions_def zhTW_firmware_def zhTW_plugins_def
  zhTW_templates_def zhTW_deviceCreate_def zhTW_health_def zhTW_logForwarding_def zhTW_catalog_def
  zhTW_config_def zhTW_deviceHealth_def zhTW_chart_def zhTW_reports_def zhTW_sessions_def zhTW_mfa_def
  zhTW_groups_def zhTW_confirm_def zhTW_errors_def zhTW_system_def zhTW_logFleet_def zhTW_perimeter_def
  zhTW_retention_def zhTW_audit_def zhTW_reliability_def zhTW_configAudit_def zhTW_smtp_def

end
