(* ===== verification/Dictionaries.thy ===== *)
theory Dictionaries
  imports I18n DictEn DictIt DictEs DictFr DictDe DictPt DictNl DictRu DictAr DictZh DictZhTW DictJa
begin

text \<open>
  The twelve dictionaries together: the table of loaders of \<^verbatim>\<open>i18n/index.ts\<close>, the type every
  dictionary has, and the texts with placeholders as the components fill them. The values filled in
  (numbers, dates, names of stores and tenants) are taken without braces and without \<open>$\<close>, which the
  replacement functions of the language treat specially.
\<close>

section \<open>The table of dictionaries\<close>

definition loaders :: "(string \<times> dict) list" where
  "loaders = [(''it'', it_dict), (''es'', es_dict), (''fr'', fr_dict), (''de'', de_dict), (''pt'', pt_dict), (''nl'', nl_dict),
     (''ru'', ru_dict), (''ar'', ar_dict), (''zh'', zh_dict), (''zh-TW'', zhTW_dict), (''ja'', ja_dict)]"

text \<open>The dictionary of a locale once its load has landed: English is in the cache from the start.\<close>

definition dictionary :: "string \<Rightarrow> dict option" where
  "dictionary l = (if l = ''en'' then Some en_dict else map_of loaders l)"

section \<open>Texts with placeholders\<close>

definition newSince :: "string \<Rightarrow> string \<Rightarrow> string" where
  "newSince x diffFrom = replace_first x (hole ''v'') diffFrom"

definition changedSince :: "string \<Rightarrow> string \<Rightarrow> string" where
  "changedSince x diffFrom = replace_first x (hole ''v'') diffFrom"

definition staleBanner :: "string \<Rightarrow> string option \<Rightarrow> string" where
  "staleBanner x taken_at = replace_first x (hole ''when'') (nullish_or taken_at [])"

definition impactItem :: "string \<Rightarrow> string \<Rightarrow> string \<Rightarrow> int \<Rightarrow> int \<Rightarrow> string" where
  "impactItem x tenant_name store range_days bound =
     replace_first (replace_first
       (replace_all (replace_all x (hole ''tenant'') tenant_name) (hole ''store'') store)
       (hole ''range'') (show_int range_days)) (hole ''bound'') (show_int bound)"

definition retentionWarning :: "string \<Rightarrow> string \<Rightarrow> int \<Rightarrow> string \<Rightarrow> int \<Rightarrow> string" where
  "retentionWarning x frequency range_days limiting_store bound =
     replace_first (replace_first (replace_first (replace_first x
       (hole ''frequency'') frequency) (hole ''range'') (show_int range_days)) (hole ''store'') limiting_store)
       (hole ''bound'') (show_int bound)"

definition rememberLabel :: "string \<Rightarrow> int \<Rightarrow> string" where
  "rememberLabel x days = replace_first x (hole ''days'') (show_int days)"

definition showingTotal :: "string \<Rightarrow> int \<Rightarrow> string" where
  "showingTotal x count = replace_first x (hole ''total'') (show_int count)"

definition pageLabel :: "string \<Rightarrow> int \<Rightarrow> string" where
  "pageLabel x page = replace_first x (hole ''page'') (show_int page)"

section \<open>Every dictionary conforms\<close>

lemmas dict_defs = it_dict_def es_dict_def fr_dict_def de_dict_def pt_dict_def nl_dict_def ru_dict_def ar_dict_def
  zh_dict_def zhTW_dict_def ja_dict_def

lemma same_signature:
  "it_dict = en_dict" "es_dict = en_dict" "fr_dict = en_dict" "de_dict = en_dict" "pt_dict = en_dict" "nl_dict = en_dict"
  "ru_dict = en_dict" "ar_dict = en_dict" "zh_dict = en_dict" "zhTW_dict = en_dict" "ja_dict = en_dict"
  by (simp_all only: en_dict_def dict_defs en_defs it_defs es_defs fr_defs de_defs pt_defs nl_defs ru_defs ar_defs
      zh_defs zhTW_defs ja_defs)

lemma dictionary_supported: "l \<in> set SUPPORTED_LOCALES \<Longrightarrow> dictionary l = Some en_dict"
  by (auto simp: SUPPORTED_LOCALES_def dictionary_def loaders_def same_signature)

lemma dictionary_Some: "dictionary l = Some d \<Longrightarrow> l \<in> set SUPPORTED_LOCALES \<and> d = en_dict"
  by (auto simp: SUPPORTED_LOCALES_def dictionary_def loaders_def same_signature split: if_splits)

lemma en_wf: "dict_wf en_dict"
  by code_simp

text \<open>C33. Every dictionary has the type \<open>Localized<typeof en>\<close>: the locales with a dictionary are
  exactly the supported ones, each of the eleven loaded dictionaries has no repeated key and the leaves
  of the English one, none missing and none more, and the text at a path carries the same placeholders
  as the English text there, so that a component may read any of its texts in any locale.\<close>

theorem dictionaries_conform:
  "((\<exists>d. dictionary l = Some d) \<longleftrightarrow> l \<in> set SUPPORTED_LOCALES) \<and>
   (\<forall>d. dictionary l = Some d \<longrightarrow> Localized en_dict d \<and>
      (\<forall>p hs. (p, hs) \<in> set (flatten en_dict) \<longrightarrow> dict_at d p = Some hs))"
  using dictionary_supported [of l] dictionary_Some [of l] en_wf flatten_lookup [OF en_wf]
  by (auto simp: Localized_def)

theorem dictionaries_conform_witness:
  "\<exists>d. dictionary ''zh-TW'' = Some d \<and> Localized en_dict d \<and> dict_at d [''login'', ''mfa'', ''rememberDevice''] = Some [''days'']"
proof -
  have "''zh-TW'' \<in> set SUPPORTED_LOCALES" by (simp add: SUPPORTED_LOCALES_def)
  moreover have "dict_at en_dict [''login'', ''mfa'', ''rememberDevice''] = Some [''days'']" by code_simp
  ultimately show ?thesis
    using dictionaries_conform [of "''zh-TW''"] flatten_lookup [OF en_wf] by blast
qed

section \<open>Every placeholder is filled\<close>

lemma brace_free_simps [simp]: "brace_free []" "brace_free (c # s) \<longleftrightarrow> c \<noteq> CHR ''{'' \<and> c \<noteq> CHR ''}'' \<and> brace_free s"
  "brace_free (s @ t) \<longleftrightarrow> brace_free s \<and> brace_free t"
  by (auto simp: brace_free_def)

lemma brace_free_show_nat: "brace_free (show_nat n)"
proof (induction n rule: show_nat.induct)
  case (1 n)
  have digit: "d < 10 \<Longrightarrow> brace_free [char_of (48 + d :: nat)]" for d
  proof -
    assume "d < 10"
    then have "of_char (char_of (48 + d) :: char) = (48 + d :: nat)" by simp
    moreover have "of_char (CHR ''{'') = (123 :: nat)" "of_char (CHR ''}'') = (125 :: nat)" by simp_all
    ultimately show ?thesis using \<open>d < 10\<close> by (auto simp del: of_char_of)
  qed
  show ?case
  proof (cases "n < 10")
    case True
    then show ?thesis using digit by (subst show_nat.simps) simp
  next
    case False
    then show ?thesis using 1 digit [of "n mod 10"] by (subst show_nat.simps) simp
  qed
qed

lemma brace_free_show_int [simp]: "brace_free (show_int n)"
  by (simp add: show_int_def brace_free_show_nat)

lemma placeholders_en:
  "dict_at en_dict [''catalog'', ''diff'', ''newSince''] = Some [''v'']"
  "dict_at en_dict [''catalog'', ''diff'', ''changedSince''] = Some [''v'']"
  "dict_at en_dict [''catalog'', ''map'', ''staleBanner''] = Some [''when'']"
  "dict_at en_dict [''system'', ''runtime'', ''impactItem''] = Some [''tenant'', ''store'', ''range'', ''store'', ''bound'']"
  "dict_at en_dict [''retention'', ''warningItem''] = Some [''frequency'', ''range'', ''store'', ''bound'']"
  "dict_at en_dict [''login'', ''mfa'', ''rememberDevice''] = Some [''days'']"
  "dict_at en_dict [''audit'', ''showingTotal''] = Some [''total'']"
  "dict_at en_dict [''audit'', ''page''] = Some [''page'']"
  by code_simp+

text \<open>A text as the user should see it: no brace is left and every value is in it.\<close>

definition complete_text :: "string \<Rightarrow> string list \<Rightarrow> bool" where
  "complete_text x vs \<longleftrightarrow> brace_free x \<and> (\<forall>v \<in> set vs. sublist v x)"

lemma filled_one: "filled x [n] [] \<Longrightarrow> brace_free n \<Longrightarrow> brace_free v \<Longrightarrow> complete_text (replace_first x (hole n) v) [v]"
  using filled_done [of "replace_first x (hole n) v" "[v]"] filled_first [of x "[n]" "[]" n v]
  by (simp add: complete_text_def)

lemma impactItem_complete:
  assumes "filled x [''tenant'', ''store'', ''range'', ''store'', ''bound''] []" and "brace_free tenant" and "brace_free store"
  shows "complete_text (impactItem x tenant store days bound) [tenant, store, show_int days, show_int bound]"
proof -
  let ?x1 = "replace_all x (hole ''tenant'') tenant" let ?x2 = "replace_all ?x1 (hole ''store'') store"
  have "filled ?x1 [''store'', ''range'', ''store'', ''bound''] [tenant]"
    using filled_all [OF assms(1), of "''tenant''" tenant] assms(2) by simp
  then have "filled ?x2 [''range'', ''bound''] [store, tenant]"
    using filled_all [of ?x1 _ _ "''store''" store] assms(3) by fastforce
  then have "filled (replace_first ?x2 (hole ''range'') (show_int days)) [''bound''] [show_int days, store, tenant]"
    using filled_first [of ?x2 _ _ "''range''" "show_int days"] by fastforce
  then have "filled (impactItem x tenant store days bound) [] [show_int bound, show_int days, store, tenant]"
    using filled_first [of _ "[''bound'']" _ "''bound''" "show_int bound"] by (fastforce simp: impactItem_def)
  then show ?thesis by (auto simp: complete_text_def dest: filled_done)
qed

lemma retentionWarning_complete:
  assumes "filled x [''frequency'', ''range'', ''store'', ''bound''] []" and "brace_free frequency" and "brace_free store"
  shows "complete_text (retentionWarning x frequency days store bound) [frequency, show_int days, store, show_int bound]"
proof -
  let ?x1 = "replace_first x (hole ''frequency'') frequency" let ?x2 = "replace_first ?x1 (hole ''range'') (show_int days)"
  have "filled ?x1 [''range'', ''store'', ''bound''] [frequency]"
    using filled_first [OF assms(1), of "''frequency''" frequency] assms(2) by simp
  then have "filled ?x2 [''store'', ''bound''] [show_int days, frequency]"
    using filled_first [of ?x1 _ _ "''range''" "show_int days"] by fastforce
  then have "filled (replace_first ?x2 (hole ''store'') store) [''bound''] [store, show_int days, frequency]"
    using filled_first [of ?x2 _ _ "''store''" store] assms(3) by fastforce
  then have "filled (retentionWarning x frequency days store bound) [] [show_int bound, store, show_int days, frequency]"
    using filled_first [of _ "[''bound'']" _ "''bound''" "show_int bound"] by (fastforce simp: retentionWarning_def)
  then show ?thesis by (auto simp: complete_text_def dest: filled_done)
qed

text \<open>No user ever sees a placeholder. Whatever the supported locale, and whatever the words of
  its texts as long as they carry the placeholders of the dictionary, each of the eight texts that a
  component fills ends up without a brace and with every value it was given in it, for values without
  braces: the version a model is compared with, the date of a stale configuration map, the tenant, store
  (twice), range and bound of a retention conflict, the parts of a retention warning, the days a browser
  is remembered, and the count and page of the audit log.\<close>

theorem placeholders_filled:
  assumes "dictionary l = Some d" and "\<forall>p hs. dict_at d p = Some hs \<longrightarrow> filled (tx p) hs []"
    and "brace_free v" and "brace_free tenant" and "brace_free store" and "brace_free frequency"
  shows "complete_text (newSince (tx [''catalog'', ''diff'', ''newSince'']) v) [v] \<and>
         complete_text (changedSince (tx [''catalog'', ''diff'', ''changedSince'']) v) [v] \<and>
         complete_text (staleBanner (tx [''catalog'', ''map'', ''staleBanner'']) (Some v)) [v] \<and>
         complete_text (staleBanner (tx [''catalog'', ''map'', ''staleBanner'']) None) [] \<and>
         complete_text (impactItem (tx [''system'', ''runtime'', ''impactItem'']) tenant store days bound)
           [tenant, store, show_int days, show_int bound] \<and>
         complete_text (retentionWarning (tx [''retention'', ''warningItem'']) frequency days store bound)
           [frequency, show_int days, store, show_int bound] \<and>
         complete_text (rememberLabel (tx [''login'', ''mfa'', ''rememberDevice'']) days) [show_int days] \<and>
         complete_text (showingTotal (tx [''audit'', ''showingTotal'']) days) [show_int days] \<and>
         complete_text (pageLabel (tx [''audit'', ''page'']) days) [show_int days]"
proof -
  have f: "dict_at en_dict p = Some hs \<Longrightarrow> filled (tx p) hs []" for p hs
    using assms(2) dictionary_Some [OF assms(1)] by blast
  have none: "complete_text (staleBanner (tx [''catalog'', ''map'', ''staleBanner'']) None) []"
    using filled_one [OF f [OF placeholders_en(3)], of "[]"]
    by (simp add: staleBanner_def complete_text_def nullish_or_def)
  show ?thesis
    using none filled_one [OF f [OF placeholders_en(1)], of v] filled_one [OF f [OF placeholders_en(2)], of v]
      filled_one [OF f [OF placeholders_en(3)], of v] impactItem_complete [OF f [OF placeholders_en(4)] assms(4,5)]
      retentionWarning_complete [OF f [OF placeholders_en(5)] assms(6,5)]
      filled_one [OF f [OF placeholders_en(6)], of "show_int days"] filled_one [OF f [OF placeholders_en(7)], of "show_int days"]
      filled_one [OF f [OF placeholders_en(8)], of "show_int days"] assms(3)
    by (simp add: newSince_def changedSince_def staleBanner_def rememberLabel_def showingTotal_def pageLabel_def nullish_or_def)
qed

text \<open>A text that is nothing but its placeholders, one after the other.\<close>

definition bare_text :: "dict \<Rightarrow> string list \<Rightarrow> string" where
  "bare_text d p = (case dict_at d p of None \<Rightarrow> [] | Some hs \<Rightarrow> text_of (map Hole hs))"

lemma holes_in_map [simp]: "holes_in (map Hole hs) = hs"
  by (induction hs) auto

primrec names_ok :: "dict \<Rightarrow> bool" where
  "names_ok (Words hs) = list_all brace_free hs"
| "names_ok (Group kvs) = list_all snd (map (map_prod id names_ok) kvs)"

lemma names_ok_at: "names_ok d \<Longrightarrow> dict_at d p = Some hs \<Longrightarrow> list_all brace_free hs"
proof (induction d p rule: dict_at.induct)
  case (2 kvs k ks)
  then obtain d where "map_of kvs k = Some d" "dict_at d ks = Some hs" by (auto split: option.splits)
  then show ?case using 2 by (auto simp: list_all_iff dest!: map_of_SomeD)
qed simp_all

lemma bare_filled: "names_ok d \<Longrightarrow> dict_at d p = Some hs \<Longrightarrow> filled (bare_text d p) hs []"
  using names_ok_at [of d p hs] unfolding filled_def bare_text_def
  by (intro exI [of _ "map Hole hs"]) (auto simp: list_all_iff)

theorem placeholders_filled_witness:
  "complete_text (impactItem (bare_text ja_dict [''system'', ''runtime'', ''impactItem'']) ''acme'' ''logs'' 30 7)
     [''acme'', ''logs'', ''30'', ''7'']"
proof -
  have d: "dictionary ''ja'' = Some ja_dict" by (simp add: dictionary_def loaders_def)
  have "names_ok en_dict" by code_simp
  then have t: "\<forall>p hs. dict_at ja_dict p = Some hs \<longrightarrow> filled (bare_text ja_dict p) hs []"
    using bare_filled by (simp add: same_signature)
  have n: "show_int 30 = ''30''" "show_int 7 = ''7''" by code_simp+
  show ?thesis
    using placeholders_filled [OF d t, of "''x''" "''acme''" "''logs''" "''y''" 30 7] n by simp
qed

end
