(* ===== verification/Catalog.thy ===== *)
theory Catalog
  imports HooksDevice
begin

text \<open>
  The configuration editor of a device (\<^verbatim>\<open>catalog\<close>): typed field inputs, editable grids, the form
  that turns edits into a change request, and the searchable menu with its links into the device's
  own interface. Field values are strings, as in the code; a live value is a string or an array of
  strings.
\<close>

section \<open>Catalog data (catalogTypes.ts)\<close>

datatype field_type = FBool | FInt | FString | FEnum | FMultienum | FNetwork | FRef | FRaw

record catalog_field =
  cf_path :: string
  cf_type :: field_type
  cf_options :: "string list option"
  cf_label :: "string option"

record catalog_grid =
  cg_path :: string
  cg_fields :: "catalog_field list"

record catalog_model =
  cm_id :: string
  cm_model_title :: string
  cm_fields :: "catalog_field list"
  cm_grids :: "catalog_grid list"
  cm_pages :: "(string \<times> string list) list"

datatype live_value = LStr string | LArr "string list"

record grid_row =
  gr_uuid :: string
  gr_values :: "live_value obj"

record catalog_live =
  cl_model :: catalog_model
  cl_values :: "live_value obj"
  cl_grids :: "grid_row list obj"
  cl_field_options :: "(string \<times> string) list obj"
  cl_reachable :: bool
  cl_read_only :: bool

datatype grid_op = GAdd string "string obj" | GSet string string "string obj" | GDel string string

record change_body =
  cb_model_id :: string
  cb_scalars :: "string obj"
  cb_grids :: "grid_op list"

record model_diff =
  md_added :: "string list"
  md_removed :: "string list"
  md_changed :: "string list"

record diff_data =
  dd_added_models :: "string list"
  dd_removed_models :: "string list"
  dd_models :: "model_diff obj"

section \<open>One field (CatalogFieldInput.tsx)\<close>

text \<open>The widget of a field and what it shows; the number input's value is kept in its printed form.\<close>

datatype widget = Switch bool | NumberInput string | SelectInput "(string \<times> string) list" string
  | MultiSelect "(string \<times> string) list" "string list" | TextInput string

datatype user_input = InBool bool | InNumber string | InChoice "string option" | InKeys "string list" | InText string

definition live_options :: "(string \<times> string) list option \<Rightarrow> (string \<times> string) list option" where
  "live_options v = (case v of None \<Rightarrow> None | Some os \<Rightarrow> if os \<noteq> [] then Some os else None)"

definition field_choices :: "catalog_field \<Rightarrow> (string \<times> string) list option \<Rightarrow> (string \<times> string) list" where
  "field_choices f liveOptions =
     nullish_or (live_options liveOptions) (map (\<lambda>o'. (o', o')) (nullish_or (cf_options f) []))"

definition CatalogFieldInput :: "catalog_field \<Rightarrow> string \<Rightarrow> (string \<times> string) list option \<Rightarrow> widget" where
  "CatalogFieldInput f v liveOptions =
     (let options = field_choices f liveOptions in
      if cf_type f = FBool then Switch (v = ''1'')
      else if cf_type f = FInt then NumberInput v
      else if cf_type f = FEnum \<or> cf_type f = FRef \<and> live_options liveOptions \<noteq> None then SelectInput options v
      else if cf_type f = FMultienum then MultiSelect options (filter_truthy (split_on CHR '','' v))
      else TextInput v)"

text \<open>What \<open>onChange\<close> reports for a widget.\<close>

fun input_value :: "user_input \<Rightarrow> string" where
  "input_value (InBool b) = (if b then ''1'' else ''0'')"
| "input_value (InNumber s) = s"
| "input_value (InChoice v) = nullish_or v []"
| "input_value (InKeys ks) = js_join '','' ks"
| "input_value (InText s) = s"

fun accepts_input :: "widget \<Rightarrow> user_input \<Rightarrow> bool" where
  "accepts_input (Switch _) (InBool _) = True"
| "accepts_input (NumberInput _) (InNumber _) = True"
| "accepts_input (SelectInput os _) (InChoice v) = (case v of None \<Rightarrow> True | Some k \<Rightarrow> k \<in> fst ` set os)"
| "accepts_input (MultiSelect os _) (InKeys ks) = (set ks \<subseteq> fst ` set os)"
| "accepts_input (TextInput _) (InText _) = True"
| "accepts_input _ _ = False"

fun shown_input :: "widget \<Rightarrow> user_input" where
  "shown_input (Switch b) = InBool b"
| "shown_input (NumberInput s) = InNumber s"
| "shown_input (SelectInput os v) = InChoice (if v = [] then None else Some v)"
| "shown_input (MultiSelect os ks) = InKeys ks"
| "shown_input (TextInput s) = InText s"

section \<open>One grid (CatalogGridTable.tsx)\<close>

definition toStr :: "live_value option \<Rightarrow> string" where
  "toStr v = (case v of None \<Rightarrow> [] | Some (LStr s) \<Rightarrow> s | Some (LArr ks) \<Rightarrow> js_join '','' ks)"

record grid_editing =
  ge_uuid :: "string option"
  ge_item :: "string obj"

record grid_state =
  gs_ops :: "grid_op list"
  gs_editing :: "grid_editing option"

definition grid_initial :: grid_state where
  "grid_initial = \<lparr>gs_ops = [], gs_editing = None\<rparr>"

definition push :: "grid_op list \<Rightarrow> grid_state \<Rightarrow> grid_state" where
  "push next s = s\<lparr>gs_ops := gs_ops s @ next\<rparr>"

definition openAdd :: "catalog_grid \<Rightarrow> grid_state \<Rightarrow> grid_state" where
  "openAdd g s = s\<lparr>gs_editing := Some \<lparr>ge_uuid = None,
     ge_item = from_entries (map (\<lambda>f. (cf_path f, [])) (cg_fields g))\<rparr>\<rparr>"

definition openEdit :: "catalog_grid \<Rightarrow> grid_row \<Rightarrow> grid_state \<Rightarrow> grid_state" where
  "openEdit g row s = s\<lparr>gs_editing := Some \<lparr>ge_uuid = Some (gr_uuid row),
     ge_item = from_entries (map (\<lambda>f. (cf_path f, toStr (obj_get (gr_values row) (cf_path f)))) (cg_fields g))\<rparr>\<rparr>"

definition editItem :: "string \<Rightarrow> string \<Rightarrow> grid_state \<Rightarrow> grid_state" where
  "editItem p v s = (case gs_editing s of
     None \<Rightarrow> s | Some e \<Rightarrow> s\<lparr>gs_editing := Some (e\<lparr>ge_item := obj_set p v (ge_item e)\<rparr>)\<rparr>)"

definition save_row :: "catalog_grid \<Rightarrow> grid_state \<Rightarrow> grid_state" where
  "save_row g s = (case gs_editing s of
     None \<Rightarrow> s
   | Some e \<Rightarrow> (push [if struthy (ge_uuid e) then GSet (cg_path g) (the (ge_uuid e)) (ge_item e)
                      else GAdd (cg_path g) (ge_item e)] s)\<lparr>gs_editing := None\<rparr>)"

definition delete_row :: "catalog_grid \<Rightarrow> grid_row \<Rightarrow> grid_state \<Rightarrow> grid_state" where
  "delete_row g row s = push [GDel (cg_path g) (gr_uuid row)] s"

definition close_modal :: "grid_state \<Rightarrow> grid_state" where
  "close_modal s = s\<lparr>gs_editing := None\<rparr>"

text \<open>The actions of a grid over its live rows. The buttons are enabled only when the table is; the
  modal edits the fields of the grid.\<close>

inductive grid_run :: "catalog_grid \<Rightarrow> grid_row list \<Rightarrow> bool \<Rightarrow> grid_state \<Rightarrow> bool" for g rows disabled where
  start: "grid_run g rows disabled grid_initial"
| add: "grid_run g rows disabled s \<Longrightarrow> \<not> disabled \<Longrightarrow> grid_run g rows disabled (openAdd g s)"
| edit: "grid_run g rows disabled s \<Longrightarrow> \<not> disabled \<Longrightarrow> row \<in> set rows \<Longrightarrow>
     grid_run g rows disabled (openEdit g row s)"
| item: "grid_run g rows disabled s \<Longrightarrow> f \<in> set (cg_fields g) \<Longrightarrow>
     grid_run g rows disabled (editItem (cf_path f) v s)"
| save: "grid_run g rows disabled s \<Longrightarrow> grid_run g rows disabled (save_row g s)"
| delete: "grid_run g rows disabled s \<Longrightarrow> \<not> disabled \<Longrightarrow> row \<in> set rows \<Longrightarrow>
     grid_run g rows disabled (delete_row g row s)"
| close: "grid_run g rows disabled s \<Longrightarrow> grid_run g rows disabled (close_modal s)"

section \<open>The form of a model (CatalogModelForm.tsx)\<close>

definition seeded :: "catalog_model \<Rightarrow> live_value obj \<Rightarrow> string obj" where
  "seeded m vals = foldl (\<lambda>s f. obj_set (cf_path f) (toStr (obj_get vals (cf_path f))) s) [] (cm_fields m)"

record form_state =
  fm_work :: "string obj"
  fm_gridOps :: "grid_op list obj"

definition form_mount :: "catalog_model \<Rightarrow> live_value obj \<Rightarrow> form_state" where
  "form_mount m vals = \<lparr>fm_work = seeded m vals, fm_gridOps = []\<rparr>"

definition edit_field :: "string \<Rightarrow> string \<Rightarrow> form_state \<Rightarrow> form_state" where
  "edit_field p v s = s\<lparr>fm_work := obj_set p v (fm_work s)\<rparr>"

definition onOps :: "string \<Rightarrow> grid_op list \<Rightarrow> form_state \<Rightarrow> form_state" where
  "onOps gpath ops s = s\<lparr>fm_gridOps := obj_set gpath ops (fm_gridOps s)\<rparr>"

definition fieldByPath :: "catalog_model \<Rightarrow> catalog_field obj" where
  "fieldByPath m =
     foldl (\<lambda>mp g. foldl (\<lambda>mp f. obj_set (cg_path g @ ''.'' @ cf_path f) f mp) mp (cg_fields g))
       (foldl (\<lambda>mp f. obj_set (cf_path f) f mp) [] (cm_fields m)) (cm_grids m)"

fun scalars_loop :: "string obj \<Rightarrow> (string \<times> string) list \<Rightarrow> string obj \<Rightarrow> string obj" where
  "scalars_loop seed [] acc = acc"
| "scalars_loop seed ((path, val) # kvs) acc =
     scalars_loop seed kvs (if obj_get seed path \<noteq> Some val then obj_set path val acc else acc)"

definition build :: "catalog_model \<Rightarrow> live_value obj \<Rightarrow> form_state \<Rightarrow> change_body" where
  "build m vals s =
     \<lparr>cb_model_id = cm_id m,
      cb_scalars = scalars_loop (seeded m vals) (obj_entries (fm_work s)) [],
      cb_grids = concat (obj_values (fm_gridOps s))\<rparr>"

definition form_editable :: "catalog_live \<Rightarrow> bool" where
  "form_editable l \<longleftrightarrow> cl_reachable l \<and> \<not> cl_read_only l"

datatype field_badge = NewSince string | ChangedSince string

definition fieldBadge :: "diff_data option \<Rightarrow> string option \<Rightarrow> string \<Rightarrow> string \<Rightarrow> field_badge option" where
  "fieldBadge diff diffFrom modelId path =
     (let modelDiff = (if diff \<noteq> None \<and> struthy diffFrom then obj_get (dd_models (the diff)) modelId else None) in
      case modelDiff of
        None \<Rightarrow> None
      | Some md \<Rightarrow> if path \<in> set (md_added md) then Some (NewSince (the diffFrom))
                   else if path \<in> set (md_changed md) then Some (ChangedSince (the diffFrom)) else None)"

text \<open>What the form offers: nothing but a notice for a read-only model; else the inputs of the pages
  (enabled when editable), the grids, and the propose button when editable.\<close>

datatype form_view = ReadOnlyNotice
  | Form bool "(string \<times> widget) list" "string list" bool

definition CatalogModelForm_view :: "catalog_live \<Rightarrow> form_state \<Rightarrow> form_view" where
  "CatalogModelForm_view l s =
     (if cl_read_only l then ReadOnlyNotice
      else Form (\<not> cl_reachable l)
        (List.map_filter (\<lambda>path. map_option
             (\<lambda>f. (path, CatalogFieldInput f (nullish_or (obj_get (fm_work s) path) [])
                           (obj_get (cl_field_options l) path)))
             (obj_get (fieldByPath (cl_model l)) path))
           (concat (map snd (cm_pages (cl_model l)))))
        (map cg_path (cm_grids (cl_model l))) (form_editable l))"

section \<open>The tab (CatalogEditorTab.tsx)\<close>

definition body_json :: "change_body \<Rightarrow> json" where
  "body_json b =
     JObj [(''model_id'', JStr (cb_model_id b)), (''scalars'', JObj (map (\<lambda>(k, v). (k, JStr v)) (cb_scalars b))),
           (''grids'', JArr (map (\<lambda>op. case op of
               GAdd g it \<Rightarrow> JObj [(''op'', JStr ''add''), (''grid'', JStr g), (''item'', JObj (map (\<lambda>(k, v). (k, JStr v)) it))]
             | GSet g u it \<Rightarrow> JObj [(''op'', JStr ''set''), (''grid'', JStr g), (''uuid'', JStr u), (''item'', JObj (map (\<lambda>(k, v). (k, JStr v)) it))]
             | GDel g u \<Rightarrow> JObj [(''op'', JStr ''del''), (''grid'', JStr g), (''uuid'', JStr u)]) (cb_grids b)))]"

text \<open>\<open>onPropose\<close>: the request, if one is sent, and the notice for the outcome.\<close>

definition onPropose_request :: "string option \<Rightarrow> string \<Rightarrow> change_body \<Rightarrow> mutation option" where
  "onPropose_request activeId deviceId b =
     (if obj_keys (cb_scalars b) = [] \<and> cb_grids b = [] then None
      else Some (useProposeCatalogChange activeId deviceId (body_json b)))"

definition onPropose :: "string option \<Rightarrow> string \<Rightarrow> change_body \<Rightarrow> api_result \<Rightarrow> notice" where
  "onPropose activeId deviceId b r =
     (case onPropose_request activeId deviceId b of
        None \<Rightarrow> Info ''t.catalog.noChanges''
      | Some mu \<Rightarrow> (case m_fn mu r of Inr _ \<Rightarrow> Info ''t.catalog.proposed''
                   | Inl _ \<Rightarrow> Failure ''t.catalog.proposeFailed''))"

datatype pane = Menu | Map

record editor_state =
  ed_selected :: "string option"
  ed_search :: string
  ed_pane :: pane
  ed_baseline :: "string option"

definition onEditInCatalog :: "string \<Rightarrow> editor_state \<Rightarrow> editor_state" where
  "onEditInCatalog modelId s = s\<lparr>ed_selected := Some modelId, ed_pane := Menu\<rparr>"

definition activeFrom :: "editor_state \<Rightarrow> string option option \<Rightarrow> string option" where
  "activeFrom s diff_from = (case ed_baseline s of Some b \<Rightarrow> Some b | None \<Rightarrow> nullish_or diff_from None)"

definition config_map_device :: "editor_state \<Rightarrow> string \<Rightarrow> string" where
  "config_map_device s deviceId = (if ed_pane s = Map then deviceId else [])"

section \<open>The menu (CatalogMenuTree.tsx)\<close>

datatype menu_node = MenuNode (mn_id: string) (mn_label: string) (mn_url: "string option")
  (mn_model: "string option") (mn_children: "menu_node list")

definition hasDiff :: "diff_data option \<Rightarrow> string \<Rightarrow> bool" where
  "hasDiff diff modelId =
     (case diff of
        None \<Rightarrow> False
      | Some d \<Rightarrow> modelId \<in> set (dd_added_models d)
          \<or> (case obj_get (dd_models d) modelId of
               None \<Rightarrow> False
             | Some m \<Rightarrow> length (md_added m) + length (md_removed m) + length (md_changed m) > 0))"

text \<open>The regular expression \<open>/^https?:\/\//i\<close>.\<close>

definition http_url :: "string \<Rightarrow> bool" where
  "http_url s \<longleftrightarrow> starts_with (to_lower s) ''http://'' \<or> starts_with (to_lower s) ''https://''"

definition strip_slash :: "string \<Rightarrow> string" where
  "strip_slash s = (if s \<noteq> [] \<and> last s = CHR ''/'' then butlast s else s)"

definition deepLink :: "string \<Rightarrow> string \<Rightarrow> string option" where
  "deepLink baseUrl url =
     (if \<not> http_url baseUrl then None
      else let path = (if starts_with url ''/'' then url else ''/'' @ url) in Some (strip_slash baseUrl @ path))"

fun menu_matches :: "string \<Rightarrow> menu_node \<Rightarrow> bool" where
  "menu_matches q (MenuNode i l u m cs) =
     (q = [] \<or> str_includes (to_lower l) q \<or> str_includes (to_lower (nullish_or u [])) q
      \<or> (\<exists>c \<in> set cs. menu_matches q c))"

datatype menu_item = Branch string string bool "menu_item list" | ModelItem string string bool bool
  | LinkItem string string "string option"

text \<open>The rendered menu. Every nested menu is a component of its own with its own set of expanded
  branches, found by the ids of the branches above it.\<close>

fun CatalogMenuTree ::
  "string \<Rightarrow> string \<Rightarrow> string option \<Rightarrow> diff_data option \<Rightarrow> (string list \<Rightarrow> string set) \<Rightarrow> string list \<Rightarrow> menu_node list
    \<Rightarrow> menu_item list" where
  "CatalogMenuTree baseUrl q selected diff expanded at [] = []"
| "CatalogMenuTree baseUrl q selected diff expanded at (MenuNode i l u m cs # ns) =
     (if menu_matches q (MenuNode i l u m cs) then
        [if cs \<noteq> [] then
           Branch i l (q \<noteq> [] \<or> i \<in> expanded at) (CatalogMenuTree baseUrl q selected diff expanded (at @ [i]) cs)
         else if struthy m then ModelItem l (the m) (selected = m) (hasDiff diff (the m))
         else LinkItem i l (if struthy u then deepLink baseUrl (the u) else None)]
      else [])
     @ CatalogMenuTree baseUrl q selected diff expanded at ns"

definition search_query :: "string \<Rightarrow> string" where
  "search_query s = to_lower (js_trim s)"

definition toggle_branch :: "string \<Rightarrow> string set \<Rightarrow> string set" where
  "toggle_branch i s = (if i \<in> s then s - {i} else insert i s)"

section \<open>What is proved\<close>

subsection \<open>Inputs\<close>

lemma keys_roundtrip:
  assumes "\<forall>k \<in> set ks. k \<noteq> [] \<and> CHR '','' \<notin> set k"
  shows "filter_truthy (split_on CHR '','' (js_join '','' ks)) = ks"
proof (cases "ks = []")
  case False
  then have "split_on CHR '','' (js_join '','' ks) = ks" using assms by (intro split_on_join) auto
  then show ?thesis using assms by (simp add: filter_truthy_def filter_id_conv)
qed (simp add: split_on_def filter_truthy_def)

text \<open>A field shows what the user entered. For every field type, entering a value the widget
  offers and rendering the field again from the string that was reported shows that value, provided
  the option keys of the field are non-empty and contain no comma (a multiple choice is stored as a
  comma-separated string).\<close>

theorem field_input_roundtrip:
  assumes "accepts_input (CatalogFieldInput f v lo) i"
    and "\<forall>k \<in> fst ` set (field_choices f lo). k \<noteq> [] \<and> CHR '','' \<notin> set k"
  shows "shown_input (CatalogFieldInput f (input_value i) lo) = i"
proof (cases i)
  case (InKeys ks)
  have "filter_truthy (split_on CHR '','' (js_join '','' ks)) = ks"
    if "set ks \<subseteq> fst ` set (field_choices f lo)"
    using that assms(2) by (intro keys_roundtrip) blast
  then show ?thesis
    using assms(1) InKeys by (cases "cf_type f") (auto simp: CatalogFieldInput_def Let_def split: if_splits)
next
  case (InChoice c)
  then show ?thesis
    using assms by (cases "cf_type f"; cases c) (auto simp: CatalogFieldInput_def Let_def split: if_splits)
qed (use assms in \<open>cases "cf_type f"; auto simp: CatalogFieldInput_def Let_def split: if_splits\<close>)+

definition sample_field :: catalog_field where
  "sample_field = \<lparr>cf_path = ''if'', cf_type = FMultienum, cf_options = Some [''wan'', ''lan''], cf_label = None\<rparr>"

theorem field_input_roundtrip_witness:
  "shown_input (CatalogFieldInput sample_field (input_value (InKeys [''wan'', ''lan''])) None) = InKeys [''wan'', ''lan'']"
  by (rule field_input_roundtrip [where v = "[]"])
     (auto simp: sample_field_def CatalogFieldInput_def field_choices_def live_options_def Let_def)

subsection \<open>Changes\<close>

lemma get_scalars:
  "distinct (map fst kvs) \<Longrightarrow> obj_get (scalars_loop seed kvs acc) k =
     (case map_of kvs k of None \<Rightarrow> obj_get acc k
      | Some v \<Rightarrow> if obj_get seed k \<noteq> Some v then Some v else obj_get acc k)"
  by (induction seed kvs acc rule: scalars_loop.induct)
     (auto simp: obj_get_set split: option.splits simp flip: map_of_eq_None_iff)

lemma wf_scalars: "obj_wf acc \<Longrightarrow> obj_wf (scalars_loop seed kvs acc)"
  by (induction seed kvs acc rule: scalars_loop.induct) auto

lemma wf_foldl_set: "obj_wf a \<Longrightarrow> obj_wf (foldl (\<lambda>s x. obj_set (f x) (g x) s) a xs)"
  by (induction xs arbitrary: a) auto

lemma wf_seeded [simp]: "obj_wf (seeded m vals)"
  unfolding seeded_def by (rule wf_foldl_set) simp

lemma get_seeded:
  "f \<in> set (cm_fields m) \<Longrightarrow> obj_get (seeded m vals) (cf_path f) = Some (toStr (obj_get vals (cf_path f)))"
  unfolding seeded_def by (rule rec.get_fill_fun [where f = cf_path]) auto

definition edits :: "(string \<times> string) list \<Rightarrow> form_state \<Rightarrow> form_state" where
  "edits es s = foldl (\<lambda>s (p, v). edit_field p v s) s es"

lemma work_edits: "fm_work (edits es s) = foldl (\<lambda>w (p, v). obj_set p v w) (fm_work s) es"
  unfolding edits_def by (induction es arbitrary: s) (auto simp: edit_field_def)

lemma wf_work_edits: "obj_wf (fm_work (edits es (form_mount m vals)))"
proof -
  have "obj_wf (foldl (\<lambda>w (p, v). obj_set p v w) w es)" if "obj_wf w" for w :: "string obj"
    using that by (induction es arbitrary: w) auto
  then show ?thesis by (simp add: work_edits form_mount_def)
qed

lemma get_work_edits:
  "obj_get (fm_work (edits es (form_mount m vals))) k =
     (case map_of (rev es) k of None \<Rightarrow> obj_get (seeded m vals) k | Some v \<Rightarrow> Some v)"
  by (simp add: work_edits form_mount_def rec.get_foldl_put)

lemma get_build:
  assumes "obj_wf (fm_work s)"
  shows "obj_get (cb_scalars (build m vals s)) k =
    (case obj_get (fm_work s) k of None \<Rightarrow> None | Some v \<Rightarrow> if obj_get (seeded m vals) k \<noteq> Some v then Some v else None)"
  using assms by (simp add: build_def get_scalars distinct_entries map_of_entries split: option.splits)


text \<open>C40. An open form overwrites what changed on the device meanwhile. The form keeps the values it
  was opened with while the comparison uses the values of the latest reply: when a later reply has
  another value for a field that the user never touched, the proposal contains the old value of that
  field, and proposing would put it back.\<close>

theorem stale_form_reverts:
  assumes "f \<in> set (cm_fields m)"
    and "toStr (obj_get vals (cf_path f)) \<noteq> toStr (obj_get vals' (cf_path f))"
  shows "obj_get (cb_scalars (build m vals' (form_mount m vals))) (cf_path f) = Some (toStr (obj_get vals (cf_path f)))"
proof -
  have "obj_wf (fm_work (form_mount m vals))" by (simp add: form_mount_def)
  then show ?thesis using assms by (simp add: get_build form_mount_def get_seeded)
qed

definition sample_model :: catalog_model where
  "sample_model = \<lparr>cm_id = ''unbound'', cm_model_title = ''DNS'',
     cm_fields = [\<lparr>cf_path = ''port'', cf_type = FInt, cf_options = None, cf_label = None\<rparr>], cm_grids = [],
     cm_pages = [(''general'', [''port''])]\<rparr>"

theorem stale_form_reverts_witness:
  "obj_get (cb_scalars (build sample_model [(''port'', LStr ''5353'')] (form_mount sample_model [(''port'', LStr ''53'')])))
     ''port'' = Some ''53''"
  using stale_form_reverts [of "\<lparr>cf_path = ''port'', cf_type = FInt, cf_options = None, cf_label = None\<rparr>" sample_model
      "[(''port'', LStr ''53'')]" "[(''port'', LStr ''5353'')]"]
  by (simp add: sample_model_def toStr_def obj_get_def)

lemma entries_Nil: "obj_entries ob = [] \<longleftrightarrow> ob = []"
  by (metis set_empty set_obj_entries)

text \<open>Nothing is proposed without a change. On a freshly opened form after any edits and any
  operations on grids, the request is withheld exactly when every path still has the device's value and
  no grid has an operation; otherwise one request goes to the device's catalog with the proposal.\<close>

theorem propose_iff_changed:
  assumes "fm_work s = fm_work (edits es (form_mount m vals))"
  shows "onPropose_request a dv (build m vals s) = None \<longleftrightarrow>
    (\<forall>k. obj_get (fm_work s) k = obj_get (seeded m vals) k) \<and> (\<forall>(g, ops) \<in> set (fm_gridOps s). ops = [])"
proof -
  have w: "obj_wf (fm_work s)" using wf_work_edits assms by simp
  have "cb_scalars (build m vals s) = [] \<longleftrightarrow> (\<forall>k. obj_get (cb_scalars (build m vals s)) k = None)"
    by (auto simp: obj_get_def map_of_eq_None_iff)
  also have "\<dots> \<longleftrightarrow> (\<forall>k. obj_get (fm_work s) k = obj_get (seeded m vals) k)"
    using get_work_edits [of es m vals] assms by (auto simp: get_build [OF w] split: option.splits if_splits) metis
  finally have sc: "cb_scalars (build m vals s) = [] \<longleftrightarrow> (\<forall>k. obj_get (fm_work s) k = obj_get (seeded m vals) k)" .
  have "cb_grids (build m vals s) = [] \<longleftrightarrow> (\<forall>(g, ops) \<in> set (fm_gridOps s). ops = [])"
    by (auto simp: build_def obj_values_def)
  then show ?thesis by (simp add: onPropose_request_def obj_keys_def entries_Nil sc)
qed

theorem propose_iff_changed_witness:
  "onPropose_request (Some ''t'') ''d'' (build sample_model [(''port'', LStr ''53'')]
     (edits [(''port'', ''54''), (''port'', ''53'')] (form_mount sample_model [(''port'', LStr ''53'')]))) = None"
proof -
  let ?s = "edits [(''port'', ''54''), (''port'', ''53'')] (form_mount sample_model [(''port'', LStr ''53'')])"
  have "fm_work ?s = [(''port'', ''53'')]" "fm_gridOps ?s = []" "seeded sample_model [(''port'', LStr ''53'')] = [(''port'', ''53'')]"
    by (simp_all add: edits_def edit_field_def form_mount_def seeded_def sample_model_def toStr_def obj_get_def)
  then show ?thesis
    using propose_iff_changed [of ?s "[(''port'', ''54''), (''port'', ''53'')]" sample_model "[(''port'', LStr ''53'')]"]
    by simp
qed

subsection \<open>Grids\<close>

fun op_ok :: "catalog_grid \<Rightarrow> grid_row list \<Rightarrow> grid_op \<Rightarrow> bool" where
  "op_ok g rows (GAdd p it) = (p = cg_path g \<and> fst ` set it = cf_path ` set (cg_fields g) \<and> obj_wf it)"
| "op_ok g rows (GSet p u it) =
     (p = cg_path g \<and> u \<in> gr_uuid ` set rows \<and> fst ` set it = cf_path ` set (cg_fields g) \<and> obj_wf it)"
| "op_ok g rows (GDel p u) = (p = cg_path g \<and> u \<in> gr_uuid ` set rows)"

definition grid_inv :: "catalog_grid \<Rightarrow> grid_row list \<Rightarrow> bool \<Rightarrow> grid_state \<Rightarrow> bool" where
  "grid_inv g rows disabled s \<longleftrightarrow>
     (\<forall>op \<in> set (gs_ops s). op_ok g rows op)
     \<and> (\<forall>e. gs_editing s = Some e \<longrightarrow> fst ` set (ge_item e) = cf_path ` set (cg_fields g) \<and> obj_wf (ge_item e)
          \<and> (\<forall>u. ge_uuid e = Some u \<longrightarrow> u \<in> gr_uuid ` set rows))
     \<and> (disabled \<longrightarrow> gs_ops s = [] \<and> gs_editing s = None)"

lemma keys_from_entries: "fst ` set (from_entries kvs) = fst ` set kvs"
proof -
  have "fst ` set (foldl (\<lambda>m (k, v). obj_set k v m) a kvs) = fst ` set a \<union> fst ` set kvs" for a :: "'a obj"
  proof (induction kvs arbitrary: a)
    case (Cons kv kvs)
    then show ?case using fst_obj_set [of "fst kv" "snd kv" a] by (cases kv) (simp add: insert_commute)
  qed simp
  then show ?thesis by (simp add: from_entries_def)
qed

lemma grid_run_inv: "grid_run g rows disabled s \<Longrightarrow> grid_inv g rows disabled s"
proof (induction rule: grid_run.induct)
  case (item s f v)
  then show ?case
    by (auto simp: grid_inv_def editItem_def fst_obj_set insert_absorb split: option.splits)
next
  case (save s)
  then show ?case
    by (auto simp: grid_inv_def save_row_def push_def struthy_iff split: option.splits if_splits)
qed (auto simp: grid_inv_def grid_initial_def openAdd_def openEdit_def delete_row_def push_def close_modal_def
      keys_from_entries image_image)

text \<open>Grid operations are well formed. In every run of a grid over its live rows, every
  accumulated operation addresses that grid, changes and deletions name the id of a live row, and the
  item of an addition or a change has exactly the grid's fields; a disabled grid accumulates none and
  opens no editor.\<close>

theorem grid_ops_wellformed:
  assumes "grid_run g rows disabled s" and "op \<in> set (gs_ops s)"
  shows "op_ok g rows op \<and> \<not> disabled"
  using grid_run_inv [OF assms(1)] assms(2) by (auto simp: grid_inv_def)

definition sample_grid :: catalog_grid where
  "sample_grid = \<lparr>cg_path = ''hosts'', cg_fields = [\<lparr>cf_path = ''name'', cf_type = FString, cf_options = None, cf_label = None\<rparr>]\<rparr>"

theorem grid_ops_wellformed_witness:
  "op_ok sample_grid [\<lparr>gr_uuid = ''u1'', gr_values = []\<rparr>] (GSet ''hosts'' ''u1'' [(''name'', ''fw'')])"
proof -
  let ?f = "\<lparr>cf_path = ''name'', cf_type = FString, cf_options = None, cf_label = None\<rparr>"
  let ?rows = "[\<lparr>gr_uuid = ''u1'', gr_values = []\<rparr>]"
  let ?s = "save_row sample_grid (editItem (cf_path ?f) ''fw'' (openEdit sample_grid \<lparr>gr_uuid = ''u1'', gr_values = []\<rparr> grid_initial))"
  have "grid_run sample_grid ?rows False ?s"
    by (intro grid_run.save grid_run.item grid_run.edit grid_run.start) (simp_all add: sample_grid_def)
  moreover have "GSet ''hosts'' ''u1'' [(''name'', ''fw'')] \<in> set (gs_ops ?s)"
    by (simp add: save_row_def editItem_def openEdit_def grid_initial_def push_def sample_grid_def from_entries_def)
  ultimately show ?thesis using grid_ops_wellformed by blast
qed

subsection \<open>The menu\<close>

lemma strip_slash_base: "\<exists>t. strip_slash b @ ''/'' @ x = b @ t"
proof (cases "b \<noteq> [] \<and> last b = CHR ''/''")
  case True
  then have "strip_slash b @ ''/'' = b" by (simp add: strip_slash_def) (metis append_butlast_last_id)
  then show ?thesis by (metis append_assoc)
next
  case False
  then have "strip_slash b = b" by (auto simp: strip_slash_def)
  then show ?thesis by simp
qed

lemma http_url_append: "http_url b \<Longrightarrow> http_url (b @ t)"
  by (auto simp: http_url_def to_lower_def starts_with_iff)

lemma deepLink_safe:
  assumes "deepLink b u = Some h"
  shows "http_url h" and "starts_with h b" and "http_url b"
proof -
  have b: "http_url b" using assms by (auto simp: deepLink_def split: if_splits)
  have "\<exists>x. h = strip_slash b @ ''/'' @ x"
    using assms by (auto simp: deepLink_def Let_def starts_with_iff split: if_splits)
  then obtain t where "h = b @ t" using strip_slash_base by metis
  then show "http_url h" "starts_with h b" "http_url b" using b http_url_append by auto
qed

fun item_links :: "menu_item list \<Rightarrow> string list" where
  "item_links [] = []"
| "item_links (Branch i l op items # xs) = item_links items @ item_links xs"
| "item_links (LinkItem i l (Some h) # xs) = h # item_links xs"
| "item_links (_ # xs) = item_links xs"

lemma item_links_append: "item_links (xs @ ys) = item_links xs @ item_links ys"
  by (induction xs rule: item_links.induct) auto

text \<open>Links into a device never leave it. Every address in the rendered menu, whatever the
  device reported as menu entries and whatever the search, starts with the device's own base address
  and has the scheme http or https; a device whose base address has another scheme gets no link.\<close>

theorem menu_links_safe:
  assumes "h \<in> set (item_links (CatalogMenuTree b q sel diff ex at ns))"
  shows "http_url h \<and> starts_with h b \<and> http_url b"
  using assms
proof (induction b q sel diff ex at ns rule: CatalogMenuTree.induct)
  case (2 b q sel diff ex at i l u m cs ns)
  have "h \<in> set (item_links (CatalogMenuTree b q sel diff ex at ns))
      \<or> (cs \<noteq> [] \<and> h \<in> set (item_links (CatalogMenuTree b q sel diff ex (at @ [i]) cs)))
      \<or> (cs = [] \<and> deepLink b (the u) = Some h)"
    using 2(3) by (auto simp: item_links_append split: if_splits option.splits) (cases "deepLink b (the u)"; auto)+
  then show ?case using 2(1,2) deepLink_safe [of b "the u" h] 2(3)
    by (cases "menu_matches q (MenuNode i l u m cs)") (auto simp: item_links_append)
qed simp

definition sample_menu :: "menu_node list" where
  "sample_menu = [MenuNode ''fw'' ''Firewall'' None None
     [MenuNode ''al'' ''Aliases'' None (Some ''alias'') [], MenuNode ''lg'' ''Log'' (Some ''ui/log'') None []]]"

theorem menu_links_safe_witness:
  "\<exists>h \<in> set (item_links (CatalogMenuTree ''https://fw1/'' [] None None (\<lambda>_. {}) [] sample_menu)).
     h = ''https://fw1/ui/log'' \<and> http_url h \<and> starts_with h ''https://fw1/''"
proof -
  have "''https://fw1/ui/log'' \<in> set (item_links (CatalogMenuTree ''https://fw1/'' [] None None (\<lambda>_. {}) [] sample_menu))"
    by (simp add: sample_menu_def deepLink_def http_url_def to_lower_def lower_char_def strip_slash_def Let_def)
  with menu_links_safe [OF this] show ?thesis by blast
qed

text \<open>The leaves of a menu and of its rendering.\<close>

fun menu_leaves :: "menu_node \<Rightarrow> menu_node list" where
  "menu_leaves (MenuNode i l u m cs) = (if cs = [] then [MenuNode i l u m []] else concat (map menu_leaves cs))"

fun item_leaves :: "menu_item list \<Rightarrow> menu_item list" where
  "item_leaves [] = []"
| "item_leaves (Branch i l op items # xs) = item_leaves items @ item_leaves xs"
| "item_leaves (x # xs) = x # item_leaves xs"

fun leaf_item :: "string \<Rightarrow> string option \<Rightarrow> diff_data option \<Rightarrow> menu_node \<Rightarrow> menu_item" where
  "leaf_item b sel diff (MenuNode i l u m cs) =
     (if struthy m then ModelItem l (the m) (sel = m) (hasDiff diff (the m))
      else LinkItem i l (if struthy u then deepLink b (the u) else None))"

lemma item_leaves_append: "item_leaves (xs @ ys) = item_leaves xs @ item_leaves ys"
  by (induction xs rule: item_leaves.induct) auto

lemma leaf_matches_up: "leaf \<in> set (menu_leaves n) \<Longrightarrow> menu_matches q leaf \<Longrightarrow> menu_matches q n"
  by (induction n rule: menu_leaves.induct) (auto split: if_splits)

text \<open>The search shows exactly the entries that match. The entries that the menu renders for a
  search, in order, are those entries of the full menu whose own label or address contains the text
  (all of them when it is empty): no matching entry is hidden by a branch that does not match, and no
  other entry is shown.\<close>

theorem menu_search_exact:
  "item_leaves (CatalogMenuTree b q sel diff ex at ns) =
     map (leaf_item b sel diff) (filter (menu_matches q) (concat (map menu_leaves ns)))"
proof (induction b q sel diff ex at ns rule: CatalogMenuTree.induct)
  case (2 b q sel diff ex at i l u m cs ns)
  let ?n = "MenuNode i l u m cs"
  show ?case
  proof (cases "menu_matches q ?n")
    case False
    then have "filter (menu_matches q) (menu_leaves ?n) = []"
      using leaf_matches_up by (metis filter_False)
    then show ?thesis using 2(2) False by (simp del: menu_matches.simps menu_leaves.simps)
  next
    case True
    show ?thesis
    proof (cases "cs = []")
      case True
      with \<open>menu_matches q ?n\<close> 2(2) show ?thesis by simp
    next
      case False
      with True 2(1) [OF True False] 2(2) show ?thesis
        by (simp del: menu_matches.simps add: item_leaves_append)
    qed
  qed
qed simp

end
