(* ===== verification/ConfigPages.thy ===== *)
theory ConfigPages
  imports HooksDevice Session
begin

text \<open>
  The configuration pages of a device: the two trees that display its configuration
  (\<^verbatim>\<open>config/ConfigTree.tsx\<close>, \<^verbatim>\<open>catalog/ConfigMapTree.tsx\<close>), the tab around them, the inventory of
  capabilities, and the panel of proposed changes with its actions (\<^verbatim>\<open>config/ChangesPanel.tsx\<close>,
  \<^verbatim>\<open>config/ProposeAliasModal.tsx\<close>). Reading a date from a picker in the local time zone is the
  argument \<open>parse_local\<close> (\<open>None\<close> for an invalid date, on which \<open>toISOString\<close> throws).

  The locale \<open>redacting_view\<close> is the contract of a display of secrets: the view does not change when
  the secrets are removed. Both trees interpret it.
\<close>

section \<open>Displays that hide secrets\<close>

locale redacting_view =
  fixes view :: "'a \<Rightarrow> 'v" and redact :: "'a \<Rightarrow> 'a"
  assumes view_redact: "view (redact x) = view x"
    and redact_redact: "redact (redact x) = redact x"
begin

lemma view_eq: "redact x = redact y \<Longrightarrow> view x = view y"
  by (metis view_redact)

end

text \<open>A value on screen: hidden, shown, or the dash that stands for an empty value.\<close>

datatype cell = Hidden | Shown string | Dash

definition value_or_dash :: "string option \<Rightarrow> cell" where
  "value_or_dash v = (case v of None \<Rightarrow> Dash | Some s \<Rightarrow> if s = [] then Dash else Shown s)"

subsection \<open>The configuration tree\<close>

datatype config_node = ConfigNode (cn_tag: string) (cn_path: string) (cn_attributes: "string option obj")
  (cn_children: "config_node list") (cn_value: "string option") (cn_sensitive: bool)

datatype tree_view = LeafView nat string cell | BranchView nat string bool bool nat "tree_view list"

text \<open>\<open>toggled p\<close>: the branch at path \<open>p\<close> was clicked an odd number of times.\<close>

fun ConfigTree_node :: "(string \<Rightarrow> bool) \<Rightarrow> nat \<Rightarrow> config_node \<Rightarrow> tree_view" where
  "ConfigTree_node toggled depth (ConfigNode tag path attrs cs v sn) =
     (if cs = [] then LeafView depth tag (if sn then Hidden else value_or_dash v)
      else BranchView depth tag sn ((depth < 2) \<noteq> toggled path) (length cs)
             (map (ConfigTree_node toggled (depth + 1)) cs))"

definition ConfigTree :: "(string \<Rightarrow> bool) \<Rightarrow> config_node \<Rightarrow> tree_view" where
  "ConfigTree toggled root = ConfigTree_node toggled 0 root"

text \<open>A configuration without its secrets: no value at sensitive entries, nor any value or attribute
  that the tree has no place for.\<close>

fun redact_config :: "config_node \<Rightarrow> config_node" where
  "redact_config (ConfigNode tag path attrs cs v sn) =
     ConfigNode tag path [] (map redact_config cs)
       (if sn \<or> cs \<noteq> [] then None else if v = Some [] then None else v) sn"

lemma ConfigTree_redact: "ConfigTree_node toggled depth (redact_config n) = ConfigTree_node toggled depth n"
proof (induction n arbitrary: depth rule: redact_config.induct)
  case (1 tag path attrs cs v sn)
  then show ?case by (cases "cs = []") (auto simp: value_or_dash_def split: option.splits)
qed

lemma redact_config_idem: "redact_config (redact_config n) = redact_config n"
  by (induction n rule: redact_config.induct) auto

interpretation config_tree: redacting_view "ConfigTree toggled" redact_config for toggled
  by unfold_locales (simp_all add: ConfigTree_def ConfigTree_redact redact_config_idem)

subsection \<open>The configuration map\<close>

datatype map_node = MapNode (mp_tag: string) (mp_path: string) (mp_attributes: "string option obj")
  (mp_value: "string option") (mp_sensitive: "bool option") (mp_editable: bool)
  (mp_model_id: "string option") (mp_children: "map_node list")

datatype affordance = EditInCatalog string | ReadOnlyMark string

datatype map_view = MapLeaf nat string cell affordance
  | MapBranch nat string bool nat affordance "map_view list"

definition map_affordance :: "bool \<Rightarrow> string option \<Rightarrow> string \<Rightarrow> affordance" where
  "map_affordance editable model_id path =
     (if editable \<and> struthy model_id then EditInCatalog (the model_id) else ReadOnlyMark path)"

fun ConfigMapTree_node :: "(string \<Rightarrow> bool) \<Rightarrow> nat \<Rightarrow> map_node \<Rightarrow> map_view" where
  "ConfigMapTree_node toggled depth (MapNode tag path attrs v sn ed mid cs) =
     (if cs = [] then
        MapLeaf depth tag (if nullish_or sn False then Hidden else value_or_dash v) (map_affordance ed mid path)
      else MapBranch depth tag ((depth < 2) \<noteq> toggled path) (length cs) (map_affordance ed mid path)
             (map (ConfigMapTree_node toggled (depth + 1)) cs))"

definition ConfigMapTree :: "(string \<Rightarrow> bool) \<Rightarrow> map_node \<Rightarrow> map_view" where
  "ConfigMapTree toggled root = ConfigMapTree_node toggled 0 root"

fun redact_map :: "map_node \<Rightarrow> map_node" where
  "redact_map (MapNode tag path attrs v sn ed mid cs) =
     MapNode tag path [] (if nullish_or sn False \<or> cs \<noteq> [] then None else if v = Some [] then None else v) sn ed mid
       (map redact_map cs)"

lemma ConfigMapTree_redact: "ConfigMapTree_node toggled depth (redact_map n) = ConfigMapTree_node toggled depth n"
proof (induction n arbitrary: depth rule: redact_map.induct)
  case (1 tag path attrs v sn ed mid cs)
  then show ?case by (cases "cs = []") (auto simp: value_or_dash_def split: option.splits)
qed

lemma redact_map_idem: "redact_map (redact_map n) = redact_map n"
  by (induction n rule: redact_map.induct) auto

interpretation config_map: redacting_view "ConfigMapTree toggled" redact_map for toggled
  by unfold_locales (simp_all add: ConfigMapTree_def ConfigMapTree_redact redact_map_idem)

section \<open>The tab\<close>

datatype tab_view = TabLoading | TabError | TabEmpty | TabContent bool bool

text \<open>\<open>model_data\<close>: \<open>None\<close> is \<open>undefined\<close>, \<open>Some None\<close> is the \<open>null\<close> of a missing snapshot.\<close>

definition ConfigTab :: "bool \<Rightarrow> bool \<Rightarrow> 'n option option \<Rightarrow> 'c option \<Rightarrow> tab_view" where
  "ConfigTab loading error model_data caps_data =
     (if loading then TabLoading else if error then TabError
      else if model_data = Some None then TabEmpty
      else TabContent (caps_data \<noteq> None) (model_data \<noteq> None))"

record inventory =
  iv_version :: "string option"
  iv_interfaces :: "(string \<times> string option \<times> string) list"
  iv_sections :: "string list"
  iv_available :: "(string \<times> string) list"

definition CapabilitiesPanel :: "inventory \<Rightarrow> cell \<times> (string \<times> cell \<times> string) list \<times> string list \<times> string list" where
  "CapabilitiesPanel iv =
     (value_or_dash (iv_version iv), map (\<lambda>(n, nic, d). (n, value_or_dash nic, d)) (iv_interfaces iv),
      iv_sections iv, map snd (iv_available iv))"

section \<open>Proposed changes\<close>

record config_change =
  cc_id :: string
  cc_kind :: string
  cc_operation :: string
  cc_target :: string
  cc_status :: string
  cc_scheduled_at :: "string option"
  cc_reverts :: "string option"
  cc_revertible :: bool

record drift_result =
  dr_change_id :: string
  dr_status :: string
  dr_fields :: "string list"

definition DRIFT_COLOR :: "string \<Rightarrow> string" where
  "DRIFT_COLOR st = (if st = ''in_sync'' then ''green'' else if st = ''drifted'' then ''red''
     else if st = ''missing'' then ''orange'' else ''gray'')"

definition STATUS_COLOR :: "string \<Rightarrow> string" where
  "STATUS_COLOR st = (if st = ''scheduled'' then ''blue'' else if st = ''applying'' then ''yellow''
     else if st = ''applied'' then ''green'' else if st = ''conflict'' then ''orange''
     else if st = ''failed'' then ''red'' else ''gray'')"

definition ACTIONABLE :: "string set" where
  "ACTIONABLE = {''draft'', ''scheduled''}"

text \<open>A drift badge: colour, label, and the tooltip with the drifted fields.\<close>

definition DriftBadge :: "drift_result \<Rightarrow> string \<times> string \<times> string option" where
  "DriftBadge r =
     (DRIFT_COLOR (dr_status r),
      if dr_status r = ''drifted'' then ''t.config.changes.driftDrifted''
      else if dr_status r = ''missing'' then ''t.config.changes.driftMissing''
      else if dr_status r = ''in_sync'' then ''t.config.changes.driftInSync''
      else ''t.config.changes.driftUnsupported'',
      if dr_status r = ''drifted'' \<and> dr_fields r \<noteq> [] then Some (js_join '', '' (dr_fields r)) else None)"

text \<open>\<open>new Map(results.map((r) => [r.change_id, r]))\<close>: a later result for the same change wins.\<close>

definition driftByChange :: "drift_result list option \<Rightarrow> drift_result obj" where
  "driftByChange results = foldl (\<lambda>m r. obj_set (dr_change_id r) r m) [] (nullish_or results [])"

datatype row_action = Preview | Schedule | CancelChange | Revert

definition row_actions :: "bool \<Rightarrow> config_change \<Rightarrow> row_action list" where
  "row_actions canEdit c =
     (if canEdit then (if cc_status c \<in> ACTIONABLE then [Preview, Schedule, CancelChange] else [])
        @ (if cc_revertible c then [Revert] else [])
      else [])"

record change_row =
  cr_badge :: "string \<times> string"
  cr_drift :: "(string \<times> string \<times> string option) option"
  cr_reverts :: "string option"
  cr_scheduled :: cell
  cr_actions :: "row_action list"

definition change_row_of :: "bool \<Rightarrow> drift_result obj \<Rightarrow> config_change \<Rightarrow> change_row" where
  "change_row_of canEdit drift c =
     \<lparr>cr_badge = (STATUS_COLOR (cc_status c), cc_status c),
      cr_drift = map_option DriftBadge (obj_get drift (cc_id c)),
      cr_reverts = (if struthy (cc_reverts c) then Some (take 7 (the (cc_reverts c))) else None),
      cr_scheduled = (case cc_scheduled_at c of None \<Rightarrow> Dash | Some s \<Rightarrow> Shown s),
      cr_actions = row_actions canEdit c\<rparr>"

definition ChangesPanel :: "auth_state \<Rightarrow> my_tenant list \<Rightarrow> string option \<Rightarrow> drift_result list option
    \<Rightarrow> config_change list \<Rightarrow> bool \<times> change_row list" where
  "ChangesPanel s tenants activeId drift changes =
     (let canEdit = isOperator (usePermissions s tenants activeId) in
      (canEdit, map (change_row_of canEdit (driftByChange drift)) changes))"

text \<open>Handlers of a row. A picked date is a non-empty string; the schedule button is disabled
  without one.\<close>

definition handleApplyNow :: "string option \<Rightarrow> string \<Rightarrow> config_change \<Rightarrow> mutation" where
  "handleApplyNow activeId deviceId c = useScheduleChange activeId deviceId (cc_id c) None"

definition schedule_enabled :: "string option \<Rightarrow> bool" where
  "schedule_enabled scheduleDate = struthy scheduleDate"

definition picked_iso :: "(string \<Rightarrow> int option) \<Rightarrow> string \<Rightarrow> string option" where
  "picked_iso parse_local picked = map_option toISOString (parse_local (replace_first picked '' '' ''T''))"

definition handleSchedule ::
  "(string \<Rightarrow> int option) \<Rightarrow> string option \<Rightarrow> string \<Rightarrow> config_change \<Rightarrow> string option \<Rightarrow> mutation option" where
  "handleSchedule parse_local activeId deviceId c scheduleDate =
     (if struthy scheduleDate then
        map_option (\<lambda>iso. useScheduleChange activeId deviceId (cc_id c) (Some iso))
          (picked_iso parse_local (the scheduleDate))
      else Some (useScheduleChange activeId deviceId (cc_id c) None))"

definition handleCancel :: "string option \<Rightarrow> string \<Rightarrow> config_change \<Rightarrow> mutation" where
  "handleCancel activeId deviceId c = useCancelChange activeId deviceId (cc_id c)"

definition handleRevert :: "string option \<Rightarrow> string \<Rightarrow> config_change \<Rightarrow> mutation" where
  "handleRevert activeId deviceId c = useRevertChange activeId deviceId (cc_id c)"

section \<open>Proposing an alias\<close>

record alias_form =
  af_operation :: string
  af_name :: string
  af_type :: string
  af_content :: string

definition alias_initial :: alias_form where
  "alias_initial = \<lparr>af_operation = ''set'', af_name = [], af_type = ''host'', af_content = []\<rparr>"

definition newline :: char where
  "newline = CHR 0x0A"

definition alias_lines :: "string \<Rightarrow> string list" where
  "alias_lines content = split_trim (\<lambda>c. c = newline) content"

definition alias_change :: "alias_form \<Rightarrow> json" where
  "alias_change v =
     JObj [(''kind'', JStr ''alias''), (''operation'', JStr (af_operation v)), (''target'', JStr (af_name v)),
           (''payload'', JObj [(''name'', JStr (af_name v)), (''type'', JStr (af_type v)),
                             (''content'', jstrs (alias_lines (af_content v)))])]"

definition alias_submit :: "string option \<Rightarrow> string \<Rightarrow> alias_form \<Rightarrow> api_result \<Rightarrow> (alias_form \<times> bool) + notice" where
  "alias_submit activeId deviceId v r =
     (case m_fn (useCreateChange activeId deviceId (alias_change v)) r of
        Inr _ \<Rightarrow> Inl (alias_initial, True)
      | Inl _ \<Rightarrow> Inr (Failure ''t.errors.configChangeAction''))"

section \<open>What is proved\<close>

text \<open>C25. Secrets of a configuration never reach the screen. Two configurations that agree once the
  values of sensitive entries (and everything the trees have no place for) are removed are displayed
  identically, by the configuration tree and by the configuration map, whatever is expanded.\<close>

theorem secrets_not_displayed:
  "(redact_config x = redact_config y \<longrightarrow> ConfigTree tog x = ConfigTree tog y)
   \<and> (redact_map u = redact_map v \<longrightarrow> ConfigMapTree tog u = ConfigMapTree tog v)"
  using config_tree.view_eq config_map.view_eq by blast

theorem secrets_not_displayed_witness:
  "ConfigTree (\<lambda>_. False) (ConfigNode ''password'' ''/a'' [] [] (Some ''hunter2'') True)
     = ConfigTree (\<lambda>_. False) (ConfigNode ''password'' ''/a'' [] [] (Some ''other'') True)
   \<and> ConfigMapTree (\<lambda>_. False) (MapNode ''key'' ''/k'' [] (Some ''k1'') (Some True) False None [])
     = ConfigMapTree (\<lambda>_. False) (MapNode ''key'' ''/k'' [] (Some ''k2'') (Some True) False None [])"
  using secrets_not_displayed [of "ConfigNode ''password'' ''/a'' [] [] (Some ''hunter2'') True"
      "ConfigNode ''password'' ''/a'' [] [] (Some ''other'') True" "\<lambda>_. False"
      "MapNode ''key'' ''/k'' [] (Some ''k1'') (Some True) False None []"
      "MapNode ''key'' ''/k'' [] (Some ''k2'') (Some True) False None []"]
  by simp

lemma schedule_body:
  "field (rq_body (m_request (useScheduleChange a d c s))) ''scheduled_at'' = Some (jopt s)"
  by (simp add: useScheduleChange_def hook_simps obj_get_def)

text \<open>The actions on a change. A row offers preview, schedule and cancel exactly to an operator
  and only while the change is a draft or scheduled, and revert exactly to an operator on a revertible
  change; an enabled schedule button never asks for an immediate application: the request it sends, if
  any, carries the picked time, and only the apply-now button sends none.\<close>

theorem change_actions:
  "(Schedule \<in> set (cr_actions r) \<longleftrightarrow> fst (ChangesPanel s ts a drift cs) \<and> cc_status c \<in> {''draft'', ''scheduled''}) \<and>
   (Revert \<in> set (cr_actions r) \<longleftrightarrow> fst (ChangesPanel s ts a drift cs) \<and> cc_revertible c) \<and>
   (schedule_enabled sd \<longrightarrow> handleSchedule parse a d c sd = Some mu \<longrightarrow>
      (\<exists>iso. picked_iso parse (the sd) = Some iso \<and>
             field (rq_body (m_request mu)) ''scheduled_at'' = Some (JStr iso))) \<and>
   field (rq_body (m_request (handleApplyNow a d c))) ''scheduled_at'' = Some JNull"
  if "r = change_row_of (isOperator (usePermissions s ts a)) (driftByChange drift) c"
  using that
  by (auto simp: change_row_of_def row_actions_def ChangesPanel_def ACTIONABLE_def Let_def handleSchedule_def
      schedule_enabled_def handleApplyNow_def schedule_body)

definition sample_change :: config_change where
  "sample_change = \<lparr>cc_id = ''c1'', cc_kind = ''alias'', cc_operation = ''set'', cc_target = ''x'', cc_status = ''applied'',
     cc_scheduled_at = None, cc_reverts = None, cc_revertible = True\<rparr>"

theorem change_actions_witness:
  "cr_actions (change_row_of (isOperator (usePermissions (sample_user False) sample_tenants (Some ''t1'')))
     (driftByChange None) sample_change) = [Revert]
   \<and> Schedule \<notin> set (cr_actions (change_row_of (isOperator (usePermissions (sample_user False) sample_tenants (Some ''t1'')))
     (driftByChange None) sample_change))"
proof
  let ?r = "change_row_of (isOperator (usePermissions (sample_user False) sample_tenants (Some ''t1''))) (driftByChange None) sample_change"
  show "cr_actions ?r = [Revert]"
    by (simp add: change_row_of_def row_actions_def sample_change_def ACTIONABLE_def usePermissions_def
        sample_user_def sample_tenants_def active_role_def Let_def)
  show "Schedule \<notin> set (cr_actions ?r)"
    using change_actions [of ?r "sample_user False" sample_tenants "Some ''t1''" None sample_change "[]" None "\<lambda>_. None" "[]"]
    by (simp add: sample_change_def)
qed

text \<open>The content of a proposed alias is clean: no empty entry, no entry with white space at
  either end, and none spanning lines; and text that already is one clean entry per line is proposed
  unchanged. After a success the form is back at its initial values and closed, after a failure the
  only effect is a notice.\<close>

theorem alias_content_clean:
  "clean_words (\<lambda>c. c = newline) (alias_lines content)
   \<and> (clean_words (\<lambda>c. c = newline) ws \<longrightarrow> alias_lines (js_join [newline] ws) = ws)
   \<and> alias_submit a d v r =
       (case r of Rejected \<Rightarrow> Inr (Failure ''t.errors.configChangeAction'')
        | Reply dt e st \<Rightarrow> if otruthy e \<or> \<not> otruthy dt then Inr (Failure ''t.errors.configChangeAction'')
                          else Inl (alias_initial, True))"
  by (cases r)
     (auto simp: alias_lines_def split_trim_clean split_trim_join alias_submit_def useCreateChange_def hook_simps)

theorem alias_content_clean_witness:
  "alias_lines (js_join [newline] [''10.0.0.1'', ''10.0.0.2'']) = [''10.0.0.1'', ''10.0.0.2'']"
proof -
  have "clean_words (\<lambda>c. c = newline) [''10.0.0.1'', ''10.0.0.2'']"
    by (simp add: clean_words_def trimmed_def is_ws_def newline_def)
  with alias_content_clean [of "[]" "[''10.0.0.1'', ''10.0.0.2'']" None "[]" alias_initial Rejected]
  show ?thesis by blast
qed

end
