(* ===== verification/DevicePages.thy ===== *)
theory DevicePages
  imports Catalog ConfigPages ConfirmFlow HooksTenant "HOL-Library.Multiset"
begin

text \<open>
  The remaining pages of a device: its actions and creation form (\<^verbatim>\<open>components/DeviceActions.tsx\<close>,
  \<^verbatim>\<open>components/DeviceCreateModal.tsx\<close>), the device list and detail pages, firmware
  (\<^verbatim>\<open>firmware/FirmwareActions.tsx\<close>), plugins (\<^verbatim>\<open>plugins/PluginsTab.tsx\<close>) and log forwarding
  (\<^verbatim>\<open>components/LogForwardingCard.tsx\<close>). \<open>localeCompare\<close> is the host's collation and the
  differences computed by the date library are arguments.
\<close>

section \<open>Device actions\<close>

definition safeWebGui :: "string option \<Rightarrow> string option" where
  "safeWebGui baseUrl = (if struthy baseUrl \<and> http_url (the baseUrl) then baseUrl else None)"

record device_actions =
  da_confirmOpen :: bool
  da_notices :: "notice list"

definition DeviceActions_view :: "string option \<Rightarrow> device_actions \<Rightarrow> string option \<Rightarrow> (string \<times> string option) list" where
  "DeviceActions_view baseUrl s test_status =
     (if struthy (safeWebGui baseUrl) then [(''btn-webgui'', safeWebGui baseUrl)] else [])
     @ [(''test-connection'', None), (''btn-delete'', None)]
     @ (if da_confirmOpen s then [(''confirm-modal'', None)] else [])
     @ (case test_status of None \<Rightarrow> [] | Some st \<Rightarrow> [(''test-result'', Some st)])"

definition open_delete :: "unit \<Rightarrow> device_actions \<Rightarrow> device_actions" where
  "open_delete u s = s\<lparr>da_confirmOpen := True\<rparr>"

definition close_delete :: "device_actions \<Rightarrow> device_actions" where
  "close_delete s = s\<lparr>da_confirmOpen := False\<rparr>"

text \<open>Confirming closes the modal before the request; a failure only shows a notice.\<close>

definition confirm_delete :: "string \<Rightarrow> string \<Rightarrow> api_result \<Rightarrow> device_actions \<Rightarrow> device_actions" where
  "confirm_delete tenantId deviceId r s =
     (let s = s\<lparr>da_confirmOpen := False\<rparr> in
      case m_fn (DeviceActions_remove tenantId deviceId) r of
        Inr _ \<Rightarrow> s | Inl _ \<Rightarrow> s\<lparr>da_notices := da_notices s @ [Failure ''t.deviceActions.deleteFailed'']\<rparr>)"

definition modal_target :: "bool \<Rightarrow> unit option" where
  "modal_target b = (if b then Some () else None)"

interpretation delete_device: confirm_flow "\<lambda>s. modal_target (da_confirmOpen s)" open_delete close_delete
    "\<lambda>_. m_request (DeviceActions_remove tenantId deviceId)" "confirm_delete tenantId deviceId"
  for tenantId deviceId
  by unfold_locales
     (auto simp: modal_target_def open_delete_def close_delete_def confirm_delete_def Let_def split: sum.splits)

section \<open>The device list\<close>

definition DEVICE_STATUS_COLOR :: "string \<Rightarrow> string" where
  "DEVICE_STATUS_COLOR st = (if st = ''reachable'' then ''green'' else if st = ''unverified'' then ''yellow''
     else if st = ''unreachable'' then ''red'' else ''gray'')"

record device_row =
  dv_id :: string
  dv_name :: string
  dv_base_url :: string
  dv_status :: string
  dv_firmware :: "string option"

definition DevicesPage_rows :: "device_row list option \<Rightarrow> (string \<times> string \<times> string \<times> string \<times> string \<times> string) list" where
  "DevicesPage_rows data =
     map (\<lambda>d. (''/devices/'' @ dv_id d, dv_name d, dv_base_url d, DEVICE_STATUS_COLOR (dv_status d), dv_status d,
               nullish_or (dv_firmware d) ''t.common.none'')) (nullish_or data [])"

text \<open>What the page shows of a reply: an error text only when the query failed, else the rows.\<close>

definition DevicesPage_shows_error :: "failure + json option \<Rightarrow> bool" where
  "DevicesPage_shows_error outcome = (case outcome of Inl _ \<Rightarrow> True | Inr _ \<Rightarrow> False)"

datatype detail_view = DetailLoading | DetailError | DetailNothing | DetailTabs "string list"

definition DeviceDetailPage :: "bool \<Rightarrow> bool \<Rightarrow> device_row option \<Rightarrow> detail_view" where
  "DeviceDetailPage loading error device =
     (if loading then DetailLoading else if error then DetailError
      else case device of None \<Rightarrow> DetailNothing
        | Some d \<Rightarrow> DetailTabs [''info'', ''health'', ''reliability'', ''config-audit'', ''config'', ''firmware'', ''forwarding'',
                             ''plugins'', ''templates'', ''editor''])"

section \<open>Firmware\<close>

datatype fw_kind = FirmwareUpdate | FirmwareUpgrade | PluginInstall | PluginRemove

fun fw_kind_name :: "fw_kind \<Rightarrow> string" where
  "fw_kind_name FirmwareUpdate = ''firmware_update''"
| "fw_kind_name FirmwareUpgrade = ''firmware_upgrade''"
| "fw_kind_name PluginInstall = ''plugin_install''"
| "fw_kind_name PluginRemove = ''plugin_remove''"

record fw_pending =
  fp_kind :: fw_kind
  fp_target :: string
  fp_confirm :: string

record firmware_state =
  fw_pluginName :: string
  fw_pending :: "fw_pending option"
  fw_when :: "string option"
  fw_notices :: "notice list"

record fw_check =
  fc_status :: string
  fc_updates :: int
  fc_new_major :: bool

definition hasUpdates :: "fw_check option \<Rightarrow> bool" where
  "hasUpdates result = (case result of None \<Rightarrow> False | Some r \<Rightarrow> to_lower (fc_status r) = ''ok'' \<or> fc_updates r > 0)"

definition fw_open :: "fw_kind \<Rightarrow> string \<Rightarrow> string \<Rightarrow> firmware_state \<Rightarrow> firmware_state" where
  "fw_open kind target confirm s =
     (s\<lparr>fw_when := None\<rparr>)\<lparr>fw_pending := Some \<lparr>fp_kind = kind, fp_target = target, fp_confirm = confirm\<rparr>\<rparr>"

text \<open>The buttons that open the confirmation, with the conditions that enable them.\<close>

inductive fw_button :: "fw_check option \<Rightarrow> firmware_state \<Rightarrow> firmware_state \<Rightarrow> bool" where
  update: "hasUpdates result \<Longrightarrow>
     fw_button result s (fw_open FirmwareUpdate [] ''t.firmware.updateConfirm'' s)"
| upgrade: "result = Some r \<Longrightarrow> fc_new_major r \<Longrightarrow>
     fw_button result s (fw_open FirmwareUpgrade [] ''t.firmware.upgradeConfirm'' s)"
| install: "js_trim (fw_pluginName s) \<noteq> [] \<Longrightarrow>
     fw_button result s (fw_open PluginInstall (js_trim (fw_pluginName s)) ''t.firmware.installConfirm'' s)"
| remove: "js_trim (fw_pluginName s) \<noteq> [] \<Longrightarrow>
     fw_button result s (fw_open PluginRemove (js_trim (fw_pluginName s)) ''t.firmware.removeConfirm'' s)"

definition fire_body :: "(string \<Rightarrow> int option) \<Rightarrow> bool \<Rightarrow> fw_pending \<Rightarrow> string option \<Rightarrow> json option" where
  "fire_body parse_local scheduled p picked =
     (let mk = (\<lambda>at. JObj [(''kind'', JStr (fw_kind_name (fp_kind p))), (''target'', JStr (fp_target p)),
                          (''scheduled_at'', jopt at)]) in
      if scheduled \<and> struthy picked then map_option (\<lambda>iso. mk (Some iso)) (picked_iso parse_local (the picked))
      else Some (mk None))"

definition fire_request ::
  "(string \<Rightarrow> int option) \<Rightarrow> string option \<Rightarrow> string \<Rightarrow> bool \<Rightarrow> firmware_state \<Rightarrow> mutation option" where
  "fire_request parse_local activeId deviceId scheduled s =
     Option.bind (fw_pending s) (\<lambda>p. map_option (useCreateFirmwareAction activeId deviceId)
       (fire_body parse_local scheduled p (fw_when s)))"

definition fire_done :: "mutation \<Rightarrow> api_result \<Rightarrow> firmware_state \<Rightarrow> firmware_state" where
  "fire_done mu r s =
     (s\<lparr>fw_notices := fw_notices s @ [case m_fn mu r of Inr _ \<Rightarrow> Info ''t.firmware.actionQueued''
                                     | Inl _ \<Rightarrow> Failure ''t.firmware.actionFailed'']\<rparr>)\<lparr>fw_pending := None\<rparr>"

definition fire_enabled :: "bool \<Rightarrow> firmware_state \<Rightarrow> bool" where
  "fire_enabled scheduled s \<longleftrightarrow> fw_pending s \<noteq> None \<and> (scheduled \<longrightarrow> struthy (fw_when s))"

section \<open>Plugins\<close>

record plugin_info =
  pi_name :: string
  pi_installed :: bool
  pi_locked :: bool
  pi_version :: string

definition plugin_title :: "string \<Rightarrow> string" where
  "plugin_title name = (if starts_with name ''os-'' then drop 3 name else name)"

text \<open>\<open>Array.prototype.sort\<close> with a comparison function: a stable sort.\<close>

fun insert_by :: "('a \<Rightarrow> 'a \<Rightarrow> int) \<Rightarrow> 'a \<Rightarrow> 'a list \<Rightarrow> 'a list" where
  "insert_by cmp x [] = [x]"
| "insert_by cmp x (y # ys) = (if cmp x y \<le> 0 then x # y # ys else y # insert_by cmp x ys)"

definition js_sort :: "('a \<Rightarrow> 'a \<Rightarrow> int) \<Rightarrow> 'a list \<Rightarrow> 'a list" where
  "js_sort cmp xs = foldr (insert_by cmp) xs []"

definition plugin_compare :: "(string \<Rightarrow> string \<Rightarrow> int) \<Rightarrow> plugin_info \<Rightarrow> plugin_info \<Rightarrow> int" where
  "plugin_compare localeCompare a b =
     (if pi_installed a = pi_installed b then localeCompare (pi_name a) (pi_name b)
      else if pi_installed a then -1 else 1)"

definition plugin_rows :: "(string \<Rightarrow> string \<Rightarrow> int) \<Rightarrow> plugin_info list option \<Rightarrow> string \<Rightarrow> plugin_info list" where
  "plugin_rows localeCompare data search =
     (let q = to_lower (js_trim search);
          list = filter (\<lambda>p. q = [] \<or> str_includes (to_lower (pi_name p)) q) (nullish_or data [])
      in js_sort (plugin_compare localeCompare) list)"

definition modelByPkg :: "(string \<times> string) list option \<Rightarrow> string obj" where
  "modelByPkg data = from_entries (nullish_or data [])"

definition plugin_actions :: "bool \<Rightarrow> string obj \<Rightarrow> plugin_info \<Rightarrow> string list" where
  "plugin_actions canWrite models p =
     (if canWrite \<and> \<not> pi_locked p then [(if pi_installed p then ''plugin-remove-'' else ''plugin-install-'') @ pi_name p] else [])
     @ (if canWrite \<and> pi_installed p \<and> obj_has models (pi_name p) then [''plugin-configure-'' @ pi_name p] else [])"

record plugins_state =
  pl_confirm :: "(bool \<times> string) option"
  pl_configure :: "string option"
  pl_notices :: "notice list"

text \<open>A confirmation is (install?, name).\<close>

definition plugin_mutation :: "string option \<Rightarrow> string \<Rightarrow> bool \<times> string \<Rightarrow> mutation" where
  "plugin_mutation activeId deviceId c = useCreateFirmwareAction activeId deviceId
     (JObj [(''kind'', JStr (fw_kind_name (if fst c then PluginInstall else PluginRemove))), (''target'', JStr (snd c))])"

definition plugin_select :: "bool \<times> string \<Rightarrow> plugins_state \<Rightarrow> plugins_state" where
  "plugin_select c s = s\<lparr>pl_confirm := Some c\<rparr>"

definition plugin_cancel :: "plugins_state \<Rightarrow> plugins_state" where
  "plugin_cancel s = s\<lparr>pl_confirm := None\<rparr>"

definition plugin_run :: "string option \<Rightarrow> string \<Rightarrow> api_result \<Rightarrow> plugins_state \<Rightarrow> plugins_state" where
  "plugin_run activeId deviceId r s =
     (case pl_confirm s of
        None \<Rightarrow> s
      | Some c \<Rightarrow> (case m_fn (plugin_mutation activeId deviceId c) r of
            Inr _ \<Rightarrow> s | Inl _ \<Rightarrow> s\<lparr>pl_notices := pl_notices s @ [Failure ''t.firmware.actionFailed'']\<rparr>)\<lparr>pl_confirm := None\<rparr>)"

interpretation plugin_action: confirm_flow pl_confirm plugin_select plugin_cancel
    "\<lambda>c. m_request (plugin_mutation activeId deviceId c)" "plugin_run activeId deviceId"
  for activeId deviceId
  by unfold_locales
     (auto simp: plugin_select_def plugin_cancel_def plugin_run_def split: option.splits sum.splits)

text \<open>Proposing from the plugin drawer: the request is always sent, and a success closes the drawer.\<close>

definition plugin_propose :: "string option \<Rightarrow> string \<Rightarrow> change_body \<Rightarrow> mutation" where
  "plugin_propose activeId deviceId b = useProposeCatalogChange activeId deviceId (body_json b)"

definition plugin_proposed :: "mutation \<Rightarrow> api_result \<Rightarrow> plugins_state \<Rightarrow> plugins_state" where
  "plugin_proposed mu r s =
     (case m_fn mu r of
        Inr _ \<Rightarrow> s\<lparr>pl_notices := pl_notices s @ [Info ''t.catalog.proposed''], pl_configure := None\<rparr>
      | Inl _ \<Rightarrow> s\<lparr>pl_notices := pl_notices s @ [Failure ''t.catalog.proposeFailed'']\<rparr>)"

section \<open>Log forwarding\<close>

text \<open>\<open>minutes\<close> is the whole number of minutes since the last log, when there is one.\<close>

definition liveness :: "string option \<Rightarrow> int \<Rightarrow> string \<times> string" where
  "liveness lastLogAt minutes =
     (if \<not> struthy lastLogAt then (''gray'', ''no logs yet'')
      else if minutes \<le> 15 then (''green'', ''active'')
      else if minutes \<le> 60 * 24 then (''yellow'', ''quiet'')
      else (''gray'', ''stale''))"

datatype lf_action = Enable | Disable | Rotate | Revoke

record lf_state =
  lf_confirm :: "lf_action option"
  lf_lifecycle :: "lf_action option"

fun lf_mutation :: "string option \<Rightarrow> string \<Rightarrow> lf_action \<Rightarrow> mutation" where
  "lf_mutation a d Enable = useEnableLogForwarding a d"
| "lf_mutation a d Disable = useDisableLogForwarding a d"
| "lf_mutation a d Rotate = useRotateLogForwarding a d"
| "lf_mutation a d Revoke = useRevokeLogForwarding a d None"

definition lf_run :: "api_result \<Rightarrow> lf_state \<Rightarrow> lf_state" where
  "lf_run r s = s\<lparr>lf_confirm := None\<rparr>"

definition lf_runLifecycle :: "api_result \<Rightarrow> lf_state \<Rightarrow> lf_state" where
  "lf_runLifecycle r s = s\<lparr>lf_lifecycle := None\<rparr>"

definition lf_status :: "bool \<Rightarrow> string option \<Rightarrow> string \<times> string" where
  "lf_status enabled revoked_at =
     (let revoked = \<not> enabled \<and> struthy revoked_at in
      if enabled then (''green'', ''Enabled'') else if revoked then (''red'', ''Revoked'') else (''gray'', ''Disabled''))"

text \<open>The expiry line of the certificate: days until the expiry and whether it has passed.\<close>

definition lf_expiry :: "int \<Rightarrow> bool \<Rightarrow> string \<times> string" where
  "lf_expiry days isBefore =
     (let expSoon = days \<le> 30; expired = isBefore in
      (if expired then ''red'' else if expSoon then ''yellow'' else ''dimmed'', if expired then ''expired'' else ''expires''))"

definition lf_buttons :: "bool \<Rightarrow> bool \<Rightarrow> lf_action list" where
  "lf_buttons canWrite enabled =
     (if canWrite then (if \<not> enabled then [Enable] else []) @ (if enabled then [Rotate] else [])
        @ (if enabled then [Revoke] else []) @ (if enabled then [Disable] else [])
      else [])"

interpretation lf_switch: confirm_flow lf_confirm "\<lambda>x s. s\<lparr>lf_confirm := Some x\<rparr>" "\<lambda>s. s\<lparr>lf_confirm := None\<rparr>"
    "\<lambda>x. m_request (lf_mutation activeId deviceId x)" lf_run for activeId deviceId
  by unfold_locales (simp_all add: lf_run_def)

interpretation lf_cert: confirm_flow lf_lifecycle "\<lambda>x s. s\<lparr>lf_lifecycle := Some x\<rparr>" "\<lambda>s. s\<lparr>lf_lifecycle := None\<rparr>"
    "\<lambda>x. m_request (lf_mutation activeId deviceId x)" lf_runLifecycle for activeId deviceId
  by unfold_locales (simp_all add: lf_runLifecycle_def)

section \<open>What is proved\<close>

text \<open>A device's address is a link only when it is a web address. The button that opens a
  device's own interface is rendered exactly for base addresses that start with http or https in any
  case, and then points to exactly that address: a stored script or data address is never a link.\<close>

theorem webgui_link_safe:
  "(''btn-webgui'', Some href) \<in> set (DeviceActions_view baseUrl s st) \<longleftrightarrow> baseUrl = Some href \<and> http_url href"
  by (auto simp: DeviceActions_view_def safeWebGui_def http_url_def starts_with_def to_lower_def struthy_iff
      split: option.splits if_splits)

text \<open>A certificate pin is stored only when it will be used. The body that creates a device has a
  fingerprint exactly when verification is off and the trimmed fingerprint is not empty, and it is the
  trimmed one; every other field is sent as entered.\<close>

theorem fingerprint_only_unverified:
  "field (Some (create_body v)) ''tls_fingerprint'' =
     (if \<not> df_verify_tls v \<and> js_trim (df_tls_fingerprint v) \<noteq> [] then Some (JStr (js_trim (df_tls_fingerprint v))) else None)
   \<and> field (Some (create_body v)) ''verify_tls'' = Some (JBool (df_verify_tls v))
   \<and> field (Some (create_body v)) ''base_url'' = Some (JStr (df_base_url v))
   \<and> field (Some (create_body v)) ''api_secret'' = Some (JStr (df_api_secret v))"
  by (simp add: create_body_def Let_def obj_get_def)

lemma mset_insert_by: "mset (insert_by cmp x ys) = mset (x # ys)"
  by (induction ys) auto

lemma mset_js_sort: "mset (js_sort cmp xs) = mset xs"
  unfolding js_sort_def by (induction xs) (auto simp: mset_insert_by)

definition total_preorder :: "('a \<Rightarrow> 'a \<Rightarrow> int) \<Rightarrow> bool" where
  "total_preorder cmp \<longleftrightarrow> (\<forall>x y. cmp x y \<le> 0 \<or> cmp y x \<le> 0) \<and> (\<forall>x y z. cmp x y \<le> 0 \<longrightarrow> cmp y z \<le> 0 \<longrightarrow> cmp x z \<le> 0)"

lemma sorted_insert_by:
  assumes "total_preorder cmp" and "sorted_wrt (\<lambda>x y. cmp x y \<le> 0) ys"
  shows "sorted_wrt (\<lambda>x y. cmp x y \<le> 0) (insert_by cmp x ys)"
  using assms(2)
proof (induction ys)
  case (Cons y ys)
  have s: "set (insert_by cmp x ys) = insert x (set ys)" using mset_insert_by [of cmp x ys] by (metis list.set(2) set_mset_mset)
  show ?case
  proof (cases "cmp x y \<le> 0")
    case True
    then show ?thesis using Cons.prems assms(1) unfolding total_preorder_def by auto
  next
    case False
    then have "cmp y x \<le> 0" using assms(1) unfolding total_preorder_def by blast
    then show ?thesis using Cons False by (auto simp: s)
  qed
qed simp

lemma sorted_js_sort: "total_preorder cmp \<Longrightarrow> sorted_wrt (\<lambda>x y. cmp x y \<le> 0) (js_sort cmp xs)"
  unfolding js_sort_def by (induction xs) (auto intro: sorted_insert_by)

lemma plugin_compare_preorder: "total_preorder lc \<Longrightarrow> total_preorder (plugin_compare lc)"
  unfolding total_preorder_def plugin_compare_def by (auto split: if_splits)

text \<open>The plugin table is the right list in the right order. For a collation that is a total
  preorder, the rows are exactly the plugins whose name contains the search text (each as often as the
  device reported it), every installed plugin is above every other one, and the names are in order
  within each group.\<close>

theorem plugin_rows_correct:
  assumes "total_preorder lc"
  shows "mset (plugin_rows lc data search) =
      mset (filter (\<lambda>p. to_lower (js_trim search) = [] \<or> str_includes (to_lower (pi_name p)) (to_lower (js_trim search)))
              (nullish_or data []))
    \<and> sorted_wrt (\<lambda>p q. (pi_installed q \<longrightarrow> pi_installed p) \<and> (pi_installed p = pi_installed q \<longrightarrow> lc (pi_name p) (pi_name q) \<le> 0))
        (plugin_rows lc data search)"
proof
  show "mset (plugin_rows lc data search) = mset (filter (\<lambda>p. to_lower (js_trim search) = [] \<or> str_includes (to_lower (pi_name p)) (to_lower (js_trim search))) (nullish_or data []))"
    by (simp add: plugin_rows_def Let_def mset_js_sort)
  have "sorted_wrt (\<lambda>p q. plugin_compare lc p q \<le> 0) (plugin_rows lc data search)"
    by (simp only: plugin_rows_def Let_def sorted_js_sort plugin_compare_preorder assms)
  then show "sorted_wrt (\<lambda>p q. (pi_installed q \<longrightarrow> pi_installed p) \<and> (pi_installed p = pi_installed q \<longrightarrow> lc (pi_name p) (pi_name q) \<le> 0)) (plugin_rows lc data search)"
    by (rule sorted_wrt_mono_rel [rotated]) (auto simp: plugin_compare_def split: if_splits)
qed

definition length_compare :: "string \<Rightarrow> string \<Rightarrow> int" where
  "length_compare a b = int (length a) - int (length b)"

definition sample_plugins :: "plugin_info list" where
  "sample_plugins =
     [\<lparr>pi_name = ''os-acme'', pi_installed = False, pi_locked = False, pi_version = []\<rparr>,
      \<lparr>pi_name = ''os-wireguard'', pi_installed = True, pi_locked = False, pi_version = ''1''\<rparr>]"

theorem plugin_rows_correct_witness:
  "mset (plugin_rows length_compare (Some sample_plugins) []) = mset sample_plugins \<and>
   map pi_installed (plugin_rows length_compare (Some sample_plugins) []) = [True, False]"
proof
  have "total_preorder length_compare" by (auto simp: total_preorder_def length_compare_def)
  from plugin_rows_correct [OF this, of "Some sample_plugins" "[]"]
  show "mset (plugin_rows length_compare (Some sample_plugins) []) = mset sample_plugins"
    by (simp add: to_lower_def js_trim_def)
  show "map pi_installed (plugin_rows length_compare (Some sample_plugins) []) = [True, False]"
    by (simp add: plugin_rows_def js_sort_def plugin_compare_def sample_plugins_def to_lower_def js_trim_def Let_def)
qed

text \<open>Firmware actions do what was confirmed, when it was asked. From any state of the page, a
  request leaves only with a confirmation open; its kind and target are those of the button that opened
  it; run now sends no time and the enabled schedule button sends exactly the picked time; and the
  confirmation is closed afterwards whatever the outcome, so one confirmation sends at most one request.\<close>

theorem firmware_confirmed:
  assumes "fw_button result s0 s" and "fire_enabled scheduled (s\<lparr>fw_when := w\<rparr>)"
    and "fire_request parse a d scheduled (s\<lparr>fw_when := w\<rparr>) = Some mu"
  shows "\<exists>p at. fw_pending s = Some p
      \<and> rq_body (m_request mu) = Some (JObj [(''kind'', JStr (fw_kind_name (fp_kind p))), (''target'', JStr (fp_target p)), (''scheduled_at'', jopt at)])
      \<and> (if scheduled then at \<noteq> None \<and> at = picked_iso parse (the w) else at = None)
      \<and> (fp_kind p = FirmwareUpdate \<longrightarrow> hasUpdates result) \<and> (fp_kind p \<in> {PluginInstall, PluginRemove} \<longrightarrow> fp_target p = js_trim (fw_pluginName s0) \<and> fp_target p \<noteq> [])
      \<and> fire_request parse a d scheduled' (fire_done mu r (s\<lparr>fw_when := w\<rparr>)) = None"
  using assms
  by (cases rule: fw_button.cases)
     (auto simp: fire_request_def fire_body_def fire_done_def fire_enabled_def fw_open_def useCreateFirmwareAction_def
       hook_simps Let_def split: if_splits)

definition sample_firmware :: firmware_state where
  "sample_firmware = \<lparr>fw_pluginName = '' os-acme '', fw_pending = None, fw_when = None, fw_notices = []\<rparr>"

theorem firmware_confirmed_witness:
  "\<exists>mu. fire_request (\<lambda>_. Some 0) None ''d'' False (fw_open PluginInstall ''os-acme'' ''t.firmware.installConfirm'' sample_firmware) = Some mu
     \<and> rq_body (m_request mu) = Some (JObj [(''kind'', JStr ''plugin_install''), (''target'', JStr ''os-acme''), (''scheduled_at'', JNull)])"
proof -
  let ?s = "fw_open PluginInstall ''os-acme'' ''t.firmware.installConfirm'' sample_firmware"
  have trim: "js_trim (fw_pluginName sample_firmware) = ''os-acme''"
    by (simp add: sample_firmware_def js_trim_def is_ws_def)
  have b: "fw_button None sample_firmware ?s"
    using fw_button.install [of sample_firmware None] by (simp add: trim)
  have s: "?s\<lparr>fw_when := None\<rparr> = ?s" "fire_enabled False ?s" by (simp_all add: fw_open_def fire_enabled_def)
  obtain mu where mu: "fire_request (\<lambda>_. Some 0) None ''d'' False ?s = Some mu"
    by (simp add: fire_request_def fire_body_def fw_open_def Let_def)
  have "\<exists>p at. fw_pending ?s = Some p
      \<and> rq_body (m_request mu) = Some (JObj [(''kind'', JStr (fw_kind_name (fp_kind p))), (''target'', JStr (fp_target p)), (''scheduled_at'', jopt at)]) \<and> at = None"
    using firmware_confirmed [OF b, of False None "\<lambda>_. Some 0" None "''d''" mu False Rejected] s mu by auto
  then show ?thesis using mu by (auto simp: fw_open_def)
qed

text \<open>An HTTP error of the device list is shown as an empty list. The list page never looks at
  the error of a reply: every reply that arrives, with any status and any error body, is a success of
  the query, with an empty list when there is no data, so the page's error text appears only when no
  reply arrived; the other reader of the same cache entry reports the same reply as a failure.\<close>

theorem device_list_hides_errors:
  "(DevicesPage_shows_error (q_fn (DevicesPage_query a) r) \<longleftrightarrow> r = Rejected)
   \<and> q_fn (DevicesPage_query a) (Reply None (Some e) status) = Inr (Some (JArr []))
   \<and> q_key (useTenantDevices a) = q_key (DevicesPage_query a)
   \<and> (\<exists>msg. q_fn (useTenantDevices a) (Reply None (Some e) status) = Inl msg)"
  by (cases r) (auto simp: DevicesPage_shows_error_def DevicesPage_query_def useTenantDevices_def mk_query_def nullish_def)

end
