(* ===== verification/Monitoring.thy ===== *)
theory Monitoring
  imports HooksTenant ConfigPages
begin

text \<open>
  Monitoring, logs and events: sizes (\<^verbatim>\<open>utils/bytes.ts\<close>), charts (\<^verbatim>\<open>monitoring/MetricChart.tsx\<close>,
  \<^verbatim>\<open>DeviceHealthSection.tsx\<close>), the fleet summary (\<^verbatim>\<open>HealthSummaryCards.tsx\<close>), the event
  timelines (\<^verbatim>\<open>reliability/ReliabilityTab.tsx\<close>, \<^verbatim>\<open>configaudit/ConfigAuditTab.tsx\<close>), alerts
  (\<^verbatim>\<open>pages/AlertsPage.tsx\<close>) and the log search (\<^verbatim>\<open>pages/LogsPage.tsx\<close>). A byte count is a natural
  number below 2 to the 53, on which the division by 1024 is exact in the program's floating point
  numbers; the value of a metric is opaque.
\<close>

section \<open>Sizes\<close>

definition UNITS :: "string list" where
  "UNITS = [''B'', ''KB'', ''MB'', ''GB'', ''TB'', ''PB'']"

text \<open>The loop: the value is \<open>n / 1024 ^ i\<close>, and \<open>v >= 1024\<close> is \<open>1024 ^ (i + 1) \<le> n\<close>.\<close>

function unit_loop :: "nat \<Rightarrow> nat \<Rightarrow> nat" where
  "unit_loop n i = (if 1024 ^ Suc i \<le> n \<and> i < length UNITS - 1 then unit_loop n (Suc i) else i)"
  by pat_completeness auto
termination by (relation "measure (\<lambda>(n, i). length UNITS - i)") auto

declare unit_loop.simps [simp del]

text \<open>\<open>toFixed(1)\<close> of \<open>n / d\<close>, in tenths: the nearest one, the larger of two.\<close>

definition tenths :: "nat \<Rightarrow> nat \<Rightarrow> nat" where
  "tenths n d = (20 * n + d) div (2 * d)"

definition humanBytes :: "nat \<Rightarrow> string" where
  "humanBytes n =
     (let i = unit_loop n 0 in
      (if i = 0 then show_nat n
       else let t = tenths n (1024 ^ i) in show_nat (t div 10) @ ''.'' @ show_nat (t mod 10))
      @ '' '' @ UNITS ! i)"

section \<open>Charts\<close>

record 'v metric_point =
  mt_time :: string
  mt_label :: string
  mt_value :: 'v

text \<open>A cell of a row is the time or a value.\<close>

datatype 'v chart_cell = CTime string | CValue 'v

definition series_key :: "string obj \<Rightarrow> string \<Rightarrow> string" where
  "series_key labelMap label = (if label = [] then ''value'' else nullish_or (obj_get labelMap label) label)"

record 'v chart_data =
  ch_data :: "(string \<times> 'v chart_cell obj) list"
  ch_series :: "string list"

text \<open>One iteration of the loop over the points. The rows are kept in a \<open>Map\<close> by time, which lists
  them by insertion; they are shared objects, written in place.\<close>

definition chart_step :: "string obj \<Rightarrow> 'v chart_data \<Rightarrow> 'v metric_point \<Rightarrow> 'v chart_data" where
  "chart_step labelMap acc p =
     (let key = series_key labelMap (mt_label p);
          series = (if key \<in> set (ch_series acc) then ch_series acc else ch_series acc @ [key]);
          row = nullish_or (map_of (ch_data acc) (mt_time p)) [(''time'', CTime (mt_time p))]
      in \<lparr>ch_data = obj_set (mt_time p) (obj_set key (CValue (mt_value p)) row) (ch_data acc), ch_series = series\<rparr>)"

definition chart_rows :: "'v metric_point list \<Rightarrow> string obj \<Rightarrow> 'v chart_data" where
  "chart_rows points labelMap = foldl (chart_step labelMap) \<lparr>ch_data = [], ch_series = []\<rparr> points"

definition toChartData :: "'v metric_point list \<Rightarrow> string obj \<Rightarrow> 'v chart_cell obj list \<times> string list" where
  "toChartData points labelMap = (map snd (ch_data (chart_rows points labelMap)), ch_series (chart_rows points labelMap))"

definition PALETTE :: "string list" where
  "PALETTE = [''blue.6'', ''teal.6'', ''orange.6'', ''grape.6'', ''red.6'', ''cyan.6'']"

definition MetricChart :: "'v metric_point list \<Rightarrow> string obj \<Rightarrow> ((string \<times> string) list \<times> bool) option" where
  "MetricChart points labelMap =
     (case toChartData points labelMap of (rows, series) \<Rightarrow>
        if rows = [] then None
        else Some (map (\<lambda>(i, name). (name, PALETTE ! (i mod length PALETTE))) (enumerate 0 series), length series > 1))"

section \<open>The fleet summary, timelines and alerts\<close>

definition statusColor :: "string \<Rightarrow> string" where
  "statusColor status =
     (let s = to_lower status in
      if str_includes s ''reach'' \<and> \<not> str_includes s ''un'' then ''signal''
      else if str_includes s ''unreach'' \<or> str_includes s ''error'' \<or> str_includes s ''auth'' then ''red''
      else if str_includes s ''unverified'' \<or> str_includes s ''pending'' then ''amber'' else ''gray'')"

definition severityColor :: "string \<Rightarrow> string" where
  "severityColor severity = (if severity = ''high'' then ''red'' else if severity = ''medium'' then ''yellow'' else ''gray'')"

definition label_or_raw :: "string obj \<Rightarrow> string \<Rightarrow> string" where
  "label_or_raw labels v = nullish_or (obj_get labels v) v"

definition attr :: "json option \<Rightarrow> string \<Rightarrow> string" where
  "attr attributes key = nullish_or (str_field (field attributes key)) []"

text \<open>The rows of a timeline: the items of the pages fetched so far, in order.\<close>

definition timeline_rows :: "(json list \<times> string option) list option \<Rightarrow> json list" where
  "timeline_rows pages = (case pages of None \<Rightarrow> [] | Some ps \<Rightarrow> concat (map fst ps))"

record alert_row =
  al_severity :: string
  al_label :: string
  al_device_id :: string

definition AlertsPage_rows :: "alert_row list \<Rightarrow> (string \<times> string \<times> string \<times> string) list" where
  "AlertsPage_rows as = map (\<lambda>a. (if al_label a = [] then ''t.common.none'' else al_label a,
       if al_severity a = ''critical'' then ''red'' else ''yellow'', ''/devices/'' @ al_device_id a, take 8 (al_device_id a))) as"

section \<open>Log search\<close>

record log_state =
  ls_query :: string
  ls_deviceId :: "string option"
  ls_frm :: "string option"
  ls_to :: "string option"
  ls_hits :: "json list"
  ls_cursor :: "json option"
  ls_total :: "int option"
  ls_searched :: bool

record log_page =
  lp_hits :: "json list"
  lp_next_cursor :: "json option"
  lp_total :: int

text \<open>\<open>fetchPage\<close>: nothing without both dates; the request, and what its reply changes. An invalid
  date throws inside the \<open>try\<close>, so it ends like a failed request.\<close>

definition fetchPage_request ::
  "(string \<Rightarrow> int option) \<Rightarrow> string option \<Rightarrow> json option \<Rightarrow> log_state \<Rightarrow> mutation option" where
  "fetchPage_request parse activeId c s =
     (if \<not> struthy (ls_frm s) \<or> \<not> struthy (ls_to s) then None
      else case (map_option toISOString (parse (the (ls_frm s))), map_option toISOString (parse (the (ls_to s)))) of
        (Some f, Some t) \<Rightarrow> Some (useLogSearch activeId
          (JObj ([(''query'', JStr (ls_query s)), (''device_id'', jopt (ls_deviceId s)), (''frm'', JStr f), (''to'', JStr t), (''size'', JNum 100)]
                 @ (case c of Some v \<Rightarrow> [(''cursor'', v)] | None \<Rightarrow> []))))
      | _ \<Rightarrow> None)"

definition page_landed :: "json option \<Rightarrow> log_page option \<Rightarrow> log_state \<Rightarrow> log_state" where
  "page_landed c res s =
     (case res of
        None \<Rightarrow> s
      | Some p \<Rightarrow> s\<lparr>ls_hits := (if c = None then lp_hits p else ls_hits s @ lp_hits p),
                    ls_cursor := lp_next_cursor p, ls_total := Some (lp_total p), ls_searched := True\<rparr>)"

definition log_reset :: "log_state \<Rightarrow> log_state" where
  "log_reset s = s\<lparr>ls_hits := [], ls_cursor := None, ls_total := None\<rparr>"

definition run_search :: "log_page option \<Rightarrow> log_state \<Rightarrow> log_state" where
  "run_search res s = page_landed None res (log_reset s)"

definition loadMore :: "log_page option \<Rightarrow> log_state \<Rightarrow> log_state" where
  "loadMore res s = page_landed (ls_cursor s) res s"

text \<open>The button that loads more is shown while there is a cursor.\<close>

definition loadMore_offered :: "log_state \<Rightarrow> bool" where
  "loadMore_offered s \<longleftrightarrow> ls_searched s \<and> ls_cursor s \<noteq> None"

definition deviceName :: "(string \<times> string) list option \<Rightarrow> string \<Rightarrow> string" where
  "deviceName devices i = nullish_or (map_option snd (List.find (\<lambda>d. fst d = i) (nullish_or devices []))) i"

section \<open>What is proved\<close>

subsection \<open>Sizes\<close>

lemma unit_loop_spec:
  assumes "i = 0 \<or> 1024 ^ i \<le> n" and "i < length UNITS"
  shows "let j = unit_loop n i in j < length UNITS \<and> (j = 0 \<or> 1024 ^ j \<le> n) \<and> (n < 1024 ^ Suc j \<or> j = length UNITS - 1)"
  using assms
proof (induction n i rule: unit_loop.induct)
  case (1 n i)
  show ?case
  proof (cases "1024 ^ Suc i \<le> n \<and> i < length UNITS - 1")
    case True
    then have "unit_loop n i = unit_loop n (Suc i)" by (subst unit_loop.simps) simp
    then show ?thesis using 1(1) [OF True] True by auto
  next
    case False
    then have "unit_loop n i = i" by (subst unit_loop.simps) auto
    then show ?thesis using False 1(2,3) by auto
  qed
qed

lemma tenths_nearest:
  assumes "0 < d"
  shows "2 * d * tenths n d \<le> 20 * n + d" and "20 * n < 2 * d * tenths n d + d"
proof -
  have "2 * d * tenths n d + (20 * n + d) mod (2 * d) = 20 * n + d" unfolding tenths_def by (rule mult_div_mod_eq)
  moreover have "(20 * n + d) mod (2 * d) < 2 * d" using assms by simp
  ultimately show "2 * d * tenths n d \<le> 20 * n + d" "20 * n < 2 * d * tenths n d + d" by linarith+
qed

text \<open>A size is shown in the right unit, to the nearest tenth. For every byte count the unit chosen is
  the largest one the count reaches, unless it is the last; bytes are shown exactly; and the tenths
  shown differ from the scaled value by at most half a tenth.\<close>

theorem humanBytes_accurate:
  "\<exists>i < length UNITS. (i = 0 \<or> 1024 ^ i \<le> n) \<and> (n < 1024 ^ Suc i \<or> i = length UNITS - 1)
     \<and> humanBytes n = (if i = 0 then show_nat n @ '' '' @ UNITS ! 0
         else show_nat (tenths n (1024 ^ i) div 10) @ ''.'' @ show_nat (tenths n (1024 ^ i) mod 10) @ '' '' @ UNITS ! i)
     \<and> \<bar>20 * int n - 2 * 1024 ^ i * int (tenths n (1024 ^ i))\<bar> \<le> 1024 ^ i"
proof -
  let ?i = "unit_loop n 0"
  have spec: "?i < length UNITS" "?i = 0 \<or> 1024 ^ ?i \<le> n" "n < 1024 ^ Suc ?i \<or> ?i = length UNITS - 1"
    using unit_loop_spec [of 0 n] by (auto simp: Let_def UNITS_def)
  have "int (2 * 1024 ^ ?i * tenths n (1024 ^ ?i)) \<le> int (20 * n + 1024 ^ ?i)"
    using tenths_nearest(1) [of "1024 ^ ?i" n] by (simp only: of_nat_le_iff) simp
  moreover have "int (20 * n) < int (2 * 1024 ^ ?i * tenths n (1024 ^ ?i) + 1024 ^ ?i)"
    using tenths_nearest(2) [of "1024 ^ ?i" n] by (simp only: of_nat_less_iff) simp
  ultimately have "\<bar>20 * int n - 2 * 1024 ^ ?i * int (tenths n (1024 ^ ?i))\<bar> \<le> 1024 ^ ?i"
    by (simp add: abs_le_iff)
  then show ?thesis using spec by (intro exI [of _ ?i]) (simp add: humanBytes_def Let_def)
qed

subsection \<open>Charts\<close>

lemma chart_rows_snoc: "chart_rows (ps @ [p]) m = chart_step m (chart_rows ps m) p"
  by (simp add: chart_rows_def)

lemma chart_rows_Nil [simp]: "chart_rows [] m = \<lparr>ch_data = [], ch_series = []\<rparr>"
  by (simp add: chart_rows_def)

lemma chart_series: "distinct (ch_series (chart_rows ps m)) \<and> set (ch_series (chart_rows ps m)) = (\<lambda>p. series_key m (mt_label p)) ` set ps"
  by (induction ps rule: rev_induct) (auto simp: chart_rows_snoc chart_step_def Let_def)

lemma chart_times: "obj_wf (ch_data (chart_rows ps m)) \<and> fst ` set (ch_data (chart_rows ps m)) = mt_time ` set ps"
  by (induction ps rule: rev_induct) (auto simp: chart_rows_snoc chart_step_def Let_def fst_obj_set)

lemma chart_cell:
  assumes "k \<noteq> ''time''"
  shows "Option.bind (obj_get (ch_data (chart_rows ps m)) t) (\<lambda>row. obj_get row k) =
     map_option (\<lambda>p. CValue (mt_value p)) (List.find (\<lambda>p. mt_time p = t \<and> series_key m (mt_label p) = k) (rev ps))"
proof (induction ps rule: rev_induct)
  case (snoc p ps)
  have start: "obj_get [(''time'', CTime t)] k = None" using assms by (simp add: obj_get_def)
  show ?case using snoc start
    by (cases "map_of (ch_data (chart_rows ps m)) (mt_time p)")
       (auto simp: chart_rows_snoc chart_step_def Let_def obj_get_set, auto simp: obj_get_def)
qed simp

lemma chart_time:
  assumes "\<forall>p \<in> set ps. series_key m (mt_label p) \<noteq> ''time''"
  shows "\<forall>row. obj_get (ch_data (chart_rows ps m)) t = Some row \<longrightarrow> obj_get row ''time'' = Some (CTime t)"
  using assms
proof (induction ps rule: rev_induct)
  case (snoc p ps)
  then show ?case
    by (cases "map_of (ch_data (chart_rows ps m)) (mt_time p)")
       (auto simp: chart_rows_snoc chart_step_def Let_def obj_get_set, auto simp: obj_get_def)
qed simp

text \<open>A chart shows every measurement. When no series is named like the time column, there is exactly
  one row per time, its time column is that time, the cell of a series in it is the value of the last
  point with that time and series (and absent when there is none), and the legend lists each series of
  the points once.\<close>

theorem chart_data_complete:
  assumes "\<forall>p \<in> set ps. series_key m (mt_label p) \<noteq> ''time''"
  shows "distinct (snd (toChartData ps m)) \<and> set (snd (toChartData ps m)) = (\<lambda>p. series_key m (mt_label p)) ` set ps
    \<and> length (fst (toChartData ps m)) = card (mt_time ` set ps)
    \<and> (\<forall>t \<in> mt_time ` set ps. \<exists>!row. row \<in> set (fst (toChartData ps m)) \<and> obj_get row ''time'' = Some (CTime t))
    \<and> (\<forall>row t k. row \<in> set (fst (toChartData ps m)) \<longrightarrow> obj_get row ''time'' = Some (CTime t) \<longrightarrow> k \<noteq> ''time'' \<longrightarrow>
         obj_get row k = map_option (\<lambda>p. CValue (mt_value p)) (List.find (\<lambda>p. mt_time p = t \<and> series_key m (mt_label p) = k) (rev ps)))"
proof -
  let ?D = "ch_data (chart_rows ps m)"
  have wf: "obj_wf ?D" and keys: "fst ` set ?D = mt_time ` set ps" using chart_times by blast+
  have len: "length ?D = card (mt_time ` set ps)"
    using wf keys distinct_card [of "map fst ?D"] by (simp add: obj_wf_def)
  have mem: "row \<in> snd ` set ?D \<longleftrightarrow> (\<exists>t. obj_get ?D t = Some row)" for row
  proof -
    have "row \<in> snd ` set ?D \<longleftrightarrow> (\<exists>t. (t, row) \<in> set ?D)" by force
    then show ?thesis by (simp add: obj_wf_in_set [OF wf])
  qed
  have row: "row \<in> snd ` set ?D \<and> obj_get row ''time'' = Some (CTime t) \<longleftrightarrow> obj_get ?D t = Some row" for row t
    unfolding mem using chart_time [OF assms] by (metis chart_cell.inject(1) option.inject)
  have ex: "\<exists>row. obj_get ?D t = Some row" if "t \<in> mt_time ` set ps" for t
  proof -
    have "obj_has ?D t" using that keys by (simp add: obj_has_def)
    then show ?thesis by (simp add: obj_has_iff)
  qed
  have cell: "obj_get row k = map_option (\<lambda>p. CValue (mt_value p)) (List.find (\<lambda>p. mt_time p = t \<and> series_key m (mt_label p) = k) (rev ps))"
    if "obj_get ?D t = Some row" "k \<noteq> ''time''" for row t k
    using chart_cell [OF that(2), of ps m t] that(1) by simp
  have uniq: "\<exists>!row. row \<in> snd ` set ?D \<and> obj_get row ''time'' = Some (CTime t)" if "t \<in> mt_time ` set ps" for t
    using ex [OF that] unfolding row by auto
  have cells: "obj_get r k = map_option (\<lambda>p. CValue (mt_value p)) (List.find (\<lambda>p. mt_time p = t \<and> series_key m (mt_label p) = k) (rev ps))"
    if "r \<in> snd ` set ?D" "obj_get r ''time'' = Some (CTime t)" "k \<noteq> ''time''" for r t k
    using row [of r t] cell that by blast
  have td: "fst (toChartData ps m) = map snd ?D" "snd (toChartData ps m) = ch_series (chart_rows ps m)"
    by (simp_all add: toChartData_def)
  show ?thesis unfolding td set_map length_map
    by (intro conjI ballI allI impI) (simp_all only: chart_series len uniq cells simp_thms)
qed

definition sample_points :: "int metric_point list" where
  "sample_points = [\<lparr>mt_time = ''10:00'', mt_label = ''wan'', mt_value = 1\<rparr>, \<lparr>mt_time = ''10:00'', mt_label = ''opt1'', mt_value = 2\<rparr>,
     \<lparr>mt_time = ''10:01'', mt_label = ''wan'', mt_value = 3\<rparr>]"

theorem chart_data_complete_witness:
  "length (fst (toChartData sample_points [(''opt1'', ''DMZ'')])) = 2
   \<and> snd (toChartData sample_points [(''opt1'', ''DMZ'')]) = [''wan'', ''DMZ'']"
proof
  have "\<forall>p \<in> set sample_points. series_key [(''opt1'', ''DMZ'')] (mt_label p) \<noteq> ''time''"
    by (simp add: sample_points_def series_key_def obj_get_def)
  from chart_data_complete [OF this] have "length (fst (toChartData sample_points [(''opt1'', ''DMZ'')])) = card (mt_time ` set sample_points)"
    by blast
  then show "length (fst (toChartData sample_points [(''opt1'', ''DMZ'')])) = 2" by (simp add: sample_points_def)
  show "snd (toChartData sample_points [(''opt1'', ''DMZ'')]) = [''wan'', ''DMZ'']"
    by (simp add: toChartData_def chart_rows_def chart_step_def sample_points_def series_key_def obj_get_def Let_def)
qed

lemma statusColor_devices:
  "statusColor ''reachable'' = ''signal'' \<and> statusColor ''unreachable'' = ''red'' \<and> statusColor ''unverified'' = ''amber''"
  by (simp add: statusColor_def to_lower_def lower_char_def starts_with_def Let_def)

subsection \<open>Log pages\<close>

definition landed :: "log_page option list \<Rightarrow> log_page list" where
  "landed rs = List.map_filter id rs"

lemma landed_simps [simp]: "landed [] = []" "landed (None # rs) = landed rs" "landed (Some p # rs) = p # landed rs"
  by (simp_all add: landed_def List.map_filter_simps)

definition same_filters :: "log_state \<Rightarrow> log_state \<Rightarrow> bool" where
  "same_filters s s' \<longleftrightarrow> ls_query s' = ls_query s \<and> ls_deviceId s' = ls_deviceId s \<and> ls_frm s' = ls_frm s \<and> ls_to s' = ls_to s"

lemma loadMore_pages:
  assumes "ls_cursor s = lp_next_cursor p" and "\<forall>q \<in> set (butlast (p # landed rs)). lp_next_cursor q \<noteq> None"
  shows "let s' = foldl (\<lambda>s r. loadMore r s) s rs in
    ls_hits s' = ls_hits s @ concat (map lp_hits (landed rs)) \<and> ls_cursor s' = lp_next_cursor (last (p # landed rs)) \<and> same_filters s s'"
  using assms
proof (induction rs arbitrary: s p)
  case (Cons r rs)
  show ?case
  proof (cases r)
    case None
    then have "loadMore r s = s" by (simp add: loadMore_def page_landed_def)
    then show ?thesis using Cons None by simp
  next
    case (Some q)
    let ?t = "loadMore r s"
    have c: "lp_next_cursor p \<noteq> None" using Cons.prems(2) Some by simp
    then have t: "ls_hits ?t = ls_hits s @ lp_hits q" "ls_cursor ?t = lp_next_cursor q" "same_filters s ?t"
      using Cons.prems(1) Some by (auto simp: loadMore_def page_landed_def same_filters_def)
    have "\<forall>x \<in> set (butlast (q # landed rs)). lp_next_cursor x \<noteq> None" using Cons.prems(2) Some by simp
    from Cons.IH [OF t(2) this] show ?thesis using t Some by (simp add: Let_def same_filters_def)
  qed
qed (simp add: same_filters_def)

text \<open>A log search shows the pages it received. After a search and any number of further pages, some
  of which may fail, loaded while the button offers them, the list is the concatenation of the pages
  received, in order and nothing else; and while the filters are not edited the next request repeats
  the search's filters with the cursor of the last page received.\<close>

theorem log_pages_complete:
  assumes "\<forall>q \<in> set (butlast (p # landed rs)). lp_next_cursor q \<noteq> None"
    and "s' = foldl (\<lambda>s r. loadMore r s) (run_search (Some p) s) rs"
    and "fetchPage_request parse a (ls_cursor s') s' = Some mu"
  shows "ls_hits s' = concat (map lp_hits (p # landed rs))
    \<and> field (rq_body (m_request mu)) ''query'' = Some (JStr (ls_query s))
    \<and> field (rq_body (m_request mu)) ''device_id'' = Some (jopt (ls_deviceId s))
    \<and> field (rq_body (m_request mu)) ''cursor'' = lp_next_cursor (last (p # landed rs))"
proof -
  have start: "ls_cursor (run_search (Some p) s) = lp_next_cursor p" "ls_hits (run_search (Some p) s) = lp_hits p"
    "same_filters s (run_search (Some p) s)"
    by (simp_all add: run_search_def page_landed_def log_reset_def same_filters_def)
  have s': "ls_hits s' = concat (map lp_hits (p # landed rs))" "ls_cursor s' = lp_next_cursor (last (p # landed rs))" "same_filters s s'"
    using loadMore_pages [OF start(1) assms(1)] start(2,3) assms(2) by (auto simp: Let_def same_filters_def)
  show ?thesis using assms(3) s'
    by (auto simp: fetchPage_request_def useLogSearch_def hook_simps same_filters_def obj_get_def split: if_splits option.splits)
qed

definition sample_log :: log_state where
  "sample_log = \<lparr>ls_query = ''action:block'', ls_deviceId = None, ls_frm = Some ''f'', ls_to = Some ''t'', ls_hits = [], ls_cursor = None,
     ls_total = None, ls_searched = False\<rparr>"

theorem log_pages_complete_witness:
  "ls_hits (foldl (\<lambda>s r. loadMore r s)
     (run_search (Some \<lparr>lp_hits = [JNum 1], lp_next_cursor = Some (JStr ''c''), lp_total = 2\<rparr>) sample_log)
     [None, Some \<lparr>lp_hits = [JNum 2], lp_next_cursor = None, lp_total = 2\<rparr>]) = [JNum 1, JNum 2]"
proof -
  let ?p = "\<lparr>lp_hits = [JNum 1], lp_next_cursor = Some (JStr ''c''), lp_total = 2\<rparr>"
  let ?rs = "[None, Some \<lparr>lp_hits = [JNum 2], lp_next_cursor = None, lp_total = 2\<rparr>]"
  let ?s = "foldl (\<lambda>s r. loadMore r s) (run_search (Some ?p) sample_log) ?rs"
  have "\<exists>mu. fetchPage_request (\<lambda>_. Some 0) None (ls_cursor ?s) ?s = Some mu"
    by (simp add: fetchPage_request_def loadMore_def page_landed_def run_search_def log_reset_def sample_log_def)
  then obtain mu where mu: "fetchPage_request (\<lambda>_. Some 0) None (ls_cursor ?s) ?s = Some mu" by blast
  show ?thesis using log_pages_complete [OF _ refl mu] by simp
qed

text \<open>The filters are read again by the button that loads more: after an edit the next page is asked for
  with the new filters and the old cursor.\<close>

lemma loadMore_reads_edited_filters:
  assumes "fetchPage_request parse a (ls_cursor s) (s\<lparr>ls_query := q\<rparr>) = Some mu" and "ls_cursor s = Some c"
  shows "field (rq_body (m_request mu)) ''query'' = Some (JStr q) \<and> field (rq_body (m_request mu)) ''cursor'' = Some c"
  using assms by (auto simp: fetchPage_request_def useLogSearch_def hook_simps obj_get_def split: if_splits option.splits)

end
