(* ===== verification/Reports.thy ===== *)
theory Reports
  imports HooksTenant ConfigPages
begin

text \<open>
  Reports and retention: the section switches (\<^verbatim>\<open>reports/sections.ts\<close>), the report settings and
  their logo (\<^verbatim>\<open>pages/ReportSettingsPage.tsx\<close>), the delivery schedules
  (\<^verbatim>\<open>pages/ReportSchedulePage.tsx\<close>), the list of reports (\<^verbatim>\<open>pages/ReportsPage.tsx\<close>) and the
  retention overrides (\<^verbatim>\<open>retention/RetentionCard.tsx\<close>). Two of these forms stay mounted while the
  active tenant changes; a run of such a form is the list of its renders (tenant and loaded data) and of
  the user's edits.
\<close>

section \<open>Sections\<close>

definition REPORT_SECTION_KEYS :: "string list" where
  "REPORT_SECTION_KEYS = [''summary'', ''health'', ''alerts_wan'', ''attacks'', ''attacker_countries'', ''failed_logins'',
     ''firewall_blocks'', ''web'', ''data'', ''status'', ''firmware_config'', ''applications'', ''web_filter'']"

definition seedSectionState :: "bool obj option \<Rightarrow> bool obj" where
  "seedSectionState sections =
     (let m = nullish_or sections [] in
      foldl (\<lambda>acc key. obj_set key (if obj_has m key then the (obj_get m key) else True) acc) [] REPORT_SECTION_KEYS)"

definition buildSectionsMap :: "bool obj \<Rightarrow> bool obj" where
  "buildSectionsMap state = foldl (\<lambda>acc key. obj_set key (the (obj_get state key)) acc) [] REPORT_SECTION_KEYS"

definition toggle_section :: "string \<Rightarrow> bool \<Rightarrow> bool obj \<Rightarrow> bool obj" where
  "toggle_section key checked prev = obj_set key checked prev"

definition sections_json :: "bool obj \<Rightarrow> json" where
  "sections_json m = JObj (map (\<lambda>(k, b). (k, JBool b)) m)"

section \<open>Report settings\<close>

record report_settings =
  rd_title :: string
  rd_owner :: string
  rd_timezone :: string
  rd_language :: "string option"
  rd_from_email :: "string option"
  rd_sections :: "bool obj option"
  rd_has_logo :: bool

record settings_form =
  sg_title :: string
  sg_owner :: string
  sg_timezone :: string
  sg_language :: string
  sg_from_email :: string
  sg_sections :: "bool obj"
  sg_initialized :: bool

definition settings_initial :: settings_form where
  "settings_initial = \<lparr>sg_title = [], sg_owner = [], sg_timezone = ''UTC'', sg_language = ''en'', sg_from_email = [],
     sg_sections = seedSectionState None, sg_initialized = False\<rparr>"

text \<open>The effect that runs after a render with the query's data.\<close>

definition settings_effect :: "report_settings option \<Rightarrow> settings_form \<Rightarrow> settings_form" where
  "settings_effect data s =
     (case data of
        None \<Rightarrow> s
      | Some d \<Rightarrow> if sg_initialized s then s
          else \<lparr>sg_title = rd_title d, sg_owner = rd_owner d, sg_timezone = rd_timezone d,
                sg_language = nullish_or (rd_language d) ''en'', sg_from_email = nullish_or (rd_from_email d) [],
                sg_sections = seedSectionState (rd_sections d), sg_initialized = True\<rparr>)"

definition settings_save :: "string option \<Rightarrow> settings_form \<Rightarrow> mutation" where
  "settings_save activeId s = useUpdateReportSettings activeId
     (JObj [(''title'', JStr (sg_title s)), (''owner'', JStr (sg_owner s)), (''timezone'', JStr (sg_timezone s)),
            (''language'', JStr (sg_language s)), (''from_email'', JStr (sg_from_email s)),
            (''sections'', sections_json (buildSectionsMap (sg_sections s)))])"

definition settings_saved :: "mutation \<Rightarrow> api_result \<Rightarrow> notice" where
  "settings_saved mu r = (case m_fn mu r of Inr _ \<Rightarrow> Info ''t.reports.settings.saved''
     | Inl _ \<Rightarrow> Failure ''t.errors.reportSettingsAction'')"

text \<open>The logo: the chosen file and the counter that defeats the image cache.\<close>

record logo_state =
  lg_file :: "json option"
  lg_cacheBust :: nat
  lg_notices :: "notice list"

definition handleLogoUpload :: "mutation \<Rightarrow> api_result \<Rightarrow> logo_state \<Rightarrow> logo_state" where
  "handleLogoUpload mu r s =
     (if lg_file s = None then s
      else case m_fn mu r of
        Inr _ \<Rightarrow> s\<lparr>lg_file := None, lg_cacheBust := lg_cacheBust s + 1, lg_notices := lg_notices s @ [Info ''t.reports.settings.logoUploaded'']\<rparr>
      | Inl _ \<Rightarrow> s\<lparr>lg_notices := lg_notices s @ [Failure ''t.errors.reportSettingsAction'']\<rparr>)"

definition handleLogoDelete :: "mutation \<Rightarrow> api_result \<Rightarrow> logo_state \<Rightarrow> logo_state" where
  "handleLogoDelete mu r s =
     (case m_fn mu r of
        Inr _ \<Rightarrow> s\<lparr>lg_cacheBust := lg_cacheBust s + 1, lg_notices := lg_notices s @ [Info ''t.reports.settings.logoRemoved'']\<rparr>
      | Inl _ \<Rightarrow> s\<lparr>lg_notices := lg_notices s @ [Failure ''t.errors.reportSettingsAction'']\<rparr>)"

definition logoPreviewUrl :: "string \<Rightarrow> report_settings option \<Rightarrow> string option \<Rightarrow> logo_state \<Rightarrow> string option" where
  "logoPreviewUrl base data activeId s =
     (let hasLogo = (case data of None \<Rightarrow> False | Some d \<Rightarrow> rd_has_logo d) in
      if hasLogo \<and> struthy activeId
      then Some (base @ ''/api/tenants/'' @ the activeId @ ''/reports/settings/logo?cb='' @ show_nat (lg_cacheBust s)) else None)"

datatype settings_view = AdminsOnly | SettingsLoading | SettingsError | SettingsForm

definition ReportSettingsPage :: "auth_state \<Rightarrow> my_tenant list \<Rightarrow> string option \<Rightarrow> bool \<Rightarrow> bool \<Rightarrow> settings_view" where
  "ReportSettingsPage auth tenants activeId loading error =
     (if \<not> isTenantAdmin (usePermissions auth tenants activeId) then AdminsOnly
      else if loading then SettingsLoading else if error then SettingsError else SettingsForm)"

section \<open>Retention overrides\<close>

definition STORES :: "string list" where
  "STORES = [''perimeter'', ''events'', ''metrics'', ''log_lake'']"

text \<open>The draft has a number or the empty input (\<open>None\<close>) per store.\<close>

definition emptyDraft :: "int option obj" where
  "emptyDraft = [(''perimeter'', None), (''events'', None), (''metrics'', None), (''log_lake'', None)]"

record retention_state =
  rt_draft :: "int option obj"
  rt_seededFor :: "string option"

definition retention_initial :: retention_state where
  "retention_initial = \<lparr>rt_draft = emptyDraft, rt_seededFor = None\<rparr>"

fun number_of :: "json option \<Rightarrow> int option" where
  "number_of (Some (JNum n)) = Some n"
| "number_of _ = None"

fun seed_loop :: "json obj \<Rightarrow> string list \<Rightarrow> int option obj \<Rightarrow> int option obj" where
  "seed_loop overrides [] nxt = nxt"
| "seed_loop overrides (store # ss) nxt =
     seed_loop overrides ss
       (case number_of (obj_get overrides store) of Some n \<Rightarrow> obj_set store (Some n) nxt | None \<Rightarrow> nxt)"

definition retention_effect :: "string option \<Rightarrow> json obj option \<Rightarrow> retention_state \<Rightarrow> retention_state" where
  "retention_effect activeId data s =
     (case data of
        None \<Rightarrow> s
      | Some overrides \<Rightarrow>
          if rt_seededFor s \<noteq> activeId
          then \<lparr>rt_draft = seed_loop overrides STORES emptyDraft, rt_seededFor = activeId\<rparr> else s)"

definition edit_store :: "string \<Rightarrow> int option \<Rightarrow> retention_state \<Rightarrow> retention_state" where
  "edit_store store val s = s\<lparr>rt_draft := obj_set store val (rt_draft s)\<rparr>"

definition retention_values :: "retention_state \<Rightarrow> json obj" where
  "retention_values s = foldl (\<lambda>vals store.
     obj_set store (case the (obj_get (rt_draft s) store) of None \<Rightarrow> JNull | Some n \<Rightarrow> JNum n) vals) [] STORES"

definition retention_save :: "string option \<Rightarrow> retention_state \<Rightarrow> mutation" where
  "retention_save activeId s = useUpdateRetention activeId (JObj (retention_values s))"

definition inherit_hint :: "json obj \<Rightarrow> string \<Rightarrow> string \<Rightarrow> string option" where
  "inherit_hint defaults inheritHint store =
     (case number_of (obj_get defaults store) of Some n \<Rightarrow> Some (inheritHint @ '': '' @ show_int n) | None \<Rightarrow> None)"

datatype retention_event = Render "string option" "json obj option" | EditStore string "int option"

fun retention_step :: "retention_event \<Rightarrow> retention_state \<Rightarrow> retention_state" where
  "retention_step (Render a data) s = retention_effect a data s"
| "retention_step (EditStore store val) s = edit_store store val s"

definition retention_run :: "retention_event list \<Rightarrow> retention_state \<Rightarrow> retention_state" where
  "retention_run es s = foldl (\<lambda>s e. retention_step e s) s es"

section \<open>Delivery schedules\<close>

record schedule_out =
  sc_id :: string
  sc_device_id :: "string option"
  sc_enabled :: bool
  sc_frequency :: string
  sc_weekday :: "int option"
  sc_hour :: int
  sc_recipients :: "string list option"
  sc_sections :: "bool obj option"

definition pad2 :: "int \<Rightarrow> string" where
  "pad2 n = (let s = show_int n in replicate (2 - length s) CHR ''0'' @ s)"

definition WEEKDAY_SHORT :: "string list" where
  "WEEKDAY_SHORT = [''Mon'', ''Tue'', ''Wed'', ''Thu'', ''Fri'', ''Sat'', ''Sun'']"

definition dot :: string where
  "dot = '' '' @ [CHR 0xB7] @ '' ''"

definition ScheduleStatus :: "schedule_out option \<Rightarrow> string" where
  "ScheduleStatus existing =
     (case existing of None \<Rightarrow> ''Not scheduled''
      | Some e \<Rightarrow> if \<not> sc_enabled e then ''Disabled''
          else let hh = pad2 (sc_hour e);
                   recipients = length (nullish_or (sc_recipients e) []);
                   recipientSuffix = (if recipients > 0 then dot @ show_nat recipients @ '' recipient'' @ (if recipients = 1 then [] else ''s'') else []);
                   i = nullish_or (sc_weekday e) 0;
                   day = (if 0 \<le> i \<and> i < 7 then WEEKDAY_SHORT ! nat i else WEEKDAY_SHORT ! 0);
                   summary = (if sc_frequency e = ''weekly'' then ''Weekly'' @ dot @ day @ '' '' @ hh @ '':00''
                              else if sc_frequency e = ''monthly'' then ''Monthly'' @ dot @ hh @ '':00'' else ''On demand'')
               in summary @ recipientSuffix)"

record schedule_editor =
  se_enabled :: bool
  se_frequency :: string
  se_weekday :: "string option"
  se_hour :: int
  se_recipients :: string
  se_customize :: bool
  se_sections :: "bool obj"

definition ScheduleEditor_mount :: "string option \<Rightarrow> schedule_out option \<Rightarrow> schedule_editor" where
  "ScheduleEditor_mount deviceId existing =
     \<lparr>se_enabled = (case existing of Some e \<Rightarrow> sc_enabled e | None \<Rightarrow> deviceId = None),
      se_frequency = (case existing of Some e \<Rightarrow> sc_frequency e | None \<Rightarrow> ''weekly''),
      se_weekday = Some (case Option.bind existing sc_weekday of Some n \<Rightarrow> show_int n | None \<Rightarrow> ''0''),
      se_hour = (case existing of Some e \<Rightarrow> sc_hour e | None \<Rightarrow> 4),
      se_recipients = js_join [newline] (case existing of Some e \<Rightarrow> nullish_or (sc_recipients e) [] | None \<Rightarrow> []),
      se_customize = (Option.bind existing sc_sections \<noteq> None),
      se_sections = seedSectionState (Option.bind existing sc_sections)\<rparr>"

text \<open>\<open>Number(s)\<close> of a weekday, a string of digits.\<close>

definition weekday_number :: "string option \<Rightarrow> int" where
  "weekday_number w = (case w of None \<Rightarrow> 0 | Some s \<Rightarrow> int (digits_value s))"

definition is_separator :: "char \<Rightarrow> bool" where
  "is_separator c \<longleftrightarrow> c = newline \<or> c = CHR '',''"

definition schedule_body :: "string option \<Rightarrow> schedule_editor \<Rightarrow> json" where
  "schedule_body deviceId s =
     JObj [(''device_id'', jopt deviceId), (''enabled'', JBool (se_enabled s)), (''frequency'', JStr (se_frequency s)),
           (''weekday'', if se_frequency s = ''weekly'' then JNum (weekday_number (se_weekday s)) else JNull),
           (''hour'', JNum (se_hour s)), (''recipients'', jstrs (split_trim is_separator (se_recipients s))),
           (''sections'', if deviceId \<noteq> None \<and> se_customize s then sections_json (buildSectionsMap (se_sections s)) else JNull)]"

definition schedule_save :: "string option \<Rightarrow> string option \<Rightarrow> schedule_editor \<Rightarrow> mutation" where
  "schedule_save activeId deviceId s = useUpsertReportSchedule activeId (schedule_body deviceId s)"

definition triggerNow :: "string option \<Rightarrow> schedule_out option \<Rightarrow> mutation option" where
  "triggerNow activeId existing = map_option (\<lambda>e. useSendScheduleNow activeId (sc_id e)) existing"

text \<open>Which editors the page mounts: the device, the schedule it edits and the key of the component.\<close>

definition ReportSchedulePage ::
  "bool \<Rightarrow> schedule_out list option \<Rightarrow> string list option \<Rightarrow> (string option \<times> schedule_out option \<times> string) list option" where
  "ReportSchedulePage tenantAdmin schedules devices =
     (if \<not> tenantAdmin then None
      else Some (case schedules of None \<Rightarrow> []
        | Some ss \<Rightarrow>
            (let fleet = List.find (\<lambda>s. sc_device_id s = None) ss in
             (None, fleet, case fleet of Some e \<Rightarrow> sc_id e | None \<Rightarrow> ''fleet-new'')
             # map (\<lambda>d. let existing = List.find (\<lambda>s. sc_device_id s = Some d) ss in
                       (Some d, existing, case existing of Some e \<Rightarrow> sc_id e | None \<Rightarrow> ''device-'' @ d @ ''-new''))
                 (nullish_or devices []))))"

section \<open>The list of reports\<close>

definition generate_enabled :: "string option \<Rightarrow> string option \<Rightarrow> bool" where
  "generate_enabled from to \<longleftrightarrow> struthy from \<and> struthy to"

text \<open>\<open>handleGenerate\<close>: nothing without both dates; a date that does not parse is reported like a
  failed request.\<close>

definition generate_range :: "(string \<Rightarrow> int option) \<Rightarrow> string option \<Rightarrow> string option \<Rightarrow> (string \<times> string) option" where
  "generate_range parse_local from to =
     (if \<not> generate_enabled from to then None
      else case (picked_iso parse_local (the from), picked_iso parse_local (the to)) of
        (Some f, Some t) \<Rightarrow> Some (f, t) | _ \<Rightarrow> None)"

record reports_state =
  rp_pendingDownload :: "string option"
  rp_notices :: "notice list"

definition download_start :: "string \<Rightarrow> reports_state \<Rightarrow> reports_state" where
  "download_start i s = s\<lparr>rp_pendingDownload := Some i\<rparr>"

definition download_done :: "mutation \<Rightarrow> api_result \<Rightarrow> reports_state \<Rightarrow> reports_state" where
  "download_done mu r s =
     (case m_fn mu r of Inr _ \<Rightarrow> s | Inl _ \<Rightarrow> s\<lparr>rp_notices := rp_notices s @ [Failure ''t.errors.reportsLoad'']\<rparr>)
       \<lparr>rp_pendingDownload := None\<rparr>"

section \<open>What is proved\<close>

lemma distinct_sections: "distinct REPORT_SECTION_KEYS"
  by (simp add: REPORT_SECTION_KEYS_def)

text \<open>A loop that sets each key of a list without repetition, in order, builds that association list.\<close>

lemma obj_set_new: "k \<notin> fst ` set ob \<Longrightarrow> obj_set k v ob = ob @ [(k, v)]"
  by (induction k v ob rule: obj_set.induct) auto

lemma foldl_set_new:
  "distinct ks \<Longrightarrow> fst ` set ob \<inter> set ks = {} \<Longrightarrow>
     foldl (\<lambda>acc k. obj_set k (f k) acc) ob ks = ob @ map (\<lambda>k. (k, f k)) ks"
  by (induction ks arbitrary: ob) (auto simp: obj_set_new)

lemma seedSectionState_map:
  "seedSectionState sections = map (\<lambda>k. (k, nullish_or (obj_get (nullish_or sections []) k) True)) REPORT_SECTION_KEYS"
  unfolding seedSectionState_def Let_def
  by (subst foldl_set_new [OF distinct_sections]) (auto simp: obj_has_iff)

lemma buildSectionsMap_map: "buildSectionsMap st = map (\<lambda>k. (k, the (obj_get st k))) REPORT_SECTION_KEYS"
  unfolding buildSectionsMap_def by (subst foldl_set_new [OF distinct_sections]) auto

lemma get_map_keys: "k \<in> set ks \<Longrightarrow> obj_get (map (\<lambda>k. (k, f k)) ks) k = Some (f k)"
  by (induction ks) (auto simp: obj_get_def)

lemma build_seed:
  "buildSectionsMap (seedSectionState sections) = seedSectionState sections"
  unfolding buildSectionsMap_map seedSectionState_map by (auto simp: get_map_keys)

text \<open>A stored map that has a value for every section.\<close>

definition complete_sections :: "bool obj \<Rightarrow> bool" where
  "complete_sections m \<longleftrightarrow> map fst m = REPORT_SECTION_KEYS"

lemma seed_complete: "complete_sections m \<Longrightarrow> seedSectionState (Some m) = m"
proof -
  assume c: "complete_sections m"
  then have "distinct (map fst m)" using distinct_sections by (simp add: complete_sections_def)
  then have "map (\<lambda>k. (k, nullish_or (obj_get m k) True)) (map fst m) = m"
    by (auto simp: obj_get_def intro!: map_idI)
  then show ?thesis using c unfolding seedSectionState_map complete_sections_def by (metis nullish_or_simps(2))
qed

lemma show_nat_digit: "n < 10 \<Longrightarrow> show_nat n = [char_of (48 + n)]"
  by (subst show_nat.simps) simp

lemma weekday_roundtrip: "0 \<le> n \<Longrightarrow> n < 7 \<Longrightarrow> weekday_number (Some (show_int n)) = n"
  by (simp add: weekday_number_def show_int_def show_nat_digit digits_value_def)

text \<open>What the server stores for a schedule.\<close>

definition schedule_ok :: "schedule_out \<Rightarrow> bool" where
  "schedule_ok e \<longleftrightarrow> clean_words is_separator (nullish_or (sc_recipients e) [])
     \<and> (case sc_weekday e of Some n \<Rightarrow> sc_frequency e = ''weekly'' \<and> 0 \<le> n \<and> n < 7 | None \<Rightarrow> sc_frequency e \<noteq> ''weekly'')
     \<and> (case sc_sections e of Some m \<Rightarrow> sc_device_id e \<noteq> None \<and> complete_sections m | None \<Rightarrow> True)"

text \<open>Saving a delivery schedule untouched changes nothing, for the fleet or for a device: the editor
  opened on a stored schedule and saved sends its enabled flag, frequency, weekday (none unless
  weekly), hour, recipients and section overrides exactly as stored, to the same device. Whatever was
  typed, the recipients sent are non-empty and trimmed, and a schedule of the fleet never carries
  section overrides.\<close>

theorem schedule_roundtrip:
  assumes "schedule_ok e"
  shows "schedule_body (sc_device_id e) (ScheduleEditor_mount (sc_device_id e) (Some e)) =
      JObj [(''device_id'', jopt (sc_device_id e)), (''enabled'', JBool (sc_enabled e)), (''frequency'', JStr (sc_frequency e)),
        (''weekday'', case sc_weekday e of Some n \<Rightarrow> JNum n | None \<Rightarrow> JNull), (''hour'', JNum (sc_hour e)),
        (''recipients'', jstrs (nullish_or (sc_recipients e) [])),
        (''sections'', case sc_sections e of Some m \<Rightarrow> sections_json m | None \<Rightarrow> JNull)]
    \<and> (\<exists>ws. field (Some (schedule_body None s)) ''recipients'' = Some (jstrs ws) \<and> clean_words is_separator ws)
    \<and> field (Some (schedule_body None s)) ''sections'' = Some JNull"
proof -
  have r: "split_trim is_separator (js_join [newline] (nullish_or (sc_recipients e) [])) = nullish_or (sc_recipients e) []"
    using assms by (intro split_trim_join) (auto simp: schedule_ok_def is_separator_def)
  have w: "(if sc_frequency e = ''weekly'' then JNum (weekday_number (Some (case sc_weekday e of Some n \<Rightarrow> show_int n | None \<Rightarrow> ''0''))) else JNull)
      = (case sc_weekday e of Some n \<Rightarrow> JNum n | None \<Rightarrow> JNull)"
    using assms by (auto simp: schedule_ok_def weekday_roundtrip split: option.splits)
  have c: "(if sc_device_id e \<noteq> None \<and> sc_sections e \<noteq> None then sections_json (buildSectionsMap (seedSectionState (sc_sections e))) else JNull)
      = (case sc_sections e of Some m \<Rightarrow> sections_json m | None \<Rightarrow> JNull)"
    using assms by (auto simp: schedule_ok_def build_seed seed_complete split: option.splits)
  show ?thesis
    using split_trim_clean [of is_separator "se_recipients s"] r w c
    by (auto simp: schedule_body_def ScheduleEditor_mount_def obj_get_def)
qed

definition sample_schedule :: schedule_out where
  "sample_schedule = \<lparr>sc_id = ''s1'', sc_device_id = Some ''d1'', sc_enabled = True, sc_frequency = ''weekly'', sc_weekday = Some 2,
     sc_hour = 6, sc_recipients = Some [''a@x.org'', ''b@x.org''], sc_sections = None\<rparr>"

theorem schedule_roundtrip_witness:
  "field (Some (schedule_body (Some ''d1'') (ScheduleEditor_mount (Some ''d1'') (Some sample_schedule)))) ''weekday'' = Some (JNum 2)
   \<and> field (Some (schedule_body (Some ''d1'') (ScheduleEditor_mount (Some ''d1'') (Some sample_schedule)))) ''recipients''
     = Some (jstrs [''a@x.org'', ''b@x.org''])"
proof -
  have "schedule_ok sample_schedule"
    by (simp add: sample_schedule_def schedule_ok_def clean_words_def trimmed_def is_ws_def is_separator_def newline_def)
  from schedule_roundtrip [OF this] have "schedule_body (Some ''d1'') (ScheduleEditor_mount (Some ''d1'') (Some sample_schedule)) =
      JObj [(''device_id'', JStr ''d1''), (''enabled'', JBool True), (''frequency'', JStr ''weekly''), (''weekday'', JNum 2),
        (''hour'', JNum 6), (''recipients'', jstrs [''a@x.org'', ''b@x.org'']), (''sections'', JNull)]"
    by (simp add: sample_schedule_def)
  then show ?thesis by (simp add: obj_get_def)
qed

subsection \<open>Forms that outlive a tenant switch\<close>

lemma settings_effect_initialized [simp]: "sg_initialized s \<Longrightarrow> settings_effect d s = s"
  by (cases d) (simp_all add: settings_effect_def)

lemma settings_effects_kept: "sg_initialized s \<Longrightarrow> foldl (\<lambda>s d. settings_effect d s) s ds = s"
  by (induction ds) auto

text \<open>C39. The report settings form keeps the tenant it was opened on. It takes the first settings that
  load and ignores every later reply, so after the active tenant changes it still holds the first
  tenant's values, and saving writes them to the tenant that is then active.\<close>

theorem settings_follow_first_tenant:
  "m_request (settings_save b (foldl (\<lambda>s d. settings_effect d s) settings_initial (replicate n None @ Some d # ds))) =
     m_request (settings_save b (settings_effect (Some d) settings_initial))
   \<and> obj_get (rq_params (m_request (settings_save b (settings_effect (Some d) settings_initial)))) ''tenant_id'' = Some (jopt b)
   \<and> field (rq_body (m_request (settings_save b (settings_effect (Some d) settings_initial)))) ''title'' = Some (JStr (rd_title d))"
proof -
  have n: "foldl (\<lambda>s d. settings_effect d s) s (replicate n None) = s" for s
    by (induction n) (auto simp: settings_effect_def)
  have i: "sg_initialized (settings_effect (Some d) settings_initial)" "sg_title (settings_effect (Some d) settings_initial) = rd_title d"
    by (simp_all add: settings_effect_def settings_initial_def)
  show ?thesis
    by (simp add: n settings_effects_kept i) (simp add: settings_save_def useUpdateReportSettings_def hook_simps obj_get_def i)
qed

fun store_edits :: "retention_event list \<Rightarrow> (string \<times> int option) list" where
  "store_edits [] = []"
| "store_edits (EditStore k v # es) = (k, v) # store_edits es"
| "store_edits (Render _ _ # es) = store_edits es"

text \<open>The renders of one tenant: with its data, or while nothing is loaded.\<close>

fun only_tenant :: "string option \<Rightarrow> retention_event list \<Rightarrow> bool" where
  "only_tenant a [] = True"
| "only_tenant a (Render b (Some d) # es) = (b = a \<and> only_tenant a es)"
| "only_tenant a (_ # es) = only_tenant a es"

lemma get_seed_loop:
  "obj_get (seed_loop overrides ss nxt) k =
     (if k \<in> set ss \<and> number_of (obj_get overrides k) \<noteq> None then Some (number_of (obj_get overrides k)) else obj_get nxt k)"
  by (induction overrides ss nxt rule: seed_loop.induct) (auto simp: obj_get_set split: option.splits)

lemma retention_same_tenant:
  "only_tenant a es \<Longrightarrow> rt_seededFor s = a \<Longrightarrow>
     rt_seededFor (retention_run es s) = a \<and>
     obj_get (rt_draft (retention_run es s)) k = (case map_of (rev (store_edits es)) k of None \<Rightarrow> obj_get (rt_draft s) k | Some v \<Rightarrow> Some v)"
proof (induction es arbitrary: s)
  case (Cons e es)
  show ?case
  proof (cases e)
    case (Render b d)
    then have "retention_step e s = s" using Cons.prems by (cases d) (auto simp: retention_effect_def)
    then show ?thesis using Cons Render by (cases d) (auto simp: retention_run_def)
  next
    case (EditStore st v)
    then show ?thesis using Cons.IH [of "edit_store st v s"] Cons.prems
      by (auto simp: retention_run_def edit_store_def obj_get_set map_add_def split: option.splits)
  qed
qed (simp add: retention_run_def)

lemma get_retention_values:
  "k \<in> set STORES \<Longrightarrow> obj_get (retention_values s) k = Some (case the (obj_get (rt_draft s) k) of None \<Rightarrow> JNull | Some n \<Rightarrow> JNum n)"
  unfolding retention_values_def by (subst foldl_set_new) (auto simp: STORES_def obj_get_def)

text \<open>C35. The retention overrides follow the tenant. Whatever tenants were shown before, once the card
  renders another tenant with its data, saving sends to that tenant, for every store, the last number
  entered since (or nothing, when it was cleared), and otherwise the tenant's own stored override: no
  value of a previous tenant is left, and a store without an override is sent as inherited.\<close>

theorem retention_follows_tenant:
  assumes "only_tenant a es" and "rt_seededFor (retention_run before s0) \<noteq> a" and "store \<in> set STORES"
    and "s = retention_run (before @ Render a (Some d) # es) s0"
  shows "obj_get (retention_values s) store =
      Some (case nullish_or (map_of (rev (store_edits es)) store) (number_of (obj_get d store)) of None \<Rightarrow> JNull | Some n \<Rightarrow> JNum n)
    \<and> rq_params (m_request (retention_save a s)) = t_params a"
proof -
  let ?t = "retention_effect a (Some d) (retention_run before s0)"
  have s: "s = retention_run es ?t" using assms(4) by (simp add: retention_run_def)
  have e: "obj_get emptyDraft store = Some None"
    using assms(3) by (auto simp: emptyDraft_def STORES_def obj_get_def)
  have t: "rt_seededFor ?t = a" "obj_get (rt_draft ?t) store = Some (number_of (obj_get d store))"
    using assms(2,3) e by (auto simp: retention_effect_def get_seed_loop)
  have "obj_get (rt_draft s) store = Some (nullish_or (map_of (rev (store_edits es)) store) (number_of (obj_get d store)))"
    using retention_same_tenant [OF assms(1) t(1), of store] t(2) s by (simp split: option.splits)
  then show ?thesis
    using assms(3) by (simp add: get_retention_values retention_save_def useUpdateRetention_def hook_simps)
qed

theorem retention_follows_tenant_witness:
  "obj_get (retention_values (retention_run [Render (Some ''a'') (Some [(''events'', JNum 30)]), EditStore ''metrics'' (Some 7),
     Render (Some ''b'') (Some [(''metrics'', JNum 90)])] retention_initial)) ''metrics'' = Some (JNum 90)"
proof -
  have ne: "rt_seededFor (retention_run [Render (Some ''a'') (Some [(''events'', JNum 30)]), EditStore ''metrics'' (Some 7)] retention_initial) \<noteq> Some ''b''"
    by (simp add: retention_run_def retention_effect_def edit_store_def retention_initial_def)
  have st: "''metrics'' \<in> set STORES" by (simp add: STORES_def)
  show ?thesis using retention_follows_tenant [OF _ ne st refl, of "[]"] by (simp add: obj_get_def)
qed

end
