(* ===== verification/ReportViews.thy ===== *)
theory ReportViews
  imports View Dictionaries Reports Monitoring
begin

text \<open>
  What the report pages show: the settings form with the section switches and the logo
  (\<^verbatim>\<open>pages/ReportSettingsPage.tsx\<close>), the retention card (\<^verbatim>\<open>retention/RetentionCard.tsx\<close>), the editor of a
  delivery schedule (\<^verbatim>\<open>pages/ReportSchedulePage.tsx\<close>) and the list of reports with the default period
  (\<^verbatim>\<open>pages/ReportsPage.tsx\<close>). Handlers and state are those of \<open>Reports\<close>. The browser formats dates
  (\<open>fmt\<close>); going back a number of days on the local calendar (\<open>setDate\<close>) is the parameter \<open>days_back\<close>.
\<close>

section \<open>Report settings\<close>

definition sectionLabel :: "string \<Rightarrow> string" where
  "sectionLabel key = ''t.reports.sections.'' @ key"

definition section_switches :: "bool obj \<Rightarrow> 'e elem list" where
  "section_switches sections = map (\<lambda>k. Toggle (sectionLabel k) (the (obj_get sections k))) REPORT_SECTION_KEYS"

definition languageOptions :: "(string \<times> string) list option \<Rightarrow> (string \<times> string) list" where
  "languageOptions languages = map (\<lambda>(code, name). (code, name)) (nullish_or languages [])"

datatype settings_event = SaveSettings | UploadLogo | DeleteLogo

record settings_pending =
  sq_update :: bool
  sq_upload :: bool
  sq_delete :: bool

definition ReportSettingsForm ::
  "string \<Rightarrow> string option \<Rightarrow> (string \<times> string) list option \<Rightarrow> report_settings remote \<Rightarrow> settings_pending \<Rightarrow> logo_state
    \<Rightarrow> settings_form \<Rightarrow> settings_event elem list" where
  "ReportSettingsForm base activeId languages q p logo s =
     (if rm_loading q then [Loader]
      else if rm_error q then [Text ''t.errors.reportSettingsLoad'']
      else let hasLogo = (case rm_data q of None \<Rightarrow> False | Some d \<Rightarrow> rd_has_logo d) in
        [Title ''t.reports.settings.pageTitle'', Field ''t.reports.settings.title'' (sg_title s),
         Field ''t.reports.settings.owner'' (sg_owner s), Field ''t.reports.settings.timezone'' (sg_timezone s),
         Field ''t.reports.settings.fromEmail'' (sg_from_email s),
         Choice ''t.reports.settings.language'' (languageOptions languages) (Some (sg_language s)),
         Title ''t.reports.sections.title'', Text ''t.reports.sections.description'']
        @ section_switches (sg_sections s)
        @ [Busy_button ''t.reports.settings.save'' (sq_update p) True SaveSettings, Title ''t.reports.settings.logo'',
           Text (if hasLogo then ''t.reports.settings.hasLogo'' else ''t.reports.settings.noLogo'')]
        @ (case logoPreviewUrl base (rm_data q) activeId logo of Some u \<Rightarrow> [Image u] | None \<Rightarrow> [])
        @ [Busy_button ''t.reports.settings.upload'' (sq_upload p) (lg_file logo \<noteq> None) UploadLogo]
        @ onlyif hasLogo [Busy_button ''t.reports.settings.remove'' (sq_delete p) True DeleteLogo])"

section \<open>Retention\<close>

record retention_warning =
  rw_frequency :: string
  rw_range_days :: int
  rw_limiting_store :: string
  rw_bound :: int

record retention_out =
  ro_overrides :: "json obj"
  ro_defaults :: "json obj option"
  ro_warnings :: "retention_warning list option"

datatype retention_click = SaveRetention

definition warning_text :: "string \<Rightarrow> retention_warning \<Rightarrow> string" where
  "warning_text x w = retentionWarning x (rw_frequency w) (rw_range_days w) (rw_limiting_store w) (rw_bound w)"

definition store_field :: "json obj \<Rightarrow> retention_state \<Rightarrow> string \<Rightarrow> retention_click elem list" where
  "store_field defaults s store =
     [Field (''t.retention.stores.'' @ store) (case the (obj_get (rt_draft s) store) of None \<Rightarrow> [] | Some n \<Rightarrow> show_int n)]
     @ (case inherit_hint defaults ''t.retention.inheritHint'' store of None \<Rightarrow> [] | Some h \<Rightarrow> [Text h])"

definition RetentionCard :: "string \<Rightarrow> retention_out remote \<Rightarrow> bool \<Rightarrow> retention_state \<Rightarrow> retention_click elem list" where
  "RetentionCard warning q saving s =
     (if rm_loading q then [Loader]
      else if rm_error q then [Text ''t.errors.retentionLoad'']
      else let defaults = nullish_or (Option.bind (rm_data q) ro_defaults) [];
               warnings = nullish_or (Option.bind (rm_data q) ro_warnings) []
        in [Title ''t.retention.title'', Text ''t.retention.subtitle'']
           @ onlyif (warnings \<noteq> []) (Alert ''orange'' ''t.retention.warningTitle'' # map (\<lambda>w. Text (warning_text warning w)) warnings)
           @ concat (map (store_field defaults s) STORES)
           @ [Busy_button ''t.retention.save'' saving True SaveRetention])"

definition retention_saved :: "mutation \<Rightarrow> api_result \<Rightarrow> notice" where
  "retention_saved mu r = (case m_fn mu r of Inr _ \<Rightarrow> Info ''t.retention.saved'' | Inl _ \<Rightarrow> Failure ''t.errors.retentionSave'')"

section \<open>Delivery schedules\<close>

definition WEEKDAYS :: "(string \<times> string) list" where
  "WEEKDAYS = [(''0'', ''Monday''), (''1'', ''Tuesday''), (''2'', ''Wednesday''), (''3'', ''Thursday''), (''4'', ''Friday''),
     (''5'', ''Saturday''), (''6'', ''Sunday'')]"

datatype schedule_event = SaveSchedule | SendNow

definition ScheduleEditor ::
  "string option \<Rightarrow> schedule_out option \<Rightarrow> bool \<Rightarrow> bool \<Rightarrow> schedule_editor \<Rightarrow> schedule_event elem list" where
  "ScheduleEditor deviceId existing saving sending s =
     [Toggle ''Enabled'' (se_enabled s),
      Choice ''Frequency'' [(''weekly'', ''Weekly''), (''monthly'', ''Monthly (1st)''), (''on_demand'', ''On demand only'')]
        (Some (se_frequency s))]
     @ onlyif (se_frequency s = ''weekly'') [Choice ''Day of week'' WEEKDAYS (se_weekday s)]
     @ onlyif (se_frequency s \<noteq> ''on_demand'') [Field ''Hour (UTC)'' (show_int (se_hour s))]
     @ [Field ''Recipients (one per line)'' (se_recipients s)]
     @ onlyif (deviceId \<noteq> None)
         (Toggle ''t.reports.sections.customizeForDevice'' (se_customize s)
          # onlyif (se_customize s) (Text ''t.reports.sections.description'' # section_switches (se_sections s)))
     @ [Busy_button ''Save'' saving True SaveSchedule]
     @ onlyif (existing \<noteq> None) [Busy_button ''Send now'' sending True SendNow]"

definition schedule_saved :: "mutation \<Rightarrow> api_result \<Rightarrow> notice" where
  "schedule_saved mu r = (case m_fn mu r of Inr _ \<Rightarrow> Info ''Schedule saved'' | Inl _ \<Rightarrow> Failure ''Failed to save schedule'')"

definition send_queued :: "mutation \<Rightarrow> api_result \<Rightarrow> notice" where
  "send_queued mu r = (case m_fn mu r of Inr _ \<Rightarrow> Info ''Report send queued'' | Inl _ \<Rightarrow> Failure ''Failed to queue send'')"

section \<open>The list of reports\<close>

text \<open>\<open>d.toISOString().replace("T", " ").slice(0, 19)\<close>.\<close>

definition picker_form :: "int \<Rightarrow> string" where
  "picker_form t = take 19 (replace_first (toISOString t) ''T'' '' '')"

definition defaultFrom :: "(int \<Rightarrow> int \<Rightarrow> int) \<Rightarrow> int \<Rightarrow> string" where
  "defaultFrom days_back now = picker_form (days_back 30 now)"

definition defaultTo :: "int \<Rightarrow> string" where
  "defaultTo now = picker_form now"

record report_out =
  ry_id :: string
  ry_period_from :: string
  ry_period_to :: string
  ry_kind :: string
  ry_created_at :: string
  ry_size :: nat

datatype reports_event = Generate | DownloadReport string

definition report_row :: "(string \<Rightarrow> string) \<Rightarrow> bool \<Rightarrow> reports_state \<Rightarrow> report_out \<Rightarrow> reports_event elem list" where
  "report_row fmt downloading s r =
     [Text (fmt (ry_period_from r) @ '' '' @ ndash @ '' '' @ fmt (ry_period_to r)),
      (if ry_kind r = ''on_demand'' then Badge ''blue'' ''t.reports.page.kindOnDemand'' else Badge ''green'' ''t.reports.page.kindScheduled''),
      Text (fmt (ry_created_at r)), Text (humanBytes (ry_size r)),
      Busy_button ''t.reports.page.download'' (downloading \<and> rp_pendingDownload s = Some (ry_id r)) True (DownloadReport (ry_id r))]"

definition generate_card :: "bool \<Rightarrow> string option \<Rightarrow> string option \<Rightarrow> reports_event elem list" where
  "generate_card generating from to =
     [Text ''t.reports.page.generate'', Field ''t.reports.page.from'' (nullish_or from []), Field ''t.reports.page.to'' (nullish_or to []),
      Busy_button ''t.reports.page.generate'' generating (generate_enabled from to) Generate]"

definition reports_list :: "(string \<Rightarrow> string) \<Rightarrow> bool \<Rightarrow> reports_state \<Rightarrow> report_out list remote \<Rightarrow> reports_event elem list" where
  "reports_list fmt downloading s q =
     onlyif (rm_loading q) [Loader]
     @ onlyif (rm_error q) [Text ''t.errors.reportsLoad'']
     @ onlyif (\<not> rm_loading q \<and> \<not> rm_error q)
         (if remote_list q = [] then [Text ''t.reports.page.none'']
          else [Table [''t.reports.page.period'', ''t.reports.page.kind'', ''t.reports.page.created'', ''t.reports.page.size'',
                       ''t.reports.page.download''] (map (\<lambda>r. Row (report_row fmt downloading s r)) (remote_list q))])"

definition ReportsPage ::
  "(string \<Rightarrow> string) \<Rightarrow> permissions \<Rightarrow> bool \<Rightarrow> bool \<Rightarrow> string option \<Rightarrow> string option \<Rightarrow> reports_state \<Rightarrow> report_out list remote
    \<Rightarrow> reports_event elem list" where
  "ReportsPage fmt perms generating downloading from to s q =
     [Title ''t.reports.page.title''] @ onlyif (isOperator perms) (generate_card generating from to)
     @ reports_list fmt downloading s q"

definition report_generated :: "mutation \<Rightarrow> api_result \<Rightarrow> notice" where
  "report_generated mu r = (case m_fn mu r of Inr _ \<Rightarrow> Info ''t.reports.page.generated'' | Inl _ \<Rightarrow> Failure ''t.errors.reportGenerate'')"

section \<open>What is proved\<close>

text \<open>The period offered first is displaced by the distance of the local zone from UTC: the fields of the
  picker are filled with the UTC clock and read back as local time. If the zone is \<open>off\<close> milliseconds ahead
  of UTC, the report ends that much before now (to the second).\<close>

lemma default_period_displaced:
  assumes "parse_local (replace_first (defaultTo now) '' '' ''T'') = Some (now div 1000 * 1000 - off)"
    and "parse_local (replace_first (defaultFrom days_back now) '' '' ''T'') = Some (days_back 30 now div 1000 * 1000 - off)"
    and "struthy (Some (defaultTo now))" and "struthy (Some (defaultFrom days_back now))"
  shows "generate_range parse_local (Some (defaultFrom days_back now)) (Some (defaultTo now)) =
    Some (toISOString (days_back 30 now div 1000 * 1000 - off), toISOString (now div 1000 * 1000 - off))"
  using assms by (simp add: generate_range_def generate_enabled_def picked_iso_def)

text \<open>A read-only user is offered no generation, and the button is enabled exactly when the handler has
  both dates.\<close>

lemma generate_click:
  "Generate \<in> set (clicks (ReportsPage fmt perms generating downloading from to s q)) \<longleftrightarrow>
     isOperator perms \<and> \<not> generating \<and> generate_enabled from to"
  by (auto simp: ReportsPage_def generate_card_def reports_list_def report_row_def)

end
