(* ===== verification/DeviceViews.thy ===== *)
theory DeviceViews
  imports View Dictionaries DevicePages Monitoring ReportViews
begin

text \<open>
  What the pages of a device and the log search render (\<^verbatim>\<open>components/LogForwardingCard.tsx\<close>,
  \<^verbatim>\<open>firmware/FirmwareActions.tsx\<close>, \<^verbatim>\<open>plugins/PluginsTab.tsx\<close>, \<^verbatim>\<open>pages/DevicesPage.tsx\<close>,
  \<^verbatim>\<open>components/DeviceCreateModal.tsx\<close>, \<^verbatim>\<open>config/ChangesPanel.tsx\<close>,
  \<^verbatim>\<open>config/ProposeAliasModal.tsx\<close>, \<^verbatim>\<open>catalog/CatalogEditorTab.tsx\<close>, \<^verbatim>\<open>pages/LogsPage.tsx\<close>):
  the elements with the events their buttons raise, over the states and the handlers of the components
  theories. What the date library computes from the clock is an argument.
\<close>

section \<open>Log forwarding\<close>

record lf_out =
  lo_enabled :: bool
  lo_revoked_at :: "string option"
  lo_cert_fingerprint :: "string option"
  lo_cert_not_after :: "string option"
  lo_last_log_at :: "string option"

text \<open>The date library on a date: whole days from now, whether it has passed, its day, and the whole
  minutes since it.\<close>

record lf_clock =
  ck_days :: "string \<Rightarrow> int"
  ck_isBefore :: "string \<Rightarrow> bool"
  ck_day :: "string \<Rightarrow> string"
  ck_minutes :: "string \<Rightarrow> int"

datatype lf_event = AskSwitch lf_action | AskLifecycle lf_action | CloseSwitch | CloseLifecycle
  | RunSwitch lf_action | RunLifecycle lf_action

definition lf_details :: "lf_clock \<Rightarrow> lf_out option \<Rightarrow> lf_event elem list" where
  "lf_details ck s =
     (let fingerprint = Option.bind s lo_cert_fingerprint; not_after = Option.bind s lo_cert_not_after;
          last = Option.bind s lo_last_log_at;
          live = liveness last (if struthy last then ck_minutes ck (the last) else 0) in
      [Text ''mTLS TLS syslog'', Text (''Cert '' @ nullish_or (map_option (take 12) fingerprint) [] @ hellip)]
      @ onlyif (struthy not_after)
          (let (color, word) = lf_expiry (ck_days ck (the not_after)) (ck_isBefore ck (the not_after)) in
           [Badge color (word @ '' '' @ ck_day ck (the not_after))])
      @ [Badge (fst live) (snd live)])"

definition lf_button :: "(lf_action \<Rightarrow> bool) \<Rightarrow> lf_action \<Rightarrow> lf_event elem" where
  "lf_button pending a =
     (case a of Enable \<Rightarrow> Busy_button ''Enable'' (pending Enable) True (AskSwitch Enable)
      | Rotate \<Rightarrow> Busy_button ''Rotate cert'' (pending Rotate) True (AskLifecycle Rotate)
      | Revoke \<Rightarrow> Busy_button ''Revoke'' (pending Revoke) True (AskLifecycle Revoke)
      | Disable \<Rightarrow> Busy_button ''Disable'' (pending Disable) True (AskSwitch Disable))"

definition lf_switch_dialog :: "lf_state \<Rightarrow> lf_event elem list" where
  "lf_switch_dialog st =
     confirm_dialog (lf_confirm st \<noteq> None)
       (if lf_confirm st = Some Enable then ''Enable log forwarding?'' else ''Disable log forwarding?'')
       (if lf_confirm st = Some Enable
        then ''This imports a client certificate and configures a TLS syslog target on the device.''
        else ''This removes the syslog target and certificate from the device.'')
       None None CloseSwitch (RunSwitch (the (lf_confirm st)))"

definition lf_lifecycle_dialog :: "lf_state \<Rightarrow> lf_event elem list" where
  "lf_lifecycle_dialog st =
     confirm_dialog (lf_lifecycle st \<noteq> None)
       (if lf_lifecycle st = Some Rotate then ''Rotate certificate?'' else ''Revoke certificate?'')
       (if lf_lifecycle st = Some Rotate
        then ''Issues a new client certificate and swaps it on the device '' @ mdash @ '' no logs are lost.''
        else ''Removes the certificate and marks it revoked. Re-enabling will issue a brand-new certificate.'')
       None None CloseLifecycle (RunLifecycle (the (lf_lifecycle st)))"

definition LogForwardingCard ::
  "lf_clock \<Rightarrow> bool \<Rightarrow> lf_out remote \<Rightarrow> (lf_action \<Rightarrow> bool) \<Rightarrow> (lf_action \<Rightarrow> bool) \<Rightarrow> lf_state \<Rightarrow> lf_event elem list" where
  "LogForwardingCard ck canWrite q pending failed st =
     (if rm_loading q then [Loader]
      else let s = rm_data q; enabled = nullish_or (map_option lo_enabled s) False;
               (color, word) = lf_status enabled (Option.bind s lo_revoked_at) in
        [Title ''t.logForwarding.tab'', Badge color word]
        @ onlyif enabled (lf_details ck s)
        @ onlyif (failed Enable \<or> failed Disable \<or> failed Rotate \<or> failed Revoke)
            [Alert ''red'' ''The device rejected the change. Please retry.'']
        @ map (lf_button pending) (lf_buttons canWrite enabled)
        @ lf_switch_dialog st @ lf_lifecycle_dialog st)"

text \<open>The effect of a click on the two confirmations.\<close>

fun lf_step :: "lf_event \<Rightarrow> lf_state \<Rightarrow> lf_state" where
  "lf_step (AskSwitch a) st = st\<lparr>lf_confirm := Some a\<rparr>"
| "lf_step (AskLifecycle a) st = st\<lparr>lf_lifecycle := Some a\<rparr>"
| "lf_step CloseSwitch st = st\<lparr>lf_confirm := None\<rparr>"
| "lf_step CloseLifecycle st = st\<lparr>lf_lifecycle := None\<rparr>"
| "lf_step (RunSwitch a) st = lf_run Rejected st"
| "lf_step (RunLifecycle a) st = lf_runLifecycle Rejected st"

fun lf_sent :: "string option \<Rightarrow> string \<Rightarrow> lf_event \<Rightarrow> mutation list" where
  "lf_sent activeId deviceId (RunSwitch a) = [lf_mutation activeId deviceId a]"
| "lf_sent activeId deviceId (RunLifecycle a) = [lf_mutation activeId deviceId a]"
| "lf_sent activeId deviceId _ = []"

section \<open>Firmware\<close>

record fw_result = fw_check +
  fr_download_size :: string
  fr_needs_reboot :: bool

record fw_action =
  fa_kind :: string
  fa_target :: string
  fa_status :: string
  fa_scheduled_at :: "string option"
  fa_created_at :: string
  fa_version :: "string option"
  fa_error :: "string option"

datatype fw_event = CheckFirmware | OpenFirmware fw_kind string string | CancelFirmware | Fire bool

definition fw_result_card :: "fw_result option \<Rightarrow> fw_event elem list" where
  "fw_result_card result =
     (case result of None \<Rightarrow> []
      | Some r \<Rightarrow> let updates = hasUpdates (map_option fw_check.truncate result) in
         [Text ((if updates then ''t.firmware.updatesAvailable'' else ''t.firmware.upToDate'')
             @ (if fc_updates r > 0 then '' ('' @ show_int (fc_updates r) @ '')'' else [])),
          Text (''t.firmware.downloadSize: '' @ or_else (fr_download_size r) ''t.common.none'' @ '' '' @ [CHR 0xB7]
             @ '' t.firmware.rebootNeeded: '' @ (if fr_needs_reboot r then ''yes'' else ''no'')),
          Button ''t.firmware.update'' updates (OpenFirmware FirmwareUpdate [] ''t.firmware.updateConfirm'')]
         @ onlyif (fc_new_major r)
             [Button ''t.firmware.upgrade'' True (OpenFirmware FirmwareUpgrade [] ''t.firmware.upgradeConfirm''),
              Text ''t.firmware.newMajor''])"

definition fw_plugin_card :: "string \<Rightarrow> fw_event elem list" where
  "fw_plugin_card pluginName =
     [Title ''t.firmware.plugins'', Field ''t.firmware.pluginName'' pluginName,
      Button ''t.firmware.install'' (js_trim pluginName \<noteq> [])
        (OpenFirmware PluginInstall (js_trim pluginName) ''t.firmware.installConfirm''),
      Button ''t.firmware.remove'' (js_trim pluginName \<noteq> [])
        (OpenFirmware PluginRemove (js_trim pluginName) ''t.firmware.removeConfirm'')]"

definition fw_action_row :: "fw_action \<Rightarrow> fw_event elem list" where
  "fw_action_row a =
     [Text (fa_kind a @ (if fa_target a = [] then [] else '': '' @ fa_target a)), Badge [] (fa_status a),
      Text (nullish_or (fa_scheduled_at a) (fa_created_at a)),
      Text (nullish_or (fa_version a) (nullish_or (fa_error a) []))]"

definition fw_actions_card :: "fw_action list option \<Rightarrow> fw_event elem list" where
  "fw_actions_card actions =
     Title ''t.firmware.recentActions''
     # (if nullish_or actions [] \<noteq> []
        then [Table [''t.firmware.kind'', ''t.firmware.status'', ''t.firmware.when'', ''t.firmware.result'']
                (map (\<lambda>a. Row (fw_action_row a)) (nullish_or actions []))]
        else [Text ''t.firmware.noActions''])"

definition fw_confirm :: "bool \<Rightarrow> firmware_state \<Rightarrow> fw_event elem list" where
  "fw_confirm creating s =
     (case fw_pending s of None \<Rightarrow> []
      | Some p \<Rightarrow> [Dialog ''t.confirm.title''
          [Text (fp_confirm p), Field ''t.firmware.scheduleAt'' (nullish_or (fw_when s) []),
           Button ''t.confirm.cancel'' True CancelFirmware,
           Busy_button ''t.firmware.runNow'' creating True (Fire False),
           Busy_button ''t.firmware.schedule'' creating (struthy (fw_when s)) (Fire True)]])"

definition FirmwareActions ::
  "bool \<Rightarrow> bool \<Rightarrow> fw_result option \<Rightarrow> fw_action list option \<Rightarrow> firmware_state \<Rightarrow> fw_event elem list" where
  "FirmwareActions checking creating result actions s =
     [Title ''t.firmware.title'', Busy_button ''t.firmware.check'' checking True CheckFirmware]
     @ fw_result_card result @ fw_plugin_card (fw_pluginName s) @ fw_actions_card actions @ fw_confirm creating s"

definition fw_checked :: "mutation \<Rightarrow> api_result \<Rightarrow> notice list" where
  "fw_checked mu r = (case m_fn mu r of Inl _ \<Rightarrow> [Failure ''t.firmware.checkFailed''] | Inr _ \<Rightarrow> [])"

section \<open>Plugins\<close>

datatype plugin_event = AskPlugin bool string | Configure string | CancelPlugin | RunPlugin | ProposePlugin

definition plugin_row :: "bool \<Rightarrow> string obj \<Rightarrow> plugin_info \<Rightarrow> plugin_event elem list" where
  "plugin_row canWrite models p =
     [Text (plugin_title (pi_name p)), Text (pi_name p),
      if pi_installed p then Badge ''green'' ''t.plugins.installed'' else Badge ''gray'' ''t.plugins.notInstalled'']
     @ onlyif (pi_locked p) [Badge ''yellow'' ''t.plugins.locked'']
     @ [Text (or_else (pi_version p) mdash)]
     @ onlyif (canWrite \<and> \<not> pi_locked p)
         [if pi_installed p then Button ''t.plugins.remove'' True (AskPlugin False (pi_name p))
          else Button ''t.plugins.install'' True (AskPlugin True (pi_name p))]
     @ onlyif (canWrite \<and> pi_installed p \<and> obj_has models (pi_name p))
         [Button ''t.plugins.configure'' True (Configure (the (obj_get models (pi_name p))))]"

definition plugin_dialog :: "bool \<Rightarrow> plugins_state \<Rightarrow> plugin_event elem list" where
  "plugin_dialog creating s =
     (case pl_confirm s of None \<Rightarrow> []
      | Some (install, name) \<Rightarrow>
          [Dialog (if install then ''t.plugins.installConfirm'' else ''t.plugins.removeConfirm'')
            [Text (plugin_title name), Button ''t.common.cancel'' True CancelPlugin,
             Busy_button (if install then ''t.plugins.install'' else ''t.plugins.remove'') creating True RunPlugin]])"

text \<open>The drawer shows the catalog form of the plugin's model: its notice, or its inputs with the propose
  button of an editable model.\<close>

fun widget_elem :: "string \<Rightarrow> widget \<Rightarrow> 'e elem" where
  "widget_elem l (Switch b) = Toggle l b"
| "widget_elem l (SelectInput options v) = Choice l options (Some v)"
| "widget_elem l (MultiSelect options vs) = Choices l options vs"
| "widget_elem l (NumberInput v) = Field l v"
| "widget_elem l (TextInput v) = Field l v"

fun form_elems :: "'e \<Rightarrow> form_view \<Rightarrow> 'e elem list" where
  "form_elems e ReadOnlyNotice = [Alert ''yellow'' ''t.catalog.readOnly'']"
| "form_elems e (Form unreachable inputs grids editable) =
     onlyif unreachable [Alert ''red'' ''t.catalog.unreachable''] @ map (\<lambda>(path, w). widget_elem path w) inputs
     @ map Text grids @ onlyif editable [Button ''t.catalog.propose'' True e]"

definition plugin_drawer :: "form_view remote \<Rightarrow> plugins_state \<Rightarrow> plugin_event elem list" where
  "plugin_drawer live s =
     onlyif (pl_configure s \<noteq> None)
       [Dialog ''t.plugins.configureTitle''
          (onlyif (rm_loading live) [Loader] @ (case rm_data live of None \<Rightarrow> [] | Some fv \<Rightarrow> form_elems ProposePlugin fv))]"

definition PluginsTab ::
  "(string \<Rightarrow> string \<Rightarrow> int) \<Rightarrow> bool \<Rightarrow> plugin_info list remote \<Rightarrow> (string \<times> string) list option \<Rightarrow> string \<Rightarrow> bool
    \<Rightarrow> form_view remote \<Rightarrow> plugins_state \<Rightarrow> plugin_event elem list" where
  "PluginsTab localeCompare canWrite q models search creating live s =
     (if rm_loading q then [Loader] else if rm_error q then [Text ''t.plugins.loadFailed'']
      else let rows = plugin_rows localeCompare (rm_data q) search in
        [Title ''t.plugins.title'', Field ''t.plugins.search'' search, Text ''t.plugins.subtitle'',
         Table [''t.plugins.name'', ''t.plugins.status'', ''t.plugins.version'', []]
           (map (\<lambda>p. Row (plugin_row canWrite (modelByPkg models) p)) rows)]
        @ onlyif (rows = []) [Text ''t.plugins.empty'']
        @ plugin_dialog creating s @ plugin_drawer live s)"

section \<open>The device list\<close>

datatype devices_event = AddDevice | OpenDevice string | CreateDevice

definition devices_row :: "device_row \<Rightarrow> devices_event elem list" where
  "devices_row d =
     [Button (dv_name d) True (OpenDevice (''/devices/'' @ dv_id d)), Text (dv_base_url d),
      Badge (DEVICE_STATUS_COLOR (dv_status d)) (dv_status d), Text (nullish_or (dv_firmware d) ''t.common.none'')]"

definition DeviceCreateModal :: "bool \<Rightarrow> bool \<Rightarrow> device_form \<Rightarrow> devices_event elem list" where
  "DeviceCreateModal opened pending v =
     onlyif opened [Dialog ''t.deviceCreate.title''
       ([Field ''t.deviceCreate.name'' (df_name v), Field ''t.deviceCreate.url'' (df_base_url v),
         Field ''t.deviceCreate.apiKey'' (df_api_key v), Field ''t.deviceCreate.apiSecret'' (df_api_secret v),
         Toggle ''t.deviceCreate.verifyTls'' (df_verify_tls v)]
        @ onlyif (\<not> df_verify_tls v)
            [Alert ''yellow'' ''t.deviceCreate.tlsWarning'', Field ''t.deviceCreate.tlsFingerprintLabel'' (df_tls_fingerprint v)]
        @ [Busy_button ''t.deviceCreate.save'' pending True CreateDevice])]"

definition DevicesPage ::
  "string option \<Rightarrow> device_row list remote \<Rightarrow> bool \<Rightarrow> bool \<Rightarrow> device_form \<Rightarrow> devices_event elem list" where
  "DevicesPage activeId q createOpen pending v =
     [Title ''t.devices.title'', Button ''t.devices.add'' (struthy activeId) AddDevice]
     @ onlyif (rm_loading q) [Loader] @ onlyif (rm_error q) [Text ''t.devices.loadError'']
     @ [Table [''t.devices.colName'', ''t.devices.colUrl'', ''t.devices.colStatus'', ''t.devices.colFirmware'']
          (map (\<lambda>d. Row (devices_row d)) (nullish_or (rm_data q) []))]
     @ onlyif (struthy activeId) (DeviceCreateModal createOpen pending v)"

text \<open>What the reply to a creation does: on success the form is reset and the modal closed, with the
  status of the new device (a string) in the notice; a success without a body throws in the callback and
  changes nothing.\<close>

definition device_status :: "json \<Rightarrow> string" where
  "device_status d = (case field (Some d) ''status'' of Some (JStr st) \<Rightarrow> st | _ \<Rightarrow> ''undefined'')"

definition device_created :: "mutation \<Rightarrow> api_result \<Rightarrow> device_form \<times> bool \<Rightarrow> (device_form \<times> bool) \<times> notice list" where
  "device_created mu r s =
     (case m_fn mu r of
        Inr (Some d) \<Rightarrow> ((device_form_initial, False), [Info (''t.deviceCreate.created ('' @ device_status d @ '')'')])
      | Inr None \<Rightarrow> (s, [])
      | Inl _ \<Rightarrow> (s, [Failure ''t.deviceCreate.createFailed'']))"

section \<open>Proposed changes\<close>

datatype changes_event = CheckDrift | OpenPropose | OpenPreview string | ToggleSchedule string | ApplyNow string
  | ScheduleAt string | CancelOne string | RevertOne string | SubmitAlias

text \<open>The state a row keeps, and the requests it waits for (scheduling, cancelling, reverting).\<close>

record row_state =
  rs_date :: "string option"
  rs_open :: bool
  rs_scheduling :: bool
  rs_cancelling :: bool
  rs_reverting :: bool

definition ChangeRowActions :: "row_state \<Rightarrow> config_change \<Rightarrow> changes_event elem list" where
  "ChangeRowActions st c =
     [Button ''t.config.changes.preview'' True (OpenPreview (cc_id c)),
      Button ''t.config.changes.schedule'' True (ToggleSchedule (cc_id c))]
     @ onlyif (rs_open st)
         [Busy_button ''t.config.changes.applyNow'' (rs_scheduling st) True (ApplyNow (cc_id c)),
          Field ''t.config.changes.pickTime'' (nullish_or (rs_date st) []),
          Busy_button ''t.config.changes.schedule'' (rs_scheduling st) (schedule_enabled (rs_date st)) (ScheduleAt (cc_id c))]
     @ [Busy_button ''t.config.changes.cancel'' (rs_cancelling st) True (CancelOne (cc_id c))]"

definition RevertButton :: "row_state \<Rightarrow> config_change \<Rightarrow> changes_event elem list" where
  "RevertButton st c = [Busy_button ''t.config.changes.revert'' (rs_reverting st) True (RevertOne (cc_id c))]"

definition drift_cell :: "drift_result obj \<Rightarrow> config_change \<Rightarrow> changes_event elem list" where
  "drift_cell drift c =
     (case obj_get drift (cc_id c) of None \<Rightarrow> []
      | Some r \<Rightarrow> let (color, label, tip) = DriftBadge r in
          Badge color label # (case tip of None \<Rightarrow> [] | Some x \<Rightarrow> [Text (''t.config.changes.driftFields'' @ x)]))"

definition change_cells :: "bool \<Rightarrow> drift_result obj \<Rightarrow> (string \<Rightarrow> row_state) \<Rightarrow> config_change \<Rightarrow> changes_event elem list" where
  "change_cells canEdit drift rs c =
     [Text (cc_kind c), Text (cc_operation c), Text (cc_target c), Badge (STATUS_COLOR (cc_status c)) (cc_status c)]
     @ drift_cell drift c
     @ onlyif (struthy (cc_reverts c)) [Text (''t.config.changes.reverts'' @ take 7 (the (cc_reverts c)))]
     @ [Text (nullish_or (cc_scheduled_at c) mdash)]
     @ onlyif canEdit (onlyif (cc_status c \<in> ACTIONABLE) (ChangeRowActions (rs (cc_id c)) c)
                       @ onlyif (cc_revertible c) (RevertButton (rs (cc_id c)) c))"

text \<open>The list of changes, as it shows its query.\<close>

definition changes_list ::
  "bool \<Rightarrow> drift_result obj \<Rightarrow> (string \<Rightarrow> row_state) \<Rightarrow> config_change list remote \<Rightarrow> changes_event elem list" where
  "changes_list canEdit drift rs q =
     onlyif (rm_loading q) [Loader] @ onlyif (rm_error q) [Alert ''red'' ''t.errors.configChangesLoad'']
     @ onlyif (rm_data q = Some []) [Text ''t.config.changes.none'']
     @ onlyif (nullish_or (rm_data q) [] \<noteq> [])
         [Table ([''t.config.changes.colKind'', ''t.config.changes.colOperation'', ''t.config.changes.colTarget'',
                  ''t.config.changes.colStatus'', ''t.config.changes.colScheduled''] @ onlyif canEdit [[]])
            (map (\<lambda>c. Row (change_cells canEdit drift rs c)) (nullish_or (rm_data q) []))]"

definition ALIAS_TYPES :: "string list" where
  "ALIAS_TYPES = [''host'', ''network'', ''port'', ''url'']"

definition ProposeAliasModal :: "bool \<Rightarrow> bool \<Rightarrow> alias_form \<Rightarrow> changes_event elem list" where
  "ProposeAliasModal opened pending v =
     onlyif opened [Dialog ''t.config.changes.propose''
       [Choice [] [(''add'', ''t.config.changes.add''), (''set'', ''t.config.changes.set''), (''delete'', ''t.config.changes.delete'')]
          (Some (af_operation v)),
        Field ''t.config.changes.name'' (af_name v),
        Choice ''t.config.changes.type'' (map (\<lambda>x. (x, x)) ALIAS_TYPES) (Some (af_type v)),
        Field ''t.config.changes.content'' (af_content v),
        Busy_button ''t.config.changes.create'' pending True SubmitAlias]]"

text \<open>The preview shows the reply as formatted JSON; \<open>stringify\<close> is the host's.\<close>

definition PreviewModal :: "(json \<Rightarrow> string) \<Rightarrow> string option \<Rightarrow> json option remote \<Rightarrow> changes_event elem list" where
  "PreviewModal stringify previewId q =
     onlyif (struthy previewId) [Dialog ''t.config.changes.preview''
       (onlyif (rm_loading q) [Loader] @ onlyif (rm_error q) [Text ''t.errors.configChangeAction'']
        @ (case rm_data q of Some (Some v) \<Rightarrow> [Text (stringify v)] | _ \<Rightarrow> []))]"

record changes_view =
  cv_drifting :: bool
  cv_drift :: "(bool \<times> drift_result list) option"
  cv_rows :: "string \<Rightarrow> row_state"
  cv_proposeOpen :: bool
  cv_proposing :: bool
  cv_alias :: alias_form

text \<open>The panel; the permission comes from the session, and a finished drift check is whether the device
  was reached with the results.\<close>

definition ChangesPanel_view ::
  "bool \<Rightarrow> changes_view \<Rightarrow> changes_event elem list \<Rightarrow> config_change list remote \<Rightarrow> changes_event elem list" where
  "ChangesPanel_view canEdit v preview q =
     [Title ''t.config.changes.title'', Busy_button ''t.config.changes.checkDrift'' (cv_drifting v) True CheckDrift]
     @ onlyif canEdit [Button ''t.config.changes.propose'' True OpenPropose]
     @ onlyif (map_option fst (cv_drift v) = Some False) [Alert ''orange'' ''t.config.changes.driftUnreachable'']
     @ changes_list canEdit (driftByChange (map_option snd (cv_drift v))) (cv_rows v) q
     @ ProposeAliasModal (cv_proposeOpen v) (cv_proposing v) (cv_alias v) @ preview"

section \<open>The catalog editor\<close>

record editor_queries =
  eq_menu :: "menu_node list option remote"
  eq_diff :: "(string option \<times> string list \<times> diff_data) option"
  eq_map :: "(string \<times> string option \<times> map_node) remote"
  eq_model :: "catalog_live remote"

text \<open>The left pane: the menu with its search and the choice of the version to compare with, or the
  configuration map with the banner of a stale snapshot. \<open>tx\<close> is the text of the banner.\<close>

datatype editor_pane =
    MenuPane string "(string list \<times> string option) option" "menu_item list"
  | MapPane bool "string option" "map_view option"

record editor_card =
  ec_hint :: bool
  ec_loading :: bool
  ec_form :: "(string \<times> form_view) option"

datatype editor_view = EditorLoading | EditorEmpty | Editor pane editor_pane editor_card

definition editor_activeFrom :: "editor_queries \<Rightarrow> editor_state \<Rightarrow> string option" where
  "editor_activeFrom qs s = activeFrom s (map_option fst (eq_diff qs))"

definition editor_menu_pane ::
  "string \<Rightarrow> (string list \<Rightarrow> string set) \<Rightarrow> editor_queries \<Rightarrow> editor_state \<Rightarrow> menu_node list \<Rightarrow> editor_pane" where
  "editor_menu_pane baseUrl expanded qs s menu =
     (let baselines = nullish_or (map_option (\<lambda>(_, bs, _). bs) (eq_diff qs)) [] in
      MenuPane (ed_search s) (if baselines \<noteq> [] then Some (baselines, editor_activeFrom qs s) else None)
        (CatalogMenuTree baseUrl (search_query (ed_search s)) (ed_selected s)
           (if struthy (editor_activeFrom qs s) then map_option (\<lambda>(_, _, d). d) (eq_diff qs) else None) expanded [] menu))"

definition editor_map_pane :: "string \<Rightarrow> (string \<Rightarrow> bool) \<Rightarrow> editor_queries \<Rightarrow> editor_pane" where
  "editor_map_pane tx toggled qs =
     MapPane (rm_loading (eq_map qs))
       (case rm_data (eq_map qs) of Some (source, taken_at, _) \<Rightarrow>
            if source = ''snapshot'' then Some (staleBanner tx taken_at) else None | None \<Rightarrow> None)
       (map_option (\<lambda>(_, _, root). ConfigMapTree toggled root) (rm_data (eq_map qs)))"

definition editor_card_of :: "editor_queries \<Rightarrow> editor_state \<Rightarrow> form_state \<Rightarrow> editor_card" where
  "editor_card_of qs s fm =
     (let selected = struthy (ed_selected s) in
      \<lparr>ec_hint = (\<not> selected), ec_loading = (selected \<and> rm_loading (eq_model qs)),
       ec_form = (if selected then map_option (\<lambda>l. (cm_id (cl_model l), CatalogModelForm_view l fm)) (rm_data (eq_model qs))
                  else None)\<rparr>)"

definition CatalogEditorTab ::
  "string \<Rightarrow> string \<Rightarrow> (string list \<Rightarrow> string set) \<Rightarrow> (string \<Rightarrow> bool) \<Rightarrow> editor_queries \<Rightarrow> editor_state \<Rightarrow> form_state \<Rightarrow> editor_view" where
  "CatalogEditorTab tx baseUrl expanded toggled qs s fm =
     (if rm_loading (eq_menu qs) then EditorLoading
      else case rm_data (eq_menu qs) of
        None \<Rightarrow> EditorEmpty
      | Some m \<Rightarrow> if nullish_or m [] = [] then EditorEmpty
          else Editor (ed_pane s)
            (if ed_pane s = Menu then editor_menu_pane baseUrl expanded qs s (nullish_or m []) else editor_map_pane tx toggled qs)
            (editor_card_of qs s fm))"

section \<open>Log search\<close>

datatype logs_event = RunSearch | LoadMore | ShowRaw json | CloseRaw

text \<open>The initial period: the last day, as the date library prints local times.\<close>

definition mantineDaysAgo :: "(int \<Rightarrow> string) \<Rightarrow> (int \<Rightarrow> int \<Rightarrow> int) \<Rightarrow> int \<Rightarrow> int \<Rightarrow> string" where
  "mantineDaysAgo format subtract_days now days = format (subtract_days now days)"

definition log_initial :: "(int \<Rightarrow> string) \<Rightarrow> (int \<Rightarrow> int \<Rightarrow> int) \<Rightarrow> int \<Rightarrow> log_state" where
  "log_initial format subtract_days now =
     \<lparr>ls_query = [], ls_deviceId = None, ls_frm = Some (mantineDaysAgo format subtract_days now 1), ls_to = Some (format now),
      ls_hits = [], ls_cursor = None, ls_total = None, ls_searched = False\<rparr>"

definition hit_text :: "json \<Rightarrow> string \<Rightarrow> string" where
  "hit_text h k = nullish_or (str_field (field (Some h) k)) []"

definition log_row :: "(string \<times> string) list option \<Rightarrow> json \<Rightarrow> logs_event elem list" where
  "log_row devices h =
     [Button (hit_text h ''timestamp'') True (ShowRaw (nullish_or (field (Some h) ''source'') JNull)),
      Text (deviceName devices (hit_text h ''device_id'')), Text (hit_text h ''program''), Text (hit_text h ''message'')]"

definition log_results :: "(string \<times> string) list option \<Rightarrow> bool \<Rightarrow> log_state \<Rightarrow> logs_event elem list" where
  "log_results devices pending s =
     onlyif (ls_searched s)
       ([Table [''Time'', ''Device'', ''Program'', ''Message''] (map (\<lambda>h. Row (log_row devices h)) (ls_hits s))]
        @ onlyif (ls_cursor s \<noteq> None) [Busy_button ''Load more'' pending True LoadMore])"

definition LogsPage ::
  "(json \<Rightarrow> string) \<Rightarrow> bool \<Rightarrow> (string \<times> string) list option \<Rightarrow> bool \<Rightarrow> bool \<Rightarrow> json option \<Rightarrow> log_state \<Rightarrow> logs_event elem list" where
  "LogsPage stringify operator devices pending failed raw s =
     (if \<not> operator then [Alert ''red'' ''Operators and tenant admins only.'']
      else [Title ''Logs'', Field ''From'' (nullish_or (ls_frm s) []), Field ''To'' (nullish_or (ls_to s) []),
            Choice ''Device'' (nullish_or devices []) (ls_deviceId s), Field ''Query (Lucene)'' (ls_query s),
            Busy_button ''Search'' pending True RunSearch]
        @ (case ls_total s of None \<Rightarrow> []
           | Some n \<Rightarrow> [Text (''showing '' @ show_nat (length (ls_hits s)) @ '' of '' @ show_int n)])
        @ onlyif failed [Alert ''red'' ''Log search failed.'']
        @ log_results devices pending s
        @ (case raw of None \<Rightarrow> [] | Some v \<Rightarrow> [Dialog ''Raw document'' [Text (stringify v)]]))"

section \<open>What is proved\<close>

interpretation changes_panel: listing "changes_list canEdit drift rs" "change_cells canEdit drift rs"
    "Alert ''red'' ''t.errors.configChangesLoad''" "Text ''t.config.changes.none''" for canEdit drift rs
  by unfold_locales (auto simp: changes_list_def remote_list_def split: option.splits)

text \<open>The clicks of the firmware page: the check, the four openings, and the buttons of the modal.\<close>

lemma fw_open_eq [simp]:
  "fw_open k target confirm s = fw_open k' target' confirm' s \<longleftrightarrow> k = k' \<and> target = target' \<and> confirm = confirm'"
  by (auto simp: fw_open_def dest: arg_cong [of _ _ fw_pending])

inductive_simps fw_button_open: "fw_button result s (fw_open k target confirm s)"

lemma fw_rows_clicks [simp]: "clicks (fw_actions_card actions) = []"
proof -
  have "clicks (map (\<lambda>a. Row (fw_action_row a)) xs) = []" for xs
    by (induction xs) (simp_all add: fw_action_row_def)
  then show ?thesis by (simp add: fw_actions_card_def)
qed

lemma fw_card_clicks [simp]:
  "clicks (fw_result_card None) = []"
  "clicks (fw_result_card (Some r)) =
     onlyif (hasUpdates (Some (fw_check.truncate r))) [OpenFirmware FirmwareUpdate [] ''t.firmware.updateConfirm'']
     @ onlyif (fc_new_major r) [OpenFirmware FirmwareUpgrade [] ''t.firmware.upgradeConfirm'']"
  "clicks (fw_plugin_card n) = onlyif (js_trim n \<noteq> [])
     [OpenFirmware PluginInstall (js_trim n) ''t.firmware.installConfirm'', OpenFirmware PluginRemove (js_trim n) ''t.firmware.removeConfirm'']"
  "clicks (fw_confirm creating s) = onlyif (fw_pending s \<noteq> None)
     (CancelFirmware # onlyif (\<not> creating) (Fire False # onlyif (struthy (fw_when s)) [Fire True]))"
  by (simp_all add: fw_result_card_def fw_plugin_card_def fw_confirm_def Let_def onlyif_def split: option.splits)

lemma fw_clicks:
  "clicks (FirmwareActions checking creating result actions s) =
     onlyif (\<not> checking) [CheckFirmware] @ clicks (fw_result_card result) @ clicks (fw_plugin_card (fw_pluginName s))
     @ clicks (fw_confirm creating s)"
  by (simp add: FirmwareActions_def)

lemma firmware_opening:
  "OpenFirmware k target confirm \<in> set (clicks (FirmwareActions checking creating result actions s)) \<longleftrightarrow>
     fw_button (map_option fw_check.truncate result) s (fw_open k target confirm s)"
  unfolding fw_clicks fw_button_open by (cases result; simp add: fw_check.truncate_def hasUpdates_def; blast)

lemma firmware_firing:
  "Fire scheduled \<in> set (clicks (FirmwareActions checking creating result actions s)) \<longleftrightarrow> \<not> creating \<and> fire_enabled scheduled s"
  unfolding fw_clicks by (cases result) (auto simp: fire_enabled_def)

lemma widget_elem_clicks [simp]: "clicks_of (widget_elem l w) = []"
  by (cases w) simp_all

lemma form_elems_clicks: "set (clicks (form_elems e fv)) \<subseteq> {e}"
  by (cases fv) auto

lemma lf_dialog_clicks [simp]:
  "clicks (lf_switch_dialog st) = (case lf_confirm st of None \<Rightarrow> [] | Some x \<Rightarrow> [CloseSwitch, RunSwitch x])"
  "clicks (lf_lifecycle_dialog st) = (case lf_lifecycle st of None \<Rightarrow> [] | Some x \<Rightarrow> [CloseLifecycle, RunLifecycle x])"
  "clicks (lf_details ck s) = []"
  by (simp_all add: lf_switch_dialog_def lf_lifecycle_dialog_def lf_details_def Let_def nullish_or_def
      split: option.splits prod.splits)

lemma lf_buttons_clicks:
  "set (clicks (map (lf_button pending) (lf_buttons canWrite enabled))) \<subseteq>
     (if canWrite then range AskSwitch \<union> range AskLifecycle else {})"
proof -
  have "set (clicks_of (lf_button pending x)) \<subseteq> range AskSwitch \<union> range AskLifecycle" for x
    by (cases x) (simp_all add: lf_button_def)
  then show ?thesis by (simp add: lf_buttons_def UN_subset_iff del: Un_iff)
qed

lemma lf_clicks:
  "set (clicks (LogForwardingCard ck canWrite q pending failed st)) \<subseteq>
     (if canWrite then range AskSwitch \<union> range AskLifecycle else {})
     \<union> (case lf_confirm st of None \<Rightarrow> {} | Some x \<Rightarrow> {CloseSwitch, RunSwitch x})
     \<union> (case lf_lifecycle st of None \<Rightarrow> {} | Some x \<Rightarrow> {CloseLifecycle, RunLifecycle x})"
proof (cases "rm_loading q")
  case False
  let ?en = "nullish_or (map_option lo_enabled (rm_data q)) False"
  have "clicks (LogForwardingCard ck canWrite q pending failed st) =
      clicks (map (lf_button pending) (lf_buttons canWrite ?en)) @ clicks (lf_switch_dialog st) @ clicks (lf_lifecycle_dialog st)"
    using False by (simp add: LogForwardingCard_def Let_def split: prod.splits)
  moreover have "set (clicks (lf_switch_dialog st)) = (case lf_confirm st of None \<Rightarrow> {} | Some x \<Rightarrow> {CloseSwitch, RunSwitch x})"
    "set (clicks (lf_lifecycle_dialog st)) = (case lf_lifecycle st of None \<Rightarrow> {} | Some x \<Rightarrow> {CloseLifecycle, RunLifecycle x})"
    by (auto split: option.splits)
  ultimately show ?thesis
    using lf_buttons_clicks [of pending canWrite ?en] by (simp only: set_append) blast
qed (simp add: LogForwardingCard_def)

lemma plugins_clicks:
  "set (clicks (PluginsTab cmp canWrite q models search creating live s)) \<subseteq>
     (if canWrite then {AskPlugin i n |i n. True} \<union> range Configure else {})
     \<union> (if pl_confirm s = None then {} else {CancelPlugin, RunPlugin})
     \<union> (if pl_configure s = None then {} else {ProposePlugin})"
proof -
  have r: "set (clicks (plugin_row canWrite m p)) \<subseteq> (if canWrite then {AskPlugin i n |i n. True} \<union> range Configure else {})" for m p
    by (auto simp: plugin_row_def)
  have d: "set (clicks (plugin_dialog creating s)) \<subseteq> (if pl_confirm s = None then {} else {CancelPlugin, RunPlugin})"
    by (auto simp: plugin_dialog_def split: option.splits prod.splits)
  have w: "set (clicks (plugin_drawer live s)) \<subseteq> (if pl_configure s = None then {} else {ProposePlugin})"
    using form_elems_clicks [of ProposePlugin] by (auto simp: plugin_drawer_def split: option.splits)
  show ?thesis
  proof (cases "rm_loading q \<or> rm_error q")
    case False
    let ?rows = "plugin_rows cmp (rm_data q) search"
    have "set (clicks (PluginsTab cmp canWrite q models search creating live s)) =
        (\<Union>p \<in> set ?rows. set (clicks (plugin_row canWrite (modelByPkg models) p))) \<union> set (clicks (plugin_dialog creating s))
        \<union> set (clicks (plugin_drawer live s))"
      using False by (simp add: PluginsTab_def Let_def Un_assoc)
    then show ?thesis using r d w by (simp only:) blast
  qed (auto simp: PluginsTab_def)
qed

definition row_events :: "changes_event set" where
  "row_events = range OpenPreview \<union> range ToggleSchedule \<union> range ApplyNow \<union> range ScheduleAt \<union> range CancelOne \<union> range RevertOne"

lemma change_cells_clicks: "set (clicks (change_cells canEdit drift rs c)) \<subseteq> (if canEdit then row_events else {})"
proof -
  have "clicks (drift_cell drift c) = []"
    by (simp add: drift_cell_def split: option.splits prod.splits)
  moreover have "set (clicks (ChangeRowActions st c)) \<subseteq> row_events" "set (clicks (RevertButton st c)) \<subseteq> row_events" for st
    by (auto simp: ChangeRowActions_def RevertButton_def row_events_def)
  ultimately show ?thesis by (simp add: change_cells_def)
qed

lemma changes_clicks:
  "set (clicks (ChangesPanel_view canEdit v (PreviewModal stringify previewId pq) q)) \<subseteq>
     {CheckDrift} \<union> (if canEdit then insert OpenPropose row_events else {}) \<union> (if cv_proposeOpen v then {SubmitAlias} else {})"
proof -
  let ?list = "changes_list canEdit (driftByChange (map_option snd (cv_drift v))) (cv_rows v) q"
  let ?propose = "ProposeAliasModal (cv_proposeOpen v) (cv_proposing v) (cv_alias v)"
  have "clicks (PreviewModal stringify previewId pq) = []"
    by (simp add: PreviewModal_def split: option.splits)
  then have "set (clicks (ChangesPanel_view canEdit v (PreviewModal stringify previewId pq) q)) =
      (if cv_drifting v then {} else {CheckDrift}) \<union> (if canEdit then {OpenPropose} else {}) \<union> set (clicks ?list) \<union> set (clicks ?propose)"
    by (simp add: ChangesPanel_view_def Un_assoc)
  moreover have "set (clicks ?list) \<subseteq> (if canEdit then row_events else {})"
    using change_cells_clicks [of canEdit] by (cases canEdit) (simp_all add: changes_list_def UN_subset_iff)
  moreover have "set (clicks ?propose) \<subseteq> (if cv_proposeOpen v then {SubmitAlias} else {})"
    by (simp add: ProposeAliasModal_def)
  ultimately show ?thesis by (cases canEdit; cases "cv_proposeOpen v"; cases "cv_drifting v"; simp; blast)
qed

text \<open>The operator flag is the backend's decision for what these pages do.\<close>

lemma operator_can:
  "act \<in> {CONFIG_PUSH, LOG_VIEW, REPORT_GENERATE, DEVICE_WRITE} \<Longrightarrow>
     isOperator (usePermissions s ts a) = can (is_super s) (active_role ts a) act"
  by (cases "is_super s") (auto simp: session_simps is_super_nullish)


definition sample_changes :: changes_view where
  "sample_changes = \<lparr>cv_drifting = False, cv_drift = None,
     cv_rows = (\<lambda>_. \<lparr>rs_date = None, rs_open = False, rs_scheduling = False, rs_cancelling = False, rs_reverting = False\<rparr>),
     cv_proposeOpen = False, cv_proposing = False, cv_alias = alias_initial\<rparr>"


section \<open>The firmware page and its state machine\<close>

fun fw_effect :: "fw_event \<Rightarrow> firmware_state \<Rightarrow> firmware_state" where
  "fw_effect (OpenFirmware k target confirm) s = fw_open k target confirm s"
| "fw_effect CancelFirmware s = s\<lparr>fw_pending := None\<rparr>"
| "fw_effect _ s = s"

inductive_cases fw_button_cases: "fw_button result s s'"

lemma fw_button_opens: "fw_button result s s' \<Longrightarrow> \<exists>k target confirm. s' = fw_open k target confirm s"
  by (auto elim!: fw_button_cases)

text \<open>The firmware page implements its state machine. The states that a click on an enabled opening
  button leads to are exactly the successors of the step relation, for the last check and the plugin name
  typed; the buttons of the modal are enabled exactly when their handler may run and no request is
  pending, and an enabled one sends a request, unless it is the scheduling one and the date picked does not
  parse.\<close>

theorem firmware_page_refines:
  "{fw_effect e s |e. e \<in> set (clicks (FirmwareActions checking creating result actions s)) \<and> (\<exists>k x c. e = OpenFirmware k x c)}
     = {s'. fw_button (map_option fw_check.truncate result) s s'}
   \<and> (Fire b \<in> set (clicks (FirmwareActions checking creating result actions s)) \<longleftrightarrow> \<not> creating \<and> fire_enabled b s)
   \<and> (Fire b \<in> set (clicks (FirmwareActions checking creating result actions s)) \<longrightarrow>
        fire_request parse_local a d b s \<noteq> None \<or> b \<and> picked_iso parse_local (the (fw_when s)) = None)"
proof (intro conjI)
  let ?c = "clicks (FirmwareActions checking creating result actions s)"
  show "{fw_effect e s |e. e \<in> set ?c \<and> (\<exists>k x c. e = OpenFirmware k x c)} = {s'. fw_button (map_option fw_check.truncate result) s s'}"
    using firmware_opening fw_button_opens by (auto, metis fw_effect.simps(1))
  show "Fire b \<in> set ?c \<longleftrightarrow> \<not> creating \<and> fire_enabled b s" by (rule firmware_firing)
  show "Fire b \<in> set ?c \<longrightarrow> fire_request parse_local a d b s \<noteq> None \<or> b \<and> picked_iso parse_local (the (fw_when s)) = None"
    unfolding firmware_firing by (auto simp: fire_enabled_def fire_request_def fire_body_def Let_def split: if_splits)
qed

definition sample_fw_page :: firmware_state where
  "sample_fw_page = \<lparr>fw_pluginName = ''os-acme'', fw_pending = None, fw_when = None, fw_notices = []\<rparr>"

theorem firmware_page_refines_witness:
  "fw_open PluginInstall ''os-acme'' ''t.firmware.installConfirm'' sample_fw_page
     \<in> {fw_effect e sample_fw_page |e. e \<in> set (clicks (FirmwareActions False False None None sample_fw_page))
          \<and> (\<exists>k x c. e = OpenFirmware k x c)}"
proof -
  have "js_trim ''os-acme'' = ''os-acme''" by code_simp
  then have "fw_button None sample_fw_page (fw_open PluginInstall ''os-acme'' ''t.firmware.installConfirm'' sample_fw_page)"
    using fw_button.install [of sample_fw_page None] by (simp add: sample_fw_page_def)
  then show ?thesis using firmware_page_refines [of sample_fw_page False False None None] by (simp only: option.map) blast
qed

end
