(* ===== verification/TemplateForms.thy ===== *)
theory TemplateForms
  imports Catalog ConfigPages HooksTenant HooksAdmin
begin

text \<open>
  The forms of the template library: the fields introspected from a reference device
  (\<^verbatim>\<open>templates/AutoFormFields.tsx\<close>, \<^verbatim>\<open>OpnsenseSettingForm.tsx\<close>,
  \<^verbatim>\<open>FirewallRuleForm.tsx\<close>, \<^verbatim>\<open>MonitTestForm.tsx\<close>), the two intrusion detection forms
  (\<^verbatim>\<open>IdsRulesetForm.tsx\<close>, \<^verbatim>\<open>IdsPolicyForm.tsx\<close>) and the modal that holds them
  (\<^verbatim>\<open>TemplateFormModal.tsx\<close>). The three introspected forms keep one contract, the locale
  \<open>introspected_form\<close>; what a sequence of edits and loads leaves in the payload is proved once in it.
  A template's body is typed by its kind, as the server stores it.
\<close>

section \<open>Fields introspected from a device\<close>

datatype control = CSelect | CMultiselect | CSwitch | CText

record setting_field =
  sf_path :: string
  sf_label :: string
  sf_control :: control
  sf_options :: "(string \<times> string) list option"
  sf_value :: live_value

text \<open>\<open>String(v)\<close> of a string or of an array of strings.\<close>

definition js_String :: "live_value \<Rightarrow> string" where
  "js_String v = (case v of LStr s \<Rightarrow> s | LArr ks \<Rightarrow> js_join '','' ks)"

definition multi_fallback :: "live_value \<Rightarrow> string" where
  "multi_fallback v = (case v of LArr ks \<Rightarrow> js_join '','' ks | LStr s \<Rightarrow> [])"

definition AutoFormField :: "string obj \<Rightarrow> setting_field \<Rightarrow> widget" where
  "AutoFormField payload f =
     (let current = obj_get payload (sf_path f); options = nullish_or (sf_options f) [] in
      case sf_control f of
        CSwitch \<Rightarrow> Switch (nullish_or current (js_String (sf_value f)) = ''1'')
      | CSelect \<Rightarrow> SelectInput options (nullish_or current (js_String (sf_value f)))
      | CMultiselect \<Rightarrow> MultiSelect options
          (filter_truthy (split_on CHR '','' (nullish_or current (multi_fallback (sf_value f)))))
      | CText \<Rightarrow> TextInput (nullish_or current (js_String (sf_value f))))"

definition AutoFormFields :: "setting_field list \<Rightarrow> string obj \<Rightarrow> (string \<times> widget) list" where
  "AutoFormFields fs payload = map (\<lambda>f. (sf_path f, AutoFormField payload f)) fs"

definition initialPayload :: "setting_field list \<Rightarrow> string obj" where
  "initialPayload fs = foldl (\<lambda>p f. obj_set (sf_path f) (js_String (sf_value f)) p) [] fs"

text \<open>What a form keeps of the device it reads from; the body itself is the caller's.\<close>

record introspection =
  in_deviceId :: string
  in_fields :: "setting_field list"
  in_loaded :: bool
  in_notices :: "notice list"

definition introspection_initial :: introspection where
  "introspection_initial = \<lparr>in_deviceId = [], in_fields = [], in_loaded = False, in_notices = []\<rparr>"

definition pick_device :: "string option \<Rightarrow> introspection \<Rightarrow> introspection" where
  "pick_device d s = s\<lparr>in_deviceId := nullish_or d []\<rparr>"

text \<open>The outcome of the introspection request: the fields, or a failure. The three \<open>loadFields\<close>
  differ in the body they update, the request they send and the text of the failure.\<close>

definition load_state :: "string \<Rightarrow> setting_field list option \<Rightarrow> introspection \<Rightarrow> introspection" where
  "load_state msg res s =
     (case res of
        Some fs \<Rightarrow> s\<lparr>in_fields := fs, in_loaded := True\<rparr>
      | None \<Rightarrow> s\<lparr>in_fields := [], in_loaded := False, in_notices := in_notices s @ [Failure msg]\<rparr>)"

subsection \<open>The setting form\<close>

record setting_body =
  sb_endpoint_key :: string
  sb_payload :: "string obj"

definition EMPTY_SETTING :: setting_body where
  "EMPTY_SETTING = \<lparr>sb_endpoint_key = [], sb_payload = []\<rparr>"

definition setting_setField :: "string \<Rightarrow> string \<Rightarrow> setting_body \<Rightarrow> setting_body" where
  "setting_setField path v b = \<lparr>sb_endpoint_key = sb_endpoint_key b, sb_payload = obj_set path v (sb_payload b)\<rparr>"

definition setting_request :: "string option \<Rightarrow> introspection \<Rightarrow> setting_body \<Rightarrow> mutation option" where
  "setting_request activeId s b =
     (if sb_endpoint_key b = [] \<or> in_deviceId s = [] then None
      else Some (useIntrospectSetting activeId (in_deviceId s) (sb_endpoint_key b)))"

definition setting_merge :: "setting_field list \<Rightarrow> setting_body \<Rightarrow> setting_body" where
  "setting_merge fs b =
     (let defaults = initialPayload fs; merged = obj_spread defaults (sb_payload b) in
      \<lparr>sb_endpoint_key = sb_endpoint_key b, sb_payload = merged\<rparr>)"

definition setting_loadFields ::
  "setting_field list option \<Rightarrow> introspection \<times> setting_body \<Rightarrow> introspection \<times> setting_body" where
  "setting_loadFields res sb = (case sb of (s, b) \<Rightarrow>
     (load_state ''t.templates.setting.loadFailed'' res s,
      case res of Some fs \<Rightarrow> setting_merge fs b | None \<Rightarrow> b))"

text \<open>Choosing another endpoint drops the fields and the payload.\<close>

definition setting_pickEndpoint ::
  "string option \<Rightarrow> introspection \<times> setting_body \<Rightarrow> introspection \<times> setting_body" where
  "setting_pickEndpoint key sb = (case sb of (s, b) \<Rightarrow>
     (s\<lparr>in_fields := [], in_loaded := False\<rparr>, \<lparr>sb_endpoint_key = nullish_or key [], sb_payload = []\<rparr>))"

subsection \<open>The firewall rule and the monit test forms\<close>

record payload_body =
  pb_payload :: "string obj"

definition EMPTY_RULE :: payload_body where "EMPTY_RULE = \<lparr>pb_payload = []\<rparr>"

definition EMPTY_MONIT :: payload_body where "EMPTY_MONIT = \<lparr>pb_payload = []\<rparr>"

definition rule_setField :: "string \<Rightarrow> string \<Rightarrow> payload_body \<Rightarrow> payload_body" where
  "rule_setField path v b = \<lparr>pb_payload = obj_set path v (pb_payload b)\<rparr>"

definition rule_request :: "string option \<Rightarrow> introspection \<Rightarrow> mutation option" where
  "rule_request activeId s = (if in_deviceId s = [] then None else Some (useFirewallRuleModel activeId (in_deviceId s)))"

definition rule_merge :: "setting_field list \<Rightarrow> payload_body \<Rightarrow> payload_body" where
  "rule_merge fs b =
     (let defaults = initialPayload fs; merged = obj_spread defaults (pb_payload b) in \<lparr>pb_payload = merged\<rparr>)"

definition rule_loadFields ::
  "setting_field list option \<Rightarrow> introspection \<times> payload_body \<Rightarrow> introspection \<times> payload_body" where
  "rule_loadFields res sb = (case sb of (s, b) \<Rightarrow>
     (load_state ''t.templates.fw.loadFailed'' res s,
      case res of Some fs \<Rightarrow> rule_merge fs b | None \<Rightarrow> b))"

definition monit_setField :: "string \<Rightarrow> string \<Rightarrow> payload_body \<Rightarrow> payload_body" where
  "monit_setField path v b = \<lparr>pb_payload = obj_set path v (pb_payload b)\<rparr>"

definition monit_request :: "string option \<Rightarrow> introspection \<Rightarrow> mutation option" where
  "monit_request activeId s = (if in_deviceId s = [] then None else Some (useMonitTestModel activeId (in_deviceId s)))"

definition monit_merge :: "setting_field list \<Rightarrow> payload_body \<Rightarrow> payload_body" where
  "monit_merge fs b =
     (let defaults = initialPayload fs; merged = obj_spread defaults (pb_payload b) in \<lparr>pb_payload = merged\<rparr>)"

definition monit_loadFields ::
  "setting_field list option \<Rightarrow> introspection \<times> payload_body \<Rightarrow> introspection \<times> payload_body" where
  "monit_loadFields res sb = (case sb of (s, b) \<Rightarrow>
     (load_state ''t.templates.monit.loadFailed'' res s,
      case res of Some fs \<Rightarrow> monit_merge fs b | None \<Rightarrow> b))"

definition attach_checked :: "payload_body \<Rightarrow> bool" where
  "attach_checked b \<longleftrightarrow> obj_get (pb_payload b) ''attach_to_system'' = Some ''1''"

definition attach_system :: "bool \<Rightarrow> payload_body \<Rightarrow> payload_body" where
  "attach_system checked b = \<lparr>pb_payload = obj_set ''attach_to_system'' (if checked then ''1'' else ''0'') (pb_payload b)\<rparr>"

section \<open>The intrusion detection forms\<close>

record ruleset_row =
  rr_filename :: string
  rr_description :: string
  rr_enabled :: string

record ruleset_state =
  rs_deviceId :: string
  rs_rows :: "ruleset_row list"
  rs_loaded :: bool
  rs_notices :: "notice list"

definition loadRulesets :: "string \<Rightarrow> ruleset_row list option \<Rightarrow> ruleset_state \<Rightarrow> ruleset_state" where
  "loadRulesets msg res s =
     (case res of
        Some rows \<Rightarrow> s\<lparr>rs_rows := rows, rs_loaded := True\<rparr>
      | None \<Rightarrow> s\<lparr>rs_rows := [], rs_loaded := False, rs_notices := rs_notices s @ [Failure msg]\<rparr>)"

definition or_text :: "string \<Rightarrow> string \<Rightarrow> string" where
  "or_text s d = (if s = [] then d else s)"

definition ids_rulesetData :: "ruleset_row list \<Rightarrow> (string \<times> string) list" where
  "ids_rulesetData rows = map (\<lambda>r. (rr_filename r, or_text (rr_description r) (rr_filename r))) rows"

record ids_body =
  ib_rulesets :: "string list"

definition EMPTY_IDS :: ids_body where "EMPTY_IDS = \<lparr>ib_rulesets = []\<rparr>"

definition ids_select :: "string list \<Rightarrow> ids_body \<Rightarrow> ids_body" where
  "ids_select sel b = \<lparr>ib_rulesets = sel\<rparr>"

record policy_body =
  po_description :: string
  po_enabled :: string
  po_prio :: string
  po_action :: "string list"
  po_rulesets :: "string list"
  po_content :: "string list obj"
  po_new_action :: string

definition EMPTY_POLICY :: policy_body where
  "EMPTY_POLICY = \<lparr>po_description = [], po_enabled = ''1'', po_prio = ''0'', po_action = [], po_rulesets = [],
     po_content = [], po_new_action = ''alert''\<rparr>"

definition ACTIONS :: "string list" where
  "ACTIONS = [''disable'', ''alert'', ''drop'']"

definition NEW_ACTIONS :: "string list" where
  "NEW_ACTIONS = [''default'', ''alert'', ''drop'', ''disable'']"

text \<open>The regular expression \<open>^[A-Za-z0-9._-]+$\<close>.\<close>

definition key_char :: "char \<Rightarrow> bool" where
  "key_char c \<longleftrightarrow> (let n = (of_char c :: nat) in
     65 \<le> n \<and> n \<le> 90 \<or> 97 \<le> n \<and> n \<le> 122 \<or> 48 \<le> n \<and> n \<le> 57 \<or> n \<in> {46, 95, 45})"

definition CONTENT_KEY_RE :: "string \<Rightarrow> bool" where
  "CONTENT_KEY_RE k \<longleftrightarrow> k \<noteq> [] \<and> (\<forall>c \<in> set k. key_char c)"

fun push_missing :: "string set \<Rightarrow> string list \<Rightarrow> (string \<times> string) list \<Rightarrow> (string \<times> string) list" where
  "push_missing present [] opts = opts"
| "push_missing present (name # ns) opts =
     push_missing present ns (if name \<notin> present then opts @ [(name, name)] else opts)"

definition policy_rulesetData :: "ruleset_row list \<Rightarrow> policy_body \<Rightarrow> (string \<times> string) list" where
  "policy_rulesetData rows b =
     (let opts = ids_rulesetData (filter (\<lambda>r. rr_enabled r = ''1'') rows);
          present = set (map fst opts)
      in push_missing present (po_rulesets b) opts)"

record content_draft =
  cd_key :: string
  cd_values :: string
  cd_notices :: "notice list"

definition addContent :: "content_draft \<times> policy_body \<Rightarrow> content_draft \<times> policy_body" where
  "addContent db = (case db of (d, b) \<Rightarrow>
     (let key = js_trim (cd_key d) in
      if key = [] then (d, b)
      else if \<not> CONTENT_KEY_RE key then
        (d\<lparr>cd_notices := cd_notices d @ [Failure ''t.templates.idsPolicy.contentKeyInvalid'']\<rparr>, b)
      else (let values = split_trim (\<lambda>c. c = CHR '','') (cd_values d) in
        (d\<lparr>cd_key := [], cd_values := []\<rparr>, b\<lparr>po_content := obj_set key values (po_content b)\<rparr>))))"

definition removeContent :: "string \<Rightarrow> policy_body \<Rightarrow> policy_body" where
  "removeContent key b = b\<lparr>po_content := obj_del key (po_content b)\<rparr>"

text \<open>The edits of the policy form. A multiple choice reports a selection of its options, and the
  select of the new action a value of its list or nothing.\<close>

inductive policy_edit ::
  "ruleset_row list \<Rightarrow> content_draft \<times> policy_body \<Rightarrow> content_draft \<times> policy_body \<Rightarrow> bool" where
  description: "policy_edit rows (d, b) (d, b\<lparr>po_description := v\<rparr>)"
| enabled: "policy_edit rows (d, b) (d, b\<lparr>po_enabled := (if checked then ''1'' else ''0'')\<rparr>)"
| prio: "policy_edit rows (d, b) (d, b\<lparr>po_prio := nullish_or number ''0''\<rparr>)"
| action: "set sel \<subseteq> set ACTIONS \<Longrightarrow> policy_edit rows (d, b) (d, b\<lparr>po_action := sel\<rparr>)"
| new_action: "set_option a \<subseteq> set NEW_ACTIONS \<Longrightarrow>
     policy_edit rows (d, b) (d, b\<lparr>po_new_action := nullish_or a ''alert''\<rparr>)"
| rulesets: "set sel \<subseteq> fst ` set (policy_rulesetData rows b) \<Longrightarrow>
     policy_edit rows (d, b) (d, b\<lparr>po_rulesets := sel\<rparr>)"
| draft: "policy_edit rows (d, b) (d\<lparr>cd_key := k, cd_values := vs\<rparr>, b)"
| add: "js_trim (cd_key d) \<noteq> [] \<Longrightarrow> policy_edit rows (d, b) (addContent (d, b))"
| remove: "policy_edit rows (d, b) (d, removeContent k b)"

section \<open>The modal\<close>

text \<open>A stored template: the body is typed by its kind.\<close>

datatype template_body = SettingB setting_body | IdsB ids_body | RuleB "string obj" | MonitB "string obj"
  | PolicyB policy_body | AliasB string "string option" "string list option" string

record template =
  tm_id :: string
  tm_name :: string
  tm_description :: "string option"
  tm_body :: template_body

fun kind_of :: "template_body \<Rightarrow> string" where
  "kind_of (SettingB _) = ''opnsense_setting''"
| "kind_of (IdsB _) = ''suricata_ruleset''"
| "kind_of (RuleB _) = ''firewall_rule''"
| "kind_of (MonitB _) = ''monit_test''"
| "kind_of (PolicyB _) = ''ids_policy''"
| "kind_of (AliasB _ _ _ _) = ''firewall_alias''"

text \<open>\<open>editing.body?.type\<close> and \<open>editing.body?.content\<close> when it is an array.\<close>

fun body_type :: "template_body \<Rightarrow> string option" where
  "body_type (RuleB p) = obj_get p ''type''"
| "body_type (MonitB p) = obj_get p ''type''"
| "body_type (AliasB _ ty _ _) = ty"
| "body_type _ = None"

fun body_content :: "template_body \<Rightarrow> string list" where
  "body_content (AliasB _ _ c _) = nullish_or c []"
| "body_content _ = []"

record template_form =
  tf_kind :: string
  tf_setting :: setting_body
  tf_ids :: ids_body
  tf_rule :: payload_body
  tf_monit :: payload_body
  tf_policy :: policy_body
  tf_name :: string
  tf_type :: string
  tf_content :: string
  tf_description :: string

definition template_open :: "template option \<Rightarrow> template_form" where
  "template_open editing =
     \<lparr>tf_kind = (case editing of None \<Rightarrow> ''firewall_alias'' | Some e \<Rightarrow> kind_of (tm_body e)),
      tf_setting = (case map_option tm_body editing of Some (SettingB b) \<Rightarrow> b | _ \<Rightarrow> EMPTY_SETTING),
      tf_ids = (case map_option tm_body editing of Some (IdsB b) \<Rightarrow> b | _ \<Rightarrow> EMPTY_IDS),
      tf_rule = (case map_option tm_body editing of Some (RuleB p) \<Rightarrow> \<lparr>pb_payload = p\<rparr> | _ \<Rightarrow> EMPTY_RULE),
      tf_monit = (case map_option tm_body editing of Some (MonitB p) \<Rightarrow> \<lparr>pb_payload = p\<rparr> | _ \<Rightarrow> EMPTY_MONIT),
      tf_policy = (case map_option tm_body editing of Some (PolicyB b) \<Rightarrow> b | _ \<Rightarrow> EMPTY_POLICY),
      tf_name = (case editing of None \<Rightarrow> [] | Some e \<Rightarrow> tm_name e),
      tf_type = (case editing of None \<Rightarrow> ''host''
                 | Some e \<Rightarrow> if kind_of (tm_body e) \<noteq> ''opnsense_setting'' then nullish_or (body_type (tm_body e)) ''host'' else ''host''),
      tf_content = (case editing of None \<Rightarrow> []
                 | Some e \<Rightarrow> if kind_of (tm_body e) \<noteq> ''opnsense_setting'' then js_join [newline] (body_content (tm_body e)) else []),
      tf_description = (case editing of None \<Rightarrow> [] | Some e \<Rightarrow> nullish_or (tm_description e) [])\<rparr>"

definition payload_json :: "string obj \<Rightarrow> json" where
  "payload_json ob = JObj (map (\<lambda>(k, v). (k, JStr v)) ob)"

definition setting_json :: "setting_body \<Rightarrow> json" where
  "setting_json b = JObj [(''endpoint_key'', JStr (sb_endpoint_key b)), (''payload'', payload_json (sb_payload b))]"

definition ids_json :: "ids_body \<Rightarrow> json" where
  "ids_json b = JObj [(''rulesets'', jstrs (ib_rulesets b))]"

definition policy_json :: "policy_body \<Rightarrow> json" where
  "policy_json b = JObj [(''description'', JStr (po_description b)), (''enabled'', JStr (po_enabled b)),
     (''prio'', JStr (po_prio b)), (''action'', jstrs (po_action b)), (''rulesets'', jstrs (po_rulesets b)),
     (''content'', JObj (map (\<lambda>(k, vs). (k, jstrs vs)) (po_content b))), (''new_action'', JStr (po_new_action b))]"

definition alias_json :: "string \<Rightarrow> string \<Rightarrow> string list \<Rightarrow> string \<Rightarrow> json" where
  "alias_json name ty content description =
     JObj [(''name'', JStr name), (''type'', JStr ty), (''content'', jstrs content), (''description'', JStr description)]"

definition blank :: "string option \<Rightarrow> bool" where
  "blank v \<longleftrightarrow> js_trim (nullish_or v []) = []"

text \<open>What a submit does: a refusal with a message, or one request. \<open>send\<close> is the common end of the
  branches: an update of the template being edited or a creation with the kind.\<close>

definition send :: "template option \<Rightarrow> string \<Rightarrow> template_form \<Rightarrow> json \<Rightarrow> mutation" where
  "send editing kind s body =
     (case editing of
        Some e \<Rightarrow> useUpdateTemplate (tm_id e)
          (JObj [(''name'', JStr (tf_name s)), (''description'', JStr (tf_description s)), (''body'', body)])
      | None \<Rightarrow> useCreateTemplate
          (JObj [(''kind'', JStr kind), (''name'', JStr (tf_name s)), (''description'', JStr (tf_description s)), (''body'', body)]))"

definition template_submit :: "template option \<Rightarrow> template_form \<Rightarrow> notice + mutation" where
  "template_submit editing s =
     (if tf_kind s = ''opnsense_setting'' then Inr (send editing ''opnsense_setting'' s (setting_json (tf_setting s)))
      else if tf_kind s = ''suricata_ruleset'' then Inr (send editing ''suricata_ruleset'' s (ids_json (tf_ids s)))
      else if tf_kind s = ''firewall_rule'' then
        (if blank (obj_get (pb_payload (tf_rule s)) ''description'')
         then Inl (Failure ''t.templates.fw.descriptionRequired'')
         else Inr (send editing ''firewall_rule'' s (payload_json (pb_payload (tf_rule s)))))
      else if tf_kind s = ''monit_test'' then
        (if blank (obj_get (pb_payload (tf_monit s)) ''name'')
         then Inl (Failure ''t.templates.monit.nameRequired'')
         else Inr (send editing ''monit_test'' s (payload_json (pb_payload (tf_monit s)))))
      else if tf_kind s = ''ids_policy'' then
        (if blank (Some (po_description (tf_policy s)))
         then Inl (Failure ''t.templates.idsPolicy.descriptionRequired'')
         else Inr (send editing ''ids_policy'' s (policy_json (tf_policy s))))
      else Inr (send editing ''firewall_alias'' s
        (alias_json (tf_name s) (tf_type s) (alias_lines (tf_content s)) (tf_description s))))"

text \<open>The notice and whether the modal closes once the reply is in.\<close>

definition template_saved :: "template option \<Rightarrow> mutation \<Rightarrow> api_result \<Rightarrow> notice \<times> bool" where
  "template_saved editing mu r =
     (case m_fn mu r of
        Inr _ \<Rightarrow> (Info (if editing = None then ''t.templates.created'' else ''t.templates.updated''), True)
      | Inl _ \<Rightarrow> (Failure ''t.templates.saveFailed'', False))"

section \<open>What is proved\<close>

subsection \<open>Introspected forms\<close>

text \<open>The contract of a form over a payload: editing one field sets it, and loading the fields of a
  device completes the payload by the device's values.\<close>

datatype form_event = EditField string string | LoadFields "setting_field list"

fun edited :: "form_event list \<Rightarrow> (string \<times> string) list" where
  "edited [] = []"
| "edited (EditField p v # es) = (p, v) # edited es"
| "edited (LoadFields fs # es) = edited es"

locale introspected_form =
  fixes payload :: "'b \<Rightarrow> string obj"
    and set_field :: "string \<Rightarrow> string \<Rightarrow> 'b \<Rightarrow> 'b"
    and merge :: "setting_field list \<Rightarrow> 'b \<Rightarrow> 'b"
  assumes payload_set: "payload (set_field p v b) = obj_set p v (payload b)"
    and payload_merge: "payload (merge fs b) = obj_spread (initialPayload fs) (payload b)"
begin

fun form_run :: "form_event list \<Rightarrow> 'b \<Rightarrow> 'b" where
  "form_run [] b = b"
| "form_run (EditField p v # es) b = form_run es (set_field p v b)"
| "form_run (LoadFields fs # es) b = form_run es (merge fs b)"

lemma form_wf: "obj_wf (payload b) \<Longrightarrow> obj_wf (payload (form_run es b))"
proof (induction es b rule: form_run.induct)
  case (3 fs es b)
  have "obj_wf (initialPayload fs)" unfolding initialPayload_def by (rule wf_foldl_set) simp
  then show ?case using 3 by (simp add: payload_merge)
qed (simp_all add: payload_set)

lemma form_keeps:
  assumes "obj_wf (payload b)" and "obj_get (payload b) k = Some v"
  shows "obj_get (payload (form_run es b)) k = (case map_of (rev (edited es)) k of None \<Rightarrow> Some v | Some w \<Rightarrow> Some w)"
  using assms
proof (induction es arbitrary: b v)
  case (Cons e es)
  show ?case
  proof (cases e)
    case (EditField p w)
    show ?thesis
      using Cons.IH [of "set_field p w b" "if k = p then w else v"] Cons.prems EditField
      by (auto simp: payload_set obj_get_set map_add_def split: option.splits if_splits)
  next
    case (LoadFields fs)
    have "obj_wf (payload (merge fs b))" using form_wf [of b "[LoadFields fs]"] Cons.prems by simp
    then show ?thesis using Cons.IH [of "merge fs b" v] Cons.prems LoadFields
      by (simp add: payload_merge obj_get_spread)
  qed
qed simp

lemma form_loaded_keys:
  assumes "obj_wf (payload b)" and "f \<in> set fs"
  shows "\<exists>v. obj_get (payload (form_run (LoadFields fs # es) b)) (sf_path f) = Some v"
proof -
  have "obj_get (initialPayload fs) (sf_path f) \<noteq> None"
    unfolding initialPayload_def using assms(2) by (subst rec.get_fill_keys) auto
  then obtain v where "obj_get (payload (merge fs b)) (sf_path f) = Some v"
    using assms(1) by (cases "obj_get (payload b) (sf_path f)") (auto simp: payload_merge obj_get_spread)
  moreover have "obj_wf (payload (merge fs b))" using form_wf [of b "[LoadFields fs]"] assms by simp
  ultimately show ?thesis using form_keeps [of "merge fs b" "sf_path f" v es] by (auto split: option.splits)
qed

lemma form_default:
  assumes "obj_wf (payload b)" and "obj_get (payload b) (sf_path f) = None" and "f \<in> set fs"
    and "inj_on sf_path (set fs)"
  shows "obj_get (payload (merge fs b)) (sf_path f) = Some (js_String (sf_value f))"
proof -
  have "obj_get (initialPayload fs) (sf_path f) = Some (js_String (sf_value f))"
    unfolding initialPayload_def
    by (rule rec.get_fill_fun [where f = sf_path and g = "\<lambda>f. js_String (sf_value f)"]) (use assms in \<open>auto dest: inj_onD\<close>)
  then show ?thesis using assms by (simp add: payload_merge obj_get_spread)
qed

end

interpretation setting_form: introspected_form sb_payload setting_setField setting_merge
  by unfold_locales (simp_all add: setting_setField_def setting_merge_def Let_def)

interpretation rule_form: introspected_form pb_payload rule_setField rule_merge
  by unfold_locales (simp_all add: rule_setField_def rule_merge_def Let_def)

interpretation monit_form: introspected_form pb_payload monit_setField monit_merge
  by unfold_locales (simp_all add: monit_setField_def monit_merge_def Let_def)

text \<open>Reading fields from a device never overwrites what the template says. In the three
  introspected forms, after any sequence of edits and loads (from whatever devices) a value that was in
  the body is still there unless the user edited that field, in which case it is the last value
  entered; and from the first load on every field of that device has a value in the body, so that what
  the form shows is what it would save, whatever value the device reported.\<close>

theorem introspection_keeps_saved:
  assumes "obj_wf (sb_payload b)" and "obj_wf (pb_payload c)"
  shows "(\<forall>k v. obj_get (sb_payload b) k = Some v \<longrightarrow>
            obj_get (sb_payload (setting_form.form_run es b)) k = Some (nullish_or (map_of (rev (edited es)) k) v))
    \<and> (\<forall>k v. obj_get (pb_payload c) k = Some v \<longrightarrow>
            obj_get (pb_payload (rule_form.form_run es c)) k = Some (nullish_or (map_of (rev (edited es)) k) v)
          \<and> obj_get (pb_payload (monit_form.form_run es c)) k = Some (nullish_or (map_of (rev (edited es)) k) v))
    \<and> (\<forall>f \<in> set fs. \<forall>w.
            AutoFormField (sb_payload (setting_form.form_run (LoadFields fs # es) b)) (f\<lparr>sf_value := w\<rparr>)
          = AutoFormField (sb_payload (setting_form.form_run (LoadFields fs # es) b)) f)"
proof (intro conjI allI impI ballI)
  fix k v
  assume "obj_get (sb_payload b) k = Some v"
  then show "obj_get (sb_payload (setting_form.form_run es b)) k = Some (nullish_or (map_of (rev (edited es)) k) v)"
    using setting_form.form_keeps [OF assms(1)] by (simp split: option.splits)
next
  fix k v
  assume a: "obj_get (pb_payload c) k = Some v"
  show "obj_get (pb_payload (rule_form.form_run es c)) k = Some (nullish_or (map_of (rev (edited es)) k) v)"
    using rule_form.form_keeps [OF assms(2) a] by (simp split: option.splits)
  show "obj_get (pb_payload (monit_form.form_run es c)) k = Some (nullish_or (map_of (rev (edited es)) k) v)"
    using monit_form.form_keeps [OF assms(2) a] by (simp split: option.splits)
next
  fix f w
  assume "f \<in> set fs"
  then obtain v where "obj_get (sb_payload (setting_form.form_run (LoadFields fs # es) b)) (sf_path f) = Some v"
    using setting_form.form_loaded_keys [OF assms(1)] by blast
  then show "AutoFormField (sb_payload (setting_form.form_run (LoadFields fs # es) b)) (f\<lparr>sf_value := w\<rparr>)
      = AutoFormField (sb_payload (setting_form.form_run (LoadFields fs # es) b)) f"
    by (cases "sf_control f") (simp_all add: AutoFormField_def Let_def del: setting_form.form_run.simps)
qed

definition sample_setting :: setting_body where
  "sample_setting = \<lparr>sb_endpoint_key = ''ntp'', sb_payload = [(''server'', ''a.example'')]\<rparr>"

definition sample_loaded :: "setting_field list" where
  "sample_loaded = [\<lparr>sf_path = ''server'', sf_label = ''Server'', sf_control = CText, sf_options = None, sf_value = LStr ''b.example''\<rparr>]"

theorem introspection_keeps_saved_witness:
  "obj_get (sb_payload (setting_form.form_run [LoadFields sample_loaded] sample_setting)) ''server'' = Some ''a.example''"
proof -
  have "obj_wf (sb_payload sample_setting)" "obj_wf (pb_payload EMPTY_RULE)"
    "obj_get (sb_payload sample_setting) ''server'' = Some ''a.example''"
    by (simp_all add: sample_setting_def EMPTY_RULE_def obj_wf_def obj_get_def)
  then show ?thesis
    using introspection_keeps_saved [of sample_setting EMPTY_RULE "[LoadFields sample_loaded]" "[]"]
    by (simp del: setting_form.form_run.simps)
qed

subsection \<open>The modal\<close>

fun body_json_of :: "template_body \<Rightarrow> json" where
  "body_json_of (SettingB b) = setting_json b"
| "body_json_of (IdsB b) = ids_json b"
| "body_json_of (RuleB p) = payload_json p"
| "body_json_of (MonitB p) = payload_json p"
| "body_json_of (PolicyB b) = policy_json b"
| "body_json_of (AliasB n ty c d) = alias_json n (nullish_or ty ''host'') (nullish_or c []) d"

text \<open>What the server accepts as a template of its kind.\<close>

fun stored_ok :: "template \<Rightarrow> bool" where
  "stored_ok tpl = (case tm_body tpl of
       RuleB p \<Rightarrow> \<not> blank (obj_get p ''description'')
     | MonitB p \<Rightarrow> \<not> blank (obj_get p ''name'')
     | PolicyB b \<Rightarrow> \<not> blank (Some (po_description b))
     | AliasB n ty c d \<Rightarrow> n = tm_name tpl \<and> d = nullish_or (tm_description tpl) []
         \<and> clean_words (\<lambda>ch. ch = newline) (nullish_or c [])
     | _ \<Rightarrow> True)"

text \<open>Opening a template and saving it changes nothing. For a stored template of any of the six
  kinds, the form opened on it and submitted untouched sends one update of that template with its own
  name, description and body.\<close>

theorem template_edit_roundtrip:
  assumes "stored_ok tpl"
  shows "template_submit (Some tpl) (template_open (Some tpl)) =
    Inr (useUpdateTemplate (tm_id tpl)
      (JObj [(''name'', JStr (tm_name tpl)), (''description'', JStr (nullish_or (tm_description tpl) [])),
             (''body'', body_json_of (tm_body tpl))]))"
proof (cases "tm_body tpl")
  case (AliasB n ty c d)
  have "alias_lines (js_join [newline] (nullish_or c [])) = nullish_or c []"
    unfolding alias_lines_def using assms AliasB by (intro split_trim_join) auto
  then show ?thesis using assms AliasB by (simp add: template_submit_def template_open_def send_def)
qed (use assms in \<open>simp_all add: template_submit_def template_open_def send_def\<close>)

definition sample_template :: template where
  "sample_template = \<lparr>tm_id = ''t1'', tm_name = ''dmz'', tm_description = None,
     tm_body = AliasB ''dmz'' (Some ''network'') (Some [''10.0.0.0/8'', ''192.168.0.0/16'']) []\<rparr>"

theorem template_edit_roundtrip_witness:
  "template_submit (Some sample_template) (template_open (Some sample_template)) =
     Inr (useUpdateTemplate ''t1'' (JObj [(''name'', JStr ''dmz''), (''description'', JStr []),
       (''body'', alias_json ''dmz'' ''network'' [''10.0.0.0/8'', ''192.168.0.0/16''] [])]))"
proof -
  have "stored_ok sample_template"
    by (simp add: sample_template_def clean_words_def trimmed_def is_ws_def newline_def)
  from template_edit_roundtrip [OF this] show ?thesis by (simp add: sample_template_def)
qed

text \<open>A creation sends the selected kind with the body of that kind's form, and the three kinds with a
  mandatory text send nothing while it is blank.\<close>

lemma template_create_kind:
  assumes "tf_kind s \<in> {''opnsense_setting'', ''suricata_ruleset'', ''firewall_rule'', ''monit_test'', ''ids_policy'', ''firewall_alias''}"
    and "template_submit None s = Inr mu"
  shows "field (rq_body (m_request mu)) ''kind'' = Some (JStr (tf_kind s))"
  using assms
  by (auto simp: template_submit_def send_def useCreateTemplate_def hook_simps obj_get_def split: if_splits)

text \<open>The kind can be changed while a template is edited, and an update carries no kind: the body of
  another kind is then stored under the template's own kind.\<close>

lemma template_kind_switch:
  "template_submit (Some tpl) ((template_open (Some tpl))\<lparr>tf_kind := ''suricata_ruleset''\<rparr>) =
     Inr (useUpdateTemplate (tm_id tpl) (JObj [(''name'', JStr (tm_name tpl)),
       (''description'', JStr (nullish_or (tm_description tpl) [])), (''body'', ids_json (tf_ids (template_open (Some tpl))))]))"
  by (simp add: template_submit_def send_def template_open_def)

subsection \<open>The policy form\<close>

definition policy_ok :: "policy_body \<Rightarrow> bool" where
  "policy_ok b \<longleftrightarrow> obj_wf (po_content b) \<and> po_enabled b \<in> {''0'', ''1''} \<and> set (po_action b) \<subseteq> set ACTIONS
     \<and> po_new_action b \<in> set NEW_ACTIONS
     \<and> (\<forall>(k, vs) \<in> set (po_content b). CONTENT_KEY_RE k \<and> clean_words (\<lambda>c. c = CHR '','') vs)"

lemma fst_push_missing: "fst ` set (push_missing present ns opts) = fst ` set opts \<union> (set ns - present)"
  by (induction present ns opts rule: push_missing.induct) auto

lemma policy_options:
  "fst ` set (policy_rulesetData rows b) = rr_filename ` {r \<in> set rows. rr_enabled r = ''1''} \<union> set (po_rulesets b)"
  by (auto simp: policy_rulesetData_def Let_def fst_push_missing ids_rulesetData_def image_image)

lemma set_obj_set: "set (obj_set k v ob) \<subseteq> insert (k, v) (set ob)"
  by (induction k v ob rule: obj_set.induct) auto

lemma addContent_ok: "policy_ok b \<Longrightarrow> policy_ok (snd (addContent (d, b)))"
  using set_obj_set [of "js_trim (cd_key d)" "split_trim (\<lambda>c. c = CHR '','') (cd_values d)" "po_content b"]
    split_trim_clean [of "\<lambda>c. c = CHR '',''" "cd_values d"]
  by (auto simp: policy_ok_def addContent_def Let_def split: if_splits)

lemma addContent_rulesets: "po_rulesets (snd (addContent (d, b))) = po_rulesets b"
  by (simp add: addContent_def Let_def)

lemma removeContent_ok: "policy_ok b \<Longrightarrow> policy_ok (removeContent k b)"
  unfolding policy_ok_def removeContent_def by (simp add: obj_del_def) (auto simp: obj_wf_def distinct_map_filter)

lemma new_action_ok: "set_option a \<subseteq> set NEW_ACTIONS \<Longrightarrow> nullish_or a ''alert'' \<in> set NEW_ACTIONS"
  by (cases a) (auto simp: NEW_ACTIONS_def)

lemma policy_edit_ok: "policy_edit rows p q \<Longrightarrow> policy_ok (snd p) \<Longrightarrow> policy_ok (snd q)"
proof (induction rule: policy_edit.induct)
  case (new_action a rows d b)
  then show ?case using new_action_ok by (simp add: policy_ok_def)
qed (simp_all add: addContent_ok removeContent_ok, simp_all add: policy_ok_def)

lemma policy_edit_rulesets:
  "policy_edit rows p q \<Longrightarrow>
     set (po_rulesets (snd q)) \<subseteq> set (po_rulesets (snd p)) \<union> rr_filename ` {r \<in> set rows. rr_enabled r = ''1''}"
  by (induction rule: policy_edit.induct) (auto simp: policy_options addContent_rulesets removeContent_def)

text \<open>A policy built in the form is one the server accepts. After any sequence of edits, with rule
  sets read from any devices in between, every metadata key matches the accepted pattern and its values
  are clean, the actions and the new action are from their lists and the flag is 0 or 1; one edit adds
  only rule sets that are enabled on the device shown, and the options always include what is already
  selected, so no selection is dropped.\<close>

theorem policy_form_valid:
  assumes "(\<lambda>p q. \<exists>rows. policy_edit rows p q)\<^sup>*\<^sup>* (d0, EMPTY_POLICY) (d, b)"
    and "policy_edit rows (d, b) (d', b')"
  shows "policy_ok b \<and> policy_ok b'
    \<and> set (po_rulesets b) \<subseteq> fst ` set (policy_rulesetData rows b)
    \<and> set (po_rulesets b') - set (po_rulesets b) \<subseteq> rr_filename ` {r \<in> set rows. rr_enabled r = ''1''}"
proof -
  have z: "policy_ok EMPTY_POLICY" by (simp add: policy_ok_def EMPTY_POLICY_def NEW_ACTIONS_def)
  have "policy_ok (snd q)" if "(\<lambda>p q. \<exists>rows. policy_edit rows p q)\<^sup>*\<^sup>* (d0, EMPTY_POLICY) q" for q
    using that
    by (induction rule: rtranclp_induct) (auto simp: z dest: policy_edit_ok)
  from this [OF assms(1)] have "policy_ok b" by simp
  then show ?thesis using policy_edit_ok [OF assms(2)] policy_edit_rulesets [OF assms(2)] by (auto simp: policy_options)
qed

definition sample_draft :: content_draft where
  "sample_draft = \<lparr>cd_key = '' affected_product '', cd_values = ''any, web ,'', cd_notices = []\<rparr>"

theorem policy_form_valid_witness:
  "policy_ok (snd (addContent (sample_draft, EMPTY_POLICY)))
   \<and> po_content (snd (addContent (sample_draft, EMPTY_POLICY))) = [(''affected_product'', [''any'', ''web''])]"
proof
  have k: "js_trim (cd_key sample_draft) = ''affected_product''"
    by (simp add: sample_draft_def js_trim_def is_ws_def)
  have r: "CONTENT_KEY_RE ''affected_product''" by (simp add: CONTENT_KEY_RE_def key_char_def)
  have e: "policy_edit [] (sample_draft, EMPTY_POLICY) (addContent (sample_draft, EMPTY_POLICY))"
    by (rule policy_edit.add) (simp add: k)
  obtain d' b' where q: "addContent (sample_draft, EMPTY_POLICY) = (d', b')" by fastforce
  show "policy_ok (snd (addContent (sample_draft, EMPTY_POLICY)))"
    using policy_form_valid [OF rtranclp.rtrancl_refl, of "[]" sample_draft d' b'] e q by simp
  show "po_content (snd (addContent (sample_draft, EMPTY_POLICY))) = [(''affected_product'', [''any'', ''web''])]"
    by (simp add: addContent_def k r Let_def)
       (simp add: sample_draft_def EMPTY_POLICY_def split_trim_def filter_truthy_def js_trim_def is_ws_def)
qed

end
