(* ===== verification/TemplateApply.thy ===== *)
theory TemplateApply
  imports TemplateForms ConfirmFlow Session
begin

text \<open>
  Applying templates and profiles to a device (\<^verbatim>\<open>templates/ApplyTemplateTab.tsx\<close>,
  \<^verbatim>\<open>profiles/ApplyProfileSection.tsx\<close>) and the library they come from
  (\<^verbatim>\<open>pages/TemplateLibraryPage.tsx\<close>, \<^verbatim>\<open>profiles/ProfilesPanel.tsx\<close>,
  \<^verbatim>\<open>profiles/ProfileFormModal.tsx\<close>). The two apply panels are functions on their state, one per
  handler; a run is a list of events, so that the requests of every sequence of user actions and of
  replies landing late are covered. A preview that is started clears the previous one, as the mutation
  hook of the query library does.
\<close>

section \<open>Applying one template\<close>

definition parseContent :: "string \<Rightarrow> string list" where
  "parseContent v = split_trim (\<lambda>c. c = newline) v"

definition templateContent :: "template option \<Rightarrow> string" where
  "templateContent tpl = (case tpl of None \<Rightarrow> [] | Some e \<Rightarrow> js_join [newline] (body_content (tm_body e)))"

record apply_state =
  at_templateId :: "string option"
  at_override :: string
  at_confirming :: bool
  at_when :: "string option"
  at_iface :: string
  at_interfaces :: "(string \<times> string) list"
  at_preview :: "json option"
  at_notices :: "notice list"

definition apply_initial :: apply_state where
  "apply_initial = \<lparr>at_templateId = None, at_override = [], at_confirming = False, at_when = None, at_iface = [],
     at_interfaces = [], at_preview = None, at_notices = []\<rparr>"

definition find_template :: "template list option \<Rightarrow> string option \<Rightarrow> template option" where
  "find_template templates tid = List.find (\<lambda>tpl. Some (tm_id tpl) = tid) (nullish_or templates [])"

definition isFirewallRule :: "template option \<Rightarrow> bool" where
  "isFirewallRule tpl = (case tpl of None \<Rightarrow> False | Some e \<Rightarrow> kind_of (tm_body e) = ''firewall_rule'')"

definition template_bindings :: "template list option \<Rightarrow> apply_state \<Rightarrow> json" where
  "template_bindings templates s =
     (if isFirewallRule (find_template templates (at_templateId s))
      then JObj [(''interface'', JStr (at_iface s))] else JObj [])"

definition pickTemplate :: "template list option \<Rightarrow> string option \<Rightarrow> apply_state \<Rightarrow> apply_state" where
  "pickTemplate templates tid s =
     s\<lparr>at_templateId := tid, at_iface := [], at_interfaces := [],
       at_override := templateContent (find_template templates tid)\<rparr>"

text \<open>The request \<open>pickTemplate\<close> sends for a firewall rule, and its reply; a failure is ignored.\<close>

definition pickTemplate_load :: "string option \<Rightarrow> string \<Rightarrow> template list option \<Rightarrow> string option \<Rightarrow> mutation option" where
  "pickTemplate_load activeId deviceId templates tid =
     (if isFirewallRule (find_template templates tid) then Some (useFirewallRuleModel activeId deviceId) else None)"

definition interfaces_landed :: "(string \<times> string) list option \<Rightarrow> apply_state \<Rightarrow> apply_state" where
  "interfaces_landed res s = (case res of Some is \<Rightarrow> s\<lparr>at_interfaces := is\<rparr> | None \<Rightarrow> s)"

definition interfaceData :: "string \<Rightarrow> (string \<times> string) list \<Rightarrow> (string \<times> string) list" where
  "interfaceData floating interfaces = ([], floating) # interfaces"

definition saveOverride :: "string option \<Rightarrow> apply_state \<Rightarrow> mutation option" where
  "saveOverride activeId s =
     (if \<not> struthy (at_templateId s) then None
      else Some (useUpsertOverride activeId (nullish_or (at_templateId s) [])
                   (JObj [(''content'', jstrs (parseContent (at_override s)))])))"

definition override_saved :: "mutation \<Rightarrow> api_result \<Rightarrow> apply_state \<Rightarrow> apply_state" where
  "override_saved mu r s =
     s\<lparr>at_notices := at_notices s @ [case m_fn mu r of Inr _ \<Rightarrow> Info ''t.templates.apply.overrideSaved''
                                      | Inl _ \<Rightarrow> Failure ''t.templates.apply.failed'']\<rparr>"

definition runPreview :: "string option \<Rightarrow> string \<Rightarrow> template list option \<Rightarrow> apply_state \<Rightarrow> mutation option" where
  "runPreview activeId deviceId templates s =
     (if \<not> struthy (at_templateId s) then None
      else Some (usePreviewTemplate activeId deviceId (the (at_templateId s)) (template_bindings templates s)))"

definition preview_started :: "apply_state \<Rightarrow> apply_state" where
  "preview_started s = s\<lparr>at_preview := None\<rparr>"

definition preview_landed :: "mutation \<Rightarrow> api_result \<Rightarrow> apply_state \<Rightarrow> apply_state" where
  "preview_landed mu r s =
     (case m_fn mu r of
        Inr v \<Rightarrow> s\<lparr>at_preview := v\<rparr>
      | Inl _ \<Rightarrow> s\<lparr>at_notices := at_notices s @ [Failure ''t.templates.apply.failed'']\<rparr>)"

definition openConfirm :: "apply_state \<Rightarrow> apply_state" where
  "openConfirm s = s\<lparr>at_when := None, at_confirming := True\<rparr>"

text \<open>\<open>fire\<close>: the time of a scheduled application is converted before the request, and a date that
  does not parse throws there, so no request is sent.\<close>

definition scheduled_iso :: "(string \<Rightarrow> int option) \<Rightarrow> bool \<Rightarrow> string option \<Rightarrow> string option option" where
  "scheduled_iso parse_local scheduled picked =
     (if scheduled \<and> struthy picked then map_option Some (picked_iso parse_local (the picked)) else Some None)"

definition apply_fire ::
  "(string \<Rightarrow> int option) \<Rightarrow> string option \<Rightarrow> string \<Rightarrow> template list option \<Rightarrow> bool \<Rightarrow> apply_state \<Rightarrow> mutation option" where
  "apply_fire parse_local activeId deviceId templates scheduled s =
     (if \<not> struthy (at_templateId s) then None
      else map_option (\<lambda>at. useApplyTemplate activeId deviceId (the (at_templateId s)) at (template_bindings templates s))
             (scheduled_iso parse_local scheduled (at_when s)))"

definition apply_fired :: "mutation \<Rightarrow> api_result \<Rightarrow> apply_state \<Rightarrow> apply_state" where
  "apply_fired mu r s =
     s\<lparr>at_notices := at_notices s @ [case m_fn mu r of Inr _ \<Rightarrow> Info ''t.templates.apply.queued''
                                      | Inl _ \<Rightarrow> Failure ''t.templates.apply.failed''],
       at_confirming := False\<rparr>"

text \<open>The events of the panel.\<close>

datatype apply_event = Pick "string option" | InterfacesLanded "(string \<times> string) list option"
  | ChooseInterface "string option" | EditOverride string | SaveOverride mutation api_result
  | StartPreview | PreviewLanded mutation api_result | OpenConfirm | PickTime "string option"
  | CloseConfirm | Fired mutation api_result

fun apply_step :: "template list option \<Rightarrow> apply_event \<Rightarrow> apply_state \<Rightarrow> apply_state" where
  "apply_step ts (Pick tid) s = pickTemplate ts tid s"
| "apply_step ts (InterfacesLanded res) s = interfaces_landed res s"
| "apply_step ts (ChooseInterface v) s = s\<lparr>at_iface := nullish_or v []\<rparr>"
| "apply_step ts (EditOverride v) s = s\<lparr>at_override := v\<rparr>"
| "apply_step ts (SaveOverride mu r) s = override_saved mu r s"
| "apply_step ts StartPreview s = preview_started s"
| "apply_step ts (PreviewLanded mu r) s = preview_landed mu r s"
| "apply_step ts OpenConfirm s = openConfirm s"
| "apply_step ts (PickTime w) s = s\<lparr>at_when := w\<rparr>"
| "apply_step ts CloseConfirm s = s\<lparr>at_confirming := False\<rparr>"
| "apply_step ts (Fired mu r) s = apply_fired mu r s"

definition apply_run :: "template list option \<Rightarrow> apply_event list \<Rightarrow> apply_state \<Rightarrow> apply_state" where
  "apply_run ts es s = foldl (\<lambda>s e. apply_step ts e s) s es"

section \<open>Applying a profile\<close>

record profile_preview =
  pp_kind :: string
  pp_name :: "string option"
  pp_content :: "string list option"

record profile_state =
  pa_profileId :: "string option"
  pa_confirming :: bool
  pa_when :: "string option"
  pa_iface :: string
  pa_interfaces :: "(string \<times> string) list"
  pa_preview :: "profile_preview list option"
  pa_notices :: "notice list"

definition hasFwRule :: "profile_state \<Rightarrow> bool" where
  "hasFwRule s = (case pa_preview s of None \<Rightarrow> False | Some ps \<Rightarrow> \<exists>p \<in> set ps. pp_kind p = ''firewall_rule'')"

definition profile_bindings :: "profile_state \<Rightarrow> json" where
  "profile_bindings s = (if hasFwRule s then JObj [(''interface'', JStr (pa_iface s))] else JObj [])"

text \<open>The effect that runs when \<open>hasFwRule\<close> changes.\<close>

definition profile_effect :: "string option \<Rightarrow> string \<Rightarrow> profile_state \<Rightarrow> profile_state \<Rightarrow> mutation option" where
  "profile_effect activeId deviceId before after =
     (if hasFwRule before \<noteq> hasFwRule after \<and> hasFwRule after \<and> pa_interfaces after = []
      then Some (useFirewallRuleModel activeId deviceId) else None)"

definition previewLines :: "profile_state \<Rightarrow> string list option" where
  "previewLines s = map_option (map (\<lambda>p. nullish_or (pp_name p) [] @ '': '' @ js_join '', '' (nullish_or (pp_content p) []))) (pa_preview s)"

definition pickProfile :: "string option \<Rightarrow> profile_state \<Rightarrow> profile_state" where
  "pickProfile pid s = s\<lparr>pa_profileId := pid, pa_iface := [], pa_interfaces := []\<rparr>"

definition profile_runPreview :: "string option \<Rightarrow> string \<Rightarrow> profile_state \<Rightarrow> mutation option" where
  "profile_runPreview activeId deviceId s =
     (if \<not> struthy (pa_profileId s) then None
      else Some (usePreviewProfile activeId deviceId (the (pa_profileId s)) (profile_bindings s)))"

definition profile_preview_landed :: "profile_preview list option \<Rightarrow> profile_state \<Rightarrow> profile_state" where
  "profile_preview_landed res s =
     (case res of Some ps \<Rightarrow> s\<lparr>pa_preview := Some ps\<rparr>
      | None \<Rightarrow> s\<lparr>pa_notices := pa_notices s @ [Failure ''t.templates.profiles.apply.failed'']\<rparr>)"

definition profile_openConfirm :: "profile_state \<Rightarrow> profile_state" where
  "profile_openConfirm s = s\<lparr>pa_when := None, pa_confirming := True\<rparr>"

definition profile_fire ::
  "(string \<Rightarrow> int option) \<Rightarrow> string option \<Rightarrow> string \<Rightarrow> bool \<Rightarrow> profile_state \<Rightarrow> mutation option" where
  "profile_fire parse_local activeId deviceId scheduled s =
     (if \<not> struthy (pa_profileId s) then None
      else map_option (\<lambda>at. useApplyProfile activeId deviceId (the (pa_profileId s)) at (profile_bindings s))
             (scheduled_iso parse_local scheduled (pa_when s)))"

definition profile_fired :: "mutation \<Rightarrow> api_result \<Rightarrow> profile_state \<Rightarrow> profile_state" where
  "profile_fired mu r s =
     s\<lparr>pa_notices := pa_notices s @ [case m_fn mu r of Inr _ \<Rightarrow> Info ''t.templates.profiles.apply.queued''
                                      | Inl _ \<Rightarrow> Failure ''t.templates.profiles.apply.failed''],
       pa_confirming := False\<rparr>"

datatype profile_event = PPick "string option" | PInterfacesLanded "(string \<times> string) list option"
  | PChooseInterface "string option" | PStartPreview | PPreviewLanded "profile_preview list option"
  | POpenConfirm | PPickTime "string option" | PCloseConfirm | PFired mutation api_result

fun profile_step :: "profile_event \<Rightarrow> profile_state \<Rightarrow> profile_state" where
  "profile_step (PPick pid) s = pickProfile pid s"
| "profile_step (PInterfacesLanded res) s = (case res of Some is \<Rightarrow> s\<lparr>pa_interfaces := is\<rparr> | None \<Rightarrow> s)"
| "profile_step (PChooseInterface v) s = s\<lparr>pa_iface := nullish_or v []\<rparr>"
| "profile_step PStartPreview s = s\<lparr>pa_preview := None\<rparr>"
| "profile_step (PPreviewLanded res) s = profile_preview_landed res s"
| "profile_step POpenConfirm s = profile_openConfirm s"
| "profile_step (PPickTime w) s = s\<lparr>pa_when := w\<rparr>"
| "profile_step PCloseConfirm s = s\<lparr>pa_confirming := False\<rparr>"
| "profile_step (PFired mu r) s = profile_fired mu r s"

definition profile_run :: "profile_event list \<Rightarrow> profile_state \<Rightarrow> profile_state" where
  "profile_run es s = foldl (\<lambda>s e. profile_step e s) s es"

section \<open>The library\<close>

record library_state =
  lb_modalOpen :: bool
  lb_editing :: "template option"
  lb_toDelete :: "template option"
  lb_notices :: "notice list"

definition library_new :: "library_state \<Rightarrow> library_state" where
  "library_new s = s\<lparr>lb_editing := None, lb_modalOpen := True\<rparr>"

definition library_edit :: "template \<Rightarrow> library_state \<Rightarrow> library_state" where
  "library_edit tpl s = s\<lparr>lb_editing := Some tpl, lb_modalOpen := True\<rparr>"

definition template_selectDelete :: "template \<Rightarrow> library_state \<Rightarrow> library_state" where
  "template_selectDelete tpl s = s\<lparr>lb_toDelete := Some tpl\<rparr>"

definition template_cancelDelete :: "library_state \<Rightarrow> library_state" where
  "template_cancelDelete s = s\<lparr>lb_toDelete := None\<rparr>"

definition template_confirmDelete :: "api_result \<Rightarrow> library_state \<Rightarrow> library_state" where
  "template_confirmDelete r s =
     (let tpl = lb_toDelete s; s = s\<lparr>lb_toDelete := None\<rparr> in
      case tpl of None \<Rightarrow> s
      | Some e \<Rightarrow> (case m_fn (useDeleteTemplate (tm_id e)) r of
           Inr _ \<Rightarrow> s | Inl _ \<Rightarrow> s\<lparr>lb_notices := lb_notices s @ [Failure ''t.templates.saveFailed'']\<rparr>))"

interpretation delete_template: confirm_flow lb_toDelete template_selectDelete template_cancelDelete
    "\<lambda>tpl. m_request (useDeleteTemplate (tm_id tpl))" template_confirmDelete
  by unfold_locales
     (auto simp: template_selectDelete_def template_cancelDelete_def template_confirmDelete_def Let_def
       split: option.splits sum.splits)

datatype library_view = SuperadminGate | LibraryEmpty | LibraryRows "(string \<times> string \<times> string option) list"

definition TemplateLibraryPage :: "auth_state \<Rightarrow> template list option \<Rightarrow> library_view" where
  "TemplateLibraryPage auth templates =
     (if \<not> useIsSuperadmin auth then SuperadminGate
      else case templates of
        Some (t # ts) \<Rightarrow> LibraryRows (map (\<lambda>tpl. (tm_name tpl, kind_of (tm_body tpl), tm_description tpl)) (t # ts))
      | _ \<Rightarrow> LibraryEmpty)"

record profile =
  pr_id :: string
  pr_name :: string
  pr_description :: "string option"
  pr_template_ids :: "string list option"

record profile_form =
  pf_name :: string
  pf_description :: string
  pf_template_ids :: "string list"

definition profile_open :: "profile option \<Rightarrow> profile_form" where
  "profile_open editing = (case editing of
       Some e \<Rightarrow> \<lparr>pf_name = pr_name e, pf_description = nullish_or (pr_description e) [],
                 pf_template_ids = nullish_or (pr_template_ids e) []\<rparr>
     | None \<Rightarrow> \<lparr>pf_name = [], pf_description = [], pf_template_ids = []\<rparr>)"

definition profile_submit :: "profile option \<Rightarrow> profile_form \<Rightarrow> mutation" where
  "profile_submit editing v =
     (let body = JObj [(''name'', JStr (pf_name v)), (''description'', JStr (pf_description v)),
                       (''template_ids'', jstrs (pf_template_ids v))] in
      case editing of Some e \<Rightarrow> useUpdateProfile (pr_id e) body | None \<Rightarrow> useCreateProfile body)"

definition profile_saved :: "profile option \<Rightarrow> mutation \<Rightarrow> api_result \<Rightarrow> notice \<times> bool" where
  "profile_saved editing mu r =
     (case m_fn mu r of
        Inr _ \<Rightarrow> (Info (if editing = None then ''t.templates.profiles.created'' else ''t.templates.profiles.updated''), True)
      | Inl _ \<Rightarrow> (Failure ''t.templates.profiles.saveFailed'', False))"

record profiles_state =
  pn_modalOpen :: bool
  pn_editing :: "profile option"
  pn_toDelete :: "profile option"
  pn_notices :: "notice list"

definition profile_selectDelete :: "profile \<Rightarrow> profiles_state \<Rightarrow> profiles_state" where
  "profile_selectDelete p s = s\<lparr>pn_toDelete := Some p\<rparr>"

definition profile_cancelDelete :: "profiles_state \<Rightarrow> profiles_state" where
  "profile_cancelDelete s = s\<lparr>pn_toDelete := None\<rparr>"

definition profile_confirmDelete :: "api_result \<Rightarrow> profiles_state \<Rightarrow> profiles_state" where
  "profile_confirmDelete r s =
     (let p = pn_toDelete s; s = s\<lparr>pn_toDelete := None\<rparr> in
      case p of None \<Rightarrow> s
      | Some e \<Rightarrow> (case m_fn (useDeleteProfile (pr_id e)) r of
           Inr _ \<Rightarrow> s | Inl _ \<Rightarrow> s\<lparr>pn_notices := pn_notices s @ [Failure ''t.templates.profiles.saveFailed'']\<rparr>))"

interpretation delete_profile: confirm_flow pn_toDelete profile_selectDelete profile_cancelDelete
    "\<lambda>p. m_request (useDeleteProfile (pr_id p))" profile_confirmDelete
  by unfold_locales
     (auto simp: profile_selectDelete_def profile_cancelDelete_def profile_confirmDelete_def Let_def
       split: option.splits sum.splits)

definition ProfilesPanel_rows :: "profile list option \<Rightarrow> (string \<times> string option \<times> nat) list" where
  "ProfilesPanel_rows ps = map (\<lambda>p. (pr_name p, pr_description p, length (nullish_or (pr_template_ids p) []))) (nullish_or ps [])"

section \<open>What is proved\<close>

text \<open>What the user chose since the template or the profile was picked.\<close>

fun last_choice :: "apply_event list \<Rightarrow> string \<Rightarrow> string" where
  "last_choice [] v = v"
| "last_choice (ChooseInterface w # es) v = last_choice es (nullish_or w [])"
| "last_choice (_ # es) v = last_choice es v"

fun last_text :: "apply_event list \<Rightarrow> string \<Rightarrow> string" where
  "last_text [] v = v"
| "last_text (EditOverride w # es) v = last_text es w"
| "last_text (_ # es) v = last_text es v"

fun no_pick :: "apply_event list \<Rightarrow> bool" where
  "no_pick [] = True"
| "no_pick (Pick _ # es) = False"
| "no_pick (_ # es) = no_pick es"

lemmas apply_defs = pickTemplate_def interfaces_landed_def override_saved_def preview_started_def preview_landed_def
  openConfirm_def apply_fired_def

lemma apply_run_Nil [simp]: "apply_run ts [] s = s"
  by (simp add: apply_run_def)

lemma apply_run_Cons [simp]: "apply_run ts (e # es) s = apply_run ts es (apply_step ts e s)"
  by (simp add: apply_run_def)

lemma apply_run_fields:
  "no_pick es \<Longrightarrow> at_templateId (apply_run ts es s) = at_templateId s
     \<and> at_iface (apply_run ts es s) = last_choice es (at_iface s)
     \<and> at_override (apply_run ts es s) = last_text es (at_override s)"
proof (induction es arbitrary: s)
  case (Cons e es)
  then show ?case by (cases e) (auto simp: apply_defs split: option.splits sum.splits)
qed simp

text \<open>C34. A template is applied as chosen. Whatever happened before, and however replies interleave,
  once a template is picked, a later application (and an override saved) is for that template and the
  device of the page; a firewall rule carries exactly the interface chosen since, floating when none
  was chosen, and every other kind carries no binding: a choice made for one template never reaches
  another.\<close>

theorem apply_binds_choice:
  assumes "no_pick es" and "tid \<noteq> []"
    and "s = apply_run ts (before @ Pick (Some tid) # es) s0"
    and "apply_fire parse a d ts scheduled s = Some mu"
  shows "rq_params (m_request mu) = template_params a d tid
    \<and> field (rq_body (m_request mu)) ''bindings'' =
        Some (JObj (if isFirewallRule (find_template ts (Some tid)) then [(''interface'', JStr (last_choice es []))] else []))
    \<and> saveOverride a s = Some (useUpsertOverride a tid
        (JObj [(''content'', jstrs (parseContent (last_text es (templateContent (find_template ts (Some tid))))))]))"
proof -
  have "apply_run ts (before @ Pick (Some tid) # es) s0 = apply_run ts es (pickTemplate ts (Some tid) (apply_run ts before s0))"
    by (simp add: apply_run_def)
  then have f: "at_templateId s = Some tid" "at_iface s = last_choice es []"
    "at_override s = last_text es (templateContent (find_template ts (Some tid)))"
    using apply_run_fields [OF assms(1)] assms(3) by (simp_all add: pickTemplate_def)
  then show ?thesis using assms(2,4)
    by (auto simp: apply_fire_def template_bindings_def useApplyTemplate_def saveOverride_def hook_simps obj_get_def)
qed

definition sample_rule :: template where
  "sample_rule = \<lparr>tm_id = ''r1'', tm_name = ''allow ssh'', tm_description = None, tm_body = RuleB [(''description'', ''ssh'')]\<rparr>"

theorem apply_binds_choice_witness:
  "\<exists>mu. apply_fire (\<lambda>_. Some 0) (Some ''t'') ''d'' (Some [sample_rule]) False
      (apply_run (Some [sample_rule]) [ChooseInterface (Some ''wan''), Pick (Some ''r1''), ChooseInterface (Some ''lan'')] apply_initial) = Some mu
    \<and> field (rq_body (m_request mu)) ''bindings'' = Some (JObj [(''interface'', JStr ''lan'')])"
proof -
  let ?s = "apply_run (Some [sample_rule]) ([ChooseInterface (Some ''wan'')] @ Pick (Some ''r1'') # [ChooseInterface (Some ''lan'')]) apply_initial"
  have id: "at_templateId ?s = Some ''r1''" by (simp add: pickTemplate_def)
  obtain mu where mu: "apply_fire (\<lambda>_. Some 0) (Some ''t'') ''d'' (Some [sample_rule]) False ?s = Some mu"
    using id by (simp add: apply_fire_def scheduled_iso_def del: apply_run_Cons)
  have fw: "isFirewallRule (find_template (Some [sample_rule]) (Some ''r1''))"
    by (simp add: find_template_def sample_rule_def isFirewallRule_def)
  have "field (rq_body (m_request mu)) ''bindings'' = Some (JObj [(''interface'', JStr ''lan'')])"
    using apply_binds_choice [OF _ _ refl mu] fw by simp
  then show ?thesis using mu by simp
qed

fun last_pchoice :: "profile_event list \<Rightarrow> string \<Rightarrow> string" where
  "last_pchoice [] v = v"
| "last_pchoice (PChooseInterface w # es) v = last_pchoice es (nullish_or w [])"
| "last_pchoice (_ # es) v = last_pchoice es v"

fun last_preview :: "profile_event list \<Rightarrow> profile_preview list option \<Rightarrow> profile_preview list option" where
  "last_preview [] v = v"
| "last_preview (PStartPreview # es) v = last_preview es None"
| "last_preview (PPreviewLanded (Some ps) # es) v = last_preview es (Some ps)"
| "last_preview (_ # es) v = last_preview es v"

fun no_ppick :: "profile_event list \<Rightarrow> bool" where
  "no_ppick [] = True"
| "no_ppick (PPick _ # es) = False"
| "no_ppick (_ # es) = no_ppick es"

lemma profile_run_fields:
  "no_ppick es \<Longrightarrow> pa_profileId (foldl (\<lambda>s e. profile_step e s) s es) = pa_profileId s
     \<and> pa_iface (foldl (\<lambda>s e. profile_step e s) s es) = last_pchoice es (pa_iface s)
     \<and> pa_preview (foldl (\<lambda>s e. profile_step e s) s es) = last_preview es (pa_preview s)"
proof (induction es arbitrary: s)
  case (Cons e es)
  then show ?case
    by (cases e) (auto simp: profile_preview_landed_def profile_openConfirm_def profile_fired_def split: option.splits)
qed simp

text \<open>C38. What a profile is applied with. Once a profile is picked, an application is for that profile;
  it carries the interface chosen since exactly when the preview on screen has a firewall rule. Picking
  does not clear that preview: without a preview of its own, a profile is applied with or without an
  interface as the previously previewed profile dictates.\<close>

theorem profile_binds_preview:
  assumes "no_ppick es" and "pid \<noteq> []"
    and "profile_fire parse a d scheduled (profile_run (PPick (Some pid) # es) s) = Some mu"
  shows "rq_params (m_request mu) = profile_params a d pid
    \<and> field (rq_body (m_request mu)) ''bindings'' =
        Some (JObj (case last_preview es (pa_preview s) of
            Some ps \<Rightarrow> if \<exists>p \<in> set ps. pp_kind p = ''firewall_rule'' then [(''interface'', JStr (last_pchoice es []))] else []
          | None \<Rightarrow> []))"
proof -
  have "pa_profileId (profile_run (PPick (Some pid) # es) s) = Some pid
    \<and> pa_iface (profile_run (PPick (Some pid) # es) s) = last_pchoice es []
    \<and> pa_preview (profile_run (PPick (Some pid) # es) s) = last_preview es (pa_preview s)"
    using profile_run_fields [OF assms(1), of "pickProfile (Some pid) s"] by (simp add: profile_run_def pickProfile_def)
  then show ?thesis using assms(2,3)
    by (auto simp: profile_fire_def profile_bindings_def hasFwRule_def useApplyProfile_def hook_simps obj_get_def split: option.splits)
qed

definition sample_profile_state :: profile_state where
  "sample_profile_state = \<lparr>pa_profileId = Some ''p1'', pa_confirming = False, pa_when = None, pa_iface = ''wan'',
     pa_interfaces = [], pa_preview = Some [\<lparr>pp_kind = ''firewall_rule'', pp_name = None, pp_content = None\<rparr>], pa_notices = []\<rparr>"

theorem profile_binds_preview_witness:
  "\<exists>mu. profile_fire (\<lambda>_. Some 0) (Some ''t'') ''d'' False (profile_run [PPick (Some ''p2'')] sample_profile_state) = Some mu
    \<and> field (rq_body (m_request mu)) ''bindings'' = Some (JObj [(''interface'', JStr [])])"
proof -
  obtain mu where mu: "profile_fire (\<lambda>_. Some 0) (Some ''t'') ''d'' False (profile_run [PPick (Some ''p2'')] sample_profile_state) = Some mu"
    by (simp add: profile_fire_def profile_run_def pickProfile_def scheduled_iso_def)
  have "field (rq_body (m_request mu)) ''bindings'' = Some (JObj [(''interface'', JStr [])])"
    using profile_binds_preview [of "[]" "''p2''", OF _ _ mu] by (simp add: sample_profile_state_def)
  then show ?thesis using mu by blast
qed

text \<open>Saving a profile untouched sends it back as it was.\<close>

lemma profile_edit_roundtrip:
  "profile_submit (Some e) (profile_open (Some e)) = useUpdateProfile (pr_id e)
     (JObj [(''name'', JStr (pr_name e)), (''description'', JStr (nullish_or (pr_description e) [])),
            (''template_ids'', jstrs (nullish_or (pr_template_ids e) []))])"
  by (simp add: profile_submit_def profile_open_def Let_def)

end
