(* ===== verification/Timeline.thy ===== *)
theory Timeline
  imports Monitoring
begin

text \<open>
  The timelines of a device, from the table of the backend to the rows on screen. The reader of the
  events (\<^verbatim>\<open>backend/app/repositories/event.py\<close>, \<^verbatim>\<open>backend/app/api/events.py\<close>) returns a page in
  descending order of the key of an event, with a cursor when the page is full; the hooks
  (\<open>useReliabilityEvents\<close>, \<open>useConfigAuditEvents\<close>) ask for the next page while there is a cursor. The
  rows the query of the database selects for the tenant, the source and the device are given, with any
  linearly ordered key and any encoding of keys as cursors that decoding inverts.
\<close>

section \<open>The events endpoint\<close>

definition MAX_EVENTS :: nat where
  "MAX_EVENTS = 1000"

definition list_page ::
  "('k::linorder \<Rightarrow> string) \<Rightarrow> (string \<Rightarrow> 'k option) \<Rightarrow> ('k \<times> json) list \<Rightarrow> string option \<Rightarrow> nat
    \<Rightarrow> (json list \<times> string option) option" where
  "list_page encode decode rows after limit =
     (let n = min limit MAX_EVENTS in
      map_option (\<lambda>rs. let page = take n rs in
          (map snd page, if length page = n then Some (encode (fst (last page))) else None))
        (case after of None \<Rightarrow> Some rows | Some c \<Rightarrow> map_option (\<lambda>k. filter (\<lambda>r. fst r < k) rows) (decode c)))"

text \<open>The handler: \<open>limit\<close> defaults to 100, and a cursor that does not decode is a client error (a limit outside
  1 to 1000 is refused before it).\<close>

definition list_events ::
  "('k::linorder \<Rightarrow> string) \<Rightarrow> (string \<Rightarrow> 'k option) \<Rightarrow> ('k \<times> json) list \<Rightarrow> request \<Rightarrow> api_result" where
  "list_events encode decode rows rq =
     (case list_page encode decode rows (str_field (obj_get (rq_query rq) ''after''))
             (case obj_get (rq_query rq) ''limit'' of Some (JNum n) \<Rightarrow> nat n | _ \<Rightarrow> 100) of
        None \<Rightarrow> Reply None (Some (JObj [(''detail'', JStr ''Invalid cursor'')])) 400
      | Some (items, next_cursor) \<Rightarrow>
          Reply (Some (JObj [(''items'', JArr items), (''next_cursor'', jopt next_cursor)])) None 200)"

section \<open>Loading every page\<close>

fun arr_items :: "json \<Rightarrow> json list" where
  "arr_items (JArr xs) = xs"
| "arr_items _ = []"

text \<open>Asking for the next page for as long as there is one; a failed page ends the loading. The result is
  the pages received, if the loading ends.\<close>

partial_function (option) load_pages ::
  "(request \<Rightarrow> api_result) \<Rightarrow> infinite_query \<Rightarrow> string option \<Rightarrow> (json list \<times> string option) list option" where
  "load_pages serve q pageParam =
     (case iq_fn q (serve (iq_request q pageParam)) of
        Inl _ \<Rightarrow> Some []
      | Inr pg \<Rightarrow> (case iq_next q pg of
            None \<Rightarrow> Some [(arr_items (fst pg), snd pg)]
          | Some c \<Rightarrow> Option.bind (load_pages serve q (Some c)) (\<lambda>ps. Some ((arr_items (fst pg), snd pg) # ps))))"

section \<open>What is proved\<close>

lemma filter_after:
  assumes "sorted_wrt (\<lambda>a b. fst b < fst a) rows" and "i < length rows"
  shows "filter (\<lambda>r. fst r < fst (rows ! i)) rows = drop (Suc i) (rows :: ('k::linorder \<times> 'v) list)"
  using assms
proof (induction rows arbitrary: i)
  case (Cons r rows)
  show ?case
  proof (cases i)
    case 0
    have "filter (\<lambda>x. fst x < fst r) rows = rows" using Cons.prems(1) by (intro filter_True) auto
    then show ?thesis using 0 by simp
  next
    case (Suc j)
    then have "j < length rows" using Cons.prems(2) by simp
    moreover have "\<not> fst r < fst (rows ! j)" using Cons.prems(1) nth_mem [OF calculation] by (auto dest: order.asym)
    ultimately show ?thesis using Suc Cons by simp
  qed
qed simp

text \<open>The page parameter of a position: none at the start, else the cursor of the row before it.\<close>

definition cursor_at :: "('k \<Rightarrow> string) \<Rightarrow> ('k \<times> json) list \<Rightarrow> nat \<Rightarrow> string option" where
  "cursor_at encode rows i = (if i = 0 then None else Some (encode (fst (rows ! (i - 1)))))"

lemma list_page_at:
  assumes "sorted_wrt (\<lambda>a b. fst b < fst a) rows" and "\<forall>k. decode (encode k) = Some k" and "i \<le> length rows"
  shows "list_page encode decode rows (cursor_at encode rows i) 50 =
           Some (map snd (take 50 (drop i rows)),
                 if i + 50 \<le> length rows then cursor_at encode rows (i + 50) else None)"
proof -
  have "(case cursor_at encode rows i of None \<Rightarrow> Some rows | Some c \<Rightarrow> map_option (\<lambda>k. filter (\<lambda>r. fst r < k) rows) (decode c))
      = Some (drop i rows)"
    using filter_after [OF assms(1), of "i - 1"] assms(2,3) by (simp add: cursor_at_def)
  moreover have "length (take 50 (drop i rows)) = 50 \<longleftrightarrow> i + 50 \<le> length rows" by auto
  moreover have "last (take 50 (drop i rows)) = rows ! (i + 49)" if "i + 50 \<le> length rows"
    using that by (simp add: last_conv_nth)
  ultimately show ?thesis by (simp add: list_page_def MAX_EVENTS_def Let_def cursor_at_def add.commute)
qed

lemma page_at:
  assumes "sorted_wrt (\<lambda>a b. fst b < fst a) rows" and "\<forall>k. decode (encode k) = Some k" and "i \<le> length rows"
  shows "event_page_fn msg (list_events encode decode rows (event_page_request source a d (cursor_at encode rows i))) =
           Inr (JArr (map snd (take 50 (drop i rows))),
                if i + 50 \<le> length rows then cursor_at encode rows (i + 50) else None)"
proof -
  have q: "rq_query (event_page_request source a d p) =
      [(''source'', JStr source), (''device_id'', JStr d), (''limit'', JNum 50)] @ (case p of None \<Rightarrow> [] | Some c \<Rightarrow> [(''after'', JStr c)])" for p
    by (simp add: event_page_request_def api_call_def PAGE_SIZE_def)
  have "str_field (obj_get (rq_query (event_page_request source a d p)) ''after'') = p"
    "obj_get (rq_query (event_page_request source a d p)) ''limit'' = Some (JNum 50)" for p
    by (simp_all add: q obj_get_def split: option.splits)
  then show ?thesis
    using list_page_at [OF assms] by (auto simp: list_events_def obj_get_def or_empty_def jopt_def split: option.splits)
qed

lemma load_from:
  assumes "sorted_wrt (\<lambda>a b. fst b < fst a) rows" and "\<forall>k. decode (encode k) = Some k" and "i \<le> length rows"
    and "iq_request q = event_page_request source a d" and "iq_fn q = event_page_fn msg" and "iq_next q = snd"
  shows "\<exists>ps. load_pages (list_events encode decode rows) q (cursor_at encode rows i) = Some ps
           \<and> concat (map fst ps) = map snd (drop i rows) \<and> length ps = (length rows - i) div 50 + 1"
  using assms(3)
proof (induction "length rows - i" arbitrary: i rule: less_induct)
  case less
  let ?load = "load_pages (list_events encode decode rows) q"
  note page = page_at [OF assms(1,2) less.prems, of msg source a d]
  show ?case
  proof (cases "i + 50 \<le> length rows")
    case True
    then obtain ps where ps: "?load (cursor_at encode rows (i + 50)) = Some ps"
      "concat (map fst ps) = map snd (drop (i + 50) rows)" "length ps = (length rows - (i + 50)) div 50 + 1"
      using less.hyps [of "i + 50"] by (meson diff_less_mono2 less_add_same_cancel1 less_le_trans zero_less_numeral)
    have "cursor_at encode rows (i + 50) \<noteq> None" by (simp add: cursor_at_def)
    then have "?load (cursor_at encode rows i) = Some ((map snd (take 50 (drop i rows)), cursor_at encode rows (i + 50)) # ps)"
      using page True ps(1) assms(4-6) by (subst load_pages.simps) (auto simp: Option.bind_eq_Some_conv)
    moreover have "map snd (take 50 (drop i rows)) @ map snd (drop (i + 50) rows) = map snd (drop i rows)"
      by (metis append_take_drop_id drop_drop map_append add.commute)
    moreover have "Suc ((length rows - (i + 50)) div 50 + 1) = (length rows - i) div 50 + 1" using True by (simp add: le_div_geq)
    ultimately show ?thesis using ps by auto
  next
    case False
    then have "?load (cursor_at encode rows i) = Some [(map snd (drop i rows), None)]"
      using page assms(4-6) by (subst load_pages.simps) (simp add: take_all)
    then show ?thesis using False by simp
  qed
qed

text \<open>C31. A timeline can be read to its end. Whatever events the database holds for a device, loading page
  after page ends, after one request more than the number of full pages, and the rows shown are then all
  the events, each once and in the order of the backend, newest first; both timelines, of service events
  and of configuration changes, do so. (Loading is a recursion that could fail to end; that it has a value
  is part of the statement.)\<close>

theorem timeline_complete:
  assumes "sorted_wrt (\<lambda>x y. fst y < fst x) rows" and "\<forall>k. decode (encode k) = Some k"
    and "q \<in> {useReliabilityEvents a d, useConfigAuditEvents a d}"
  shows "\<exists>ps. load_pages (list_events encode decode rows) q None = Some ps
           \<and> timeline_rows (Some ps) = map snd rows \<and> length ps = length rows div 50 + 1"
proof -
  obtain source msg where "iq_request q = event_page_request source a d" "iq_fn q = event_page_fn msg" "iq_next q = snd"
    using assms(3) by (auto simp: useReliabilityEvents_def useConfigAuditEvents_def)
  from load_from [OF assms(1,2) _ this, of 0] show ?thesis by (auto simp: cursor_at_def timeline_rows_def)
qed

definition sample_events :: "(nat \<times> json) list" where
  "sample_events = [(7, JStr ''reboot''), (4, JStr ''service_crashed'')]"

theorem timeline_complete_witness:
  "\<exists>ps. load_pages (list_events (\<lambda>k. replicate k CHR ''x'') (\<lambda>c. Some (length c)) sample_events)
          (useReliabilityEvents (Some ''t1'') ''d1'') None = Some ps
     \<and> timeline_rows (Some ps) = [JStr ''reboot'', JStr ''service_crashed''] \<and> length ps = 1"
  using timeline_complete [of sample_events "\<lambda>c. Some (length c)" "\<lambda>k. replicate k CHR ''x''"
      "useReliabilityEvents (Some ''t1'') ''d1''" "Some ''t1''" "''d1''"]
  by (simp add: sample_events_def)

end
