(* ===== verification/TemplateViews.thy ===== *)
theory TemplateViews
  imports DeviceViews TemplateApply Timeline
begin

text \<open>
  What the template and profile pages render (\<^verbatim>\<open>templates/TemplateFormModal.tsx\<close> and the six forms in
  it, \<^verbatim>\<open>templates/ApplyTemplateTab.tsx\<close>, \<^verbatim>\<open>pages/TemplateLibraryPage.tsx\<close>,
  \<^verbatim>\<open>profiles/ProfilesPanel.tsx\<close>, \<^verbatim>\<open>profiles/ProfileFormModal.tsx\<close>,
  \<^verbatim>\<open>profiles/ApplyProfileSection.tsx\<close>): the elements with the events their buttons raise, over the
  states and the handlers of the form and apply theories, and that the buttons agree with the handlers.
\<close>

section \<open>The forms of the kinds\<close>

datatype form_event = LoadFields | LoadRulesets | AddContent | RemoveContent string | SubmitTemplate

text \<open>The choice of the reference device with the button that loads from it; \<open>key\<close> is the group of texts of
  the form.\<close>

definition device_picker :: "string \<Rightarrow> (string \<times> string) list option \<Rightarrow> string \<Rightarrow> bool \<Rightarrow> bool \<Rightarrow> form_event \<Rightarrow> form_event elem list" where
  "device_picker key devices deviceId pending enabled e =
     (if nullish_or devices [] = [] then [Text (key @ ''.noDevice'')]
      else [Choice (key @ ''.referenceDevice'') (nullish_or devices []) (if deviceId = [] then None else Some deviceId),
            Busy_button (key @ ''.load'') pending enabled e])"

definition auto_elems :: "setting_field list \<Rightarrow> string obj \<Rightarrow> 'e elem list" where
  "auto_elems fs payload = map (\<lambda>(f, _, w). widget_elem (sf_label f) w) (zip fs (AutoFormFields fs payload))"

definition OpnsenseSettingForm ::
  "(string \<times> string) list option \<Rightarrow> (string \<times> string) list option \<Rightarrow> bool \<Rightarrow> introspection \<Rightarrow> setting_body \<Rightarrow> form_event elem list" where
  "OpnsenseSettingForm endpoints devices pending s b =
     [Choice ''t.templates.setting.endpoint'' (nullish_or endpoints [])
        (if sb_endpoint_key b = [] then None else Some (sb_endpoint_key b))]
     @ device_picker ''t.templates.setting'' devices (in_deviceId s) pending
         (\<not> (sb_endpoint_key b = [] \<or> in_deviceId s = [])) LoadFields
     @ (if \<not> in_loaded s then [Text ''t.templates.setting.loadHint'']
        else if in_fields s = [] then [Text ''t.templates.setting.noFields'']
        else auto_elems (in_fields s) (sb_payload b))
     @ [Text ''t.templates.setting.hardwareNote'']"

definition loaded_fields :: "string \<Rightarrow> introspection \<Rightarrow> payload_body \<Rightarrow> form_event elem list" where
  "loaded_fields key s b =
     (if \<not> in_loaded s then [Text (key @ ''.loadHint'')] else auto_elems (in_fields s) (pb_payload b))"

definition FirewallRuleForm :: "(string \<times> string) list option \<Rightarrow> bool \<Rightarrow> introspection \<Rightarrow> payload_body \<Rightarrow> form_event elem list" where
  "FirewallRuleForm devices pending s b =
     device_picker ''t.templates.fw'' devices (in_deviceId s) pending (in_deviceId s \<noteq> []) LoadFields
     @ loaded_fields ''t.templates.fw'' s b @ [Text ''t.templates.fw.note'']"

definition MonitTestForm :: "(string \<times> string) list option \<Rightarrow> bool \<Rightarrow> introspection \<Rightarrow> payload_body \<Rightarrow> form_event elem list" where
  "MonitTestForm devices pending s b =
     device_picker ''t.templates.monit'' devices (in_deviceId s) pending (in_deviceId s \<noteq> []) LoadFields
     @ loaded_fields ''t.templates.monit'' s b
     @ [Toggle ''t.templates.monit.attachSystem'' (attach_checked b), Text ''t.templates.monit.attachSystemNote'',
        Text ''t.templates.monit.note'']"

definition IdsRulesetForm :: "(string \<times> string) list option \<Rightarrow> bool \<Rightarrow> ruleset_state \<Rightarrow> ids_body \<Rightarrow> form_event elem list" where
  "IdsRulesetForm devices pending s b =
     device_picker ''t.templates.ids'' devices (rs_deviceId s) pending (rs_deviceId s \<noteq> []) LoadRulesets
     @ (if \<not> rs_loaded s then [Text ''t.templates.ids.loadHint'']
        else if rs_rows s = [] then [Text ''t.templates.ids.noRulesets'']
        else [Choices ''t.templates.ids.rulesets'' (ids_rulesetData (rs_rows s)) (ib_rulesets b)])
     @ [Text ''t.templates.ids.note'']"

definition content_row :: "string \<times> string list \<Rightarrow> form_event elem" where
  "content_row kv = Row [Text (fst kv @ '': '' @ js_join '', '' (snd kv)), Button (''remove '' @ fst kv) True (RemoveContent (fst kv))]"

text \<open>\<open>number\<close> is \<open>Number(prio) || 0\<close> in its printed form.\<close>

definition IdsPolicyForm ::
  "(string \<Rightarrow> string) \<Rightarrow> (string \<times> string) list option \<Rightarrow> bool \<Rightarrow> ruleset_state \<Rightarrow> content_draft \<Rightarrow> policy_body \<Rightarrow> form_event elem list" where
  "IdsPolicyForm number devices pending s cd b =
     [Field ''t.templates.idsPolicy.description'' (po_description b), Toggle ''t.templates.idsPolicy.enabled'' (po_enabled b = ''1''),
      Field ''t.templates.idsPolicy.prio'' (number (po_prio b)),
      Choices ''t.templates.idsPolicy.action'' (map (\<lambda>x. (x, x)) ACTIONS) (po_action b),
      Choice ''t.templates.idsPolicy.newAction'' (map (\<lambda>x. (x, x)) NEW_ACTIONS) (Some (po_new_action b))]
     @ device_picker ''t.templates.idsPolicy'' devices (rs_deviceId s) pending (rs_deviceId s \<noteq> []) LoadRulesets
     @ (if \<not> rs_loaded s then [Text ''t.templates.idsPolicy.loadHint'']
        else if policy_rulesetData (rs_rows s) b = [] then [Text ''t.templates.idsPolicy.noRulesets'']
        else [Choices ''t.templates.idsPolicy.rulesets'' (policy_rulesetData (rs_rows s) b) (po_rulesets b)])
     @ [Text ''t.templates.idsPolicy.content''] @ map content_row (obj_entries (po_content b))
     @ [Field ''t.templates.idsPolicy.contentKey'' (cd_key cd), Field ''t.templates.idsPolicy.contentValues'' (cd_values cd),
        Button ''t.templates.idsPolicy.addContent'' (js_trim (cd_key cd) \<noteq> []) AddContent,
        Text ''t.templates.idsPolicy.note'']"

definition TEMPLATE_ALIAS_TYPES :: "string list" where
  "TEMPLATE_ALIAS_TYPES = [''host'', ''network'', ''port'', ''url'', ''urltable'', ''geoip'', ''networkgroup'', ''mac'', ''dynipv6host'']"

definition KIND_OPTIONS :: "(string \<times> string) list" where
  "KIND_OPTIONS =
     [(''firewall_alias'', ''t.templates.kindAlias''), (''opnsense_setting'', ''t.templates.kindSetting''),
      (''suricata_ruleset'', ''t.templates.kindIdsRulesets''), (''firewall_rule'', ''t.templates.kindFirewallRule''),
      (''monit_test'', ''t.templates.kindMonitTest''), (''ids_policy'', ''t.templates.kindIdsPolicy'')]"

text \<open>The states of the six forms and what they read, and the form of the chosen kind.\<close>

record forms_view =
  vw_endpoints :: "(string \<times> string) list option"
  vw_devices :: "(string \<times> string) list option"
  vw_loading :: bool
  vw_saving :: bool
  vw_introspection :: introspection
  vw_rulesets :: ruleset_state
  vw_draft :: content_draft
  vw_number :: "string \<Rightarrow> string"

definition kind_form :: "forms_view \<Rightarrow> template_form \<Rightarrow> form_event elem list" where
  "kind_form v f =
     (if tf_kind f = ''opnsense_setting''
      then OpnsenseSettingForm (vw_endpoints v) (vw_devices v) (vw_loading v) (vw_introspection v) (tf_setting f)
      else if tf_kind f = ''suricata_ruleset'' then IdsRulesetForm (vw_devices v) (vw_loading v) (vw_rulesets v) (tf_ids f)
      else if tf_kind f = ''firewall_rule'' then FirewallRuleForm (vw_devices v) (vw_loading v) (vw_introspection v) (tf_rule f)
      else if tf_kind f = ''monit_test'' then MonitTestForm (vw_devices v) (vw_loading v) (vw_introspection v) (tf_monit f)
      else if tf_kind f = ''ids_policy''
      then IdsPolicyForm (vw_number v) (vw_devices v) (vw_loading v) (vw_rulesets v) (vw_draft v) (tf_policy f)
      else [Choice ''t.templates.type'' (map (\<lambda>x. (x, x)) TEMPLATE_ALIAS_TYPES) (Some (tf_type f)),
            Field ''t.templates.content'' (tf_content f)])"

definition TemplateFormModal :: "bool \<Rightarrow> template option \<Rightarrow> forms_view \<Rightarrow> template_form \<Rightarrow> form_event elem list" where
  "TemplateFormModal opened editing v f =
     onlyif opened [Dialog (if editing \<noteq> None then ''t.templates.edit'' else ''t.templates.create'')
       ([Field ''t.templates.name'' (tf_name f), Field ''t.templates.description'' (tf_description f),
         Choice ''t.templates.kindLabel'' KIND_OPTIONS (Some (tf_kind f))]
        @ kind_form v f @ [Busy_button ''t.templates.save'' (vw_saving v) True SubmitTemplate])]"

section \<open>The library\<close>

datatype library_event = NewTemplate | EditTemplate template | AskDeleteTemplate template | CancelDeleteTemplate
  | ConfirmDeleteTemplate | NewProfile | EditProfile profile | AskDeleteProfile profile | CancelDeleteProfile
  | ConfirmDeleteProfile | SubmitProfile | InForm form_event

definition template_row :: "template \<Rightarrow> library_event elem list" where
  "template_row tpl =
     [Text (tm_name tpl), Badge [] (kind_of (tm_body tpl)), Text (nullish_or (tm_description tpl) []),
      Button ''t.templates.edit'' True (EditTemplate tpl), Button ''t.templates.delete'' True (AskDeleteTemplate tpl)]"

definition library_tab :: "template list option \<Rightarrow> bool \<Rightarrow> form_event elem list \<Rightarrow> library_state \<Rightarrow> library_event elem list" where
  "library_tab templates deleting modal s =
     [Button ''t.templates.create'' True NewTemplate]
     @ (if nullish_or templates [] \<noteq> []
        then [Table [''t.templates.name'', ''t.templates.kind'', ''t.templates.description'', []]
                (map (\<lambda>tpl. Row (template_row tpl)) (nullish_or templates []))]
        else [Text ''t.templates.empty''])
     @ map (map_elem InForm) modal
     @ confirm_dialog (lb_toDelete s \<noteq> None) ''t.templates.delete'' ''t.templates.deleteConfirm'' None (Some deleting)
         CancelDeleteTemplate ConfirmDeleteTemplate"

definition profile_row :: "profile \<Rightarrow> library_event elem list" where
  "profile_row p =
     [Text (pr_name p), Text (nullish_or (pr_description p) []),
      Text (show_nat (length (nullish_or (pr_template_ids p) [])) @ '' t.templates.profiles.memberCount''),
      Button ''t.templates.profiles.edit'' True (EditProfile p), Button ''t.templates.profiles.delete'' True (AskDeleteProfile p)]"

definition ProfileFormModal ::
  "bool \<Rightarrow> profile option \<Rightarrow> (string \<times> string) list option \<Rightarrow> bool \<Rightarrow> profile_form \<Rightarrow> library_event elem list" where
  "ProfileFormModal opened editing templates saving v =
     onlyif opened [Dialog (if editing \<noteq> None then ''t.templates.profiles.edit'' else ''t.templates.profiles.create'')
       [Field ''t.templates.profiles.name'' (pf_name v), Field ''t.templates.profiles.description'' (pf_description v),
        Choices ''t.templates.profiles.members'' (nullish_or templates []) (pf_template_ids v),
        Busy_button ''t.templates.profiles.save'' saving True SubmitProfile]]"

definition ProfilesPanel ::
  "profile list option \<Rightarrow> bool \<Rightarrow> library_event elem list \<Rightarrow> profiles_state \<Rightarrow> library_event elem list" where
  "ProfilesPanel profiles deleting modal s =
     [Button ''t.templates.profiles.create'' True NewProfile]
     @ (if nullish_or profiles [] \<noteq> []
        then [Table [''t.templates.profiles.name'', ''t.templates.profiles.description'', ''t.templates.profiles.members'', []]
                (map (\<lambda>p. Row (profile_row p)) (nullish_or profiles []))]
        else [Text ''t.templates.profiles.empty''])
     @ modal
     @ confirm_dialog (pn_toDelete s \<noteq> None) ''t.templates.profiles.delete'' ''t.templates.profiles.deleteConfirm'' None (Some deleting)
         CancelDeleteProfile ConfirmDeleteProfile"

text \<open>The library page: the gate, or the title with the two tabs.\<close>

definition TemplateLibrary_view :: "auth_state \<Rightarrow> library_event elem list \<Rightarrow> library_event elem list \<Rightarrow> library_event elem list" where
  "TemplateLibrary_view auth templates profiles =
     (if \<not> useIsSuperadmin auth then [Alert ''yellow'' ''t.templates.superadminOnly'']
      else [Title ''t.templates.libraryTitle'', Title ''t.templates.templatesTab'', Section templates,
            Title ''t.templates.profiles.tab'', Section profiles])"

section \<open>Applying\<close>

datatype apply_click = SaveOverride_click | Preview_click | Confirm_click | CancelApply | FireApply bool

text \<open>The confirmation with the date, shared in form by the two panels.\<close>

definition apply_dialog :: "string \<Rightarrow> bool \<Rightarrow> string option \<Rightarrow> bool \<Rightarrow> apply_click elem list" where
  "apply_dialog key confirming picked applying =
     onlyif confirming [Dialog ''t.confirm.title''
       [Text (key @ ''.applyConfirm''), Field (key @ ''.scheduleAt'') (nullish_or picked []),
        Button ''t.confirm.cancel'' True CancelApply,
        Busy_button (key @ ''.runNow'') applying True (FireApply False),
        Busy_button (key @ ''.schedule'') applying (struthy picked) (FireApply True)]]"

text \<open>The preview of a template: the \<open>new\<close> of the reply, its name when there is one and its content.\<close>

definition preview_out :: "json option \<Rightarrow> apply_click elem list" where
  "preview_out preview =
     (case field preview ''new'' of None \<Rightarrow> [] | Some JNull \<Rightarrow> []
      | Some n \<Rightarrow> [Title ''t.templates.apply.previewTitle'']
          @ onlyif (struthy (str_field (field (Some n) ''name''))) [Text (the (str_field (field (Some n) ''name'')))]
          @ [Text (js_join [newline] (List.map_filter (\<lambda>x. str_field (Some x)) (arr_items (or_empty (field (Some n) ''content'')))))])"

record apply_pending =
  ap_saving :: bool
  ap_previewing :: bool
  ap_applying :: bool

definition ApplyTemplateTab :: "template list option \<Rightarrow> apply_pending \<Rightarrow> apply_state \<Rightarrow> apply_click elem list" where
  "ApplyTemplateTab templates p s =
     (if nullish_or templates [] = [] then [Text ''t.templates.apply.none'']
      else [Title ''t.templates.apply.title'',
            Choice ''t.templates.apply.pick'' (map (\<lambda>tpl. (tm_id tpl, tm_name tpl)) (nullish_or templates [])) (at_templateId s)]
        @ onlyif (struthy (at_templateId s))
            (onlyif (isFirewallRule (find_template templates (at_templateId s)))
               [Choice ''t.templates.fw.interface'' (interfaceData ''t.templates.fw.floating'' (at_interfaces s)) (Some (at_iface s))]
             @ [Field ''t.templates.apply.override'' (at_override s),
                Busy_button ''t.templates.apply.saveOverride'' (ap_saving p) True SaveOverride_click,
                Busy_button ''t.templates.apply.preview'' (ap_previewing p) True Preview_click,
                Button ''t.templates.apply.title'' True Confirm_click])
        @ preview_out (at_preview s) @ apply_dialog ''t.templates.apply'' (at_confirming s) (at_when s) (ap_applying p))"

definition ApplyProfileSection :: "(string \<times> string) list option \<Rightarrow> apply_pending \<Rightarrow> profile_state \<Rightarrow> apply_click elem list" where
  "ApplyProfileSection profiles p s =
     (if nullish_or profiles [] = [] then [Text ''t.templates.profiles.apply.empty'']
      else [Title ''t.templates.profiles.apply.title'',
            Choice ''t.templates.profiles.apply.pick'' (nullish_or profiles []) (pa_profileId s)]
        @ onlyif (hasFwRule s)
            [Choice ''t.templates.profiles.apply.interface'' (interfaceData ''t.templates.profiles.apply.floating'' (pa_interfaces s))
               (Some (pa_iface s))]
        @ onlyif (struthy (pa_profileId s))
            [Busy_button ''t.templates.profiles.apply.preview'' (ap_previewing p) True Preview_click,
             Button ''t.templates.profiles.apply.title'' True Confirm_click]
        @ (case previewLines s of None \<Rightarrow> [] | Some ls \<Rightarrow> Title ''t.templates.profiles.apply.previewTitle'' # map Text ls)
        @ apply_dialog ''t.templates.profiles.apply'' (pa_confirming s) (pa_when s) (ap_applying p))"

section \<open>What is proved\<close>

lemma picker_clicks [simp]:
  "clicks (device_picker key devices deviceId pending enabled e) = onlyif (nullish_or devices [] \<noteq> [] \<and> \<not> pending \<and> enabled) [e]"
  by (simp add: device_picker_def onlyif_def)

lemma widgets_clicks [simp]: "clicks_of (widget_elem l w) = []"
  by (cases w) simp_all

lemma fields_elems_clicks [simp]: "clicks (map (\<lambda>(f, _, w). widget_elem (sf_label f) w) ws) = []"
  by (induction ws) auto

lemma fields_clicks [simp]: "clicks (auto_elems fs payload) = []" "clicks (loaded_fields key s b) = []"
  by (simp_all add: auto_elems_def loaded_fields_def)

lemma texts_clicks [simp]: "clicks (map Text ls) = []"
  by (induction ls) simp_all

lemma preview_out_clicks [simp]: "clicks (preview_out v) = []"
  by (auto simp: preview_out_def split: option.splits json.splits)

lemma dialog_clicks [simp]:
  "clicks (apply_dialog key confirming picked applying) =
     onlyif confirming (CancelApply # onlyif (\<not> applying) (FireApply False # onlyif (struthy picked) [FireApply True]))"
  by (simp add: apply_dialog_def onlyif_def)

lemma content_clicks: "set (clicks (map content_row kvs)) = RemoveContent ` fst ` set kvs"
  by (auto simp: content_row_def)

lemma addContent_acts: "addContent (cd, b) \<noteq> (cd, b) \<longleftrightarrow> js_trim (cd_key cd) \<noteq> []"
proof (cases "js_trim (cd_key cd) = []")
  case False
  then have "cd_key cd \<noteq> []" by (auto simp: js_trim_def)
  then have "cd\<lparr>cd_key := [], cd_values := []\<rparr> \<noteq> cd" "cd\<lparr>cd_notices := cd_notices cd @ [x]\<rparr> \<noteq> cd" for x
    by (metis content_draft.select_convs(1) content_draft.surjective content_draft.update_convs(1,2),
        metis append_self_conv content_draft.select_convs(3) content_draft.surjective content_draft.update_convs(3) not_Cons_self2)
  then show ?thesis using False by (simp add: addContent_def Let_def)
qed (simp add: addContent_def)

lemma clicks_of_map: "clicks_of (map_elem f e) = map f (clicks_of e)"
  by (induction e) (auto simp: clicks_def onlyif_def map_concat comp_def intro!: arg_cong [of _ _ concat])

lemma clicks_map_elem: "clicks (map (map_elem f) es) = map f (clicks es)"
  by (induction es) (simp_all add: clicks_of_map)

lemma listed_clicks:
  "AskDeleteTemplate tpl \<in> set (clicks (library_tab templates deleting modal s)) \<longleftrightarrow> tpl \<in> set (nullish_or templates [])"
  "EditTemplate tpl \<in> set (clicks (library_tab templates deleting modal s)) \<longleftrightarrow> tpl \<in> set (nullish_or templates [])"
  by (auto simp: library_tab_def template_row_def clicks_of_map)

text \<open>The buttons of the template pages agree with their handlers. The button that loads the fields of
  a form is enabled exactly when there is a device to choose, no load is pending and the handler would send
  a request; the one that adds a metadata entry exactly when the handler does something; previewing and
  saving an override exactly when a request would leave; the confirmation fires exactly when it is open
  with nothing pending, and schedules only with a date; editing and deleting are offered for exactly the
  templates listed, and nothing at all to a user who is not a superadmin.\<close>

theorem template_buttons_act:
  "(LoadFields \<in> set (clicks (OpnsenseSettingForm endpoints devices loading si sb)) \<longleftrightarrow>
      nullish_or devices [] \<noteq> [] \<and> \<not> loading \<and> setting_request a si sb \<noteq> None)
   \<and> (LoadFields \<in> set (clicks (FirewallRuleForm devices loading si rb)) \<longleftrightarrow>
      nullish_or devices [] \<noteq> [] \<and> \<not> loading \<and> rule_request a si \<noteq> None)
   \<and> (LoadFields \<in> set (clicks (MonitTestForm devices loading si mb)) \<longleftrightarrow>
      nullish_or devices [] \<noteq> [] \<and> \<not> loading \<and> monit_request a si \<noteq> None)
   \<and> (AddContent \<in> set (clicks (IdsPolicyForm number devices loading rs cd po)) \<longleftrightarrow> addContent (cd, po) \<noteq> (cd, po))
   \<and> (RemoveContent k \<in> set (clicks (IdsPolicyForm number devices loading rs cd po)) \<longleftrightarrow> k \<in> fst ` set (po_content po))
   \<and> (Preview_click \<in> set (clicks (ApplyTemplateTab templates p s)) \<longleftrightarrow>
      nullish_or templates [] \<noteq> [] \<and> \<not> ap_previewing p \<and> runPreview a d templates s \<noteq> None)
   \<and> (SaveOverride_click \<in> set (clicks (ApplyTemplateTab templates p s)) \<longleftrightarrow>
      nullish_or templates [] \<noteq> [] \<and> \<not> ap_saving p \<and> saveOverride a s \<noteq> None)
   \<and> (FireApply b \<in> set (clicks (ApplyTemplateTab templates p s)) \<longleftrightarrow>
      nullish_or templates [] \<noteq> [] \<and> at_confirming s \<and> \<not> ap_applying p \<and> (b \<longrightarrow> struthy (at_when s)))
   \<and> (AskDeleteTemplate tpl \<in> set (clicks (library_tab templates deleting modal ls)) \<longleftrightarrow> tpl \<in> set (nullish_or templates []))
   \<and> (\<not> useIsSuperadmin auth \<longrightarrow> clicks (TemplateLibrary_view auth lib prof) = [])"
proof (intro conjI)
  show "LoadFields \<in> set (clicks (OpnsenseSettingForm endpoints devices loading si sb)) \<longleftrightarrow>
      nullish_or devices [] \<noteq> [] \<and> \<not> loading \<and> setting_request a si sb \<noteq> None"
    by (simp add: OpnsenseSettingForm_def setting_request_def)
  show "LoadFields \<in> set (clicks (FirewallRuleForm devices loading si rb)) \<longleftrightarrow>
      nullish_or devices [] \<noteq> [] \<and> \<not> loading \<and> rule_request a si \<noteq> None"
    by (simp add: FirewallRuleForm_def rule_request_def)
  show "LoadFields \<in> set (clicks (MonitTestForm devices loading si mb)) \<longleftrightarrow>
      nullish_or devices [] \<noteq> [] \<and> \<not> loading \<and> monit_request a si \<noteq> None"
    by (simp add: MonitTestForm_def monit_request_def)
  show "AddContent \<in> set (clicks (IdsPolicyForm number devices loading rs cd po)) \<longleftrightarrow> addContent (cd, po) \<noteq> (cd, po)"
    unfolding addContent_acts by (auto simp: IdsPolicyForm_def content_clicks simp del: set_clicks_map)
  show "RemoveContent k \<in> set (clicks (IdsPolicyForm number devices loading rs cd po)) \<longleftrightarrow> k \<in> fst ` set (po_content po)"
    by (auto simp: IdsPolicyForm_def content_clicks simp del: set_clicks_map)
  show "Preview_click \<in> set (clicks (ApplyTemplateTab templates p s)) \<longleftrightarrow>
      nullish_or templates [] \<noteq> [] \<and> \<not> ap_previewing p \<and> runPreview a d templates s \<noteq> None"
    by (simp add: ApplyTemplateTab_def runPreview_def)
  show "SaveOverride_click \<in> set (clicks (ApplyTemplateTab templates p s)) \<longleftrightarrow>
      nullish_or templates [] \<noteq> [] \<and> \<not> ap_saving p \<and> saveOverride a s \<noteq> None"
    by (simp add: ApplyTemplateTab_def saveOverride_def)
  show "FireApply b \<in> set (clicks (ApplyTemplateTab templates p s)) \<longleftrightarrow>
      nullish_or templates [] \<noteq> [] \<and> at_confirming s \<and> \<not> ap_applying p \<and> (b \<longrightarrow> struthy (at_when s))"
    by (cases b) (simp_all add: ApplyTemplateTab_def)
qed (simp_all add: listed_clicks TemplateLibrary_view_def)

theorem template_buttons_act_witness:
  "clicks (TemplateLibrary_view (sample_user False) [Button ''x'' True NewTemplate] []) = []"
proof (rule template_buttons_act [THEN conjunct2, THEN conjunct2, THEN conjunct2, THEN conjunct2, THEN conjunct2,
      THEN conjunct2, THEN conjunct2, THEN conjunct2, THEN conjunct2, THEN mp])
  show "\<not> useIsSuperadmin (sample_user False)" by (simp add: useIsSuperadmin_def sample_user_def)
qed

end
