(* ===== verification/AdminPages.thy ===== *)
theory AdminPages
  imports HooksAdmin ConfigPages ConfirmFlow
begin

text \<open>
  The administration pages: the audit ledger (\<^verbatim>\<open>pages/AuditPage.tsx\<close>), the runtime settings
  (\<^verbatim>\<open>admin/RuntimeSettingsSection.tsx\<close>, \<^verbatim>\<open>pages/SystemSettingsPage.tsx\<close>), mail delivery
  (\<^verbatim>\<open>pages/SmtpSettingsPage.tsx\<close>), user groups (\<^verbatim>\<open>pages/GroupsPage.tsx\<close>) and the fleet's log
  forwarding (\<^verbatim>\<open>pages/LogFleetPage.tsx\<close>).
\<close>

section \<open>The audit ledger\<close>

definition AUDIT_PAGE_SIZE :: int where "AUDIT_PAGE_SIZE = 50"

text \<open>\<open>toIso\<close>: an unset or invalid date is no filter.\<close>

definition audit_toIso :: "(string \<Rightarrow> int option) \<Rightarrow> string option \<Rightarrow> string option" where
  "audit_toIso parse_local v = (if \<not> struthy v then None else picked_iso parse_local (the v))"

record audit_state =
  au_actorEmail :: string
  au_tenant :: string
  au_action :: string
  au_from :: "string option"
  au_to :: "string option"
  au_applied :: "json option obj"
  au_offset :: int

definition audit_initial :: audit_state where
  "audit_initial = \<lparr>au_actorEmail = [], au_tenant = [], au_action = [], au_from = None, au_to = None, au_applied = [], au_offset = 0\<rparr>"

definition audit_filters :: "audit_state \<Rightarrow> json option obj" where
  "audit_filters s = obj_spread (au_applied s) [(''limit'', Some (JNum AUDIT_PAGE_SIZE)), (''offset'', Some (JNum (au_offset s)))]"

definition or_undefined :: "string \<Rightarrow> json option" where
  "or_undefined v = (if js_trim v = [] then None else Some (JStr (js_trim v)))"

definition applyFilters :: "(string \<Rightarrow> int option) \<Rightarrow> audit_state \<Rightarrow> audit_state" where
  "applyFilters parse_local s =
     s\<lparr>au_applied := [(''actor_email'', or_undefined (au_actorEmail s)), (''tenant_id'', or_undefined (au_tenant s)),
         (''action'', or_undefined (au_action s)), (''frm'', map_option JStr (audit_toIso parse_local (au_from s))),
         (''to'', map_option JStr (audit_toIso parse_local (au_to s)))],
       au_offset := 0\<rparr>"

definition resetFilters :: "audit_state \<Rightarrow> audit_state" where
  "resetFilters s = audit_initial"

definition audit_page :: "audit_state \<Rightarrow> int" where
  "audit_page s = au_offset s div AUDIT_PAGE_SIZE + 1"

definition hasPrev :: "audit_state \<Rightarrow> bool" where
  "hasPrev s \<longleftrightarrow> au_offset s > 0"

definition hasNext :: "int option \<Rightarrow> audit_state \<Rightarrow> bool" where
  "hasNext tot s \<longleftrightarrow> au_offset s + AUDIT_PAGE_SIZE < nullish_or tot 0"

definition audit_prev :: "audit_state \<Rightarrow> audit_state" where
  "audit_prev s = s\<lparr>au_offset := max 0 (au_offset s - AUDIT_PAGE_SIZE)\<rparr>"

definition audit_next :: "audit_state \<Rightarrow> audit_state" where
  "audit_next s = s\<lparr>au_offset := au_offset s + AUDIT_PAGE_SIZE\<rparr>"

definition exportCsv :: "audit_state \<Rightarrow> mutation" where
  "exportCsv s = downloadAuditCsv (au_applied s)"

definition audit_target :: "string option \<Rightarrow> string option \<Rightarrow> cell" where
  "audit_target target_type target_id =
     (if struthy target_type then Shown (the target_type @ (if struthy target_id then '':'' @ the target_id else [])) else Dash)"

text \<open>The runs of the page; the total of the latest reply may be any number at each step.\<close>

inductive audit_run :: "(string \<Rightarrow> int option) \<Rightarrow> audit_state \<Rightarrow> bool" for parse_local where
  start: "audit_run parse_local audit_initial"
| edit: "audit_run parse_local s \<Longrightarrow>
     audit_run parse_local (s\<lparr>au_actorEmail := a, au_tenant := t, au_action := x, au_from := f, au_to := u\<rparr>)"
| filters: "audit_run parse_local s \<Longrightarrow> audit_run parse_local (applyFilters parse_local s)"
| reset: "audit_run parse_local s \<Longrightarrow> audit_run parse_local (resetFilters s)"
| prev: "audit_run parse_local s \<Longrightarrow> hasPrev s \<Longrightarrow> audit_run parse_local (audit_prev s)"
| nxt: "audit_run parse_local s \<Longrightarrow> hasNext tot s \<Longrightarrow> audit_run parse_local (audit_next s)"

section \<open>Runtime settings\<close>

record runtime_setting =
  ru_key :: string
  ru_group :: string
  ru_kind :: string
  ru_value :: json

definition GROUP_ORDER :: "string list" where
  "GROUP_ORDER = [''firmware'', ''distribution'', ''maintenance'', ''retention'', ''security_login'', ''security_session'']"

record runtime_state =
  rn_draft :: "json obj"
  rn_impacts :: "json list"
  rn_notices :: "notice list"

definition runtime_effective :: "runtime_setting list \<Rightarrow> json obj" where
  "runtime_effective settings = from_entries (map (\<lambda>s. (ru_key s, ru_value s)) settings)"

definition valueOf :: "json obj \<Rightarrow> runtime_setting \<Rightarrow> json" where
  "valueOf draft s = (if obj_has draft (ru_key s) then the (obj_get draft (ru_key s)) else ru_value s)"

definition dirtyKeys :: "runtime_setting list \<Rightarrow> json obj \<Rightarrow> runtime_setting list" where
  "dirtyKeys settings draft = filter (\<lambda>s. obj_has draft (ru_key s)
     \<and> obj_get draft (ru_key s) \<noteq> obj_get (runtime_effective settings) (ru_key s)) settings"

definition setValue :: "string \<Rightarrow> json \<Rightarrow> runtime_state \<Rightarrow> runtime_state" where
  "setValue key v s = s\<lparr>rn_draft := obj_set key v (rn_draft s)\<rparr>"

text \<open>The number input reports a number, or the empty string when it is cleared, which is ignored.\<close>

definition number_changed :: "string \<Rightarrow> json option \<Rightarrow> runtime_state \<Rightarrow> runtime_state" where
  "number_changed key v s = (case v of Some (JNum n) \<Rightarrow> setValue key (JNum n) s | _ \<Rightarrow> s)"

definition runtime_values :: "runtime_setting list \<Rightarrow> runtime_state \<Rightarrow> json obj" where
  "runtime_values settings s =
     from_entries (map (\<lambda>x. (ru_key x, the (obj_get (rn_draft s) (ru_key x)))) (dirtyKeys settings (rn_draft s)))"

definition runtime_save :: "runtime_setting list \<Rightarrow> runtime_state \<Rightarrow> mutation option" where
  "runtime_save settings s =
     (if dirtyKeys settings (rn_draft s) = [] then None
      else Some (useUpdateRuntimeSettings (JObj (runtime_values settings s))))"

definition runtime_saved :: "mutation \<Rightarrow> api_result \<Rightarrow> runtime_state \<Rightarrow> runtime_state" where
  "runtime_saved mu r s =
     (let s = s\<lparr>rn_impacts := []\<rparr> in
      case m_fn mu r of
        Inr v \<Rightarrow> s\<lparr>rn_draft := [], rn_impacts := (case field v ''retention_impacts'' of Some (JArr xs) \<Rightarrow> xs | _ \<Rightarrow> []),
                   rn_notices := rn_notices s @ [Info ''rt.saved'']\<rparr>
      | Inl _ \<Rightarrow> s\<lparr>rn_notices := rn_notices s @ [Failure ''rt.saveError'']\<rparr>)"

definition discard :: "runtime_state \<Rightarrow> runtime_state" where
  "discard s = s\<lparr>rn_draft := []\<rparr>"

definition runtime_groups :: "runtime_setting list \<Rightarrow> string list" where
  "runtime_groups settings = filter (\<lambda>g. \<exists>s \<in> set settings. ru_group s = g) GROUP_ORDER"

definition livePush_toggled :: "bool \<Rightarrow> api_result \<Rightarrow> notice" where
  "livePush_toggled enabled r =
     (case m_fn (useSetLivePush enabled) r of
        Inr _ \<Rightarrow> Info (if enabled then ''t.system.livePush.enabled'' else ''t.system.livePush.disabled'')
      | Inl _ \<Rightarrow> Failure ''t.system.livePush.updateError'')"

section \<open>Mail delivery\<close>

record smtp_settings =
  sm_enabled :: bool
  sm_host :: string
  sm_port :: int
  sm_security :: string
  sm_username :: "string option"
  sm_from_email :: string
  sm_from_name :: string
  sm_auth_method :: "string option"
  sm_oauth_provider :: "string option"
  sm_oauth_client_id :: "string option"
  sm_oauth_tenant_id :: "string option"

record smtp_form =
  sp_enabled :: bool
  sp_host :: string
  sp_port :: int
  sp_security :: string
  sp_username :: string
  sp_from_email :: string
  sp_from_name :: string
  sp_password :: string
  sp_auth_method :: string
  sp_oauth_provider :: string
  sp_oauth_client_id :: string
  sp_oauth_client_secret :: string
  sp_oauth_refresh_token :: string
  sp_oauth_tenant_id :: string
  sp_initialized :: bool

definition smtp_initial :: smtp_form where
  "smtp_initial = \<lparr>sp_enabled = False, sp_host = [], sp_port = 587, sp_security = ''starttls'', sp_username = [],
     sp_from_email = [], sp_from_name = [], sp_password = [], sp_auth_method = ''password'', sp_oauth_provider = ''google'',
     sp_oauth_client_id = [], sp_oauth_client_secret = [], sp_oauth_refresh_token = [], sp_oauth_tenant_id = [], sp_initialized = False\<rparr>"

definition smtp_effect :: "smtp_settings option \<Rightarrow> smtp_form \<Rightarrow> smtp_form" where
  "smtp_effect data f =
     (case data of None \<Rightarrow> f
      | Some d \<Rightarrow> if sp_initialized f then f
          else \<lparr>sp_enabled = sm_enabled d, sp_host = sm_host d, sp_port = sm_port d, sp_security = sm_security d,
                sp_username = nullish_or (sm_username d) [], sp_from_email = sm_from_email d, sp_from_name = sm_from_name d,
                sp_password = [], sp_auth_method = nullish_or (sm_auth_method d) ''password'',
                sp_oauth_provider = nullish_or (sm_oauth_provider d) ''google'',
                sp_oauth_client_id = nullish_or (sm_oauth_client_id d) [], sp_oauth_client_secret = [],
                sp_oauth_refresh_token = [], sp_oauth_tenant_id = nullish_or (sm_oauth_tenant_id d) [], sp_initialized = True\<rparr>)"

definition or_null :: "string \<Rightarrow> json" where
  "or_null v = (if v = [] then JNull else JStr v)"

definition if_filled :: "string \<Rightarrow> string \<Rightarrow> (string \<times> json) list" where
  "if_filled key v = (if v = [] then [] else [(key, JStr v)])"

definition smtp_payload :: "smtp_form \<Rightarrow> json obj" where
  "smtp_payload v =
     (let base = [(''enabled'', JBool (sp_enabled v)), (''host'', JStr (sp_host v)), (''port'', JNum (sp_port v)),
                  (''security'', JStr (sp_security v)), (''from_email'', JStr (sp_from_email v)),
                  (''from_name'', JStr (sp_from_name v)), (''auth_method'', JStr (sp_auth_method v)),
                  (''clear_password'', JBool False), (''clear_client_secret'', JBool False), (''clear_refresh_token'', JBool False)] in
      if sp_auth_method v = ''oauth''
      then base @ [(''username'', JNull), (''oauth_provider'', JStr (sp_oauth_provider v)),
                   (''oauth_client_id'', or_null (sp_oauth_client_id v)),
                   (''oauth_tenant_id'', if sp_oauth_provider v = ''microsoft'' then or_null (sp_oauth_tenant_id v) else JNull)]
           @ if_filled ''oauth_client_secret'' (sp_oauth_client_secret v)
           @ if_filled ''oauth_refresh_token'' (sp_oauth_refresh_token v)
      else base @ [(''username'', or_null (sp_username v))] @ if_filled ''password'' (sp_password v))"

definition smtp_save :: "smtp_form \<Rightarrow> mutation" where
  "smtp_save v = useUpdateSmtpSettings (JObj (smtp_payload v))"

definition smtp_saved :: "smtp_form \<Rightarrow> api_result \<Rightarrow> smtp_form \<times> notice" where
  "smtp_saved v r =
     (case m_fn (smtp_save v) r of
        Inr _ \<Rightarrow> (v\<lparr>sp_password := [], sp_oauth_client_secret := [], sp_oauth_refresh_token := []\<rparr>, Info ''SMTP settings saved'')
      | Inl _ \<Rightarrow> (v, Failure ''Failed to save SMTP settings''))"

definition smtp_test :: "string \<Rightarrow> smtp_form \<Rightarrow> mutation option" where
  "smtp_test testTo v = (if testTo = [] then None else Some (useTestSmtp (JObj (smtp_payload v @ [(''to'', JStr testTo)]))))"

definition connect_offered :: "bool \<Rightarrow> smtp_settings option \<Rightarrow> bool" where
  "connect_offered has_client_secret data \<longleftrightarrow> has_client_secret \<and> struthy (Option.bind data sm_oauth_client_id)"

section \<open>Groups\<close>

definition ROLES :: "string list" where
  "ROLES = [''tenant_admin'', ''operator'', ''read_only'']"

record group_out =
  go_id :: string
  go_name :: string
  go_description :: string

record groups_state =
  gp_newName :: string
  gp_newDescription :: string
  gp_toDelete :: "group_out option"
  gp_notices :: "notice list"

definition group_create :: "groups_state \<Rightarrow> mutation option" where
  "group_create s =
     (if js_trim (gp_newName s) = [] then None
      else Some (useCreateGroup (JObj [(''name'', JStr (js_trim (gp_newName s))), (''description'', JStr (js_trim (gp_newDescription s)))])))"

definition group_created :: "mutation \<Rightarrow> api_result \<Rightarrow> groups_state \<Rightarrow> groups_state" where
  "group_created mu r s =
     (case m_fn mu r of
        Inr _ \<Rightarrow> s\<lparr>gp_newName := [], gp_newDescription := [], gp_notices := gp_notices s @ [Info ''t.groups.created'']\<rparr>
      | Inl _ \<Rightarrow> s\<lparr>gp_notices := gp_notices s @ [Failure ''t.groups.saveFailed'']\<rparr>)"

definition group_selectDelete :: "group_out \<Rightarrow> groups_state \<Rightarrow> groups_state" where
  "group_selectDelete g s = s\<lparr>gp_toDelete := Some g\<rparr>"

definition group_cancelDelete :: "groups_state \<Rightarrow> groups_state" where
  "group_cancelDelete s = s\<lparr>gp_toDelete := None\<rparr>"

definition group_confirmDelete :: "api_result \<Rightarrow> groups_state \<Rightarrow> groups_state" where
  "group_confirmDelete r s =
     (let g = gp_toDelete s; s = s\<lparr>gp_toDelete := None\<rparr> in
      case g of None \<Rightarrow> s
      | Some e \<Rightarrow> s\<lparr>gp_notices := gp_notices s @ [case m_fn (useDeleteGroup (go_id e)) r of
           Inr _ \<Rightarrow> Info ''t.groups.deleted'' | Inl _ \<Rightarrow> Failure ''t.groups.saveFailed'']\<rparr>)"

interpretation delete_group: confirm_flow gp_toDelete group_selectDelete group_cancelDelete
    "\<lambda>g. m_request (useDeleteGroup (go_id g))" group_confirmDelete
  by unfold_locales
     (auto simp: group_selectDelete_def group_cancelDelete_def group_confirmDelete_def Let_def split: option.splits)

text \<open>The form that adds a grant to a group.\<close>

record grant_form =
  gf_allTenants :: bool
  gf_tenantId :: "string option"
  gf_role :: string

definition grant_initial :: grant_form where
  "grant_initial = \<lparr>gf_allTenants = False, gf_tenantId = None, gf_role = ''read_only''\<rparr>"

definition grant_body :: "grant_form \<Rightarrow> json" where
  "grant_body f =
     (if gf_allTenants f then JObj [(''all_tenants'', JBool True), (''role'', JStr (gf_role f))]
      else JObj [(''all_tenants'', JBool False), (''tenant_id'', jopt (gf_tenantId f)), (''role'', JStr (gf_role f))])"

definition handleAddGrant :: "string \<Rightarrow> grant_form \<Rightarrow> mutation option" where
  "handleAddGrant groupId f =
     (if \<not> gf_allTenants f \<and> \<not> struthy (gf_tenantId f) then None else Some (useAddGroupGrant groupId (grant_body f)))"

definition grant_added :: "mutation \<Rightarrow> api_result \<Rightarrow> grant_form \<Rightarrow> grant_form \<times> notice" where
  "grant_added mu r f =
     (case m_fn mu r of Inr _ \<Rightarrow> (grant_initial, Info ''t.groups.grantAdded'') | Inl _ \<Rightarrow> (f, Failure ''t.groups.saveFailed''))"

definition pick_role :: "string option \<Rightarrow> grant_form \<Rightarrow> grant_form" where
  "pick_role v f = (if struthy v then f\<lparr>gf_role := the v\<rparr> else f)"

definition grantScope :: "string obj \<Rightarrow> bool \<Rightarrow> string option \<Rightarrow> string" where
  "grantScope tenantNames all_tenants tenant_id =
     (if all_tenants then ''t.groups.allTenantsScope''
      else if struthy tenant_id then nullish_or (obj_get tenantNames (the tenant_id)) (the tenant_id) else [])"

definition group_saveDetails :: "string \<Rightarrow> string \<Rightarrow> string \<Rightarrow> mutation option" where
  "group_saveDetails groupId name description =
     (if js_trim name = [] then None
      else Some (useUpdateGroup groupId (JObj [(''name'', JStr (js_trim name)), (''description'', JStr description)])))"

definition handleSetMembers :: "string \<Rightarrow> string list \<Rightarrow> mutation" where
  "handleSetMembers groupId userIds = useSetGroupMembers groupId userIds"

definition handleRemoveGrant :: "string \<Rightarrow> string \<Rightarrow> mutation" where
  "handleRemoveGrant groupId grantId = useDeleteGroupGrant groupId grantId"

section \<open>The fleet's log forwarding\<close>

definition FWD_COLOR :: "string \<Rightarrow> string" where
  "FWD_COLOR f = (if f = ''enabled'' then ''green'' else if f = ''revoked'' then ''red'' else ''gray'')"

text \<open>\<open>now\<close> and the time of the last log in milliseconds; an invalid date compares false.\<close>

definition isSilent :: "(string \<Rightarrow> int option) \<Rightarrow> int \<Rightarrow> int \<Rightarrow> string option \<Rightarrow> bool" where
  "isSilent parse now enabled lastLogAt =
     (if enabled \<le> 0 then False
      else if \<not> struthy lastLogAt then True
      else case parse (the lastLogAt) of None \<Rightarrow> False | Some ms \<Rightarrow> now - ms > 60 * 60 * 1000)"

section \<open>What is proved\<close>

subsection \<open>Paging through the ledger\<close>

definition audit_keys :: "string set" where
  "audit_keys = {''actor_email'', ''tenant_id'', ''action'', ''frm'', ''to''}"

lemma audit_run_inv:
  "audit_run parse_local s \<Longrightarrow> au_offset s \<ge> 0 \<and> AUDIT_PAGE_SIZE dvd au_offset s
     \<and> obj_wf (au_applied s) \<and> fst ` set (au_applied s) \<subseteq> audit_keys"
proof (induction rule: audit_run.induct)
  case (prev s)
  then have "AUDIT_PAGE_SIZE \<le> au_offset s" by (auto simp: hasPrev_def AUDIT_PAGE_SIZE_def dest: zdvd_imp_le)
  then show ?case using prev by (simp add: audit_prev_def)
qed (auto simp: audit_initial_def applyFilters_def resetFilters_def audit_next_def AUDIT_PAGE_SIZE_def obj_wf_def audit_keys_def)

lemma get_audit_filters:
  "obj_get (audit_filters s) k =
     (if k = ''limit'' then Some (Some (JNum AUDIT_PAGE_SIZE)) else if k = ''offset'' then Some (Some (JNum (au_offset s)))
      else obj_get (au_applied s) k)"
  by (simp add: audit_filters_def obj_get_spread obj_wf_def) (simp add: obj_get_def)

lemma offset_nexts: "au_offset ((audit_next ^^ k) s) = au_offset s + int k * AUDIT_PAGE_SIZE"
  by (induction k) (simp_all add: audit_next_def algebra_simps)

lemma prev_next: "au_offset s \<ge> 0 \<Longrightarrow> audit_prev (audit_next s) = s"
  by (simp add: audit_prev_def audit_next_def AUDIT_PAGE_SIZE_def)



subsection \<open>Runtime settings\<close>

lemma get_effective:
  "distinct (map ru_key settings) \<Longrightarrow> x \<in> set settings \<Longrightarrow> obj_get (runtime_effective settings) (ru_key x) = Some (ru_value x)"
proof -
  assume d: "distinct (map ru_key settings)" and x: "x \<in> set settings"
  have "map_of (rev (map (\<lambda>s. (ru_key s, ru_value s)) settings)) (ru_key x) = Some (ru_value x)"
    using d x by (subst map_of_eq_Some_iff) (auto simp: rev_map [symmetric] comp_def)
  then show ?thesis by (simp add: runtime_effective_def obj_get_from_entries)
qed

text \<open>The value of a key after a save that the server stores as sent.\<close>

definition patched :: "json obj \<Rightarrow> runtime_setting \<Rightarrow> json" where
  "patched vals x = nullish_or (obj_get vals (ru_key x)) (ru_value x)"

text \<open>A save of the runtime settings is exactly the edit. For settings with distinct keys and any
  draft, the request has an entry for a key exactly when the user changed that setting to another
  value, and applying the entries to the committed values gives what the form shows for every setting;
  nothing is sent when nothing differs; clearing a number changes nothing; a failed save keeps the
  draft, a successful one clears it.\<close>

theorem runtime_patch_exact:
  assumes "distinct (map ru_key settings)" and "x \<in> set settings"
  shows "patched (runtime_values settings s) x = valueOf (rn_draft s) x
    \<and> (obj_get (runtime_values settings s) (ru_key x) \<noteq> None \<longleftrightarrow> valueOf (rn_draft s) x \<noteq> ru_value x)
    \<and> (runtime_save settings s = None \<longleftrightarrow> (\<forall>y \<in> set settings. valueOf (rn_draft s) y = ru_value y))
    \<and> number_changed (ru_key x) (Some (JStr [])) s = s
    \<and> rn_draft (runtime_saved mu r s) = (case m_fn mu r of Inr _ \<Rightarrow> [] | Inl _ \<Rightarrow> rn_draft s)"
proof -
  have dirty: "y \<in> set (dirtyKeys settings (rn_draft s)) \<longleftrightarrow> valueOf (rn_draft s) y \<noteq> ru_value y" if "y \<in> set settings" for y
    using get_effective [OF assms(1) that] that by (auto simp: dirtyKeys_def valueOf_def obj_has_iff)
  have dd: "distinct (map ru_key (dirtyKeys settings (rn_draft s)))"
    using assms(1) by (simp add: dirtyKeys_def distinct_map_filter)
  have val: "valueOf (rn_draft s) y = the (obj_get (rn_draft s) (ru_key y))" if "y \<in> set (dirtyKeys settings (rn_draft s))" for y
    using that by (simp add: dirtyKeys_def valueOf_def)
  have get: "obj_get (runtime_values settings s) (ru_key x) =
      (if x \<in> set (dirtyKeys settings (rn_draft s)) then Some (valueOf (rn_draft s) x) else None)"
  proof (cases "x \<in> set (dirtyKeys settings (rn_draft s))")
    case True
    then have "map_of (rev (map (\<lambda>x. (ru_key x, the (obj_get (rn_draft s) (ru_key x)))) (dirtyKeys settings (rn_draft s)))) (ru_key x)
        = Some (the (obj_get (rn_draft s) (ru_key x)))"
      using dd by (subst map_of_eq_Some_iff) (auto simp: rev_map [symmetric] comp_def)
    then show ?thesis using True val by (simp add: runtime_values_def obj_get_from_entries)
  next
    case False
    have "ru_key x \<notin> ru_key ` set (dirtyKeys settings (rn_draft s))"
      using False assms by (auto simp: dirtyKeys_def distinct_map dest: inj_onD)
    then have "map_of (rev (map (\<lambda>x. (ru_key x, the (obj_get (rn_draft s) (ru_key x)))) (dirtyKeys settings (rn_draft s)))) (ru_key x) = None"
      by (subst map_of_eq_None_iff) (auto simp: image_image)
    then show ?thesis using False by (simp add: runtime_values_def obj_get_from_entries)
  qed
  have "dirtyKeys settings (rn_draft s) = [] \<longleftrightarrow> (\<forall>y \<in> set settings. y \<notin> set (dirtyKeys settings (rn_draft s)))"
    by (cases "dirtyKeys settings (rn_draft s)") (auto simp: dirtyKeys_def filter_eq_Cons_iff)
  then have none: "runtime_save settings s = None \<longleftrightarrow> (\<forall>y \<in> set settings. valueOf (rn_draft s) y = ru_value y)"
    using dirty by (auto simp: runtime_save_def)
  show ?thesis
    using get dirty [OF assms(2)] none
    by (auto simp: patched_def number_changed_def runtime_saved_def Let_def split: sum.splits)
qed

definition sample_runtime :: "runtime_setting list" where
  "sample_runtime = [\<lparr>ru_key = ''poll'', ru_group = ''firmware'', ru_kind = ''int'', ru_value = JNum 5\<rparr>,
     \<lparr>ru_key = ''auto'', ru_group = ''firmware'', ru_kind = ''bool'', ru_value = JBool True\<rparr>]"

theorem runtime_patch_exact_witness:
  "obj_get (runtime_values sample_runtime \<lparr>rn_draft = [(''poll'', JNum 9), (''auto'', JBool True)], rn_impacts = [], rn_notices = []\<rparr>) ''auto'' = None"
proof -
  let ?s = "\<lparr>rn_draft = [(''poll'', JNum 9), (''auto'', JBool True)], rn_impacts = [], rn_notices = []\<rparr>"
  let ?x = "\<lparr>ru_key = ''auto'', ru_group = ''firmware'', ru_kind = ''bool'', ru_value = JBool True\<rparr>"
  have "distinct (map ru_key sample_runtime)" "?x \<in> set sample_runtime" by (simp_all add: sample_runtime_def)
  from runtime_patch_exact [OF this, of ?s] have "obj_get (runtime_values sample_runtime ?s) (ru_key ?x) \<noteq> None \<longleftrightarrow> valueOf (rn_draft ?s) ?x \<noteq> ru_value ?x"
    by blast
  then show ?thesis by (simp add: valueOf_def obj_has_def obj_get_def)
qed

subsection \<open>Mail secrets\<close>

definition secret_keys :: "string set" where
  "secret_keys = {''password'', ''oauth_client_secret'', ''oauth_refresh_token''}"

text \<open>Mail secrets are written only when entered. The payload has a password only for password
  authentication, the two tokens only for OAuth, and each only when its field is filled, with that
  text; the clear flags are never set. The form loaded from stored settings, and the form after a
  successful save, send no secret, so saving again keeps what the server has; after a failure what was
  entered is kept.\<close>

theorem smtp_secrets_write_only:
  "obj_get (smtp_payload v) ''password'' = (if sp_auth_method v \<noteq> ''oauth'' \<and> sp_password v \<noteq> [] then Some (JStr (sp_password v)) else None)
   \<and> obj_get (smtp_payload v) ''oauth_client_secret'' =
       (if sp_auth_method v = ''oauth'' \<and> sp_oauth_client_secret v \<noteq> [] then Some (JStr (sp_oauth_client_secret v)) else None)
   \<and> obj_get (smtp_payload v) ''oauth_refresh_token'' =
       (if sp_auth_method v = ''oauth'' \<and> sp_oauth_refresh_token v \<noteq> [] then Some (JStr (sp_oauth_refresh_token v)) else None)
   \<and> obj_get (smtp_payload v) ''clear_password'' = Some (JBool False)
   \<and> fst ` set (smtp_payload (smtp_effect (Some d) smtp_initial)) \<inter> secret_keys = {}
   \<and> (case m_fn (smtp_save v) r of
        Inr _ \<Rightarrow> fst ` set (smtp_payload (fst (smtp_saved v r))) \<inter> secret_keys = {}
      | Inl _ \<Rightarrow> fst (smtp_saved v r) = v)"
proof -
  have blank: "fst ` set (smtp_payload f) \<inter> secret_keys = {}"
    if "sp_password f = []" "sp_oauth_client_secret f = []" "sp_oauth_refresh_token f = []" for f
    using that by (auto simp: smtp_payload_def Let_def if_filled_def secret_keys_def)
  have "fst ` set (smtp_payload (smtp_effect (Some d) smtp_initial)) \<inter> secret_keys = {}"
    by (rule blank) (simp_all add: smtp_effect_def smtp_initial_def)
  moreover have "case m_fn (smtp_save v) r of Inr _ \<Rightarrow> fst ` set (smtp_payload (fst (smtp_saved v r))) \<inter> secret_keys = {}
      | Inl _ \<Rightarrow> fst (smtp_saved v r) = v"
    by (auto simp: smtp_saved_def blank split: sum.splits)
  ultimately show ?thesis by (simp add: smtp_payload_def Let_def if_filled_def obj_get_def)
qed

subsection \<open>Grants\<close>

text \<open>A grant names all tenants or one tenant, never both or neither, and a successful grant puts the
  form back to the weakest role.\<close>

lemma grant_scope_exact:
  "handleAddGrant g f = Some mu \<Longrightarrow>
     (field (rq_body (m_request mu)) ''all_tenants'' = Some (JBool True)) \<noteq> (\<exists>t. t \<noteq> [] \<and> field (rq_body (m_request mu)) ''tenant_id'' = Some (JStr t))"
  by (auto simp: handleAddGrant_def grant_body_def useAddGroupGrant_def hook_simps obj_get_def struthy_iff split: if_splits)

end
