(* ===== verification/AdminViews.thy ===== *)
theory AdminViews
  imports View Dictionaries AdminPages
begin

text \<open>
  What the administration pages show: groups with their cards (\<^verbatim>\<open>pages/GroupsPage.tsx\<close>), mail
  delivery with the return from the OAuth provider (\<^verbatim>\<open>pages/SmtpSettingsPage.tsx\<close>), the log fleet with
  its drill-down and exports (\<^verbatim>\<open>pages/LogFleetPage.tsx\<close>), the system page and the runtime settings
  (\<^verbatim>\<open>pages/SystemSettingsPage.tsx\<close>, \<^verbatim>\<open>admin/RuntimeSettingsSection.tsx\<close>). The handlers are those
  of \<open>AdminPages\<close>; a button carries the event of its handler.
\<close>

section \<open>Groups\<close>

record grant_out =
  gt_id :: string
  gt_all_tenants :: bool
  gt_tenant_id :: "string option"
  gt_role :: string

record group_card = group_out +
  gr_member_ids :: "string list"
  gr_grants :: "grant_out list"

datatype groups_event = CreateGroup | RequestDelete string | SaveDetails string | RemoveGrant string string | AddGrant string
  | ConfirmDelete | CancelDelete

record group_card_state =
  gc_name :: string
  gc_description :: string
  gc_grant :: grant_form

definition GroupCard_mount :: "group_card \<Rightarrow> group_card_state" where
  "GroupCard_mount g = \<lparr>gc_name = go_name g, gc_description = go_description g, gc_grant = grant_initial\<rparr>"

definition roleLabels :: "string obj" where
  "roleLabels = [(''tenant_admin'', ''t.groups.roleTenantAdmin''), (''operator'', ''t.groups.roleOperator''),
     (''read_only'', ''t.groups.roleReadOnly'')]"

definition roleOptions :: "(string \<times> string) list" where
  "roleOptions = map (\<lambda>r. (r, the (obj_get roleLabels r))) ROLES"

definition grantRole :: "grant_out \<Rightarrow> string" where
  "grantRole g = nullish_or (obj_get roleLabels (gt_role g)) (gt_role g)"

definition grant_row :: "string obj \<Rightarrow> string \<Rightarrow> grant_out \<Rightarrow> groups_event elem list" where
  "grant_row tenantNames groupId g =
     [Badge ''light'' (grantScope tenantNames (gt_all_tenants g) (gt_tenant_id g) @ '' '' @ rarr @ '' '' @ grantRole g),
      Button ''t.groups.removeGrant'' True (RemoveGrant groupId (gt_id g))]"

definition GroupCard ::
  "(string \<times> string) list \<Rightarrow> (string \<times> string) list \<Rightarrow> string obj \<Rightarrow> bool \<Rightarrow> bool \<Rightarrow> group_card \<Rightarrow> group_card_state
    \<Rightarrow> groups_event elem list" where
  "GroupCard users tenants tenantNames updating adding g s =
     [Text (go_name g), Button ''t.groups.delete'' True (RequestDelete (go_id g)),
      Field ''t.groups.name'' (gc_name s), Field ''t.groups.descriptionField'' (gc_description s),
      Busy_button ''t.groups.save'' updating (js_trim (gc_name s) \<noteq> []) (SaveDetails (go_id g)),
      Choices ''t.groups.members'' users (gr_member_ids g), Text ''t.groups.grants'']
     @ (if gr_grants g = [] then [Text ''t.groups.noGrants'']
        else map (\<lambda>x. Row (grant_row tenantNames (go_id g) x)) (gr_grants g))
     @ [Text ''t.groups.addGrant'', Toggle ''t.groups.allTenants'' (gf_allTenants (gc_grant s))]
     @ onlyif (\<not> gf_allTenants (gc_grant s)) [Choice ''t.groups.tenant'' tenants (gf_tenantId (gc_grant s))]
     @ [Choice ''t.groups.role'' roleOptions (Some (gf_role (gc_grant s))),
        Busy_button ''t.groups.addGrant'' adding (\<not> (\<not> gf_allTenants (gc_grant s) \<and> \<not> struthy (gf_tenantId (gc_grant s))))
          (AddGrant (go_id g))]"

definition userOptions :: "(string \<times> string) list \<Rightarrow> (string \<times> string) list" where
  "userOptions users = map (\<lambda>(i, email). (i, email)) users"

definition GroupsPage ::
  "auth_state \<Rightarrow> (string \<times> string) list remote \<Rightarrow> (string \<times> string) list remote \<Rightarrow> bool \<Rightarrow> bool \<Rightarrow> (string \<Rightarrow> bool \<times> bool)
    \<Rightarrow> (string \<Rightarrow> group_card_state) \<Rightarrow> groups_state \<Rightarrow> group_card list remote \<Rightarrow> groups_event elem list" where
  "GroupsPage auth users tenants creating deleting busy cards s q =
     (if \<not> useIsSuperadmin auth then [Alert ''yellow'' ''t.groups.superadminOnly'']
      else [Title ''t.groups.title'', Text ''t.groups.description'', Title ''t.groups.createTitle'',
            Field ''t.groups.name'' (gp_newName s), Field ''t.groups.descriptionField'' (gp_newDescription s),
            Busy_button ''t.groups.create'' creating (js_trim (gp_newName s) \<noteq> []) CreateGroup]
        @ onlyif (rm_error q) [Alert ''red'' ''t.groups.loadError'']
        @ onlyif (rm_data q = Some []) [Text ''t.groups.empty'']
        @ map (\<lambda>g. Section (GroupCard (userOptions (remote_list users)) (remote_list tenants) (from_entries (remote_list tenants))
                 (fst (busy (go_id g))) (snd (busy (go_id g))) g (cards (go_id g)))) (remote_list q)
        @ confirm_dialog (gp_toDelete s \<noteq> None) ''t.groups.delete'' ''t.groups.deleteConfirm'' None (Some deleting) CancelDelete ConfirmDelete)"

section \<open>Mail delivery\<close>

text \<open>The address bar after the OAuth provider: the path and the decoded parameters in order. \<open>get\<close> is the
  first value of a name, \<open>delete\<close> drops every entry of it.\<close>

record address =
  ad_pathname :: string
  ad_params :: "(string \<times> string) list"

definition params_get :: "(string \<times> string) list \<Rightarrow> string \<Rightarrow> string option" where
  "params_get ps k = map_of ps k"

definition params_delete :: "string \<Rightarrow> (string \<times> string) list \<Rightarrow> (string \<times> string) list" where
  "params_delete k ps = filter (\<lambda>(k', _). k' \<noteq> k) ps"

record oauth_return =
  or_notice :: "notice option"
  or_refetch :: bool
  or_address :: address

definition smtp_oauth_return :: "address \<Rightarrow> oauth_return" where
  "smtp_oauth_return a =
     (let oauth = params_get (ad_params a) ''oauth'' in
      if oauth = Some ''success'' \<or> oauth = Some ''error''
      then \<lparr>or_notice = Some (if oauth = Some ''success'' then Info ''t.smtp.oauthConnected'' else Failure ''t.smtp.oauthConnectFailed''),
            or_refetch = (oauth = Some ''success''),
            or_address = a\<lparr>ad_params := params_delete ''oauth'' (ad_params a)\<rparr>\<rparr>
      else \<lparr>or_notice = None, or_refetch = False, or_address = a\<rparr>)"

text \<open>The connect button: the address to go to, or a notice.\<close>

definition smtp_connect :: "smtp_form \<Rightarrow> api_result \<Rightarrow> notice + json option" where
  "smtp_connect v r =
     (case m_fn (useSmtpOAuthConnect (sp_oauth_provider v)) r of
        Inr url \<Rightarrow> Inr url | Inl _ \<Rightarrow> Inl (Failure ''t.smtp.oauthConnectFailed''))"

definition smtp_tested :: "mutation \<Rightarrow> api_result \<Rightarrow> notice" where
  "smtp_tested mu r =
     (case m_fn mu r of
        Inl _ \<Rightarrow> Failure ''Test send failed''
      | Inr res \<Rightarrow> if otruthy (field res ''ok'') then Info ''Test email sent''
                   else Failure (''Test failed: '' @ nullish_or (str_field (field res ''detail'')) []))"

record smtp_flags =
  sf_has_password :: bool
  sf_has_client_secret :: bool
  sf_has_refresh_token :: bool

datatype smtp_event = SmtpSave | SmtpTest | SmtpConnect

definition smtp_oauth_fields :: "smtp_settings option \<Rightarrow> smtp_flags \<Rightarrow> bool \<Rightarrow> smtp_form \<Rightarrow> smtp_event elem list" where
  "smtp_oauth_fields data flags connecting v =
     (let isMicrosoft = sp_oauth_provider v = ''microsoft'' in
      [Choice ''t.smtp.oauthProvider'' [(''google'', ''t.smtp.oauthGoogle''), (''microsoft'', ''t.smtp.oauthMicrosoft'')]
         (Some (sp_oauth_provider v)),
       Field ''t.smtp.oauthClientId'' (sp_oauth_client_id v), Field ''t.smtp.oauthClientSecret'' (sp_oauth_client_secret v),
       Field ''t.smtp.oauthRefreshToken'' (sp_oauth_refresh_token v)]
      @ onlyif isMicrosoft [Field ''t.smtp.oauthTenantId'' (sp_oauth_tenant_id v)]
      @ (if connect_offered (sf_has_client_secret flags) data
         then [Busy_button (if isMicrosoft then ''t.smtp.oauthConnectMicrosoft'' else ''t.smtp.oauthConnectGoogle'') connecting True
                 SmtpConnect,
               Badge ''yellow'' ''t.smtp.oauthExperimental'', Text ''t.smtp.oauthExperimentalNote'']
         else [Text ''t.smtp.oauthConnectNeedsCreds'']))"

definition SmtpSettingsPage ::
  "auth_state \<Rightarrow> smtp_settings option \<Rightarrow> smtp_flags \<Rightarrow> bool \<Rightarrow> bool \<Rightarrow> bool \<Rightarrow> string \<Rightarrow> smtp_form \<Rightarrow> smtp_event elem list" where
  "SmtpSettingsPage auth data flags saving testing connecting testTo v =
     (if \<not> useIsSuperadmin auth then [Alert ''red'' ''Superadmin only.'']
      else [Title ''SMTP delivery'', Text ''Outbound mail server for scheduled report delivery.'',
            Toggle ''Enable delivery'' (sp_enabled v), Field ''Host'' (sp_host v), Field ''Port'' (show_int (sp_port v)),
            Choice ''Security'' [(''starttls'', ''starttls''), (''tls'', ''tls''), (''none'', ''none'')] (Some (sp_security v)),
            Text ''t.smtp.authMethod'',
            Choice [] [(''password'', ''t.smtp.authPassword''), (''oauth'', ''t.smtp.authOauth'')] (Some (sp_auth_method v))]
        @ (if sp_auth_method v = ''oauth'' then smtp_oauth_fields data flags connecting v
           else [Field ''Username'' (sp_username v),
                 Field (if sf_has_password flags then ''Password (leave blank to keep)'' else ''Password'') (sp_password v)])
        @ [Field ''From email'' (sp_from_email v), Field ''From name'' (sp_from_name v), Busy_button ''Save'' saving True SmtpSave,
           Title ''Send a test email'', Field ''Recipient'' testTo, Busy_button ''Send test'' testing (testTo \<noteq> []) SmtpTest])"

section \<open>The log fleet\<close>

record fleet_tenant =
  ft_tenant_id :: string
  ft_tenant_name :: string
  ft_enabled :: int
  ft_total_devices :: int
  ft_revoked :: int
  ft_last_log_at :: "string option"
  ft_volume :: "int option"

record fleet_totals =
  fo_tenants_with_forwarding :: nat
  fo_enabled_devices :: nat
  fo_volume :: nat
  fo_silent_tenants :: nat

record fleet_data =
  fd_window :: string
  fd_tenants :: "fleet_tenant list"
  fd_totals :: fleet_totals

record fleet_device =
  fv_device_id :: string
  fv_name :: string
  fv_is_silent :: bool
  fv_forwarding :: string
  fv_last_log_at :: "string option"
  fv_volume :: "int option"

record fleet_state =
  fs_window :: string
  fs_drill :: "(string \<times> string) option"

datatype fleet_event = ExportFleet string | DrillDown string string | CloseDrill

definition fleet_initial :: fleet_state where
  "fleet_initial = \<lparr>fs_window = ''24h'', fs_drill = None\<rparr>"

definition FLEET_WINDOWS :: "string list" where
  "FLEET_WINDOWS = [''24h'', ''7d'', ''30d'']"

definition exportFleet :: "string \<Rightarrow> string \<Rightarrow> api_result \<Rightarrow> notice list" where
  "exportFleet window format r =
     (case m_fn (downloadLogFleet window format) r of Inr _ \<Rightarrow> [] | Inl _ \<Rightarrow> [Failure ''t.logFleet.exportFailed''])"

definition dash_or :: "('a \<Rightarrow> string) \<Rightarrow> 'a option \<Rightarrow> string" where
  "dash_or show v = nullish_or (map_option show v) mdash"

definition fleet_device_row :: "fleet_device \<Rightarrow> fleet_event elem list" where
  "fleet_device_row d = [Text (fv_name d)] @ onlyif (fv_is_silent d) [Badge ''red'' ''t.logFleet.silentBadge'']
     @ [Badge (FWD_COLOR (fv_forwarding d)) (fv_forwarding d), Text (dash_or id (fv_last_log_at d)),
        Text (dash_or show_int (fv_volume d))]"

definition TenantDevices_list :: "string \<Rightarrow> fleet_device list remote \<Rightarrow> fleet_event elem list" where
  "TenantDevices_list win q =
     onlyif (rm_loading q) [Loader]
     @ onlyif (rm_error q) [Alert ''red'' ''t.logFleet.devicesLoadError'']
     @ onlyif (rm_data q = Some []) [Text ''t.logFleet.noDevices'']
     @ onlyif (remote_list q \<noteq> [])
         [Table [''t.logFleet.table.device'', ''t.logFleet.table.forwarding'', ''t.logFleet.table.lastLog'', ''t.logFleet.volume '' @ win]
            (map (\<lambda>d. Row (fleet_device_row d)) (remote_list q))]"

text \<open>The reply names the window it applied next to the devices.\<close>

definition fleet_devices :: "(string \<times> fleet_device list) remote \<Rightarrow> fleet_device list remote" where
  "fleet_devices q = \<lparr>rm_data = map_option snd (rm_data q), rm_loading = rm_loading q, rm_error = rm_error q\<rparr>"

definition TenantDevicesModal ::
  "(string \<times> string) option \<Rightarrow> (string \<times> fleet_device list) remote \<Rightarrow> fleet_event elem list" where
  "TenantDevicesModal tenant q =
     (case tenant of None \<Rightarrow> []
      | Some (i, name) \<Rightarrow> [Dialog (''t.logFleet.devicesTitle '' @ mdash @ '' '' @ name)
           (Button ''close'' True CloseDrill # TenantDevices_list (nullish_or (map_option fst (rm_data q)) []) (fleet_devices q))])"

definition TenantDevices_query :: "fleet_state \<Rightarrow> query" where
  "TenantDevices_query s = useLogFleetDevices (map_option fst (fs_drill s)) (fs_window s)"

definition StatCard :: "string \<Rightarrow> nat \<Rightarrow> fleet_event elem" where
  "StatCard label value = Section [Text label, Text (show_nat value)]"

definition tenant_row :: "(string \<Rightarrow> int option) \<Rightarrow> int \<Rightarrow> fleet_tenant \<Rightarrow> fleet_event elem list" where
  "tenant_row parse now tn =
     [Button (ft_tenant_name tn) True (DrillDown (ft_tenant_id tn) (ft_tenant_name tn))]
     @ onlyif (isSilent parse now (ft_enabled tn) (ft_last_log_at tn)) [Badge ''red'' ''t.logFleet.silentBadge'']
     @ [Text (show_int (ft_enabled tn) @ '' / '' @ show_int (ft_total_devices tn)), Text (show_int (ft_revoked tn)),
        Text (dash_or id (ft_last_log_at tn)), Text (dash_or show_int (ft_volume tn))]"

definition fleet_selector :: "fleet_state \<Rightarrow> fleet_event elem" where
  "fleet_selector s = Choice ''fleet-window-selector'' (map (\<lambda>w. (w, w)) FLEET_WINDOWS) (Some (fs_window s))"

definition LogFleetPage ::
  "(string \<Rightarrow> int option) \<Rightarrow> int \<Rightarrow> fleet_data remote \<Rightarrow> string list remote \<Rightarrow> (string \<times> fleet_device list) remote \<Rightarrow> fleet_state
    \<Rightarrow> fleet_event elem list" where
  "LogFleetPage parse now fleet alerts devices s =
     (if rm_loading fleet then [Title ''t.logFleet.title'', fleet_selector s, Loader]
      else case (rm_error fleet, rm_data fleet) of
        (False, Some d) \<Rightarrow>
          onlyif (remote_list alerts \<noteq> [])
            [Alert ''red'' (js_join '', '' (remote_list alerts) @ '' '' @ mdash @ '' t.logFleet.silentAlertsBody'')]
          @ [Title ''t.logFleet.title'', Button ''t.logFleet.exportCsv'' True (ExportFleet ''csv''),
             Button ''t.logFleet.exportPdf'' True (ExportFleet ''pdf''), fleet_selector s,
             StatCard ''t.logFleet.stats.tenantsForwarding'' (fo_tenants_with_forwarding (fd_totals d)),
             StatCard ''t.logFleet.stats.enabledDevices'' (fo_enabled_devices (fd_totals d)),
             StatCard (''t.logFleet.volume ('' @ fd_window d @ '')'') (fo_volume (fd_totals d)),
             StatCard ''t.logFleet.stats.silentTenants'' (fo_silent_tenants (fd_totals d)),
             Table [''t.logFleet.table.tenant'', ''t.logFleet.table.forwarding'', ''t.logFleet.table.revoked'',
                    ''t.logFleet.table.lastLog'', ''t.logFleet.volume '' @ fd_window d]
               (map (\<lambda>tn. Row (tenant_row parse now tn)) (fd_tenants d))]
          @ TenantDevicesModal (fs_drill s) devices
      | _ \<Rightarrow> [Title ''t.logFleet.title'', fleet_selector s, Alert ''red'' ''t.logFleet.loadError''])"

fun fleet_step :: "fleet_event \<Rightarrow> fleet_state \<Rightarrow> fleet_state" where
  "fleet_step (DrillDown i name) s = s\<lparr>fs_drill := Some (i, name)\<rparr>"
| "fleet_step CloseDrill s = s\<lparr>fs_drill := None\<rparr>"
| "fleet_step (ExportFleet f) s = s"

section \<open>System and runtime settings\<close>

datatype system_event = SetLivePush bool | RuntimeSave | RuntimeDiscard

definition live_push_section :: "bool \<Rightarrow> bool remote \<Rightarrow> system_event elem list" where
  "live_push_section updating q =
     (if rm_loading q then [Loader]
      else if rm_error q then [Alert ''red'' ''t.system.livePush.loadError'']
      else [Toggle ''t.system.livePush.label'' (nullish_or (rm_data q) False), Text ''t.system.livePush.help'',
            Busy_button ''t.system.livePush.label'' updating True (SetLivePush (\<not> nullish_or (rm_data q) False))])"

text \<open>\<open>key.replace(/_/g, " ")\<close>, the label of a setting the dictionary does not know.\<close>

definition labelOf :: "(string \<times> string) obj \<Rightarrow> string \<Rightarrow> string" where
  "labelOf itemMeta key =
     (case obj_get itemMeta key of Some (label, help) \<Rightarrow> label
      | None \<Rightarrow> map (\<lambda>c. if c = CHR ''_'' then CHR '' '' else c) key)"

text \<open>A setting with the default and the bounds the service reports for it.\<close>

record runtime_meta =
  rx_default :: string
  rx_minimum :: "int option"
  rx_maximum :: "int option"

definition json_text :: "json \<Rightarrow> string" where
  "json_text v = (case v of JNum n \<Rightarrow> show_int n | JBool b \<Rightarrow> if b then ''1'' else ''0'' | _ \<Rightarrow> ''NaN'')"

definition runtime_item ::
  "(string \<times> string) obj \<Rightarrow> (string \<Rightarrow> runtime_meta) \<Rightarrow> json obj \<Rightarrow> runtime_setting \<Rightarrow> system_event elem list" where
  "runtime_item itemMeta meta draft s =
     (let v = valueOf draft s in
      (if ru_kind s = ''bool'' then [Toggle (labelOf itemMeta (ru_key s)) (v = JBool True)]
       else [Field (labelOf itemMeta (ru_key s) @ '' (rt.defaultLabel '' @ rx_default (meta (ru_key s)) @ '')'') (json_text v)])
      @ (case obj_get itemMeta (ru_key s) of Some (label, help) \<Rightarrow> [Text help] | None \<Rightarrow> []))"

definition runtime_group ::
  "string obj \<Rightarrow> (string \<times> string) obj \<Rightarrow> (string \<Rightarrow> runtime_meta) \<Rightarrow> json obj \<Rightarrow> runtime_setting list \<Rightarrow> string
    \<Rightarrow> system_event elem" where
  "runtime_group groupLabels itemMeta meta draft settings g =
     Section (Text (nullish_or (obj_get groupLabels g) g)
       # map (\<lambda>s. Row (runtime_item itemMeta meta draft s)) (filter (\<lambda>s. ru_group s = g) settings))"

record retention_impact =
  ri_tenant_name :: string
  ri_store :: string
  ri_range_days :: int
  ri_bound :: int

definition RuntimeSettingsSection ::
  "string \<Rightarrow> string obj \<Rightarrow> (string \<times> string) obj \<Rightarrow> (string \<Rightarrow> runtime_meta) \<Rightarrow> bool \<Rightarrow> retention_impact list \<Rightarrow> json obj
    \<Rightarrow> runtime_setting list remote \<Rightarrow> system_event elem list" where
  "RuntimeSettingsSection impact_text groupLabels itemMeta meta updating impacts draft q =
     [Title ''t.system.runtime.title'', Text ''t.system.runtime.subtitle'']
     @ (if rm_loading q then [Loader]
        else if rm_error q then [Alert ''red'' ''t.system.runtime.loadError'']
        else let settings = remote_list q in
          map (runtime_group groupLabels itemMeta meta draft settings) (runtime_groups settings)
          @ [Busy_button ''t.system.runtime.save'' updating (dirtyKeys settings draft \<noteq> []) RuntimeSave]
          @ onlyif (dirtyKeys settings draft \<noteq> []) [Button ''t.system.runtime.discard'' (\<not> updating) RuntimeDiscard]
          @ onlyif (impacts \<noteq> []) (Alert ''orange'' ''t.system.runtime.impactsTitle''
              # map (\<lambda>i. Text (impactItem impact_text (ri_tenant_name i) (ri_store i) (ri_range_days i) (ri_bound i))) impacts))"

definition SystemSettingsPage :: "bool \<Rightarrow> bool remote \<Rightarrow> system_event elem list \<Rightarrow> system_event elem list" where
  "SystemSettingsPage updating livePush runtime =
     [Title ''t.system.title'', Text ''t.system.subtitle'', Section (live_push_section updating livePush), Section runtime]"

section \<open>What is proved\<close>

interpretation tenant_devices: listing "TenantDevices_list win" fleet_device_row
    "Alert ''red'' ''t.logFleet.devicesLoadError''" "Text ''t.logFleet.noDevices''" for win
  by unfold_locales (auto simp: TenantDevices_list_def)

subsection \<open>Every setting has a place\<close>

lemma rows_map_groups:
  "rows_shown (map (runtime_group gl im meta draft settings) gs) =
     concat (map (\<lambda>g. map (runtime_item im meta draft) (filter (\<lambda>s. ru_group s = g) settings)) gs)"
  by (induction gs) (simp_all add: runtime_group_def rows_shown_def)

text \<open>The runtime form shows each setting of a known group exactly once, under its group.\<close>

lemma runtime_rows:
  assumes "\<not> rm_loading q" and "\<not> rm_error q"
  shows "rows_shown (RuntimeSettingsSection it gl im meta u impacts draft q) =
    concat (map (\<lambda>g. map (runtime_item im meta draft) (filter (\<lambda>s. ru_group s = g) (remote_list q))) (runtime_groups (remote_list q)))"
proof -
  have texts: "rows_shown (map (\<lambda>i. Text (f i)) xs) = []" for f :: "retention_impact \<Rightarrow> string" and xs
    by (induction xs) simp_all
  show ?thesis using assms unfolding RuntimeSettingsSection_def Let_def
    by (simp add: rows_map_groups texts)
qed

subsection \<open>The return from the OAuth provider\<close>

text \<open>The outcome of connecting a mail account is announced once. Whatever the address bar holds when
  the page opens: a notice is shown exactly when the provider reported success or an error, a success
  also reloads the settings; afterwards the address has no such parameter any more, its path and all
  other parameters are unchanged and in order, and opening that address again announces nothing.\<close>

theorem oauth_return_once:
  "(or_notice (smtp_oauth_return a) \<noteq> None \<longleftrightarrow> params_get (ad_params a) ''oauth'' \<in> {Some ''success'', Some ''error''})
   \<and> (or_refetch (smtp_oauth_return a) \<longleftrightarrow> params_get (ad_params a) ''oauth'' = Some ''success'')
   \<and> ad_pathname (or_address (smtp_oauth_return a)) = ad_pathname a
   \<and> filter (\<lambda>(k, v). k \<noteq> ''oauth'') (ad_params (or_address (smtp_oauth_return a))) = filter (\<lambda>(k, v). k \<noteq> ''oauth'') (ad_params a)
   \<and> or_notice (smtp_oauth_return (or_address (smtp_oauth_return a))) = None"
proof -
  have gone: "map_of (filter (\<lambda>(k, v). k \<noteq> ''oauth'') ps) ''oauth'' = None" for ps :: "(string \<times> string) list"
    by (auto simp: map_of_eq_None_iff)
  show ?thesis
    by (cases "params_get (ad_params a) ''oauth'' \<in> {Some ''success'', Some ''error''}")
       (auto simp: smtp_oauth_return_def Let_def params_get_def params_delete_def gone)
qed

subsection \<open>No dead buttons\<close>

lemma group_card_clicks:
  "set (clicks (GroupCard us ts names upd adding g c)) =
     {RequestDelete (go_id g)} \<union> (if \<not> upd \<and> js_trim (gc_name c) \<noteq> [] then {SaveDetails (go_id g)} else {})
     \<union> (\<lambda>x. RemoveGrant (go_id g) (gt_id x)) ` set (gr_grants g)
     \<union> (if \<not> adding \<and> (gf_allTenants (gc_grant c) \<or> struthy (gf_tenantId (gc_grant c))) then {AddGrant (go_id g)} else {})"
  by (auto simp: GroupCard_def grant_row_def)

lemma CreateGroup_click:
  "CreateGroup \<in> set (clicks (GroupsPage auth us ts creating del busy cards s q)) \<longleftrightarrow>
     useIsSuperadmin auth \<and> \<not> creating \<and> js_trim (gp_newName s) \<noteq> []"
  by (auto simp: GroupsPage_def group_card_clicks split: if_splits)

lemma SmtpTest_click:
  "SmtpTest \<in> set (clicks (SmtpSettingsPage auth d fl sv testing cn testTo v)) \<longleftrightarrow>
     useIsSuperadmin auth \<and> \<not> testing \<and> testTo \<noteq> []"
  by (auto simp: SmtpSettingsPage_def smtp_oauth_fields_def Let_def)

lemma runtime_item_clicks [simp]: "clicks (runtime_item im meta draft s) = []"
  by (simp add: runtime_item_def Let_def split: option.splits prod.splits)

lemma RuntimeSave_click:
  "RuntimeSave \<in> set (clicks (RuntimeSettingsSection it gl im meta u impacts draft q)) \<longleftrightarrow>
     \<not> rm_loading q \<and> \<not> rm_error q \<and> \<not> u \<and> dirtyKeys (remote_list q) draft \<noteq> []"
  by (auto simp: RuntimeSettingsSection_def runtime_group_def Let_def)

text \<open>The buttons of the administration pages agree with their handlers. For a superadmin: a button is
  enabled exactly when no request of its own is pending and its handler would send one (creating a group,
  saving its details, adding a grant, sending a test message, saving the runtime settings); other users are
  offered no button on these pages.\<close>

theorem admin_buttons_act:
  "(CreateGroup \<in> set (clicks (GroupsPage auth us ts creating del busy cards s q)) \<longleftrightarrow>
      useIsSuperadmin auth \<and> \<not> creating \<and> group_create s \<noteq> None)
   \<and> (SaveDetails (go_id g) \<in> set (clicks (GroupCard us' ts' names upd adding g c)) \<longleftrightarrow>
      \<not> upd \<and> group_saveDetails (go_id g) (gc_name c) (gc_description c) \<noteq> None)
   \<and> (AddGrant (go_id g) \<in> set (clicks (GroupCard us' ts' names upd adding g c)) \<longleftrightarrow>
      \<not> adding \<and> handleAddGrant (go_id g) (gc_grant c) \<noteq> None)
   \<and> (SmtpTest \<in> set (clicks (SmtpSettingsPage auth d fl sv testing cn testTo v)) \<longleftrightarrow>
      useIsSuperadmin auth \<and> \<not> testing \<and> smtp_test testTo v \<noteq> None)
   \<and> (RuntimeSave \<in> set (clicks (RuntimeSettingsSection it gl im meta u impacts (rn_draft r) qr)) \<longleftrightarrow>
      \<not> rm_loading qr \<and> \<not> rm_error qr \<and> \<not> u \<and> runtime_save (remote_list qr) r \<noteq> None)
   \<and> (\<not> useIsSuperadmin auth \<longrightarrow> clicks (GroupsPage auth us ts creating del busy cards s q) = []
        \<and> clicks (SmtpSettingsPage auth d fl sv testing cn testTo v) = [])"
  unfolding CreateGroup_click SmtpTest_click RuntimeSave_click group_card_clicks
  by (auto simp: group_create_def group_saveDetails_def handleAddGrant_def smtp_test_def runtime_save_def
      GroupsPage_def SmtpSettingsPage_def)

end
