(* ===== verification/Login.thy ===== *)
theory Login
  imports HooksAdmin
begin

text \<open>
  Signing in and enrolling (\<^verbatim>\<open>pages/LoginPage.tsx\<close>, \<^verbatim>\<open>security/MfaEnrollFlow.tsx\<close>). The
  state of a component is a record with one field per \<open>useState\<close>; a handler is a function of the
  reply it awaited and the state, and a handler with several requests also returns the exchanges it
  had. Replies may arrive in any state, since nothing stops a second submission while one is in flight.
  What a component shows is the list of its visible controls.
\<close>

section \<open>The login page\<close>

datatype login_stage = PasswordStep | MfaStep

record login_state =
  lg_error :: "string option"
  lg_step :: login_stage
  lg_useRecovery :: bool
  lg_methods :: "string list"
  lg_passkeyBusy :: bool
  lg_rememberDevice :: bool
  lg_remember :: "json option"
  lg_email :: string
  lg_password :: string
  lg_code :: string
  lg_me :: "json option"

definition login_initial :: login_state where
  "login_initial =
     \<lparr>lg_error = None, lg_step = PasswordStep, lg_useRecovery = False, lg_methods = [], lg_passkeyBusy = False,
      lg_rememberDevice = False, lg_remember = None, lg_email = [], lg_password = [], lg_code = [], lg_me = None\<rparr>"

fun string_list :: "json option \<Rightarrow> string list" where
  "string_list (Some (JArr xs)) = List.map_filter (\<lambda>x. str_field (Some x)) xs"
| "string_list _ = []"

definition hasTotp :: "login_state \<Rightarrow> bool" where
  "hasTotp s \<longleftrightarrow> lg_methods s = [] \<or> ''totp'' \<in> set (lg_methods s)"

definition hasWebauthn :: "login_state \<Rightarrow> bool" where
  "hasWebauthn s \<longleftrightarrow> ''webauthn'' \<in> set (lg_methods s)"

definition remember_enabled :: "login_state \<Rightarrow> bool" where
  "remember_enabled s = otruthy (field (lg_remember s) ''enabled'')"

definition remember_flag :: "login_state \<Rightarrow> bool" where
  "remember_flag s = (if remember_enabled s then lg_rememberDevice s else False)"

definition submit_request :: "login_state \<Rightarrow> request" where
  "submit_request s = api_call POST ''/api/login'' [] []
     (Some (JObj [(''email'', JStr (lg_email s)), (''password'', JStr (lg_password s))]))"

fun submit :: "api_result \<Rightarrow> login_state \<Rightarrow> login_state" where
  "submit Rejected s = s\<lparr>lg_error := None\<rparr>"
| "submit (Reply d e st) s =
     (let s = s\<lparr>lg_error := None\<rparr> in
      if \<not> http_ok st \<or> \<not> otruthy d then s\<lparr>lg_error := Some ''t.login.invalidCredentials''\<rparr>
      else if field d ''status'' = Some (JStr ''mfa_required'') then
        s\<lparr>lg_methods := string_list (field d ''methods''),
          lg_remember := (if nullish (field d ''remember_device'') then None else field d ''remember_device''),
          lg_step := MfaStep\<rparr>
      else if otruthy (field d ''user'') then s\<lparr>lg_me := field d ''user''\<rparr>
      else s)"

definition submitMfa_request :: "login_state \<Rightarrow> request" where
  "submitMfa_request s = api_call POST ''/api/login/mfa'' [] []
     (Some (JObj [(''code'', JStr (lg_code s)), (''remember_device'', JBool (remember_flag s))]))"

fun submitMfa :: "api_result \<Rightarrow> login_state \<Rightarrow> login_state" where
  "submitMfa Rejected s = s\<lparr>lg_error := None\<rparr>"
| "submitMfa (Reply d e st) s =
     (let s = s\<lparr>lg_error := None\<rparr> in
      if \<not> http_ok st \<or> \<not> otruthy d then s\<lparr>lg_error := Some ''t.login.mfa.invalidCode''\<rparr>
      else if field d ''status'' = Some (JStr ''ok'') \<and> otruthy (field d ''user'')
           then s\<lparr>lg_me := field d ''user''\<rparr>
      else s\<lparr>lg_error := Some ''t.login.mfa.invalidCode''\<rparr>)"

definition passkey_begin :: request where
  "passkey_begin = api_call POST ''/api/login/webauthn/begin'' [] [] None"

definition passkey_complete :: "login_state \<Rightarrow> json \<Rightarrow> request" where
  "passkey_complete s credential = api_call POST ''/api/login/webauthn/complete'' [] []
     (Some (JObj [(''credential'', credential), (''remember_device'', JBool (remember_flag s))]))"

fun passkey_accept :: "api_result \<Rightarrow> json option" where
  "passkey_accept Rejected = None"
| "passkey_accept (Reply d e st) =
     (if http_ok st \<and> field d ''status'' = Some (JStr ''ok'') \<and> otruthy (field d ''user'')
      then field d ''user'' else None)"

text \<open>The passkey handler with its \<open>try/catch/finally\<close>: every failure on the way ends in the same
  message, and the busy flag is cleared in the end.\<close>

definition submitPasskey ::
  "bool \<Rightarrow> (request_options \<Rightarrow> failure + assertion option) \<Rightarrow> (request \<Rightarrow> api_result) \<Rightarrow> login_state
    \<Rightarrow> (request \<times> api_result) list \<times> login_state" where
  "submitPasskey supported authenticator send s =
     (let s = s\<lparr>lg_error := None\<rparr> in
      if \<not> supported then ([], s\<lparr>lg_error := Some ''t.login.mfa.passkeyNotSupported''\<rparr>)
      else
        let busy = s\<lparr>lg_passkeyBusy := True\<rparr>;
            failed = (busy\<lparr>lg_error := Some ''t.login.mfa.passkeyError''\<rparr>)\<lparr>lg_passkeyBusy := False\<rparr>;
            x1 = (passkey_begin, send passkey_begin)
        in case snd x1 of
             Rejected \<Rightarrow> ([x1], failed)
           | Reply d e st \<Rightarrow>
               if otruthy e \<or> \<not> otruthy d then ([x1], failed)
               else (case getAssertion authenticator (the d) of
                   Inl err \<Rightarrow> ([x1], failed)
                 | Inr credential \<Rightarrow>
                     let rq = passkey_complete s credential; x2 = (rq, send rq) in
                     case passkey_accept (snd x2) of
                       Some user \<Rightarrow> ([x1, x2], (busy\<lparr>lg_me := Some user\<rparr>)\<lparr>lg_passkeyBusy := False\<rparr>)
                     | None \<Rightarrow> ([x1, x2], failed)))"

definition toggleRecovery :: "login_state \<Rightarrow> login_state" where
  "toggleRecovery s = s\<lparr>lg_useRecovery := \<not> lg_useRecovery s, lg_error := None, lg_code := []\<rparr>"

definition LoginPage_view :: "login_state \<Rightarrow> string list" where
  "LoginPage_view s =
     (case lg_step s of
        PasswordStep \<Rightarrow>
          [''email'', ''password''] @ (if struthy (lg_error s) then [''alert''] else []) @ [''submit'']
      | MfaStep \<Rightarrow>
          (if hasTotp s then [''mfa-code'', ''mfa-verify'', ''mfa-use-recovery''] else [])
          @ (if hasWebauthn s then [''mfa-use-passkey''] else [])
          @ (if remember_enabled s then [''mfa-remember-device''] else [])
          @ (if struthy (lg_error s) then [''alert''] else []))"

text \<open>A run of the page, with the exchanges it had with the server (the paths it asked and the
  replies), most recent first.\<close>

inductive login_run :: "(string \<times> api_result) list \<Rightarrow> login_state \<Rightarrow> bool" where
  start: "login_run [] login_initial"
| type_credentials: "login_run h s \<Longrightarrow> login_run h (s\<lparr>lg_email := e, lg_password := p\<rparr>)"
| submitted: "login_run h s \<Longrightarrow> login_run ((rq_path (submit_request s), r) # h) (submit r s)"
| type_code: "login_run h s \<Longrightarrow> login_run h (s\<lparr>lg_code := c\<rparr>)"
| tick_remember: "login_run h s \<Longrightarrow> login_run h (s\<lparr>lg_rememberDevice := b\<rparr>)"
| toggled: "login_run h s \<Longrightarrow> login_run h (toggleRecovery s)"
| submitted_code: "login_run h s \<Longrightarrow> login_run ((rq_path (submitMfa_request s), r) # h) (submitMfa r s)"
| used_passkey: "login_run h s \<Longrightarrow> submitPasskey spt auth send s = (xs, s') \<Longrightarrow>
     login_run (map (\<lambda>(rq, r). (rq_path rq, r)) xs @ h) s'"

section \<open>The enrolment wizard\<close>

record enroll_state =
  en_password :: string
  en_code :: string
  en_pending :: "json option"
  en_codes :: "string list option"
  en_error :: "string option"

definition enroll_initial :: enroll_state where
  "enroll_initial = \<lparr>en_password = [], en_code = [], en_pending = None, en_codes = None, en_error = None\<rparr>"

definition startSetup :: "api_result \<Rightarrow> enroll_state \<Rightarrow> enroll_state" where
  "startSetup r s =
     (let s = s\<lparr>en_error := None\<rparr> in
      case m_fn (useMfaSetup (en_password s)) r of
        Inl _ \<Rightarrow> s\<lparr>en_error := Some ''t.mfa.setupError''\<rparr>
      | Inr out \<Rightarrow> s\<lparr>en_pending := out\<rparr>)"

definition doConfirm :: "api_result \<Rightarrow> enroll_state \<Rightarrow> enroll_state" where
  "doConfirm r s =
     (let s = s\<lparr>en_error := None\<rparr> in
      case m_fn (useMfaConfirm (en_code s)) r of
        Inl _ \<Rightarrow> s\<lparr>en_error := Some ''t.mfa.confirmError''\<rparr>
      | Inr out \<Rightarrow> s\<lparr>en_codes := Some (string_list (field out ''recovery_codes''))\<rparr>)"

datatype enroll_view = ShowCodes "string list" | ShowSetup json | ShowPassword

text \<open>\<open>if (codes) ...; if (pending) ...\<close>: an array is truthy, a pending setup is an object.\<close>

definition MfaEnrollFlow_view :: "enroll_state \<Rightarrow> enroll_view" where
  "MfaEnrollFlow_view s =
     (case en_codes s of
        Some cs \<Rightarrow> ShowCodes cs
      | None \<Rightarrow> if otruthy (en_pending s) then ShowSetup (the (en_pending s)) else ShowPassword)"

text \<open>Runs of the wizard: each button is used while its view shows it.\<close>

inductive enroll_run :: "enroll_state \<Rightarrow> bool" where
  start: "enroll_run enroll_initial"
| type_password: "enroll_run s \<Longrightarrow> enroll_run (s\<lparr>en_password := p\<rparr>)"
| type_code: "enroll_run s \<Longrightarrow> enroll_run (s\<lparr>en_code := c\<rparr>)"
| set_up: "enroll_run s \<Longrightarrow> MfaEnrollFlow_view s = ShowPassword \<Longrightarrow> enroll_run (startSetup r s)"
| confirm: "enroll_run s \<Longrightarrow> MfaEnrollFlow_view s = ShowSetup out \<Longrightarrow> enroll_run (doConfirm r s)"

section \<open>What is proved\<close>

text \<open>A reply that signs a user in: a successful answer with a user, to the password request when it
  does not ask for a second factor, or to a second-factor request when it reports success.\<close>

fun signs_in :: "string \<times> api_result \<Rightarrow> json \<Rightarrow> bool" where
  "signs_in (path, Rejected) u = False"
| "signs_in (path, Reply d e st) u =
     (http_ok st \<and> field d ''user'' = Some u \<and> truthy u \<and>
      (if path = ''/api/login'' then field d ''status'' \<noteq> Some (JStr ''mfa_required'')
       else path \<in> {''/api/login/mfa'', ''/api/login/webauthn/complete''} \<and>
            field d ''status'' = Some (JStr ''ok'')))"

fun asks_second_factor :: "string \<times> api_result \<Rightarrow> bool" where
  "asks_second_factor (path, Rejected) = False"
| "asks_second_factor (path, Reply d e st) =
     (path = ''/api/login'' \<and> http_ok st \<and> field d ''status'' = Some (JStr ''mfa_required''))"

lemma otruthy_Some: "otruthy v \<Longrightarrow> \<exists>u. v = Some u \<and> truthy u"
  by (cases v) auto

lemma submit_effect:
  "lg_me (submit r s) = lg_me s \<or> (\<exists>u. lg_me (submit r s) = Some u \<and> signs_in (''/api/login'', r) u)"
  "lg_step (submit r s) = lg_step s \<or> asks_second_factor (''/api/login'', r)"
  "lg_passkeyBusy (submit r s) = lg_passkeyBusy s"
  by (cases r; auto simp: Let_def dest!: otruthy_Some)+

lemma submitMfa_effect:
  "lg_me (submitMfa r s) = lg_me s \<or> (\<exists>u. lg_me (submitMfa r s) = Some u \<and> signs_in (''/api/login/mfa'', r) u)"
  "lg_step (submitMfa r s) = lg_step s" "lg_passkeyBusy (submitMfa r s) = lg_passkeyBusy s"
  by (cases r; auto simp: Let_def dest!: otruthy_Some)+

lemma passkey_accept_signs_in:
  "passkey_accept r = Some u \<Longrightarrow> signs_in (''/api/login/webauthn/complete'', r) u"
  by (cases r) (auto split: if_splits)

lemma passkey_paths [simp]:
  "rq_path (passkey_complete s c) = ''/api/login/webauthn/complete''"
  "rq_path passkey_begin = ''/api/login/webauthn/begin''"
  by (simp_all add: passkey_complete_def passkey_begin_def api_call_def)

lemma submitPasskey_frame:
  assumes "submitPasskey spt auth send s = (xs, s')"
  shows "lg_step s' = lg_step s" and "lg_passkeyBusy s' = (lg_passkeyBusy s \<and> \<not> spt)"
  using assms
  by (auto simp: submitPasskey_def Let_def
      split: if_splits api_result.splits sum.splits option.splits)

lemma submitPasskey_me:
  assumes "submitPasskey spt auth send s = (xs, s')"
  shows "lg_me s' = lg_me s \<or>
    (\<exists>u rq r. lg_me s' = Some u \<and> (rq, r) \<in> set xs \<and> signs_in (rq_path rq, r) u)"
proof (cases "lg_me s' = lg_me s")
  case False
  with assms obtain c u where "passkey_accept (send (passkey_complete (s\<lparr>lg_error := None\<rparr>) c)) = Some u"
      "lg_me s' = Some u"
      "(passkey_complete (s\<lparr>lg_error := None\<rparr>) c, send (passkey_complete (s\<lparr>lg_error := None\<rparr>) c)) \<in> set xs"
    by (auto simp: submitPasskey_def Let_def
        split: if_splits api_result.splits sum.splits option.splits)
  then show ?thesis using passkey_accept_signs_in passkey_paths(1) by metis
qed simp

definition login_inv :: "(string \<times> api_result) list \<Rightarrow> login_state \<Rightarrow> bool" where
  "login_inv h s \<longleftrightarrow> (\<forall>u. lg_me s = Some u \<longrightarrow> (\<exists>x \<in> set h. signs_in x u))
     \<and> (lg_step s = MfaStep \<longrightarrow> (\<exists>x \<in> set h. asks_second_factor x)) \<and> \<not> lg_passkeyBusy s"

lemma login_run_inv: "login_run h s \<Longrightarrow> login_inv h s"
proof (induction rule: login_run.induct)
  case (submitted h s r)
  then show ?case
    using submit_effect [of r s] by (auto simp: login_inv_def submit_request_def api_call_def)
next
  case (submitted_code h s r)
  then show ?case
    using submitMfa_effect [of r s] by (auto simp: login_inv_def submitMfa_request_def api_call_def)
next
  case (used_passkey h s spt auth send xs s')
  then show ?case
    using submitPasskey_frame [OF used_passkey(2)] submitPasskey_me [OF used_passkey(2)]
    by (auto simp: login_inv_def) force+
qed (auto simp: login_inv_def login_initial_def toggleRecovery_def)

text \<open>Only the server signs a user in. In every run of the login page, with any replies in any
  order: a user is set only if some earlier reply was a successful answer carrying that user, either to
  the password request without asking for a second factor or to a second-factor request with status
  ok; the second-factor step is shown only after the server asked for it; and the passkey button never
  stays busy.\<close>

theorem sign_in_accepted:
  assumes "login_run h s"
  shows "(lg_me s = Some u \<longrightarrow> (\<exists>x \<in> set h. signs_in x u))
    \<and> (lg_step s = MfaStep \<longrightarrow> (\<exists>x \<in> set h. asks_second_factor x)) \<and> \<not> lg_passkeyBusy s"
  using login_run_inv [OF assms] by (simp add: login_inv_def)

theorem sign_in_accepted_witness:
  "\<exists>s. login_run [(''/api/login'', Reply (Some (JObj [(''status'', JStr ''ok''), (''user'', JStr ''u1'')])) None 200)] s
     \<and> lg_me s = Some (JStr ''u1'') \<and>
     (\<exists>x \<in> set [(''/api/login'', Reply (Some (JObj [(''status'', JStr ''ok''), (''user'', JStr ''u1'')])) None 200)].
        signs_in x (JStr ''u1''))"
proof -
  let ?r = "Reply (Some (JObj [(''status'', JStr ''ok''), (''user'', JStr ''u1'')])) None 200"
  have run: "login_run [(''/api/login'', ?r)] (submit ?r login_initial)"
    using login_run.submitted [OF login_run.start, of ?r] by (simp add: submit_request_def api_call_def)
  have "lg_me (submit ?r login_initial) = Some (JStr ''u1'')"
    by (simp add: Let_def http_ok_def obj_get_def)
  with run sign_in_accepted [OF run, of "JStr ''u1''"] show ?thesis by blast
qed

text \<open>A device is remembered only by consent. The request for a second factor asks the server to
  remember the device only when the server offered it and the box is ticked, and the box is on screen
  exactly when the server offered it at the second-factor step; at that step a code can be entered
  exactly when the account has a code factor or the server named none, a passkey exactly when it has one.\<close>

theorem remember_by_consent:
  "(field (rq_body (submitMfa_request s)) ''remember_device'' = Some (JBool True) \<longleftrightarrow>
      remember_enabled s \<and> lg_rememberDevice s)
   \<and> (field (rq_body (passkey_complete s c)) ''remember_device'' = Some (JBool True) \<longleftrightarrow>
      remember_enabled s \<and> lg_rememberDevice s)
   \<and> (''mfa-remember-device'' \<in> set (LoginPage_view s) \<longleftrightarrow> lg_step s = MfaStep \<and> remember_enabled s)
   \<and> (''mfa-code'' \<in> set (LoginPage_view s) \<longleftrightarrow>
      lg_step s = MfaStep \<and> (lg_methods s = [] \<or> ''totp'' \<in> set (lg_methods s)))
   \<and> (''mfa-use-passkey'' \<in> set (LoginPage_view s) \<longleftrightarrow> lg_step s = MfaStep \<and> ''webauthn'' \<in> set (lg_methods s))"
  by (auto simp: submitMfa_request_def passkey_complete_def api_call_def obj_get_def remember_flag_def
      LoginPage_view_def hasTotp_def hasWebauthn_def split: login_stage.splits)

lemma enroll_inv: "enroll_run s \<Longrightarrow> en_codes s \<noteq> None \<longrightarrow> otruthy (en_pending s)"
proof (induction rule: enroll_run.induct)
  case (set_up s r)
  then show ?case
    by (auto simp: startSetup_def MfaEnrollFlow_view_def Let_def split: sum.splits option.splits if_splits)
next
  case (confirm s out r)
  then show ?case
    by (auto simp: doConfirm_def MfaEnrollFlow_view_def Let_def split: sum.splits option.splits if_splits)
qed (auto simp: enroll_initial_def)

text \<open>Enrolment goes through every stage. In every run of the wizard the recovery codes are on
  screen only after the server issued a secret; a failed setup or confirmation leaves the wizard on the
  same stage with an error; and a confirmed code ends on exactly the codes the server returned.\<close>

theorem enrolment_stages:
  assumes "enroll_run s"
  shows "(MfaEnrollFlow_view s = ShowCodes cs \<longrightarrow> otruthy (en_pending s))
    \<and> (MfaEnrollFlow_view s = ShowSetup out \<longrightarrow>
        MfaEnrollFlow_view (doConfirm r s) =
          (case r of Reply d e st \<Rightarrow>
             if \<not> otruthy e \<and> otruthy d then ShowCodes (string_list (field d ''recovery_codes'')) else ShowSetup out
           | Rejected \<Rightarrow> ShowSetup out))
    \<and> (MfaEnrollFlow_view s = ShowPassword \<longrightarrow>
        MfaEnrollFlow_view (startSetup r s) =
          (case r of Reply d e st \<Rightarrow> if \<not> otruthy e \<and> otruthy d then ShowSetup (the d) else ShowPassword
           | Rejected \<Rightarrow> ShowPassword))"
  using enroll_inv [OF assms]
  by (auto simp: MfaEnrollFlow_view_def doConfirm_def startSetup_def useMfaConfirm_def useMfaSetup_def
      mk_mutation_def Let_def split: option.splits api_result.splits if_splits)

theorem enrolment_stages_witness:
  "MfaEnrollFlow_view (startSetup (Reply (Some (JObj [(''secret'', JStr ''S'')])) None 200) enroll_initial)
     = ShowSetup (JObj [(''secret'', JStr ''S'')])"
  using enrolment_stages [OF enroll_run.start, of "[]" JNull "Reply (Some (JObj [(''secret'', JStr ''S'')])) None 200"]
  by (simp add: MfaEnrollFlow_view_def enroll_initial_def)

end
