(* ===== verification/Mfa.thy ===== *)
theory Mfa
  imports Session Login ConfirmFlow
begin

text \<open>
  The account-security pages (\<^verbatim>\<open>security/MfaPanel.tsx\<close>, \<^verbatim>\<open>security/TrustedDevicesSection.tsx\<close>,
  \<^verbatim>\<open>security/RecoveryCodes.tsx\<close>, \<^verbatim>\<open>security/SessionsPage.tsx\<close>): managing an enrolled second
  factor, passkeys, trusted devices, the organisation's policy and the reset of other users. \<close>

section \<open>Managing an enrolled factor\<close>

record manage_state =
  mg_regenPassword :: string
  mg_disablePassword :: string
  mg_newCodes :: "string list option"
  mg_regenError :: "string option"
  mg_disableError :: "string option"
  mg_confirmOpen :: bool
  mg_notices :: "notice list"

definition doRegen :: "api_result \<Rightarrow> manage_state \<Rightarrow> manage_state" where
  "doRegen r s =
     (let s = s\<lparr>mg_regenError := None\<rparr> in
      case m_fn (useMfaRegenerate (mg_regenPassword s)) r of
        Inl _ \<Rightarrow> s\<lparr>mg_regenError := Some ''t.mfa.regenerateError''\<rparr>
      | Inr out \<Rightarrow> s\<lparr>mg_newCodes := Some (string_list (field out ''recovery_codes'')), mg_regenPassword := []\<rparr>)"

definition doDisable :: "api_result \<Rightarrow> manage_state \<Rightarrow> manage_state" where
  "doDisable r s =
     (let s = s\<lparr>mg_disableError := None\<rparr> in
      case m_fn (useMfaDisable (mg_disablePassword s)) r of
        Inl _ \<Rightarrow> s\<lparr>mg_confirmOpen := False, mg_disableError := Some ''t.mfa.disableError''\<rparr>
      | Inr _ \<Rightarrow> s\<lparr>mg_confirmOpen := False, mg_disablePassword := [],
                   mg_notices := mg_notices s @ [Info ''t.mfa.disabledNotice'']\<rparr>)"

definition MfaManage_view :: "manage_state \<Rightarrow> string list" where
  "MfaManage_view s =
     (case mg_newCodes s of
        Some cs \<Rightarrow> [''mfa-recovery-codes'']
      | None \<Rightarrow> [''mfa-regen-password''] @ (if struthy (mg_regenError s) then [''alert''] else []) @ [''mfa-regen''])
     @ [''mfa-disable-password''] @ (if struthy (mg_disableError s) then [''alert''] else []) @ [''mfa-disable'']
     @ (if mg_confirmOpen s then [''confirm-modal''] else [])"

section \<open>Recovery codes\<close>

definition codes_text :: "string list \<Rightarrow> string" where
  "codes_text codes = js_join [CHR 0x0A] codes"

definition codes_file :: "string list \<Rightarrow> string" where
  "codes_file codes = js_join [CHR 0x0A] codes @ [CHR 0x0A]"

section \<open>Passkeys\<close>

record passkey_row =
  pk_id :: string
  pk_name :: string

record passkeys_state =
  ps_password :: string
  ps_name :: string
  ps_addError :: "string option"
  ps_target :: "passkey_row option"
  ps_removeError :: "string option"
  ps_notices :: "notice list"

text \<open>\<open>doAdd\<close> from the outcome of the mutation \<open>useAddPasskey\<close>.\<close>

definition doAdd :: "failure + json option \<Rightarrow> passkeys_state \<Rightarrow> passkeys_state" where
  "doAdd outcome s =
     (let s = s\<lparr>ps_addError := None\<rparr> in
      case outcome of
        Inr _ \<Rightarrow> s\<lparr>ps_password := [], ps_name := [],
                   ps_notices := ps_notices s @ [Info ''t.mfa.passkeys.addedNotice'']\<rparr>
      | Inl err \<Rightarrow> (case err of PasskeyConfigError _ \<Rightarrow> s\<lparr>ps_addError := Some ''t.mfa.passkeys.notConfigured''\<rparr>
                   | _ \<Rightarrow> s\<lparr>ps_addError := Some ''t.mfa.passkeys.addError''\<rparr>))"

definition selectPasskey :: "passkey_row \<Rightarrow> passkeys_state \<Rightarrow> passkeys_state" where
  "selectPasskey c s = s\<lparr>ps_removeError := None, ps_target := Some c\<rparr>"

definition cancelPasskey :: "passkeys_state \<Rightarrow> passkeys_state" where
  "cancelPasskey s = s\<lparr>ps_target := None\<rparr>"

definition doRemove_request :: "passkey_row \<Rightarrow> request" where
  "doRemove_request c = m_request (useRemovePasskey (pk_id c))"

definition doRemove :: "api_result \<Rightarrow> passkeys_state \<Rightarrow> passkeys_state" where
  "doRemove r s =
     (case ps_target s of
        None \<Rightarrow> s
      | Some c \<Rightarrow>
          let s = s\<lparr>ps_removeError := None\<rparr>;
              s = (case m_fn (useRemovePasskey (pk_id c)) r of
                     Inr _ \<Rightarrow> s\<lparr>ps_notices := ps_notices s @ [Info ''t.mfa.passkeys.removedNotice'']\<rparr>
                   | Inl err \<Rightarrow> s\<lparr>ps_removeError := Some (case err of
                         LastFactorError _ \<Rightarrow> ''t.mfa.passkeys.lastFactorError''
                       | _ \<Rightarrow> ''t.mfa.passkeys.removeError'')\<rparr>)
          in s\<lparr>ps_target := None\<rparr>)"

definition PasskeysSection_view :: "bool \<Rightarrow> passkey_row list option \<Rightarrow> passkeys_state \<Rightarrow> (string \<times> bool) list" where
  "PasskeysSection_view supported data s =
     (let creds = nullish_or data [] in
      (if \<not> supported then [(''mfa-passkey-unsupported'', True)] else [])
      @ (if struthy (ps_removeError s) then [(''alert'', True)] else [])
      @ (if creds \<noteq> [] then map (\<lambda>c. (''mfa-passkey-remove-'' @ pk_id c, True)) creds else [])
      @ [(''mfa-passkey-password'', True), (''mfa-passkey-name'', True)]
      @ (if struthy (ps_addError s) then [(''alert'', True)] else [])
      @ [(''mfa-passkey-add'', supported)])"

interpretation remove_passkey: confirm_flow ps_target selectPasskey cancelPasskey doRemove_request doRemove
  by unfold_locales
     (auto simp: selectPasskey_def cancelPasskey_def doRemove_def Let_def split: option.splits sum.splits)

section \<open>Trusted devices\<close>

record trusted_row =
  td_id :: string
  td_user_agent :: "string option"
  td_ip :: "string option"

record trusted_state =
  ts_target :: "trusted_row option"
  ts_revokeAllOpen :: bool
  ts_revokeError :: "string option"

definition selectTrusted :: "trusted_row \<Rightarrow> trusted_state \<Rightarrow> trusted_state" where
  "selectTrusted d s = s\<lparr>ts_revokeError := None, ts_target := Some d\<rparr>"

definition cancelTrusted :: "trusted_state \<Rightarrow> trusted_state" where
  "cancelTrusted s = s\<lparr>ts_target := None\<rparr>"

definition doRevoke_request :: "trusted_row \<Rightarrow> request" where
  "doRevoke_request d = m_request (useRevokeTrustedDevice (td_id d))"

definition doRevoke :: "api_result \<Rightarrow> trusted_state \<Rightarrow> trusted_state" where
  "doRevoke r s =
     (case ts_target s of
        None \<Rightarrow> s
      | Some d \<Rightarrow>
          let s = s\<lparr>ts_revokeError := None\<rparr>;
              s = (case m_fn (useRevokeTrustedDevice (td_id d)) r of
                     Inr _ \<Rightarrow> s | Inl _ \<Rightarrow> s\<lparr>ts_revokeError := Some ''t.mfa.trustedDevices.revokeError''\<rparr>)
          in s\<lparr>ts_target := None\<rparr>)"

definition openRevokeAll :: "unit \<Rightarrow> trusted_state \<Rightarrow> trusted_state" where
  "openRevokeAll u s = s\<lparr>ts_revokeAllOpen := True\<rparr>"

definition closeRevokeAll :: "trusted_state \<Rightarrow> trusted_state" where
  "closeRevokeAll s = s\<lparr>ts_revokeAllOpen := False\<rparr>"

definition doRevokeAll :: "api_result \<Rightarrow> trusted_state \<Rightarrow> trusted_state" where
  "doRevokeAll r s =
     (let s = s\<lparr>ts_revokeError := None\<rparr>;
          s = (case m_fn useRevokeAllTrustedDevices r of
                 Inr _ \<Rightarrow> s | Inl _ \<Rightarrow> s\<lparr>ts_revokeError := Some ''t.mfa.trustedDevices.revokeError''\<rparr>)
      in s\<lparr>ts_revokeAllOpen := False\<rparr>)"

definition open_target :: "bool \<Rightarrow> unit option" where
  "open_target b = (if b then Some () else None)"

definition TrustedDevicesSection_view :: "trusted_row list option \<Rightarrow> bool \<Rightarrow> trusted_state \<Rightarrow> string list" where
  "TrustedDevicesSection_view data load_error s =
     (let devices = nullish_or data [] in
      (if load_error then [''load-error''] else [])
      @ (if struthy (ts_revokeError s) then [''alert''] else [])
      @ (if devices = [] \<and> \<not> load_error then [''empty'']
         else map (\<lambda>d. ''trusted-device-revoke-'' @ td_id d) devices)
      @ (if devices \<noteq> [] then [''trusted-device-revoke-all''] else []))"

interpretation revoke_trusted: confirm_flow ts_target selectTrusted cancelTrusted doRevoke_request doRevoke
  by unfold_locales
     (auto simp: selectTrusted_def cancelTrusted_def doRevoke_def Let_def split: option.splits sum.splits)

interpretation revoke_all: confirm_flow "\<lambda>s. open_target (ts_revokeAllOpen s)" openRevokeAll closeRevokeAll
    "\<lambda>_. m_request useRevokeAllTrustedDevices" doRevokeAll
  by unfold_locales
     (auto simp: openRevokeAll_def closeRevokeAll_def doRevokeAll_def open_target_def Let_def
       split: sum.splits)

section \<open>The organisation's policy and other users\<close>

definition change_policy :: "api_result \<Rightarrow> string \<Rightarrow> notice" where
  "change_policy r mode =
     (case m_fn (useSetMfaPolicy mode) r of
        Inr _ \<Rightarrow> Info ''t.mfa.policySaved'' | Inl _ \<Rightarrow> Failure ''t.mfa.policySaveError'')"

definition policy_mode :: "string option \<Rightarrow> string" where
  "policy_mode mode = nullish_or mode ''off''"

definition policy_options :: "string list" where
  "policy_options = [''off'', ''all'', ''privileged'']"

definition toggle_checked :: "bool option \<Rightarrow> bool" where
  "toggle_checked data = nullish_or data False"

record user_row =
  us_id :: string
  us_name :: string
  us_email :: string
  us_superadmin :: bool

record users_state =
  uu_target :: "user_row option"
  uu_notices :: "notice list"

definition selectUser :: "user_row \<Rightarrow> users_state \<Rightarrow> users_state" where
  "selectUser u s = s\<lparr>uu_target := Some u\<rparr>"

definition cancelUser :: "users_state \<Rightarrow> users_state" where
  "cancelUser s = s\<lparr>uu_target := None\<rparr>"

definition doReset_request :: "user_row \<Rightarrow> request" where
  "doReset_request u = m_request (useResetUserMfa (us_id u))"

definition doReset :: "api_result \<Rightarrow> users_state \<Rightarrow> users_state" where
  "doReset r s =
     (case uu_target s of
        None \<Rightarrow> s
      | Some u \<Rightarrow>
          (s\<lparr>uu_notices := uu_notices s @ [case m_fn (useResetUserMfa (us_id u)) r of
               Inr _ \<Rightarrow> Info ''t.mfa.resetDone'' | Inl _ \<Rightarrow> Failure ''t.mfa.resetError'']\<rparr>)\<lparr>uu_target := None\<rparr>)"

interpretation reset_user: confirm_flow uu_target selectUser cancelUser doReset_request doReset
  by unfold_locales
     (auto simp: selectUser_def cancelUser_def doReset_def split: option.splits sum.splits)

text \<open>The cards of the panel, from the status query and the user.\<close>

definition MfaPanel_view :: "me option \<Rightarrow> bool \<Rightarrow> bool \<Rightarrow> json option \<Rightarrow> string list" where
  "MfaPanel_view user loading error data =
     (if loading then [''loader''] else if error then [''mfa-status-error'']
      else if otruthy (field data ''enabled'') then [''MfaManage''] else [''MfaEnrollFlow''])
     @ (if otruthy (field (field data ''webauthn'') ''configured'') then [''PasskeysSection''] else [])
     @ (if otruthy (field (field data ''trusted_devices'') ''enabled'') then [''TrustedDevicesSection''] else [])
     @ (if (case user of None \<Rightarrow> False | Some m \<Rightarrow> is_superadmin m)
        then [''MfaPolicyControl'', ''TrustedDeviceToggleControl'', ''MfaUsersTable''] else [])"

section \<open>Sessions\<close>

definition handleLogoutAll :: "api_result \<Rightarrow> notice list \<times> cache_op list" where
  "handleLogoutAll r =
     (case m_fn useLogoutAll r of
        Inl _ \<Rightarrow> ([Failure ''t.sessions.logoutAllError''], [])
      | Inr d \<Rightarrow> ([], m_success useLogoutAll d))"

section \<open>What is proved\<close>

lemma addPasskey_config_error:
  assumes "\<forall>o' m. auth o' \<noteq> Inl (PasskeyConfigError m)" and "useAddPasskey auth send pw nm = (rqs, outcome, ops)"
  shows "(\<exists>m. outcome = Inl (PasskeyConfigError m)) \<longleftrightarrow>
      (\<exists>d e. send (addPasskey_begin pw) = Reply d e 409 \<and> (otruthy e \<or> \<not> otruthy d))"
    and "(ops \<noteq> []) = (\<exists>d. outcome = Inr d)" and "(\<exists>d. outcome = Inr d) \<longrightarrow> length rqs = 2"
proof -
  have cc: "createCredential auth o' \<noteq> Inl (PasskeyConfigError m)" for o' m
    using assms(1) by (auto simp: createCredential_def split: option.splits sum.splits)
  have nd: "need_data msg r \<noteq> Inl (PasskeyConfigError m)" for msg r m by (cases r) auto
  show "(\<exists>m. outcome = Inl (PasskeyConfigError m)) \<longleftrightarrow>
      (\<exists>d e. send (addPasskey_begin pw) = Reply d e 409 \<and> (otruthy e \<or> \<not> otruthy d))"
    using assms(2) cc nd
    by (cases "send (addPasskey_begin pw)")
       (auto simp: useAddPasskey_def Let_def split: if_splits sum.splits option.splits)
  show "(ops \<noteq> []) = (\<exists>d. outcome = Inr d)" "(\<exists>d. outcome = Inr d) \<longrightarrow> length rqs = 2"
    using assms(2)
    by (cases "send (addPasskey_begin pw)";
        auto simp: useAddPasskey_def Let_def split: if_splits sum.splits option.splits)+
qed

lemma doAdd_notConfigured:
  "ps_addError (doAdd outcome s) = Some ''t.mfa.passkeys.notConfigured'' \<longleftrightarrow> (\<exists>m. outcome = Inl (PasskeyConfigError m))"
  by (auto simp: doAdd_def Let_def split: sum.splits failure.splits)

text \<open>Every outcome of a passkey operation is reported as what it is. Removing shows the
  last-factor message exactly when the server refused with status 409, the general message on every
  other failure, and no error on success; adding reports a missing configuration exactly when the
  begin request was refused with 409 (the browser's own failures cannot pass for it), and refreshes
  the cached passkeys and status exactly when both requests were made and the credential was accepted.\<close>

theorem passkey_outcomes:
  assumes "\<forall>o' m. auth o' \<noteq> Inl (PasskeyConfigError m)" and "ps_target s = Some c"
    and "useAddPasskey auth send pw nm = (rqs, outcome, ops)"
  shows "ps_removeError (doRemove r s) =
      (case r of Rejected \<Rightarrow> Some ''t.mfa.passkeys.removeError''
       | Reply d e st \<Rightarrow> if \<not> otruthy e then None
           else if st = 409 then Some ''t.mfa.passkeys.lastFactorError'' else Some ''t.mfa.passkeys.removeError'')
    \<and> (ps_addError (doAdd outcome s) = Some ''t.mfa.passkeys.notConfigured'' \<longleftrightarrow>
        (\<exists>d e. send (addPasskey_begin pw) = Reply d e 409 \<and> (otruthy e \<or> \<not> otruthy d)))
    \<and> (ops \<noteq> [] \<longleftrightarrow> (\<exists>d. outcome = Inr d)) \<and> (ops \<noteq> [] \<longrightarrow> length rqs = 2)"
  using addPasskey_config_error [OF assms(1,3)] assms(2)
  by (cases r) (auto simp: doRemove_def useRemovePasskey_def mk_mutation_def Let_def doAdd_notConfigured)

definition sample_passkeys :: passkeys_state where
  "sample_passkeys = \<lparr>ps_password = [], ps_name = [], ps_addError = None,
     ps_target = Some \<lparr>pk_id = ''k1'', pk_name = ''Key''\<rparr>, ps_removeError = None, ps_notices = []\<rparr>"

theorem passkey_outcomes_witness:
  "ps_removeError (doRemove (Reply None (Some (JStr ''e'')) 409) sample_passkeys) = Some ''t.mfa.passkeys.lastFactorError''"
proof -
  obtain rqs outcome ops where "useAddPasskey (\<lambda>_. Inr None) (\<lambda>_. Rejected) [] [] = (rqs, outcome, ops)"
    by (metis prod_cases3)
  from passkey_outcomes [OF _ _ this, of sample_passkeys "\<lparr>pk_id = ''k1'', pk_name = ''Key''\<rparr>"
      "Reply None (Some (JStr ''e'')) 409"]
  show ?thesis by (simp add: sample_passkeys_def)
qed

end
