(* ===== verification/AccountViews.thy ===== *)
theory AccountViews
  imports View Dictionaries Mfa Login AdminPages
begin

text \<open>
  What the account and audit pages render (\<^verbatim>\<open>security/MfaPanel.tsx\<close>, \<^verbatim>\<open>security/RecoveryCodes.tsx\<close>,
  \<^verbatim>\<open>security/SessionsPage.tsx\<close>, \<^verbatim>\<open>security/TrustedDevicesSection.tsx\<close>, \<^verbatim>\<open>security/MfaSetupGate.tsx\<close>,
  \<^verbatim>\<open>pages/AuditPage.tsx\<close>, \<^verbatim>\<open>components/LanguageSwitcher.tsx\<close>), the QR code with its cancelled
  generations (\<^verbatim>\<open>security/QrCode.tsx\<close>; the encoder is a parameter), and the attributes of the document
  before the first paint (\<^verbatim>\<open>main.tsx\<close>). Dates are printed by the host.
\<close>

section \<open>Languages\<close>

text \<open>Characters beyond ASCII by their code points.\<close>

definition LOCALE_LABELS :: "string obj" where
  "LOCALE_LABELS =
     [(''en'', ''English''),
      (''it'', ''Italiano''),
      (''es'', ''Espa&#xF1;ol''),
      (''fr'', ''Fran&#xE7;ais''),
      (''de'', ''Deutsch''),
      (''pt'', ''Portugu&#xEA;s''),
      (''nl'', ''Nederlands''),
      (''ru'', ''&#x420;&#x443;&#x441;&#x441;&#x43A;&#x438;&#x439;''),
      (''ar'', ''&#x627;&#x644;&#x639;&#x631;&#x628;&#x64A;&#x629;''),
      (''zh'', ''&#x7B80;&#x4F53;&#x4E2D;&#x6587;''),
      (''zh-TW'', ''&#x7E41;&#x9AD4;&#x4E2D;&#x6587;''),
      (''ja'', ''&#x65E5;&#x672C;&#x8A9E;'')]"

definition language_options :: "(string \<times> string) list" where
  "language_options = map (\<lambda>l. (l, nullish_or (obj_get LOCALE_LABELS l) [])) SUPPORTED_LOCALES"

definition LanguageSwitcher :: "string \<Rightarrow> 'e elem" where
  "LanguageSwitcher active = Choice ''t.common.language'' language_options (Some active)"

definition LanguageSwitcher_onChange :: "string option \<Rightarrow> 'd i18n \<Rightarrow> 'd i18n" where
  "LanguageSwitcher_onChange v s = (if struthy v then setLocale None (the v) s else s)"

text \<open>\<open>main.tsx\<close>: the language and the direction of the document before the first paint.\<close>

definition first_paint :: "storage \<Rightarrow> navigator \<Rightarrow> string \<times> string" where
  "first_paint st nav = (let initialLocale = detectInitialLocale st nav in (initialLocale, if isRtl initialLocale then ''rtl'' else ''ltr''))"

section \<open>The QR code\<close>

text \<open>The image, and the generations under way with the value each was started for and whether its effect
  is still the current one.\<close>

record qr_state =
  qr_value :: string
  qr_src :: "string option"
  qr_pending :: "(string \<times> bool) list"

definition qr_mount :: "string \<Rightarrow> qr_state" where
  "qr_mount v = \<lparr>qr_value = v, qr_src = None, qr_pending = [(v, True)]\<rparr>"

text \<open>Another value: the clean-up of the old effect cancels it, and the new effect starts.\<close>

definition qr_change :: "string \<Rightarrow> qr_state \<Rightarrow> qr_state" where
  "qr_change v s =
     (if v = qr_value s then s
      else s\<lparr>qr_value := v, qr_pending := map (\<lambda>p. (fst p, False)) (qr_pending s) @ [(v, True)]\<rparr>)"

definition qr_landed :: "(string \<Rightarrow> string) \<Rightarrow> nat \<Rightarrow> qr_state \<Rightarrow> qr_state" where
  "qr_landed toDataURL i s =
     (let (v, live) = qr_pending s ! i; s' = s\<lparr>qr_pending := take i (qr_pending s) @ drop (Suc i) (qr_pending s)\<rparr> in
      if live then s'\<lparr>qr_src := Some (toDataURL v)\<rparr> else s')"

definition qr_failed :: "nat \<Rightarrow> qr_state \<Rightarrow> qr_state" where
  "qr_failed i s =
     (let (v, live) = qr_pending s ! i; s' = s\<lparr>qr_pending := take i (qr_pending s) @ drop (Suc i) (qr_pending s)\<rparr> in
      if live then s'\<lparr>qr_src := None\<rparr> else s')"

definition QrCode :: "qr_state \<Rightarrow> 'e elem list" where
  "QrCode s = onlyif (struthy (qr_src s)) [Image (the (qr_src s))]"

inductive qr_run :: "(string \<Rightarrow> string) \<Rightarrow> qr_state \<Rightarrow> bool" for toDataURL where
  mount: "qr_run toDataURL (qr_mount v)"
| change: "qr_run toDataURL s \<Longrightarrow> qr_run toDataURL (qr_change v s)"
| landed: "qr_run toDataURL s \<Longrightarrow> i < length (qr_pending s) \<Longrightarrow> qr_run toDataURL (qr_landed toDataURL i s)"
| failed: "qr_run toDataURL s \<Longrightarrow> i < length (qr_pending s) \<Longrightarrow> qr_run toDataURL (qr_failed i s)"

section \<open>Recovery codes, sessions, trusted devices\<close>

datatype account_event = CopyCodes | DownloadCodes | CodesDone | LogoutAll | AskReset user_row | CancelReset | ConfirmReset
  | CancelRevoke | ConfirmRevoke | CancelRevokeAll | ConfirmRevokeAll | CancelRemove | ConfirmRemove

definition RecoveryCodes :: "string list \<Rightarrow> bool \<Rightarrow> account_event elem list" where
  "RecoveryCodes codes has_onDone =
     [Text ''t.mfa.recoveryTitle'', Text ''t.mfa.recoveryIntro'', Alert ''yellow'' ''t.mfa.recoveryWarning'']
     @ map Text codes @ [Button ''t.mfa.copyAll'' True CopyCodes, Button ''t.mfa.download'' True DownloadCodes]
     @ onlyif has_onDone [Button ''t.mfa.done'' True CodesDone]"

record session_out =
  so_last_seen_at :: string
  so_created_at :: string
  so_expires_at :: string
  so_ip :: "string option"
  so_user_agent :: "string option"
  so_current :: bool

definition session_row :: "(string \<Rightarrow> string) \<Rightarrow> session_out \<Rightarrow> account_event elem list" where
  "session_row fmt x =
     [Text (fmt (so_last_seen_at x)), Text (fmt (so_created_at x)), Text (fmt (so_expires_at x)),
      Text (nullish_or (so_ip x) mdash), Text (nullish_or (so_user_agent x) mdash)]
     @ onlyif (so_current x) [Badge ''blue'' ''t.sessions.current'']"

definition SessionsPage :: "(string \<Rightarrow> string) \<Rightarrow> bool \<Rightarrow> session_out list remote \<Rightarrow> account_event elem list" where
  "SessionsPage fmt pending q =
     (if rm_loading q then [Loader] else if rm_error q then [Text ''t.sessions.loadError'']
      else [Title ''t.sessions.pageTitle'',
            Table [''t.sessions.colLastSeen'', ''t.sessions.colCreated'', ''t.sessions.colExpires'', ''t.sessions.colIp'',
                   ''t.sessions.colUserAgent'', []] (map (\<lambda>x. Row (session_row fmt x)) (remote_list q)),
            Busy_button ''t.sessions.logoutAll'' pending True LogoutAll])"

definition trusted_dialogs :: "bool \<Rightarrow> bool \<Rightarrow> trusted_state \<Rightarrow> account_event elem list" where
  "trusted_dialogs revoking revoking_all s =
     confirm_dialog (ts_target s \<noteq> None) ''t.mfa.trustedDevices.confirmTitle'' ''t.mfa.trustedDevices.confirmBody''
       (Some ''t.mfa.trustedDevices.revoke'') (Some revoking) CancelRevoke ConfirmRevoke
     @ confirm_dialog (ts_revokeAllOpen s) ''t.mfa.trustedDevices.revokeAllConfirmTitle'' ''t.mfa.trustedDevices.revokeAllConfirmBody''
       (Some ''t.mfa.trustedDevices.revokeAll'') (Some revoking_all) CancelRevokeAll ConfirmRevokeAll"

definition passkey_dialog :: "bool \<Rightarrow> passkeys_state \<Rightarrow> account_event elem list" where
  "passkey_dialog removing s =
     confirm_dialog (ps_target s \<noteq> None) ''t.mfa.passkeys.removeConfirmTitle'' ''t.mfa.passkeys.removeConfirmBody''
       (Some ''t.mfa.passkeys.remove'') (Some removing) CancelRemove ConfirmRemove"

section \<open>The organisation's policy and the users\<close>

definition MfaPolicyControl :: "string option remote \<Rightarrow> account_event elem list" where
  "MfaPolicyControl q =
     (if rm_loading q then [Loader] else if rm_error q then [Text ''t.mfa.policyLoadError'']
      else [Text ''t.mfa.policyTitle'', Text ''t.mfa.policyIntro'',
            Choice [] [(''off'', ''t.mfa.policyOff''), (''all'', ''t.mfa.policyAll''), (''privileged'', ''t.mfa.policyPrivileged'')]
              (Some (policy_mode (nullish_or (rm_data q) None)))])"

definition user_cells :: "user_row \<Rightarrow> account_event elem list" where
  "user_cells u =
     [Text (us_name u), Text (us_email u),
      if us_superadmin u then Badge ''grape'' ''t.mfa.superadmin'' else Badge [] ''t.mfa.member'',
      Button ''t.mfa.reset'' True (AskReset u)]"

definition MfaUsersTable :: "bool \<Rightarrow> user_row list remote \<Rightarrow> users_state \<Rightarrow> account_event elem list" where
  "MfaUsersTable resetting q s =
     (if rm_loading q then [Loader] else if rm_error q then [Text ''t.mfa.usersLoadError'']
      else [Text ''t.mfa.usersTitle'',
            Table [''t.mfa.colUser'', ''t.mfa.colEmail'', ''t.mfa.colRole'', []] (map (\<lambda>u. Row (user_cells u)) (remote_list q))]
        @ confirm_dialog (uu_target s \<noteq> None) ''t.mfa.resetConfirmTitle'' ''t.mfa.resetConfirmBody'' (Some ''t.mfa.reset'')
            (Some resetting) CancelReset ConfirmReset)"

text \<open>The gate of a session that must enrol, around the enrolment wizard.\<close>

definition MfaSetupGate_view :: "'e elem list \<Rightarrow> 'e elem list" where
  "MfaSetupGate_view wizard = [Title ''t.mfa.gateTitle'', Text ''t.mfa.gateIntro''] @ wizard"

section \<open>The audit log\<close>

record audit_entry =
  ae_ts :: string
  ae_actor_email :: "string option"
  ae_actor_user_id :: "string option"
  ae_tenant_name :: "string option"
  ae_action :: string
  ae_target_type :: "string option"
  ae_target_id :: "string option"
  ae_ip :: "string option"
  ae_details :: "json obj option"

datatype audit_event = ExportCsv | ApplyFilters | ResetFilters | PrevPage | NextPage

definition DetailsCell :: "(json \<Rightarrow> string) \<Rightarrow> json obj option \<Rightarrow> 'e elem" where
  "DetailsCell stringify details =
     (if nullish_or details [] = [] then Text mdash else Text (stringify (JObj (nullish_or details []))))"

fun cell_text :: "cell \<Rightarrow> string" where
  "cell_text (Shown x) = x"
| "cell_text Dash = mdash"
| "cell_text Hidden = []"

definition audit_row :: "(json \<Rightarrow> string) \<Rightarrow> audit_entry \<Rightarrow> audit_event elem list" where
  "audit_row stringify e =
     [Text (ae_ts e), Text (nullish_or (ae_actor_email e) (nullish_or (ae_actor_user_id e) mdash)),
      Text (nullish_or (ae_tenant_name e) mdash), Text (ae_action e),
      Text (cell_text (audit_target (ae_target_type e) (ae_target_id e))), Text (nullish_or (ae_ip e) mdash),
      DetailsCell stringify (ae_details e)]"

definition audit_list :: "(json \<Rightarrow> string) \<Rightarrow> audit_entry list remote \<Rightarrow> audit_event elem list" where
  "audit_list stringify q =
     onlyif (rm_loading q) [Loader] @ onlyif (rm_error q) [Alert ''red'' ''t.errors.auditLoad'']
     @ onlyif (rm_data q = Some []) [Text ''t.audit.empty'']
     @ onlyif (remote_list q \<noteq> [])
         [Table [''t.audit.columns.time'', ''t.audit.columns.actor'', ''t.audit.columns.tenant'', ''t.audit.columns.action'',
                 ''t.audit.columns.target'', ''t.audit.columns.ip'', ''t.audit.columns.details'']
            (map (\<lambda>e. Row (audit_row stringify e)) (remote_list q))]"

definition audit_pager :: "string \<Rightarrow> string \<Rightarrow> int option \<Rightarrow> audit_state \<Rightarrow> audit_event elem list" where
  "audit_pager tx_total tx_page count s =
     onlyif (nullish_or count 0 > 0)
       [Text (showingTotal tx_total (nullish_or count 0)), Button ''t.audit.prev'' (hasPrev s) PrevPage,
        Text (pageLabel tx_page (audit_page s)), Button ''t.audit.next'' (hasNext count s) NextPage]"

text \<open>The page; a reply is the entries and the total, and the texts with placeholders are arguments.\<close>

definition audit_entries :: "(audit_entry list \<times> int) remote \<Rightarrow> audit_entry list remote" where
  "audit_entries q = \<lparr>rm_data = map_option fst (rm_data q), rm_loading = rm_loading q, rm_error = rm_error q\<rparr>"

definition AuditPage ::
  "(json \<Rightarrow> string) \<Rightarrow> string \<Rightarrow> string \<Rightarrow> (audit_entry list \<times> int) remote \<Rightarrow> audit_state \<Rightarrow> audit_event elem list" where
  "AuditPage stringify tx_total tx_page q s =
     [Title ''t.audit.title'', Text ''t.audit.subtitle'', Button ''t.audit.export'' True ExportCsv,
      Field ''t.audit.filters.actor'' (au_actorEmail s), Field ''t.audit.filters.tenant'' (au_tenant s),
      Field ''t.audit.filters.action'' (au_action s), Field ''t.audit.filters.from'' (nullish_or (au_from s) []),
      Field ''t.audit.filters.to'' (nullish_or (au_to s) []),
      Button ''t.audit.filters.apply'' True ApplyFilters, Button ''t.audit.filters.reset'' True ResetFilters]
     @ audit_list stringify (audit_entries q) @ audit_pager tx_total tx_page (map_option snd (rm_data q)) s"

section \<open>What is proved\<close>

interpretation audit_log: listing "audit_list stringify" "audit_row stringify" "Alert ''red'' ''t.errors.auditLoad''"
    "Text ''t.audit.empty''" for stringify
  by unfold_locales (auto simp: audit_list_def remote_list_def split: option.splits)

lemma audit_rows_clicks [simp]: "clicks (audit_list stringify q) = []"
proof -
  have "clicks (map (\<lambda>e. Row (audit_row stringify e)) es) = []" for es
    by (induction es) (simp_all add: audit_row_def DetailsCell_def)
  then show ?thesis by (simp add: audit_list_def)
qed

lemma audit_steps_offered:
  "NextPage \<in> set (clicks (AuditPage stringify tx_total tx_page q s)) \<longleftrightarrow>
     nullish_or (map_option snd (rm_data q)) 0 > 0 \<and> hasNext (map_option snd (rm_data q)) s"
  "PrevPage \<in> set (clicks (AuditPage stringify tx_total tx_page q s)) \<longleftrightarrow>
     nullish_or (map_option snd (rm_data q)) 0 > 0 \<and> hasPrev s"
  by (auto simp: AuditPage_def audit_pager_def)

lemma first_paint_stable: "fst (first_paint st nav) = il_html_lang (i18n_mount None en html st nav)
   \<and> snd (first_paint st nav) = direction (effective None (i18n_mount None en html st nav))"
  by (simp add: first_paint_def Let_def i18n_mount_def i18n_effects_def effective_def nullish_or_def direction_def)

lemma languages_offered: "map fst language_options = SUPPORTED_LOCALES \<and> (\<forall>(l, name) \<in> set language_options. name \<noteq> [])"
  by (simp add: language_options_def SUPPORTED_LOCALES_def LOCALE_LABELS_def obj_get_def)

subsection \<open>The QR code\<close>

definition qr_inv :: "(string \<Rightarrow> string) \<Rightarrow> qr_state \<Rightarrow> bool" where
  "qr_inv toDataURL s \<longleftrightarrow>
     (\<forall>p \<in> set (qr_pending s). snd p \<longrightarrow> fst p = qr_value s)
     \<and> ((\<forall>p \<in> set (qr_pending s). \<not> snd p) \<longrightarrow> qr_src s = None \<or> qr_src s = Some (toDataURL (qr_value s)))"

lemma set_without: "i < length xs \<Longrightarrow> set xs = insert (xs ! i) (set (take i xs @ drop (Suc i) xs))"
  by (metis id_take_nth_drop list.set(2) set_append Un_insert_right)

lemma set_without_subset: "set (take i xs @ drop (Suc i) xs) \<subseteq> set xs"
  using set_take_subset [of i xs] set_drop_subset [of "Suc i" xs] by simp

lemma qr_inv_mount: "qr_inv toDataURL (qr_mount v)"
  by (simp add: qr_inv_def qr_mount_def)

lemma qr_inv_change: "qr_inv toDataURL s \<Longrightarrow> qr_inv toDataURL (qr_change v s)"
  by (auto simp: qr_inv_def qr_change_def)

text \<open>The one step a generation takes, whatever it brings: it leaves the list, and only a current one
  writes the image.\<close>

lemma qr_inv_settled:
  assumes inv: "qr_inv toDataURL s" and i: "i < length (qr_pending s)"
    and out: "out = None \<or> out = Some (toDataURL (fst (qr_pending s ! i)))"
  shows "qr_inv toDataURL (let s' = s\<lparr>qr_pending := take i (qr_pending s) @ drop (Suc i) (qr_pending s)\<rparr> in
           if snd (qr_pending s ! i) then s'\<lparr>qr_src := out\<rparr> else s')"
proof (cases "snd (qr_pending s ! i)")
  case True
  then have "fst (qr_pending s ! i) = qr_value s" using inv i by (simp add: qr_inv_def)
  then show ?thesis
    using inv True out set_without_subset [of i "qr_pending s"] by (auto simp: qr_inv_def subset_eq simp del: set_append)
next
  case False
  then show ?thesis
    using inv set_without [OF i] by (simp add: qr_inv_def)
qed

lemma qr_inv_run: "qr_run toDataURL s \<Longrightarrow> qr_inv toDataURL s"
proof (induction rule: qr_run.induct)
  case (landed s i)
  then show ?case
    using qr_inv_settled [of toDataURL s i "Some (toDataURL (fst (qr_pending s ! i)))"]
    by (simp add: qr_landed_def split_beta Let_def)
next
  case (failed s i)
  then show ?case
    using qr_inv_settled [of toDataURL s i None] by (simp add: qr_failed_def split_beta Let_def)
qed (simp_all add: qr_inv_mount qr_inv_change)

text \<open>The QR code never shows a stale secret once it has settled. However the values change and the
  generations of their images overlap, finish out of order or fail: when no generation for the value now
  given is under way, the component shows nothing or the image of that value, and the arrival of a
  generation that was started for an earlier value changes nothing on the screen.\<close>

theorem qr_shows_current:
  assumes run: "qr_run toDataURL s"
  shows "((\<forall>p \<in> set (qr_pending s). \<not> snd p) \<longrightarrow> QrCode s = [] \<or> QrCode s = [Image (toDataURL (qr_value s))])
    \<and> (\<forall>i < length (qr_pending s). fst (qr_pending s ! i) \<noteq> qr_value s \<longrightarrow>
           QrCode (qr_landed toDataURL i s) = (QrCode s :: 'e elem list) \<and> QrCode (qr_failed i s) = (QrCode s :: 'e elem list))"
proof (intro conjI allI impI)
  have inv: "qr_inv toDataURL s" by (rule qr_inv_run [OF run])
  then show "QrCode s = [] \<or> QrCode s = [Image (toDataURL (qr_value s))]" if "\<forall>p \<in> set (qr_pending s). \<not> snd p"
    using that by (auto simp: qr_inv_def QrCode_def onlyif_def)
  fix i
  assume "i < length (qr_pending s)" and "fst (qr_pending s ! i) \<noteq> qr_value s"
  then have "\<not> snd (qr_pending s ! i)" using inv by (auto simp: qr_inv_def)
  then show "QrCode (qr_landed toDataURL i s) = (QrCode s :: 'e elem list)" and "QrCode (qr_failed i s) = (QrCode s :: 'e elem list)"
    by (simp_all add: QrCode_def qr_landed_def qr_failed_def split_beta Let_def)
qed

text \<open>Two values, whose images arrive in the wrong order: the second stays.\<close>

definition qr_sample :: qr_state where
  "qr_sample = qr_landed (\<lambda>v. ''data:'' @ v) 1 (qr_change ''B'' (qr_mount ''A''))"

lemma qr_sample_run: "qr_run (\<lambda>v. ''data:'' @ v) qr_sample"
  unfolding qr_sample_def
  by (rule qr_run.landed [OF qr_run.change [OF qr_run.mount]]) (simp add: qr_change_def qr_mount_def)

theorem qr_shows_current_witness:
  "(QrCode qr_sample = ([] :: unit elem list) \<or> QrCode qr_sample = ([Image ''data:B''] :: unit elem list))
   \<and> QrCode (qr_landed (\<lambda>v. ''data:'' @ v) 0 qr_sample) = (QrCode qr_sample :: unit elem list)"
  using qr_shows_current [OF qr_sample_run, where 'e = unit]
  by (simp add: qr_sample_def qr_landed_def qr_change_def qr_mount_def QrCode_def)

end
