(* ===== verification/AttackMap.thy ===== *)
theory AttackMap
  imports Complex_Main "HOL-Library.Word" View
begin

text \<open>
  The world map of attacker countries (\<^verbatim>\<open>overview/AttackerCountriesMap.tsx\<close>): the colour ramp, the
  index of the data by country, the fill of a geography and the tooltip. The bitwise operators of the
  language work on 32-bit integers, so the packing of a colour is done on \<open>32 word\<close>; shares are
  rational numbers, on which the arithmetic of the ramp is exact. The table from numeric to
  alphabetic country codes, which ships with the program as data, and the geometry of the map are
  parameters. Drawing itself is left to the library.
\<close>

unbundle bit_operations_syntax

section \<open>Colours\<close>

definition BASE_COLOR :: string where
  "BASE_COLOR = ''#243043''"

definition HOT_COLOR :: string where
  "HOT_COLOR = ''#ff6b6b''"

text \<open>\<open>Math.round\<close>: the nearest integer, the larger of two.\<close>

definition js_round :: "rat \<Rightarrow> int" where
  "js_round x = \<lfloor>x + 1 / 2\<rfloor>"

definition hex_digits :: string where
  "hex_digits = ''0123456789abcdef''"

definition hex_value :: "char \<Rightarrow> nat option" where
  "hex_value c = index_of hex_digits (lower_char c)"

text \<open>\<open>parseInt(s, 16)\<close> reads the longest prefix of hexadecimal digits; \<open>None\<close> is \<open>NaN\<close>. Signs,
  white space and the prefix \<open>0x\<close> do not occur after the \<open>#\<close> of a colour.\<close>

definition parse_hex :: "string \<Rightarrow> nat option" where
  "parse_hex s =
     (case takeWhile (\<lambda>c. hex_value c \<noteq> None) s of [] \<Rightarrow> None
      | ds \<Rightarrow> Some (foldl (\<lambda>n c. 16 * n + the (hex_value c)) 0 ds))"

text \<open>The 32-bit integer of a number: the bitwise operators take \<open>NaN\<close> as 0 and others modulo 2 to the 32.\<close>

definition to_int32 :: "nat option \<Rightarrow> 32 word" where
  "to_int32 n = word_of_nat (nullish_or n 0)"

definition hexToRgb :: "string \<Rightarrow> int \<times> int \<times> int" where
  "hexToRgb hex =
     (let n = to_int32 (parse_hex (drop 1 hex))
      in (sint (signed_drop_bit 16 n AND 0xff), sint (signed_drop_bit 8 n AND 0xff), sint (n AND 0xff)))"

text \<open>\<open>toString(16)\<close> of a 32-bit integer.\<close>

definition hex_digit :: "nat \<Rightarrow> char" where
  "hex_digit d = hex_digits ! d"

fun show_hex :: "nat \<Rightarrow> string" where
  "show_hex n = (if n < 16 then [hex_digit n] else show_hex (n div 16) @ [hex_digit (n mod 16)])"

declare show_hex.simps [simp del]

definition show_hex32 :: "32 word \<Rightarrow> string" where
  "show_hex32 w = (if sint w < 0 then ''-'' @ show_hex (nat (- sint w)) else show_hex (nat (sint w)))"

definition pack_rgb :: "int \<Rightarrow> int \<Rightarrow> int \<Rightarrow> 32 word" where
  "pack_rgb r g b = ((push_bit 24 1 OR push_bit 16 (word_of_int r)) OR push_bit 8 (word_of_int g)) OR word_of_int b"

definition lerp :: "int \<Rightarrow> int \<Rightarrow> rat \<Rightarrow> int" where
  "lerp a b f = js_round (of_int a + (of_int b - of_int a) * f)"

definition lerpColor :: "string \<Rightarrow> string \<Rightarrow> rat \<Rightarrow> string" where
  "lerpColor base hot share =
     (let f = min 1 (max 0 share); (r1, g1, b1) = hexToRgb base; (r2, g2, b2) = hexToRgb hot
      in ''#'' @ drop 1 (show_hex32 (pack_rgb (lerp r1 r2 f) (lerp g1 g2 f) (lerp b1 b2 f))))"

section \<open>The map\<close>

record country_share =
  cs_code :: string
  cs_count :: nat
  cs_pct :: rat

definition sentinel :: "string \<Rightarrow> bool" where
  "sentinel code \<longleftrightarrow> code = ''PRIVATE'' \<or> code = ''UNKNOWN''"

fun index_rows :: "country_share list \<Rightarrow> country_share obj \<times> rat \<Rightarrow> country_share obj \<times> rat" where
  "index_rows [] acc = acc"
| "index_rows (row # rows) (m, mx) =
     (if sentinel (cs_code row) then index_rows rows (m, mx)
      else index_rows rows (obj_set (cs_code row) row m, if cs_pct row > mx then cs_pct row else mx))"

definition byCode :: "country_share list \<Rightarrow> country_share obj" where
  "byCode rows = fst (index_rows rows ([], 0))"

definition maxPct :: "country_share list \<Rightarrow> rat" where
  "maxPct rows = snd (index_rows rows ([], 0))"

definition geo_row :: "string obj \<Rightarrow> country_share list \<Rightarrow> string \<Rightarrow> country_share option" where
  "geo_row numericMap rows geo_id =
     (case obj_get numericMap geo_id of None \<Rightarrow> None
      | Some alpha2 \<Rightarrow> if alpha2 = [] then None else obj_get (byCode rows) alpha2)"

definition geo_fill :: "string obj \<Rightarrow> country_share list \<Rightarrow> string \<Rightarrow> string" where
  "geo_fill numericMap rows geo_id =
     (case geo_row numericMap rows geo_id of
        Some row \<Rightarrow> lerpColor BASE_COLOR HOT_COLOR (if maxPct rows > 0 then cs_pct row / maxPct rows else 0)
      | None \<Rightarrow> BASE_COLOR)"

record hover =
  hv_alpha2 :: string
  hv_count :: nat
  hv_pct :: rat
  hv_x :: int
  hv_y :: int

datatype pointer_event = MouseEnter string int int | MouseMove string int int | MouseLeave

fun hover_step :: "string obj \<Rightarrow> country_share list \<Rightarrow> pointer_event \<Rightarrow> hover option \<Rightarrow> hover option" where
  "hover_step nm rows (MouseEnter geo x y) h =
     (case geo_row nm rows geo of None \<Rightarrow> h
      | Some row \<Rightarrow> Some \<lparr>hv_alpha2 = the (obj_get nm geo), hv_count = cs_count row, hv_pct = cs_pct row,
                        hv_x = x, hv_y = y\<rparr>)"
| "hover_step nm rows (MouseMove geo x y) h =
     (case geo_row nm rows geo of None \<Rightarrow> h | Some row \<Rightarrow> map_option (\<lambda>v. v\<lparr>hv_x := x, hv_y := y\<rparr>) h)"
| "hover_step nm rows MouseLeave h = None"

text \<open>The name of a region, from the browser: \<open>None\<close> when it throws, \<open>Some None\<close> for no name.\<close>

type_synonym region_names = "string \<Rightarrow> string \<Rightarrow> string option option"

definition regionName :: "region_names \<Rightarrow> string \<Rightarrow> string \<Rightarrow> string" where
  "regionName display alpha2 locale = (case display locale alpha2 of None \<Rightarrow> alpha2 | Some name \<Rightarrow> nullish_or name alpha2)"

definition tooltip :: "region_names \<Rightarrow> string \<Rightarrow> hover \<Rightarrow> string" where
  "tooltip display locale h =
     regionName display (hv_alpha2 h) locale @ '' '' @ [CHR 0xB7] @ '' '' @ show_nat (hv_count h) @ '' '' @ [CHR 0xB7] @ '' ''
     @ show_int (js_round (hv_pct h)) @ ''%''"

definition AttackerCountriesMap ::
  "region_names \<Rightarrow> string \<Rightarrow> country_share list \<Rightarrow> hover option \<Rightarrow> 'e elem list" where
  "AttackerCountriesMap display locale rows h =
     (if rows = [] then [Text ''t.overview.attackerCountries.empty'']
      else Image ''world'' # (case h of None \<Rightarrow> [] | Some v \<Rightarrow> [Text (tooltip display locale v)]))"

section \<open>The ramp stays in range\<close>

definition channel :: "int \<Rightarrow> bool" where
  "channel c \<longleftrightarrow> 0 \<le> c \<and> c \<le> 255"

lemma js_round_int [simp]: "js_round (of_int n) = n"
  unfolding js_round_def by (rule floor_unique) simp_all

lemma js_round_mono: "x \<le> y \<Longrightarrow> js_round x \<le> js_round y"
  unfolding js_round_def by (rule floor_mono) simp

lemma lerp_ends [simp]: "lerp a b 0 = a" "lerp a b 1 = b"
  by (simp_all add: lerp_def)

lemma lerp_mono: "a \<le> b \<Longrightarrow> f \<le> f' \<Longrightarrow> lerp a b f \<le> lerp a b f'"
  unfolding lerp_def by (rule js_round_mono) (simp add: mult_left_mono)

lemma lerp_antimono: "b \<le> a \<Longrightarrow> f \<le> f' \<Longrightarrow> lerp a b f' \<le> lerp a b f"
  unfolding lerp_def by (rule js_round_mono) (simp add: mult_left_mono_neg)

lemma lerp_between:
  assumes "0 \<le> f" and "f \<le> 1"
  shows "min a b \<le> lerp a b f" and "lerp a b f \<le> max a b"
  using lerp_mono [of a b 0 f] lerp_mono [of a b f 1] lerp_antimono [of b a 0 f] lerp_antimono [of b a f 1] assms
  by (cases "a \<le> b"; simp)+

lemma lerp_channel: "channel a \<Longrightarrow> channel b \<Longrightarrow> 0 \<le> f \<Longrightarrow> f \<le> 1 \<Longrightarrow> channel (lerp a b f)"
  using lerp_between [of f a b] by (auto simp: channel_def min_def max_def split: if_splits)

section \<open>Packing a colour\<close>

lemma channel_bits: "channel c \<Longrightarrow> bit (word_of_int c :: 32 word) n \<Longrightarrow> n < 8"
proof (rule ccontr)
  assume c: "channel c" and b: "bit (word_of_int c :: 32 word) n" and n: "\<not> n < 8"
  have "take_bit 8 c = c" using c by (intro take_bit_int_eq_self) (simp_all add: channel_def)
  then have "bit c n \<Longrightarrow> n < 8" by (metis bit_take_bit_iff)
  then show False using b n by (simp add: bit_word_of_int_iff)
qed

lemma bit_leading_one: "bit (push_bit 24 1 :: 32 word) n \<Longrightarrow> n = 24"
  by (simp only: bit_push_bit_iff bit_1_iff) auto

lemma pack_rgb_sum:
  assumes "channel r" and "channel g" and "channel b"
  shows "pack_rgb r g b = word_of_int (2 ^ 24 + r * 2 ^ 16 + g * 2 ^ 8 + b)"
proof -
  define L where "L = (push_bit 24 1 :: 32 word)"
  define R where "R = (push_bit 16 (word_of_int r) :: 32 word)"
  define G where "G = (push_bit 8 (word_of_int g) :: 32 word)"
  define B where "B = (word_of_int b :: 32 word)"
  have l: "bit L n \<Longrightarrow> n = 24" for n unfolding L_def by (rule bit_leading_one)
  have r: "bit R n \<Longrightarrow> 16 \<le> n \<and> n < 24" for n
    using channel_bits [OF assms(1), of "n - 16"] unfolding R_def by (auto simp: bit_push_bit_iff)
  have g: "bit G n \<Longrightarrow> 8 \<le> n \<and> n < 16" for n
    using channel_bits [OF assms(2), of "n - 8"] unfolding G_def by (auto simp: bit_push_bit_iff)
  have b: "bit B n \<Longrightarrow> n < 8" for n
    using channel_bits [OF assms(3), of n] unfolding B_def .
  have d1: "L OR R = L + R" by (rule disjunctive_add [symmetric]) (use l r in fastforce)
  have d2: "(L OR R) OR G = (L OR R) + G"
    by (rule disjunctive_add [symmetric]) (use l r g in \<open>fastforce simp: bit_or_iff\<close>)
  have d3: "((L OR R) OR G) OR B = ((L OR R) OR G) + B"
    by (rule disjunctive_add [symmetric]) (use l r g b in \<open>fastforce simp: bit_or_iff\<close>)
  have "pack_rgb r g b = L + R + G + B" unfolding pack_rgb_def L_def [symmetric] R_def [symmetric] G_def [symmetric] B_def [symmetric]
    using d1 d2 d3 by simp
  then show ?thesis by (simp add: L_def R_def G_def B_def push_bit_eq_mult)
qed

lemma pack_rgb_sint:
  assumes "channel r" and "channel g" and "channel b"
  shows "sint (pack_rgb r g b) = 2 ^ 24 + r * 2 ^ 16 + g * 2 ^ 8 + b"
  unfolding pack_rgb_sum [OF assms]
  using assms by (simp only: int_word_sint) (simp add: channel_def)

section \<open>Printing and reading a colour\<close>

text \<open>The digits of a number in a fixed width.\<close>

fun hex_word :: "nat \<Rightarrow> nat \<Rightarrow> string" where
  "hex_word 0 n = []"
| "hex_word (Suc k) n = hex_word k (n div 16) @ [hex_digit (n mod 16)]"

lemma show_hex_leading: "m < 16 ^ k \<Longrightarrow> show_hex (16 ^ k + m) = ''1'' @ hex_word k m"
proof (induction k arbitrary: m)
  case 0
  then show ?case by (simp add: show_hex.simps hex_digit_def hex_digits_def)
next
  case (Suc k)
  have "m div 16 < 16 ^ k" using Suc.prems by (simp add: div_less_iff_less_mult mult.commute)
  then have "show_hex ((16 ^ Suc k + m) div 16) = ''1'' @ hex_word k (m div 16)"
    using Suc.IH by (simp add: div_add1_eq)
  moreover have "\<not> 16 ^ Suc k + m < 16" 
  proof -
    have "(1 :: nat) \<le> 16 ^ k" by simp
    then show ?thesis unfolding power_Suc by linarith
  qed
  moreover have "(16 ^ Suc k + m) mod 16 = m mod 16" by (simp add: mod_add_eq [symmetric])
  ultimately show ?case by (subst show_hex.simps) simp
qed

definition rgb_string :: "int \<Rightarrow> int \<Rightarrow> int \<Rightarrow> string" where
  "rgb_string r g b = ''#'' @ hex_word 2 (nat r) @ hex_word 2 (nat g) @ hex_word 2 (nat b)"

lemma hex_word_append: "n < 16 ^ j \<Longrightarrow> hex_word (k + j) (m * 16 ^ j + n) = hex_word k m @ hex_word j n"
proof (induction j arbitrary: n)
  case (Suc j)
  have n: "n div 16 < 16 ^ j" using Suc.prems by (simp add: div_less_iff_less_mult mult.commute)
  have "(m * 16 ^ Suc j + n) div 16 = m * 16 ^ j + n div 16" "(m * 16 ^ Suc j + n) mod 16 = n mod 16"
    by (simp_all add: mult.left_commute [of m 16])
  then show ?case using Suc.IH [OF n] by simp
qed simp

lemma packed_string:
  assumes "channel r" and "channel g" and "channel b"
  shows "''#'' @ drop 1 (show_hex32 (pack_rgb r g b)) = rgb_string r g b"
proof -
  let ?m = "(nat r * 16 ^ 2 + nat g) * 16 ^ 2 + nat b"
  have m: "?m < 16 ^ 6" "nat g < 16 ^ 2" "nat b < 16 ^ 2" using assms by (auto simp: channel_def)
  have "nat (sint (pack_rgb r g b)) = 16 ^ 6 + ?m"
    using assms unfolding pack_rgb_sint [OF assms] by (simp add: channel_def nat_add_distrib nat_mult_distrib)
  then have "show_hex32 (pack_rgb r g b) = ''1'' @ hex_word 6 ?m"
    using show_hex_leading [OF m(1)] assms pack_rgb_sint [OF assms] by (simp add: show_hex32_def channel_def)
  moreover have "hex_word 6 ?m = hex_word 2 (nat r) @ hex_word 2 (nat g) @ hex_word 2 (nat b)"
    using hex_word_append [OF m(3), of 4 "nat r * 16 ^ 2 + nat g"] hex_word_append [OF m(2), of 2 "nat r"] by simp
  ultimately show ?thesis by (simp add: rgb_string_def)
qed

lemma hex_value_digit: "d < 16 \<Longrightarrow> hex_value (hex_digit d) = Some d"
proof -
  have "list_all (\<lambda>d. hex_value (hex_digit d) = Some d) [0..<16]" by code_simp
  then show "d < 16 \<Longrightarrow> hex_value (hex_digit d) = Some d" by (simp add: list_all_iff)
qed

lemma hex_word_digits: "list_all (\<lambda>c. hex_value c \<noteq> None) (hex_word k n)"
  by (induction k arbitrary: n) (simp_all add: hex_value_digit)

lemma hex_word_value: "n < 16 ^ k \<Longrightarrow> foldl (\<lambda>n c. 16 * n + the (hex_value c)) 0 (hex_word k n) = n"
proof (induction k arbitrary: n)
  case (Suc k)
  have "n div 16 < 16 ^ k" using Suc.prems by (simp add: div_less_iff_less_mult mult.commute)
  then show ?case using Suc.IH by (simp add: hex_value_digit)
qed simp

lemma parse_hex_word: "0 < k \<Longrightarrow> n < 16 ^ k \<Longrightarrow> parse_hex (hex_word k n) = Some n"
proof -
  assume k: "0 < k" and n: "n < 16 ^ k"
  have all: "takeWhile (\<lambda>c. hex_value c \<noteq> None) (hex_word k n) = hex_word k n"
    using hex_word_digits [of k n] by (simp add: takeWhile_eq_all_conv list_all_iff)
  have "hex_word k n \<noteq> []" using k by (cases k) simp_all
  then show ?thesis using hex_word_value [OF n] unfolding parse_hex_def all by (cases "hex_word k n") simp_all
qed

lemma sint_low_byte: "sint ((v :: 32 word) AND 0xff) = sint v mod 256"
proof -
  have "v AND 0xff = take_bit 8 v" by (simp add: take_bit_eq_mask mask_numeral)
  moreover have "sint (take_bit 8 v) = take_bit 8 (sint v)"
    by transfer (simp add: signed_take_bit_take_bit take_bit_signed_take_bit)
  ultimately show ?thesis by (simp add: take_bit_eq_mod)
qed

lemma low_byte: "channel b \<Longrightarrow> (x * 256 + b) div 256 = x \<and> (x * 256 + b) mod 256 = b"
  by (simp add: channel_def)

lemma channel_parts:
  assumes "channel r" and "channel g" and "channel b"
  shows "((r * 256 + g) * 256 + b) div 2 ^ 16 mod 256 = r" "((r * 256 + g) * 256 + b) div 2 ^ 8 mod 256 = g"
    "((r * 256 + g) * 256 + b) mod 256 = b"
proof -
  have two: "(2 :: int) ^ 16 = 256 * 256" "(2 :: int) ^ 8 = 256" by simp_all
  have b: "((r * 256 + g) * 256 + b) div 256 = r * 256 + g" "((r * 256 + g) * 256 + b) mod 256 = b"
    using low_byte [OF assms(3), of "r * 256 + g"] by blast+
  have g: "(r * 256 + g) div 256 = r" "(r * 256 + g) mod 256 = g"
    using low_byte [OF assms(2), of r] by blast+
  have "((r * 256 + g) * 256 + b) div 2 ^ 16 = r"
    unfolding two using zdiv_zmult2_eq [of 256 "(r * 256 + g) * 256 + b" 256] by (simp only: b g)
  moreover have "r mod 256 = r" using assms(1) by (simp add: channel_def)
  ultimately show "((r * 256 + g) * 256 + b) div 2 ^ 16 mod 256 = r" by (simp only:)
  show "((r * 256 + g) * 256 + b) div 2 ^ 8 mod 256 = g" "((r * 256 + g) * 256 + b) mod 256 = b"
    unfolding two b(1) by (rule g(2), rule b(2))
qed

lemma hexToRgb_string:
  assumes "channel r" and "channel g" and "channel b"
  shows "hexToRgb (rgb_string r g b) = (r, g, b)"
proof -
  let ?m = "(nat r * 16 ^ 2 + nat g) * 16 ^ 2 + nat b"
  have m: "?m < 16 ^ 6" "nat g < 16 ^ 2" "nat b < 16 ^ 2" using assms by (auto simp: channel_def)
  have "drop 1 (rgb_string r g b) = hex_word 6 ?m"
    using hex_word_append [OF m(3), of 4 "nat r * 16 ^ 2 + nat g"] hex_word_append [OF m(2), of 2 "nat r"]
    by (simp add: rgb_string_def)
  then have p: "parse_hex (drop 1 (rgb_string r g b)) = Some ?m" using parse_hex_word [OF _ m(1)] by simp
  define w where "w = to_int32 (Some ?m)"
  have w: "sint w = (r * 256 + g) * 256 + b"
  proof -
    have "int ?m = (r * 256 + g) * 256 + b" using assms by (simp add: channel_def)
    moreover have "w = word_of_int (int ?m)" by (simp only: w_def to_int32_def nullish_or_simps of_int_of_nat_eq)
    ultimately have "w = word_of_int ((r * 256 + g) * 256 + b)" by (simp only:)
    then show ?thesis using assms by (simp only: int_word_sint) (simp add: channel_def)
  qed
  have "sint (signed_drop_bit 16 w AND 0xff) = r" "sint (signed_drop_bit 8 w AND 0xff) = g" "sint (w AND 0xff) = b"
    unfolding sint_low_byte sint_signed_drop_bit_eq w drop_bit_eq_div by (rule channel_parts [OF assms])+
  then show ?thesis unfolding hexToRgb_def p w_def Let_def by simp
qed

section \<open>What is proved\<close>

definition hex_color :: "string \<Rightarrow> bool" where
  "hex_color s \<longleftrightarrow> (\<exists>r g b. channel r \<and> channel g \<and> channel b \<and> s = rgb_string r g b)"

lemma hex_color_string: "channel r \<Longrightarrow> channel g \<Longrightarrow> channel b \<Longrightarrow> hex_color (rgb_string r g b)"
  by (auto simp: hex_color_def)

lemma hex_color_rgb:
  assumes "hex_color s"
  obtains r g b where "hexToRgb s = (r, g, b)" "channel r" "channel g" "channel b" "s = rgb_string r g b"
  using assms hexToRgb_string by (auto simp: hex_color_def)

lemma lerpColor_rgb:
  assumes "hexToRgb base = (r1, g1, b1)" "channel r1" "channel g1" "channel b1"
    and "hexToRgb hot = (r2, g2, b2)" "channel r2" "channel g2" "channel b2"
  shows "lerpColor base hot x =
    (let f = min 1 (max 0 x) in rgb_string (lerp r1 r2 f) (lerp g1 g2 f) (lerp b1 b2 f))"
proof -
  let ?f = "min 1 (max 0 x)"
  have f: "0 \<le> ?f" "?f \<le> 1" by simp_all
  show ?thesis unfolding lerpColor_def Let_def assms(1,5) prod.case
    by (rule packed_string) (use assms f in \<open>auto intro: lerp_channel\<close>)
qed

lemma lerpColor_hex:
  assumes "hex_color base" and "hex_color hot"
  shows "hex_color (lerpColor base hot x)"
proof -
  obtain r1 g1 b1 where a: "hexToRgb base = (r1, g1, b1)" "channel r1" "channel g1" "channel b1"
    using hex_color_rgb [OF assms(1)] .
  obtain r2 g2 b2 where h: "hexToRgb hot = (r2, g2, b2)" "channel r2" "channel g2" "channel b2"
    using hex_color_rgb [OF assms(2)] .
  have "0 \<le> min 1 (max 0 x)" "min 1 (max 0 x) \<le> 1" by simp_all
  then show ?thesis unfolding lerpColor_rgb [OF a h] Let_def
    using a h by (intro hex_color_string lerp_channel)
qed

text \<open>The colour ramp never leaves its range. For any two colours written \<open>#rrggbb\<close> in lower case
  and any share, below 0 and above 1 included: packing the interpolated channels into a 32-bit integer
  and printing it gives a well-formed colour again, whose channels lie between those of the two ends;
  at 0 and below it is the first colour, at 1 and above the second.\<close>

theorem lerpColor_in_range:
  assumes "hex_color base" and "hex_color hot"
  shows "hex_color (lerpColor base hot x) \<and> (x \<le> 0 \<longrightarrow> lerpColor base hot x = base) \<and> (x \<ge> 1 \<longrightarrow> lerpColor base hot x = hot)
    \<and> (case (hexToRgb base, hexToRgb (lerpColor base hot x), hexToRgb hot) of ((r1, g1, b1), (r, g, b), (r2, g2, b2)) \<Rightarrow>
         r \<in> {min r1 r2..max r1 r2} \<and> g \<in> {min g1 g2..max g1 g2} \<and> b \<in> {min b1 b2..max b1 b2})"
proof -
  obtain r1 g1 b1 where a: "hexToRgb base = (r1, g1, b1)" "channel r1" "channel g1" "channel b1" "base = rgb_string r1 g1 b1"
    using hex_color_rgb [OF assms(1)] .
  obtain r2 g2 b2 where h: "hexToRgb hot = (r2, g2, b2)" "channel r2" "channel g2" "channel b2" "hot = rgb_string r2 g2 b2"
    using hex_color_rgb [OF assms(2)] .
  define f where "f = min 1 (max 0 x)"
  have f: "0 \<le> f" "f \<le> 1" "x \<le> 0 \<Longrightarrow> f = 0" "x \<ge> 1 \<Longrightarrow> f = 1" by (simp_all add: f_def)
  let ?r = "lerp r1 r2 f" and ?g = "lerp g1 g2 f" and ?b = "lerp b1 b2 f"
  have c: "channel ?r" "channel ?g" "channel ?b" using a h f by (simp_all add: lerp_channel)
  have e: "lerpColor base hot x = rgb_string ?r ?g ?b"
    using lerpColor_rgb [OF a(1-4) h(1-4), of x] by (simp add: f_def Let_def)
  have "x \<le> 0 \<Longrightarrow> lerpColor base hot x = base" "x \<ge> 1 \<Longrightarrow> lerpColor base hot x = hot"
    using f(3,4) a(5) h(5) unfolding e by simp_all
  moreover have "hex_color (lerpColor base hot x)" by (rule lerpColor_hex [OF assms])
  moreover have "hexToRgb (lerpColor base hot x) = (?r, ?g, ?b)" unfolding e by (rule hexToRgb_string [OF c])
  ultimately show ?thesis
    using a(1) h(1) lerp_between [OF f(1,2), of r1 r2] lerp_between [OF f(1,2), of g1 g2] lerp_between [OF f(1,2), of b1 b2]
    by simp
qed

lemma ramp_strings: "BASE_COLOR = rgb_string 36 48 67" "HOT_COLOR = rgb_string 255 107 107"
  by code_simp+

lemma ramp_ends: "hex_color BASE_COLOR" "hex_color HOT_COLOR"
  unfolding ramp_strings by (simp_all add: hex_color_string channel_def)

theorem lerpColor_in_range_witness:
  "hex_color (lerpColor BASE_COLOR HOT_COLOR (1 / 3)) \<and> lerpColor BASE_COLOR HOT_COLOR 7 = ''#ff6b6b''
   \<and> lerpColor BASE_COLOR HOT_COLOR (- 2) = ''#243043''"
  using lerpColor_in_range [OF ramp_ends, of "1 / 3"] lerpColor_in_range [OF ramp_ends, of 7]
    lerpColor_in_range [OF ramp_ends, of "- 2"]
  by (simp add: HOT_COLOR_def BASE_COLOR_def)

subsection \<open>The fill of a country\<close>

lemma index_rows_get:
  "obj_get (fst (index_rows rows (m, mx))) c =
     (case find (\<lambda>r. cs_code r = c \<and> \<not> sentinel (cs_code r)) (rev rows) of Some r \<Rightarrow> Some r | None \<Rightarrow> obj_get m c)"
proof (induction rows arbitrary: m mx)
  case (Cons row rows)
  have find_append: "find P (xs @ [x]) = (case find P xs of Some y \<Rightarrow> Some y | None \<Rightarrow> if P x then Some x else None)"
    for P and xs and x :: country_share
    by (induction xs) auto
  show ?case using Cons.IH by (auto simp: find_append obj_get_set split: option.splits)
qed simp

lemma index_rows_max:
  "mx \<le> snd (index_rows rows (m, mx)) \<and> (\<forall>r \<in> set rows. \<not> sentinel (cs_code r) \<longrightarrow> cs_pct r \<le> snd (index_rows rows (m, mx)))"
proof (induction rows arbitrary: m mx)
  case (Cons row rows)
  show ?case
    using Cons.IH [of "if cs_pct row > mx then cs_pct row else mx" "obj_set (cs_code row) row m"] Cons.IH [of mx m]
    by (cases "cs_pct row > mx") auto
qed simp

lemma geo_row_found:
  assumes "geo_row nm rows geo = Some row"
  shows "row \<in> set rows" and "\<not> sentinel (cs_code row)" and "obj_get nm geo = Some (cs_code row)"
proof -
  obtain c where c: "obj_get nm geo = Some c" "obj_get (byCode rows) c = Some row"
    using assms by (auto simp: geo_row_def split: option.splits if_splits)
  then have f: "find (\<lambda>r. cs_code r = c \<and> \<not> sentinel (cs_code r)) (rev rows) = Some row"
    unfolding byCode_def index_rows_get by (simp split: option.splits)
  then show "row \<in> set rows" "\<not> sentinel (cs_code row)" "obj_get nm geo = Some (cs_code row)"
    using c(1) unfolding find_Some_iff by (auto, metis nth_mem set_rev)
qed

lemma ramp_red_mono:
  assumes "0 \<le> x" and "x \<le> y" and "y \<le> 1"
  shows "fst (hexToRgb (lerpColor BASE_COLOR HOT_COLOR x)) \<le> fst (hexToRgb (lerpColor BASE_COLOR HOT_COLOR y))"
proof -
  have ends: "hexToRgb BASE_COLOR = (36, 48, 67)" "hexToRgb HOT_COLOR = (255, 107, 107)"
    unfolding ramp_strings by (simp_all add: hexToRgb_string channel_def)
  have c: "channel 36" "channel 48" "channel 67" "channel 255" "channel 107" by (simp_all add: channel_def)
  have red: "fst (hexToRgb (lerpColor BASE_COLOR HOT_COLOR z)) = lerp 36 255 z" if "0 \<le> z" "z \<le> 1" for z
    unfolding lerpColor_rgb [OF ends(1) c(1,2,3) ends(2) c(4,5,5)] Let_def using that
    by (simp add: hexToRgb_string lerp_channel c)
  show ?thesis using assms by (simp add: red lerp_mono)
qed

text \<open>A country is coloured by its share. Every geography is filled with a well-formed colour; one
  without data has the base colour; one with data is filled from the last row of its own code, never
  from the private or unknown totals; the largest share has the hottest colour; and of two countries the
  one with the larger share is at least as red.\<close>

theorem map_shaded_by_share:
  assumes "\<forall>r \<in> set rows. 0 \<le> cs_pct r"
  shows "hex_color (geo_fill nm rows geo)
    \<and> (geo_row nm rows geo = None \<longrightarrow> geo_fill nm rows geo = BASE_COLOR)
    \<and> (geo_row nm rows geo = Some row \<longrightarrow>
         row \<in> set rows \<and> \<not> sentinel (cs_code row) \<and> obj_get nm geo = Some (cs_code row)
         \<and> (cs_pct row = maxPct rows \<longrightarrow> 0 < cs_pct row \<longrightarrow> geo_fill nm rows geo = HOT_COLOR)
         \<and> (geo_row nm rows geo' = Some row' \<longrightarrow> cs_pct row \<le> cs_pct row' \<longrightarrow>
              fst (hexToRgb (geo_fill nm rows geo)) \<le> fst (hexToRgb (geo_fill nm rows geo'))))"
proof (cases "geo_row nm rows geo")
  case None
  then show ?thesis by (simp add: geo_fill_def ramp_ends)
next
  case (Some r)
  have mx: "cs_pct q \<le> maxPct rows" "0 \<le> cs_pct q" if "geo_row nm rows g = Some q" for g q
    using geo_row_found [OF that] assms index_rows_max [of 0 rows "[]"] by (auto simp: maxPct_def)
  define share where "share q = (if maxPct rows > 0 then cs_pct q / maxPct rows else 0)" for q :: country_share
  have fill: "geo_fill nm rows g = lerpColor BASE_COLOR HOT_COLOR (share q)" if "geo_row nm rows g = Some q" for g q
    using that by (simp add: geo_fill_def share_def)
  have range: "0 \<le> share q" "share q \<le> 1" if "geo_row nm rows g = Some q" for g q
    using mx [OF that] by (auto simp: share_def divide_le_eq_1)
  have mono: "share p \<le> share q" if "cs_pct p \<le> cs_pct q" for p q :: country_share
    using that by (simp add: share_def divide_right_mono)
  have hottest: "geo_fill nm rows geo = HOT_COLOR" if "cs_pct r = maxPct rows" "0 < cs_pct r"
    using fill [OF Some] lerpColor_rgb [of BASE_COLOR 36 48 67 HOT_COLOR 255 107 107 1] that
    by (simp add: share_def ramp_strings hexToRgb_string channel_def Let_def)
  have red: "fst (hexToRgb (geo_fill nm rows geo)) \<le> fst (hexToRgb (geo_fill nm rows geo'))"
    if "geo_row nm rows geo' = Some row'" "cs_pct r \<le> cs_pct row'"
    unfolding fill [OF Some] fill [OF that(1)] using ramp_red_mono range [OF Some] range [OF that(1)] mono [OF that(2)] by blast
  have "hex_color (geo_fill nm rows geo)" unfolding fill [OF Some] by (rule lerpColor_hex [OF ramp_ends])
  then show ?thesis using Some geo_row_found [OF Some] hottest red by auto
qed

definition sample_shares :: "country_share list" where
  "sample_shares = [\<lparr>cs_code = ''UNKNOWN'', cs_count = 60, cs_pct = 60\<rparr>, \<lparr>cs_code = ''RU'', cs_count = 30, cs_pct = 30\<rparr>,
     \<lparr>cs_code = ''JP'', cs_count = 10, cs_pct = 10\<rparr>]"

theorem map_shaded_by_share_witness:
  "geo_fill [(''643'', ''RU''), (''392'', ''JP'')] sample_shares ''643'' = ''#ff6b6b''
   \<and> geo_fill [(''643'', ''RU''), (''392'', ''JP'')] sample_shares ''250'' = ''#243043''"
proof -
  have nonneg: "\<forall>r \<in> set sample_shares. 0 \<le> cs_pct r" by (simp add: sample_shares_def)
  let ?nm = "[(''643'', ''RU''), (''392'', ''JP'')]"
  let ?ru = "\<lparr>cs_code = ''RU'', cs_count = 30, cs_pct = 30\<rparr> :: country_share"
  have "geo_row ?nm sample_shares ''643'' = Some ?ru" "geo_row ?nm sample_shares ''250'' = None" "maxPct sample_shares = 30"
    by (simp_all add: geo_row_def byCode_def maxPct_def sample_shares_def sentinel_def obj_get_def)
  then show ?thesis
    using map_shaded_by_share [OF nonneg, of ?nm "''643''" ?ru] map_shaded_by_share [OF nonneg, of ?nm "''250''"]
    by (simp add: HOT_COLOR_def BASE_COLOR_def)
qed

subsection \<open>The tooltip\<close>

text \<open>Whatever the pointer does, the tooltip shows the data of a country of the map.\<close>

lemma tooltip_of_a_country:
  assumes "fold (hover_step nm rows) es None = Some h"
  shows "\<exists>row \<in> set rows. hv_alpha2 h = cs_code row \<and> hv_count h = cs_count row \<and> hv_pct h = cs_pct row"
proof -
  define ok where "ok v \<longleftrightarrow> (\<forall>h. v = Some h \<longrightarrow>
      (\<exists>row \<in> set rows. hv_alpha2 h = cs_code row \<and> hv_count h = cs_count row \<and> hv_pct h = cs_pct row))" for v :: "hover option"
  have step: "ok v \<Longrightarrow> ok (hover_step nm rows e v)" for e v
    by (cases e) (auto simp: ok_def geo_row_found split: option.splits)
  have "ok v \<Longrightarrow> ok (fold (hover_step nm rows) es v)" for v
    by (induction es arbitrary: v) (auto intro: step)
  moreover have "ok None" by (simp add: ok_def)
  ultimately show ?thesis using assms by (auto simp: ok_def)
qed

end
