(* ===== verification/OverviewPages.thy ===== *)
theory OverviewPages
  imports AttackMap Monitoring
begin

text \<open>
  The dashboard and the event lists: \<^verbatim>\<open>pages/OverviewPage.tsx\<close> with its cards
  (\<^verbatim>\<open>monitoring/HealthSummaryCards.tsx\<close>, \<^verbatim>\<open>overview/AttackerCountriesCard.tsx\<close>,
  \<^verbatim>\<open>perimeter/PerimeterCard.tsx\<close>, \<^verbatim>\<open>reliability/ReliabilityCard.tsx\<close>,
  \<^verbatim>\<open>configaudit/ConfigAuditCard.tsx\<close>), \<^verbatim>\<open>pages/PerimeterPage.tsx\<close>,
  \<^verbatim>\<open>pages/AlertsPage.tsx\<close>, the timelines of a device (\<^verbatim>\<open>reliability/ReliabilityTab.tsx\<close>,
  \<^verbatim>\<open>configaudit/ConfigAuditTab.tsx\<close>) and its charts (\<^verbatim>\<open>monitoring/DeviceHealthSection.tsx\<close>).

  The browser's formatting is a parameter: \<open>fmt\<close> of a date (\<open>toLocaleString\<close>),
  \<open>display locale code\<close> of a region name (\<open>None\<close> when it throws, \<open>Some None\<close> when it has
  no name).
\<close>

section \<open>Countries and attackers\<close>

definition countryLabel :: "region_names \<Rightarrow> string \<Rightarrow> string \<Rightarrow> string \<Rightarrow> string \<Rightarrow> string" where
  "countryLabel display code locale privateLabel unknownLabel =
     (if code = ''PRIVATE'' then privateLabel
      else if code = ''UNKNOWN'' then unknownLabel
      else case display locale code of None \<Rightarrow> code | Some name \<Rightarrow> nullish_or name code)"

text \<open>The card has its own copy of the helper.\<close>

definition card_countryLabel :: "region_names \<Rightarrow> string \<Rightarrow> string \<Rightarrow> string \<Rightarrow> string \<Rightarrow> string" where
  "card_countryLabel display code locale privateLabel unknownLabel =
     (if code = ''PRIVATE'' then privateLabel
      else if code = ''UNKNOWN'' then unknownLabel
      else case display locale code of None \<Rightarrow> code | Some names \<Rightarrow> nullish_or names code)"

record attacker =
  at_src_ip :: string
  at_country :: string
  at_label :: string
  at_count :: nat
  at_last_seen :: string

definition perimeter_title :: "perimeter_kind \<Rightarrow> string" where
  "perimeter_title kind = (if kind = LoginFailed then ''t.perimeter.failedLogins'' else ''t.perimeter.firewallBlocks'')"

definition perimeter_help :: "perimeter_kind \<Rightarrow> string" where
  "perimeter_help kind =
     (if kind = LoginFailed then ''t.perimeter.failedLoginsHelp'' else ''t.perimeter.firewallBlocksHelp'')"

definition labelCol :: "perimeter_kind \<Rightarrow> string" where
  "labelCol kind = (if kind = LoginFailed then ''t.perimeter.user'' else ''t.perimeter.port'')"

definition attacker_country :: "region_names \<Rightarrow> string \<Rightarrow> attacker \<Rightarrow> string" where
  "attacker_country display locale r =
     countryLabel display (at_country r) locale ''t.overview.attackerCountries.private'' ''t.overview.attackerCountries.unknown''"

definition PerimeterCard_query :: "int \<Rightarrow> string option \<Rightarrow> perimeter_kind \<Rightarrow> query" where
  "PerimeterCard_query mounted activeId kind = usePerimeterAttackers mounted activeId kind None (Some 5)"

definition PerimeterCard_row :: "region_names \<Rightarrow> string \<Rightarrow> perimeter_kind \<Rightarrow> attacker \<Rightarrow> 'e elem list" where
  "PerimeterCard_row display locale kind r =
     [Text (at_src_ip r),
      Text (attacker_country display locale r
            @ (if at_label r \<noteq> [] then '' '' @ [CHR 0xB7] @ '' '' @ labelCol kind @ '' '' @ at_label r else [])),
      Text (show_nat (at_count r))]"

definition PerimeterCard :: "region_names \<Rightarrow> string \<Rightarrow> perimeter_kind \<Rightarrow> attacker list remote \<Rightarrow> 'e elem list" where
  "PerimeterCard display locale kind q =
     [Text (perimeter_title kind), Link ''/perimeter'' ''t.perimeter.viewAll'']
     @ onlyif (rm_loading q) [Loader]
     @ onlyif (rm_error q) [Alert ''red'' ''t.perimeter.loadError'']
     @ onlyif (rm_data q = Some []) [Text ''t.perimeter.empty'']
     @ map (\<lambda>r. Row (PerimeterCard_row display locale kind r)) (remote_list q)"

definition PERIMETER_WINDOWS :: "int obj" where
  "PERIMETER_WINDOWS = [(''24h'', 1), (''7d'', 7), (''30d'', 30)]"

definition windowDays :: "string \<Rightarrow> int" where
  "windowDays win = nullish_or (obj_get PERIMETER_WINDOWS win) 7"

definition PerimeterTable_query :: "int \<Rightarrow> string option \<Rightarrow> perimeter_kind \<Rightarrow> string \<Rightarrow> query" where
  "PerimeterTable_query mounted activeId kind win =
     usePerimeterAttackers mounted activeId kind (Some (windowDays win)) (Some 100)"

definition PerimeterTable_row ::
  "(string \<Rightarrow> string \<Rightarrow> string) \<Rightarrow> region_names \<Rightarrow> string \<Rightarrow> attacker \<Rightarrow> 'e elem list" where
  "PerimeterTable_row fmt display locale r =
     [Text (at_src_ip r), Text (attacker_country display locale r), Text (or_else (at_label r) mdash),
      Text (show_nat (at_count r)), Text (fmt locale (at_last_seen r))]"

definition PerimeterTable ::
  "(string \<Rightarrow> string \<Rightarrow> string) \<Rightarrow> region_names \<Rightarrow> string \<Rightarrow> perimeter_kind \<Rightarrow> attacker list remote \<Rightarrow> 'e elem list" where
  "PerimeterTable fmt display locale kind q =
     [Text (perimeter_title kind), Text (perimeter_help kind)]
     @ onlyif (rm_loading q) [Loader]
     @ onlyif (rm_error q) [Alert ''red'' ''t.perimeter.loadError'']
     @ onlyif (rm_data q = Some []) [Text ''t.perimeter.empty'']
     @ onlyif (remote_list q \<noteq> [])
         [Table [''t.perimeter.ip'', ''t.perimeter.country'', labelCol kind, ''t.perimeter.count'', ''t.perimeter.lastSeen'']
           (map (\<lambda>r. Row (PerimeterTable_row fmt display locale r)) (remote_list q))]"

datatype perimeter_event = SetWindow string

definition PerimeterPage ::
  "(string \<Rightarrow> string \<Rightarrow> string) \<Rightarrow> region_names \<Rightarrow> string \<Rightarrow> string \<Rightarrow> (perimeter_kind \<Rightarrow> attacker list remote)
    \<Rightarrow> perimeter_event elem list" where
  "PerimeterPage fmt display locale win q =
     [Title ''t.perimeter.title'', Text ''t.perimeter.subtitle'',
      Choice ''perimeter-window'' (map (\<lambda>w. (w, w)) (obj_keys PERIMETER_WINDOWS)) (Some win),
      Section (PerimeterTable fmt display locale LoginFailed (q LoginFailed)),
      Section (PerimeterTable fmt display locale FirewallBlock (q FirewallBlock))]"

section \<open>Attacker countries\<close>

definition country_row :: "region_names \<Rightarrow> string \<Rightarrow> country_share \<Rightarrow> 'e elem list" where
  "country_row display locale r =
     [Text (card_countryLabel display (cs_code r) locale ''t.overview.attackerCountries.private''
              ''t.overview.attackerCountries.unknown''),
      Text (show_nat (cs_count r) @ '' '' @ [CHR 0xB7] @ '' '' @ show_int (js_round (cs_pct r)) @ ''%'')]"

text \<open>The map is drawn from the same data and shows the empty text itself.\<close>

definition AttackerCountriesCard ::
  "region_names \<Rightarrow> string \<Rightarrow> hover option \<Rightarrow> country_share list remote \<Rightarrow> 'e elem list" where
  "AttackerCountriesCard display locale h q =
     [Text ''t.overview.attackerCountries.title'']
     @ onlyif (rm_loading q) [Loader]
     @ onlyif (rm_error q) [Alert ''red'' ''t.overview.attackerCountries.title'']
     @ (case rm_data q of None \<Rightarrow> []
        | Some d \<Rightarrow> Text ''t.overview.attackerCountries.mapTitle'' # AttackerCountriesMap display locale d h)
     @ onlyif (remote_list q \<noteq> []) (map (\<lambda>r. Row (country_row display locale r)) (remote_list q))
     @ [Text ''t.overview.attackerCountries.attribution'']"

section \<open>Event summaries and timelines\<close>

record top_row =
  tr_value :: string
  tr_count :: nat

definition ReliabilityCard_row :: "top_row \<Rightarrow> 'e elem list" where
  "ReliabilityCard_row r = [Text (tr_value r), Text (show_nat (tr_count r))]"

definition ReliabilityCard :: "top_row list remote \<Rightarrow> 'e elem list" where
  "ReliabilityCard q =
     [Text ''t.reliability.title'', Text ''t.reliability.last24h'']
     @ onlyif (rm_loading q) [Loader]
     @ onlyif (rm_error q) [Alert ''red'' ''t.reliability.loadError'']
     @ onlyif (rm_data q = Some []) [Text ''t.reliability.empty'']
     @ map (\<lambda>r. Row (ReliabilityCard_row r)) (remote_list q)"

definition channel_cell :: "string obj \<Rightarrow> string \<Rightarrow> 'e elem list" where
  "channel_cell channels action =
     [Text (channelLabel action channels)] @ onlyif (isDirectChannel action) [Badge ''yellow'' ''t.configAudit.direct'']"

definition ConfigAuditCard_row :: "string obj \<Rightarrow> top_row \<Rightarrow> 'e elem list" where
  "ConfigAuditCard_row channels r = channel_cell channels (tr_value r) @ [Text (show_nat (tr_count r))]"

definition ConfigAuditCard :: "string obj \<Rightarrow> top_row list remote \<Rightarrow> 'e elem list" where
  "ConfigAuditCard channels q =
     [Text ''t.configAudit.title'', Text ''t.configAudit.last24h'']
     @ onlyif (rm_loading q) [Loader]
     @ onlyif (rm_error q) [Alert ''red'' ''t.configAudit.loadError'']
     @ onlyif (rm_data q = Some []) [Text ''t.configAudit.empty'']
     @ map (\<lambda>r. Row (ConfigAuditCard_row channels r)) (remote_list q)"

record event_out =
  ev_time :: string
  ev_category :: string
  ev_name :: string
  ev_severity :: string
  ev_src_ip :: string
  ev_action :: string
  ev_attributes :: "json option"

datatype timeline_event = FetchNextPage

text \<open>The pages fetched so far, as a query of the list the table shows.\<close>

definition timeline_list :: "event_out list list remote \<Rightarrow> event_out list remote" where
  "timeline_list q = \<lparr>rm_data = map_option concat (rm_data q), rm_loading = rm_loading q, rm_error = rm_error q\<rparr>"

definition load_more :: "string \<Rightarrow> bool \<Rightarrow> bool \<Rightarrow> timeline_event elem list" where
  "load_more label hasNextPage fetching = onlyif hasNextPage [Button label (\<not> fetching) FetchNextPage]"

definition severityLabel :: "string obj \<Rightarrow> string \<Rightarrow> string" where
  "severityLabel labels severity = nullish_or (obj_get labels severity) severity"

definition categoryLabel :: "string obj \<Rightarrow> string \<Rightarrow> string" where
  "categoryLabel labels category = nullish_or (obj_get labels category) category"

definition ReliabilityTab_row :: "(string \<Rightarrow> string) \<Rightarrow> string obj \<Rightarrow> string obj \<Rightarrow> event_out \<Rightarrow> 'e elem list" where
  "ReliabilityTab_row fmt categories severities e =
     [Text (fmt (ev_time e)), Text (categoryLabel categories (ev_category e)), Text (ev_name e),
      Badge (severityColor (ev_severity e)) (severityLabel severities (ev_severity e)),
      Text (attr (ev_attributes e) ''process''), Text (attr (ev_attributes e) ''message'')]"

definition ReliabilityTab_list ::
  "(string \<Rightarrow> string) \<Rightarrow> string obj \<Rightarrow> string obj \<Rightarrow> event_out list remote \<Rightarrow> timeline_event elem list" where
  "ReliabilityTab_list fmt categories severities q =
     [Text ''t.reliability.subtitle'']
     @ onlyif (rm_loading q) [Loader]
     @ onlyif (rm_error q) [Alert ''red'' ''t.reliability.loadError'']
     @ onlyif (rm_data q = Some []) [Text ''t.reliability.empty'']
     @ onlyif (remote_list q \<noteq> [])
         [Table [''t.reliability.time'', ''t.reliability.category'', ''t.reliability.name'', ''t.reliability.severity'',
                 ''t.reliability.process'', ''t.reliability.message'']
            (map (\<lambda>e. Row (ReliabilityTab_row fmt categories severities e)) (remote_list q))]"

definition ReliabilityTab ::
  "(string \<Rightarrow> string) \<Rightarrow> string obj \<Rightarrow> string obj \<Rightarrow> event_out list list remote \<Rightarrow> bool \<Rightarrow> bool \<Rightarrow> timeline_event elem list" where
  "ReliabilityTab fmt categories severities q hasNextPage fetching =
     ReliabilityTab_list fmt categories severities (timeline_list q) @ load_more ''t.reliability.loadMore'' hasNextPage fetching"

definition ConfigAuditTab_row :: "(string \<Rightarrow> string) \<Rightarrow> string obj \<Rightarrow> event_out \<Rightarrow> 'e elem list" where
  "ConfigAuditTab_row fmt channels e =
     [Text (fmt (ev_time e)), Text (ev_category e), Text (ev_name e), Text (ev_src_ip e)]
     @ channel_cell channels (ev_action e) @ [Text (attr (ev_attributes e) ''change_ref'')]"

definition ConfigAuditTab_list ::
  "(string \<Rightarrow> string) \<Rightarrow> string obj \<Rightarrow> event_out list remote \<Rightarrow> timeline_event elem list" where
  "ConfigAuditTab_list fmt channels q =
     [Text ''t.configAudit.subtitle'']
     @ onlyif (rm_loading q) [Loader]
     @ onlyif (rm_error q) [Alert ''red'' ''t.configAudit.loadError'']
     @ onlyif (rm_data q = Some []) [Text ''t.configAudit.empty'']
     @ onlyif (remote_list q \<noteq> [])
         [Table [''t.configAudit.time'', ''t.configAudit.area'', ''t.configAudit.actor'', ''t.configAudit.ip'',
                 ''t.configAudit.channel'', ''t.configAudit.change'']
            (map (\<lambda>e. Row (ConfigAuditTab_row fmt channels e)) (remote_list q))]"

definition ConfigAuditTab ::
  "(string \<Rightarrow> string) \<Rightarrow> string obj \<Rightarrow> event_out list list remote \<Rightarrow> bool \<Rightarrow> bool \<Rightarrow> timeline_event elem list" where
  "ConfigAuditTab fmt channels q hasNextPage fetching =
     ConfigAuditTab_list fmt channels (timeline_list q) @ load_more ''t.configAudit.loadMore'' hasNextPage fetching"

section \<open>Alerts\<close>

record alert_out =
  ao_type :: string
  ao_label :: string
  ao_severity :: string
  ao_opened_at :: string
  ao_resolved_at :: "string option"
  ao_device_id :: string

definition alert_severity :: "alert_out \<Rightarrow> 'e elem" where
  "alert_severity a = Badge (if ao_severity a = ''critical'' then ''red'' else ''yellow'') (ao_severity a)"

definition alert_device :: "alert_out \<Rightarrow> 'e elem" where
  "alert_device a = Link (''/devices/'' @ ao_device_id a) (take 8 (ao_device_id a))"

datatype alerts_mode = Active | History

definition AlertsPage_query :: "string option \<Rightarrow> alerts_mode \<Rightarrow> query" where
  "AlertsPage_query activeId mode = useAlerts activeId (mode = Active)"

definition AlertsPage_row :: "(string \<Rightarrow> string) \<Rightarrow> alert_out \<Rightarrow> 'e elem list" where
  "AlertsPage_row fmt a =
     [Text (ao_type a), Text (or_else (ao_label a) ''t.common.none''), alert_severity a, Text (fmt (ao_opened_at a)),
      Text (if struthy (ao_resolved_at a) then fmt (the (ao_resolved_at a)) else ''t.common.none''), alert_device a]"

definition AlertsPage_list :: "(string \<Rightarrow> string) \<Rightarrow> alerts_mode \<Rightarrow> alert_out list remote \<Rightarrow> 'e elem list" where
  "AlertsPage_list fmt mode q =
     [Title ''t.alerts.title'',
      Choice [] [(''active'', ''t.alerts.active''), (''history'', ''t.alerts.history'')]
        (Some (if mode = Active then ''active'' else ''history''))]
     @ onlyif (rm_loading q) [Loader]
     @ onlyif (rm_error q) [Text ''t.alerts.loadError'']
     @ onlyif (rm_data q = Some []) [Text ''t.alerts.noAlerts'']
     @ onlyif (remote_list q \<noteq> [])
         [Table [''t.alerts.colType'', ''t.alerts.colLabel'', ''t.alerts.colSeverity'', ''t.alerts.colOpened'',
                 ''t.alerts.colResolved'', ''t.alerts.colDevice'']
            (map (\<lambda>a. Row (AlertsPage_row fmt a)) (remote_list q))]"

section \<open>The overview\<close>

record fleet_health =
  fh_total_devices :: nat
  fh_by_status :: "nat obj"
  fh_active_alerts :: nat

definition Tile :: "string \<Rightarrow> nat \<Rightarrow> 'e elem list \<Rightarrow> 'e elem" where
  "Tile label value children = Section ([Text label, Text (show_nat value)] @ children)"

definition alertAccent :: "fleet_health \<Rightarrow> string" where
  "alertAccent h = (if fh_active_alerts h > 0 then ''red'' else ''signal'')"

definition HealthSummaryCards :: "fleet_health \<Rightarrow> 'e elem list" where
  "HealthSummaryCards h =
     [Tile ''t.health.totalDevices'' (fh_total_devices h)
        (map (\<lambda>(status, count). Badge (statusColor status) (status @ '' '' @ [CHR 0xB7] @ '' '' @ show_nat count))
             (obj_entries (fh_by_status h))),
      Tile ''t.health.activeAlerts'' (fh_active_alerts h)
        [Badge (alertAccent h) (if fh_active_alerts h > 0 then ''attention'' else ''all clear'')],
      Section [Text ''Fleet'',
        Text (show_nat (fh_total_devices h) @ '' device'' @ (if fh_total_devices h = 1 then [] else ''s'')
              @ '' under management''),
        Text (show_nat (length (obj_keys (fh_by_status h))) @ '' distinct states'')]]"

definition overview_alert_row :: "(string \<Rightarrow> string) \<Rightarrow> alert_out \<Rightarrow> 'e elem list" where
  "overview_alert_row fmt a =
     [Text (ao_type a), Text (or_else (ao_label a) ''t.common.none''), alert_severity a, Text (fmt (ao_opened_at a)),
      alert_device a]"

definition overview_alerts :: "(string \<Rightarrow> string) \<Rightarrow> alert_out list remote \<Rightarrow> 'e elem list" where
  "overview_alerts fmt q =
     onlyif (rm_loading q) [Loader]
     @ onlyif (rm_error q) [Alert ''red'' ''t.overview.alertsLoadError'']
     @ onlyif (rm_data q = Some []) [Text ''t.overview.noActiveAlerts'']
     @ onlyif (remote_list q \<noteq> [])
         [Table [''t.alerts.colType'', ''t.alerts.colLabel'', ''t.alerts.colSeverity'', ''t.alerts.colOpened'', ''t.alerts.colDevice'']
            (map (\<lambda>a. Row (overview_alert_row fmt a)) (remote_list q))]"

definition overview_health :: "fleet_health remote \<Rightarrow> 'e elem list" where
  "overview_health q =
     onlyif (rm_loading q) [Loader] @ onlyif (rm_error q) [Alert ''red'' ''t.overview.healthLoadError'']
     @ (case rm_data q of None \<Rightarrow> [] | Some h \<Rightarrow> HealthSummaryCards h)"

record overview_data =
  ov_hover :: "hover option"
  ov_health :: "fleet_health remote"
  ov_countries :: "country_share list remote"
  ov_attackers :: "perimeter_kind \<Rightarrow> attacker list remote"
  ov_reliability :: "top_row list remote"
  ov_audit :: "top_row list remote"
  ov_alerts :: "alert_out list remote"

definition OverviewPage ::
  "(string \<Rightarrow> string) \<Rightarrow> region_names \<Rightarrow> string \<Rightarrow> string obj \<Rightarrow> overview_data \<Rightarrow> 'e elem list" where
  "OverviewPage fmt display locale channels d =
     [Title ''t.overview.title'', Section (overview_health (ov_health d)),
      Title ''t.overview.attackerCountries.title'', Section (AttackerCountriesCard display locale (ov_hover d) (ov_countries d)),
      Title ''t.perimeter.title'', Section (PerimeterCard display locale LoginFailed (ov_attackers d LoginFailed)),
      Section (PerimeterCard display locale FirewallBlock (ov_attackers d FirewallBlock)),
      Title ''t.reliability.title'', Section (ReliabilityCard (ov_reliability d)),
      Title ''t.configAudit.title'', Section (ConfigAuditCard channels (ov_audit d)),
      Title ''t.overview.activeAlerts'', Section (overview_alerts fmt (ov_alerts d))]"

section \<open>The charts of a device\<close>

record chart_spec =
  cx_metric :: string
  cx_title :: string
  cx_unit :: "string option"
  cx_bytes :: bool
  cx_labels :: bool

definition mk_chart :: "string \<Rightarrow> string \<Rightarrow> string option \<Rightarrow> bool \<Rightarrow> bool \<Rightarrow> chart_spec" where
  "mk_chart metric title unit bytes labels =
     \<lparr>cx_metric = metric, cx_title = title, cx_unit = unit, cx_bytes = bytes, cx_labels = labels\<rparr>"

definition device_charts :: "chart_spec list" where
  "device_charts =
     [mk_chart ''cpu.pct'' ''t.deviceHealth.cpu'' (Some ''%'') False False,
      mk_chart ''mem.pct'' ''t.deviceHealth.memory'' (Some ''%'') False False,
      mk_chart ''disk.pct'' ''t.deviceHealth.disk'' (Some ''%'') False False,
      mk_chart ''iface.bytes_in'' ''t.deviceHealth.trafficIn'' None True True,
      mk_chart ''iface.bytes_out'' ''t.deviceHealth.trafficOut'' None True True,
      mk_chart ''gateway.rtt_ms'' ''t.deviceHealth.gatewayRtt'' (Some ''ms'') False True,
      mk_chart ''gateway.loss_pct'' ''t.deviceHealth.gatewayLoss'' (Some ''%'') False True,
      mk_chart ''vpn.up'' ''t.deviceHealth.vpnUp'' None False True]"

text \<open>\<open>ChartFor\<close>: the query of a chart, and the chart drawn from what it returned.\<close>

definition ChartFor_query :: "string option \<Rightarrow> string \<Rightarrow> range \<Rightarrow> chart_spec \<Rightarrow> query" where
  "ChartFor_query activeId deviceId r c = useDeviceMetrics activeId (Some deviceId) (cx_metric c) r"

definition ChartFor ::
  "string obj \<Rightarrow> 'v metric_point list option \<Rightarrow> chart_spec \<Rightarrow> ((string \<times> string) list \<times> bool) option" where
  "ChartFor labelMap points c = MetricChart (nullish_or points []) (if cx_labels c then labelMap else [])"

definition RANGES :: "range list" where
  "RANGES = [R1h, R24h, R7d]"

definition DeviceHealthSection_queries :: "string option \<Rightarrow> string \<Rightarrow> range \<Rightarrow> query list" where
  "DeviceHealthSection_queries activeId deviceId r =
     useMetricLabels activeId (Some deviceId) # map (ChartFor_query activeId deviceId r) device_charts"

definition DeviceHealthSection :: "range \<Rightarrow> 'e elem list" where
  "DeviceHealthSection r =
     [Title ''t.deviceHealth.title'', Choice [] (map (\<lambda>x. (range_name x, range_name x)) RANGES) (Some (range_name r))]
     @ map (\<lambda>c. Image (cx_title c)) device_charts"

section \<open>What is proved\<close>

lemma remote_cases: "remote_list q = [] \<longleftrightarrow> rm_data q = None \<or> rm_data q = Some []"
  by (cases "rm_data q") (simp_all add: remote_list_def)

interpretation perimeter_card: listing "PerimeterCard display lc kind" "PerimeterCard_row display lc kind"
    "Alert ''red'' ''t.perimeter.loadError''" "Text ''t.perimeter.empty''" for display lc kind
  by unfold_locales (auto simp: PerimeterCard_def perimeter_title_def)

interpretation perimeter_table: listing "PerimeterTable fmt display lc kind" "PerimeterTable_row fmt display lc"
    "Alert ''red'' ''t.perimeter.loadError''" "Text ''t.perimeter.empty''" for fmt display lc kind
  by unfold_locales (auto simp: PerimeterTable_def perimeter_title_def perimeter_help_def)

interpretation reliability_card: listing ReliabilityCard ReliabilityCard_row
    "Alert ''red'' ''t.reliability.loadError''" "Text ''t.reliability.empty''"
  by unfold_locales (auto simp: ReliabilityCard_def)

interpretation audit_card: listing "ConfigAuditCard channels" "ConfigAuditCard_row channels"
    "Alert ''red'' ''t.configAudit.loadError''" "Text ''t.configAudit.empty''" for channels
  by unfold_locales (auto simp: ConfigAuditCard_def)

interpretation reliability_tab: listing "ReliabilityTab_list fmt categories severities" "ReliabilityTab_row fmt categories severities"
    "Alert ''red'' ''t.reliability.loadError''" "Text ''t.reliability.empty''" for fmt categories severities
  by unfold_locales (auto simp: ReliabilityTab_list_def)

interpretation audit_tab: listing "ConfigAuditTab_list fmt channels" "ConfigAuditTab_row fmt channels"
    "Alert ''red'' ''t.configAudit.loadError''" "Text ''t.configAudit.empty''" for fmt channels
  by unfold_locales (auto simp: ConfigAuditTab_list_def)

interpretation alerts_page: listing "AlertsPage_list fmt mode" "AlertsPage_row fmt"
    "Text ''t.alerts.loadError''" "Text ''t.alerts.noAlerts''" for fmt mode
  by unfold_locales (auto simp: AlertsPage_list_def)

interpretation overview_alert_list: listing "overview_alerts fmt" "overview_alert_row fmt"
    "Alert ''red'' ''t.overview.alertsLoadError''" "Text ''t.overview.noActiveAlerts''" for fmt
  by unfold_locales (auto simp: overview_alerts_def)

lemma tooltip_not_empty_text [simp]: "''t.overview.attackerCountries.empty'' \<noteq> tooltip display lc v"
proof
  assume "''t.overview.attackerCountries.empty'' = tooltip display lc v"
  then have "tooltip display lc v = ''t.overview.attackerCountries.empty''" by (rule sym)
  then have "CHR 0xB7 \<in> set ''t.overview.attackerCountries.empty''" by (metis tooltip_def list.set_intros(1) Un_iff set_append)
  then show False by simp
qed

interpretation countries_card: listing "AttackerCountriesCard display lc h" "country_row display lc"
    "Alert ''red'' ''t.overview.attackerCountries.title''" "Text ''t.overview.attackerCountries.empty''" for display lc h
  by unfold_locales
     (auto simp: AttackerCountriesCard_def AttackerCountriesMap_def remote_list_def split: option.splits)

end
