(* ===== verification/Access.thy ===== *)
theory Access
  imports Session "HOL-Library.Multiset"
begin

text \<open>
  How the service decides who may do what: the effective role of a user on a tenant from memberships and
  group grants (\<^verbatim>\<open>backend/app/core/access.py\<close>), the list of tenants the frontend is given
  (\<^verbatim>\<open>backend/app/api/me_tenants.py\<close>), the validity of a session
  (\<^verbatim>\<open>backend/app/services/auth.py\<close>) and the dependencies that guard the endpoints
  (\<^verbatim>\<open>backend/app/core/deps.py\<close>).

  A table of the database is a list of rows; a query is a comprehension over it. The order in which the
  database returns the tenants sorted by slug is a parameter. A guard returns \<open>Inl\<close> of the status it
  refuses with, or \<open>Inr\<close> of what it hands on.
\<close>

section \<open>Tables\<close>

record account =
  ac_id :: string
  ac_email :: string
  ac_name :: string
  ac_superadmin :: bool

record tenant_rec =
  tn_id :: string
  tn_name :: string
  tn_slug :: string

record membership =
  mb_user :: string
  mb_tenant :: string
  mb_role :: string

record group_member =
  gm_group :: string
  gm_user :: string

record group_grant =
  gg_group :: string
  gg_all_tenants :: bool
  gg_tenant :: "string option"
  gg_role :: string

record database =
  db_users :: "account list"
  db_tenants :: "tenant_rec list"
  db_memberships :: "membership list"
  db_members :: "group_member list"
  db_grants :: "group_grant list"

definition get_user :: "database \<Rightarrow> string \<Rightarrow> account option" where
  "get_user db i = find (\<lambda>u. ac_id u = i) (db_users db)"

definition get_tenant :: "database \<Rightarrow> string \<Rightarrow> tenant_rec option" where
  "get_tenant db i = find (\<lambda>t. tn_id t = i) (db_tenants db)"

text \<open>The grants joined with the groups of a user.\<close>

definition granted :: "database \<Rightarrow> string \<Rightarrow> group_grant list" where
  "granted db uid = [g. g \<leftarrow> db_grants db, m \<leftarrow> db_members db, gm_group m = gg_group g \<and> gm_user m = uid]"

section \<open>The effective role\<close>

definition resolve_effective_role :: "database \<Rightarrow> account \<Rightarrow> string \<Rightarrow> string option" where
  "resolve_effective_role db user tenant_id =
     highest_role
       (map (\<lambda>m. Some (mb_role m))
          (filter (\<lambda>m. mb_user m = ac_id user \<and> mb_tenant m = tenant_id) (db_memberships db))
        @ map (\<lambda>g. Some (gg_role g))
          (filter (\<lambda>g. gg_all_tenants g \<or> gg_tenant g = Some tenant_id) (granted db (ac_id user))))"

definition bump :: "string obj \<Rightarrow> string \<times> string \<Rightarrow> string obj" where
  "bump result p =
     (case highest_role [obj_get result (fst p), Some (snd p)] of
        None \<Rightarrow> result
      | Some merged \<Rightarrow> obj_set (fst p) merged result)"

definition tenants_for_user :: "database \<Rightarrow> account \<Rightarrow> string obj" where
  "tenants_for_user db user =
     (let result = foldl bump []
            (map (\<lambda>m. (mb_tenant m, mb_role m)) (filter (\<lambda>m. mb_user m = ac_id user) (db_memberships db)));
          grants = granted db (ac_id user);
          wildcard_roles = map gg_role (filter gg_all_tenants grants);
          result = (if wildcard_roles \<noteq> []
                    then foldl (\<lambda>r role. foldl (\<lambda>r tid. bump r (tid, role)) r (map tn_id (db_tenants db))) result wildcard_roles
                    else result)
      in foldl (\<lambda>r g. case gg_tenant g of
                   Some tid \<Rightarrow> if \<not> gg_all_tenants g then bump r (tid, gg_role g) else r
                 | None \<Rightarrow> r) result grants)"

definition tenant_out :: "tenant_rec \<Rightarrow> string option \<Rightarrow> my_tenant" where
  "tenant_out t role = \<lparr>mt_id = tn_id t, mt_name = tn_name t, mt_slug = tn_slug t, mt_role = role\<rparr>"

definition my_tenants :: "(tenant_rec list \<Rightarrow> tenant_rec list) \<Rightarrow> database \<Rightarrow> account \<Rightarrow> my_tenant list" where
  "my_tenants order_by_slug db user =
     (if ac_superadmin user then map (\<lambda>t. tenant_out t None) (order_by_slug (db_tenants db))
      else let by_id = tenants_for_user db user in
        if by_id = [] then []
        else map (\<lambda>t. tenant_out t (obj_get by_id (tn_id t)))
               (order_by_slug (filter (\<lambda>t. obj_has by_id (tn_id t)) (db_tenants db))))"

section \<open>Sessions\<close>

text \<open>Times are seconds. \<open>hash\<close> is the keyed hash of a token.\<close>

record server_session =
  se_user :: string
  se_kind :: string
  se_token_hash :: string
  se_csrf_token :: string
  se_last_seen_at :: int
  se_expires_at :: int

definition LAST_SEEN_THROTTLE :: int where
  "LAST_SEEN_THROTTLE = 60"

text \<open>The session of a token, if it is still valid, touched when the last touch is a minute old.\<close>

definition touch :: "int \<Rightarrow> server_session \<Rightarrow> server_session" where
  "touch now sess = (if now - se_last_seen_at sess \<ge> LAST_SEEN_THROTTLE then sess\<lparr>se_last_seen_at := now\<rparr> else sess)"

definition session_valid :: "int \<Rightarrow> int \<Rightarrow> server_session \<Rightarrow> bool" where
  "session_valid idle now sess \<longleftrightarrow> \<not> (se_expires_at sess \<le> now \<or> now - se_last_seen_at sess > idle)"

definition get_session_for_token ::
  "(string \<Rightarrow> string) \<Rightarrow> int \<Rightarrow> int \<Rightarrow> string \<Rightarrow> server_session list \<Rightarrow> server_session option" where
  "get_session_for_token hash idle now raw rows =
     (case find (\<lambda>s. se_token_hash s = hash raw) rows of
        None \<Rightarrow> None
      | Some sess \<Rightarrow> if session_valid idle now sess then Some (touch now sess) else None)"

section \<open>The guards\<close>

definition get_current_session :: "(string \<Rightarrow> server_session option) \<Rightarrow> string obj \<Rightarrow> nat + server_session" where
  "get_current_session session_for cookies =
     (case obj_get cookies ''opngms_session'' of
        None \<Rightarrow> Inl 401
      | Some raw \<Rightarrow> if raw = [] then Inl 401
          else (case session_for raw of None \<Rightarrow> Inl 401 | Some sess \<Rightarrow> Inr sess))"

definition enforce_csrf :: "request \<Rightarrow> server_session \<Rightarrow> nat + unit" where
  "enforce_csrf rq sess =
     (if rq_method rq \<in> {POST, PUT, PATCH, DELETE} then
        (case obj_get (rq_headers rq) ''X-OPNGMS-CSRF'' of
           None \<Rightarrow> Inl 403
         | Some header \<Rightarrow> if header = [] \<or> header \<noteq> se_csrf_token sess then Inl 403 else Inr ())
      else Inr ())"

definition get_current_user :: "database \<Rightarrow> server_session \<Rightarrow> nat + account" where
  "get_current_user db sess =
     (if se_kind sess \<noteq> ''full'' then Inl 403
      else case get_user db (se_user sess) of None \<Rightarrow> Inl 401 | Some u \<Rightarrow> Inr u)"

definition get_enrollment_ctx :: "database \<Rightarrow> server_session \<Rightarrow> nat + account" where
  "get_enrollment_ctx db sess =
     (if se_kind sess \<notin> {''full'', ''mfa_setup''} then Inl 401
      else case get_user db (se_user sess) of None \<Rightarrow> Inl 401 | Some u \<Rightarrow> Inr u)"

text \<open>The user and the role on the tenant; \<open>None\<close> is the role of a superadmin.\<close>

definition tenant_context :: "database \<Rightarrow> string \<Rightarrow> server_session \<Rightarrow> nat + (account \<times> string option)" where
  "tenant_context db tenant_id sess =
     (case get_current_user db sess of
        Inl e \<Rightarrow> Inl e
      | Inr user \<Rightarrow>
          if get_tenant db tenant_id = None then Inl 404
          else if ac_superadmin user then Inr (user, None)
          else (case resolve_effective_role db user tenant_id of
                  None \<Rightarrow> Inl 403
                | Some role \<Rightarrow> Inr (user, Some role)))"

definition require_tenant :: "action \<Rightarrow> database \<Rightarrow> string \<Rightarrow> server_session \<Rightarrow> nat + (account \<times> string option)" where
  "require_tenant act db tenant_id sess =
     (case tenant_context db tenant_id sess of
        Inl e \<Rightarrow> Inl e
      | Inr (user, role) \<Rightarrow> if \<not> can (ac_superadmin user) role act then Inl 403 else Inr (user, role))"

definition require_org :: "action \<Rightarrow> database \<Rightarrow> server_session \<Rightarrow> nat + account" where
  "require_org act db sess =
     (case get_current_user db sess of
        Inl e \<Rightarrow> Inl e
      | Inr user \<Rightarrow> if \<not> can (ac_superadmin user) None act then Inl 403 else Inr user)"

text \<open>What the service tells the frontend about the signed-in user.\<close>

definition me_out :: "account \<Rightarrow> server_session \<Rightarrow> me" where
  "me_out user sess = \<lparr>me_id = ac_id user, me_email = ac_email user, me_name = ac_name user,
     is_superadmin = ac_superadmin user, mfa_setup_required = Some (se_kind sess = ''mfa_setup'')\<rparr>"

section \<open>What is proved\<close>

subsection \<open>Roles\<close>

definition known_role :: "string option \<Rightarrow> bool" where
  "known_role r \<longleftrightarrow> r = None \<or> role_rank r > 0"

lemma known_role_None [simp]: "known_role None" "role_rank None = 0"
  by (simp_all add: known_role_def role_rank_def ROLE_RANK_def)

lemma known_highest_loop: "known_role best \<Longrightarrow> known_role (highest_loop roles best k)"
  by (induction roles arbitrary: best k) (auto simp: known_role_def role_rank_def Let_def)

lemma known_highest [simp]: "known_role (highest_role roles)"
  by (simp add: highest_role_def known_highest_loop)

text \<open>A known role is determined by its rank, so what matters of several roles is the best rank.\<close>

lemma known_role_eqI: "known_role r \<Longrightarrow> known_role r' \<Longrightarrow> role_rank r = role_rank r' \<Longrightarrow> r = r'"
  by (cases r; cases r') (auto simp: known_role_def role_rank_def ROLE_RANK_def split: if_splits)

lemma rank_highest: "role_rank (highest_role roles) = Max (insert 0 (role_rank ` set roles))"
  unfolding highest_role_def using rank_highest_loop [of 0 None roles] by simp

lemma highest_role_cong: "role_rank ` set roles = role_rank ` set roles' \<Longrightarrow> highest_role roles = highest_role roles'"
  by (rule known_role_eqI) (simp_all add: rank_highest)

lemma highest_role_single: "known_role r \<Longrightarrow> highest_role [r] = r"
  by (rule known_role_eqI) (simp_all add: rank_highest)

lemma highest_role_merge: "highest_role (highest_role [r, r'] # roles) = highest_role (r # r' # roles)"
  by (rule known_role_eqI; cases "roles = []") (simp_all add: rank_highest max.assoc)

lemma highest_role_None_Cons: "highest_role (None # roles) = highest_role roles"
  by (rule known_role_eqI) (simp_all add: rank_highest)

lemma role_can_view: "highest_role roles = Some r \<Longrightarrow> can False (Some r) DEVICE_VIEW"
  using known_highest [of roles] by (simp add: can_rank known_role_def)

subsection \<open>The list of tenants\<close>

lemma get_bump:
  "known_role (obj_get result t) \<Longrightarrow>
     obj_get (bump result p) t = (if fst p = t then highest_role [obj_get result t, Some (snd p)] else obj_get result t)"
proof -
  assume k: "known_role (obj_get result t)"
  have "obj_get result t = None" if "highest_role [obj_get result t, Some (snd p)] = None"
  proof -
    have "role_rank (highest_role [obj_get result t, Some (snd p)]) = 0" using that by simp
    then have "role_rank (obj_get result t) = 0" by (simp add: rank_highest)
    then show ?thesis using k by (simp add: known_role_def)
  qed
  then show ?thesis by (auto simp: bump_def obj_get_set split: option.splits)
qed

lemma get_bumps:
  "known_role (obj_get result t) \<Longrightarrow>
     obj_get (foldl bump result ps) t = highest_role (obj_get result t # map (\<lambda>p. Some (snd p)) (filter (\<lambda>p. fst p = t) ps))"
proof (induction ps arbitrary: result)
  case Nil
  then show ?case by (simp add: highest_role_single)
next
  case (Cons p ps)
  from Cons.prems have "known_role (obj_get (bump result p) t)" by (simp add: get_bump)
  then show ?case using Cons.prems by (simp add: Cons.IH get_bump highest_role_merge)
qed

text \<open>The three loops of the routine as one list of bumps.\<close>

definition bumps :: "database \<Rightarrow> account \<Rightarrow> (string \<times> string) list" where
  "bumps db user =
     map (\<lambda>m. (mb_tenant m, mb_role m)) (filter (\<lambda>m. mb_user m = ac_id user) (db_memberships db))
     @ concat (map (\<lambda>role. map (\<lambda>tid. (tid, role)) (map tn_id (db_tenants db)))
         (map gg_role (filter gg_all_tenants (granted db (ac_id user)))))
     @ concat (map (\<lambda>g. case gg_tenant g of Some tid \<Rightarrow> if \<not> gg_all_tenants g then [(tid, gg_role g)] else [] | None \<Rightarrow> [])
         (granted db (ac_id user)))"

lemma foldl_map_concat: "foldl f a (concat (map g xs)) = foldl (\<lambda>r x. foldl f r (g x)) a xs"
  by (induction xs arbitrary: a) simp_all

lemma foldl_inner: "foldl (\<lambda>r x. bump r (x, y)) a xs = foldl bump a (map (\<lambda>x. (x, y)) xs)"
  by (induction xs arbitrary: a) simp_all

lemma tenants_for_user_bumps: "tenants_for_user db user = foldl bump [] (bumps db user)"
proof -
  have last: "(\<lambda>r g. foldl bump r (case gg_tenant g of Some tid \<Rightarrow> if \<not> gg_all_tenants g then [(tid, gg_role g)] else [] | None \<Rightarrow> []))
      = (\<lambda>r g. case gg_tenant g of Some tid \<Rightarrow> if \<not> gg_all_tenants g then bump r (tid, gg_role g) else r | None \<Rightarrow> r)"
    by (auto simp: fun_eq_iff split: option.splits)
  show ?thesis
    unfolding tenants_for_user_def bumps_def foldl_append foldl_map_concat last foldl_inner Let_def
    by (cases "map gg_role (filter gg_all_tenants (granted db (ac_id user)))") simp_all
qed

lemma set_bumps:
  assumes "t \<in> tn_id ` set (db_tenants db)"
  shows "(t, r) \<in> set (bumps db user) \<longleftrightarrow>
     (\<exists>m \<in> set (db_memberships db). mb_user m = ac_id user \<and> mb_tenant m = t \<and> r = mb_role m)
     \<or> (\<exists>g \<in> set (granted db (ac_id user)). (gg_all_tenants g \<or> gg_tenant g = Some t) \<and> r = gg_role g)"
proof -
  have "(t, r) \<in> set (concat (map (\<lambda>role. map (\<lambda>tid. (tid, role)) (map tn_id (db_tenants db)))
         (map gg_role (filter gg_all_tenants (granted db (ac_id user))))))
      \<longleftrightarrow> (\<exists>g \<in> set (granted db (ac_id user)). gg_all_tenants g \<and> r = gg_role g)"
    using assms by auto
  moreover have "(t, r) \<in> set (concat (map (\<lambda>g. case gg_tenant g of Some tid \<Rightarrow> if \<not> gg_all_tenants g then [(tid, gg_role g)] else [] | None \<Rightarrow> [])
         (granted db (ac_id user))))
      \<longleftrightarrow> (\<exists>g \<in> set (granted db (ac_id user)). \<not> gg_all_tenants g \<and> gg_tenant g = Some t \<and> r = gg_role g)"
    by (auto split: option.splits if_splits) metis
  ultimately show ?thesis unfolding bumps_def by auto
qed

lemma get_tenants_for_user:
  assumes "t \<in> tn_id ` set (db_tenants db)"
  shows "obj_get (tenants_for_user db user) t = resolve_effective_role db user t"
proof -
  let ?bs = "map (\<lambda>p. Some (snd p)) (filter (\<lambda>p. fst p = t) (bumps db user))"
  have "x \<in> set ?bs \<longleftrightarrow> (\<exists>r. x = Some r \<and> (t, r) \<in> set (bumps db user))" for x by force
  then have "set ?bs = set (map (\<lambda>m. Some (mb_role m))
          (filter (\<lambda>m. mb_user m = ac_id user \<and> mb_tenant m = t) (db_memberships db))
        @ map (\<lambda>g. Some (gg_role g))
          (filter (\<lambda>g. gg_all_tenants g \<or> gg_tenant g = Some t) (granted db (ac_id user))))"
    unfolding set_bumps [OF assms] set_eq_iff by auto
  then have "highest_role ?bs = resolve_effective_role db user t"
    unfolding resolve_effective_role_def by (intro highest_role_cong arg_cong [where f = "image role_rank"])
  then show ?thesis
    unfolding tenants_for_user_bumps by (simp add: get_bumps highest_role_None_Cons)
qed

text \<open>The ids of the tenants are keys, and sorting keeps the rows.\<close>

definition tenants_ok :: "(tenant_rec list \<Rightarrow> tenant_rec list) \<Rightarrow> database \<Rightarrow> bool" where
  "tenants_ok order_by_slug db \<longleftrightarrow>
     distinct (map tn_id (db_tenants db)) \<and> (\<forall>ts. set ts \<subseteq> set (db_tenants db) \<longrightarrow> mset (order_by_slug ts) = mset ts)"

lemma find_key:
  assumes "x \<in> set xs" and "inj_on f (set xs)"
  shows "find (\<lambda>y. f y = f x) xs = Some x"
  using assms by (induction xs) (auto simp: inj_on_def)

lemma get_tenant_Some: "distinct (map tn_id (db_tenants db)) \<Longrightarrow> t \<in> set (db_tenants db) \<Longrightarrow> get_tenant db (tn_id t) = Some t"
  unfolding get_tenant_def by (rule find_key) (simp_all add: distinct_map)

lemma get_tenant_None: "get_tenant db i = None \<longleftrightarrow> i \<notin> tn_id ` set (db_tenants db)"
  by (auto simp: get_tenant_def find_None_iff)

lemma set_my_tenants:
  assumes "tenants_ok order db"
  shows "set (my_tenants order db user) =
    (if ac_superadmin user then (\<lambda>t. tenant_out t None) ` set (db_tenants db)
     else (\<lambda>t. tenant_out t (resolve_effective_role db user (tn_id t)))
            ` {t \<in> set (db_tenants db). resolve_effective_role db user (tn_id t) \<noteq> None})"
proof -
  have sorted: "set (order ts) = set ts" if "set ts \<subseteq> set (db_tenants db)" for ts
    using assms that mset_eq_setD [of "order ts" ts] by (simp add: tenants_ok_def)
  have role: "obj_get (tenants_for_user db user) (tn_id t) = resolve_effective_role db user (tn_id t)"
    if "t \<in> set (db_tenants db)" for t
    using that by (simp add: get_tenants_for_user)
  have "set (my_tenants order db user) = (\<lambda>t. tenant_out t (obj_get (tenants_for_user db user) (tn_id t)))
            ` {t \<in> set (db_tenants db). obj_get (tenants_for_user db user) (tn_id t) \<noteq> None}"
    if "\<not> ac_superadmin user"
  proof -
    have f: "set (order (filter P (db_tenants db))) = {t \<in> set (db_tenants db). P t}" for P by (subst sorted) auto
    show ?thesis using that by (auto simp: my_tenants_def Let_def f obj_has_iff)
  qed
  then show ?thesis
    using role sorted [of "db_tenants db"] by (auto simp: my_tenants_def image_iff)
qed

lemma active_role_unique:
  assumes "t \<in> set ts" and "inj_on mt_id (set ts)"
  shows "active_role ts (Some (mt_id t)) = mt_role t"
  using find_key [OF assms] by (simp add: active_role_def)

lemma inj_tenant_out: "inj_on tn_id A \<Longrightarrow> inj_on mt_id ((\<lambda>t. tenant_out t (f t)) ` A)"
  by (auto simp: inj_on_def tenant_out_def)

lemma listed_iff:
  assumes "tenants_ok order db" and "t \<in> set (db_tenants db)"
  shows "tn_id t \<in> mt_id ` set (my_tenants order db user) \<longleftrightarrow>
    ac_superadmin user \<or> resolve_effective_role db user (tn_id t) \<noteq> None"
proof -
  have "inj_on tn_id (set (db_tenants db))" using assms(1) by (simp add: tenants_ok_def distinct_map)
  then show ?thesis
    using assms(2) by (auto simp: set_my_tenants [OF assms(1)] tenant_out_def image_iff inj_on_def)
qed

lemma listed_tenant:
  assumes "tenants_ok order db" and "i \<in> mt_id ` set (my_tenants order db user)"
  obtains t where "t \<in> set (db_tenants db)" "i = tn_id t"
  using assms(2) by (auto simp: set_my_tenants [OF assms(1)] tenant_out_def split: if_splits)

lemma active_role_effective:
  assumes ok: "tenants_ok order db" and t: "t \<in> set (db_tenants db)"
  shows "active_role (my_tenants order db user) (Some (tn_id t)) =
    (if ac_superadmin user then None else resolve_effective_role db user (tn_id t))"
proof -
  let ?ts = "my_tenants order db user"
  let ?role = "if ac_superadmin user then None else resolve_effective_role db user (tn_id t)"
  have inj: "inj_on tn_id (set (db_tenants db))" using ok by (simp add: tenants_ok_def distinct_map)
  have uniq: "inj_on mt_id (set ?ts)"
    unfolding set_my_tenants [OF ok] using inj by (auto intro!: inj_tenant_out elim: inj_on_subset)
  note listed = listed_iff [OF ok t, of user]
  show ?thesis
  proof (cases "tn_id t \<in> mt_id ` set ?ts")
    case True
    then have "tenant_out t ?role \<in> set ?ts" using t listed by (auto simp: set_my_tenants [OF ok])
    then show ?thesis using active_role_unique [OF _ uniq] by (fastforce simp: tenant_out_def)
  next
    case False
    then have "find (\<lambda>x. Some (mt_id x) = Some (tn_id t)) ?ts = None" by (force simp: find_None_iff)
    then show ?thesis using False listed by (auto simp: active_role_def)
  qed
qed

text \<open>C10. The role the frontend is told is the role the service enforces. For every user and tenant of the
  database, with any memberships and group grants (wildcard, specific, several, overlapping): the routine
  that lists the tenants merges the roles one by one and the guard collects them at once, and both arrive
  at the same effective role; the frontend's list contains exactly the tenants the guard lets the user
  enter, and the role that the permission flags read for a tenant of the list is the role of the guard.\<close>

theorem roles_agree:
  assumes "tenants_ok order_by_slug db" and "t \<in> set (db_tenants db)"
  shows "obj_get (tenants_for_user db user) (tn_id t) = resolve_effective_role db user (tn_id t)
    \<and> (tn_id t \<in> mt_id ` set (my_tenants order_by_slug db user) \<longleftrightarrow>
         ac_superadmin user \<or> resolve_effective_role db user (tn_id t) \<noteq> None)
    \<and> active_role (my_tenants order_by_slug db user) (Some (tn_id t)) =
         (if ac_superadmin user then None else resolve_effective_role db user (tn_id t))"
  using assms by (simp add: get_tenants_for_user listed_iff active_role_effective)

text \<open>A member of one tenant with a wider grant on it through a group, and a wildcard grant.\<close>

definition sample_account :: "bool \<Rightarrow> account" where
  "sample_account super = \<lparr>ac_id = ''u1'', ac_email = ''u@x'', ac_name = ''U'', ac_superadmin = super\<rparr>"

definition sample_db :: "bool \<Rightarrow> database" where
  "sample_db super =
     \<lparr>db_users = [sample_account super],
      db_tenants = [\<lparr>tn_id = ''t1'', tn_name = ''A'', tn_slug = ''a''\<rparr>, \<lparr>tn_id = ''t2'', tn_name = ''B'', tn_slug = ''b''\<rparr>],
      db_memberships = [\<lparr>mb_user = ''u1'', mb_tenant = ''t1'', mb_role = ''read_only''\<rparr>],
      db_members = [\<lparr>gm_group = ''g'', gm_user = ''u1''\<rparr>],
      db_grants = [\<lparr>gg_group = ''g'', gg_all_tenants = True, gg_tenant = None, gg_role = ''read_only''\<rparr>,
                   \<lparr>gg_group = ''g'', gg_all_tenants = False, gg_tenant = Some ''t1'', gg_role = ''operator''\<rparr>]\<rparr>"

lemma sample_db_ok: "tenants_ok (\<lambda>ts. ts) (sample_db super)"
  by (simp add: tenants_ok_def sample_db_def)

theorem roles_agree_witness:
  "active_role (my_tenants (\<lambda>ts. ts) (sample_db False) (sample_account False)) (Some ''t1'') = Some ''operator''
   \<and> ''t2'' \<in> mt_id ` set (my_tenants (\<lambda>ts. ts) (sample_db False) (sample_account False))"
proof -
  have t: "db_tenants (sample_db False) = [\<lparr>tn_id = ''t1'', tn_name = ''A'', tn_slug = ''a''\<rparr>, \<lparr>tn_id = ''t2'', tn_name = ''B'', tn_slug = ''b''\<rparr>]"
    by (simp add: sample_db_def)
  have r: "resolve_effective_role (sample_db False) (sample_account False) ''t1'' = Some ''operator''"
    "resolve_effective_role (sample_db False) (sample_account False) ''t2'' = Some ''read_only''"
    by (simp_all add: resolve_effective_role_def granted_def sample_db_def sample_account_def highest_role_def ROLE_RANK_def Let_def)
  show ?thesis
    using roles_agree [OF sample_db_ok, of "\<lparr>tn_id = ''t1'', tn_name = ''A'', tn_slug = ''a''\<rparr>" False "sample_account False"]
      roles_agree [OF sample_db_ok, of "\<lparr>tn_id = ''t2'', tn_name = ''B'', tn_slug = ''b''\<rparr>" False "sample_account False"] r
    by (simp add: t sample_account_def)
qed

subsection \<open>The idle timeout\<close>

text \<open>The session after accepted uses at given times, \<open>None\<close> once one was refused.\<close>

fun used :: "int \<Rightarrow> int list \<Rightarrow> server_session \<Rightarrow> server_session option" where
  "used idle [] sess = Some sess"
| "used idle (now # nows) sess = (if session_valid idle now sess then used idle nows (touch now sess) else None)"

text \<open>The recorded time of the last use lags behind the last use by less than the throttle.\<close>

lemma used_lag:
  assumes "used idle nows sess = Some sess'" and "sorted (t0 # nows)"
    and "se_last_seen_at sess \<le> t0" and "t0 - se_last_seen_at sess < LAST_SEEN_THROTTLE"
  shows "se_last_seen_at sess' \<le> last (t0 # nows) \<and> last (t0 # nows) - se_last_seen_at sess' < LAST_SEEN_THROTTLE
    \<and> se_expires_at sess' = se_expires_at sess \<and> se_csrf_token sess' = se_csrf_token sess
    \<and> se_user sess' = se_user sess \<and> se_kind sess' = se_kind sess"
  using assms
proof (induction nows arbitrary: sess t0)
  case (Cons now nows)
  from Cons.prems(1) have "session_valid idle now sess" and run: "used idle nows (touch now sess) = Some sess'"
    by (auto split: if_splits)
  have "sorted (now # nows)" using Cons.prems(2) by simp
  moreover have "se_last_seen_at (touch now sess) \<le> now" "now - se_last_seen_at (touch now sess) < LAST_SEEN_THROTTLE"
    using Cons.prems(2,3) by (auto simp: touch_def LAST_SEEN_THROTTLE_def)
  ultimately show ?case
    using Cons.IH [OF run] by (auto simp: touch_def)
qed simp

text \<open>C32. The idle timeout is enforced to the minute. After any sequence of accepted uses of a session, at
  times that never go back, a further use is refused when the session was left alone for more than the
  idle timeout or has reached its absolute expiry, and accepted when it was left alone for at most the
  timeout less one minute and has not expired: writing the time of use at most once a minute costs no more
  than that minute. Using a session never changes whose it is, nor its token.\<close>

theorem idle_timeout_bounds:
  assumes "used idle nows (sess\<lparr>se_last_seen_at := start\<rparr>) = Some sess'" and "sorted (start # nows)"
    and "last (start # nows) \<le> now" and "hash raw = se_token_hash sess'"
  shows "(now - last (start # nows) > idle \<or> se_expires_at sess \<le> now \<longrightarrow>
           get_session_for_token hash idle now raw [sess'] = None)
    \<and> (now - last (start # nows) \<le> idle - 60 \<and> now < se_expires_at sess \<longrightarrow>
         (\<exists>s. get_session_for_token hash idle now raw [sess'] = Some s
            \<and> se_user s = se_user sess \<and> se_kind s = se_kind sess \<and> se_csrf_token s = se_csrf_token sess))"
proof -
  have lag: "se_last_seen_at sess' \<le> last (start # nows)" "last (start # nows) - se_last_seen_at sess' < 60"
    "se_expires_at sess' = se_expires_at sess" "se_csrf_token sess' = se_csrf_token sess"
    "se_user sess' = se_user sess" "se_kind sess' = se_kind sess"
    using used_lag [OF assms(1,2)] by (auto simp: LAST_SEEN_THROTTLE_def)
  then show ?thesis
    using assms(3,4) by (auto simp: get_session_for_token_def session_valid_def touch_def)
qed

definition sample_session :: "string \<Rightarrow> server_session" where
  "sample_session kind = \<lparr>se_user = ''u1'', se_kind = kind, se_token_hash = ''h'', se_csrf_token = ''tok'',
     se_last_seen_at = 0, se_expires_at = 100000\<rparr>"

theorem idle_timeout_bounds_witness:
  "get_session_for_token (\<lambda>_. ''h'') 1800 3000 ''raw'' [(sample_session ''full'')\<lparr>se_last_seen_at := 1000\<rparr>] = None
   \<and> (\<exists>s. get_session_for_token (\<lambda>_. ''h'') 1800 2700 ''raw'' [(sample_session ''full'')\<lparr>se_last_seen_at := 1000\<rparr>] = Some s
        \<and> se_user s = ''u1'')"
proof -
  have run: "used 1800 [1000, 1030] ((sample_session ''full'')\<lparr>se_last_seen_at := 0\<rparr>) = Some ((sample_session ''full'')\<lparr>se_last_seen_at := 1000\<rparr>)"
    by (simp add: session_valid_def touch_def sample_session_def LAST_SEEN_THROTTLE_def)
  show ?thesis
    using idle_timeout_bounds [OF run, of 3000 "\<lambda>_. ''h''" "''raw''"] idle_timeout_bounds [OF run, of 2700 "\<lambda>_. ''h''" "''raw''"]
    by (auto simp: sample_session_def)
qed

end
