(* ===== verification/Endpoints.thy ===== *)
theory Endpoints
  imports Access
begin

text \<open>
  The endpoints of the service: the routers of \<^verbatim>\<open>backend/app/api\<close> with the method, the path, whether
  the CSRF check is a dependency, and the guard, included in the order of \<^verbatim>\<open>backend/app/main.py\<close>; and
  what the guard of an endpoint does with a request. A path is a template whose parameters the typed client
  fills from the parameters of the request; the guards read the tenant from there. What the handlers do
  behind the guards is not modelled here.
\<close>

section \<open>Guards\<close>

datatype guard = Anyone | AnySession | Enrolment | SignedIn | Org action | Tenant action

record endpoint =
  ep_method :: http_method
  ep_path :: string
  ep_csrf :: bool
  ep_guard :: guard

definition route :: "http_method \<Rightarrow> string \<Rightarrow> bool \<Rightarrow> guard \<Rightarrow> endpoint" where
  "route m path csrf g = \<lparr>ep_method = m, ep_path = path, ep_csrf = csrf, ep_guard = g\<rparr>"

section \<open>Routers\<close>

definition setup_router :: "endpoint list" where
  "setup_router =
     [route POST ''/api/setup'' False Anyone]"

definition auth_router :: "endpoint list" where
  "auth_router =
     [route POST ''/api/login'' False Anyone,
      route POST ''/api/login/mfa'' True AnySession,
      route POST ''/api/login/webauthn/begin'' True AnySession,
      route POST ''/api/login/webauthn/complete'' True AnySession,
      route POST ''/api/logout'' True AnySession,
      route POST ''/api/logout-all'' True AnySession,
      route GET ''/api/sessions'' False SignedIn,
      route GET ''/api/me'' False Enrolment]"

definition mfa_router :: "endpoint list" where
  "mfa_router =
     [route GET ''/api/me/mfa'' False Enrolment,
      route POST ''/api/me/mfa/setup'' True Enrolment,
      route POST ''/api/me/mfa/confirm'' True Enrolment,
      route POST ''/api/me/mfa/disable'' True SignedIn,
      route POST ''/api/me/mfa/recovery/regenerate'' True SignedIn,
      route POST ''/api/me/mfa/webauthn/register/begin'' True Enrolment,
      route POST ''/api/me/mfa/webauthn/register/complete'' True Enrolment,
      route GET ''/api/me/mfa/webauthn/credentials'' False Enrolment,
      route DELETE ''/api/me/mfa/webauthn/credentials/{cred_id}'' True SignedIn,
      route GET ''/api/admin/mfa-policy'' False (Org USER_MANAGE),
      route PUT ''/api/admin/mfa-policy'' True (Org USER_MANAGE),
      route POST ''/api/users/{user_id}/mfa/reset'' True (Org USER_MANAGE),
      route GET ''/api/admin/trusted-device-enabled'' False (Org USER_MANAGE),
      route PUT ''/api/admin/trusted-device-enabled'' True (Org USER_MANAGE)]"

definition trusted_devices_router :: "endpoint list" where
  "trusted_devices_router =
     [route GET ''/api/me/trusted-devices'' False SignedIn,
      route DELETE ''/api/me/trusted-devices/{device_id}'' True SignedIn,
      route DELETE ''/api/me/trusted-devices'' True SignedIn]"

definition tenants_router :: "endpoint list" where
  "tenants_router =
     [route GET ''/api/tenants'' False (Org TENANT_MANAGE),
      route POST ''/api/tenants'' True (Org TENANT_MANAGE)]"

definition users_router :: "endpoint list" where
  "users_router =
     [route GET ''/api/users'' False (Org USER_MANAGE),
      route POST ''/api/users'' True (Org USER_MANAGE)]"

definition groups_router :: "endpoint list" where
  "groups_router =
     [route GET ''/api/groups'' False (Org GROUP_MANAGE),
      route POST ''/api/groups'' True (Org GROUP_MANAGE),
      route PATCH ''/api/groups/{group_id}'' True (Org GROUP_MANAGE),
      route DELETE ''/api/groups/{group_id}'' True (Org GROUP_MANAGE),
      route PUT ''/api/groups/{group_id}/members'' True (Org GROUP_MANAGE),
      route POST ''/api/groups/{group_id}/grants'' True (Org GROUP_MANAGE),
      route DELETE ''/api/groups/{group_id}/grants/{grant_id}'' True (Org GROUP_MANAGE)]"

definition memberships_router :: "endpoint list" where
  "memberships_router =
     [route GET ''/api/tenants/{tenant_id}/memberships'' False (Tenant MEMBERSHIP_MANAGE),
      route POST ''/api/tenants/{tenant_id}/memberships'' True (Tenant MEMBERSHIP_MANAGE)]"

definition devices_router :: "endpoint list" where
  "devices_router =
     [route GET ''/api/tenants/{tenant_id}/devices'' False (Tenant DEVICE_VIEW),
      route GET ''/api/tenants/{tenant_id}/devices/{device_id}'' False (Tenant DEVICE_VIEW),
      route GET ''/api/tenants/{tenant_id}/devices/{device_id}/plugins'' False (Tenant DEVICE_VIEW),
      route POST ''/api/tenants/{tenant_id}/devices'' True (Tenant DEVICE_WRITE),
      route PATCH ''/api/tenants/{tenant_id}/devices/{device_id}'' True (Tenant DEVICE_WRITE),
      route DELETE ''/api/tenants/{tenant_id}/devices/{device_id}'' True (Tenant DEVICE_WRITE),
      route POST ''/api/tenants/{tenant_id}/devices/{device_id}/test-connection'' True (Tenant DEVICE_WRITE),
      route POST ''/api/tenants/{tenant_id}/devices/{device_id}/rotate-secret'' True (Tenant DEVICE_WRITE)]"

definition me_tenants_router :: "endpoint list" where
  "me_tenants_router =
     [route GET ''/api/me/tenants'' False SignedIn]"

definition monitoring_router :: "endpoint list" where
  "monitoring_router =
     [route GET ''/api/tenants/{tenant_id}/devices/{device_id}/metrics'' False (Tenant DEVICE_VIEW),
      route GET ''/api/tenants/{tenant_id}/alerts'' False (Tenant DEVICE_VIEW),
      route GET ''/api/tenants/{tenant_id}/health'' False (Tenant DEVICE_VIEW),
      route GET ''/api/tenants/{tenant_id}/attacker-countries'' False (Tenant DEVICE_VIEW),
      route GET ''/api/tenants/{tenant_id}/perimeter/attackers'' False (Tenant DEVICE_VIEW)]"

definition events_router :: "endpoint list" where
  "events_router =
     [route GET ''/api/tenants/{tenant_id}/events'' False (Tenant DEVICE_VIEW),
      route GET ''/api/tenants/{tenant_id}/events/top'' False (Tenant DEVICE_VIEW)]"

definition config_router :: "endpoint list" where
  "config_router =
     [route GET ''/api/tenants/{tenant_id}/devices/{device_id}/config/snapshots'' False (Tenant DEVICE_VIEW),
      route GET ''/api/tenants/{tenant_id}/devices/{device_id}/config/drift'' False (Tenant DEVICE_VIEW),
      route GET ''/api/tenants/{tenant_id}/devices/{device_id}/config/drift-check'' False (Tenant DEVICE_VIEW),
      route GET ''/api/tenants/{tenant_id}/devices/{device_id}/config/diff'' False (Tenant DEVICE_VIEW),
      route GET ''/api/tenants/{tenant_id}/devices/{device_id}/config/model'' False (Tenant DEVICE_VIEW),
      route GET ''/api/tenants/{tenant_id}/devices/{device_id}/metric-labels'' False (Tenant DEVICE_VIEW),
      route GET ''/api/tenants/{tenant_id}/devices/{device_id}/config/map'' False (Tenant DEVICE_VIEW),
      route GET ''/api/tenants/{tenant_id}/devices/{device_id}/config/capabilities'' False (Tenant DEVICE_VIEW),
      route POST ''/api/tenants/{tenant_id}/devices/{device_id}/config/changes'' True (Tenant CONFIG_PUSH),
      route GET ''/api/tenants/{tenant_id}/devices/{device_id}/config/changes'' False (Tenant DEVICE_VIEW),
      route GET ''/api/tenants/{tenant_id}/devices/{device_id}/config/changes/{change_id}/preview'' False (Tenant DEVICE_VIEW),
      route POST ''/api/tenants/{tenant_id}/devices/{device_id}/config/changes/{change_id}/schedule'' True (Tenant CONFIG_PUSH),
      route POST ''/api/tenants/{tenant_id}/devices/{device_id}/config/changes/{change_id}/revert'' True (Tenant CONFIG_PUSH),
      route POST ''/api/tenants/{tenant_id}/devices/{device_id}/config/changes/{change_id}/cancel'' True (Tenant CONFIG_PUSH)]"

definition catalog_router :: "endpoint list" where
  "catalog_router =
     [route POST ''/api/tenants/{tenant_id}/devices/{device_id}/catalog/changes'' True (Tenant CONFIG_PUSH),
      route GET ''/api/tenants/{tenant_id}/devices/{device_id}/catalog'' False (Tenant DEVICE_VIEW),
      route GET ''/api/tenants/{tenant_id}/devices/{device_id}/catalog/models/{model_id}'' False (Tenant DEVICE_VIEW),
      route GET ''/api/tenants/{tenant_id}/devices/{device_id}/plugin-models'' False (Tenant DEVICE_VIEW),
      route GET ''/api/tenants/{tenant_id}/devices/{device_id}/catalog/diff'' False (Tenant DEVICE_VIEW)]"

definition firmware_router :: "endpoint list" where
  "firmware_router =
     [route POST ''/api/tenants/{tenant_id}/devices/{device_id}/firmware/check'' True (Tenant DEVICE_VIEW),
      route POST ''/api/tenants/{tenant_id}/devices/{device_id}/firmware/action'' True (Tenant CONFIG_PUSH),
      route GET ''/api/tenants/{tenant_id}/devices/{device_id}/firmware/actions'' False (Tenant DEVICE_VIEW)]"

definition reports_router :: "endpoint list" where
  "reports_router =
     [route POST ''/api/tenants/{tenant_id}/reports'' True (Tenant REPORT_GENERATE),
      route GET ''/api/tenants/{tenant_id}/reports'' False (Tenant DEVICE_VIEW),
      route GET ''/api/tenants/{tenant_id}/reports/{report_id}/download'' False (Tenant DEVICE_VIEW),
      route GET ''/api/tenants/{tenant_id}/reports/languages'' False (Tenant DEVICE_VIEW),
      route GET ''/api/tenants/{tenant_id}/reports/settings'' False (Tenant DEVICE_VIEW),
      route PUT ''/api/tenants/{tenant_id}/reports/settings'' True (Tenant REPORT_CONFIG),
      route PUT ''/api/tenants/{tenant_id}/reports/settings/logo'' True (Tenant REPORT_CONFIG),
      route DELETE ''/api/tenants/{tenant_id}/reports/settings/logo'' True (Tenant REPORT_CONFIG),
      route GET ''/api/tenants/{tenant_id}/reports/settings/logo'' False (Tenant DEVICE_VIEW)]"

definition report_schedules_router :: "endpoint list" where
  "report_schedules_router =
     [route GET ''/api/tenants/{tenant_id}/report-schedules'' False (Tenant DEVICE_VIEW),
      route PUT ''/api/tenants/{tenant_id}/report-schedules'' True (Tenant REPORT_CONFIG),
      route DELETE ''/api/tenants/{tenant_id}/report-schedules/{schedule_id}'' True (Tenant REPORT_CONFIG),
      route POST ''/api/tenants/{tenant_id}/report-schedules/{schedule_id}/send-now'' True (Tenant REPORT_CONFIG)]"

definition retention_router :: "endpoint list" where
  "retention_router =
     [route GET ''/api/tenants/{tenant_id}/retention'' False (Tenant DEVICE_VIEW),
      route PUT ''/api/tenants/{tenant_id}/retention'' True (Tenant RETENTION_CONFIG)]"

definition templates_router :: "endpoint list" where
  "templates_router =
     [route POST ''/api/templates'' True (Org TEMPLATE_MANAGE),
      route GET ''/api/templates'' False SignedIn,
      route PUT ''/api/templates/{template_id}'' True (Org TEMPLATE_MANAGE),
      route DELETE ''/api/templates/{template_id}'' True (Org TEMPLATE_MANAGE),
      route PUT ''/api/tenants/{tenant_id}/templates/{template_id}/override'' True (Tenant CONFIG_PUSH),
      route POST ''/api/tenants/{tenant_id}/devices/{device_id}/templates/{template_id}/preview'' True (Tenant CONFIG_PUSH),
      route POST ''/api/tenants/{tenant_id}/devices/{device_id}/templates/{template_id}/apply'' True (Tenant CONFIG_PUSH)]"

definition profiles_router :: "endpoint list" where
  "profiles_router =
     [route POST ''/api/profiles'' True (Org TEMPLATE_MANAGE),
      route GET ''/api/profiles'' False SignedIn,
      route PUT ''/api/profiles/{profile_id}'' True (Org TEMPLATE_MANAGE),
      route DELETE ''/api/profiles/{profile_id}'' True (Org TEMPLATE_MANAGE),
      route POST ''/api/tenants/{tenant_id}/devices/{device_id}/profiles/{profile_id}/preview'' True (Tenant CONFIG_PUSH),
      route POST ''/api/tenants/{tenant_id}/devices/{device_id}/profiles/{profile_id}/apply'' True (Tenant CONFIG_PUSH)]"

definition settings_router :: "endpoint list" where
  "settings_router =
     [route GET ''/api/opnsense/setting-endpoints'' False SignedIn,
      route GET ''/api/tenants/{tenant_id}/devices/{device_id}/opnsense/settings/{endpoint_key}'' False (Tenant DEVICE_VIEW)]"

definition ids_router :: "endpoint list" where
  "ids_router =
     [route GET ''/api/tenants/{tenant_id}/devices/{device_id}/opnsense/ids/rulesets'' False (Tenant DEVICE_VIEW)]"

definition firewall_rules_router :: "endpoint list" where
  "firewall_rules_router =
     [route GET ''/api/tenants/{tenant_id}/devices/{device_id}/opnsense/firewall/rule-model'' False (Tenant DEVICE_VIEW)]"

definition monit_router :: "endpoint list" where
  "monit_router =
     [route GET ''/api/tenants/{tenant_id}/devices/{device_id}/opnsense/monit/test-model'' False (Tenant DEVICE_VIEW)]"

definition smtp_router :: "endpoint list" where
  "smtp_router =
     [route GET ''/api/admin/smtp'' False (Org USER_MANAGE),
      route PUT ''/api/admin/smtp'' True (Org USER_MANAGE),
      route POST ''/api/admin/smtp/test'' True (Org USER_MANAGE),
      route GET ''/api/admin/smtp/oauth/{provider}/authorize'' False (Org USER_MANAGE),
      route GET ''/api/admin/smtp/oauth/{provider}/callback'' False (Org USER_MANAGE)]"

definition log_forwarding_router :: "endpoint list" where
  "log_forwarding_router =
     [route GET ''/api/tenants/{tenant_id}/devices/{device_id}/log-forwarding'' False (Tenant DEVICE_VIEW),
      route POST ''/api/tenants/{tenant_id}/devices/{device_id}/log-forwarding/enable'' True (Tenant CONFIG_PUSH),
      route POST ''/api/tenants/{tenant_id}/devices/{device_id}/log-forwarding/disable'' True (Tenant CONFIG_PUSH),
      route POST ''/api/tenants/{tenant_id}/devices/{device_id}/log-forwarding/rotate'' True (Tenant CONFIG_PUSH),
      route POST ''/api/tenants/{tenant_id}/devices/{device_id}/log-forwarding/revoke'' True (Tenant CONFIG_PUSH)]"

definition logs_router :: "endpoint list" where
  "logs_router =
     [route POST ''/api/tenants/{tenant_id}/logs/search'' False (Tenant LOG_VIEW)]"

definition log_fleet_router :: "endpoint list" where
  "log_fleet_router =
     [route GET ''/api/admin/log-fleet'' False (Org LOG_FLEET_VIEW),
      route GET ''/api/admin/silent-tenant-alerts'' False (Org LOG_FLEET_VIEW),
      route GET ''/api/admin/log-fleet/export'' False (Org LOG_FLEET_VIEW),
      route GET ''/api/admin/log-fleet/tenants/{tenant_id}/devices'' False (Org LOG_FLEET_VIEW)]"

definition system_router :: "endpoint list" where
  "system_router =
     [route GET ''/api/admin/settings'' False (Org SYSTEM_MANAGE),
      route PUT ''/api/admin/settings'' True (Org SYSTEM_MANAGE),
      route GET ''/api/admin/live-push'' False (Org SYSTEM_MANAGE),
      route PUT ''/api/admin/live-push'' True (Org SYSTEM_MANAGE),
      route GET ''/api/admin/webauthn-config'' False (Org SYSTEM_MANAGE),
      route PUT ''/api/admin/webauthn-config'' True (Org SYSTEM_MANAGE)]"

definition audit_router :: "endpoint list" where
  "audit_router =
     [route GET ''/api/admin/audit'' False (Org AUDIT_VIEW),
      route GET ''/api/admin/audit/export.csv'' False (Org AUDIT_VIEW)]"

definition app_routes :: "endpoint list" where
  "app_routes =
     setup_router @ auth_router @ mfa_router @ trusted_devices_router @ tenants_router @
     users_router @ groups_router @ memberships_router @ devices_router @ me_tenants_router @
     monitoring_router @ events_router @ config_router @ catalog_router @ firmware_router @
     reports_router @ report_schedules_router @ retention_router @ templates_router @
     profiles_router @ settings_router @ ids_router @ firewall_rules_router @ monit_router @
     smtp_router @ log_forwarding_router @ logs_router @ log_fleet_router @ system_router @
     audit_router"

lemmas router_defs = setup_router_def auth_router_def mfa_router_def trusted_devices_router_def tenants_router_def
  users_router_def groups_router_def memberships_router_def devices_router_def me_tenants_router_def
  monitoring_router_def events_router_def config_router_def catalog_router_def firmware_router_def
  reports_router_def report_schedules_router_def retention_router_def templates_router_def
  profiles_router_def settings_router_def ids_router_def firewall_rules_router_def monit_router_def
  smtp_router_def log_forwarding_router_def logs_router_def log_fleet_router_def system_router_def
  audit_router_def

definition endpoint_for :: "http_method \<Rightarrow> string \<Rightarrow> endpoint option" where
  "endpoint_for m path = find (\<lambda>e. ep_method e = m \<and> ep_path e = path) app_routes"

section \<open>What a request meets\<close>

text \<open>The tenant of a request, as the path carries it.\<close>

definition request_tenant :: "request \<Rightarrow> string" where
  "request_tenant rq = (case obj_get (rq_params rq) ''tenant_id'' of Some (JStr t) \<Rightarrow> t | _ \<Rightarrow> [])"

text \<open>The status a guard refuses with, \<open>None\<close> when it lets the request pass. \<open>sess\<close> is what the
  session dependency finds.\<close>

definition left :: "'e + 'a \<Rightarrow> 'e option" where
  "left r = (case r of Inl e \<Rightarrow> Some e | Inr _ \<Rightarrow> None)"

fun guard_refuses :: "database \<Rightarrow> nat + server_session \<Rightarrow> request \<Rightarrow> guard \<Rightarrow> nat option" where
  "guard_refuses db sess rq Anyone = None"
| "guard_refuses db sess rq AnySession = left sess"
| "guard_refuses db (Inl e) rq g = Some e"
| "guard_refuses db (Inr s) rq Enrolment = left (get_enrollment_ctx db s)"
| "guard_refuses db (Inr s) rq SignedIn = left (get_current_user db s)"
| "guard_refuses db (Inr s) rq (Org act) = left (require_org act db s)"
| "guard_refuses db (Inr s) rq (Tenant act) = left (require_tenant act db (request_tenant rq) s)"

text \<open>The dependencies of the decorator are resolved before those of the handler's arguments. A request
  to no endpoint is not found.\<close>

definition refused :: "database \<Rightarrow> nat + server_session \<Rightarrow> request \<Rightarrow> nat option" where
  "refused db sess rq =
     (case endpoint_for (rq_method rq) (rq_path rq) of
        None \<Rightarrow> Some 404
      | Some e \<Rightarrow>
          (case (if ep_csrf e then case sess of Inl c \<Rightarrow> Some c | Inr s \<Rightarrow> left (enforce_csrf rq s) else None) of
             Some c \<Rightarrow> Some c
           | None \<Rightarrow> guard_refuses db sess rq (ep_guard e)))"

section \<open>Looking up an endpoint\<close>

lemma left_simps [simp]: "left (Inl e) = Some e" "left (Inr v) = None"
  by (simp_all add: left_def)

lemma route_sel [simp]:
  "ep_method (route m path csrf g) = m" "ep_path (route m path csrf g) = path"
  "ep_csrf (route m path csrf g) = csrf" "ep_guard (route m path csrf g) = g"
  by (simp_all add: route_def)

text \<open>No two endpoints share method and path. Paths are compared from their ends, where they differ.\<close>

definition route_key :: "endpoint \<Rightarrow> http_method \<times> string" where
  "route_key e = (ep_method e, rev (ep_path e))"

lemmas routes_listed = app_routes_def router_defs append.simps

lemma route_keys_distinct: "distinct (map route_key app_routes)"
  by (simp only: routes_listed list.map route_key_def route_sel rev.simps append.simps distinct.simps
      list.set insert_iff empty_iff prod.inject http_method.simps list.inject char.inject list.distinct simp_thms)

lemma endpoint_for_own: "list_all (\<lambda>e. endpoint_for (ep_method e) (ep_path e) = Some e) app_routes"
proof -
  have inj: "inj_on route_key (set app_routes)" using route_keys_distinct by (simp add: distinct_map)
  have "endpoint_for m path = find (\<lambda>e. route_key e = (m, rev path)) app_routes" for m path
    by (auto simp: endpoint_for_def route_key_def intro: arg_cong [where f = "\<lambda>P. find P app_routes"])
  then show ?thesis using find_key [OF _ inj] by (simp add: list_all_iff) (simp add: route_key_def)
qed

text \<open>The endpoint of each method and path.\<close>

lemmas endpoint_facts = endpoint_for_own [unfolded routes_listed list.pred_inject(2) list.pred_inject(1) [THEN eqTrueI] route_sel simp_thms(21)]

end
