(* ===== verification/Pages.thy ===== *)
theory Pages
  imports Session QueryCoherence
begin

text \<open>
  What the pages ask of the service. For every page and every component it mounts, the queries it runs
  (\<open>_queries\<close>) and the mutations that its visible controls can start (\<open>_actions\<close>), composed as the
  components nest. The arguments are the local state a hook reads: the active tenant \<open>a\<close>, the device
  \<open>dv\<close> of the route, the selection of the component, and the time at which it mounted. Whether a list
  has loaded only removes components, so it is not an argument; the permission flags, which also remove
  controls, are.

  Every panel of a tab list is mounted, whichever tab is shown. The three report hooks that call
  \<open>fetch\<close> themselves are not listed here.
\<close>

section \<open>Overview, devices, alerts, perimeter\<close>

definition AttackerCountriesCard_queries :: "int \<Rightarrow> string option \<Rightarrow> query list" where
  "AttackerCountriesCard_queries mounted a = [useAttackerCountries mounted a None None]"

definition PerimeterCard_queries :: "int \<Rightarrow> string option \<Rightarrow> perimeter_kind \<Rightarrow> query list" where
  "PerimeterCard_queries mounted a kind = [usePerimeterAttackers mounted a kind None (Some 5)]"

definition ReliabilityCard_queries :: "int \<Rightarrow> string option \<Rightarrow> query list" where
  "ReliabilityCard_queries mounted a = [useReliabilitySummary mounted a]"

definition ConfigAuditCard_queries :: "int \<Rightarrow> string option \<Rightarrow> query list" where
  "ConfigAuditCard_queries mounted a = [useConfigAuditSummary mounted a]"

definition OverviewPage_queries :: "int \<Rightarrow> string option \<Rightarrow> query list" where
  "OverviewPage_queries mounted a =
     [useTenantHealth a, useAlerts a True] @ AttackerCountriesCard_queries mounted a
     @ PerimeterCard_queries mounted a LoginFailed @ PerimeterCard_queries mounted a FirewallBlock
     @ ReliabilityCard_queries mounted a @ ConfigAuditCard_queries mounted a"

definition AlertsPage_queries :: "string option \<Rightarrow> string \<Rightarrow> query list" where
  "AlertsPage_queries a mode = [useAlerts a (mode = ''active'')]"

definition PerimeterTable_queries :: "int \<Rightarrow> string option \<Rightarrow> perimeter_kind \<Rightarrow> int \<Rightarrow> query list" where
  "PerimeterTable_queries mounted a kind windowDays = [usePerimeterAttackers mounted a kind (Some windowDays) (Some 100)]"

definition PerimeterPage_queries :: "int \<Rightarrow> string option \<Rightarrow> int \<Rightarrow> query list" where
  "PerimeterPage_queries mounted a windowDays =
     PerimeterTable_queries mounted a LoginFailed windowDays @ PerimeterTable_queries mounted a FirewallBlock windowDays"

definition DevicesPage_queries :: "string option \<Rightarrow> query list" where
  "DevicesPage_queries a = [DevicesPage_query a]"

text \<open>The button that opens the dialog is there for every user; the dialog needs an active tenant.\<close>

definition DevicesPage_actions :: "string option \<Rightarrow> device_form \<Rightarrow> mutation list" where
  "DevicesPage_actions a form =
     (case a of None \<Rightarrow> [] | Some t \<Rightarrow> if t = [] then [] else [DeviceCreateModal_mutation t form])"

section \<open>The page of a device\<close>

text \<open>The local state of the panels.\<close>

record device_ui =
  du_range :: range
  du_preview :: "string option"
  du_configure :: "string option"
  du_selected :: "string option"
  du_baseline :: "string option"
  du_pane :: string
  du_change :: string
  du_template :: string
  du_profile :: string
  du_schedule :: "string option"
  du_forwarding :: bool
  du_body :: json

definition DeviceActions_actions :: "string \<Rightarrow> string \<Rightarrow> mutation list" where
  "DeviceActions_actions tenantId deviceId = [DeviceActions_test tenantId deviceId, DeviceActions_remove tenantId deviceId]"

definition HEALTH_METRICS :: "string list" where
  "HEALTH_METRICS = [''cpu.pct'', ''mem.pct'', ''disk.pct'', ''iface.bytes_in'', ''iface.bytes_out'', ''gateway.rtt_ms'',
     ''gateway.loss_pct'', ''vpn.up'']"

definition ChartFor_queries :: "string option \<Rightarrow> string \<Rightarrow> string \<Rightarrow> range \<Rightarrow> query list" where
  "ChartFor_queries a dv metric r = [useDeviceMetrics a (Some dv) metric r]"

definition HealthSection_queries :: "string option \<Rightarrow> string \<Rightarrow> range \<Rightarrow> query list" where
  "HealthSection_queries a dv r =
     useMetricLabels a (Some dv) # concat (map (\<lambda>metric. ChartFor_queries a dv metric r) HEALTH_METRICS)"

definition ReliabilityTab_infinite :: "string option \<Rightarrow> string \<Rightarrow> infinite_query list" where
  "ReliabilityTab_infinite a dv = [useReliabilityEvents a dv]"

definition ConfigAuditTab_infinite :: "string option \<Rightarrow> string \<Rightarrow> infinite_query list" where
  "ConfigAuditTab_infinite a dv = [useConfigAuditEvents a dv]"

definition ChangesPanel_queries :: "string option \<Rightarrow> string \<Rightarrow> device_ui \<Rightarrow> query list" where
  "ChangesPanel_queries a dv u = [useConfigChanges a (Some dv), useDriftCheck a dv, usePreviewChange a dv (du_preview u)]"

definition ChangesPanel_actions :: "bool \<Rightarrow> string option \<Rightarrow> string \<Rightarrow> device_ui \<Rightarrow> mutation list" where
  "ChangesPanel_actions canEdit a dv u =
     (if canEdit then [useCreateChange a dv (du_body u), useScheduleChange a dv (du_change u) (du_schedule u),
                       useCancelChange a dv (du_change u), useRevertChange a dv (du_change u)] else [])"

definition ConfigTab_queries :: "string option \<Rightarrow> string \<Rightarrow> device_ui \<Rightarrow> query list" where
  "ConfigTab_queries a dv u =
     [useConfigModel a (Some dv), useConfigCapabilities a (Some dv)] @ ChangesPanel_queries a dv u"

definition FirmwareActions_queries :: "string option \<Rightarrow> string \<Rightarrow> query list" where
  "FirmwareActions_queries a dv = [useFirmwareActions a dv]"

definition FirmwareActions_actions :: "string option \<Rightarrow> string \<Rightarrow> device_ui \<Rightarrow> mutation list" where
  "FirmwareActions_actions a dv u = [useFirmwareCheck a dv, useCreateFirmwareAction a dv (du_body u)]"

definition LogForwardingCard_queries :: "string option \<Rightarrow> string \<Rightarrow> query list" where
  "LogForwardingCard_queries a dv = [useLogForwardingStatus a dv]"

definition LogForwardingCard_actions :: "bool \<Rightarrow> string option \<Rightarrow> string \<Rightarrow> bool \<Rightarrow> mutation list" where
  "LogForwardingCard_actions canWrite a dv enabled =
     (if canWrite then
        (if \<not> enabled then [useEnableLogForwarding a dv]
         else [useRotateLogForwarding a dv, useRevokeLogForwarding a dv None, useDisableLogForwarding a dv])
      else [])"

definition PluginsTab_queries :: "string option \<Rightarrow> string \<Rightarrow> device_ui \<Rightarrow> query list" where
  "PluginsTab_queries a dv u = [useDevicePlugins a dv, usePluginModels a dv, useCatalogModel a dv (du_configure u)]"

definition PluginsTab_actions :: "bool \<Rightarrow> string option \<Rightarrow> string \<Rightarrow> device_ui \<Rightarrow> mutation list" where
  "PluginsTab_actions canWrite a dv u =
     (if canWrite then [useCreateFirmwareAction a dv (du_body u), useProposeCatalogChange a dv (du_body u)] else [])"

definition ApplyTemplateTab_queries :: "query list" where
  "ApplyTemplateTab_queries = [useTemplates]"

definition ApplyTemplateTab_actions :: "string option \<Rightarrow> string \<Rightarrow> device_ui \<Rightarrow> mutation list" where
  "ApplyTemplateTab_actions a dv u =
     [useFirewallRuleModel a dv, useUpsertOverride a (du_template u) (du_body u),
      usePreviewTemplate a dv (du_template u) (du_body u),
      useApplyTemplate a dv (du_template u) (du_schedule u) (du_body u)]"

definition ApplyProfileSection_queries :: "query list" where
  "ApplyProfileSection_queries = [useProfiles]"

definition ApplyProfileSection_actions :: "string option \<Rightarrow> string \<Rightarrow> device_ui \<Rightarrow> mutation list" where
  "ApplyProfileSection_actions a dv u =
     [usePreviewProfile a dv (du_profile u) (du_body u),
      useApplyProfile a dv (du_profile u) (du_schedule u) (du_body u), useFirewallRuleModel a dv]"

definition CatalogEditorTab_queries :: "string option \<Rightarrow> string \<Rightarrow> device_ui \<Rightarrow> query list" where
  "CatalogEditorTab_queries a dv u =
     [useDeviceCatalog a dv, useCatalogModel a dv (du_selected u), useCatalogDiff a dv (du_baseline u),
      useConfigMap a (if du_pane u = ''map'' then dv else [])]"

definition CatalogEditorTab_actions :: "string option \<Rightarrow> string \<Rightarrow> device_ui \<Rightarrow> mutation list" where
  "CatalogEditorTab_actions a dv u = [useProposeCatalogChange a dv (du_body u)]"

text \<open>The panels show once the device has loaded.\<close>

definition DeviceDetailPage_queries :: "string option \<Rightarrow> string option \<Rightarrow> device_ui \<Rightarrow> query list" where
  "DeviceDetailPage_queries a deviceId u =
     DeviceDetailPage_query a deviceId #
     (case deviceId of None \<Rightarrow> [] | Some dv \<Rightarrow> if dv = [] then [] else
        HealthSection_queries a dv (du_range u) @ ConfigTab_queries a dv u @ FirmwareActions_queries a dv
        @ LogForwardingCard_queries a dv @ PluginsTab_queries a dv u @ ApplyTemplateTab_queries
        @ ApplyProfileSection_queries @ CatalogEditorTab_queries a dv u)"

definition DeviceDetailPage_infinite :: "string option \<Rightarrow> string option \<Rightarrow> infinite_query list" where
  "DeviceDetailPage_infinite a deviceId =
     (case deviceId of None \<Rightarrow> [] | Some dv \<Rightarrow> if dv = [] then [] else
        ReliabilityTab_infinite a dv @ ConfigAuditTab_infinite a dv)"

text \<open>The mutations of the panels that ask for the permission flags, and of those that do not.\<close>

definition DeviceDetailPage_checked :: "permissions \<Rightarrow> string option \<Rightarrow> string option \<Rightarrow> device_ui \<Rightarrow> mutation list" where
  "DeviceDetailPage_checked p a deviceId u =
     (case deviceId of None \<Rightarrow> [] | Some dv \<Rightarrow> if dv = [] then [] else
        ChangesPanel_actions (isOperator p) a dv u @ LogForwardingCard_actions (isOperator p) a dv (du_forwarding u)
        @ PluginsTab_actions (isOperator p) a dv u)"

definition DeviceDetailPage_unchecked :: "string option \<Rightarrow> string option \<Rightarrow> device_ui \<Rightarrow> mutation list" where
  "DeviceDetailPage_unchecked a deviceId u =
     (case deviceId of None \<Rightarrow> [] | Some dv \<Rightarrow> if dv = [] then [] else
        (case a of None \<Rightarrow> [] | Some t \<Rightarrow> if t = [] then [] else DeviceActions_actions t dv)
        @ FirmwareActions_actions a dv u @ ApplyTemplateTab_actions a dv u
        @ ApplyProfileSection_actions a dv u @ CatalogEditorTab_actions a dv u)"

section \<open>Reports and logs\<close>

definition ReportsPage_queries :: "string option \<Rightarrow> query list" where
  "ReportsPage_queries a = [useGeneratedReports a]"

definition RetentionCard_queries :: "string option \<Rightarrow> query list" where
  "RetentionCard_queries a = [useRetention a]"

definition ReportSettingsForm_queries :: "string option \<Rightarrow> query list" where
  "ReportSettingsForm_queries a = [useReportSettings a, useReportLanguages a] @ RetentionCard_queries a"

definition ReportSettingsForm_actions :: "string option \<Rightarrow> json \<Rightarrow> mutation list" where
  "ReportSettingsForm_actions a body = [useUpdateReportSettings a body, useDeleteLogo a, useUpdateRetention a body]"

definition ReportSettingsPage_queries :: "permissions \<Rightarrow> string option \<Rightarrow> query list" where
  "ReportSettingsPage_queries p a = (if \<not> isTenantAdmin p then [] else ReportSettingsForm_queries a)"

definition ReportSettingsPage_actions :: "permissions \<Rightarrow> string option \<Rightarrow> json \<Rightarrow> mutation list" where
  "ReportSettingsPage_actions p a body = (if \<not> isTenantAdmin p then [] else ReportSettingsForm_actions a body)"

definition ReportSchedulePage_queries :: "string option \<Rightarrow> query list" where
  "ReportSchedulePage_queries a = [useReportSchedules a, useTenantDevices a]"

definition ScheduleEditor_actions :: "string option \<Rightarrow> string option \<Rightarrow> json \<Rightarrow> mutation list" where
  "ScheduleEditor_actions a existing body =
     useUpsertReportSchedule a body # (case existing of None \<Rightarrow> [] | Some i \<Rightarrow> [useSendScheduleNow a i])"

definition ReportSchedulePage_actions :: "permissions \<Rightarrow> string option \<Rightarrow> string option \<Rightarrow> json \<Rightarrow> mutation list" where
  "ReportSchedulePage_actions p a existing body =
     (if \<not> isTenantAdmin p then [] else ScheduleEditor_actions a existing body)"

definition LogsPage_queries :: "string option \<Rightarrow> query list" where
  "LogsPage_queries a = [useTenantDevices a]"

definition LogsPage_actions :: "permissions \<Rightarrow> string option \<Rightarrow> json \<Rightarrow> mutation list" where
  "LogsPage_actions p a body = (if \<not> isOperator p then [] else [useLogSearch a body])"

section \<open>Security\<close>

definition SessionsPage_queries :: "query list" where
  "SessionsPage_queries = [useSessions]"

definition SessionsPage_actions :: "mutation list" where
  "SessionsPage_actions = [useLogoutAll]"

definition PasskeysSection_queries :: "bool \<Rightarrow> query list" where
  "PasskeysSection_queries supported = [useWebAuthnCredentials supported]"

definition TrustedDevicesSection_queries :: "query list" where
  "TrustedDevicesSection_queries = [useTrustedDevices True]"

definition TrustedDevicesSection_actions :: "string \<Rightarrow> mutation list" where
  "TrustedDevicesSection_actions i = [useRevokeTrustedDevice i, useRevokeAllTrustedDevices]"

definition MfaManage_actions :: "string \<Rightarrow> mutation list" where
  "MfaManage_actions password = [useMfaRegenerate password, useMfaDisable password]"

definition MfaEnrollFlow_actions :: "string \<Rightarrow> string \<Rightarrow> mutation list" where
  "MfaEnrollFlow_actions password code = [useMfaSetup password, useMfaConfirm code]"

definition superadmin_panel :: "auth_state \<Rightarrow> bool" where
  "superadmin_panel s = (case as_me s of None \<Rightarrow> False | Some m \<Rightarrow> is_superadmin m)"

text \<open>The panel by the status of the account: a second factor enabled, passkeys configured, trusted devices
  enabled.\<close>

record mfa_ui =
  mu_enabled :: bool
  mu_webauthn :: bool
  mu_trusted :: bool
  mu_supported :: bool

definition MfaPanel_queries :: "auth_state \<Rightarrow> mfa_ui \<Rightarrow> query list" where
  "MfaPanel_queries s u =
     [useMfaStatus]
     @ (if mu_webauthn u then PasskeysSection_queries (mu_supported u) else [])
     @ (if mu_trusted u then TrustedDevicesSection_queries else [])
     @ (if superadmin_panel s then [useMfaPolicy, useTrustedDeviceToggle, useUsers] else [])"

definition MfaPanel_actions :: "auth_state \<Rightarrow> mfa_ui \<Rightarrow> string \<Rightarrow> string \<Rightarrow> string \<Rightarrow> bool \<Rightarrow> mutation list" where
  "MfaPanel_actions s u password text i flag =
     (if mu_enabled u then MfaManage_actions password else MfaEnrollFlow_actions password text)
     @ (if mu_webauthn u then [useRemovePasskey i] else [])
     @ (if mu_trusted u then TrustedDevicesSection_actions i else [])
     @ (if superadmin_panel s then [useSetMfaPolicy text, useSetTrustedDeviceToggle flag, useResetUserMfa i] else [])"

section \<open>Administration\<close>

definition GroupsPage_queries :: "query list" where
  "GroupsPage_queries = [useGroups, useUsers, useAllTenants]"

definition GroupsPage_actions :: "string \<Rightarrow> string \<Rightarrow> string list \<Rightarrow> json \<Rightarrow> mutation list" where
  "GroupsPage_actions i j users body =
     [useCreateGroup body, useDeleteGroup i, useUpdateGroup i body, useSetGroupMembers i users,
      useAddGroupGrant i body, useDeleteGroupGrant i j]"

text \<open>The template library with the dialogs of templates and profiles; the forms inspect a device of the
  active tenant.\<close>

definition TemplateLibraryPage_queries :: "string option \<Rightarrow> query list" where
  "TemplateLibraryPage_queries a = [useTemplates, useProfiles, useSettingEndpoints, useTenantDevices a]"

definition TemplateLibraryPage_actions :: "string option \<Rightarrow> string \<Rightarrow> string \<Rightarrow> string \<Rightarrow> json \<Rightarrow> mutation list" where
  "TemplateLibraryPage_actions a dv i key body =
     [useDeleteTemplate i, useCreateTemplate body, useUpdateTemplate i body, useDeleteProfile i, useCreateProfile body,
      useUpdateProfile i body, useIdsRulesets a dv, useFirewallRuleModel a dv, useMonitTestModel a dv,
      useIntrospectSetting a dv key]"

definition SmtpSettingsPage_queries :: "query list" where
  "SmtpSettingsPage_queries = [useSmtpSettings]"

definition SmtpSettingsPage_actions :: "string \<Rightarrow> json \<Rightarrow> mutation list" where
  "SmtpSettingsPage_actions provider body = [useUpdateSmtpSettings body, useTestSmtp body, useSmtpOAuthConnect provider]"

definition LogFleetPage_queries :: "string option \<Rightarrow> string \<Rightarrow> query list" where
  "LogFleetPage_queries tenant window = [useLogFleet window, useSilentTenantAlerts, useLogFleetDevices tenant window]"

definition LogFleetPage_actions :: "string \<Rightarrow> string \<Rightarrow> mutation list" where
  "LogFleetPage_actions window format = [downloadLogFleet window format]"

definition SystemSettingsPage_queries :: "query list" where
  "SystemSettingsPage_queries = [useLivePush, useRuntimeSettings]"

definition SystemSettingsPage_actions :: "bool \<Rightarrow> json \<Rightarrow> mutation list" where
  "SystemSettingsPage_actions enabled vals = [useSetLivePush enabled, useUpdateRuntimeSettings vals]"

definition AuditPage_queries :: "json option obj \<Rightarrow> query list" where
  "AuditPage_queries filters = [useAuditQuery filters]"

definition AuditPage_actions :: "json option obj \<Rightarrow> mutation list" where
  "AuditPage_actions filters = [downloadAuditCsv filters]"

end
