(* ===== verification/Gateway.thy ===== *)
theory Gateway
  imports Endpoints Pages Login
begin

text \<open>
  The frontend against the service's gate: every request that a page makes, or that a control of a page can
  start, put to the endpoint table and the guards of the service, with the user, the tenants and the roles
  that the service itself reported to the frontend.
\<close>

section \<open>The pages of the shell\<close>

text \<open>The queries that run, and the mutations that can be started, while a page is shown: one rule per page.
  The tenant provider of the shell and the authentication provider run theirs on every page.\<close>

inductive page_query :: "auth_state \<Rightarrow> permissions \<Rightarrow> string option \<Rightarrow> string \<Rightarrow> query \<Rightarrow> bool" for s p a where
  "page_query s p a page AuthProvider_query"
| "page_query s p a page TenantProvider_query"
| "q \<in> set (OverviewPage_queries mounted a) \<Longrightarrow> page_query s p a ''OverviewPage'' q"
| "q \<in> set (DevicesPage_queries a) \<Longrightarrow> page_query s p a ''DevicesPage'' q"
| "q \<in> set (DeviceDetailPage_queries a deviceId u) \<Longrightarrow> page_query s p a ''DeviceDetailPage'' q"
| "q \<in> set (AlertsPage_queries a mode) \<Longrightarrow> page_query s p a ''AlertsPage'' q"
| "q \<in> set (PerimeterPage_queries mounted a windowDays) \<Longrightarrow> page_query s p a ''PerimeterPage'' q"
| "q \<in> set (ReportsPage_queries a) \<Longrightarrow> page_query s p a ''ReportsPage'' q"
| "q \<in> set (ReportSettingsPage_queries p a) \<Longrightarrow> page_query s p a ''ReportSettingsPage'' q"
| "q \<in> set (ReportSchedulePage_queries a) \<Longrightarrow> page_query s p a ''ReportSchedulePage'' q"
| "q \<in> set (LogsPage_queries a) \<Longrightarrow> page_query s p a ''LogsPage'' q"
| "q \<in> set SessionsPage_queries \<Longrightarrow> page_query s p a ''SessionsPage'' q"
| "q \<in> set (MfaPanel_queries s mu) \<Longrightarrow> page_query s p a ''MfaPage'' q"
| "q \<in> set GroupsPage_queries \<Longrightarrow> page_query s p a ''GroupsPage'' q"
| "q \<in> set (TemplateLibraryPage_queries a) \<Longrightarrow> page_query s p a ''TemplateLibraryPage'' q"
| "q \<in> set SmtpSettingsPage_queries \<Longrightarrow> page_query s p a ''SmtpSettingsPage'' q"
| "q \<in> set (LogFleetPage_queries tenant window) \<Longrightarrow> page_query s p a ''LogFleetPage'' q"
| "q \<in> set SystemSettingsPage_queries \<Longrightarrow> page_query s p a ''SystemSettingsPage'' q"
| "q \<in> set (AuditPage_queries filters) \<Longrightarrow> page_query s p a ''AuditPage'' q"

inductive page_infinite :: "string option \<Rightarrow> string \<Rightarrow> infinite_query \<Rightarrow> bool" for a where
  "iq \<in> set (DeviceDetailPage_infinite a deviceId) \<Longrightarrow> page_infinite a ''DeviceDetailPage'' iq"

inductive page_action :: "auth_state \<Rightarrow> permissions \<Rightarrow> string option \<Rightarrow> string \<Rightarrow> mutation \<Rightarrow> bool" for s p a where
  "m \<in> set (DeviceDetailPage_checked p a deviceId u) \<Longrightarrow> page_action s p a ''DeviceDetailPage'' m"
| "m \<in> set (ReportSettingsPage_actions p a body) \<Longrightarrow> page_action s p a ''ReportSettingsPage'' m"
| "m \<in> set (ReportSchedulePage_actions p a existing body) \<Longrightarrow> page_action s p a ''ReportSchedulePage'' m"
| "m \<in> set (LogsPage_actions p a body) \<Longrightarrow> page_action s p a ''LogsPage'' m"
| "m \<in> set SessionsPage_actions \<Longrightarrow> page_action s p a ''SessionsPage'' m"
| "m \<in> set (MfaPanel_actions s mu password text i flag) \<Longrightarrow> page_action s p a ''MfaPage'' m"
| "m \<in> set (GroupsPage_actions i j users body) \<Longrightarrow> page_action s p a ''GroupsPage'' m"
| "m \<in> set (TemplateLibraryPage_actions a dv i key body) \<Longrightarrow> page_action s p a ''TemplateLibraryPage'' m"
| "m \<in> set (SmtpSettingsPage_actions provider body) \<Longrightarrow> page_action s p a ''SmtpSettingsPage'' m"
| "m \<in> set (LogFleetPage_actions window format) \<Longrightarrow> page_action s p a ''LogFleetPage'' m"
| "m \<in> set (SystemSettingsPage_actions flag vals) \<Longrightarrow> page_action s p a ''SystemSettingsPage'' m"
| "m \<in> set (AuditPage_actions filters) \<Longrightarrow> page_action s p a ''AuditPage'' m"

text \<open>The mutations of the components that do not consult the permission flags.\<close>

inductive unchecked_action :: "string option \<Rightarrow> string \<Rightarrow> mutation \<Rightarrow> bool" for a where
  "m \<in> set (DevicesPage_actions a form) \<Longrightarrow> unchecked_action a ''DevicesPage'' m"
| "m \<in> set (DeviceDetailPage_unchecked a deviceId u) \<Longrightarrow> unchecked_action a ''DeviceDetailPage'' m"

section \<open>The gate of a request\<close>

definition gate_of :: "request \<Rightarrow> (bool \<times> guard) option" where
  "gate_of rq = map_option (\<lambda>e. (ep_csrf e, ep_guard e)) (endpoint_for (rq_method rq) (rq_path rq))"

lemmas gate_simps = gate_of_def endpoint_facts hook_simps Let_def route_sel option.map

lemma tenant_query_gate: "tenant_query a q \<Longrightarrow> gate_of (q_request q now) = Some (False, Tenant DEVICE_VIEW)"
  by (erule tenant_query.cases) (simp_all add: tenant_query_defs gate_simps rangeFrom_def defaultRange_def)

lemma tenant_infinite_gate: "tenant_infinite a q \<Longrightarrow> gate_of (iq_request q p) = Some (False, Tenant DEVICE_VIEW)"
  by (erule tenant_infinite.cases)
     (simp_all add: useReliabilityEvents_def useConfigAuditEvents_def event_page_request_def gate_simps)

text \<open>The guard of every query that no tenant owns.\<close>

lemma global_query_gates:
  "gate_of (q_request useSettingEndpoints now) = Some (False, SignedIn)"
  "gate_of (q_request useProfiles now) = Some (False, SignedIn)"
  "gate_of (q_request useSmtpSettings now) = Some (False, Org USER_MANAGE)"
  "gate_of (q_request useLivePush now) = Some (False, Org SYSTEM_MANAGE)"
  "gate_of (q_request useRuntimeSettings now) = Some (False, Org SYSTEM_MANAGE)"
  "gate_of (q_request (useAuditQuery filters) now) = Some (False, Org AUDIT_VIEW)"
  "gate_of (q_request useGroups now) = Some (False, Org GROUP_MANAGE)"
  "gate_of (q_request useAllTenants now) = Some (False, SignedIn)"
  "gate_of (q_request useMfaStatus now) = Some (False, Enrolment)"
  "gate_of (q_request (useWebAuthnCredentials en) now) = Some (False, Enrolment)"
  "gate_of (q_request useMfaPolicy now) = Some (False, Org USER_MANAGE)"
  "gate_of (q_request useUsers now) = Some (False, Org USER_MANAGE)"
  "gate_of (q_request useTrustedDeviceToggle now) = Some (False, Org USER_MANAGE)"
  "gate_of (q_request useSessions now) = Some (False, SignedIn)"
  "gate_of (q_request (useTrustedDevices en) now) = Some (False, SignedIn)"
  "gate_of (q_request useSilentTenantAlerts now) = Some (False, Org LOG_FLEET_VIEW)"
  "gate_of (q_request (useLogFleet window) now) = Some (False, Org LOG_FLEET_VIEW)"
  "gate_of (q_request (useLogFleetDevices tid window) now) = Some (False, Org LOG_FLEET_VIEW)"
  "gate_of (q_request useTemplates now) = Some (False, SignedIn)"
  "gate_of (q_request AuthProvider_query now) = Some (False, Enrolment)"
  "gate_of (q_request TenantProvider_query now) = Some (False, SignedIn)"
  by (simp_all add: global_query_defs gate_simps)

text \<open>And of every mutation.\<close>

lemma tenant_mutation_gates:
  "gate_of (m_request (useCreateChange a dv body)) = Some (True, Tenant CONFIG_PUSH)"
  "gate_of (m_request (useScheduleChange a dv c sched)) = Some (True, Tenant CONFIG_PUSH)"
  "gate_of (m_request (useCancelChange a dv c)) = Some (True, Tenant CONFIG_PUSH)"
  "gate_of (m_request (useRevertChange a dv c)) = Some (True, Tenant CONFIG_PUSH)"
  "gate_of (m_request (useProposeCatalogChange a dv body)) = Some (True, Tenant CONFIG_PUSH)"
  "gate_of (m_request (useFirmwareCheck a dv)) = Some (True, Tenant DEVICE_VIEW)"
  "gate_of (m_request (useCreateFirmwareAction a dv body)) = Some (True, Tenant CONFIG_PUSH)"
  "gate_of (m_request (useEnableLogForwarding a dv)) = Some (True, Tenant CONFIG_PUSH)"
  "gate_of (m_request (useDisableLogForwarding a dv)) = Some (True, Tenant CONFIG_PUSH)"
  "gate_of (m_request (useRotateLogForwarding a dv)) = Some (True, Tenant CONFIG_PUSH)"
  "gate_of (m_request (useRevokeLogForwarding a dv reason)) = Some (True, Tenant CONFIG_PUSH)"
  "gate_of (m_request (useLogSearch a body)) = Some (False, Tenant LOG_VIEW)"
  "gate_of (m_request (DeviceActions_test t dv)) = Some (True, Tenant DEVICE_WRITE)"
  "gate_of (m_request (DeviceActions_remove t dv)) = Some (True, Tenant DEVICE_WRITE)"
  "gate_of (m_request (DeviceCreateModal_mutation t form)) = Some (True, Tenant DEVICE_WRITE)"
  "gate_of (m_request (useUpsertReportSchedule a body)) = Some (True, Tenant REPORT_CONFIG)"
  "gate_of (m_request (useDeleteReportSchedule a c)) = Some (True, Tenant REPORT_CONFIG)"
  "gate_of (m_request (useSendScheduleNow a c)) = Some (True, Tenant REPORT_CONFIG)"
  "gate_of (m_request (useUpdateReportSettings a body)) = Some (True, Tenant REPORT_CONFIG)"
  "gate_of (m_request (useDeleteLogo a)) = Some (True, Tenant REPORT_CONFIG)"
  "gate_of (m_request (useUpdateRetention a body)) = Some (True, Tenant RETENTION_CONFIG)"
  "gate_of (m_request (useIdsRulesets a dv)) = Some (False, Tenant DEVICE_VIEW)"
  "gate_of (m_request (useFirewallRuleModel a dv)) = Some (False, Tenant DEVICE_VIEW)"
  "gate_of (m_request (useMonitTestModel a dv)) = Some (False, Tenant DEVICE_VIEW)"
  "gate_of (m_request (useIntrospectSetting a dv c)) = Some (False, Tenant DEVICE_VIEW)"
  "gate_of (m_request (useUpsertOverride a c body)) = Some (True, Tenant CONFIG_PUSH)"
  "gate_of (m_request (usePreviewTemplate a dv c body)) = Some (True, Tenant CONFIG_PUSH)"
  "gate_of (m_request (useApplyTemplate a dv c sched body)) = Some (True, Tenant CONFIG_PUSH)"
  "gate_of (m_request (usePreviewProfile a dv c body)) = Some (True, Tenant CONFIG_PUSH)"
  "gate_of (m_request (useApplyProfile a dv c sched body)) = Some (True, Tenant CONFIG_PUSH)"
  by (simp_all add: tenant_mutation_defs gate_simps)

lemma global_mutation_gates:
  "gate_of (m_request (useCreateProfile body)) = Some (True, Org TEMPLATE_MANAGE)"
  "gate_of (m_request (useUpdateProfile c body)) = Some (True, Org TEMPLATE_MANAGE)"
  "gate_of (m_request (useDeleteProfile c)) = Some (True, Org TEMPLATE_MANAGE)"
  "gate_of (m_request (useUpdateSmtpSettings body)) = Some (True, Org USER_MANAGE)"
  "gate_of (m_request (useTestSmtp body)) = Some (True, Org USER_MANAGE)"
  "gate_of (m_request (useSmtpOAuthConnect c)) = Some (False, Org USER_MANAGE)"
  "gate_of (m_request (useSetLivePush en)) = Some (True, Org SYSTEM_MANAGE)"
  "gate_of (m_request (useUpdateRuntimeSettings body)) = Some (True, Org SYSTEM_MANAGE)"
  "gate_of (m_request (downloadAuditCsv filters)) = Some (False, Org AUDIT_VIEW)"
  "gate_of (m_request (useCreateGroup body)) = Some (True, Org GROUP_MANAGE)"
  "gate_of (m_request (useUpdateGroup c body)) = Some (True, Org GROUP_MANAGE)"
  "gate_of (m_request (useDeleteGroup c)) = Some (True, Org GROUP_MANAGE)"
  "gate_of (m_request (useSetGroupMembers c us)) = Some (True, Org GROUP_MANAGE)"
  "gate_of (m_request (useAddGroupGrant c body)) = Some (True, Org GROUP_MANAGE)"
  "gate_of (m_request (useDeleteGroupGrant c c')) = Some (True, Org GROUP_MANAGE)"
  "gate_of (m_request (useMfaSetup c)) = Some (True, Enrolment)"
  "gate_of (m_request (useMfaConfirm c)) = Some (True, Enrolment)"
  "gate_of (m_request (useMfaDisable c)) = Some (True, SignedIn)"
  "gate_of (m_request (useMfaRegenerate c)) = Some (True, SignedIn)"
  "gate_of (m_request (useRemovePasskey c)) = Some (True, SignedIn)"
  "gate_of (m_request (useSetMfaPolicy c)) = Some (True, Org USER_MANAGE)"
  "gate_of (m_request (useSetTrustedDeviceToggle en)) = Some (True, Org USER_MANAGE)"
  "gate_of (m_request (useResetUserMfa c)) = Some (True, Org USER_MANAGE)"
  "gate_of (m_request useLogoutAll) = Some (True, AnySession)"
  "gate_of (m_request (useRevokeTrustedDevice c)) = Some (True, SignedIn)"
  "gate_of (m_request useRevokeAllTrustedDevices) = Some (True, SignedIn)"
  "gate_of (m_request (downloadLogFleet c c')) = Some (False, Org LOG_FLEET_VIEW)"
  "gate_of (m_request (useCreateTemplate body)) = Some (True, Org TEMPLATE_MANAGE)"
  "gate_of (m_request (useUpdateTemplate c body)) = Some (True, Org TEMPLATE_MANAGE)"
  "gate_of (m_request (useDeleteTemplate c)) = Some (True, Org TEMPLATE_MANAGE)"
  by (simp_all add: global_mutation_defs gate_simps)

lemmas gates = global_query_gates tenant_mutation_gates global_mutation_gates

section \<open>What the guards decide\<close>

definition signed_in :: "database \<Rightarrow> server_session \<Rightarrow> account \<Rightarrow> bool" where
  "signed_in db sess user \<longleftrightarrow> se_kind sess = ''full'' \<and> get_user db (se_user sess) = Some user"

lemma refused_gate:
  "gate_of rq = Some (csrf, g) \<Longrightarrow> refused db (Inr sess) rq =
     (case (if csrf then left (enforce_csrf rq sess) else None) of
        Some c \<Rightarrow> Some c | None \<Rightarrow> guard_refuses db (Inr sess) rq g)"
  by (auto simp: gate_of_def refused_def)

lemma refused_read:
  "gate_of rq = Some (False, g) \<Longrightarrow> refused db (Inr sess) rq = guard_refuses db (Inr sess) rq g"
  by (drule refused_gate) simp

lemma org_admits:
  "signed_in db sess user \<Longrightarrow> ac_superadmin user \<Longrightarrow> guard_refuses db (Inr sess) rq (Org act) = None"
  by (simp add: signed_in_def require_org_def get_current_user_def)

lemma self_admits:
  assumes "signed_in db sess user"
  shows "left (get_current_user db sess) = None" "left (get_enrollment_ctx db sess) = None"
  using assms by (auto simp: signed_in_def get_current_user_def get_enrollment_ctx_def)

lemma tenant_admits:
  assumes ok: "tenants_ok order db" and u: "signed_in db sess user"
    and t: "request_tenant rq \<in> mt_id ` set (my_tenants order db user)"
  shows "guard_refuses db (Inr sess) rq (Tenant act) =
    (if can (ac_superadmin user) (active_role (my_tenants order db user) (Some (request_tenant rq))) act then None else Some 403)"
proof -
  obtain row where row: "row \<in> set (db_tenants db)" "request_tenant rq = tn_id row"
    using listed_tenant [OF ok t] .
  then have known: "get_tenant db (request_tenant rq) \<noteq> None" by (auto simp: get_tenant_None)
  have role: "ac_superadmin user \<or> resolve_effective_role db user (request_tenant rq) \<noteq> None"
    using t listed_iff [OF ok row(1)] row(2) by simp
  show ?thesis
    using u known role active_role_effective [OF ok row(1)] row(2)
    by (auto simp: require_tenant_def tenant_context_def signed_in_def get_current_user_def)
qed

text \<open>A tenant of the list can always be viewed.\<close>

lemma listed_can_view:
  assumes "tenants_ok order db" and "i \<in> mt_id ` set (my_tenants order db user)"
  shows "can (ac_superadmin user) (active_role (my_tenants order db user) (Some i)) DEVICE_VIEW"
proof -
  obtain row where row: "row \<in> set (db_tenants db)" "i = tn_id row" using listed_tenant [OF assms] .
  show ?thesis
    using listed_iff [OF assms(1) row(1), of user] active_role_effective [OF assms(1) row(1), of user] assms(2) row(2)
      role_can_view
    by (auto simp: resolve_effective_role_def)
qed

section \<open>Reads\<close>

lemmas page_queries_defs = OverviewPage_queries_def AttackerCountriesCard_queries_def PerimeterCard_queries_def
  ReliabilityCard_queries_def ConfigAuditCard_queries_def AlertsPage_queries_def PerimeterTable_queries_def
  PerimeterPage_queries_def DevicesPage_queries_def HealthSection_queries_def ChartFor_queries_def HEALTH_METRICS_def
  ChangesPanel_queries_def ConfigTab_queries_def FirmwareActions_queries_def LogForwardingCard_queries_def
  PluginsTab_queries_def ApplyTemplateTab_queries_def ApplyProfileSection_queries_def CatalogEditorTab_queries_def
  DeviceDetailPage_queries_def ReportsPage_queries_def RetentionCard_queries_def ReportSettingsForm_queries_def
  ReportSettingsPage_queries_def ReportSchedulePage_queries_def LogsPage_queries_def SessionsPage_queries_def
  PasskeysSection_queries_def TrustedDevicesSection_queries_def MfaPanel_queries_def GroupsPage_queries_def
  TemplateLibraryPage_queries_def SmtpSettingsPage_queries_def LogFleetPage_queries_def SystemSettingsPage_queries_def
  AuditPage_queries_def

lemma superadmin_panel_iff: "superadmin_panel s = is_super s"
  by (simp add: superadmin_panel_def is_super_def)

text \<open>A query of a page is owned by the active tenant, or serves the signed-in user, or is one of an
  administrator's and only runs for one.\<close>

lemma page_query_kind:
  assumes "page_query s p a page q"
  shows "tenant_query a q \<or> (\<exists>g. gate_of (q_request q now) = Some (False, g) \<and>
    (g \<in> {Enrolment, SignedIn} \<or> (\<exists>act. g = Org act) \<and> (page \<in> admin_pages \<or> is_super s)))"
  using assms
  by (cases rule: page_query.cases)
     (auto simp: page_queries_defs global_query_gates admin_pages_def superadmin_panel_iff
       intro: tenant_query.intros split: option.splits if_splits)

lemma page_infinite_kind: "page_infinite a page iq \<Longrightarrow> tenant_infinite a iq"
  by (erule page_infinite.cases)
     (auto simp: DeviceDetailPage_infinite_def ReliabilityTab_infinite_def ConfigAuditTab_infinite_def
       intro: tenant_infinite.intros split: option.splits if_splits)

lemma shown_admin:
  "App pick s path = Page page \<Longrightarrow> path \<noteq> ''/login'' \<Longrightarrow> page \<in> admin_pages \<Longrightarrow> is_super s"
  using routes_guard by (auto simp: App_def ProtectedRoute_def nullish_or_def split: option.splits if_splits)

lemma request_tenant_jopt: "obj_get (rq_params rq) ''tenant_id'' = Some (jopt (Some t)) \<Longrightarrow> request_tenant rq = t"
  by (simp add: request_tenant_def)

text \<open>What the frontend knows of the session and of the tenants, as the service reported it.\<close>

definition reported :: "account \<Rightarrow> server_session \<Rightarrow> auth_state" where
  "reported user sess = \<lparr>as_me = Some (me_out user sess), as_loading = False\<rparr>"

lemma is_super_reported [simp]: "is_super (reported user sess) = ac_superadmin user"
  by (simp add: is_super_def reported_def me_out_def)

lemma session_active:
  assumes "session ts st tp" and "\<not> qs_loading (tp_query tp)" and "ts \<noteq> []"
  obtains t where "tp_activeId tp = Some t" "t \<in> mt_id ` set ts"
proof -
  from session_query [OF assms(1)] assms(2) have "tp_tenants tp = ts" by (auto simp: tp_tenants_def)
  then show thesis using activeId_in_list [OF assms(2)] assms(3) that by auto
qed


section \<open>Writes\<close>

lemmas page_actions_defs = DevicesPage_actions_def DeviceActions_actions_def ChangesPanel_actions_def
  FirmwareActions_actions_def LogForwardingCard_actions_def PluginsTab_actions_def ApplyTemplateTab_actions_def
  ApplyProfileSection_actions_def CatalogEditorTab_actions_def DeviceDetailPage_checked_def DeviceDetailPage_unchecked_def
  ReportSettingsForm_actions_def ReportSettingsPage_actions_def ScheduleEditor_actions_def ReportSchedulePage_actions_def
  LogsPage_actions_def SessionsPage_actions_def TrustedDevicesSection_actions_def MfaManage_actions_def
  MfaEnrollFlow_actions_def MfaPanel_actions_def GroupsPage_actions_def TemplateLibraryPage_actions_def
  SmtpSettingsPage_actions_def LogFleetPage_actions_def SystemSettingsPage_actions_def AuditPage_actions_def

text \<open>The flag of the frontend that stands for an action of the service.\<close>

definition flag_for :: "permissions \<Rightarrow> action \<Rightarrow> bool" where
  "flag_for p act =
     (if act = DEVICE_VIEW then True
      else if act \<in> {DEVICE_WRITE, CONFIG_PUSH, REPORT_GENERATE, LOG_VIEW} then isOperator p
      else if act \<in> {REPORT_CONFIG, RETENTION_CONFIG, MEMBERSHIP_MANAGE} then isTenantAdmin p
      else False)"

lemma flag_for_can:
  assumes "flag_for (usePermissions s ts a) act" and "can (is_super s) (active_role ts a) DEVICE_VIEW"
  shows "can (is_super s) (active_role ts a) act"
  using assms by (cases "is_super s") (auto simp: flag_for_def session_simps is_super_nullish split: if_splits)

lemma can_operator: "isOperator (usePermissions s ts a) = can (is_super s) (active_role ts a) CONFIG_PUSH"
  by (cases "is_super s") (auto simp: session_simps is_super_nullish)

text \<open>A mutation that a page offers belongs to the active tenant and its flag is set, or is the user's own, or
  an administrator's.\<close>

fun guard_fits :: "bool \<Rightarrow> permissions \<Rightarrow> guard \<Rightarrow> bool" where
  "guard_fits super p (Org act) = super"
| "guard_fits super p (Tenant act) = flag_for p act"
| "guard_fits super p g = True"

definition fits :: "bool \<Rightarrow> permissions \<Rightarrow> string option \<Rightarrow> mutation \<Rightarrow> bool" where
  "fits super p a m \<longleftrightarrow>
     (case gate_of (m_request m) of
        None \<Rightarrow> False
      | Some (csrf, g) \<Rightarrow> guard_fits super p g \<and> ((\<exists>act. g = Tenant act) \<longrightarrow> tenant_mutation a m))"

lemmas fits_simps = fits_def gates tenant_mutation.intros flag_for_def

lemma device_page_fits:
  "m \<in> set (DeviceDetailPage_checked p a deviceId u) \<Longrightarrow> fits super p a m"
proof -
  have "\<forall>m \<in> set (DeviceDetailPage_checked p a deviceId u). fits super p a m"
    by (cases deviceId; cases "isOperator p") (simp_all add: page_actions_defs fits_simps)
  then show "m \<in> set (DeviceDetailPage_checked p a deviceId u) \<Longrightarrow> fits super p a m" by blast
qed

lemma tenant_pages_fit:
  "\<forall>m \<in> set (ReportSettingsPage_actions p a body). fits super p a m"
  "\<forall>m \<in> set (ReportSchedulePage_actions p a existing body). fits super p a m"
  "\<forall>m \<in> set (LogsPage_actions p a body). fits super p a m"
  by (cases "isTenantAdmin p"; cases existing; cases "isOperator p"; simp add: page_actions_defs fits_simps)+

lemma own_pages_fit:
  "\<forall>m \<in> set SessionsPage_actions. fits super p a m"
  "\<forall>m \<in> set (MfaPanel_actions s mu password text i flag). fits (is_super s) p a m"
  by (cases "is_super s"; cases "mu_enabled mu"; cases "mu_webauthn mu"; cases "mu_trusted mu";
      simp add: page_actions_defs fits_simps superadmin_panel_iff)+

lemma admin_pages_fit:
  "\<forall>m \<in> set (GroupsPage_actions i j users body). fits True p a m"
  "\<forall>m \<in> set (TemplateLibraryPage_actions a dv i key body). fits True p a m"
  "\<forall>m \<in> set (SmtpSettingsPage_actions provider body). fits True p a m"
  "\<forall>m \<in> set (LogFleetPage_actions window format). fits True p a m"
  "\<forall>m \<in> set (SystemSettingsPage_actions flag vals). fits True p a m"
  "\<forall>m \<in> set (AuditPage_actions filters). fits True p a m"
  by (simp_all add: page_actions_defs fits_simps)

lemma page_action_fits:
  assumes "page_action s p a page m" and "page \<in> admin_pages \<Longrightarrow> is_super s"
  shows "fits (is_super s) p a m"
  using assms
  by (cases rule: page_action.cases)
     (use device_page_fits tenant_pages_fit own_pages_fit admin_pages_fit in \<open>auto simp: admin_pages_def\<close>)

text \<open>What the panels without a check start is a read, or a write that an operator may do.\<close>

definition operator_fits :: "string option \<Rightarrow> mutation \<Rightarrow> bool" where
  "operator_fits a m \<longleftrightarrow>
     (case gate_of (m_request m) of
        Some (csrf, Tenant act) \<Rightarrow> act \<in> {DEVICE_VIEW, DEVICE_WRITE, CONFIG_PUSH} \<and> tenant_mutation a m
      | _ \<Rightarrow> False)"

lemma operator_fitsD:
  assumes "operator_fits a m"
  shows "\<exists>csrf act. gate_of (m_request m) = Some (csrf, Tenant act) \<and> act \<in> {DEVICE_VIEW, DEVICE_WRITE, CONFIG_PUSH}
    \<and> tenant_mutation a m"
proof (cases "gate_of (m_request m)")
  case (Some e)
  then show ?thesis using assms by (cases e; cases "snd e") (simp_all add: operator_fits_def)
qed (use assms in \<open>simp add: operator_fits_def\<close>)

lemma unchecked_action_fits:
  assumes "unchecked_action a page m"
  shows "operator_fits a m"
  using assms
proof (cases rule: unchecked_action.cases)
  case (1 form)
  then show ?thesis
    by (auto simp: page_actions_defs gates operator_fits_def tenant_mutation.intros split: option.splits if_splits)
next
  case (2 deviceId u)
  have "\<forall>m \<in> set (DeviceDetailPage_unchecked a deviceId u). operator_fits a m"
    by (cases deviceId; cases a) (simp_all add: page_actions_defs gates operator_fits_def tenant_mutation.intros)
  with 2 show ?thesis by blast
qed

text \<open>A request as it leaves the client, with the cookie of the session in the browser.\<close>

definition sent_with :: "(string \<Rightarrow> string option) \<Rightarrow> string \<Rightarrow> server_session \<Rightarrow> request \<Rightarrow> request \<Rightarrow> bool" where
  "sent_with decode cookie sess rq rq' \<longleftrightarrow>
     csrfMiddleware decode cookie rq = Some rq' \<and> csrfToken decode cookie = Some (se_csrf_token sess) \<and> se_csrf_token sess \<noteq> []"

lemma sent_with_gate:
  assumes "sent_with decode cookie sess rq rq'"
  shows "gate_of rq' = gate_of rq" "request_tenant rq' = request_tenant rq" "enforce_csrf rq' sess = Inr ()"
  using assms
  by (auto simp: sent_with_def csrfMiddleware_def mutating_method gate_of_def request_tenant_def enforce_csrf_def rec.get_put
      split: if_splits)

lemma sent_refused:
  assumes "sent_with decode cookie sess rq rq'" and "gate_of rq = Some (csrf, g)"
  shows "refused db (Inr sess) rq' = guard_refuses db (Inr sess) rq' g"
  using refused_gate [of rq' csrf g db sess] assms sent_with_gate [OF assms(1)] by simp

definition only_views :: "mutation \<Rightarrow> bool" where
  "only_views m \<longleftrightarrow> (case gate_of (m_request m) of Some (csrf, g) \<Rightarrow> g = Tenant DEVICE_VIEW | None \<Rightarrow> False)"


text \<open>A user who is an operator of one tenant and a reader of another, in a browser that remembers either.\<close>

definition sample_run :: "string \<Rightarrow> tenant_state" where
  "sample_run t = render ((render (TenantProvider_mount \<lparr>qs_loading = True, qs_data = None\<rparr> (Stored (Some t))))
     \<lparr>tp_query := \<lparr>qs_loading = False, qs_data = Some (my_tenants (\<lambda>ts. ts) (sample_db False) (sample_account False))\<rparr>\<rparr>)"

lemma sample_my_tenants:
  "my_tenants (\<lambda>ts. ts) (sample_db False) (sample_account False) =
     [\<lparr>mt_id = ''t1'', mt_name = ''A'', mt_slug = ''a'', mt_role = Some ''operator''\<rparr>,
      \<lparr>mt_id = ''t2'', mt_name = ''B'', mt_slug = ''b'', mt_role = Some ''read_only''\<rparr>]"
  by (simp add: my_tenants_def tenants_for_user_def granted_def sample_db_def sample_account_def bump_def highest_role_def
      ROLE_RANK_def Let_def obj_get_def tenant_out_def obj_has_iff)

lemma sample_run_ok:
  "session (my_tenants (\<lambda>ts. ts) (sample_db False) (sample_account False)) (Stored (Some t)) (sample_run t)"
  "\<not> qs_loading (tp_query (sample_run t))" "my_tenants (\<lambda>ts. ts) (sample_db False) (sample_account False) \<noteq> []"
  "t \<in> {''t1'', ''t2''} \<Longrightarrow> tp_activeId (sample_run t) = Some t"
  unfolding sample_run_def
     apply (intro session.intros)
  by (auto simp: tp_activeId_def effectiveActive_def render_def TenantProvider_mount_def tp_tenants_def sample_my_tenants Let_def)

lemma sample_signed_in: "signed_in (sample_db False) (sample_session ''full'') (sample_account False)"
  by (simp add: signed_in_def sample_session_def sample_db_def get_user_def sample_account_def)

definition exact :: "string list \<Rightarrow> string \<Rightarrow> string option" where
  "exact ps p = (if p = ''/devices/d1'' then Some ''/devices/:deviceId'' else List.find (\<lambda>q. q = p) ps)"

lemma sample_device_page:
  "App exact (reported (sample_account False) (sample_session ''full'')) ''/devices/d1'' = Page ''DeviceDetailPage''"
  by (simp add: App_def ProtectedRoute_def reported_def me_out_def sample_session_def exact_def AppShell_routes_def)

definition sample_device_ui :: device_ui where
  "sample_device_ui = \<lparr>du_range = R24h, du_preview = None, du_configure = None, du_selected = Some ''m'', du_baseline = None,
     du_pane = ''menu'', du_change = ''c'', du_template = ''x'', du_profile = ''y'', du_schedule = None,
     du_forwarding = False, du_body = JNull\<rparr>"



end
