(* ===== verification/SessionKinds.thy ===== *)
theory SessionKinds
  imports Gateway
begin

text \<open>
  What a session lets a browser do before it is a full one, and how the browser proves that a request
  comes from the frontend: which endpoints each kind of session reaches, the enrolment gate of the
  frontend against them, and the token's way from the cookie that the service sets through the frontend's
  middleware to the check of the service.
\<close>

section \<open>Endpoints by kind of session\<close>

text \<open>The endpoints open to a session that still owes the second factor, and those open to one that owes the
  enrolment of one.\<close>

definition PENDING_ROUTES :: "(http_method \<times> string) list" where
  "PENDING_ROUTES =
     [(POST, ''/api/setup''), (POST, ''/api/login''), (POST, ''/api/login/mfa''), (POST, ''/api/login/webauthn/begin''),
      (POST, ''/api/login/webauthn/complete''), (POST, ''/api/logout''), (POST, ''/api/logout-all'')]"

definition ENROLMENT_ROUTES :: "(http_method \<times> string) list" where
  "ENROLMENT_ROUTES = PENDING_ROUTES @
     [(GET, ''/api/me''), (GET, ''/api/me/mfa''), (POST, ''/api/me/mfa/setup''), (POST, ''/api/me/mfa/confirm''),
      (POST, ''/api/me/mfa/webauthn/register/begin''), (POST, ''/api/me/mfa/webauthn/register/complete''),
      (GET, ''/api/me/mfa/webauthn/credentials'')]"

definition kind_routes :: "string \<Rightarrow> (http_method \<times> string) list" where
  "kind_routes kind = (if kind = ''mfa_setup'' then ENROLMENT_ROUTES else PENDING_ROUTES)"

lemma pending_guards:
  "map (\<lambda>e. (ep_method e, ep_path e)) (filter (\<lambda>e. ep_guard e = Anyone \<or> ep_guard e = AnySession) app_routes) = PENDING_ROUTES"
  by (simp only: routes_listed filter.simps list.map route_sel guard.simps simp_thms if_True if_False PENDING_ROUTES_def
      cong: if_weak_cong)

lemma enrolment_guards:
  "map (\<lambda>e. (ep_method e, ep_path e)) (filter (\<lambda>e. ep_guard e = Enrolment) app_routes) = drop 7 ENROLMENT_ROUTES"
  by (simp add: ENROLMENT_ROUTES_def PENDING_ROUTES_def)
     (simp only: routes_listed filter.simps list.map route_sel guard.simps simp_thms if_True if_False
      cong: if_weak_cong)

lemma anyone_guards:
  "map (\<lambda>e. (ep_method e, ep_path e)) (filter (\<lambda>e. ep_guard e = Anyone) app_routes) = take 2 PENDING_ROUTES"
  by (simp add: PENDING_ROUTES_def)
     (simp only: routes_listed filter.simps list.map route_sel guard.simps simp_thms if_True if_False
      cong: if_weak_cong)

lemma guard_routes:
  assumes "map (\<lambda>e. (ep_method e, ep_path e)) (filter (\<lambda>e. P (ep_guard e)) app_routes) = rs"
  shows "endpoint_for m path = Some e \<Longrightarrow> P (ep_guard e) \<Longrightarrow> (m, path) \<in> set rs"
    and "(m, path) \<in> set rs \<Longrightarrow> \<exists>e. endpoint_for m path = Some e \<and> P (ep_guard e)"
proof -
  show "(m, path) \<in> set rs" if "endpoint_for m path = Some e" "P (ep_guard e)"
  proof -
    from that(1) have "e \<in> set app_routes" "ep_method e = m" "ep_path e = path"
      unfolding endpoint_for_def by (auto simp: find_Some_iff)
    with that(2) show ?thesis unfolding assms [symmetric] by force
  qed
  show "\<exists>e. endpoint_for m path = Some e \<and> P (ep_guard e)" if "(m, path) \<in> set rs"
    using that endpoint_for_own unfolding assms [symmetric] list_all_iff by auto
qed

lemma kind_guards:
  assumes "se_kind sess \<noteq> ''full''" and "guard_refuses db (Inr sess) rq g = None"
  shows "g = Anyone \<or> g = AnySession \<or> g = Enrolment \<and> se_kind sess = ''mfa_setup''"
  using assms
  by (cases g) (auto simp: get_enrollment_ctx_def get_current_user_def require_org_def require_tenant_def tenant_context_def
      split: if_splits)

lemma refused_None:
  "refused db s rq = None \<Longrightarrow> \<exists>e. endpoint_for (rq_method rq) (rq_path rq) = Some e \<and> guard_refuses db s rq (ep_guard e) = None"
  by (auto simp: refused_def split: option.splits)

lemma set_enrolment_routes: "set ENROLMENT_ROUTES = set PENDING_ROUTES \<union> set (drop 7 ENROLMENT_ROUTES)"
proof -
  have "take 7 ENROLMENT_ROUTES = PENDING_ROUTES" by (simp add: ENROLMENT_ROUTES_def PENDING_ROUTES_def)
  then show ?thesis by (metis append_take_drop_id set_append)
qed

text \<open>What a session of a kind reaches, and that with a good token it does.\<close>

lemma kind_reaches:
  assumes "se_kind sess \<noteq> ''full''" and "refused db (Inr sess) rq = None"
  shows "(rq_method rq, rq_path rq) \<in> set (kind_routes (se_kind sess))"
proof -
  obtain e where e: "endpoint_for (rq_method rq) (rq_path rq) = Some e" "guard_refuses db (Inr sess) rq (ep_guard e) = None"
    using refused_None [OF assms(2)] by blast
  from kind_guards [OF assms(1) e(2)] show ?thesis
    using guard_routes(1) [OF pending_guards e(1)] guard_routes(1) [OF enrolment_guards e(1)]
    by (auto simp: kind_routes_def set_enrolment_routes)
qed

lemma kind_served:
  assumes "(rq_method rq, rq_path rq) \<in> set (kind_routes (se_kind sess))" and "get_user db (se_user sess) \<noteq> None"
    and "enforce_csrf rq sess = Inr ()"
  shows "refused db (Inr sess) rq = None"
proof -
  have "\<exists>e. endpoint_for (rq_method rq) (rq_path rq) = Some e \<and>
      (ep_guard e = Anyone \<or> ep_guard e = AnySession \<or> ep_guard e = Enrolment \<and> se_kind sess = ''mfa_setup'')"
    using assms(1) guard_routes(2) [OF pending_guards] guard_routes(2) [OF enrolment_guards]
    by (fastforce simp: kind_routes_def set_enrolment_routes split: if_splits)
  then show ?thesis using assms(2,3) by (auto simp: refused_def get_enrollment_ctx_def)
qed

lemma no_session_reaches:
  assumes "refused db (Inl c) rq = None"
  shows "(rq_method rq, rq_path rq) \<in> set (take 2 PENDING_ROUTES)"
proof -
  obtain e where e: "endpoint_for (rq_method rq) (rq_path rq) = Some e" "guard_refuses db (Inl c) rq (ep_guard e) = None"
    using refused_None [OF assms] by blast
  then have "ep_guard e = Anyone" by (cases "ep_guard e") auto
  then show ?thesis using guard_routes(1) [OF anyone_guards e(1)] by simp
qed



section \<open>The token's way\<close>

text \<open>The cookies of the browser as a list of names and values, and the string the browser shows of them. A
  cookie has no semicolon in it, and its name no equals sign and no leading white space.\<close>

definition cookie_text :: "string \<times> string \<Rightarrow> string" where
  "cookie_text c = fst c @ CHR ''='' # snd c"

definition document_cookie :: "(string \<times> string) list \<Rightarrow> string" where
  "document_cookie jar = js_join ''; '' (map cookie_text jar)"

definition jar_ok :: "(string \<times> string) list \<Rightarrow> bool" where
  "jar_ok jar \<longleftrightarrow> (\<forall>(n, v) \<in> set jar. CHR '';'' \<notin> set n \<and> CHR '';'' \<notin> set v \<and> CHR ''='' \<notin> set n
     \<and> n \<noteq> [] \<and> \<not> is_ws (hd n))"

lemma split_cookies:
  "ws \<noteq> [] \<Longrightarrow> \<forall>w \<in> set ws. CHR '';'' \<notin> set w \<Longrightarrow>
     split_on CHR '';'' (js_join ''; '' ws) = hd ws # map ((#) CHR '' '') (tl ws)"
proof (induction "''; ''" ws rule: js_join.induct)
  case (2 w)
  then show ?case unfolding split_on_def by (subst split_by_free) auto
next
  case (3 w v ws)
  have "split_on CHR '';'' (CHR '' '' # js_join ''; '' (v # ws)) =
      (CHR '' '' # hd (split_on CHR '';'' (js_join ''; '' (v # ws)))) # tl (split_on CHR '';'' (js_join ''; '' (v # ws)))"
    unfolding split_on_def by (simp split: list.split)
  moreover have "split_on CHR '';'' (w @ CHR '';'' # CHR '' '' # js_join ''; '' (v # ws)) =
      w # split_on CHR '';'' (CHR '' '' # js_join ''; '' (v # ws))"
    unfolding split_on_def using 3 by (intro split_by_append_sep) auto
  ultimately show ?case using 3 by simp
qed simp

lemma trim_left_fresh: "n \<noteq> [] \<Longrightarrow> \<not> is_ws (hd n) \<Longrightarrow> trim_left (CHR '' '' # n) = n"
  by (cases n) (simp_all add: trim_left_def is_ws_def)

lemma pieces_of_jar: "jar_ok jar \<Longrightarrow> jar \<noteq> [] \<Longrightarrow> cookie_pieces (document_cookie jar) = map cookie_text jar"
proof -
  assume ok: "jar_ok jar" and ne: "jar \<noteq> []"
  have "\<forall>w \<in> set (map cookie_text jar). CHR '';'' \<notin> set w" using ok by (auto simp: jar_ok_def cookie_text_def)
  then have "split_on CHR '';'' (document_cookie jar) = hd (map cookie_text jar) # map ((#) CHR '' '') (tl (map cookie_text jar))"
    unfolding document_cookie_def using ne by (intro split_cookies) auto
  moreover have "trim_left (CHR '' '' # cookie_text c) = cookie_text c" if "c \<in> set jar" for c
    using ok that by (intro trim_left_fresh) (auto simp: jar_ok_def cookie_text_def hd_append)
  ultimately show ?thesis
    using ne by (cases jar) (auto simp: cookie_pieces_def)
qed

lemma names_csrf:
  assumes "CHR ''='' \<notin> set n"
  shows "starts_with (cookie_text (n, v)) csrf_lit \<longleftrightarrow> n = ''opngms_csrf''"
    and "n = ''opngms_csrf'' \<Longrightarrow> drop (length csrf_lit) (cookie_text (n, v)) = v"
proof -
  show "starts_with (cookie_text (n, v)) csrf_lit \<longleftrightarrow> n = ''opngms_csrf''"
  proof
    assume "starts_with (cookie_text (n, v)) csrf_lit"
    then obtain r where r: "n @ CHR ''='' # v = ''opngms_csrf'' @ CHR ''='' # r"
      unfolding starts_with_iff csrf_lit_def cookie_text_def by auto
    then have "takeWhile (\<lambda>c. c \<noteq> CHR ''='') (n @ CHR ''='' # v) = takeWhile (\<lambda>c. c \<noteq> CHR ''='') (''opngms_csrf'' @ CHR ''='' # r)"
      by simp
    then show "n = ''opngms_csrf''" using takeWhile_sep [OF assms] by simp
  qed (simp add: cookie_text_def csrf_lit_def)
qed (simp add: cookie_text_def csrf_lit_def)

lemma csrf_of_jar:
  assumes "jar_ok jar"
  shows "csrf_match (document_cookie jar) = map_of jar ''opngms_csrf''"
proof (cases "jar = []")
  case True
  then show ?thesis by (simp add: document_cookie_def csrf_match_def after_lit_def csrf_lit_def)
next
  case False
  have "map_option (drop (length csrf_lit)) (find (\<lambda>p. starts_with p csrf_lit) (map cookie_text jar)) = map_of jar ''opngms_csrf''"
    using assms
  proof (induction jar)
    case (Cons c jar)
    then show ?case
      using names_csrf [of "fst c" "snd c"] by (auto simp: jar_ok_def)
  qed simp
  with False assms show ?thesis by (simp add: csrf_match_reference csrf_reference_def pieces_of_jar)
qed

text \<open>What decoding is relied on for: it leaves a string without a percent sign as it is. The tokens of the
  service are URL-safe.\<close>

definition decodes_plain :: "(string \<Rightarrow> string option) \<Rightarrow> bool" where
  "decodes_plain decode \<longleftrightarrow> (\<forall>s. CHR ''%'' \<notin> set s \<longrightarrow> decode s = Some s)"

text \<open>C23. The token survives the way from the service to the service. Whatever other cookies the browser
  holds and in whatever order: when the cookie the service set at sign-in is among them, a mutating request
  leaves the middleware and passes the service's check exactly when the token is that of the session it
  arrives with; without the cookie the request leaves with an empty token and is refused with status 403.\<close>

theorem token_roundtrip:
  assumes "jar_ok jar" and "decodes_plain decode" and "rq_method rq \<noteq> GET"
    and "\<And>tok. map_of jar ''opngms_csrf'' = Some tok \<Longrightarrow> CHR ''%'' \<notin> set tok"
  shows "\<exists>rq'. csrfMiddleware decode (document_cookie jar) rq = Some rq' \<and>
    enforce_csrf rq' sess =
      (if map_of jar ''opngms_csrf'' = Some (se_csrf_token sess) \<and> se_csrf_token sess \<noteq> [] then Inr () else Inl 403)"
proof -
  let ?tok = "case map_of jar ''opngms_csrf'' of None \<Rightarrow> [] | Some tok \<Rightarrow> tok"
  have "csrfToken decode (document_cookie jar) = Some ?tok"
    using assms(2,4) by (auto simp: csrfToken_def csrf_of_jar [OF assms(1)] decodes_plain_def split: option.split)
  then have sent: "csrfMiddleware decode (document_cookie jar) rq = Some (rq\<lparr>rq_headers := obj_set ''X-OPNGMS-CSRF'' ?tok (rq_headers rq)\<rparr>)"
    using assms(3) by (simp add: csrfMiddleware_def mutating_method)
  have "rq_method rq \<in> {POST, PUT, PATCH, DELETE}" using assms(3) by (cases "rq_method rq") auto
  then have "enforce_csrf (rq\<lparr>rq_headers := obj_set ''X-OPNGMS-CSRF'' ?tok (rq_headers rq)\<rparr>) sess =
      (if map_of jar ''opngms_csrf'' = Some (se_csrf_token sess) \<and> se_csrf_token sess \<noteq> [] then Inr () else Inl 403)"
    by (cases "map_of jar ''opngms_csrf''") (auto simp: enforce_csrf_def rec.get_put)
  with sent show ?thesis by blast
qed

theorem token_roundtrip_witness:
  "\<exists>rq'. csrfMiddleware Some (document_cookie [(''lang'', ''it''), (''opngms_csrf'', ''tok'')]) logout_request = Some rq'
     \<and> enforce_csrf rq' (sample_session ''full'') = Inr ()"
  using token_roundtrip [of "[(''lang'', ''it''), (''opngms_csrf'', ''tok'')]" Some logout_request "sample_session ''full''"]
  by (auto simp: jar_ok_def decodes_plain_def logout_request_def api_call_def sample_session_def is_ws_def)

end
