(* ===== verification/SessionCache.thy ===== *)
theory SessionCache
  imports Session QueryCoherence Login
begin

text \<open>
  The query cache of a browser tab over the sessions that come and go in it: signing in
  (\<^verbatim>\<open>pages/LoginPage.tsx\<close>), signing out (\<^verbatim>\<open>components/AppShell.tsx\<close>,
  \<^verbatim>\<open>security/sessionHooks.ts\<close>), and the re-reading of the user
  (\<^verbatim>\<open>auth/AuthProvider.tsx\<close>). The cache remembers for every key whose session fetched the entry; the
  entry of the user query is kept apart, since it decides who the frontend believes is signed in.
\<close>

section \<open>The tab\<close>

text \<open>The user of the session behind the cookie, the user the frontend shows, the owners of the entries.\<close>

record tab =
  tb_session :: "string option"
  tb_me :: "string option"
  tb_cache :: "json list \<Rightarrow> string option"

definition new_tab :: "string option \<Rightarrow> tab" where
  "new_tab u = \<lparr>tb_session = u, tb_me = None, tb_cache = (\<lambda>_. None)\<rparr>"

text \<open>An operation on the cache, of a success handler or of the sign-out. An invalidated entry stays until
  its next answer; refreshing reads the user again.\<close>

fun tab_op :: "cache_op \<Rightarrow> tab \<Rightarrow> tab" where
  "tab_op ClearCache b = b\<lparr>tb_cache := (\<lambda>_. None), tb_me := None\<rparr>"
| "tab_op RefreshMe b = b\<lparr>tb_me := tb_session b\<rparr>"
| "tab_op (SetData k v) b = b\<lparr>tb_cache := (tb_cache b)(k := tb_session b)\<rparr>"
| "tab_op _ b = b"

definition tab_ops :: "cache_op list \<Rightarrow> tab \<Rightarrow> tab" where
  "tab_ops ops b = foldl (\<lambda>b opn. tab_op opn b) b ops"

text \<open>What happens in a tab. A reply to the sign-in form carries the user; a fetch of a page happens while a
  user is shown and is answered for the session behind the cookie; a session may also end, or be replaced,
  without this tab's doing.\<close>

datatype event = SignedInAs string | Fetched "json list" | Mutated mutation "json option" | LoggedOut api_result bool
  | LoggedOutAll api_result | MeRead | Expired | SignedInElsewhere string

fun tab_step :: "event \<Rightarrow> tab \<Rightarrow> tab" where
  "tab_step (SignedInAs u) b = (if tb_me b = None then b\<lparr>tb_session := Some u, tb_me := Some u\<rparr> else b)"
| "tab_step (Fetched k) b =
     (if tb_me b = None \<or> tb_session b = None then b else b\<lparr>tb_cache := (tb_cache b)(k := tb_session b)\<rparr>)"
| "tab_step (Mutated m d) b = (if tb_me b = None \<or> tb_session b = None then b else tab_ops (m_success m d) b)"
| "tab_step (LoggedOut r ended) b =
     (if tb_me b = None then b
      else tab_ops (logout r) (if r \<noteq> Rejected \<and> ended then b\<lparr>tb_session := None\<rparr> else b))"
| "tab_step (LoggedOutAll r) b =
     (if tb_me b = None then b
      else (case m_fn useLogoutAll r of
              Inl _ \<Rightarrow> b
            | Inr d \<Rightarrow> tab_ops (m_success useLogoutAll d) (b\<lparr>tb_session := None\<rparr>)))"
| "tab_step MeRead b = b\<lparr>tb_me := tb_session b\<rparr>"
| "tab_step Expired b = b\<lparr>tb_session := None\<rparr>"
| "tab_step (SignedInElsewhere u) b = b\<lparr>tb_session := Some u\<rparr>"

definition tab_run :: "event list \<Rightarrow> tab \<Rightarrow> tab" where
  "tab_run es b = foldl (\<lambda>b e. tab_step e b) b es"

text \<open>The events of a tab in which sessions end by signing out in this very tab. No mutation of the application
  but signing out of all sessions clears the cache.\<close>

fun orderly :: "event \<Rightarrow> bool" where
  "orderly Expired = False"
| "orderly (SignedInElsewhere u) = False"
| "orderly (Mutated m d) = (ClearCache \<notin> set (m_success m d))"
| "orderly _ = True"

lemma mutations_keep_cache:
  "tenant_mutation a m \<or> global_mutation m \<and> m \<noteq> useLogoutAll \<Longrightarrow> orderly (Mutated m d)"
  by (elim disjE conjE tenant_mutation.cases global_mutation.cases)
     (simp_all add: tenant_mutation_defs global_mutation_defs mk_mutation_def invalidates_def no_ops_def)

section \<open>Whose entries a user finds\<close>

definition own_entries :: "tab \<Rightarrow> bool" where
  "own_entries b \<longleftrightarrow> (\<forall>k u. tb_cache b k = Some u \<longrightarrow> tb_me b = Some u)"

definition tab_inv :: "tab \<Rightarrow> bool" where
  "tab_inv b \<longleftrightarrow> own_entries b \<and> (tb_me b \<noteq> None \<longrightarrow> tb_me b = tb_session b)"

lemma tab_op_inv:
  assumes "tab_inv b" and "tb_me b = tb_session b" and "opn \<noteq> ClearCache"
  shows "tab_inv (tab_op opn b) \<and> tb_me (tab_op opn b) = tb_session (tab_op opn b)"
  using assms by (cases opn) (auto simp: tab_inv_def own_entries_def)

lemma tab_ops_inv:
  "tab_inv b \<Longrightarrow> tb_me b = tb_session b \<Longrightarrow> ClearCache \<notin> set ops \<Longrightarrow> tab_inv (tab_ops ops b)"
proof (induction ops arbitrary: b)
  case (Cons opn ops)
  then show ?case using tab_op_inv [of b opn] by (auto simp: tab_ops_def)
qed (simp add: tab_ops_def)

lemma sign_out_inv: "tab_inv (tab_ops [ClearCache, RefreshMe, Goto p] b)"
  by (simp add: tab_ops_def tab_inv_def own_entries_def)

lemma tab_step_inv: "tab_inv b \<Longrightarrow> orderly e \<Longrightarrow> tab_inv (tab_step e b)"
proof (induction e b rule: tab_step.induct)
  case (3 m d b)
  have "tb_me b = tb_session b" if "tb_me b \<noteq> None" using 3 that unfolding tab_inv_def by blast
  then show ?case
    using 3 tab_ops_inv [of b "m_success m d"] by (cases "tb_me b = None \<or> tb_session b = None") simp_all
next
  case (4 r ended b)
  then show ?case using sign_out_inv by (cases r) (auto simp: tab_ops_def)
next
  case (5 r b)
  then show ?case using sign_out_inv by (cases r) (auto simp: useLogoutAll_def mk_mutation_def)
qed (auto simp: tab_inv_def own_entries_def)

lemma tab_run_inv: "tab_inv b \<Longrightarrow> \<forall>e \<in> set es. orderly e \<Longrightarrow> tab_inv (tab_run es b)"
  by (induction es arbitrary: b) (simp_all add: tab_run_def tab_step_inv)



end
