(* ===== verification/RateLimit.thy ===== *)
theory RateLimit
  imports Prelude Complex_Main
begin

text \<open>
  The limiter in front of the sign-in (\<^verbatim>\<open>backend/app/core/ratelimit.py\<close>): a map from keys to the times of
  recent failures, ordered by last use and bounded in size. The ordered map is an association list with the
  least recently used key first; times are real numbers of seconds.

  The specification keeps every failure since the last success of a key and counts those within the window;
  the limiter is proved to give the same answers while no key has to be evicted.
\<close>

section \<open>The limiter\<close>

record limiter =
  lm_max_keys :: nat
  lm_hits :: "(string \<times> real list) list"

definition SlidingWindowLimiter :: "nat \<Rightarrow> limiter" where
  "SlidingWindowLimiter max_keys = \<lparr>lm_max_keys = max_keys, lm_hits = []\<rparr>"

definition hits_of :: "limiter \<Rightarrow> string \<Rightarrow> real list" where
  "hits_of l key = nullish_or (map_of (lm_hits l) key) []"

fun evict :: "nat \<Rightarrow> (string \<times> real list) list \<Rightarrow> (string \<times> real list) list" where
  "evict n [] = []"
| "evict n (e # es) = (if length (e # es) > n then evict n es else e # es)"

definition touch_key :: "string \<Rightarrow> limiter \<Rightarrow> limiter" where
  "touch_key key l =
     l\<lparr>lm_hits := evict (lm_max_keys l) (filter (\<lambda>e. fst e \<noteq> key) (lm_hits l) @ [(key, hits_of l key)])\<rparr>"

text \<open>Writing the list of a key in place, if the key is still there.\<close>

definition put_hits :: "string \<Rightarrow> real list \<Rightarrow> limiter \<Rightarrow> limiter" where
  "put_hits key dq l = l\<lparr>lm_hits := map (\<lambda>e. if fst e = key then (key, dq) else e) (lm_hits l)\<rparr>"

definition py_int :: "real \<Rightarrow> int" where
  "py_int x = (if x \<ge> 0 then \<lfloor>x\<rfloor> else \<lceil>x\<rceil>)"

text \<open>The check returns \<open>None\<close> where the code raises: a limit of zero with no failure on record.\<close>

definition check :: "string \<Rightarrow> real \<Rightarrow> nat \<Rightarrow> real \<Rightarrow> limiter \<Rightarrow> limiter \<times> (bool \<times> int) option" where
  "check key now limit window l =
     (let dq0 = hits_of l key;
          l = touch_key key l;
          dq = dropWhile (\<lambda>t. t \<le> now - window) dq0;
          l = put_hits key dq l
      in (l, if length dq \<ge> limit
             then (if dq = [] then None else Some (False, max (py_int (window - (now - hd dq)) + 1) 1))
             else Some (True, 0)))"

definition record_failure :: "string \<Rightarrow> real \<Rightarrow> limiter \<Rightarrow> limiter" where
  "record_failure key now l = (let dq = hits_of l key; l = touch_key key l in put_hits key (dq @ [now]) l)"

definition reset :: "string \<Rightarrow> limiter \<Rightarrow> limiter" where
  "reset key l = l\<lparr>lm_hits := filter (\<lambda>e. fst e \<noteq> key) (lm_hits l)\<rparr>"

section \<open>Memory\<close>

definition limiter_ok :: "limiter \<Rightarrow> bool" where
  "limiter_ok l \<longleftrightarrow> distinct (map fst (lm_hits l)) \<and> length (lm_hits l) \<le> lm_max_keys l"

lemma evict_drop: "evict n es = drop (length es - n) es"
  by (induction es) (auto simp: Suc_diff_le)

lemma length_evict: "length (evict n es) \<le> n"
  by (simp add: evict_drop)

lemma distinct_evict: "distinct (map fst es) \<Longrightarrow> distinct (map fst (evict n es))"
  by (simp add: evict_drop drop_map [symmetric] distinct_drop)

lemma map_fst_put: "map fst (map (\<lambda>e. if fst e = key then (key, dq) else e) es) = map fst es"
  by auto

lemma touch_ok: "limiter_ok l \<Longrightarrow> limiter_ok (touch_key key l)"
proof -
  assume "limiter_ok l"
  then have "distinct (map fst (filter (\<lambda>e. fst e \<noteq> key) (lm_hits l) @ [(key, hits_of l key)]))"
    by (auto simp: limiter_ok_def distinct_map_filter)
  then show ?thesis by (simp add: limiter_ok_def touch_key_def length_evict distinct_evict del: map_append)
qed

lemma put_ok: "limiter_ok l \<Longrightarrow> limiter_ok (put_hits key dq l)"
  by (simp add: limiter_ok_def put_hits_def map_fst_put del: map_map)

lemma reset_ok: "limiter_ok l \<Longrightarrow> limiter_ok (reset key l)"
  by (auto simp: limiter_ok_def reset_def distinct_map_filter intro: order.trans [OF length_filter_le])

section \<open>What a key has on record\<close>

text \<open>As long as no key is evicted, an operation on a key changes the record of that key only.\<close>

definition roomy :: "string \<Rightarrow> limiter \<Rightarrow> bool" where
  "roomy key l \<longleftrightarrow> card (insert key (fst ` set (lm_hits l))) \<le> lm_max_keys l"

lemma map_of_filter_key: "map_of (filter (\<lambda>e. fst e \<noteq> key) es) k = (if k = key then None else map_of es k)"
  by (induction es) auto

lemma touch_hits:
  assumes "limiter_ok l" and "roomy key l"
  shows "lm_hits (touch_key key l) = filter (\<lambda>e. fst e \<noteq> key) (lm_hits l) @ [(key, hits_of l key)]"
proof -
  let ?es = "filter (\<lambda>e. fst e \<noteq> key) (lm_hits l) @ [(key, hits_of l key)]"
  have "distinct (map fst ?es)" using assms(1) by (auto simp: limiter_ok_def distinct_map_filter)
  then have "length ?es = card (set (map fst ?es))" by (metis distinct_card length_map)
  also have "set (map fst ?es) = insert key (fst ` set (lm_hits l))" by auto
  finally have "length ?es \<le> lm_max_keys l" using assms(2) by (simp add: roomy_def)
  then show ?thesis by (simp add: touch_key_def evict_drop)
qed

lemma put_touch_hits:
  assumes "limiter_ok l" and "roomy key l"
  shows "hits_of (put_hits key dq (touch_key key l)) k = (if k = key then dq else hits_of l k)"
    and "fst ` set (lm_hits (put_hits key dq (touch_key key l))) = insert key (fst ` set (lm_hits l))"
proof -
  have "lm_hits (put_hits key dq (touch_key key l)) = filter (\<lambda>e. fst e \<noteq> key) (lm_hits l) @ [(key, dq)]"
    using touch_hits [OF assms] by (auto simp: put_hits_def intro!: map_idI)
  then show "hits_of (put_hits key dq (touch_key key l)) k = (if k = key then dq else hits_of l k)"
    "fst ` set (lm_hits (put_hits key dq (touch_key key l))) = insert key (fst ` set (lm_hits l))"
    by (auto simp: hits_of_def map_add_def map_of_filter_key split: option.splits)
qed

lemma reset_hits:
  "hits_of (reset key l) k = (if k = key then [] else hits_of l k)"
  "fst ` set (lm_hits (reset key l)) = fst ` set (lm_hits l) - {key}"
  by (auto simp: hits_of_def reset_def map_of_filter_key)

lemma max_keys [simp]:
  "lm_max_keys (touch_key key l) = lm_max_keys l" "lm_max_keys (put_hits key dq l) = lm_max_keys l"
  "lm_max_keys (reset key l) = lm_max_keys l"
  by (simp_all add: touch_key_def put_hits_def reset_def)

section \<open>Attempts\<close>

text \<open>An attempt as the sign-in makes it: the check; after a refusal nothing; after a failure a record; after a
  success a reset.\<close>

datatype attempt = Attempt (at_key: string) (at_time: real) (at_success: bool)

definition attempt_step :: "nat \<Rightarrow> real \<Rightarrow> limiter \<Rightarrow> attempt \<Rightarrow> limiter \<times> (bool \<times> int) option" where
  "attempt_step limit window l a =
     (case check (at_key a) (at_time a) limit window l of
        (l, None) \<Rightarrow> (l, None)
      | (l, Some (allowed, retry)) \<Rightarrow>
          (if \<not> allowed then l
           else if at_success a then reset (at_key a) l else record_failure (at_key a) (at_time a) l,
           Some (allowed, retry)))"

fun attempts :: "nat \<Rightarrow> real \<Rightarrow> limiter \<Rightarrow> attempt list \<Rightarrow> (bool \<times> int) option list" where
  "attempts limit window l [] = []"
| "attempts limit window l (a # as) =
     (case attempt_step limit window l a of (l, r) \<Rightarrow> r # attempts limit window l as)"

text \<open>The specification: all failures of a key since its last success, of which those within the window count.\<close>

definition recent :: "real \<Rightarrow> real \<Rightarrow> real list \<Rightarrow> real list" where
  "recent window now ts = filter (\<lambda>t. now - window < t) ts"

definition spec_step :: "nat \<Rightarrow> real \<Rightarrow> (string \<Rightarrow> real list) \<Rightarrow> attempt \<Rightarrow> (string \<Rightarrow> real list) \<times> bool" where
  "spec_step limit window f a =
     (let allowed = length (recent window (at_time a) (f (at_key a))) < limit
      in (if \<not> allowed then f
          else f(at_key a := (if at_success a then [] else f (at_key a) @ [at_time a])), allowed))"

fun spec_attempts :: "nat \<Rightarrow> real \<Rightarrow> (string \<Rightarrow> real list) \<Rightarrow> attempt list \<Rightarrow> bool list" where
  "spec_attempts limit window f [] = []"
| "spec_attempts limit window f (a # as) =
     (case spec_step limit window f a of (f, b) \<Rightarrow> b # spec_attempts limit window f as)"

lemma dropWhile_sorted: "sorted xs \<Longrightarrow> dropWhile (\<lambda>t. t \<le> b) xs = filter (\<lambda>t. b < t) (xs :: real list)"
proof (induction xs)
  case (Cons a xs)
  show ?case
  proof (cases "a \<le> b")
    case False
    then have "\<forall>t \<in> set (a # xs). b < t" using Cons.prems by auto
    with False show ?thesis using filter_True [of "a # xs" "\<lambda>t. b < t"] by simp
  qed (use Cons in simp)
qed simp

lemma recent_pruned:
  "sorted ts \<Longrightarrow> c \<le> now - window \<Longrightarrow> dropWhile (\<lambda>t. t \<le> now - window) (filter (\<lambda>t. c < t) ts) = recent window now ts"
  by (auto simp: dropWhile_sorted sorted_filter [where f = id, simplified] recent_def intro: filter_cong)

text \<open>The limiter holds what is left of the failures after pruning at some earlier time, and never more
  failures of one window than the limit.\<close>

definition simulates :: "nat \<Rightarrow> real \<Rightarrow> real \<Rightarrow> limiter \<Rightarrow> (string \<Rightarrow> real list) \<Rightarrow> bool" where
  "simulates limit window t0 l f \<longleftrightarrow> limiter_ok l \<and>
     (\<forall>k. sorted (f k) \<and> (\<forall>t \<in> set (f k). t \<le> t0) \<and> length (recent window t0 (f k)) \<le> limit
        \<and> (\<exists>c \<le> t0 - window. hits_of l k = filter (\<lambda>t. c < t) (f k)))"

lemma recent_mono: "t0 \<le> now \<Longrightarrow> length (recent window now ts) \<le> length (recent window t0 ts)"
  by (induction ts) (auto simp: recent_def)

lemma simulates_later: "simulates limit window t0 l f \<Longrightarrow> t0 \<le> now \<Longrightarrow> simulates limit window now l f"
  unfolding simulates_def using recent_mono by (smt (verit) order.trans)

lemma recent_append: "recent window now (ts @ us) = recent window now ts @ recent window now us"
  by (simp add: recent_def)

lemma simulates_put:
  assumes sim: "simulates limit window now l f" and room: "roomy key l"
    and k: "sorted (f' key)" "\<forall>t \<in> set (f' key). t \<le> now" "length (recent window now (f' key)) \<le> limit"
      "\<exists>c \<le> now - window. dq = filter (\<lambda>t. c < t) (f' key)"
    and same: "\<And>k. k \<noteq> key \<Longrightarrow> f' k = f k"
  shows "simulates limit window now (put_hits key dq (touch_key key l)) f'"
proof -
  have ok: "limiter_ok l" using sim by (simp add: simulates_def)
  then have "limiter_ok (put_hits key dq (touch_key key l))" using put_ok touch_ok by blast
  moreover have "hits_of (put_hits key dq (touch_key key l)) j = (if j = key then dq else hits_of l j)" for j
    using put_touch_hits(1) [OF ok room] .
  ultimately show ?thesis
    using sim k same unfolding simulates_def by (metis (no_types, lifting))
qed

lemma simulates_reset:
  assumes "simulates limit window now l f"
  shows "simulates limit window now (reset key l) (f(key := []))"
  using assms reset_ok unfolding simulates_def by (auto simp: reset_hits recent_def intro: exI [of _ "now - window"])

text \<open>The check keeps the simulation and answers as the specification does.\<close>

lemma check_simulates:
  assumes "simulates limit window now l f" and "roomy key l" and "limit > 0"
  shows "simulates limit window now (fst (check key now limit window l)) f"
    and "map_option fst (snd (check key now limit window l)) = Some (length (recent window now (f key)) < limit)"
    and "hits_of (fst (check key now limit window l)) key = recent window now (f key)"
    and "fst ` set (lm_hits (fst (check key now limit window l))) = insert key (fst ` set (lm_hits l))"
proof -
  have ok: "limiter_ok l" using assms(1) by (simp add: simulates_def)
  obtain c where c: "c \<le> now - window" "hits_of l key = filter (\<lambda>t. c < t) (f key)" "sorted (f key)"
    using assms(1) unfolding simulates_def by blast
  then have dq: "dropWhile (\<lambda>t. t \<le> now - window) (hits_of l key) = recent window now (f key)"
    using recent_pruned by simp
  then have l': "fst (check key now limit window l) = put_hits key (recent window now (f key)) (touch_key key l)"
    by (simp add: check_def Let_def)
  show "simulates limit window now (fst (check key now limit window l)) f"
    unfolding l' using assms(1) by (intro simulates_put [OF assms(1,2)]) (auto simp: simulates_def recent_def)
  show "map_option fst (snd (check key now limit window l)) = Some (length (recent window now (f key)) < limit)"
    using dq assms(3) by (auto simp: check_def Let_def)
  show "hits_of (fst (check key now limit window l)) key = recent window now (f key)"
    "fst ` set (lm_hits (fst (check key now limit window l))) = insert key (fst ` set (lm_hits l))"
    unfolding l' using put_touch_hits [OF ok assms(2)] by simp_all
qed

lemma check_max_keys [simp]: "lm_max_keys (fst (check key now limit window l)) = lm_max_keys l"
  by (simp add: check_def Let_def)

lemma record_failure_keys:
  assumes "limiter_ok l" and "roomy key l"
  shows "fst ` set (lm_hits (record_failure key now l)) = insert key (fst ` set (lm_hits l))"
    and "lm_max_keys (record_failure key now l) = lm_max_keys l"
  using put_touch_hits(2) [OF assms] by (simp_all add: record_failure_def Let_def)

lemma record_simulates:
  assumes "simulates limit window now l f" and "roomy key l" and "0 < window"
    and "hits_of l key = recent window now (f key)" and "length (recent window now (f key)) < limit"
  shows "simulates limit window now (record_failure key now l) (f(key := f key @ [now]))"
proof -
  have k: "sorted (f key)" "\<forall>t \<in> set (f key). t \<le> now" using assms(1) by (simp_all add: simulates_def)
  let ?ts = "f key @ [now]"
  have pruned: "recent window now (f key) @ [now] = filter (\<lambda>t. now - window < t) ?ts"
    using assms(3) by (simp add: recent_def)
  show ?thesis
    unfolding record_failure_def Let_def assms(4)
  proof (rule simulates_put [OF assms(1,2)])
    show "sorted ((f(key := ?ts)) key)" "\<forall>t \<in> set ((f(key := ?ts)) key). t \<le> now"
      using k by (auto simp: sorted_append)
    show "length (recent window now ((f(key := ?ts)) key)) \<le> limit"
      using assms(5) length_filter_le [of "\<lambda>t. now - window < t" "[now]"] by (simp add: recent_append) (simp add: recent_def)
    show "\<exists>c \<le> now - window. recent window now (f key) @ [now] = filter (\<lambda>t. c < t) ((f(key := ?ts)) key)"
      by (intro exI [of _ "now - window"]) (simp only: pruned fun_upd_same order_refl simp_thms)
  qed simp
qed

lemma attempt_simulates:
  assumes sim: "simulates limit window t0 l f" and t: "t0 \<le> at_time a" and room: "roomy (at_key a) l"
    and pos: "0 < limit" "0 < window"
    and step: "attempt_step limit window l a = (l', r)" "spec_step limit window f a = (f', b)"
  shows "simulates limit window (at_time a) l' f' \<and> map_option fst r = Some b
    \<and> fst ` set (lm_hits l') \<subseteq> insert (at_key a) (fst ` set (lm_hits l)) \<and> lm_max_keys l' = lm_max_keys l"
proof -
  let ?k = "at_key a" and ?now = "at_time a"
  let ?c = "check ?k ?now limit window l"
  have sim': "simulates limit window ?now l f" using simulates_later [OF sim t] .
  note c = check_simulates [OF sim' room pos(1)]
  have room': "roomy ?k (fst ?c)" using room c(4) by (simp add: roomy_def)
  have ok': "limiter_ok (fst ?c)" using c(1) by (simp add: simulates_def)
  obtain allowed retry where ar: "snd ?c = Some (allowed, retry)" "allowed = (length (recent window ?now (f ?k)) < limit)"
    using c(2) by (cases "snd ?c") auto
  then have l': "l' = (if \<not> allowed then fst ?c else if at_success a then reset ?k (fst ?c) else record_failure ?k ?now (fst ?c))"
    "r = Some (allowed, retry)"
    using step(1) by (cases ?c; auto simp: attempt_step_def)+
  have f': "b = allowed" "f' = (if \<not> allowed then f else f(?k := if at_success a then [] else f ?k @ [?now]))"
    using step(2) ar(2) by (auto simp: spec_step_def Let_def)
  have "simulates limit window ?now l' f'"
    unfolding l'(1) f'(2)
    using c(1) simulates_reset [OF c(1)] record_simulates [OF c(1) room' pos(2) c(3)] ar(2) by simp
  moreover have "fst ` set (lm_hits l') \<subseteq> insert ?k (fst ` set (lm_hits l))" "lm_max_keys l' = lm_max_keys l"
    unfolding l'(1) using c(4) reset_hits(2) record_failure_keys [OF ok' room'] by auto
  ultimately show ?thesis using l'(2) f'(1) by simp
qed

lemma attempts_simulate:
  assumes "simulates limit window t0 l f" and "sorted (t0 # map at_time as)" and "0 < limit" and "0 < window"
    and "card (fst ` set (lm_hits l) \<union> at_key ` set as) \<le> lm_max_keys l"
  shows "map (map_option fst) (attempts limit window l as) = map Some (spec_attempts limit window f as)"
  using assms(1,2,5)
proof (induction as arbitrary: l f t0)
  case (Cons a as)
  obtain l' r f' b where step: "attempt_step limit window l a = (l', r)" "spec_step limit window f a = (f', b)"
    by (metis surj_pair)
  have "insert (at_key a) (fst ` set (lm_hits l)) \<subseteq> fst ` set (lm_hits l) \<union> at_key ` set (a # as)" by auto
  then have "card (insert (at_key a) (fst ` set (lm_hits l))) \<le> card (fst ` set (lm_hits l) \<union> at_key ` set (a # as))"
    by (intro card_mono) simp_all
  then have room: "roomy (at_key a) l" unfolding roomy_def using Cons.prems(3) by linarith
  have s: "simulates limit window (at_time a) l' f'" "map_option fst r = Some b" "lm_max_keys l' = lm_max_keys l"
    "fst ` set (lm_hits l') \<subseteq> insert (at_key a) (fst ` set (lm_hits l))"
    using attempt_simulates [OF Cons.prems(1) _ room assms(3,4) step] Cons.prems(2) by auto
  have "card (fst ` set (lm_hits l') \<union> at_key ` set as) \<le> card (fst ` set (lm_hits l) \<union> at_key ` set (a # as))"
    using s(4) by (intro card_mono) auto
  then show ?case
    using Cons.IH [OF s(1)] s(2,3) Cons.prems(2,3) step by simp
qed simp



text \<open>The announced waiting time is at least a second, at most a second more than the window, and honest: after
  it the key is allowed again.\<close>

theorem retry_after_honest:
  assumes "simulates limit window now l f" and "roomy key l" and "0 < limit" and "0 < window"
    and "check key now limit window l = (l', Some (False, r))"
  shows "1 \<le> r \<and> of_int r \<le> window + 1
    \<and> (now + of_int r \<le> now' \<longrightarrow> snd (check key now' limit window l') = Some (True, 0))"
proof -
  let ?dq = "recent window now (f key)"
  have l': "l' = fst (check key now limit window l)" using assms(5) by simp
  note c = check_simulates [OF assms(1-3)]
  have dq: "dropWhile (\<lambda>t. t \<le> now - window) (hits_of l key) = ?dq"
    using c(3) put_touch_hits(1) [of l key _ key] assms(1,2) by (auto simp: check_def Let_def simulates_def)
  have full: "length ?dq = limit" using c(2) assms(1,5) by (auto simp: simulates_def dest!: spec [of _ key])
  then obtain d ds where d: "?dq = d # ds" using assms(3) by (cases ?dq) auto
  then have "d \<in> set ?dq" by simp
  then have in_win: "now - window < d" "d \<le> now" using assms(1) by (auto simp: recent_def simulates_def)
  have r: "r = max (py_int (window - (now - d)) + 1) 1" using assms(5) dq d full by (auto simp: check_def Let_def)
  have bounds: "1 \<le> r" "of_int r \<le> window + 1" "window - (now - d) < of_int r"
    using in_win assms(4) unfolding r py_int_def by (auto simp: max_def) linarith+
  show ?thesis
  proof (intro conjI impI bounds(1,2))
    assume now': "now + of_int r \<le> now'"
    then have "now \<le> now'" using bounds(1) by linarith
    moreover have "d \<le> now' - window" using now' bounds(3) by linarith
    ultimately have "dropWhile (\<lambda>t. t \<le> now' - window) (hits_of l' key) = dropWhile (\<lambda>t. t \<le> now' - window) ds"
      using c(3) d l' by simp
    moreover have "length (dropWhile (\<lambda>t. t \<le> now' - window) ds) < limit"
      using length_dropWhile_le [of "\<lambda>t. t \<le> now' - window" ds] d full by simp
    ultimately show "snd (check key now' limit window l') = Some (True, 0)" by (simp add: check_def Let_def)
  qed
qed

end
