(* ===== verification/SignInService.thy ===== *)
theory SignInService
  imports Access RateLimit Login
begin

text \<open>
  The service's side of signing in (\<^verbatim>\<open>backend/app/api/auth.py\<close>, \<^verbatim>\<open>backend/app/api/mfa.py\<close>,
  \<^verbatim>\<open>backend/app/services/auth.py\<close>, \<^verbatim>\<open>services/mfa.py\<close>, \<^verbatim>\<open>services/trusted_device.py\<close>): the
  tables it keeps, every handler that reads or changes them, and the runs of those handlers by any number of
  browsers.

  The state is one record of tables. A handler is a function of the world (hashes, one-time passwords, passkey
  verification and the runtime settings), the context of the request (clocks, address, cookies, and the random
  values it draws), its arguments and the state; it returns the new state and the status it refuses with, or
  its answer. The encryption of the one-time-password secret at rest, the audit records, the length limits of
  the request bodies and the fields that are only displayed (addresses, browser names, labels, times of last use)
  are left out. The token check has been passed before a handler runs.
\<close>

section \<open>Tables\<close>

record login_user = account +
  ac_status :: string
  ac_password_hash :: string

record mfa_row =
  mr_enabled :: bool
  mr_secret :: string
  mr_last_step :: "int option"

record recovery_code =
  rc_hash :: string
  rc_used :: bool

record credential_rec =
  wc_id :: string
  wc_cred :: string
  wc_public_key :: string
  wc_sign_count :: int

record device_rec =
  tv_id :: string
  tv_user :: string
  tv_hash :: string
  tv_expires :: int

record service =
  sv_users :: "login_user list"
  sv_mfa :: "string \<Rightarrow> mfa_row option"
  sv_recovery :: "string \<Rightarrow> recovery_code list"
  sv_passkeys :: "string \<Rightarrow> credential_rec list"
  sv_trusted :: "device_rec list"
  sv_sessions :: "server_session list"
  sv_challenge :: "string \<Rightarrow> string option"
  sv_policy :: string
  sv_td_enabled :: bool
  sv_limiter :: limiter

record world =
  wd_hash :: "string \<Rightarrow> string"
  wd_verify_password :: "string \<Rightarrow> string \<Rightarrow> bool"
  wd_totp_at :: "string \<Rightarrow> int \<Rightarrow> string"
  wd_raw_id :: "json \<Rightarrow> string option"
  wd_verify_authentication :: "json \<Rightarrow> string \<Rightarrow> credential_rec \<Rightarrow> int option"
  wd_verify_registration :: "json \<Rightarrow> string \<Rightarrow> credential_rec option"
  wd_webauthn :: bool
  wd_login_max_attempts :: nat
  wd_login_window :: real
  wd_idle :: int
  wd_session_ttl :: int
  wd_pending_ttl :: int
  wd_trusted_days :: int

text \<open>What a request brings: the wall clock, the monotonic clock, the address, the raw tokens of its cookies,
  and the values the handler draws at random.\<close>

record context_rq =
  rx_now :: int
  rx_mono :: real
  rx_ip :: string
  rx_session :: "string option"
  rx_trusted :: "string option"
  rx_token :: string
  rx_csrf :: string
  rx_random :: string
  rx_id :: string
  rx_codes :: "string list"
  rx_password_hash :: string

record login_out =
  lo_status :: string
  lo_user :: "me option"
  lo_methods :: "string list option"
  lo_remember :: "(bool \<times> int) option"

section \<open>One-time passwords\<close>

definition TOTP_PERIOD :: int where
  "TOTP_PERIOD = 30"

definition py_space :: "char \<Rightarrow> bool" where
  "py_space c \<longleftrightarrow> (let n = (of_char c :: nat) in 9 \<le> n \<and> n \<le> 13 \<or> 28 \<le> n \<and> n \<le> 32 \<or> n = 133 \<or> n = 160)"

definition py_strip :: "string \<Rightarrow> string" where
  "py_strip s = rev (dropWhile py_space (rev (dropWhile py_space s)))"

definition py_digit :: "char \<Rightarrow> bool" where
  "py_digit c \<longleftrightarrow> c \<in> set ''0123456789''"

fun try_steps :: "(int \<Rightarrow> string) \<Rightarrow> string \<Rightarrow> int option \<Rightarrow> int list \<Rightarrow> int option" where
  "try_steps code_at code last_used [] = None"
| "try_steps code_at code last_used (step # steps) =
     (if code_at (step * TOTP_PERIOD) = code
      then (case last_used of None \<Rightarrow> Some step | Some k \<Rightarrow> if step \<le> k then None else Some step)
      else try_steps code_at code last_used steps)"

text \<open>The accepted step, if the code is accepted.\<close>

definition verify_totp :: "world \<Rightarrow> int \<Rightarrow> string \<Rightarrow> string \<Rightarrow> int option \<Rightarrow> int option" where
  "verify_totp w now secret code last_used =
     (let code = filter (\<lambda>c. c \<noteq> CHR '' '') (py_strip code) in
      if code = [] \<or> \<not> list_all py_digit code then None
      else try_steps (wd_totp_at w secret) code last_used
             [now div TOTP_PERIOD, now div TOTP_PERIOD - 1, now div TOTP_PERIOD + 1])"

definition py_upper :: "string \<Rightarrow> string" where
  "py_upper s = map (\<lambda>c. if 97 \<le> (of_char c :: nat) \<and> (of_char c :: nat) \<le> 122 then char_of ((of_char c :: nat) - 32) else c) s"

fun find_match :: "(string \<Rightarrow> bool) \<Rightarrow> nat \<Rightarrow> string list \<Rightarrow> nat option" where
  "find_match ok i [] = None"
| "find_match ok i (h # hs) = (if ok h then Some i else find_match ok (Suc i) hs)"

definition find_recovery_match :: "world \<Rightarrow> string \<Rightarrow> string list \<Rightarrow> nat option" where
  "find_recovery_match w code hashes =
     (let code = py_upper (py_strip code) in find_match (wd_verify_password w code) 0 hashes)"

text \<open>Consuming a recovery code: the unused codes are searched, and the one found is marked.\<close>

definition consume_recovery :: "world \<Rightarrow> string \<Rightarrow> recovery_code list \<Rightarrow> recovery_code list option" where
  "consume_recovery w code rcs =
     (let unused = filter (\<lambda>i. \<not> rc_used (rcs ! i)) [0..<length rcs] in
      case find_recovery_match w code (map (\<lambda>i. rc_hash (rcs ! i)) unused) of
        None \<Rightarrow> None
      | Some j \<Rightarrow> (let i = unused ! j in Some (rcs[i := (rcs ! i)\<lparr>rc_used := True\<rparr>])))"

section \<open>Sessions and trusted devices\<close>

definition user_by_id :: "service \<Rightarrow> string \<Rightarrow> login_user option" where
  "user_by_id sv i = find (\<lambda>u. ac_id u = i) (sv_users sv)"

definition authenticate :: "world \<Rightarrow> service \<Rightarrow> string \<Rightarrow> string \<Rightarrow> login_user option" where
  "authenticate w sv email password =
     (case find (\<lambda>u. ac_email u = email) (sv_users sv) of
        None \<Rightarrow> None
      | Some user \<Rightarrow>
          if ac_status user \<noteq> ''active'' then None
          else if \<not> wd_verify_password w password (ac_password_hash user) then None
          else Some user)"

definition create_session :: "world \<Rightarrow> context_rq \<Rightarrow> string \<Rightarrow> string \<Rightarrow> int \<Rightarrow> service \<Rightarrow> service" where
  "create_session w rx user kind ttl sv =
     sv\<lparr>sv_sessions := sv_sessions sv @
          [\<lparr>se_user = user, se_kind = kind, se_token_hash = wd_hash w (rx_token rx), se_csrf_token = rx_csrf rx,
            se_last_seen_at = rx_now rx, se_expires_at = rx_now rx + ttl\<rparr>],
        sv_challenge := (sv_challenge sv)(wd_hash w (rx_token rx) := None)\<rparr>"

definition delete_session_by_token :: "world \<Rightarrow> string \<Rightarrow> service \<Rightarrow> service" where
  "delete_session_by_token w raw sv =
     sv\<lparr>sv_sessions := filter (\<lambda>s. se_token_hash s \<noteq> wd_hash w raw) (sv_sessions sv)\<rparr>"

definition delete_all_sessions_for_user :: "string \<Rightarrow> service \<Rightarrow> service" where
  "delete_all_sessions_for_user u sv = sv\<lparr>sv_sessions := filter (\<lambda>s. se_user s \<noteq> u) (sv_sessions sv)\<rparr>"

definition purge_expired :: "world \<Rightarrow> int \<Rightarrow> service \<Rightarrow> service" where
  "purge_expired w now sv =
     sv\<lparr>sv_sessions := filter (\<lambda>s. \<not> (se_expires_at s \<le> now \<or> se_last_seen_at s < now - wd_idle w)) (sv_sessions sv),
        sv_trusted := filter (\<lambda>d. \<not> tv_expires d \<le> now) (sv_trusted sv)\<rparr>"

definition drop_presented :: "world \<Rightarrow> context_rq \<Rightarrow> service \<Rightarrow> service" where
  "drop_presented w rx sv =
     (case rx_session rx of
        None \<Rightarrow> sv
      | Some raw \<Rightarrow> if raw = [] then sv else delete_session_by_token w raw sv)"

definition current :: "world \<Rightarrow> context_rq \<Rightarrow> service \<Rightarrow> service \<times> server_session option" where
  "current w rx sv =
     (case rx_session rx of
        None \<Rightarrow> (sv, None)
      | Some raw \<Rightarrow>
          if raw = [] then (sv, None)
          else (case get_session_for_token (wd_hash w) (wd_idle w) (rx_now rx) raw (sv_sessions sv) of
                  None \<Rightarrow> (sv, None)
                | Some s \<Rightarrow>
                    (sv\<lparr>sv_sessions := map (\<lambda>x. if se_token_hash x = se_token_hash s then s else x) (sv_sessions sv)\<rparr>, Some s)))"

definition find_valid :: "world \<Rightarrow> context_rq \<Rightarrow> string \<Rightarrow> service \<Rightarrow> bool" where
  "find_valid w rx u sv =
     (case rx_trusted rx of
        None \<Rightarrow> False
      | Some raw \<Rightarrow> raw \<noteq> [] \<and>
          (\<exists>d \<in> set (sv_trusted sv). tv_hash d = wd_hash w raw \<and> tv_user d = u \<and> \<not> tv_expires d \<le> rx_now rx))"

definition revoke_all :: "string \<Rightarrow> service \<Rightarrow> service" where
  "revoke_all u sv = sv\<lparr>sv_trusted := filter (\<lambda>d. tv_user d \<noteq> u) (sv_trusted sv)\<rparr>"

definition maybe_remember_device :: "world \<Rightarrow> context_rq \<Rightarrow> bool \<Rightarrow> string \<Rightarrow> service \<Rightarrow> service" where
  "maybe_remember_device w rx remember u sv =
     (if \<not> remember then sv
      else if \<not> sv_td_enabled sv then sv
      else sv\<lparr>sv_trusted := sv_trusted sv @
        [\<lparr>tv_id = rx_id rx, tv_user = u, tv_hash = wd_hash w (rx_random rx), tv_expires = rx_now rx + wd_trusted_days w * 86400\<rparr>]\<rparr>)"

section \<open>Signing in\<close>

definition has_totp :: "service \<Rightarrow> string \<Rightarrow> bool" where
  "has_totp sv u = (case sv_mfa sv u of None \<Rightarrow> False | Some row \<Rightarrow> mr_enabled row)"

definition has_webauthn_credentials :: "service \<Rightarrow> string \<Rightarrow> bool" where
  "has_webauthn_credentials sv u \<longleftrightarrow> sv_passkeys sv u \<noteq> []"

definition enrolled :: "service \<Rightarrow> string \<Rightarrow> bool" where
  "enrolled sv u \<longleftrightarrow> has_totp sv u \<or> has_webauthn_credentials sv u"

definition policy_requires_mfa :: "string \<Rightarrow> login_user \<Rightarrow> bool" where
  "policy_requires_mfa policy user \<longleftrightarrow> policy = ''all'' \<or> policy = ''privileged'' \<and> ac_superadmin user"

definition login_methods :: "service \<Rightarrow> string \<Rightarrow> string list" where
  "login_methods sv u =
     (if has_totp sv u then [''totp''] else []) @ (if has_webauthn_credentials sv u then [''webauthn''] else [])"

definition login_kind :: "service \<Rightarrow> login_user \<Rightarrow> string" where
  "login_kind sv user =
     (if enrolled sv (ac_id user) then ''mfa_pending''
      else if policy_requires_mfa (sv_policy sv) user then ''mfa_setup''
      else ''full'')"

definition user_out :: "login_user \<Rightarrow> bool \<Rightarrow> me" where
  "user_out user enrol = \<lparr>me_id = ac_id user, me_email = ac_email user, me_name = ac_name user,
     is_superadmin = ac_superadmin user, mfa_setup_required = Some enrol\<rparr>"

definition ok_out :: "login_user \<Rightarrow> login_out" where
  "ok_out user = \<lparr>lo_status = ''ok'', lo_user = Some (user_out user False), lo_methods = None, lo_remember = None\<rparr>"

definition login_answer :: "world \<Rightarrow> service \<Rightarrow> login_user \<Rightarrow> string \<Rightarrow> login_out" where
  "login_answer w sv user kind =
     (if kind = ''mfa_pending'' then
        \<lparr>lo_status = ''mfa_required'', lo_user = None, lo_methods = Some (login_methods sv (ac_id user)),
         lo_remember = Some (sv_td_enabled sv, wd_trusted_days w)\<rparr>
      else if kind = ''mfa_setup'' then
        \<lparr>lo_status = ''mfa_setup_required'', lo_user = Some (user_out user True), lo_methods = None, lo_remember = None\<rparr>
      else ok_out user)"

text \<open>The limiter in front of a handler: it fails closed.\<close>

definition limited ::
  "world \<Rightarrow> context_rq \<Rightarrow> string \<Rightarrow> service \<Rightarrow> (service \<Rightarrow> service \<times> (nat + 'a)) \<Rightarrow> service \<times> (nat + 'a)" where
  "limited w rx key sv handler =
     (case check key (rx_mono rx) (wd_login_max_attempts w) (wd_login_window w) (sv_limiter sv) of
        (l, None) \<Rightarrow> (sv\<lparr>sv_limiter := l\<rparr>, Inl 503)
      | (l, Some (allowed, retry)) \<Rightarrow>
          if \<not> allowed then (sv\<lparr>sv_limiter := l\<rparr>, Inl 429) else handler (sv\<lparr>sv_limiter := l\<rparr>))"

definition failed :: "context_rq \<Rightarrow> string \<Rightarrow> service \<Rightarrow> service" where
  "failed rx key sv = sv\<lparr>sv_limiter := record_failure key (rx_mono rx) (sv_limiter sv)\<rparr>"

definition succeeded :: "string \<Rightarrow> service \<Rightarrow> service" where
  "succeeded key sv = sv\<lparr>sv_limiter := reset key (sv_limiter sv)\<rparr>"

definition login_key :: "context_rq \<Rightarrow> string \<Rightarrow> string" where
  "login_key rx email = to_lower email @ ''|'' @ rx_ip rx"

definition login_admitted :: "world \<Rightarrow> context_rq \<Rightarrow> string \<Rightarrow> string \<Rightarrow> service \<Rightarrow> service \<times> (nat + login_out)" where
  "login_admitted w rx email password sv =
     (let key = login_key rx email in
      case authenticate w sv email password of
        None \<Rightarrow> (failed rx key sv, Inl 401)
      | Some user \<Rightarrow>
          (let u = ac_id user; sv = drop_presented w rx sv in
           if enrolled sv u \<and> sv_td_enabled sv \<and> find_valid w rx u sv
           then (succeeded key (create_session w rx u ''full'' (wd_session_ttl w) sv), Inr (ok_out user))
           else
             (let kind = login_kind sv user;
                  ttl = (if kind = ''full'' then wd_session_ttl w
                         else if kind = ''mfa_pending'' then wd_pending_ttl w else 3600)
              in (succeeded key (create_session w rx u kind ttl sv), Inr (login_answer w sv user kind)))))"

definition login :: "world \<Rightarrow> context_rq \<Rightarrow> string \<Rightarrow> string \<Rightarrow> service \<Rightarrow> service \<times> (nat + login_out)" where
  "login w rx email password sv = limited w rx (login_key rx email) sv (login_admitted w rx email password)"

text \<open>The second step. The session is the one that the request's cookie resolves to.\<close>

definition mfa_key :: "context_rq \<Rightarrow> string \<Rightarrow> string" where
  "mfa_key rx u = ''mfa|'' @ u @ ''|'' @ rx_ip rx"

definition upgrade :: "world \<Rightarrow> context_rq \<Rightarrow> string \<Rightarrow> bool \<Rightarrow> login_user \<Rightarrow> service \<Rightarrow> service \<times> (nat + login_out)" where
  "upgrade w rx key remember user sv =
     (maybe_remember_device w rx remember (ac_id user)
        (succeeded key (create_session w rx (ac_id user) ''full'' (wd_session_ttl w) (drop_presented w rx sv))),
      Inr (ok_out user))"

definition mfa_admitted :: "world \<Rightarrow> context_rq \<Rightarrow> string \<Rightarrow> string \<Rightarrow> bool \<Rightarrow> service \<Rightarrow> service \<times> (nat + login_out)" where
  "mfa_admitted w rx u code remember sv =
     (let key = mfa_key rx u in
      case (user_by_id sv u, sv_mfa sv u) of
        (Some user, Some row) \<Rightarrow>
          if \<not> mr_enabled row then (sv, Inl 400)
          else (case verify_totp w (rx_now rx) (mr_secret row) code (mr_last_step row) of
            Some step \<Rightarrow>
              upgrade w rx key remember user (sv\<lparr>sv_mfa := (sv_mfa sv)(u := Some (row\<lparr>mr_last_step := Some step\<rparr>))\<rparr>)
          | None \<Rightarrow>
              (case consume_recovery w code (sv_recovery sv u) of
                 Some rcs \<Rightarrow> upgrade w rx key remember user (sv\<lparr>sv_recovery := (sv_recovery sv)(u := rcs)\<rparr>)
               | None \<Rightarrow> (failed rx key sv, Inl 401)))
      | _ \<Rightarrow> (sv, Inl 400))"

definition login_mfa :: "world \<Rightarrow> context_rq \<Rightarrow> server_session \<Rightarrow> string \<Rightarrow> bool \<Rightarrow> service \<Rightarrow> service \<times> (nat + login_out)" where
  "login_mfa w rx sess code remember sv =
     (if se_kind sess \<noteq> ''mfa_pending'' then (sv, Inl 400)
      else limited w rx (mfa_key rx (se_user sess)) sv (mfa_admitted w rx (se_user sess) code remember))"

definition login_webauthn_begin :: "world \<Rightarrow> context_rq \<Rightarrow> server_session \<Rightarrow> service \<Rightarrow> service \<times> (nat + string)" where
  "login_webauthn_begin w rx sess sv =
     (if se_kind sess \<noteq> ''mfa_pending'' then (sv, Inl 400)
      else if \<not> wd_webauthn w then (sv, Inl 409)
      else (sv\<lparr>sv_challenge := (sv_challenge sv)(se_token_hash sess := Some (rx_random rx))\<rparr>, Inr (rx_random rx)))"

definition passkey_admitted ::
  "world \<Rightarrow> context_rq \<Rightarrow> server_session \<Rightarrow> string \<Rightarrow> json \<Rightarrow> bool \<Rightarrow> service \<Rightarrow> service \<times> (nat + login_out)" where
  "passkey_admitted w rx sess challenge cred remember sv =
     (if \<not> wd_webauthn w then (sv, Inl 409)
      else (let u = se_user sess; key = mfa_key rx u;
                burnt = sv\<lparr>sv_challenge := (sv_challenge sv)(se_token_hash sess := None)\<rparr> in
        case (user_by_id sv u, Option.bind (wd_raw_id w cred) (\<lambda>i. find (\<lambda>k. wc_cred k = i) (sv_passkeys sv u))) of
          (Some user, Some pk) \<Rightarrow>
            (case wd_verify_authentication w cred challenge pk of
               None \<Rightarrow> (failed rx key burnt, Inl 401)
             | Some n \<Rightarrow>
                 upgrade w rx key remember user
                   (burnt\<lparr>sv_passkeys := (sv_passkeys burnt)(u :=
                      map (\<lambda>k. if wc_cred k = wc_cred pk then k\<lparr>wc_sign_count := n\<rparr> else k) (sv_passkeys burnt u))\<rparr>))
        | _ \<Rightarrow> (failed rx key burnt, Inl 401)))"

definition login_webauthn_complete ::
  "world \<Rightarrow> context_rq \<Rightarrow> server_session \<Rightarrow> json \<Rightarrow> bool \<Rightarrow> service \<Rightarrow> service \<times> (nat + login_out)" where
  "login_webauthn_complete w rx sess cred remember sv =
     (if se_kind sess \<noteq> ''mfa_pending'' then (sv, Inl 400)
      else case sv_challenge sv (se_token_hash sess) of
        None \<Rightarrow> (sv, Inl 400)
      | Some challenge \<Rightarrow>
          if challenge = [] then (sv, Inl 400)
          else limited w rx (mfa_key rx (se_user sess)) sv (passkey_admitted w rx sess challenge cred remember))"

definition logout_sv :: "world \<Rightarrow> context_rq \<Rightarrow> service \<Rightarrow> service" where
  "logout_sv w rx sv = drop_presented w rx sv"

definition logout_all_sv :: "server_session \<Rightarrow> service \<Rightarrow> service" where
  "logout_all_sv sess sv = revoke_all (se_user sess) (delete_all_sessions_for_user (se_user sess) sv)"

section \<open>Enrolment and administration\<close>

definition set_kind_full :: "server_session \<Rightarrow> service \<Rightarrow> service" where
  "set_kind_full sess sv =
     (if se_kind sess = ''mfa_setup''
      then sv\<lparr>sv_sessions := map (\<lambda>x. if se_token_hash x = se_token_hash sess then x\<lparr>se_kind := ''full''\<rparr> else x) (sv_sessions sv)\<rparr>
      else sv)"

definition mfa_setup :: "world \<Rightarrow> context_rq \<Rightarrow> login_user \<Rightarrow> string \<Rightarrow> service \<Rightarrow> service \<times> (nat + string)" where
  "mfa_setup w rx user password sv =
     (if \<not> wd_verify_password w password (ac_password_hash user) then (sv, Inl 403)
      else (sv\<lparr>sv_mfa := (sv_mfa sv)(ac_id user :=
              Some \<lparr>mr_enabled = False, mr_secret = rx_random rx, mr_last_step = None\<rparr>)\<rparr>, Inr (rx_random rx)))"

definition fresh_codes :: "context_rq \<Rightarrow> recovery_code list" where
  "fresh_codes rx = map (\<lambda>h. \<lparr>rc_hash = h, rc_used = False\<rparr>) (rx_codes rx)"

definition mfa_confirm :: "world \<Rightarrow> context_rq \<Rightarrow> login_user \<Rightarrow> server_session \<Rightarrow> string \<Rightarrow> service \<Rightarrow> service \<times> (nat + unit)" where
  "mfa_confirm w rx user sess code sv =
     (case sv_mfa sv (ac_id user) of
        None \<Rightarrow> (sv, Inl 400)
      | Some row \<Rightarrow> if mr_secret row = [] then (sv, Inl 400)
          else (case verify_totp w (rx_now rx) (mr_secret row) code (mr_last_step row) of
                  None \<Rightarrow> (sv, Inl 422)
                | Some step \<Rightarrow>
                    (set_kind_full sess
                       (sv\<lparr>sv_mfa := (sv_mfa sv)(ac_id user := Some (row\<lparr>mr_enabled := True, mr_last_step := Some step\<rparr>)),
                           sv_recovery := (sv_recovery sv)(ac_id user := fresh_codes rx)\<rparr>), Inr ())))"

definition mfa_disable :: "world \<Rightarrow> login_user \<Rightarrow> string \<Rightarrow> service \<Rightarrow> service \<times> (nat + unit)" where
  "mfa_disable w user password sv =
     (if \<not> wd_verify_password w password (ac_password_hash user) then (sv, Inl 403)
      else (revoke_all (ac_id user)
              (sv\<lparr>sv_recovery := (sv_recovery sv)(ac_id user := []), sv_mfa := (sv_mfa sv)(ac_id user := None)\<rparr>), Inr ()))"

definition mfa_regen :: "world \<Rightarrow> context_rq \<Rightarrow> login_user \<Rightarrow> string \<Rightarrow> service \<Rightarrow> service \<times> (nat + unit)" where
  "mfa_regen w rx user password sv =
     (if \<not> wd_verify_password w password (ac_password_hash user) then (sv, Inl 403)
      else if \<not> has_totp sv (ac_id user) then (sv, Inl 400)
      else (sv\<lparr>sv_recovery := (sv_recovery sv)(ac_id user := fresh_codes rx)\<rparr>, Inr ()))"

definition webauthn_register_begin ::
  "world \<Rightarrow> context_rq \<Rightarrow> login_user \<Rightarrow> server_session \<Rightarrow> string \<Rightarrow> service \<Rightarrow> service \<times> (nat + string)" where
  "webauthn_register_begin w rx user sess password sv =
     (if \<not> wd_verify_password w password (ac_password_hash user) then (sv, Inl 403)
      else if \<not> wd_webauthn w then (sv, Inl 409)
      else (sv\<lparr>sv_challenge := (sv_challenge sv)(se_token_hash sess := Some (rx_random rx))\<rparr>, Inr (rx_random rx)))"

definition webauthn_register_complete ::
  "world \<Rightarrow> login_user \<Rightarrow> server_session \<Rightarrow> json \<Rightarrow> service \<Rightarrow> service \<times> (nat + unit)" where
  "webauthn_register_complete w user sess cred sv =
     (case sv_challenge sv (se_token_hash sess) of
        None \<Rightarrow> (sv, Inl 400)
      | Some challenge \<Rightarrow> if challenge = [] then (sv, Inl 400)
          else if \<not> wd_webauthn w then (sv, Inl 409)
          else (let burnt = sv\<lparr>sv_challenge := (sv_challenge sv)(se_token_hash sess := None)\<rparr> in
            case wd_verify_registration w cred challenge of
              None \<Rightarrow> (burnt, Inl 422)
            | Some pk \<Rightarrow>
                (set_kind_full sess
                   (burnt\<lparr>sv_passkeys := (sv_passkeys burnt)(ac_id user := sv_passkeys burnt (ac_id user) @ [pk])\<rparr>), Inr ())))"

definition webauthn_delete :: "login_user \<Rightarrow> string \<Rightarrow> service \<Rightarrow> service \<times> (nat + unit)" where
  "webauthn_delete user cred_id sv =
     (let u = ac_id user in
      if \<not> list_ex (\<lambda>k. wc_id k = cred_id) (sv_passkeys sv u) then (sv, Inl 404)
      else (let others = filter (\<lambda>k. wc_id k \<noteq> cred_id) (sv_passkeys sv u) in
        if policy_requires_mfa (sv_policy sv) user \<and> \<not> has_totp sv u \<and> others = [] then (sv, Inl 409)
        else (sv\<lparr>sv_passkeys := (sv_passkeys sv)(u := others)\<rparr>, Inr ())))"

definition mfa_policy_set :: "string \<Rightarrow> service \<Rightarrow> service \<times> (nat + unit)" where
  "mfa_policy_set mode sv =
     (if mode \<notin> {''off'', ''privileged'', ''all''} then (sv, Inl 422) else (sv\<lparr>sv_policy := mode\<rparr>, Inr ()))"

definition mfa_admin_reset :: "string \<Rightarrow> service \<Rightarrow> service" where
  "mfa_admin_reset u sv =
     revoke_all u (sv\<lparr>sv_recovery := (sv_recovery sv)(u := []), sv_mfa := (sv_mfa sv)(u := None)\<rparr>)"

definition revoke :: "string \<Rightarrow> string \<Rightarrow> service \<Rightarrow> service \<times> (nat + unit)" where
  "revoke u i sv =
     (if \<not> list_ex (\<lambda>d. tv_id d = i \<and> tv_user d = u) (sv_trusted sv) then (sv, Inl 404)
      else (sv\<lparr>sv_trusted := filter (\<lambda>d. \<not> (tv_id d = i \<and> tv_user d = u)) (sv_trusted sv)\<rparr>, Inr ()))"

text \<open>Accounts: the first administrator, and those that administrators create. The password arrives hashed.\<close>

definition new_user :: "context_rq \<Rightarrow> string \<Rightarrow> string \<Rightarrow> bool \<Rightarrow> login_user" where
  "new_user rx email name super =
     \<lparr>ac_id = rx_id rx, ac_email = email, ac_name = name, ac_superadmin = super, ac_status = ''active'',
      ac_password_hash = rx_password_hash rx\<rparr>"

definition setup_first :: "context_rq \<Rightarrow> string \<Rightarrow> string \<Rightarrow> service \<Rightarrow> service \<times> (nat + unit)" where
  "setup_first rx email name sv =
     (if length (sv_users sv) > 0 then (sv, Inl 409)
      else (sv\<lparr>sv_users := sv_users sv @ [new_user rx email name True]\<rparr>, Inr ()))"

definition create_user :: "context_rq \<Rightarrow> string \<Rightarrow> string \<Rightarrow> bool \<Rightarrow> service \<Rightarrow> service \<times> (nat + unit)" where
  "create_user rx email name super sv =
     (if list_ex (\<lambda>u. ac_email u = email) (sv_users sv) then (sv, Inl 409)
      else (sv\<lparr>sv_users := sv_users sv @ [new_user rx email name super]\<rparr>, Inr ()))"

definition trusted_device_toggle_set :: "bool \<Rightarrow> service \<Rightarrow> service" where
  "trusted_device_toggle_set enabled sv = sv\<lparr>sv_td_enabled := enabled\<rparr>"

section \<open>The service as one machine\<close>

datatype svc_op = Login string string | LoginMfa string bool | LoginPasskeyBegin | LoginPasskeyComplete json bool
  | Logout | LogoutEverywhere | MfaSetup string | MfaConfirm string | MfaDisable string | MfaRegen string
  | RegisterBegin string | RegisterComplete json | PasskeyDelete string
  | PolicySet string | AdminReset string | TrustedToggle bool | TrustedRevoke string | TrustedRevokeAll
  | Me | Setup string string | CreateUser string string bool | Sweep

datatype svc_answer = LoginAnswer login_out | MeAnswer me | Issued string | Done

definition answer :: "('a \<Rightarrow> svc_answer) \<Rightarrow> service \<times> (nat + 'a) \<Rightarrow> service \<times> (nat + svc_answer)" where
  "answer f r = (fst r, case snd r of Inl e \<Rightarrow> Inl e | Inr a \<Rightarrow> Inr (f a))"

text \<open>The guards that resolve the session of the request: any session, one that may enrol, a full one, a full
  one of an administrator. They hand the user on.\<close>

definition any_session ::
  "world \<Rightarrow> context_rq \<Rightarrow> service \<Rightarrow> (server_session \<Rightarrow> service \<Rightarrow> service \<times> (nat + svc_answer)) \<Rightarrow> service \<times> (nat + svc_answer)" where
  "any_session w rx sv handler =
     (case current w rx sv of (sv, None) \<Rightarrow> (sv, Inl 401) | (sv, Some sess) \<Rightarrow> handler sess sv)"

definition enrolling ::
  "world \<Rightarrow> context_rq \<Rightarrow> service \<Rightarrow> (login_user \<Rightarrow> server_session \<Rightarrow> service \<Rightarrow> service \<times> (nat + svc_answer)) \<Rightarrow> service \<times> (nat + svc_answer)" where
  "enrolling w rx sv handler =
     any_session w rx sv (\<lambda>sess sv.
       if se_kind sess \<notin> {''full'', ''mfa_setup''} then (sv, Inl 401)
       else (case user_by_id sv (se_user sess) of None \<Rightarrow> (sv, Inl 401) | Some user \<Rightarrow> handler user sess sv))"

definition full_session ::
  "world \<Rightarrow> context_rq \<Rightarrow> service \<Rightarrow> (login_user \<Rightarrow> service \<Rightarrow> service \<times> (nat + svc_answer)) \<Rightarrow> service \<times> (nat + svc_answer)" where
  "full_session w rx sv handler =
     any_session w rx sv (\<lambda>sess sv.
       if se_kind sess \<noteq> ''full'' then (sv, Inl 403)
       else (case user_by_id sv (se_user sess) of None \<Rightarrow> (sv, Inl 401) | Some user \<Rightarrow> handler user sv))"

definition admin_session ::
  "world \<Rightarrow> context_rq \<Rightarrow> service \<Rightarrow> (service \<Rightarrow> service \<times> (nat + svc_answer)) \<Rightarrow> service \<times> (nat + svc_answer)" where
  "admin_session w rx sv handler =
     full_session w rx sv (\<lambda>user sv. if \<not> can (ac_superadmin user) None USER_MANAGE then (sv, Inl 403) else handler sv)"

fun svc_step :: "world \<Rightarrow> context_rq \<Rightarrow> svc_op \<Rightarrow> service \<Rightarrow> service \<times> (nat + svc_answer)" where
  "svc_step w rx (Login email password) sv = answer LoginAnswer (login w rx email password sv)"
| "svc_step w rx (LoginMfa code remember) sv =
     any_session w rx sv (\<lambda>sess sv. answer LoginAnswer (login_mfa w rx sess code remember sv))"
| "svc_step w rx LoginPasskeyBegin sv = any_session w rx sv (\<lambda>sess sv. answer Issued (login_webauthn_begin w rx sess sv))"
| "svc_step w rx (LoginPasskeyComplete cred remember) sv =
     any_session w rx sv (\<lambda>sess sv. answer LoginAnswer (login_webauthn_complete w rx sess cred remember sv))"
| "svc_step w rx Logout sv = any_session w rx sv (\<lambda>sess sv. (logout_sv w rx sv, Inr Done))"
| "svc_step w rx LogoutEverywhere sv = any_session w rx sv (\<lambda>sess sv. (logout_all_sv sess sv, Inr Done))"
| "svc_step w rx (MfaSetup password) sv = enrolling w rx sv (\<lambda>user sess sv. answer Issued (mfa_setup w rx user password sv))"
| "svc_step w rx (MfaConfirm code) sv =
     enrolling w rx sv (\<lambda>user sess sv. answer (\<lambda>_. Done) (mfa_confirm w rx user sess code sv))"
| "svc_step w rx (MfaDisable password) sv = full_session w rx sv (\<lambda>user sv. answer (\<lambda>_. Done) (mfa_disable w user password sv))"
| "svc_step w rx (MfaRegen password) sv = full_session w rx sv (\<lambda>user sv. answer (\<lambda>_. Done) (mfa_regen w rx user password sv))"
| "svc_step w rx (RegisterBegin password) sv =
     enrolling w rx sv (\<lambda>user sess sv. answer Issued (webauthn_register_begin w rx user sess password sv))"
| "svc_step w rx (RegisterComplete cred) sv =
     enrolling w rx sv (\<lambda>user sess sv. answer (\<lambda>_. Done) (webauthn_register_complete w user sess cred sv))"
| "svc_step w rx (PasskeyDelete i) sv = full_session w rx sv (\<lambda>user sv. answer (\<lambda>_. Done) (webauthn_delete user i sv))"
| "svc_step w rx (PolicySet mode) sv = admin_session w rx sv (\<lambda>sv. answer (\<lambda>_. Done) (mfa_policy_set mode sv))"
| "svc_step w rx (AdminReset u) sv = admin_session w rx sv (\<lambda>sv. (mfa_admin_reset u sv, Inr Done))"
| "svc_step w rx (TrustedToggle enabled) sv = admin_session w rx sv (\<lambda>sv. (trusted_device_toggle_set enabled sv, Inr Done))"
| "svc_step w rx TrustedRevokeAll sv = full_session w rx sv (\<lambda>user sv. (revoke_all (ac_id user) sv, Inr Done))"
| "svc_step w rx (TrustedRevoke i) sv = full_session w rx sv (\<lambda>user sv. answer (\<lambda>_. Done) (revoke (ac_id user) i sv))"
| "svc_step w rx Me sv =
     enrolling w rx sv (\<lambda>user sess sv. (sv, Inr (MeAnswer (user_out user (se_kind sess = ''mfa_setup'')))))"
| "svc_step w rx (Setup email name) sv = answer (\<lambda>_. Done) (setup_first rx email name sv)"
| "svc_step w rx (CreateUser email name super) sv =
     admin_session w rx sv (\<lambda>sv. answer (\<lambda>_. Done) (create_user rx email name super sv))"
| "svc_step w rx Sweep sv = (purge_expired w (rx_now rx) sv, Inr Done)"

definition svc_run :: "world \<Rightarrow> (context_rq \<times> svc_op) list \<Rightarrow> service \<Rightarrow> service" where
  "svc_run w ops sv = foldl (\<lambda>sv (rx, opn). fst (svc_step w rx opn sv)) sv ops"

section \<open>How a full session is earned\<close>

text \<open>The session that a request's cookie resolves to.\<close>

definition presents :: "world \<Rightarrow> context_rq \<Rightarrow> service \<Rightarrow> string \<Rightarrow> string \<Rightarrow> bool" where
  "presents w rx sv kind u \<longleftrightarrow> (\<exists>s. snd (current w rx sv) = Some s \<and> se_kind s = kind \<and> se_user s = u)"

fun earned :: "world \<Rightarrow> context_rq \<Rightarrow> svc_op \<Rightarrow> service \<Rightarrow> string \<Rightarrow> bool" where
  "earned w rx (Login email password) sv u =
     (\<exists>user. authenticate w sv email password = Some user \<and> ac_id user = u
        \<and> (if enrolled sv u then sv_td_enabled sv \<and> find_valid w rx u sv else \<not> policy_requires_mfa (sv_policy sv) user))"
| "earned w rx (LoginMfa code remember) sv u =
     (presents w rx sv ''mfa_pending'' u
      \<and> (\<exists>row. sv_mfa sv u = Some row \<and> mr_enabled row
           \<and> (verify_totp w (rx_now rx) (mr_secret row) code (mr_last_step row) \<noteq> None
              \<or> consume_recovery w code (sv_recovery sv u) \<noteq> None)))"
| "earned w rx (LoginPasskeyComplete cred remember) sv u =
     (presents w rx sv ''mfa_pending'' u
      \<and> (\<exists>s challenge pk. snd (current w rx sv) = Some s \<and> sv_challenge sv (se_token_hash s) = Some challenge \<and> challenge \<noteq> []
           \<and> pk \<in> set (sv_passkeys sv u) \<and> wd_verify_authentication w cred challenge pk \<noteq> None))"
| "earned w rx (MfaConfirm code) sv u =
     (presents w rx sv ''mfa_setup'' u
      \<and> (\<exists>row. sv_mfa sv u = Some row \<and> verify_totp w (rx_now rx) (mr_secret row) code (mr_last_step row) \<noteq> None))"
| "earned w rx (RegisterComplete cred) sv u =
     (presents w rx sv ''mfa_setup'' u
      \<and> (\<exists>s challenge. snd (current w rx sv) = Some s \<and> sv_challenge sv (se_token_hash s) = Some challenge \<and> challenge \<noteq> []
           \<and> wd_verify_registration w cred challenge \<noteq> None))"
| "earned w rx _ sv u = False"

definition fulls :: "service \<Rightarrow> (string \<times> string) set" where
  "fulls sv = (\<lambda>s. (se_token_hash s, se_user s)) ` {s \<in> set (sv_sessions sv). se_kind s = ''full''}"

lemma fulls_iff: "(h, u) \<in> fulls sv \<longleftrightarrow> (\<exists>s \<in> set (sv_sessions sv). se_kind s = ''full'' \<and> se_token_hash s = h \<and> se_user s = u)"
  by (auto simp: fulls_def)

text \<open>What the operations on the session table leave alone.\<close>

lemma sessions_only [simp]:
  "sv_mfa (drop_presented w rx sv) = sv_mfa sv" "sv_passkeys (drop_presented w rx sv) = sv_passkeys sv"
  "sv_recovery (drop_presented w rx sv) = sv_recovery sv" "sv_trusted (drop_presented w rx sv) = sv_trusted sv"
  "sv_users (drop_presented w rx sv) = sv_users sv" "sv_policy (drop_presented w rx sv) = sv_policy sv"
  "sv_td_enabled (drop_presented w rx sv) = sv_td_enabled sv" "sv_challenge (drop_presented w rx sv) = sv_challenge sv"
  by (simp_all add: drop_presented_def delete_session_by_token_def split: option.split)

lemma current_only [simp]:
  "sv_mfa (fst (current w rx sv)) = sv_mfa sv" "sv_passkeys (fst (current w rx sv)) = sv_passkeys sv"
  "sv_recovery (fst (current w rx sv)) = sv_recovery sv" "sv_trusted (fst (current w rx sv)) = sv_trusted sv"
  "sv_users (fst (current w rx sv)) = sv_users sv" "sv_policy (fst (current w rx sv)) = sv_policy sv"
  "sv_td_enabled (fst (current w rx sv)) = sv_td_enabled sv" "sv_challenge (fst (current w rx sv)) = sv_challenge sv"
  by (simp_all add: current_def split: option.split)

lemma fulls_sessions: "sv_sessions sv = sv_sessions sv' \<Longrightarrow> fulls sv = fulls sv'"
  by (simp add: fulls_def)

lemma fulls_update [simp]:
  "fulls (sv\<lparr>sv_limiter := l\<rparr>) = fulls sv" "fulls (sv\<lparr>sv_mfa := m\<rparr>) = fulls sv" "fulls (sv\<lparr>sv_recovery := rc\<rparr>) = fulls sv"
  "fulls (sv\<lparr>sv_passkeys := pk\<rparr>) = fulls sv" "fulls (sv\<lparr>sv_trusted := td\<rparr>) = fulls sv" "fulls (sv\<lparr>sv_challenge := c\<rparr>) = fulls sv"
  "fulls (sv\<lparr>sv_users := us\<rparr>) = fulls sv" "fulls (sv\<lparr>sv_policy := p\<rparr>) = fulls sv" "fulls (sv\<lparr>sv_td_enabled := b\<rparr>) = fulls sv" "fulls (revoke_all u sv) = fulls sv"
  "fulls (succeeded key sv) = fulls sv" "fulls (failed rx key sv) = fulls sv" "fulls (maybe_remember_device w rx r u sv) = fulls sv"
  by (simp_all add: fulls_def revoke_all_def succeeded_def failed_def maybe_remember_device_def)

lemma fulls_less:
  "fulls (drop_presented w rx sv) \<subseteq> fulls sv" "fulls (delete_all_sessions_for_user u sv) \<subseteq> fulls sv"
  "fulls (purge_expired w now sv) \<subseteq> fulls sv"
  by (auto simp: fulls_def drop_presented_def delete_session_by_token_def delete_all_sessions_for_user_def purge_expired_def
      split: option.splits if_splits)

lemma fulls_create:
  "fulls (create_session w rx u kind ttl sv) = fulls sv \<union> (if kind = ''full'' then {(wd_hash w (rx_token rx), u)} else {})"
  by (auto simp: fulls_iff create_session_def split: if_splits)

lemma token_session:
  assumes "get_session_for_token hash idle now raw rows = Some s"
  shows "\<exists>s0 \<in> set rows. se_token_hash s0 = se_token_hash s \<and> se_kind s0 = se_kind s \<and> se_user s0 = se_user s"
  using assms by (auto simp: get_session_for_token_def touch_def find_Some_iff split: option.splits if_splits)

lemma fulls_current: "fulls (fst (current w rx sv)) \<subseteq> fulls sv"
proof -
  have "(se_token_hash s, se_user s) \<in> fulls sv"
    if "get_session_for_token hash idle now raw (sv_sessions sv) = Some s" "se_kind s = ''full''" for hash idle now raw s
    using token_session [OF that(1)] that(2) by (auto simp: fulls_iff)
  then show ?thesis by (auto simp: current_def fulls_iff split: option.splits if_splits)
qed

text \<open>After the session was resolved, every row with its token is that session.\<close>

lemma current_rows:
  assumes "current w rx sv = (sv', Some s)" and "x \<in> set (sv_sessions sv')" and "se_token_hash x = se_token_hash s"
  shows "x = s"
  using assms by (auto simp: current_def split: option.splits if_splits)

lemma fulls_set_kind:
  assumes "\<And>x. x \<in> set (sv_sessions sv) \<Longrightarrow> se_token_hash x = se_token_hash s \<Longrightarrow> se_user x = se_user s"
  shows "fulls (set_kind_full s sv) \<subseteq> fulls sv \<union> (if se_kind s = ''mfa_setup'' then {(se_token_hash s, se_user s)} else {})"
  using assms by (auto simp: set_kind_full_def fulls_iff split: if_splits)

lemma fulls_limited:
  assumes "\<And>l. fulls (fst (handler (sv\<lparr>sv_limiter := l\<rparr>))) \<subseteq> A" and "fulls sv \<subseteq> A"
  shows "fulls (fst (limited w rx key sv handler)) \<subseteq> A"
  using assms by (auto simp: limited_def split: prod.splits option.splits)

lemma fulls_upgrade: "fulls (fst (upgrade w rx key remember user sv)) \<subseteq> fulls sv \<union> {(wd_hash w (rx_token rx), ac_id user)}"
  using fulls_less(1) by (fastforce simp: upgrade_def fulls_create)

lemma fst_answer [simp]: "fst (answer f r) = fst r"
  by (simp add: answer_def)

lemma fulls_any_session:
  assumes "\<And>s sv'. current w rx sv = (sv', Some s) \<Longrightarrow> fulls (fst (handler s sv')) \<subseteq> fulls sv' \<union> A"
  shows "fulls (fst (any_session w rx sv handler)) \<subseteq> fulls sv \<union> A"
  using assms fulls_current [of w rx sv] by (fastforce simp: any_session_def split: prod.splits option.splits)

lemma find_mem: "find P xs = Some x \<Longrightarrow> x \<in> set xs"
  by (auto simp: find_Some_iff)

lemma user_by_id_id: "user_by_id sv i = Some u \<Longrightarrow> ac_id u = i"
  by (auto simp: user_by_id_def find_Some_iff)

lemma enrolled_cong: "sv_mfa sv = sv_mfa sv' \<Longrightarrow> sv_passkeys sv = sv_passkeys sv' \<Longrightarrow> enrolled sv = enrolled sv'"
  by (simp add: enrolled_def fun_eq_iff has_totp_def has_webauthn_credentials_def)

lemma find_valid_cong: "sv_trusted sv = sv_trusted sv' \<Longrightarrow> find_valid w rx u sv = find_valid w rx u sv'"
  by (cases "rx_trusted rx") (simp_all add: find_valid_def)

lemma fulls_login:
  "fulls (fst (login w rx email password sv)) \<subseteq> fulls sv \<union> {(h, u). earned w rx (Login email password) sv u}"
  unfolding login_def
proof (rule fulls_limited)
  fix l
  let ?sv = "drop_presented w rx (sv\<lparr>sv_limiter := l\<rparr>)"
  have auth: "authenticate w (sv\<lparr>sv_limiter := l\<rparr>) email password = authenticate w sv email password"
    by (simp add: authenticate_def)
  have same: "enrolled ?sv = enrolled sv" by (rule enrolled_cong) simp_all
  have same': "find_valid w rx u ?sv = find_valid w rx u sv" for u by (rule find_valid_cong) simp
  have less: "fulls ?sv \<subseteq> fulls sv" using fulls_less(1) [of w rx "sv\<lparr>sv_limiter := l\<rparr>"] by simp
  show "fulls (fst (login_admitted w rx email password (sv\<lparr>sv_limiter := l\<rparr>))) \<subseteq> fulls sv \<union> {(h, u). earned w rx (Login email password) sv u}"
    using less by (auto simp: login_admitted_def auth same same' Let_def fulls_create login_kind_def split: option.splits if_splits)
qed simp

lemma fulls_login_mfa:
  assumes "current w rx sv = (sv', Some s)"
  shows "fulls (fst (login_mfa w rx s code remember sv')) \<subseteq> fulls sv' \<union> {(h, u). earned w rx (LoginMfa code remember) sv u}"
proof (cases "se_kind s = ''mfa_pending''")
  case True
  have sv': "sv_mfa sv' = sv_mfa sv" "sv_recovery sv' = sv_recovery sv"
    using current_only [of w rx sv] assms by simp_all
  have p: "presents w rx sv ''mfa_pending'' (se_user s)" using assms True by (simp add: presents_def)
  note up = fulls_upgrade [of w rx "mfa_key rx (se_user s)" remember]
  have "fulls (fst (mfa_admitted w rx (se_user s) code remember (sv'\<lparr>sv_limiter := l\<rparr>)))
      \<subseteq> fulls sv' \<union> {(h, u). earned w rx (LoginMfa code remember) sv u}" for l
    using p by (auto simp: mfa_admitted_def Let_def sv' split: option.splits if_splits dest!: subsetD [OF up] user_by_id_id)
  then have "fulls (fst (limited w rx (mfa_key rx (se_user s)) sv' (mfa_admitted w rx (se_user s) code remember)))
      \<subseteq> fulls sv' \<union> {(h, u). earned w rx (LoginMfa code remember) sv u}"
    by (rule fulls_limited) simp
  then show ?thesis using True by (simp only: login_mfa_def simp_thms if_False)
qed (simp add: login_mfa_def)

lemma fulls_login_passkey:
  assumes "current w rx sv = (sv', Some s)"
  shows "fulls (fst (login_webauthn_complete w rx s cred remember sv'))
    \<subseteq> fulls sv' \<union> {(h, u). earned w rx (LoginPasskeyComplete cred remember) sv u}"
proof (cases "\<exists>challenge. se_kind s = ''mfa_pending'' \<and> sv_challenge sv' (se_token_hash s) = Some challenge \<and> challenge \<noteq> []")
  case True
  then obtain challenge where c: "se_kind s = ''mfa_pending''" "sv_challenge sv' (se_token_hash s) = Some challenge" "challenge \<noteq> []"
    by blast
  have sv': "sv_passkeys sv' = sv_passkeys sv" "sv_challenge sv' = sv_challenge sv"
    using current_only [of w rx sv] assms by simp_all
  have p: "presents w rx sv ''mfa_pending'' (se_user s)" "snd (current w rx sv) = Some s" using assms c(1) by (simp_all add: presents_def)
  note up = fulls_upgrade [of w rx "mfa_key rx (se_user s)" remember]
  have "fulls (fst (passkey_admitted w rx s challenge cred remember (sv'\<lparr>sv_limiter := l\<rparr>)))
      \<subseteq> fulls sv' \<union> {(h, u). earned w rx (LoginPasskeyComplete cred remember) sv u}" for l
    using p c(2,3)
    by (auto simp: passkey_admitted_def Let_def sv' bind_eq_Some_conv
        split: option.splits if_splits dest!: subsetD [OF up] user_by_id_id find_mem)
  then have "fulls (fst (limited w rx (mfa_key rx (se_user s)) sv' (passkey_admitted w rx s challenge cred remember)))
      \<subseteq> fulls sv' \<union> {(h, u). earned w rx (LoginPasskeyComplete cred remember) sv u}"
    by (rule fulls_limited) simp
  then show ?thesis using c by (simp only: login_webauthn_complete_def simp_thms if_False option.case)
next
  case False
  then show ?thesis by (auto simp: login_webauthn_complete_def split: option.splits)
qed

lemma fulls_enrolling:
  assumes "\<And>s sv' user. current w rx sv = (sv', Some s) \<Longrightarrow> ac_id user = se_user s \<Longrightarrow> fulls (fst (handler user s sv')) \<subseteq> fulls sv' \<union> A"
  shows "fulls (fst (enrolling w rx sv handler)) \<subseteq> fulls sv \<union> A"
  unfolding enrolling_def
  by (rule fulls_any_session) (use assms user_by_id_id in \<open>auto split: option.splits\<close>)

lemma fulls_full_session:
  assumes "\<And>sv' user. fulls (fst (handler user sv')) \<subseteq> fulls sv'"
  shows "fulls (fst (full_session w rx sv handler)) \<subseteq> fulls sv"
proof -
  have "fulls (fst (full_session w rx sv handler)) \<subseteq> fulls sv \<union> {}"
    unfolding full_session_def by (rule fulls_any_session) (use assms in \<open>auto split: option.splits\<close>)
  then show ?thesis by simp
qed

lemma fulls_admin_session:
  assumes "\<And>sv'. fulls (fst (handler sv')) \<subseteq> fulls sv'"
  shows "fulls (fst (admin_session w rx sv handler)) \<subseteq> fulls sv"
  unfolding admin_session_def by (rule fulls_full_session) (use assms in auto)

lemma fulls_confirm:
  assumes "current w rx sv = (sv', Some s)" and "ac_id user = se_user s"
  shows "fulls (fst (mfa_confirm w rx user s code sv')) \<subseteq> fulls sv' \<union> {(h, u). earned w rx (MfaConfirm code) sv u}"
proof (cases "sv_mfa sv' (ac_id user)")
  case (Some row)
  have sv': "sv_mfa sv' = sv_mfa sv" using current_only(1) [of w rx sv] assms by simp
  have rows: "se_user x = se_user s" if "x \<in> set (sv_sessions sv')" "se_token_hash x = se_token_hash s" for x
    using current_rows [OF assms(1) that] by simp
  have "fulls (set_kind_full s (sv'\<lparr>sv_mfa := m, sv_recovery := c\<rparr>))
      \<subseteq> fulls sv' \<union> (if se_kind s = ''mfa_setup'' then {(se_token_hash s, se_user s)} else {})" for m c
    using fulls_set_kind [of "sv'\<lparr>sv_mfa := m, sv_recovery := c\<rparr>" s] rows by simp
  then show ?thesis
    using Some assms
    by (fastforce simp: mfa_confirm_def presents_def sv' split: option.splits if_splits)
qed (simp add: mfa_confirm_def)

lemma fulls_register:
  assumes "current w rx sv = (sv', Some s)" and "ac_id user = se_user s"
  shows "fulls (fst (webauthn_register_complete w user s cred sv')) \<subseteq> fulls sv' \<union> {(h, u). earned w rx (RegisterComplete cred) sv u}"
proof -
  have sv': "sv_challenge sv' = sv_challenge sv" using current_only(8) [of w rx sv] assms by simp
  have rows: "se_user x = se_user s" if "x \<in> set (sv_sessions sv')" "se_token_hash x = se_token_hash s" for x
    using current_rows [OF assms(1) that] by simp
  have "fulls (set_kind_full s (sv'\<lparr>sv_challenge := c, sv_passkeys := k\<rparr>))
      \<subseteq> fulls sv' \<union> (if se_kind s = ''mfa_setup'' then {(se_token_hash s, se_user s)} else {})" for c k
    using fulls_set_kind [of "sv'\<lparr>sv_challenge := c, sv_passkeys := k\<rparr>" s] rows by simp
  then show ?thesis
    using assms
    by (fastforce simp: webauthn_register_complete_def presents_def sv' Let_def split: option.splits if_splits)
qed

lemma fulls_kept:
  "fulls (fst (login_webauthn_begin w rx sess sv)) = fulls sv" "fulls (fst (mfa_setup w rx user password sv)) = fulls sv"
  "fulls (fst (mfa_disable w user password sv)) = fulls sv" "fulls (fst (mfa_regen w rx user password sv)) = fulls sv"
  "fulls (fst (webauthn_register_begin w rx user sess password sv)) = fulls sv"
  "fulls (fst (webauthn_delete user i sv)) = fulls sv" "fulls (fst (mfa_policy_set mode sv)) = fulls sv"
  "fulls (mfa_admin_reset u sv) = fulls sv" "fulls (fst (revoke u i sv)) = fulls sv" "fulls (fst (setup_first rx email name sv)) = fulls sv"
  "fulls (fst (create_user rx email name super sv)) = fulls sv" "fulls (trusted_device_toggle_set b sv) = fulls sv"
  by (simp_all add: login_webauthn_begin_def mfa_setup_def mfa_disable_def mfa_regen_def webauthn_register_begin_def
      webauthn_delete_def mfa_policy_set_def mfa_admin_reset_def revoke_def setup_first_def create_user_def
      trusted_device_toggle_set_def Let_def)

lemma fulls_dropped: "fulls (logout_sv w rx sv) \<subseteq> fulls sv" "fulls (logout_all_sv sess sv) \<subseteq> fulls sv"
  by (simp_all add: logout_sv_def logout_all_sv_def fulls_less)

lemma fulls_quiet_session:
  "(\<And>s sv'. fulls (fst (handler s sv')) \<subseteq> fulls sv') \<Longrightarrow> fulls (fst (any_session w rx sv handler)) \<subseteq> fulls sv"
  "(\<And>user s sv'. fulls (fst (handler' user s sv')) \<subseteq> fulls sv') \<Longrightarrow> fulls (fst (enrolling w rx sv handler')) \<subseteq> fulls sv"
  using fulls_any_session [of w rx sv handler "{}"] fulls_enrolling [of w rx sv handler' "{}"] by simp_all

lemma fulls_quiet:
  "fulls (fst (svc_step w rx LoginPasskeyBegin sv)) \<subseteq> fulls sv" "fulls (fst (svc_step w rx Logout sv)) \<subseteq> fulls sv"
  "fulls (fst (svc_step w rx LogoutEverywhere sv)) \<subseteq> fulls sv" "fulls (fst (svc_step w rx (MfaSetup password) sv)) \<subseteq> fulls sv"
  "fulls (fst (svc_step w rx (MfaDisable password) sv)) \<subseteq> fulls sv" "fulls (fst (svc_step w rx (MfaRegen password) sv)) \<subseteq> fulls sv"
  "fulls (fst (svc_step w rx (RegisterBegin password) sv)) \<subseteq> fulls sv" "fulls (fst (svc_step w rx (PasskeyDelete i) sv)) \<subseteq> fulls sv"
  "fulls (fst (svc_step w rx (PolicySet mode) sv)) \<subseteq> fulls sv" "fulls (fst (svc_step w rx (AdminReset u) sv)) \<subseteq> fulls sv"
  "fulls (fst (svc_step w rx (TrustedToggle b) sv)) \<subseteq> fulls sv" "fulls (fst (svc_step w rx TrustedRevokeAll sv)) \<subseteq> fulls sv"
  "fulls (fst (svc_step w rx (TrustedRevoke i) sv)) \<subseteq> fulls sv" "fulls (fst (svc_step w rx Me sv)) \<subseteq> fulls sv"
  "fulls (fst (svc_step w rx (CreateUser email name super) sv)) \<subseteq> fulls sv"
  unfolding svc_step.simps
  by (rule fulls_quiet_session fulls_full_session fulls_admin_session, simp add: fulls_kept fulls_dropped)+

lemma fulls_step: "fulls (fst (svc_step w rx opn sv)) \<subseteq> fulls sv \<union> {(h, u). earned w rx opn sv u}"
proof (cases opn)
  case (Login email password)
  then show ?thesis using fulls_login by simp
next
  case (LoginMfa code remember)
  show ?thesis unfolding LoginMfa svc_step.simps by (rule fulls_any_session) (simp only: fst_answer fulls_login_mfa)
next
  case (LoginPasskeyComplete cred remember)
  show ?thesis
    unfolding LoginPasskeyComplete svc_step.simps by (rule fulls_any_session) (simp only: fst_answer fulls_login_passkey)
next
  case (MfaConfirm code)
  show ?thesis unfolding MfaConfirm svc_step.simps by (rule fulls_enrolling) (simp only: fst_answer fulls_confirm)
next
  case (RegisterComplete cred)
  show ?thesis unfolding RegisterComplete svc_step.simps by (rule fulls_enrolling) (simp only: fst_answer fulls_register)
next
  case Sweep
  then show ?thesis using fulls_less(3) by auto
next
  case (Setup email name)
  then show ?thesis by (simp add: fulls_kept)
qed (simp_all only: fulls_quiet le_supI1)


section \<open>Codes work once\<close>

lemma try_steps_later: "try_steps code_at code (Some k) steps = Some j \<Longrightarrow> k < j"
  by (induction steps) (auto split: if_splits)

lemma verify_totp_later: "verify_totp w now secret code (Some k) = Some j \<Longrightarrow> k < j"
  by (auto simp: verify_totp_def Let_def split: if_splits dest: try_steps_later simp del: try_steps.simps)

lemma find_match_bound: "find_match ok n hs = Some j \<Longrightarrow> n \<le> j \<and> j < n + length hs \<and> ok (hs ! (j - n))"
  by (induction hs arbitrary: n) (fastforce split: if_splits simp: Suc_diff_le)+

text \<open>Consuming a recovery code marks one that was unused and matches, and changes nothing else.\<close>

lemma consume_recovery_Some:
  assumes "consume_recovery w code rcs = Some rcs'"
  shows "\<exists>i < length rcs. \<not> rc_used (rcs ! i) \<and> wd_verify_password w (py_upper (py_strip code)) (rc_hash (rcs ! i))
    \<and> rcs' = rcs[i := (rcs ! i)\<lparr>rc_used := True\<rparr>]"
proof -
  let ?unused = "filter (\<lambda>i. \<not> rc_used (rcs ! i)) [0..<length rcs]"
  obtain j where j: "find_match (wd_verify_password w (py_upper (py_strip code))) 0 (map (\<lambda>i. rc_hash (rcs ! i)) ?unused) = Some j"
    "rcs' = rcs[?unused ! j := (rcs ! (?unused ! j))\<lparr>rc_used := True\<rparr>]"
    using assms by (auto simp: consume_recovery_def find_recovery_match_def Let_def split: option.splits)
  then have "j < length ?unused" "wd_verify_password w (py_upper (py_strip code)) (rc_hash (rcs ! (?unused ! j)))"
    using find_match_bound [OF j(1)] by auto
  moreover then have "?unused ! j \<in> set ?unused" using nth_mem by blast
  ultimately show ?thesis using j(2) by (intro exI [of _ "?unused ! j"]) auto
qed

text \<open>What a code spends: the step of the one-time password, or the recovery code it matches.\<close>

datatype spent = Step int | Code nat

definition spends :: "world \<Rightarrow> int \<Rightarrow> string \<Rightarrow> string \<Rightarrow> service \<Rightarrow> spent \<Rightarrow> bool" where
  "spends w now code u sv sp \<longleftrightarrow>
     (\<exists>row. sv_mfa sv u = Some row \<and> mr_enabled row \<and>
        (case sp of
           Step j \<Rightarrow> verify_totp w now (mr_secret row) code (mr_last_step row) = Some j
         | Code i \<Rightarrow> i < length (sv_recovery sv u) \<and> wd_verify_password w (py_upper (py_strip code)) (rc_hash (sv_recovery sv u ! i))))"

text \<open>What is spent already: the steps up to the last accepted one, and the codes marked as used.\<close>

definition used_up :: "string \<Rightarrow> service \<Rightarrow> spent set" where
  "used_up u sv =
     {Step j | j. \<exists>row k. sv_mfa sv u = Some row \<and> mr_last_step row = Some k \<and> j \<le> k}
     \<union> {Code i | i. i < length (sv_recovery sv u) \<and> rc_used (sv_recovery sv u ! i)}"

lemma used_up_iff [simp]:
  "Step j \<in> used_up u sv \<longleftrightarrow> (\<exists>row k. sv_mfa sv u = Some row \<and> mr_last_step row = Some k \<and> j \<le> k)"
  "Code i \<in> used_up u sv \<longleftrightarrow> i < length (sv_recovery sv u) \<and> rc_used (sv_recovery sv u ! i)"
  by (auto simp: used_up_def)

lemma used_up_cong: "sv_mfa sv' = sv_mfa sv \<Longrightarrow> sv_recovery sv' = sv_recovery sv \<Longrightarrow> used_up u sv' = used_up u sv"
  by (simp add: used_up_def)

lemma factors_of_limiter [simp]:
  "used_up u (sv\<lparr>sv_limiter := l\<rparr>) = used_up u sv" "spends w now code u (sv\<lparr>sv_limiter := l\<rparr>) sp = spends w now code u sv sp"
  by (rule used_up_cong; simp) (cases sp; simp add: spends_def)

lemma used_up_upgrade: "used_up u (fst (upgrade w rx key remember user sv)) = used_up u sv"
  by (rule used_up_cong) (simp_all add: upgrade_def maybe_remember_device_def succeeded_def create_session_def)

lemma used_up_accept_step:
  assumes "sv_mfa sv u = Some row" and "verify_totp w now (mr_secret row) code (mr_last_step row) = Some j"
  shows "used_up v sv \<union> (if v = u then {Step j} else {}) \<subseteq> used_up v (sv\<lparr>sv_mfa := (sv_mfa sv)(u := Some (row\<lparr>mr_last_step := Some j\<rparr>))\<rparr>)"
proof -
  have "k \<le> j" if "mr_last_step row = Some k" for k
    using verify_totp_later [of w now "mr_secret row" code k j] assms(2) that by simp
  then show ?thesis using assms(1) by (auto simp: used_up_def)
qed

lemma used_up_accept_code:
  assumes "i < length (sv_recovery sv u)"
  shows "used_up v sv \<union> (if v = u then {Code i} else {})
    \<subseteq> used_up v (sv\<lparr>sv_recovery := (sv_recovery sv)(u := (sv_recovery sv u)[i := (sv_recovery sv u ! i)\<lparr>rc_used := True\<rparr>])\<rparr>)"
  using assms by (auto simp: used_up_def nth_list_update)

text \<open>A second step either fails and spends nothing, or spends something that was not spent.\<close>

lemma mfa_admitted_spends:
  assumes "mfa_admitted w rx u code remember sv = (sv', res)"
  shows "case res of Inl e \<Rightarrow> used_up v sv' = used_up v sv
    | Inr a \<Rightarrow> (\<exists>sp. spends w (rx_now rx) code u sv sp \<and> sp \<notin> used_up u sv \<and> used_up v sv \<subseteq> used_up v sv' \<and> sp \<in> used_up u sv')"
proof -
  note facts = assms [symmetric]
  show ?thesis
  proof (cases "\<exists>user row. user_by_id sv u = Some user \<and> sv_mfa sv u = Some row \<and> mr_enabled row")
    case False
    then show ?thesis using facts by (auto simp: mfa_admitted_def Let_def split: option.splits if_splits)
  next
    case True
    then obtain user row where ur: "user_by_id sv u = Some user" "sv_mfa sv u = Some row" "mr_enabled row" by blast
    show ?thesis
    proof (cases "verify_totp w (rx_now rx) (mr_secret row) code (mr_last_step row)")
      case (Some j)
      let ?sv = "sv\<lparr>sv_mfa := (sv_mfa sv)(u := Some (row\<lparr>mr_last_step := Some j\<rparr>))\<rparr>"
      have res: "(sv', res) = upgrade w rx (mfa_key rx u) remember user ?sv"
        using facts ur Some by (simp add: mfa_admitted_def Let_def)
      then have sv': "used_up v sv' = used_up v ?sv" for v using used_up_upgrade by (metis fst_conv)
      have "Step j \<notin> used_up u sv" using verify_totp_later Some ur(2) by fastforce
      moreover have "spends w (rx_now rx) code u sv (Step j)" using ur Some by (simp add: spends_def)
      moreover have "used_up v sv \<subseteq> used_up v sv'" "Step j \<in> used_up u sv'"
        using used_up_accept_step [OF ur(2) Some, of v] used_up_accept_step [OF ur(2) Some, of u] unfolding sv' by simp_all
      moreover obtain a where "res = Inr a" using res by (auto simp: upgrade_def)
      ultimately show ?thesis by (simp only: sum.case) blast
    next
      case None
      show ?thesis
      proof (cases "consume_recovery w code (sv_recovery sv u)")
        case none: None
        then show ?thesis using facts ur None by (auto simp: mfa_admitted_def Let_def failed_def)
      next
        case (Some rcs)
        then obtain i where i: "i < length (sv_recovery sv u)" "\<not> rc_used (sv_recovery sv u ! i)"
          "wd_verify_password w (py_upper (py_strip code)) (rc_hash (sv_recovery sv u ! i))"
          "rcs = (sv_recovery sv u)[i := (sv_recovery sv u ! i)\<lparr>rc_used := True\<rparr>]"
          using consume_recovery_Some by blast
        have res: "(sv', res) = upgrade w rx (mfa_key rx u) remember user (sv\<lparr>sv_recovery := (sv_recovery sv)(u := rcs)\<rparr>)"
          using facts ur None Some by (simp add: mfa_admitted_def Let_def)
        then have sv': "used_up v sv' = used_up v (sv\<lparr>sv_recovery := (sv_recovery sv)(u := rcs)\<rparr>)" for v using used_up_upgrade by (metis fst_conv)
        have "Code i \<notin> used_up u sv" using i(2) by simp
        moreover have "spends w (rx_now rx) code u sv (Code i)" using ur i by (simp add: spends_def)
        moreover have "used_up v sv \<subseteq> used_up v sv'" "Code i \<in> used_up u sv'"
          using used_up_accept_code [OF i(1), of v] used_up_accept_code [OF i(1), of u] unfolding sv' i(4) by simp_all
        moreover obtain a where "res = Inr a" using res by (auto simp: upgrade_def)
        ultimately show ?thesis by (simp only: sum.case) blast
      qed
    qed
  qed
qed

lemma login_mfa_spends:
  assumes "login_mfa w rx s code remember sv = (sv', res)"
  shows "case res of Inl e \<Rightarrow> used_up v sv' = used_up v sv
    | Inr a \<Rightarrow> se_kind s = ''mfa_pending'' \<and> (\<exists>sp. spends w (rx_now rx) code (se_user s) sv sp \<and> sp \<notin> used_up (se_user s) sv
        \<and> used_up v sv \<subseteq> used_up v sv' \<and> sp \<in> used_up (se_user s) sv')"
proof -
  consider "\<exists>e. res = Inl e \<and> (sv' = sv \<or> (\<exists>l. sv' = sv\<lparr>sv_limiter := l\<rparr>))"
    | l where "se_kind s = ''mfa_pending''" "mfa_admitted w rx (se_user s) code remember (sv\<lparr>sv_limiter := l\<rparr>) = (sv', res)"
    using assms by (auto simp: login_mfa_def limited_def split: if_splits prod.splits option.splits)
  then show ?thesis
  proof cases
    case 1
    then show ?thesis by auto
  next
    case 2
    then show ?thesis using mfa_admitted_spends [OF 2(2), of v] by (simp split: sum.splits)
  qed
qed

text \<open>The operations that leave a user's factors in place: all but those that enrol, disable, regenerate or reset.\<close>

fun keeps_factors :: "svc_op \<Rightarrow> bool" where
  "keeps_factors (MfaSetup p) = False"
| "keeps_factors (MfaConfirm c) = False"
| "keeps_factors (MfaDisable p) = False"
| "keeps_factors (MfaRegen p) = False"
| "keeps_factors (AdminReset u) = False"
| "keeps_factors _ = True"

lemma used_up_current: "current w rx sv = (sv', os) \<Longrightarrow> used_up u sv' = used_up u sv"
  using current_only [of w rx sv] by (intro used_up_cong) simp_all

lemma spends_current: "current w rx sv = (sv', os) \<Longrightarrow> spends w now code u sv' sp = spends w now code u sv sp"
  using current_only [of w rx sv] by (cases sp) (simp_all add: spends_def)

lemma used_up_any_session:
  "(\<And>s sv'. used_up u sv' \<subseteq> used_up u (fst (handler s sv'))) \<Longrightarrow> used_up u sv \<subseteq> used_up u (fst (any_session w rx sv handler))"
  by (auto simp del: used_up_iff simp: any_session_def dest!: used_up_current [of _ _ _ _ _ u] split: prod.splits option.splits)

lemma used_up_guarded:
  "(\<And>user s sv'. used_up u sv' \<subseteq> used_up u (fst (handler user s sv'))) \<Longrightarrow> used_up u sv \<subseteq> used_up u (fst (enrolling w rx sv handler))"
  "(\<And>user sv'. used_up u sv' \<subseteq> used_up u (fst (handler' user sv'))) \<Longrightarrow> used_up u sv \<subseteq> used_up u (fst (full_session w rx sv handler'))"
  "(\<And>sv'. used_up u sv' \<subseteq> used_up u (fst (handler'' sv'))) \<Longrightarrow> used_up u sv \<subseteq> used_up u (fst (admin_session w rx sv handler''))"
  unfolding enrolling_def full_session_def admin_session_def
  by (rule used_up_any_session; simp split: option.split)+

lemma used_up_kept:
  "used_up u (fst (login w rx email password sv)) = used_up u sv"
  "used_up u (fst (login_webauthn_begin w rx sess sv)) = used_up u sv"
  "used_up u (fst (login_webauthn_complete w rx sess cred remember sv)) = used_up u sv"
  "used_up u (logout_sv w rx sv) = used_up u sv" "used_up u (logout_all_sv sess sv) = used_up u sv"
  "used_up u (fst (webauthn_register_begin w rx user sess password sv)) = used_up u sv"
  "used_up u (fst (webauthn_register_complete w user sess cred sv)) = used_up u sv"
  "used_up u (fst (webauthn_delete user i sv)) = used_up u sv" "used_up u (fst (mfa_policy_set mode sv)) = used_up u sv"
  "used_up u (trusted_device_toggle_set b sv) = used_up u sv" "used_up u (revoke_all v sv) = used_up u sv"
  "used_up u (fst (revoke v i sv)) = used_up u sv" "used_up u (fst (setup_first rx email name sv)) = used_up u sv"
  "used_up u (fst (create_user rx email name super sv)) = used_up u sv"
  "used_up u (purge_expired w now sv) = used_up u sv"
  by (rule used_up_cong; auto simp: login_def limited_def login_admitted_def login_webauthn_begin_def login_webauthn_complete_def
      passkey_admitted_def logout_sv_def logout_all_sv_def webauthn_register_begin_def webauthn_register_complete_def
      webauthn_delete_def mfa_policy_set_def trusted_device_toggle_set_def revoke_all_def purge_expired_def set_kind_full_def
      revoke_def setup_first_def create_user_def
      delete_all_sessions_for_user_def failed_def succeeded_def create_session_def upgrade_def maybe_remember_device_def Let_def
      split: prod.splits option.splits)+

lemma used_up_mfa: "used_up u sv \<subseteq> used_up u (fst (login_mfa w rx s code remember sv))"
proof -
  obtain sv' res where r: "login_mfa w rx s code remember sv = (sv', res)" by fastforce
  show ?thesis using login_mfa_spends [OF r, of u] r by (auto split: sum.splits)
qed

lemma used_up_step: "keeps_factors opn \<Longrightarrow> used_up u sv \<subseteq> used_up u (fst (svc_step w rx opn sv))"
  by (cases opn)
    (simp_all add: used_up_kept, (intro used_up_any_session used_up_guarded; simp add: used_up_kept used_up_mfa)+)

lemma used_up_run: "list_all (\<lambda>(rx, opn). keeps_factors opn) ops \<Longrightarrow> used_up u sv \<subseteq> used_up u (svc_run w ops sv)"
proof (induction ops arbitrary: sv)
  case (Cons step ops)
  obtain rx opn where s: "step = (rx, opn)" by fastforce
  have "used_up u sv \<subseteq> used_up u (fst (svc_step w rx opn sv))" using Cons.prems by (simp add: s used_up_step)
  also have "\<dots> \<subseteq> used_up u (svc_run w ops (fst (svc_step w rx opn sv)))" using Cons by simp
  finally show ?case by (simp add: svc_run_def s)
qed (simp add: svc_run_def)

lemma second_step_spends:
  assumes "svc_step w rx (LoginMfa code remember) sv = (sv', Inr a)" and "presents w rx sv kind u"
  shows "\<exists>sp. spends w (rx_now rx) code u sv sp \<and> sp \<notin> used_up u sv \<and> sp \<in> used_up u sv'"
proof -
  obtain s sv0 where s: "current w rx sv = (sv0, Some s)" "se_user s = u"
    using assms(2) by (auto simp: presents_def) (metis prod.collapse)
  obtain b where b: "login_mfa w rx s code remember sv0 = (sv', Inr b)"
    using assms(1) s(1) by (auto simp: any_session_def answer_def split: sum.splits) (metis prod.collapse)
  show ?thesis
    using login_mfa_spends [OF b, of u] s by (auto simp: used_up_current [OF s(1)] spends_current [OF s(1)] simp del: used_up_iff)
qed

text \<open>C11. A code works once. Take two second steps of a user's sign-in that the service accepts, possibly in
  different browsers, with any requests of anybody in between except those that replace the user's factors
  (set-up, confirmation, disabling, regenerating, resetting). Each spends a one-time password's step or one
  of the recovery codes, the two do not spend the same, and where both spend a step the second one is later.
  So a code that was seen over a shoulder, or replayed by a proxy, is refused unless it is the code of a later
  step as well.\<close>

theorem codes_work_once:
  assumes "svc_step w rx (LoginMfa code remember) sv = (sv1, Inr a)" and "presents w rx sv ''mfa_pending'' u"
    and "list_all (\<lambda>(rx, opn). keeps_factors opn) ops" and "sv2 = svc_run w ops sv1"
    and "svc_step w rx' (LoginMfa code' remember') sv2 = (sv3, Inr a')" and "presents w rx' sv2 ''mfa_pending'' u"
  shows "\<exists>sp sp'. spends w (rx_now rx) code u sv sp \<and> spends w (rx_now rx') code' u sv2 sp' \<and> sp \<noteq> sp'
    \<and> (\<forall>j k. sp = Step j \<and> sp' = Step k \<longrightarrow> j < k)"
proof -
  obtain sp where sp: "spends w (rx_now rx) code u sv sp" "sp \<in> used_up u sv1"
    using second_step_spends [OF assms(1,2)] by blast
  obtain sp' where sp': "spends w (rx_now rx') code' u sv2 sp'" "sp' \<notin> used_up u sv2"
    using second_step_spends [OF assms(5,6)] by blast
  have used: "sp \<in> used_up u sv2" using sp(2) used_up_run [OF assms(3), of u sv1 w] assms(4) by blast
  then have "j < k" if "sp = Step j" "sp' = Step k" for j k using sp'(2) that by (auto simp: not_le)
  then show ?thesis using sp(1) sp' used by blast
qed

section \<open>A sample service\<close>

definition sample_world :: world where
  "sample_world =
     \<lparr>wd_hash = (\<lambda>raw. raw), wd_verify_password = (\<lambda>p h. p = h),
      wd_totp_at = (\<lambda>secret t. if t = 300 then ''10'' else if t = 330 then ''11'' else ''0''),
      wd_raw_id = (\<lambda>_. None), wd_verify_authentication = (\<lambda>_ _ _. None), wd_verify_registration = (\<lambda>_ _. None),
      wd_webauthn = False, wd_login_max_attempts = 5, wd_login_window = 900, wd_idle = 1800, wd_session_ttl = 43200,
      wd_pending_ttl = 300, wd_trusted_days = 30\<rparr>"

definition sample_owner :: login_user where
  "sample_owner = \<lparr>ac_id = ''u1'', ac_email = ''u@x'', ac_name = ''U'', ac_superadmin = False, ac_status = ''active'',
     ac_password_hash = ''pw''\<rparr>"

definition sample_rq :: "int \<Rightarrow> string option \<Rightarrow> string \<Rightarrow> context_rq" where
  "sample_rq now cookie token = \<lparr>rx_now = now, rx_mono = 0, rx_ip = ''ip'', rx_session = cookie, rx_trusted = None,
     rx_token = token, rx_csrf = ''c'', rx_random = ''S'', rx_id = ''i'', rx_codes = [], rx_password_hash = ''h''\<rparr>"

definition sample_service :: "string \<Rightarrow> (string \<rightharpoonup> mfa_row) \<Rightarrow> server_session list \<Rightarrow> service" where
  "sample_service policy mfa sessions =
     \<lparr>sv_users = [sample_owner], sv_mfa = mfa, sv_recovery = (\<lambda>_. [\<lparr>rc_hash = ''R1'', rc_used = False\<rparr>]), sv_passkeys = (\<lambda>_. []),
      sv_trusted = [], sv_sessions = sessions, sv_challenge = (\<lambda>_. None), sv_policy = policy, sv_td_enabled = False,
      sv_limiter = SlidingWindowLimiter 10\<rparr>"

definition enrolled_row :: "string \<rightharpoonup> mfa_row" where
  "enrolled_row = [''u1'' \<mapsto> \<lparr>mr_enabled = True, mr_secret = ''K'', mr_last_step = None\<rparr>]"

definition sample_kind :: "string \<Rightarrow> string \<Rightarrow> server_session" where
  "sample_kind kind token = \<lparr>se_user = ''u1'', se_kind = kind, se_token_hash = token, se_csrf_token = ''c'', se_last_seen_at = 300, se_expires_at = 600\<rparr>"

lemmas sample_service_defs = sample_world_def sample_owner_def sample_rq_def sample_service_def enrolled_row_def sample_kind_def
  SlidingWindowLimiter_def


definition two_tabs :: service where
  "two_tabs = sample_service ''off'' enrolled_row [sample_kind ''mfa_pending'' ''A'', sample_kind ''mfa_pending'' ''B'']"

definition after_one :: service where
  "after_one = fst (svc_step sample_world (sample_rq 310 (Some ''A'') ''T'') (LoginMfa ''10'' False) two_tabs)"

text \<open>Two tabs wait for the second step; the first presents the current one-time password, the session table is
  swept, the second presents a recovery code.\<close>

theorem codes_work_once_witness:
  "\<exists>sp sp'. spends sample_world 310 ''10'' ''u1'' two_tabs sp
    \<and> spends sample_world 320 ''r1'' ''u1'' (svc_run sample_world [(sample_rq 315 None [], Sweep)] after_one) sp' \<and> sp \<noteq> sp'"
proof -
  let ?rx = "sample_rq 310 (Some ''A'') ''T''" and ?rx' = "sample_rq 320 (Some ''B'') ''U''"
  let ?ops = "[(sample_rq 315 None [], Sweep)]"
  let ?sv2 = "svc_run sample_world ?ops after_one"
  have "snd (svc_step sample_world ?rx (LoginMfa ''10'' False) two_tabs) = Inr (LoginAnswer (ok_out sample_owner))" by code_simp
  then have one: "svc_step sample_world ?rx (LoginMfa ''10'' False) two_tabs = (after_one, Inr (LoginAnswer (ok_out sample_owner)))"
    by (simp add: after_one_def prod_eq_iff)
  have "snd (svc_step sample_world ?rx' (LoginMfa ''r1'' False) ?sv2) = Inr (LoginAnswer (ok_out sample_owner))" by code_simp
  then obtain sv3 where two: "svc_step sample_world ?rx' (LoginMfa ''r1'' False) ?sv2 = (sv3, Inr (LoginAnswer (ok_out sample_owner)))"
    by (metis prod.collapse)
  have "snd (current sample_world ?rx two_tabs) = Some (sample_kind ''mfa_pending'' ''A'')"
    "snd (current sample_world ?rx' ?sv2) = Some (sample_kind ''mfa_pending'' ''B'')" by code_simp+
  then have p: "presents sample_world ?rx two_tabs ''mfa_pending'' ''u1''" "presents sample_world ?rx' ?sv2 ''mfa_pending'' ''u1''"
    by (simp_all add: presents_def sample_kind_def)
  have ops: "list_all (\<lambda>(rx, opn). keeps_factors opn) ?ops" by simp
  have now: "rx_now ?rx = 310" "rx_now ?rx' = 320" by (simp_all add: sample_rq_def)
  show ?thesis using codes_work_once [OF one p(1) ops refl two p(2)] unfolding now by blast
qed

section \<open>Sessions that wait for enrolment\<close>

text \<open>A session opened for enrolment stays one until it expires: enrolment does not ask whether the account has
  a factor by now. Where the policy demands a second factor, somebody who knows the password and signed in
  before the owner enrolled can therefore replace the owner's factor afterwards, and holds a full session. The
  requests: both sign in, the owner (\<open>A\<close>) sets up and confirms, then the other (\<open>B\<close>) does.\<close>

definition owner_and_other :: "(context_rq \<times> svc_op) list" where
  "owner_and_other =
     [(sample_rq 300 None ''A'', Login ''u@x'' ''pw''), (sample_rq 300 None ''B'', Login ''u@x'' ''pw''),
      (sample_rq 301 (Some ''A'') [], MfaSetup ''pw''), (sample_rq 302 (Some ''A'') [], MfaConfirm ''10'')]"

definition other_later :: "(context_rq \<times> svc_op) list" where
  "other_later =
     [((sample_rq 303 (Some ''B'') [])\<lparr>rx_random := ''X''\<rparr>, MfaSetup ''pw''), (sample_rq 331 (Some ''B'') [], MfaConfirm ''11'')]"

definition secret_of :: "service \<Rightarrow> string option" where
  "secret_of sv = map_option mr_secret (sv_mfa sv ''u1'')"

lemma late_enrolment_replaces:
  "let sv = svc_run sample_world owner_and_other (sample_service ''all'' Map.empty []);
       sv' = svc_run sample_world other_later sv
   in enrolled sv ''u1'' \<and> secret_of sv = Some ''S''
      \<and> map se_kind (sv_sessions sv) = [''full'', ''mfa_setup'']
      \<and> map se_kind (sv_sessions sv') = [''full'', ''full''] \<and> secret_of sv' = Some ''X''"
  by code_simp

text \<open>Disabling the one-time password does not look at the policy, while deleting a passkey does: an account that
  must have a second factor is left with none by the first, never by the second.\<close>

lemma disable_ignores_policy:
  "sv_passkeys sv (ac_id user) = [] \<Longrightarrow> wd_verify_password w password (ac_password_hash user)
   \<Longrightarrow> \<not> enrolled (fst (mfa_disable w user password sv)) (ac_id user) \<and> snd (mfa_disable w user password sv) = Inr ()"
  by (simp add: mfa_disable_def enrolled_def has_totp_def has_webauthn_credentials_def revoke_all_def)

lemma delete_keeps_enrolled:
  "policy_requires_mfa (sv_policy sv) user \<Longrightarrow> enrolled (fst (webauthn_delete user i sv)) (ac_id user) = enrolled sv (ac_id user)"
  by (auto simp: webauthn_delete_def enrolled_def has_totp_def has_webauthn_credentials_def Let_def list_ex_iff)

text \<open>An administrator's reset removes the one-time password and the trusted devices and leaves the passkeys: an
  account that has one is still asked for it, and is not sent to enrolment.\<close>

lemma reset_keeps_passkeys:
  "sv_passkeys (mfa_admin_reset u sv) = sv_passkeys sv"
  "sv_passkeys sv (ac_id user) \<noteq> [] \<Longrightarrow> login_kind (mfa_admin_reset (ac_id user) sv) user = ''mfa_pending''"
  by (simp_all add: mfa_admin_reset_def revoke_all_def login_kind_def enrolled_def has_webauthn_credentials_def)

end
