(* ===== verification/SignInFlow.thy ===== *)
theory SignInFlow
  imports SignInService Session
begin

text \<open>
  The login page in front of the service: the answers of \<^verbatim>\<open>backend/app/api/auth.py\<close> as the JSON that
  \<^verbatim>\<open>schemas/auth.py\<close> gives them, and what \<^verbatim>\<open>frontend/src/pages/LoginPage.tsx\<close> makes of them. After a
  sign-in the page, the session behind the new cookie and the user that the service reports agree.
\<close>

section \<open>Answers as JSON\<close>

definition me_json :: "me \<Rightarrow> json" where
  "me_json m = JObj [(''id'', JStr (me_id m)), (''email'', JStr (me_email m)), (''name'', JStr (me_name m)),
     (''is_superadmin'', JBool (is_superadmin m)), (''mfa_setup_required'', JBool (mfa_setup_required m = Some True))]"

definition login_json :: "login_out \<Rightarrow> json" where
  "login_json lo = JObj [
     (''status'', JStr (lo_status lo)),
     (''user'', case lo_user lo of None \<Rightarrow> JNull | Some m \<Rightarrow> me_json m),
     (''methods'', case lo_methods lo of None \<Rightarrow> JNull | Some ms \<Rightarrow> JArr (map JStr ms)),
     (''remember_device'', case lo_remember lo of None \<Rightarrow> JNull
        | Some (enabled, days) \<Rightarrow> JObj [(''enabled'', JBool enabled), (''days'', JNum days)])]"

definition reply_of :: "nat + login_out \<Rightarrow> api_result" where
  "reply_of res = (case res of Inl e \<Rightarrow> Reply None (Some (JObj [])) e | Inr lo \<Rightarrow> Reply (Some (login_json lo)) None 200)"

lemma login_json_fields [simp]:
  "truthy (login_json lo)" "field (Some (login_json lo)) ''status'' = Some (JStr (lo_status lo))"
  "field (Some (login_json lo)) ''user'' = Some (case lo_user lo of None \<Rightarrow> JNull | Some m \<Rightarrow> me_json m)"
  "field (Some (login_json lo)) ''methods'' = Some (case lo_methods lo of None \<Rightarrow> JNull | Some ms \<Rightarrow> JArr (map JStr ms))"
  by (simp_all add: login_json_def obj_get_def)

lemma me_json_truthy [simp]: "truthy (me_json m)"
  by (simp add: me_json_def)

text \<open>The next request of the browser carries the cookie that the answer set.\<close>

definition with_cookie :: "context_rq \<Rightarrow> context_rq" where
  "with_cookie rx = rx\<lparr>rx_session := Some (rx_token rx)\<rparr>"

lemma string_list_methods [simp]: "List.map_filter (\<lambda>x. str_field (Some x)) (map JStr ms) = ms"
  by (induction ms) (simp_all add: map_filter_simps)

section \<open>The session behind the new cookie\<close>

definition opened_row :: "world \<Rightarrow> context_rq \<Rightarrow> string \<Rightarrow> string \<Rightarrow> int \<Rightarrow> server_session" where
  "opened_row w rx u kind ttl = \<lparr>se_user = u, se_kind = kind, se_token_hash = wd_hash w (rx_token rx), se_csrf_token = rx_csrf rx,
     se_last_seen_at = rx_now rx, se_expires_at = rx_now rx + ttl\<rparr>"

definition fresh :: "world \<Rightarrow> context_rq \<Rightarrow> service \<Rightarrow> bool" where
  "fresh w rx sv \<longleftrightarrow> rx_token rx \<noteq> [] \<and> wd_hash w (rx_token rx) \<notin> se_token_hash ` set (sv_sessions sv)"

lemma fresh_drop: "fresh w rx sv \<Longrightarrow> fresh w rx (drop_presented w rx sv)"
  by (auto simp: fresh_def drop_presented_def delete_session_by_token_def split: option.splits)

lemma find_fresh:
  "h \<notin> se_token_hash ` set rows \<Longrightarrow> se_token_hash row = h \<Longrightarrow> find (\<lambda>s. se_token_hash s = h) (rows @ [row]) = Some row"
  by (induction rows) auto

lemma opened_current:
  assumes "fresh w rx sv" and "0 \<le> wd_idle w" and "0 < ttl"
    and "sv_sessions sv' = sv_sessions sv @ [opened_row w rx u kind ttl]"
  shows "current w (with_cookie rx) sv' = (sv'\<lparr>sv_sessions := sv_sessions sv'\<rparr>, Some (opened_row w rx u kind ttl))"
proof -
  let ?row = "opened_row w rx u kind ttl"
  have "find (\<lambda>s. se_token_hash s = wd_hash w (rx_token rx)) (sv_sessions sv') = Some ?row"
    using assms(1,4) find_fresh [of "wd_hash w (rx_token rx)" "sv_sessions sv" ?row] by (simp add: fresh_def opened_row_def)
  then have "get_session_for_token (wd_hash w) (wd_idle w) (rx_now rx) (rx_token rx) (sv_sessions sv') = Some ?row"
    using assms(2,3) by (simp add: get_session_for_token_def session_valid_def touch_def opened_row_def LAST_SEEN_THROTTLE_def)
  moreover have "map (\<lambda>x. if se_token_hash x = se_token_hash ?row then ?row else x) (sv_sessions sv') = sv_sessions sv'"
    using assms(1,4) by (auto simp: fresh_def opened_row_def image_iff intro!: map_idI)
  ultimately show ?thesis using assms(1) by (simp add: current_def with_cookie_def fresh_def)
qed

lemma opened_me:
  assumes "fresh w rx sv" and "0 \<le> wd_idle w" and "0 < ttl"
    and "sv_sessions sv' = sv_sessions sv @ [opened_row w rx u kind ttl]" and "user_by_id sv' u = Some user"
  shows "snd (svc_step w (with_cookie rx) Me sv') =
    (if kind = ''full'' \<or> kind = ''mfa_setup'' then Inr (MeAnswer (user_out user (kind = ''mfa_setup''))) else Inl 401)"
  using opened_current [OF assms(1-4)] assms(5) by (simp add: enrolling_def any_session_def opened_row_def)

lemma find_unique: "distinct (map f xs) \<Longrightarrow> x \<in> set xs \<Longrightarrow> find (\<lambda>y. f y = f x) xs = Some x"
  by (induction xs) (auto simp: image_iff)

lemma authenticated_by_id:
  assumes "authenticate w sv email password = Some user" and "distinct (map ac_id (sv_users sv))"
  shows "user_by_id sv (ac_id user) = Some user"
proof -
  have "user \<in> set (sv_users sv)" using assms(1) by (auto simp: authenticate_def dest: find_mem split: option.splits if_splits)
  then show ?thesis using find_unique [OF assms(2)] by (simp add: user_by_id_def)
qed

section \<open>What a sign-in opens\<close>

lemma authenticate_cong: "sv_users sv' = sv_users sv \<Longrightarrow> authenticate w sv' = authenticate w sv"
  by (simp add: authenticate_def fun_eq_iff)

lemma session_row_create:
  "sv_sessions (create_session w rx u kind ttl sv) = sv_sessions sv @ [opened_row w rx u kind ttl]"
  "sv_users (create_session w rx u kind ttl sv) = sv_users sv"
  by (simp_all add: create_session_def opened_row_def)

lemma succeeded_rows [simp]:
  "sv_sessions (succeeded key sv) = sv_sessions sv" "sv_users (succeeded key sv) = sv_users sv"
  "sv_sessions (failed rx key sv) = sv_sessions sv" "sv_sessions (maybe_remember_device w rx b u sv) = sv_sessions sv"
  "sv_users (maybe_remember_device w rx b u sv) = sv_users sv"
  by (simp_all add: succeeded_def failed_def maybe_remember_device_def)

definition kind_ttl :: "world \<Rightarrow> string \<Rightarrow> int" where
  "kind_ttl w kind = (if kind = ''full'' then wd_session_ttl w else if kind = ''mfa_pending'' then wd_pending_ttl w else 3600)"

lemma drop_limiter [simp]: "sv_sessions (drop_presented w rx (sv\<lparr>sv_limiter := l\<rparr>)) = sv_sessions (drop_presented w rx sv)"
  by (simp add: drop_presented_def delete_session_by_token_def split: option.split)

lemma answer_cong:
  assumes "sv_mfa sv' = sv_mfa sv" "sv_passkeys sv' = sv_passkeys sv" "sv_td_enabled sv' = sv_td_enabled sv" "sv_policy sv' = sv_policy sv"
  shows "login_answer w sv' user kind = login_answer w sv user kind" "login_kind sv' user = login_kind sv user"
  using assms by (simp_all add: login_answer_def login_methods_def login_kind_def enrolled_def has_totp_def has_webauthn_credentials_def)

lemma login_admitted_opens:
  assumes "login_admitted w rx email password sv = (sv', Inr lo)"
  shows "\<exists>user kind. authenticate w sv email password = Some user \<and> lo = login_answer w sv user kind
    \<and> (kind = ''full'' \<or> kind = ''mfa_setup'' \<or> kind = ''mfa_pending'' \<and> enrolled sv (ac_id user))
    \<and> sv_sessions sv' = sv_sessions (drop_presented w rx sv) @ [opened_row w rx (ac_id user) kind (kind_ttl w kind)]
    \<and> sv_users sv' = sv_users sv"
proof -
  obtain user where user: "authenticate w sv email password = Some user"
    using assms by (auto simp: login_admitted_def Let_def split: option.splits)
  let ?dv = "drop_presented w rx sv"
  define kind where "kind = (if enrolled ?dv (ac_id user) \<and> sv_td_enabled ?dv \<and> find_valid w rx (ac_id user) ?dv
    then ''full'' else login_kind ?dv user)"
  have en: "enrolled ?dv = enrolled sv" by (rule enrolled_cong) simp_all
  have "lo = login_answer w ?dv user kind"
    and rows: "sv_sessions sv' = sv_sessions ?dv @ [opened_row w rx (ac_id user) kind (kind_ttl w kind)] \<and> sv_users sv' = sv_users sv"
    using assms user
    by (auto simp: login_admitted_def Let_def kind_def kind_ttl_def login_answer_def session_row_create split: if_splits)
  then have "lo = login_answer w sv user kind" by (simp add: answer_cong(1) [of ?dv sv])
  moreover have "kind = ''full'' \<or> kind = ''mfa_setup'' \<or> kind = ''mfa_pending'' \<and> enrolled sv (ac_id user)"
    by (auto simp: kind_def login_kind_def en)
  ultimately show ?thesis using user rows by blast
qed

lemma limited_cases:
  assumes "limited w rx key sv handler = (sv', res)"
  obtains (refused) e l where "res = Inl e" "e = 503 \<or> e = 429" "sv' = sv\<lparr>sv_limiter := l\<rparr>"
  | (admitted) l where "handler (sv\<lparr>sv_limiter := l\<rparr>) = (sv', res)"
  using assms by (auto simp: limited_def split: prod.splits option.splits if_splits)

lemma login_opens:
  assumes "login w rx email password sv = (sv', Inr lo)"
  shows "\<exists>user kind. authenticate w sv email password = Some user \<and> lo = login_answer w sv user kind
    \<and> (kind = ''full'' \<or> kind = ''mfa_setup'' \<or> kind = ''mfa_pending'' \<and> enrolled sv (ac_id user))
    \<and> sv_sessions sv' = sv_sessions (drop_presented w rx sv) @ [opened_row w rx (ac_id user) kind (kind_ttl w kind)]
    \<and> sv_users sv' = sv_users sv"
  using assms unfolding login_def
proof (cases rule: limited_cases)
  case (admitted l)
  let ?sv = "sv\<lparr>sv_limiter := l\<rparr>"
  have same: "authenticate w ?sv = authenticate w sv" "enrolled ?sv = enrolled sv" "login_answer w ?sv = login_answer w sv"
    by (rule authenticate_cong enrolled_cong; simp)+ (simp add: fun_eq_iff answer_cong(1) [of ?sv sv])
  show ?thesis using login_admitted_opens [OF admitted] unfolding same by simp
qed simp

lemma login_refuses:
  assumes "login w rx email password sv = (sv', Inl e)"
  shows "sv_sessions sv' = sv_sessions sv \<and> \<not> http_ok e"
  using assms unfolding login_def
proof (cases rule: limited_cases)
  case (admitted l)
  then show ?thesis by (auto simp: login_admitted_def Let_def http_ok_def split: option.splits if_splits)
qed (auto simp: http_ok_def)

lemma methods_shown:
  assumes "enrolled sv u" and "lg_methods s = login_methods sv u"
  shows "hasTotp s = has_totp sv u" "hasWebauthn s = has_webauthn_credentials sv u"
  using assms by (auto simp: hasTotp_def hasWebauthn_def login_methods_def enrolled_def)

text \<open>C17. The page follows the service. A visitor submits the password step. If the service refuses, the page
  shows the error, nobody is signed in, and the session table is as before. If it accepts, the new cookie
  resolves to a session of the account whose password was given. When that session is pending, the page asks
  for the second factor, offers exactly the factors the account has, and the service reports no user for the
  cookie. Otherwise the user that the page stores is what the service reports for the cookie, with the
  enrolment flag set if and only if the session is one that may only enrol.\<close>

theorem login_page_follows_service:
  assumes "lg_me s = None" and "lg_step s = PasswordStep" and "fresh w rx sv" and "distinct (map ac_id (sv_users sv))"
    and "0 \<le> wd_idle w" and "0 < wd_session_ttl w" and "0 < wd_pending_ttl w"
    and "login w rx (lg_email s) (lg_password s) sv = (sv', res)" and "s' = submit (reply_of res) s"
  shows "case res of
      Inl e \<Rightarrow> s' = s\<lparr>lg_error := Some ''t.login.invalidCredentials''\<rparr> \<and> sv_sessions sv' = sv_sessions sv
    | Inr lo \<Rightarrow> lg_error s' = None \<and> (\<exists>row user. snd (current w (with_cookie rx) sv') = Some row
        \<and> authenticate w sv (lg_email s) (lg_password s) = Some user \<and> se_user row = ac_id user
        \<and> (if se_kind row = ''mfa_pending''
           then lg_me s' = None \<and> lg_step s' = MfaStep \<and> hasTotp s' = has_totp sv (ac_id user)
             \<and> hasWebauthn s' = has_webauthn_credentials sv (ac_id user) \<and> snd (svc_step w (with_cookie rx) Me sv') = Inl 401
           else (\<exists>m. lg_me s' = Some (me_json m) \<and> lg_step s' = PasswordStep
             \<and> snd (svc_step w (with_cookie rx) Me sv') = Inr (MeAnswer m) \<and> me_id m = ac_id user
             \<and> (mfa_setup_required m = Some True \<longleftrightarrow> se_kind row = ''mfa_setup''))))"
proof (cases res)
  case (Inl e)
  then show ?thesis using login_refuses assms(8,9) by (auto simp: reply_of_def Let_def)
next
  case (Inr lo)
  obtain user kind where o: "authenticate w sv (lg_email s) (lg_password s) = Some user" "lo = login_answer w sv user kind"
    "kind = ''full'' \<or> kind = ''mfa_setup'' \<or> kind = ''mfa_pending'' \<and> enrolled sv (ac_id user)"
    "sv_sessions sv' = sv_sessions (drop_presented w rx sv) @ [opened_row w rx (ac_id user) kind (kind_ttl w kind)]"
    "sv_users sv' = sv_users sv"
    using login_opens assms(8) Inr by blast
  have ttl: "0 < kind_ttl w kind" using assms(6,7) by (simp add: kind_ttl_def)
  have by_id: "user_by_id sv' (ac_id user) = Some user"
    using authenticated_by_id [OF o(1) assms(4)] o(5) by (simp add: user_by_id_def)
  note cur = opened_current [OF fresh_drop [OF assms(3)] assms(5) ttl o(4)]
    and me = opened_me [OF fresh_drop [OF assms(3)] assms(5) ttl o(4) by_id]
  have s': "s' = submit (Reply (Some (login_json (login_answer w sv user kind))) None 200) s"
    using assms(9) Inr o(2) by (simp add: reply_of_def)
  consider "kind = ''mfa_pending''" "enrolled sv (ac_id user)" | "kind = ''full'' \<or> kind = ''mfa_setup''" using o(3) by blast
  then show ?thesis
  proof cases
    case 1
    have shown: "lg_methods s' = login_methods sv (ac_id user)" "lg_me s' = None" "lg_error s' = None" "lg_step s' = MfaStep"
      using assms(1) 1(1) unfolding s' by (simp_all add: login_answer_def http_ok_def Let_def)
    show ?thesis
      using 1(1) cur me o(1) shown methods_shown [OF 1(2) shown(1)] by (simp add: Inr opened_row_def)
  next
    case 2
    then have "lg_me s' = Some (me_json (user_out user (kind = ''mfa_setup'')))" "lg_error s' = None" "lg_step s' = PasswordStep"
      using assms(2) unfolding s'
      by (auto simp: login_answer_def ok_out_def http_ok_def Let_def)
    then show ?thesis using 2 cur me o(1) by (auto simp: Inr opened_row_def user_out_def)
  qed
qed

theorem login_page_follows_service_witness:
  "lg_me (submit (reply_of (snd (login sample_world (sample_rq 300 None ''T'') ''u@x'' ''pw'' (sample_service ''all'' Map.empty []))))
     (login_initial\<lparr>lg_email := ''u@x'', lg_password := ''pw''\<rparr>)) = Some (me_json (user_out sample_owner True))
   \<and> snd (svc_step sample_world (with_cookie (sample_rq 300 None ''T'')) Me
       (fst (login sample_world (sample_rq 300 None ''T'') ''u@x'' ''pw'' (sample_service ''all'' Map.empty []))))
     = Inr (MeAnswer (user_out sample_owner True))"
proof -
  let ?rx = "sample_rq 300 None ''T''" and ?sv = "sample_service ''all'' Map.empty []"
  let ?s = "login_initial\<lparr>lg_email := ''u@x'', lg_password := ''pw''\<rparr>"
  let ?r = "login sample_world ?rx ''u@x'' ''pw'' ?sv"
  have res: "snd ?r = Inr (login_answer sample_world ?sv sample_owner ''mfa_setup'')" by code_simp
  then have r: "login sample_world ?rx (lg_email ?s) (lg_password ?s) ?sv = (fst ?r, Inr (login_answer sample_world ?sv sample_owner ''mfa_setup''))"
    by (simp add: prod_eq_iff)
  have row: "snd (current sample_world (with_cookie ?rx) (fst ?r)) = Some ((sample_kind ''mfa_setup'' ''T'')\<lparr>se_expires_at := 3900\<rparr>)"
    by code_simp
  have me: "snd (svc_step sample_world (with_cookie ?rx) Me (fst ?r)) = Inr (MeAnswer (user_out sample_owner True))" by code_simp
  have hyps: "fresh sample_world ?rx ?sv" "distinct (map ac_id (sv_users ?sv))" "0 \<le> wd_idle sample_world"
    "0 < wd_session_ttl sample_world" "0 < wd_pending_ttl sample_world" "lg_me ?s = None" "lg_step ?s = PasswordStep"
    by (simp_all add: fresh_def sample_service_defs login_initial_def)
  show ?thesis
    using login_page_follows_service [OF hyps(6,7) hyps(1-5) r refl] by (auto simp: row me res sample_kind_def simp del: svc_step.simps)
qed

section \<open>The second step\<close>

lemma upgrade_opens:
  assumes "upgrade w rx key remember user sv = (sv', res)"
  shows "res = Inr (ok_out user)"
    and "sv_sessions sv' = sv_sessions (drop_presented w rx sv) @ [opened_row w rx (ac_id user) ''full'' (wd_session_ttl w)]"
    and "sv_users sv' = sv_users sv"
  using assms by (auto simp: upgrade_def session_row_create)

lemma drop_factors [simp]:
  "sv_sessions (drop_presented w rx (sv\<lparr>sv_mfa := m\<rparr>)) = sv_sessions (drop_presented w rx sv)"
  "sv_sessions (drop_presented w rx (sv\<lparr>sv_recovery := rc\<rparr>)) = sv_sessions (drop_presented w rx sv)"
  by (simp_all add: drop_presented_def delete_session_by_token_def split: option.split)

lemma mfa_admitted_opens:
  assumes "mfa_admitted w rx u code remember sv = (sv', res)"
  shows "case res of Inl e \<Rightarrow> sv_sessions sv' = sv_sessions sv \<and> \<not> http_ok e
    | Inr lo \<Rightarrow> (\<exists>user. user_by_id sv u = Some user \<and> lo = ok_out user \<and> sv_users sv' = sv_users sv
        \<and> sv_sessions sv' = sv_sessions (drop_presented w rx sv) @ [opened_row w rx (ac_id user) ''full'' (wd_session_ttl w)])"
  using assms
  by (auto simp: mfa_admitted_def Let_def http_ok_def upgrade_def session_row_create split: option.splits if_splits)

text \<open>The code step: the page is signed in if and only if the service opened a full session of the pending user,
  and then stores the user that the service reports for the new cookie; if the service refuses, the page says
  so and every session is as it was.\<close>

theorem second_step_follows_service:
  assumes "lg_me s = None" and "fresh w rx sv" and "0 \<le> wd_idle w" and "0 < wd_session_ttl w"
    and "login_mfa w rx sess (lg_code s) (remember_flag s) sv = (sv', res)" and "s' = submitMfa (reply_of res) s"
  shows "case res of
      Inl e \<Rightarrow> s' = s\<lparr>lg_error := Some ''t.login.mfa.invalidCode''\<rparr> \<and> sv_sessions sv' = sv_sessions sv
    | Inr lo \<Rightarrow> (\<exists>row m. snd (current w (with_cookie rx) sv') = Some row \<and> se_kind row = ''full'' \<and> se_user row = se_user sess
        \<and> snd (svc_step w (with_cookie rx) Me sv') = Inr (MeAnswer m) \<and> lg_me s' = Some (me_json m) \<and> lg_error s' = None)"
proof -
  consider (refuse) e where "res = Inl e" "\<not> http_ok e" "sv_sessions sv' = sv_sessions sv"
    | (accept) user where "user_by_id sv (se_user sess) = Some user" "res = Inr (ok_out user)" "sv_users sv' = sv_users sv"
      "sv_sessions sv' = sv_sessions (drop_presented w rx sv) @ [opened_row w rx (ac_id user) ''full'' (wd_session_ttl w)]"
  proof (cases "se_kind sess = ''mfa_pending''")
    case False
    then show ?thesis using assms(5) refuse by (auto simp: login_mfa_def http_ok_def)
  next
    case True
    then have "limited w rx (mfa_key rx (se_user sess)) sv (mfa_admitted w rx (se_user sess) (lg_code s) (remember_flag s)) = (sv', res)"
      using assms(5) by (simp add: login_mfa_def)
    then show ?thesis
    proof (cases rule: limited_cases)
      case (admitted l)
      then show ?thesis using mfa_admitted_opens [OF admitted] accept refuse by (cases res) (auto simp: user_by_id_def)
    qed (use refuse in \<open>auto simp: http_ok_def\<close>)
  qed
  then show ?thesis
  proof cases
    case refuse
    then show ?thesis using assms(6) by (simp add: reply_of_def Let_def)
  next
    case accept
    have id: "ac_id user = se_user sess" using user_by_id_id accept(1) by blast
    have by_id: "user_by_id sv' (ac_id user) = Some user" using accept(1,3) id by (simp add: user_by_id_def)
    note cur = opened_current [OF fresh_drop [OF assms(2)] assms(3,4) accept(4)]
      and me = opened_me [OF fresh_drop [OF assms(2)] assms(3,4) accept(4) by_id]
    have "lg_me s' = Some (me_json (user_out user False)) \<and> lg_error s' = None"
      using assms(6) accept(2) by (simp add: reply_of_def http_ok_def ok_out_def Let_def)
    then show ?thesis using accept(2) cur me id by (simp add: opened_row_def)
  qed
qed

section \<open>Forced enrolment\<close>

text \<open>The row behind a cookie, and what requests with that cookie leave of it.\<close>

definition row_of :: "world \<Rightarrow> string \<Rightarrow> service \<Rightarrow> server_session option" where
  "row_of w raw sv = find (\<lambda>x. se_token_hash x = wd_hash w raw) (sv_sessions sv)"

lemma find_map_key:
  assumes "\<And>x. x \<in> set xs \<Longrightarrow> se_token_hash (f x) = se_token_hash x"
  shows "find (\<lambda>x. se_token_hash x = h) (map f xs) = map_option f (find (\<lambda>x. se_token_hash x = h) xs)"
  using assms by (induction xs) auto

lemma row_hash: "row_of w raw sv = Some s \<Longrightarrow> se_token_hash s = wd_hash w raw"
  by (auto simp: row_of_def find_Some_iff)

lemma current_row:
  assumes "row_of w raw sv = Some s" and "raw \<noteq> []" and "rx_session rx = Some raw" and "session_valid (wd_idle w) (rx_now rx) s"
  obtains sv' where "current w rx sv = (sv', Some (touch (rx_now rx) s))" "row_of w raw sv' = Some (touch (rx_now rx) s)"
    "sv_users sv' = sv_users sv" "sv_mfa sv' = sv_mfa sv" "sv_recovery sv' = sv_recovery sv"
proof -
  let ?s = "touch (rx_now rx) s" and ?f = "\<lambda>x. if se_token_hash x = se_token_hash (touch (rx_now rx) s) then touch (rx_now rx) s else x"
  let ?sv = "sv\<lparr>sv_sessions := map ?f (sv_sessions sv)\<rparr>"
  have h: "se_token_hash ?s = wd_hash w raw" using row_hash [OF assms(1)] by (simp add: touch_def)
  have "current w rx sv = (?sv, Some ?s)"
    using assms by (simp add: current_def get_session_for_token_def row_of_def)
  moreover have "row_of w raw ?sv = Some ?s"
    using assms(1) h row_hash [OF assms(1)] unfolding row_of_def by (simp add: find_map_key)
  ultimately show ?thesis using that by simp
qed

definition auth_of :: "me \<Rightarrow> auth_state" where
  "auth_of m = \<lparr>as_me = Some m, as_loading = False\<rparr>"

lemma auth_of_simps [simp]: "as_me (auth_of m) = Some m" "\<not> as_loading (auth_of m)" "mfa_setup_required (user_out user b) = Some b"
  by (simp_all add: auth_of_def user_out_def)

lemma gate_by_flag:
  assumes "path \<noteq> ''/login''"
  shows "App pick (auth_of (user_out user True)) path = MfaSetupGate"
    and "App pick (auth_of (user_out user False)) path =
      (case pick (map fst (AppShell_routes (auth_of (user_out user False)))) path of
         None \<Rightarrow> Nothing | Some pat \<Rightarrow> nullish_or (map_of (AppShell_routes (auth_of (user_out user False))) pat) Nothing)"
  using assms by (simp_all add: App_def ProtectedRoute_def nullish_or_def)

lemma session_valid_later:
  "session_valid idle t s \<Longrightarrow> t' \<le> t \<Longrightarrow> se_last_seen_at s \<le> t' \<Longrightarrow> session_valid idle t' s
     \<and> session_valid idle t (touch t' s) \<and> se_last_seen_at (touch t' s) \<le> t'"
  by (auto simp: session_valid_def touch_def)

lemma touch_kind [simp]: "se_kind (touch t s) = se_kind s" "se_user (touch t s) = se_user s"
  by (simp_all add: touch_def)

lemma row_set_kind:
  assumes "row_of w raw sv = Some s" and "se_kind s = ''mfa_setup''" and "se_token_hash s' = se_token_hash s" and "se_kind s' = ''mfa_setup''"
  shows "row_of w raw (set_kind_full s' sv) = Some (s\<lparr>se_kind := ''full''\<rparr>)"
  using assms row_hash [OF assms(1)] unfolding row_of_def set_kind_full_def by (simp add: find_map_key)

lemma me_by_row:
  assumes "row_of w raw sv = Some s" and "raw \<noteq> []" and "rx_session rx = Some raw" and "session_valid (wd_idle w) (rx_now rx) s"
    and "se_kind s \<in> {''full'', ''mfa_setup''}" and "user_by_id sv (se_user s) = Some user"
  shows "snd (svc_step w rx Me sv) = Inr (MeAnswer (user_out user (se_kind s = ''mfa_setup'')))"
proof -
  obtain sv' where "current w rx sv = (sv', Some (touch (rx_now rx) s))" "sv_users sv' = sv_users sv"
    by (rule current_row [OF assms(1-4)])
  then show ?thesis using assms(5,6) by (auto simp: enrolling_def any_session_def user_by_id_def)
qed

lemma setup_by_row:
  assumes "row_of w raw sv = Some s" and "raw \<noteq> []" and "rx_session rx = Some raw" and "session_valid (wd_idle w) (rx_now rx) s"
    and "se_kind s = ''mfa_setup''" and "user_by_id sv (se_user s) = Some user"
    and "wd_verify_password w password (ac_password_hash user)" and "svc_step w rx (MfaSetup password) sv = (sv1, res)"
  shows "res = Inr (Issued (rx_random rx))" and "row_of w raw sv1 = Some (touch (rx_now rx) s)" and "sv_users sv1 = sv_users sv"
    and "sv_mfa sv1 (ac_id user) = Some \<lparr>mr_enabled = False, mr_secret = rx_random rx, mr_last_step = None\<rparr>"
proof -
  obtain sv' where c: "current w rx sv = (sv', Some (touch (rx_now rx) s))" "row_of w raw sv' = Some (touch (rx_now rx) s)"
    "sv_users sv' = sv_users sv" by (rule current_row [OF assms(1-4)])
  have "(sv1, res) = (sv'\<lparr>sv_mfa := (sv_mfa sv')(ac_id user := Some \<lparr>mr_enabled = False, mr_secret = rx_random rx, mr_last_step = None\<rparr>)\<rparr>,
      Inr (Issued (rx_random rx)))"
    using assms(5-8) c by (simp add: enrolling_def any_session_def answer_def mfa_setup_def user_by_id_def)
  then show "res = Inr (Issued (rx_random rx))" "row_of w raw sv1 = Some (touch (rx_now rx) s)" "sv_users sv1 = sv_users sv"
    "sv_mfa sv1 (ac_id user) = Some \<lparr>mr_enabled = False, mr_secret = rx_random rx, mr_last_step = None\<rparr>"
    using c by (simp_all add: row_of_def)
qed

lemma confirm_by_row:
  assumes "row_of w raw sv = Some s" and "raw \<noteq> []" and "rx_session rx = Some raw" and "session_valid (wd_idle w) (rx_now rx) s"
    and "se_kind s = ''mfa_setup''" and "user_by_id sv (se_user s) = Some user" and "sv_mfa sv (ac_id user) = Some row"
    and "mr_secret row \<noteq> []" and "verify_totp w (rx_now rx) (mr_secret row) code (mr_last_step row) = Some j"
    and "svc_step w rx (MfaConfirm code) sv = (sv1, res)"
  shows "res = Inr Done" and "row_of w raw sv1 = Some ((touch (rx_now rx) s)\<lparr>se_kind := ''full''\<rparr>)" and "sv_users sv1 = sv_users sv"
    and "enrolled sv1 (ac_id user)"
proof -
  let ?s = "touch (rx_now rx) s"
  obtain sv' where c: "current w rx sv = (sv', Some ?s)" "row_of w raw sv' = Some ?s"
    "sv_users sv' = sv_users sv" "sv_mfa sv' = sv_mfa sv" by (rule current_row [OF assms(1-4)])
  let ?sv = "sv'\<lparr>sv_mfa := (sv_mfa sv')(ac_id user := Some (row\<lparr>mr_enabled := True, mr_last_step := Some j\<rparr>)),
    sv_recovery := (sv_recovery sv')(ac_id user := fresh_codes rx)\<rparr>"
  have r: "sv1 = set_kind_full ?s ?sv" "res = Inr Done"
    using assms(5-10) c by (simp_all add: enrolling_def any_session_def answer_def mfa_confirm_def user_by_id_def)
  have "row_of w raw ?sv = Some ?s" using c(2) by (simp add: row_of_def)
  from row_set_kind [OF this _ refl] show "row_of w raw sv1 = Some (?s\<lparr>se_kind := ''full''\<rparr>)" using assms(5) r(1) by simp
  show "res = Inr Done" by (rule r(2))
  show "sv_users sv1 = sv_users sv" "enrolled sv1 (ac_id user)"
    using r(1) c(3) by (simp_all add: set_kind_full_def enrolled_def has_totp_def)
qed

text \<open>The code of the current period, typed with digits only, is accepted for a secret that was not used yet.\<close>

lemma verify_totp_current:
  assumes "code = wd_totp_at w secret (now div TOTP_PERIOD * TOTP_PERIOD)" and "code \<noteq> []" and "list_all py_digit code"
  shows "verify_totp w now secret code None = Some (now div TOTP_PERIOD)"
proof -
  have digit: "\<not> py_space c \<and> c \<noteq> CHR '' ''" if "py_digit c" for c
    using that by (auto simp: py_digit_def py_space_def)
  have "dropWhile py_space code = code" "dropWhile py_space (rev code) = rev code"
    using assms(2,3) digit by (simp_all add: dropWhile_eq_self_iff hd_rev list_all_iff)
  then have "py_strip code = code" by (simp add: py_strip_def)
  moreover have "filter (\<lambda>c. c \<noteq> CHR '' '') code = code" using assms(3) digit by (auto simp: list_all_iff)
  ultimately show ?thesis using assms by (simp add: verify_totp_def Let_def)
qed

text \<open>C18. Forced enrolment ends with the application open. A user whose session may only enrol is shown the
  enrolment gate on every path. If the user gives the password, the secret is issued; if the user then types
  the code of the current period for that secret, within the idle timeout and before the session expires, the
  service accepts, the account is enrolled, and the very same cookie is answered with the user without the
  enrolment flag: re-reading the user, which the gate does on completion, replaces the gate by the page of
  the path.\<close>

theorem enrolment_opens_the_app:
  assumes "row_of w raw sv = Some s" and "raw \<noteq> []" and "se_kind s = ''mfa_setup''" and "user_by_id sv (se_user s) = Some user"
    and "rx_session rx1 = Some raw" and "rx_session rx2 = Some raw" and "rx_session rx3 = Some raw"
    and "se_last_seen_at s \<le> rx_now rx1" and "rx_now rx1 \<le> rx_now rx2" and "rx_now rx2 \<le> rx_now rx3"
    and "session_valid (wd_idle w) (rx_now rx3) s"
    and "wd_verify_password w password (ac_password_hash user)" and "rx_random rx1 \<noteq> []"
    and "code = wd_totp_at w (rx_random rx1) (rx_now rx2 div TOTP_PERIOD * TOTP_PERIOD)" and "code \<noteq> []" and "list_all py_digit code"
    and "svc_step w rx1 (MfaSetup password) sv = (sv1, r1)" and "svc_step w rx2 (MfaConfirm code) sv1 = (sv2, r2)"
    and "path \<noteq> ''/login''"
  shows "snd (svc_step w rx1 Me sv) = Inr (MeAnswer (user_out user True)) \<and> App pick (auth_of (user_out user True)) path = MfaSetupGate
    \<and> r1 = Inr (Issued (rx_random rx1)) \<and> r2 = Inr Done \<and> enrolled sv2 (ac_id user)
    \<and> snd (svc_step w rx3 Me sv2) = Inr (MeAnswer (user_out user False))
    \<and> App pick (auth_of (user_out user False)) path =
        (case pick (map fst (AppShell_routes (auth_of (user_out user False)))) path of
           None \<Rightarrow> Nothing | Some pat \<Rightarrow> nullish_or (map_of (AppShell_routes (auth_of (user_out user False))) pat) Nothing)"
proof -
  let ?s1 = "touch (rx_now rx1) s" and ?idle = "wd_idle w"
  let ?s2 = "(touch (rx_now rx2) ?s1)\<lparr>se_kind := ''full''\<rparr>"
  have v1: "session_valid ?idle (rx_now rx1) s" "session_valid ?idle (rx_now rx3) ?s1" "se_last_seen_at ?s1 \<le> rx_now rx1"
    using session_valid_later [OF assms(11), of "rx_now rx1"] assms(8-10) by auto
  have v2: "session_valid ?idle (rx_now rx2) ?s1" "session_valid ?idle (rx_now rx3) ?s2"
    using session_valid_later [OF v1(2), of "rx_now rx2"] v1(3) assms(9,10) by (auto simp: session_valid_def)
  note one = setup_by_row [OF assms(1,2,5) v1(1) assms(3,4,12,17)]
  have id: "ac_id user = se_user s" using user_by_id_id assms(4) by blast
  have u1: "user_by_id sv1 (se_user ?s1) = Some user" using one(3) assms(4) by (simp add: user_by_id_def)
  have code: "verify_totp w (rx_now rx2) (rx_random rx1) code None = Some (rx_now rx2 div TOTP_PERIOD)"
    by (rule verify_totp_current [OF assms(14-16)])
  have two: "r2 = Inr Done" "row_of w raw sv2 = Some ?s2" "sv_users sv2 = sv_users sv1" "enrolled sv2 (ac_id user)"
    using confirm_by_row [OF one(2) assms(2,6) v2(1) _ u1 one(4) _ _ assms(18)] assms(3,13) code by auto
  have u2: "user_by_id sv2 (se_user ?s2) = Some user" using two(3) u1 by (simp add: user_by_id_def)
  have "snd (svc_step w rx1 Me sv) = Inr (MeAnswer (user_out user True))"
    using me_by_row [OF assms(1,2,5) v1(1) _ assms(4)] assms(3) by (simp del: svc_step.simps)
  moreover have "snd (svc_step w rx3 Me sv2) = Inr (MeAnswer (user_out user False))"
    using me_by_row [OF two(2) assms(2,7) v2(2) _ u2] by (simp del: svc_step.simps)
  ultimately show ?thesis using one(1) two(1,4) gate_by_flag [OF assms(19)] by blast
qed

theorem enrolment_opens_the_app_witness:
  "snd (svc_step sample_world (sample_rq 340 (Some ''A'') [])  Me
     (fst (svc_step sample_world (sample_rq 320 (Some ''A'') []) (MfaConfirm ''10'')
       (fst (svc_step sample_world ((sample_rq 310 (Some ''A'') [])\<lparr>rx_random := ''S''\<rparr>) (MfaSetup ''pw'')
         (sample_service ''all'' Map.empty [sample_kind ''mfa_setup'' ''A'']))))))
   = Inr (MeAnswer (user_out sample_owner False))"
proof -
  let ?rx1 = "(sample_rq 310 (Some ''A'') [])\<lparr>rx_random := ''S''\<rparr>" and ?rx2 = "sample_rq 320 (Some ''A'') []"
    and ?rx3 = "sample_rq 340 (Some ''A'') []" and ?sv = "sample_service ''all'' Map.empty [sample_kind ''mfa_setup'' ''A'']"
  have r: "svc_step sample_world rx opn sv = (fst (svc_step sample_world rx opn sv), snd (svc_step sample_world rx opn sv))" for rx opn sv
    by (simp only: prod.collapse)
  have hyps: "row_of sample_world ''A'' ?sv = Some (sample_kind ''mfa_setup'' ''A'')" "''A'' \<noteq> []"
    "se_kind (sample_kind ''mfa_setup'' ''A'') = ''mfa_setup''" "user_by_id ?sv (se_user (sample_kind ''mfa_setup'' ''A'')) = Some sample_owner"
    "rx_session ?rx1 = Some ''A''" "rx_session ?rx2 = Some ''A''" "rx_session ?rx3 = Some ''A''"
    "se_last_seen_at (sample_kind ''mfa_setup'' ''A'') \<le> rx_now ?rx1" "rx_now ?rx1 \<le> rx_now ?rx2" "rx_now ?rx2 \<le> rx_now ?rx3"
    "session_valid (wd_idle sample_world) (rx_now ?rx3) (sample_kind ''mfa_setup'' ''A'')"
    "wd_verify_password sample_world ''pw'' (ac_password_hash sample_owner)" "rx_random ?rx1 \<noteq> []"
    "''10'' = wd_totp_at sample_world (rx_random ?rx1) (rx_now ?rx2 div TOTP_PERIOD * TOTP_PERIOD)"
    "''10'' \<noteq> []" "list_all py_digit ''10''" by code_simp+
  show ?thesis
    using enrolment_opens_the_app [OF hyps r r, of "''/''" "\<lambda>_ _. None"] by (simp del: svc_step.simps)
qed

end
