(* ===== verification/ChangePipeline.thy ===== *)
theory ChangePipeline
  imports Prelude
begin

text \<open>
  The service's pipeline of configuration changes: the handlers that propose, schedule, cancel and revert a
  change (\<^verbatim>\<open>backend/app/api/config.py\<close>, \<^verbatim>\<open>api/templates.py\<close>, \<^verbatim>\<open>api/profiles.py\<close>,
  \<^verbatim>\<open>services/config_revert.py\<close>), the jobs that apply one or a profile's changes to a device and that
  back its configuration up (\<^verbatim>\<open>services/config_push.py\<close>, \<^verbatim>\<open>services/config_backup.py\<close>,
  \<^verbatim>\<open>worker.py\<close>), and the sweeper of orphaned changes.

  One record holds the tables, the queue of jobs, the configurations of the devices, and, for the statements
  only, the list of the writes that reached a device. Requests, jobs, sweeps and edits on a device by
  somebody else are the operations of one machine, each a step. What the surroundings contribute to a step
  (clock, fresh identifiers, whether a device is locked or readable, how a write ends) is a record. The
  hashing of a configuration, the builders of inverse changes and what a write does to a configuration are
  parameters. The texts of results, the audit records and the encryption of snapshots are left out.
\<close>

section \<open>Tables\<close>

record change_rec =
  cg_id :: string
  cg_tenant :: string
  cg_device :: string
  cg_kind :: string
  cg_operation :: string
  cg_target :: string
  cg_payload :: json
  cg_baseline :: string
  cg_status :: string
  cg_sweep :: nat
  cg_reverts :: "string option"
  cg_scheduled_at :: "int option"
  cg_applied_at :: "int option"
  cg_created :: int
  cg_snapshot :: "string option"

record snap_rec =
  sn_id :: string
  sn_tenant :: string
  sn_device :: string
  sn_hash :: string
  sn_xml :: string

record managed =
  mg_id :: string
  mg_tenant :: string

datatype job = ApplyChange string | ApplyProfile "string list" | Backup string

record pipeline =
  pp_devices :: "managed list"
  pp_changes :: "change_rec list"
  pp_snaps :: "snap_rec list"
  pp_live :: bool
  pp_queue :: "(job \<times> int option) list"
  pp_config :: "string \<Rightarrow> string"
  pp_writes :: "(string \<times> string) list"

text \<open>A write ends well, with an error of the connector, or with the job (another exception, a killed worker):
  then its transaction is rolled back. The device may have changed in each case.\<close>

datatype outcome = Success string | Refused string | Died string

record env =
  en_now :: int
  en_id :: string
  en_ids :: "string list"
  en_snap :: string
  en_free :: "string \<Rightarrow> bool"
  en_readable :: bool
  en_outcome :: "string \<Rightarrow> outcome"

record push_world =
  pw_hash :: "string \<Rightarrow> string option"
  pw_inverse :: "change_rec \<Rightarrow> string option \<Rightarrow> (string \<times> string \<times> json) option"
  pw_grace :: int
  pw_max_attempts :: nat

text \<open>The kinds with an applier, and those with a builder of the inverse.\<close>

definition CHANGE_APPLIERS :: "string list" where
  "CHANGE_APPLIERS = [''alias'', ''catalog_setting'', ''firewall_rule'', ''ids_rulesets'', ''monit_test'', ''ids_policy'', ''opnsense_setting'']"

definition INVERSE_BUILDERS :: "string list" where
  "INVERSE_BUILDERS = [''alias'', ''opnsense_setting'', ''firewall_rule'', ''monit_test'', ''ids_policy'', ''catalog_setting'']"

definition has_inverse :: "string \<Rightarrow> bool" where
  "has_inverse kind \<longleftrightarrow> kind \<in> set INVERSE_BUILDERS"

definition device_by_id :: "pipeline \<Rightarrow> string \<Rightarrow> managed option" where
  "device_by_id pp i = find (\<lambda>d. mg_id d = i) (pp_devices pp)"

definition change_by_id :: "pipeline \<Rightarrow> string \<Rightarrow> change_rec option" where
  "change_by_id pp i = find (\<lambda>c. cg_id c = i) (pp_changes pp)"

text \<open>The repositories read with the tenant of the request.\<close>

definition get_change :: "pipeline \<Rightarrow> string \<Rightarrow> string \<Rightarrow> change_rec option" where
  "get_change pp tenant i = find (\<lambda>c. cg_id c = i \<and> cg_tenant c = tenant) (pp_changes pp)"

definition latest_snapshot :: "pipeline \<Rightarrow> string \<Rightarrow> string \<Rightarrow> snap_rec option" where
  "latest_snapshot pp tenant dv = find (\<lambda>s. sn_tenant s = tenant \<and> sn_device s = dv) (rev (pp_snaps pp))"

definition get_snapshot :: "pipeline \<Rightarrow> string \<Rightarrow> string \<Rightarrow> snap_rec option" where
  "get_snapshot pp tenant i = find (\<lambda>s. sn_id s = i \<and> sn_tenant s = tenant) (pp_snaps pp)"

definition with_change :: "string \<Rightarrow> (change_rec \<Rightarrow> change_rec) \<Rightarrow> pipeline \<Rightarrow> pipeline" where
  "with_change i f pp = pp\<lparr>pp_changes := map (\<lambda>c. if cg_id c = i then f c else c) (pp_changes pp)\<rparr>"

definition set_status :: "string \<Rightarrow> string \<Rightarrow> pipeline \<Rightarrow> pipeline" where
  "set_status st i = with_change i (\<lambda>c. c\<lparr>cg_status := st\<rparr>)"

definition enqueue :: "job \<Rightarrow> int option \<Rightarrow> pipeline \<Rightarrow> pipeline" where
  "enqueue j defer pp = pp\<lparr>pp_queue := pp_queue pp @ [(j, defer)]\<rparr>"

section \<open>Handlers\<close>

text \<open>What a change does: kind, operation, target, payload.\<close>

type_synonym proposal = "string \<times> string \<times> string \<times> json"

definition baseline_of :: "pipeline \<Rightarrow> string \<Rightarrow> string \<Rightarrow> string" where
  "baseline_of pp tenant dv = (case latest_snapshot pp tenant dv of Some s \<Rightarrow> sn_hash s | None \<Rightarrow> [])"

fun draft_row :: "env \<Rightarrow> string \<Rightarrow> string \<Rightarrow> string \<Rightarrow> string \<Rightarrow> proposal \<Rightarrow> change_rec" where
  "draft_row en i tenant dv baseline (kind, operation, target, payload) =
     \<lparr>cg_id = i, cg_tenant = tenant, cg_device = dv, cg_kind = kind, cg_operation = operation, cg_target = target,
      cg_payload = payload, cg_baseline = baseline, cg_status = ''draft'', cg_sweep = 0, cg_reverts = None,
      cg_scheduled_at = None, cg_applied_at = None, cg_created = en_now en, cg_snapshot = None\<rparr>"

definition create_change :: "env \<Rightarrow> string \<Rightarrow> string \<Rightarrow> string \<Rightarrow> proposal \<Rightarrow> pipeline \<Rightarrow> pipeline" where
  "create_change en i tenant dv p pp =
     pp\<lparr>pp_changes := pp_changes pp @ [draft_row en i tenant dv (baseline_of pp tenant dv) p]\<rparr>"

definition owned :: "pipeline \<Rightarrow> string \<Rightarrow> string \<Rightarrow> bool" where
  "owned pp tenant dv = (case device_by_id pp dv of None \<Rightarrow> False | Some d \<Rightarrow> mg_tenant d = tenant)"

definition create_config_change :: "env \<Rightarrow> string \<Rightarrow> string \<Rightarrow> proposal \<Rightarrow> pipeline \<Rightarrow> pipeline \<times> (nat + unit)" where
  "create_config_change en tenant dv p pp =
     (if \<not> owned pp tenant dv then (pp, Inl 404) else (create_change en (en_id en) tenant dv p pp, Inr ()))"

text \<open>A proposal of the catalog's editor arrives as the change it stands for, \<open>None\<close> if it does not fit the catalog's
  model of the device.\<close>

definition create_catalog_change :: "env \<Rightarrow> string \<Rightarrow> string \<Rightarrow> (string \<times> json) option \<Rightarrow> pipeline \<Rightarrow> pipeline \<times> (nat + unit)" where
  "create_catalog_change en tenant dv mp pp =
     (if \<not> owned pp tenant dv then (pp, Inl 404)
      else case mp of
        None \<Rightarrow> (pp, Inl 422)
      | Some (model_id, payload) \<Rightarrow>
          (create_change en (en_id en) tenant dv (''catalog_setting'', ''set'', model_id, payload) pp, Inr ()))"

definition scheduled :: "int option \<Rightarrow> change_rec \<Rightarrow> change_rec" where
  "scheduled t c = c\<lparr>cg_status := ''scheduled'', cg_scheduled_at := t\<rparr>"

definition schedule_config_change :: "string \<Rightarrow> string \<Rightarrow> string \<Rightarrow> int option \<Rightarrow> pipeline \<Rightarrow> pipeline \<times> (nat + unit)" where
  "schedule_config_change tenant dv i t pp =
     (case get_change pp tenant i of
        None \<Rightarrow> (pp, Inl 404)
      | Some c \<Rightarrow>
          if cg_device c \<noteq> dv then (pp, Inl 404)
          else if cg_status c \<notin> {''draft'', ''scheduled''} then (pp, Inl 409)
          else (enqueue (ApplyChange i) t (with_change i (scheduled t) pp), Inr ()))"

definition cancel_config_change :: "string \<Rightarrow> string \<Rightarrow> string \<Rightarrow> pipeline \<Rightarrow> pipeline \<times> (nat + unit)" where
  "cancel_config_change tenant dv i pp =
     (case get_change pp tenant i of
        None \<Rightarrow> (pp, Inl 404)
      | Some c \<Rightarrow>
          if cg_device c \<noteq> dv then (pp, Inl 404)
          else if cg_status c \<notin> {''draft'', ''scheduled''} then (pp, Inl 409)
          else (set_status ''cancelled'' i pp, Inr ()))"

definition REVERTIBLE_STATES :: "string list" where
  "REVERTIBLE_STATES = [''applied'', ''failed'']"

text \<open>The inverse of a change, built from the snapshot taken before it was applied, if there is one.\<close>

definition inverse_of :: "push_world \<Rightarrow> change_rec \<Rightarrow> pipeline \<Rightarrow> proposal option" where
  "inverse_of w c pp =
     (if cg_status c \<notin> set REVERTIBLE_STATES then None
      else if \<not> has_inverse (cg_kind c) then None
      else map_option (Pair (cg_kind c))
             (pw_inverse w c (Option.bind (cg_snapshot c) (\<lambda>i. map_option sn_xml (get_snapshot pp (cg_tenant c) i)))))"

definition revert_config_change ::
  "push_world \<Rightarrow> env \<Rightarrow> string \<Rightarrow> string \<Rightarrow> string \<Rightarrow> int option \<Rightarrow> pipeline \<Rightarrow> pipeline \<times> (nat + unit)" where
  "revert_config_change w en tenant dv i t pp =
     (case get_change pp tenant i of
        None \<Rightarrow> (pp, Inl 404)
      | Some c \<Rightarrow>
          if cg_device c \<noteq> dv then (pp, Inl 404)
          else (case inverse_of w c pp of
                  None \<Rightarrow> (pp, Inl 409)
                | Some p \<Rightarrow>
                    (enqueue (ApplyChange (en_id en)) t
                       (with_change (en_id en) (\<lambda>c'. scheduled t (c'\<lparr>cg_reverts := Some i\<rparr>))
                          (create_change en (en_id en) (cg_tenant c) (cg_device c) p pp)), Inr ())))"

text \<open>A template arrives as the proposal it stands for, \<open>None\<close> if its body is invalid; a profile as those of its
  members in their order.\<close>

definition apply_template :: "env \<Rightarrow> string \<Rightarrow> string \<Rightarrow> proposal option \<Rightarrow> int option \<Rightarrow> pipeline \<Rightarrow> pipeline \<times> (nat + unit)" where
  "apply_template en tenant dv mp t pp =
     (if \<not> owned pp tenant dv then (pp, Inl 404)
      else case mp of
        None \<Rightarrow> (pp, Inl 422)
      | Some p \<Rightarrow>
          (enqueue (ApplyChange (en_id en)) t
             (with_change (en_id en) (scheduled t) (create_change en (en_id en) tenant dv p pp)), Inr ()))"

definition apply_profile ::
  "env \<Rightarrow> string \<Rightarrow> string \<Rightarrow> proposal list option \<Rightarrow> int option \<Rightarrow> pipeline \<Rightarrow> pipeline \<times> (nat + unit)" where
  "apply_profile en tenant dv mps t pp =
     (if \<not> owned pp tenant dv then (pp, Inl 404)
      else case mps of
        None \<Rightarrow> (pp, Inl 400)
      | Some ps \<Rightarrow>
          if ps = [] then (pp, Inl 400)
          else (let ids = take (length ps) (en_ids en) in
            (enqueue (ApplyProfile ids) t
               (foldl (\<lambda>pp (i, p). with_change i (scheduled t) (create_change en i tenant dv p pp)) pp (zip ids ps)), Inr ())))"

section \<open>Jobs\<close>

definition read_config :: "push_world \<Rightarrow> env \<Rightarrow> string \<Rightarrow> pipeline \<Rightarrow> (string \<times> string) option" where
  "read_config w en dv pp =
     (if en_readable en then map_option (Pair (pp_config pp dv)) (pw_hash w (pp_config pp dv)) else None)"

definition save_pre_apply_snapshot :: "env \<Rightarrow> change_rec \<Rightarrow> string \<Rightarrow> string \<Rightarrow> pipeline \<Rightarrow> pipeline" where
  "save_pre_apply_snapshot en c xml digest pp =
     pp\<lparr>pp_snaps := pp_snaps pp @
       [\<lparr>sn_id = en_snap en, sn_tenant = cg_tenant c, sn_device = cg_device c, sn_hash = digest, sn_xml = xml\<rparr>]\<rparr>"

text \<open>The applier of the kind. Only a live push writes; the write is recorded with the configuration that the job
  had read.\<close>

datatype ended = Fine | Failed | Dead

definition apply_for_kind :: "env \<Rightarrow> string \<Rightarrow> change_rec \<Rightarrow> pipeline \<Rightarrow> pipeline \<times> ended" where
  "apply_for_kind en xml c pp =
     (if cg_kind c \<notin> set CHANGE_APPLIERS then (pp, Failed)
      else (let wrote = (\<lambda>cfg. if pp_live pp
                 then pp\<lparr>pp_config := (pp_config pp)(cg_device c := cfg), pp_writes := pp_writes pp @ [(cg_id c, xml)]\<rparr>
                 else pp)
            in case en_outcome en (cg_id c) of
                 Success cfg \<Rightarrow> (wrote cfg, Fine)
               | Refused cfg \<Rightarrow> (wrote cfg, Failed)
               | Died cfg \<Rightarrow> (wrote cfg, Dead)))"

definition applied :: "env \<Rightarrow> change_rec \<Rightarrow> change_rec" where
  "applied en c = c\<lparr>cg_status := ''applied'', cg_applied_at := Some (en_now en)\<rparr>"

definition rollback :: "pipeline \<Rightarrow> pipeline \<Rightarrow> pipeline" where
  "rollback before after = before\<lparr>pp_config := pp_config after, pp_writes := pp_writes after\<rparr>"

text \<open>The second component tells whether the job died.\<close>

definition apply_change :: "push_world \<Rightarrow> env \<Rightarrow> change_rec \<Rightarrow> pipeline \<Rightarrow> pipeline \<times> bool" where
  "apply_change w en c pp =
     (let i = cg_id c in
      if cg_status c \<noteq> ''scheduled'' then (pp, False)
      else if \<not> en_free en (cg_device c) then (pp, False)
      else case read_config w en (cg_device c) pp of
        None \<Rightarrow> (set_status ''failed'' i pp, False)
      | Some (xml, digest) \<Rightarrow>
          if cg_baseline c \<noteq> [] \<and> digest \<noteq> cg_baseline c then (set_status ''conflict'' i pp, False)
          else (let pp1 = (if pp_live pp
                           then with_change i (\<lambda>c. c\<lparr>cg_snapshot := Some (en_snap en)\<rparr>) (save_pre_apply_snapshot en c xml digest pp)
                           else pp)
                in case apply_for_kind en xml c pp1 of
                     (pp2, Fine) \<Rightarrow> (with_change i (applied en) pp2, False)
                   | (pp2, Failed) \<Rightarrow> (set_status ''failed'' i pp2, False)
                   | (pp2, Dead) \<Rightarrow> (rollback pp pp2, True)))"

fun apply_members :: "env \<Rightarrow> string \<Rightarrow> string option \<Rightarrow> bool \<Rightarrow> change_rec list \<Rightarrow> pipeline \<Rightarrow> pipeline \<times> bool" where
  "apply_members en xml snap_id aborted [] pp = (pp, False)"
| "apply_members en xml snap_id aborted (c # cs) pp =
     (let i = cg_id c; pp1 = with_change i (\<lambda>c. c\<lparr>cg_snapshot := snap_id\<rparr>) pp in
      if aborted then apply_members en xml snap_id True cs (set_status ''failed'' i pp1)
      else case apply_for_kind en xml c pp1 of
        (pp2, Fine) \<Rightarrow> apply_members en xml snap_id False cs (with_change i (applied en) pp2)
      | (pp2, Failed) \<Rightarrow> apply_members en xml snap_id True cs (set_status ''failed'' i pp2)
      | (pp2, Dead) \<Rightarrow> (pp2, True))"

definition all_status :: "string \<Rightarrow> change_rec list \<Rightarrow> pipeline \<Rightarrow> pipeline" where
  "all_status st cs pp = foldl (\<lambda>pp c. set_status st (cg_id c) pp) pp cs"

definition apply_profile_sequence :: "push_world \<Rightarrow> env \<Rightarrow> change_rec list \<Rightarrow> pipeline \<Rightarrow> pipeline \<times> bool" where
  "apply_profile_sequence w en changes pp =
     (case filter (\<lambda>c. cg_status c = ''scheduled'') changes of
        [] \<Rightarrow> (pp, False)
      | c0 # cs \<Rightarrow>
          if \<not> en_free en (cg_device c0) then (pp, False)
          else case read_config w en (cg_device c0) pp of
            None \<Rightarrow> (all_status ''failed'' (c0 # cs) pp, False)
          | Some (xml, digest) \<Rightarrow>
              if cg_baseline c0 \<noteq> [] \<and> digest \<noteq> cg_baseline c0 then (all_status ''conflict'' (c0 # cs) pp, False)
              else (let pp1 = (if pp_live pp then save_pre_apply_snapshot en c0 xml digest pp else pp);
                        snap_id = (if pp_live pp then Some (en_snap en) else None);
                        (pp2, dead) = apply_members en xml snap_id False (c0 # cs) pp1
                    in (if dead then rollback pp pp2 else pp2, dead)))"

definition then_backup :: "string \<Rightarrow> pipeline \<times> bool \<Rightarrow> pipeline" where
  "then_backup dv r = (case r of (pp, dead) \<Rightarrow> if dead then pp else enqueue (Backup dv) None pp)"

definition apply_config_change :: "push_world \<Rightarrow> env \<Rightarrow> string \<Rightarrow> pipeline \<Rightarrow> pipeline" where
  "apply_config_change w en i pp =
     (case change_by_id pp i of
        None \<Rightarrow> pp
      | Some c \<Rightarrow>
          (case device_by_id pp (cg_device c) of
             None \<Rightarrow> pp
           | Some d \<Rightarrow> then_backup (cg_device c) (apply_change w en c pp)))"

definition apply_profile_changes :: "push_world \<Rightarrow> env \<Rightarrow> string list \<Rightarrow> pipeline \<Rightarrow> pipeline" where
  "apply_profile_changes w en ids pp =
     (case List.map_filter (change_by_id pp) ids of
        [] \<Rightarrow> pp
      | c # cs \<Rightarrow>
          (case device_by_id pp (cg_device c) of
             None \<Rightarrow> pp
           | Some d \<Rightarrow> then_backup (cg_device c) (apply_profile_sequence w en (c # cs) pp)))"

definition backup_config :: "push_world \<Rightarrow> env \<Rightarrow> managed \<Rightarrow> pipeline \<Rightarrow> pipeline" where
  "backup_config w en d pp =
     (case read_config w en (mg_id d) pp of
        None \<Rightarrow> pp
      | Some (xml, digest) \<Rightarrow>
          if map_option sn_hash (find (\<lambda>s. sn_device s = mg_id d) (rev (pp_snaps pp))) = Some digest then pp
          else pp\<lparr>pp_snaps := pp_snaps pp @
            [\<lparr>sn_id = en_snap en, sn_tenant = mg_tenant d, sn_device = mg_id d, sn_hash = digest, sn_xml = xml\<rparr>]\<rparr>)"

definition backup_device_config :: "push_world \<Rightarrow> env \<Rightarrow> string \<Rightarrow> pipeline \<Rightarrow> pipeline" where
  "backup_device_config w en dv pp = (case device_by_id pp dv of None \<Rightarrow> pp | Some d \<Rightarrow> backup_config w en d pp)"

definition enqueue_config_backups :: "pipeline \<Rightarrow> pipeline" where
  "enqueue_config_backups pp = foldl (\<lambda>pp d. enqueue (Backup (mg_id d)) None pp) pp (pp_devices pp)"

fun work :: "push_world \<Rightarrow> env \<Rightarrow> job \<Rightarrow> pipeline \<Rightarrow> pipeline" where
  "work w en (ApplyChange i) pp = apply_config_change w en i pp"
| "work w en (ApplyProfile ids) pp = apply_profile_changes w en ids pp"
| "work w en (Backup dv) pp = backup_device_config w en dv pp"

text \<open>The worker takes any job that is due.\<close>

definition run_job :: "push_world \<Rightarrow> env \<Rightarrow> nat \<Rightarrow> pipeline \<Rightarrow> pipeline" where
  "run_job w en k pp =
     (if k < length (pp_queue pp) \<and> (case snd (pp_queue pp ! k) of None \<Rightarrow> True | Some t \<Rightarrow> t \<le> en_now en)
      then work w en (fst (pp_queue pp ! k)) (pp\<lparr>pp_queue := take k (pp_queue pp) @ drop (Suc k) (pp_queue pp)\<rparr>)
      else pp)"

text \<open>The sweeper: overdue scheduled rows are put into the queue again, a bounded number of times.\<close>

definition decide_orphan :: "nat \<Rightarrow> nat \<Rightarrow> string" where
  "decide_orphan sweep_attempts max_attempts = (if sweep_attempts < max_attempts then ''re-enqueue'' else ''give-up'')"

definition overdue :: "push_world \<Rightarrow> env \<Rightarrow> change_rec \<Rightarrow> bool" where
  "overdue w en c \<longleftrightarrow> cg_status c = ''scheduled'' \<and> nullish_or (cg_scheduled_at c) (cg_created c) < en_now en - pw_grace w"

definition sweep_row :: "push_world \<Rightarrow> env \<Rightarrow> pipeline \<Rightarrow> string \<Rightarrow> pipeline" where
  "sweep_row w en pp i =
     (case change_by_id pp i of
        None \<Rightarrow> pp
      | Some c \<Rightarrow>
          if cg_status c \<noteq> ''scheduled'' then pp
          else if \<not> en_free en (cg_device c) then pp
          else if decide_orphan (cg_sweep c) (pw_max_attempts w) = ''re-enqueue''
               then enqueue (ApplyChange i) None (with_change i (\<lambda>c. c\<lparr>cg_sweep := Suc (cg_sweep c)\<rparr>) pp)
          else set_status ''failed'' i pp)"

definition sweep_orphaned_actions :: "push_world \<Rightarrow> env \<Rightarrow> pipeline \<Rightarrow> pipeline" where
  "sweep_orphaned_actions w en pp = foldl (sweep_row w en) pp (map cg_id (filter (overdue w en) (pp_changes pp)))"

section \<open>The machine\<close>

datatype pipe_op =
    Propose string string proposal
  | ProposeCatalog string string "(string \<times> json) option"
  | ScheduleChange string string string "int option"
  | CancelScheduled string string string
  | RevertApplied string string string "int option"
  | FromTemplate string string "proposal option" "int option"
  | FromProfile string string "proposal list option" "int option"
  | RunJob nat
  | SweepOrphans
  | DailyBackups
  | LivePush bool
  | DeviceEdit string string

fun pipe_step :: "push_world \<Rightarrow> env \<Rightarrow> pipe_op \<Rightarrow> pipeline \<Rightarrow> pipeline \<times> (nat + unit)" where
  "pipe_step w en (Propose tenant dv p) pp = create_config_change en tenant dv p pp"
| "pipe_step w en (ProposeCatalog tenant dv mp) pp = create_catalog_change en tenant dv mp pp"
| "pipe_step w en (ScheduleChange tenant dv i t) pp = schedule_config_change tenant dv i t pp"
| "pipe_step w en (CancelScheduled tenant dv i) pp = cancel_config_change tenant dv i pp"
| "pipe_step w en (RevertApplied tenant dv i t) pp = revert_config_change w en tenant dv i t pp"
| "pipe_step w en (FromTemplate tenant dv mp t) pp = apply_template en tenant dv mp t pp"
| "pipe_step w en (FromProfile tenant dv mps t) pp = apply_profile en tenant dv mps t pp"
| "pipe_step w en (RunJob k) pp = (run_job w en k pp, Inr ())"
| "pipe_step w en SweepOrphans pp = (sweep_orphaned_actions w en pp, Inr ())"
| "pipe_step w en DailyBackups pp = (enqueue_config_backups pp, Inr ())"
| "pipe_step w en (LivePush b) pp = (pp\<lparr>pp_live := b\<rparr>, Inr ())"
| "pipe_step w en (DeviceEdit dv cfg) pp = (pp\<lparr>pp_config := (pp_config pp)(dv := cfg)\<rparr>, Inr ())"

definition pipe_run :: "push_world \<Rightarrow> (env \<times> pipe_op) list \<Rightarrow> pipeline \<Rightarrow> pipeline" where
  "pipe_run w steps pp = foldl (\<lambda>pp (en, opn). fst (pipe_step w en opn pp)) pp steps"

section \<open>How rows evolve\<close>

text \<open>What never changes in a row, and the order in which its status moves: a draft may go anywhere, a scheduled
  change anywhere but back, every other status is final.\<close>

definition core :: "change_rec \<Rightarrow> change_rec" where
  "core c = c\<lparr>cg_status := [], cg_sweep := 0, cg_reverts := None, cg_scheduled_at := None, cg_applied_at := None, cg_snapshot := None\<rparr>"

definition moves :: "string \<Rightarrow> string \<Rightarrow> bool" where
  "moves a b \<longleftrightarrow> a = b \<or> a = ''draft'' \<or> a = ''scheduled'' \<and> b \<noteq> ''draft''"

definition row_moves :: "change_rec \<Rightarrow> change_rec \<Rightarrow> bool" where
  "row_moves c c' \<longleftrightarrow> core c' = core c \<and> moves (cg_status c) (cg_status c')"

definition evolves :: "pipeline \<Rightarrow> pipeline \<Rightarrow> bool" where
  "evolves pp pp' \<longleftrightarrow> (\<exists>g new. pp_changes pp' = map g (pp_changes pp) @ new \<and> (\<forall>c\<in>set (pp_changes pp). row_moves c (g c)))"

lemma core_same:
  assumes "core c' = core c"
  shows "cg_id c' = cg_id c" "cg_device c' = cg_device c" "cg_baseline c' = cg_baseline c"
  using arg_cong [OF assms, of cg_id] arg_cong [OF assms, of cg_device] arg_cong [OF assms, of cg_baseline] by (simp_all add: core_def)

lemma moves_trans: "moves a b \<Longrightarrow> moves b c \<Longrightarrow> moves a c"
  by (auto simp: moves_def)

lemma row_moves_refl [simp]: "row_moves c c"
  by (simp add: row_moves_def moves_def)

lemma evolves_refl: "pp_changes pp' = pp_changes pp \<Longrightarrow> evolves pp pp'"
  by (auto simp: evolves_def intro!: exI [of _ id] exI [of _ "[]"])

lemma evolves_map:
  "pp_changes pp' = map g (pp_changes pp) \<Longrightarrow> (\<And>c. c \<in> set (pp_changes pp) \<Longrightarrow> row_moves c (g c)) \<Longrightarrow> evolves pp pp'"
  by (auto simp: evolves_def)

lemma evolves_append: "pp_changes pp' = pp_changes pp @ new \<Longrightarrow> evolves pp pp'"
  by (auto simp: evolves_def intro!: exI [of _ id])

lemma evolves_trans:
  assumes "evolves pp pp1" and "evolves pp1 pp2"
  shows "evolves pp pp2"
proof -
  obtain g new where a: "pp_changes pp1 = map g (pp_changes pp) @ new" "\<forall>c\<in>set (pp_changes pp). row_moves c (g c)"
    using assms(1) by (auto simp: evolves_def)
  obtain h new' where b: "pp_changes pp2 = map h (pp_changes pp1) @ new'" "\<forall>c\<in>set (pp_changes pp1). row_moves c (h c)"
    using assms(2) by (auto simp: evolves_def)
  have "pp_changes pp2 = map (h \<circ> g) (pp_changes pp) @ (map h new @ new')" using a(1) b(1) by simp
  moreover have "row_moves c ((h \<circ> g) c)" if "c \<in> set (pp_changes pp)" for c
    using a b(2) that moves_trans [of "cg_status c" "cg_status (g c)" "cg_status (h (g c))"] by (auto simp: row_moves_def)
  ultimately show ?thesis unfolding evolves_def by blast
qed

text \<open>A row of before is still there, with the same proposal and a status it could move to.\<close>

lemma evolves_row:
  assumes "evolves pp pp'" and "c \<in> set (pp_changes pp)"
  obtains c' where "c' \<in> set (pp_changes pp')" "row_moves c c'"
  using assms unfolding evolves_def by (metis UnCI image_eqI list.set_map set_append)

lemma map_core_ids:
  assumes "\<And>c. core (g c) = core c"
  shows "map cg_id (map g cs) = map cg_id cs"
  using core_same(1) [OF assms] by simp

lemma with_change_evolves:
  assumes "\<And>c. c \<in> set (pp_changes pp) \<Longrightarrow> cg_id c = i \<Longrightarrow> row_moves c (f c)"
  shows "evolves pp (with_change i f pp)"
  using assms by (intro evolves_map [where g = "\<lambda>c. if cg_id c = i then f c else c"]) (auto simp: with_change_def)

section \<open>Jobs are well formed\<close>

text \<open>The identifiers of changes are distinct, and the members of a queued profile were proposed together: they
  are distinct changes of one device, with one baseline.\<close>

definition members_ok :: "pipeline \<Rightarrow> string list \<Rightarrow> bool" where
  "members_ok pp ids \<longleftrightarrow> distinct ids \<and> (\<exists>b dv. \<forall>i\<in>set ids. \<exists>c\<in>set (pp_changes pp). cg_id c = i \<and> cg_baseline c = b \<and> cg_device c = dv)"

definition profiles :: "pipeline \<Rightarrow> string list set" where
  "profiles pp = {ids. ApplyProfile ids \<in> fst ` set (pp_queue pp)}"

definition wf_pipeline :: "pipeline \<Rightarrow> bool" where
  "wf_pipeline pp \<longleftrightarrow> distinct (map cg_id (pp_changes pp)) \<and> (\<forall>ids\<in>profiles pp. members_ok pp ids)"

lemma members_kept:
  assumes "evolves pp pp'" and "members_ok pp ids"
  shows "members_ok pp' ids"
proof -
  obtain b dv where m: "\<forall>i\<in>set ids. \<exists>c\<in>set (pp_changes pp). cg_id c = i \<and> cg_baseline c = b \<and> cg_device c = dv" "distinct ids"
    using assms(2) by (auto simp: members_ok_def)
  have "\<exists>c\<in>set (pp_changes pp'). cg_id c = i \<and> cg_baseline c = b \<and> cg_device c = dv" if i: "i \<in> set ids" for i
  proof -
    obtain c where c: "c \<in> set (pp_changes pp)" "cg_id c = i" "cg_baseline c = b" "cg_device c = dv" using m i by blast
    obtain c' where "c' \<in> set (pp_changes pp')" "core c' = core c" using evolves_row [OF assms(1) c(1)] by (auto simp: row_moves_def)
    then show ?thesis using core_same c by metis
  qed
  then show ?thesis using m(2) by (auto simp: members_ok_def)
qed

lemma wf_step:
  assumes "wf_pipeline pp" and "evolves pp pp'" and "distinct (map cg_id (pp_changes pp'))"
    and "\<And>ids. ids \<in> profiles pp' \<Longrightarrow> ids \<in> profiles pp \<or> members_ok pp' ids"
  shows "wf_pipeline pp'"
  using assms members_kept unfolding wf_pipeline_def by blast

lemma row_by_id:
  assumes "wf_pipeline pp" and "c \<in> set (pp_changes pp)" and "c' \<in> set (pp_changes pp)" and "cg_id c = cg_id c'"
  shows "c = c'"
  using assms by (auto simp: wf_pipeline_def distinct_map inj_on_def)

lemma change_by_id_row: "change_by_id pp i = Some c \<Longrightarrow> c \<in> set (pp_changes pp) \<and> cg_id c = i"
  by (auto simp: change_by_id_def find_Some_iff)

lemma get_change_row: "get_change pp tenant i = Some c \<Longrightarrow> c \<in> set (pp_changes pp) \<and> cg_id c = i \<and> cg_tenant c = tenant"
  by (auto simp: get_change_def find_Some_iff)

lemma change_by_id_of:
  assumes "wf_pipeline pp" and "c \<in> set (pp_changes pp)"
  shows "change_by_id pp (cg_id c) = Some c"
proof -
  have "change_by_id pp (cg_id c) \<noteq> None" using assms(2) by (auto simp: change_by_id_def find_None_iff)
  then show ?thesis using change_by_id_row row_by_id [OF assms(1) _ assms(2)] by fastforce
qed

section \<open>The effect of a job\<close>

text \<open>The job touches only the rows \<open>cs\<close>, ends them in one of the states \<open>E\<close>, writes each of them at most once, with
  the configuration it read, only in a live push, and changes no device that it does not write to. Unless it
  dies, what it wrote is no longer scheduled.\<close>

definition WRITTEN :: "string set" where
  "WRITTEN = {''applied'', ''failed''}"

definition effect :: "string set \<Rightarrow> bool \<Rightarrow> change_rec list \<Rightarrow> string \<Rightarrow> pipeline \<Rightarrow> pipeline \<Rightarrow> bool" where
  "effect E dead cs xml pp pp' \<longleftrightarrow> (\<exists>g ws.
     pp_changes pp' = map g (pp_changes pp) \<and> pp_writes pp' = pp_writes pp @ ws \<and> pp_queue pp' = pp_queue pp \<and> pp_live pp' = pp_live pp
     \<and> (\<forall>c. core (g c) = core c \<and> (cg_id c \<notin> cg_id ` set cs \<longrightarrow> g c = c) \<and> (cg_status (g c) = cg_status c \<or> cg_status (g c) \<in> E))
     \<and> (\<not> dead \<longrightarrow> (\<forall>c. cg_id c \<in> fst ` set ws \<longrightarrow> cg_status (g c) \<in> WRITTEN))
     \<and> (ws \<noteq> [] \<longrightarrow> pp_live pp) \<and> set ws \<subseteq> (\<lambda>c. (cg_id c, xml)) ` set cs \<and> (distinct (map cg_id cs) \<longrightarrow> distinct (map fst ws))
     \<and> (\<forall>dv. pp_config pp' dv \<noteq> pp_config pp dv \<longrightarrow> (\<exists>c\<in>set cs. cg_device c = dv \<and> cg_id c \<in> fst ` set ws)))"

definition survives :: "env \<Rightarrow> bool" where
  "survives en \<longleftrightarrow> (\<forall>i cfg. en_outcome en i \<noteq> Died cfg)"

lemma for_kind:
  assumes "apply_for_kind en xml c pp = (pp', r)"
  shows "pp' = pp \<or> pp_live pp \<and> (\<exists>cfg. pp' = pp\<lparr>pp_config := (pp_config pp)(cg_device c := cfg), pp_writes := pp_writes pp @ [(cg_id c, xml)]\<rparr>)"
    and "r = Dead \<Longrightarrow> \<not> survives en"
  using assms by (auto simp: apply_for_kind_def Let_def survives_def split: if_splits outcome.splits)

lemma effect_none: "pp_changes pp' = pp_changes pp \<Longrightarrow> pp_writes pp' = pp_writes pp \<Longrightarrow> pp_queue pp' = pp_queue pp
    \<Longrightarrow> pp_live pp' = pp_live pp \<Longrightarrow> pp_config pp' = pp_config pp \<Longrightarrow> effect E dead cs xml pp pp'"
  unfolding effect_def by (intro exI [of _ id] exI [of _ "[]"]) auto

text \<open>A write of one row, with the row changed before and after it.\<close>

lemma effect_one:
  assumes "apply_for_kind en xml c (with_change (cg_id c) f pp) = (pp1, r)" and "\<And>c. core (f c) = core c" "\<And>c. cg_status (f c) = cg_status c"
    and "\<And>c. core (h c) = core c" "\<And>c. cg_status (h c) \<in> WRITTEN"
  shows "effect WRITTEN False [c] xml pp (with_change (cg_id c) h pp1)"
    and "effect WRITTEN True [c] xml pp pp1"
proof -
  show "effect WRITTEN False [c] xml pp (with_change (cg_id c) h pp1)"
    unfolding effect_def using for_kind(1) [OF assms(1)] assms(2-5) core_same(1) [OF assms(2)]
    by (intro exI [of _ "\<lambda>x. if cg_id x = cg_id c then h (f x) else x"] exI [of _ "if pp_writes pp1 = pp_writes pp then [] else [(cg_id c, xml)]"])
      (auto simp: with_change_def split: if_splits)
  show "effect WRITTEN True [c] xml pp pp1"
    unfolding effect_def using for_kind(1) [OF assms(1)] assms(2-3)
    by (intro exI [of _ "\<lambda>x. if cg_id x = cg_id c then f x else x"] exI [of _ "if pp_writes pp1 = pp_writes pp then [] else [(cg_id c, xml)]"])
      (auto simp: with_change_def split: if_splits)
qed

lemma effect_then:
  assumes "effect WRITTEN False [c] xml pp pp1" and "effect WRITTEN dead cs xml pp1 pp2"
  shows "effect WRITTEN dead (c # cs) xml pp pp2"
proof -
  obtain g ws where a: "pp_changes pp1 = map g (pp_changes pp)" "pp_writes pp1 = pp_writes pp @ ws" "pp_queue pp1 = pp_queue pp" "pp_live pp1 = pp_live pp"
    "\<forall>x. core (g x) = core x \<and> (cg_id x \<notin> cg_id ` set [c] \<longrightarrow> g x = x) \<and> (cg_status (g x) = cg_status x \<or> cg_status (g x) \<in> WRITTEN)"
    "\<not> False \<longrightarrow> (\<forall>x. cg_id x \<in> fst ` set ws \<longrightarrow> cg_status (g x) \<in> WRITTEN)"
    "ws \<noteq> [] \<longrightarrow> pp_live pp" "set ws \<subseteq> (\<lambda>c. (cg_id c, xml)) ` set [c]" "distinct (map cg_id [c]) \<longrightarrow> distinct (map fst ws)"
    "\<forall>dv. pp_config pp1 dv \<noteq> pp_config pp dv \<longrightarrow> (\<exists>c\<in>set [c]. cg_device c = dv \<and> cg_id c \<in> fst ` set ws)"
    using assms(1) unfolding effect_def by (elim exE conjE) (rule that)
  obtain h vs where b: "pp_changes pp2 = map h (pp_changes pp1)" "pp_writes pp2 = pp_writes pp1 @ vs" "pp_queue pp2 = pp_queue pp1" "pp_live pp2 = pp_live pp1"
    "\<forall>x. core (h x) = core x \<and> (cg_id x \<notin> cg_id ` set cs \<longrightarrow> h x = x) \<and> (cg_status (h x) = cg_status x \<or> cg_status (h x) \<in> WRITTEN)"
    "\<not> dead \<longrightarrow> (\<forall>x. cg_id x \<in> fst ` set vs \<longrightarrow> cg_status (h x) \<in> WRITTEN)"
    "vs \<noteq> [] \<longrightarrow> pp_live pp1" "set vs \<subseteq> (\<lambda>c. (cg_id c, xml)) ` set cs" "distinct (map cg_id cs) \<longrightarrow> distinct (map fst vs)"
    "\<forall>dv. pp_config pp2 dv \<noteq> pp_config pp1 dv \<longrightarrow> (\<exists>c\<in>set cs. cg_device c = dv \<and> cg_id c \<in> fst ` set vs)"
    using assms(2) unfolding effect_def by (elim exE conjE) (rule that)
  have id: "cg_id (g x) = cg_id x" for x using core_same(1) a(5) by blast
  have 1: "\<forall>x. core ((h \<circ> g) x) = core x \<and> (cg_id x \<notin> cg_id ` set (c # cs) \<longrightarrow> (h \<circ> g) x = x)
      \<and> (cg_status ((h \<circ> g) x) = cg_status x \<or> cg_status ((h \<circ> g) x) \<in> WRITTEN)"
  proof
    fix x :: change_rec
    show "core ((h \<circ> g) x) = core x \<and> (cg_id x \<notin> cg_id ` set (c # cs) \<longrightarrow> (h \<circ> g) x = x)
      \<and> (cg_status ((h \<circ> g) x) = cg_status x \<or> cg_status ((h \<circ> g) x) \<in> WRITTEN)"
      using a(5) [rule_format, of x] b(5) [rule_format, of "g x"] id [of x] by auto
  qed
  have 2: "\<not> dead \<longrightarrow> (\<forall>x. cg_id x \<in> fst ` set (ws @ vs) \<longrightarrow> cg_status ((h \<circ> g) x) \<in> WRITTEN)"
  proof (intro impI allI)
    fix x :: change_rec
    assume "\<not> dead" "cg_id x \<in> fst ` set (ws @ vs)"
    then show "cg_status ((h \<circ> g) x) \<in> WRITTEN"
      using a(6) b(6) b(5) [rule_format, of "g x"] id [of x] unfolding set_append image_Un o_def by (metis Un_iff)
  qed
  have dom: "fst ` set ws \<subseteq> {cg_id c}" "fst ` set vs \<subseteq> cg_id ` set cs" using a(8) b(8) by force+
  have 3: "distinct (map cg_id (c # cs)) \<longrightarrow> distinct (map fst (ws @ vs))"
  proof
    assume d: "distinct (map cg_id (c # cs))"
    then have "cg_id c \<notin> cg_id ` set cs" by auto
    then have "fst ` set ws \<inter> fst ` set vs = {}" using Int_mono [OF dom] by simp
    then show "distinct (map fst (ws @ vs))" using a(9) b(9) d by simp
  qed
  have 4: "\<forall>dv. pp_config pp2 dv \<noteq> pp_config pp dv \<longrightarrow> (\<exists>c'\<in>set (c # cs). cg_device c' = dv \<and> cg_id c' \<in> fst ` set (ws @ vs))"
  proof (intro allI impI)
    fix dv
    assume changed: "pp_config pp2 dv \<noteq> pp_config pp dv"
    show "\<exists>c'\<in>set (c # cs). cg_device c' = dv \<and> cg_id c' \<in> fst ` set (ws @ vs)"
    proof (cases "pp_config pp1 dv = pp_config pp dv")
      case True
      then have "pp_config pp2 dv \<noteq> pp_config pp1 dv" using changed by simp
      from b(10) [rule_format, OF this] obtain c' where "c' \<in> set cs" "cg_device c' = dv" "cg_id c' \<in> fst ` set vs" by (rule bexE) simp
      then show ?thesis by (intro bexI [of _ c']) (simp_all add: image_Un)
    next
      case False
      then show ?thesis using a(10) [rule_format, of dv] by auto
    qed
  qed
  have 5: "set (ws @ vs) \<subseteq> (\<lambda>c. (cg_id c, xml)) ` set (c # cs)" "ws @ vs \<noteq> [] \<longrightarrow> pp_live pp" using a(4,7,8) b(7,8) by auto
  show ?thesis
    unfolding effect_def using a(1-4) b(1-4) 1 2 3 4 5 by (intro exI [of _ "h \<circ> g"] exI [of _ "ws @ vs"] conjI) simp_all
qed

lemma effect_widen:
  assumes "effect E dead cs xml pp pp'" and "E \<subseteq> E'" and "set cs \<subseteq> set cs'" and "distinct (map cg_id cs') \<longrightarrow> distinct (map cg_id cs)"
  shows "effect E' dead cs' xml pp pp'"
proof -
  obtain g ws where a: "pp_changes pp' = map g (pp_changes pp)" "pp_writes pp' = pp_writes pp @ ws" "pp_queue pp' = pp_queue pp" "pp_live pp' = pp_live pp"
    "\<forall>x. core (g x) = core x \<and> (cg_id x \<notin> cg_id ` set cs \<longrightarrow> g x = x) \<and> (cg_status (g x) = cg_status x \<or> cg_status (g x) \<in> E)"
    "\<not> dead \<longrightarrow> (\<forall>x. cg_id x \<in> fst ` set ws \<longrightarrow> cg_status (g x) \<in> WRITTEN)"
    "ws \<noteq> [] \<longrightarrow> pp_live pp" "set ws \<subseteq> (\<lambda>c. (cg_id c, xml)) ` set cs" "distinct (map cg_id cs) \<longrightarrow> distinct (map fst ws)"
    "\<forall>dv. pp_config pp' dv \<noteq> pp_config pp dv \<longrightarrow> (\<exists>c\<in>set cs. cg_device c = dv \<and> cg_id c \<in> fst ` set ws)"
    using assms(1) unfolding effect_def by (elim exE conjE) (rule that)
  have "\<forall>x. core (g x) = core x \<and> (cg_id x \<notin> cg_id ` set cs' \<longrightarrow> g x = x) \<and> (cg_status (g x) = cg_status x \<or> cg_status (g x) \<in> E')"
    using a(5) assms(2,3) by blast
  moreover have "set ws \<subseteq> (\<lambda>c. (cg_id c, xml)) ` set cs'" "distinct (map cg_id cs') \<longrightarrow> distinct (map fst ws)"
    using a(8,9) assms(3,4) by blast+
  moreover have "\<forall>dv. pp_config pp' dv \<noteq> pp_config pp dv \<longrightarrow> (\<exists>c\<in>set cs'. cg_device c = dv \<and> cg_id c \<in> fst ` set ws)"
    using a(10) assms(3) by blast
  ultimately show ?thesis unfolding effect_def using a(1-4,6,7) by (intro exI conjI)
qed

lemma effect_members:
  "apply_members en xml snap_id aborted cs pp = (pp', dead) \<Longrightarrow> effect WRITTEN dead cs xml pp pp' \<and> (dead \<longrightarrow> \<not> survives en)"
proof (induction en xml snap_id aborted cs pp rule: apply_members.induct)
  case (1 en xml snap_id aborted pp)
  then show ?case by (simp add: effect_none)
next
  case (2 en xml snap_id aborted c cs pp)
  let ?f = "\<lambda>c. c\<lparr>cg_snapshot := snap_id\<rparr>" and ?failed = "\<lambda>c. c\<lparr>cg_status := ''failed''\<rparr>"
  have f: "core (?f x) = core x" "cg_status (?f x) = cg_status x" "core (?failed x) = core x" "cg_status (?failed x) \<in> WRITTEN"
    "core (applied en x) = core x" "cg_status (applied en x) \<in> WRITTEN" for x
    by (simp_all add: core_def applied_def WRITTEN_def)
  show ?case
  proof (cases aborted)
    case True
    have "effect WRITTEN False [c] xml pp (set_status ''failed'' (cg_id c) (with_change (cg_id c) ?f pp))"
      unfolding effect_def
      by (intro exI [of _ "\<lambda>x. if cg_id x = cg_id c then ?failed (?f x) else x"] exI [of _ "[]"]) (auto simp: with_change_def set_status_def core_def WRITTEN_def)
    then show ?thesis using 2(1) [OF refl refl] 2(4) True effect_then by (simp add: Let_def)
  next
    case False
    obtain pp2 r where k: "apply_for_kind en xml c (with_change (cg_id c) ?f pp) = (pp2, r)" by fastforce
    note one = effect_one [OF k f(1,2)] and for_kind(2) [OF k]
    then show ?thesis
    proof (cases r)
      case Fine
      then show ?thesis using 2(2) [OF refl refl False k [symmetric] Fine] 2(4) False k one(1) [OF f(5,6)] effect_then by (simp add: Let_def)
    next
      case Failed
      then show ?thesis using 2(3) [OF refl refl False k [symmetric] Failed] 2(4) False k one(1) [OF f(3,4)] effect_then
        by (simp add: Let_def set_status_def)
    next
      case Dead
      have "effect WRITTEN True (c # cs) xml pp pp2"
        using one(2) [OF f(3,4)] by (rule effect_widen) auto
      then show ?thesis using 2(4) False k Dead for_kind(2) [OF k] by (simp add: Let_def)
    qed
  qed
qed

lemma effect_from:
  assumes "pp_changes pp0 = pp_changes pp" "pp_writes pp0 = pp_writes pp" "pp_queue pp0 = pp_queue pp" "pp_live pp0 = pp_live pp" "pp_config pp0 = pp_config pp"
  shows "effect E dead cs xml pp0 pp' = effect E dead cs xml pp pp'"
  by (simp add: effect_def assms)

lemma effect_rollback:
  assumes "effect E dead cs xml pp pp'"
  shows "effect E True cs xml pp (rollback pp pp')"
  using assms unfolding effect_def
  by (elim exE conjE, intro exI [of _ id] exI conjI) (simp_all add: rollback_def)

lemma all_status_rows:
  "all_status st cs pp = pp\<lparr>pp_changes := map (\<lambda>x. if cg_id x \<in> cg_id ` set cs then x\<lparr>cg_status := st\<rparr> else x) (pp_changes pp)\<rparr>"
  by (induction cs arbitrary: pp) (auto simp: all_status_def set_status_def with_change_def)

lemma effect_all_status:
  "st \<in> E \<Longrightarrow> effect E dead cs xml pp (all_status st cs pp)"
  unfolding effect_def all_status_rows
  by (intro exI [of _ "\<lambda>x. if cg_id x \<in> cg_id ` set cs then x\<lparr>cg_status := st\<rparr> else x"] exI [of _ "[]"]) (simp add: core_def)

lemma effect_set_status: "st \<in> E \<Longrightarrow> effect E dead [c] xml pp (set_status st (cg_id c) pp)"
  using effect_all_status [of st E dead "[c]"] by (simp add: all_status_def)

definition ENDED :: "string set" where
  "ENDED = {''applied'', ''failed'', ''conflict''}"

lemma ENDED_simps [simp]: "WRITTEN \<subseteq> ENDED" "''failed'' \<in> ENDED" "''conflict'' \<in> ENDED"
  by (simp_all add: ENDED_def WRITTEN_def)

text \<open>What a job has checked when it writes: the device was free, and its configuration is the one it read, with the
  baseline of each change it writes, unless there was none.\<close>

definition guarded :: "push_world \<Rightarrow> env \<Rightarrow> change_rec list \<Rightarrow> string \<Rightarrow> pipeline \<Rightarrow> bool" where
  "guarded w en cs xml pp \<longleftrightarrow> (\<exists>dv. en_free en dv \<and> xml = pp_config pp dv
     \<and> (\<forall>c\<in>set cs. cg_device c = dv \<and> (cg_baseline c = [] \<or> pw_hash w xml = Some (cg_baseline c))))"

definition job_effect :: "push_world \<Rightarrow> env \<Rightarrow> bool \<Rightarrow> change_rec list \<Rightarrow> string \<Rightarrow> pipeline \<Rightarrow> pipeline \<Rightarrow> bool" where
  "job_effect w en dead cs xml pp pp' \<longleftrightarrow> effect ENDED dead cs xml pp pp' \<and> (dead \<longrightarrow> \<not> survives en)
     \<and> (pp_writes pp' \<noteq> pp_writes pp \<longrightarrow> guarded w en cs xml pp)"

lemma job_effect_none: "pp_changes pp' = pp_changes pp \<Longrightarrow> pp_writes pp' = pp_writes pp \<Longrightarrow> pp_queue pp' = pp_queue pp
    \<Longrightarrow> pp_live pp' = pp_live pp \<Longrightarrow> pp_config pp' = pp_config pp \<Longrightarrow> job_effect w en False cs xml pp pp'"
  by (simp add: job_effect_def effect_none)

lemma job_effect_quiet: "effect ENDED False cs xml pp pp' \<Longrightarrow> pp_writes pp' = pp_writes pp \<Longrightarrow> job_effect w en False cs xml pp pp'"
  by (simp add: job_effect_def)

lemma set_status_writes [simp]: "pp_writes (set_status st i pp) = pp_writes pp" "pp_writes (all_status st cs pp) = pp_writes pp"
  by (simp_all add: set_status_def with_change_def all_status_rows)

lemma read_config_is: "read_config w en dv pp = Some (xml, digest) \<Longrightarrow> xml = pp_config pp dv \<and> pw_hash w xml = Some digest"
  by (auto simp: read_config_def split: if_splits)

lemma with_change_same: "with_change i (\<lambda>c. c) pp = pp"
  by (simp add: with_change_def)

lemma apply_change_effect:
  assumes "apply_change w en c pp = (pp', dead)"
  shows "\<exists>xml. job_effect w en dead (if cg_status c = ''scheduled'' then [c] else []) xml pp pp'"
proof (cases "cg_status c = ''scheduled'' \<and> en_free en (cg_device c)")
  case False
  then show ?thesis using assms job_effect_none by (auto simp: apply_change_def Let_def)
next
  case ready: True
  show ?thesis
  proof (cases "read_config w en (cg_device c) pp")
    case None
    then have "pp' = set_status ''failed'' (cg_id c) pp" "\<not> dead" using assms ready by (auto simp: apply_change_def Let_def)
    then show ?thesis using job_effect_quiet [OF effect_set_status] ready by auto
  next
    case (Some r)
    obtain xml digest where r: "r = (xml, digest)" by fastforce
    note xml = read_config_is [OF Some [unfolded r]]
    show ?thesis
    proof (cases "cg_baseline c \<noteq> [] \<and> digest \<noteq> cg_baseline c")
      case True
      then have "pp' = set_status ''conflict'' (cg_id c) pp" "\<not> dead" using assms ready Some r by (auto simp: apply_change_def Let_def)
      then show ?thesis using job_effect_quiet [OF effect_set_status] ready by auto
    next
      case same_base: False
      let ?snap = "save_pre_apply_snapshot en c xml digest pp"
      define f where "f = (if pp_live pp then (\<lambda>c. c\<lparr>cg_snapshot := Some (en_snap en)\<rparr>) else (\<lambda>c::change_rec. c))"
      define pp0 where "pp0 = (if pp_live pp then ?snap else pp)"
      obtain pp2 r2 where k: "apply_for_kind en xml c (with_change (cg_id c) f pp0) = (pp2, r2)" by fastforce
      have same: "pp_changes pp0 = pp_changes pp" "pp_writes pp0 = pp_writes pp" "pp_queue pp0 = pp_queue pp" "pp_live pp0 = pp_live pp"
        "pp_config pp0 = pp_config pp" by (simp_all add: pp0_def save_pre_apply_snapshot_def)
      have f: "core (f x) = core x" "cg_status (f x) = cg_status x" for x by (simp_all add: f_def core_def)
      have h: "core (applied en x) = core x" "cg_status (applied en x) \<in> WRITTEN" "core (x\<lparr>cg_status := ''failed''\<rparr>) = core x"
        "cg_status (x\<lparr>cg_status := ''failed''\<rparr>) \<in> WRITTEN" for x by (simp_all add: applied_def core_def WRITTEN_def)
      note one = effect_one [OF k f, unfolded effect_from [OF same]]
      have res: "(pp', dead) = (case r2 of Fine \<Rightarrow> (with_change (cg_id c) (applied en) pp2, False)
          | Failed \<Rightarrow> (set_status ''failed'' (cg_id c) pp2, False) | Dead \<Rightarrow> (rollback pp pp2, True))"
        using assms ready Some r same_base k by (cases "pp_live pp"; cases r2) (auto simp: apply_change_def Let_def f_def pp0_def with_change_same)
      have "effect WRITTEN dead [c] xml pp pp'"
        using res one(1) [OF h(1,2)] one(1) [OF h(3,4)] effect_rollback [OF one(2) [OF h(3,4)]] by (cases r2) (simp_all add: set_status_def)
      then have "effect ENDED dead [c] xml pp pp'" by (rule effect_widen) simp_all
      moreover have "dead \<longrightarrow> \<not> survives en" using res for_kind(2) [OF k] by (cases r2) simp_all
      moreover have "guarded w en [c] xml pp" using ready xml same_base by (auto simp: guarded_def)
      ultimately show ?thesis using ready by (auto simp: job_effect_def)
    qed
  qed
qed

lemma apply_profile_sequence_effect:
  assumes "apply_profile_sequence w en changes pp = (pp', dead)" and "\<And>c. c \<in> set changes \<Longrightarrow> cg_device c = dv \<and> cg_baseline c = b"
  shows "\<exists>xml. job_effect w en dead (filter (\<lambda>c. cg_status c = ''scheduled'') changes) xml pp pp'"
proof (cases "filter (\<lambda>c. cg_status c = ''scheduled'') changes")
  case Nil
  then show ?thesis using assms(1) job_effect_none by (auto simp: apply_profile_sequence_def)
next
  case (Cons c0 cs)
  have "c \<in> set changes" if "c \<in> set (c0 # cs)" for c using that Cons by (metis filter_is_subset subsetD)
  then have shared: "cg_device c = dv \<and> cg_baseline c = b" if "c \<in> set (c0 # cs)" for c using that assms(2) by blast
  then have c0: "cg_device c0 = dv" "cg_baseline c0 = b" by simp_all
  consider (locked) "\<not> en_free en dv" | (unread) "en_free en dv" "read_config w en dv pp = None"
    | (stale) xml digest where "en_free en dv" "read_config w en dv pp = Some (xml, digest)" "b \<noteq> [] \<and> digest \<noteq> b"
    | (go) xml digest where "en_free en dv" "read_config w en dv pp = Some (xml, digest)" "\<not> (b \<noteq> [] \<and> digest \<noteq> b)"
    by (metis not_None_eq surj_pair)
  then show ?thesis
  proof cases
    case locked
    then show ?thesis using assms(1) Cons c0 job_effect_none by (auto simp: apply_profile_sequence_def)
  next
    case unread
    then have "pp' = all_status ''failed'' (c0 # cs) pp" "\<not> dead" using assms(1) Cons c0 by (auto simp: apply_profile_sequence_def)
    then show ?thesis using job_effect_quiet [OF effect_all_status] Cons by auto
  next
    case stale
    then have "pp' = all_status ''conflict'' (c0 # cs) pp" "\<not> dead" using assms(1) Cons c0 by (auto simp: apply_profile_sequence_def)
    then show ?thesis using job_effect_quiet [OF effect_all_status] Cons by auto
  next
    case go
    define pp0 where "pp0 = (if pp_live pp then save_pre_apply_snapshot en c0 xml digest pp else pp)"
    obtain pp2 d where m: "apply_members en xml (if pp_live pp then Some (en_snap en) else None) False (c0 # cs) pp0 = (pp2, d)" by fastforce
    have same: "pp_changes pp0 = pp_changes pp" "pp_writes pp0 = pp_writes pp" "pp_queue pp0 = pp_queue pp" "pp_live pp0 = pp_live pp"
      "pp_config pp0 = pp_config pp" by (simp_all add: pp0_def save_pre_apply_snapshot_def)
    note e = effect_members [OF m, unfolded effect_from [OF same]]
    have "apply_profile_sequence w en changes pp = (if d then rollback pp pp2 else pp2, d)"
      using Cons c0 go m unfolding pp0_def apply_profile_sequence_def by (simp only: list.case option.case prod.case Let_def if_True if_False not_not not_True_eq_False)
    then have "dead = d" "pp' = (if d then rollback pp pp2 else pp2)" using assms(1) by simp_all
    then have "effect WRITTEN dead (c0 # cs) xml pp pp'" using e effect_rollback [OF conjunct1 [OF e]] by (cases d) simp_all
    then have "effect ENDED dead (c0 # cs) xml pp pp'" by (rule effect_widen) simp_all
    moreover have "guarded w en (c0 # cs) xml pp" using go read_config_is [OF go(2)] shared by (auto simp: guarded_def)
    ultimately show ?thesis using e \<open>dead = d\<close> unfolding Cons job_effect_def by blast
  qed
qed

text \<open>The members of a queued profile are rows of one device with one baseline.\<close>

lemma members_rows:
  assumes "wf_pipeline pp" and "members_ok pp ids" and "changes = List.map_filter (change_by_id pp) ids"
  obtains dv b where "\<And>c. c \<in> set changes \<Longrightarrow> cg_device c = dv \<and> cg_baseline c = b" and "set changes \<subseteq> set (pp_changes pp)"
    and "distinct (map cg_id changes)"
proof -
  obtain b dv where m: "\<forall>i\<in>set ids. \<exists>c\<in>set (pp_changes pp). cg_id c = i \<and> cg_baseline c = b \<and> cg_device c = dv" and d: "distinct ids"
    using assms(2) by (auto simp: members_ok_def)
  have "change_by_id pp i = Some c \<Longrightarrow> i \<in> set ids \<Longrightarrow> cg_device c = dv \<and> cg_baseline c = b" for i c
    using m change_by_id_row row_by_id [OF assms(1)] by metis
  then have 1: "cg_device c = dv \<and> cg_baseline c = b" if "c \<in> set changes" for c
    using that unfolding assms(3) by (auto simp: map_filter_def)
  have 2: "set changes \<subseteq> set (pp_changes pp)" unfolding assms(3) using change_by_id_row by (auto simp: map_filter_def)
  have "map cg_id changes = filter (\<lambda>i. change_by_id pp i \<noteq> None) ids"
    unfolding assms(3) using change_by_id_row by (induction ids) (auto simp: map_filter_def)
  then have "distinct (map cg_id changes)" using d by simp
  then show ?thesis using that 1 2 by blast
qed

text \<open>A job as a whole, seen from the state in which it was taken.\<close>

definition fits_row :: "push_world \<Rightarrow> env \<Rightarrow> pipeline \<Rightarrow> string \<times> string \<Rightarrow> change_rec \<Rightarrow> bool" where
  "fits_row w en pp wr c \<longleftrightarrow> c \<in> set (pp_changes pp) \<and> cg_id c = fst wr \<and> cg_status c = ''scheduled'' \<and> pp_live pp \<and> en_free en (cg_device c)
     \<and> snd wr = pp_config pp (cg_device c) \<and> (cg_baseline c = [] \<or> pw_hash w (snd wr) = Some (cg_baseline c))"

definition pushed :: "push_world \<Rightarrow> env \<Rightarrow> pipeline \<Rightarrow> pipeline \<Rightarrow> bool" where
  "pushed w en pp pp' \<longleftrightarrow> (\<exists>g ws. pp_changes pp' = map g (pp_changes pp) \<and> pp_writes pp' = pp_writes pp @ ws
     \<and> (\<forall>c\<in>set (pp_changes pp). row_moves c (g c)) \<and> distinct (map fst ws) \<and> (\<forall>wr\<in>set ws. \<exists>c. fits_row w en pp wr c)
     \<and> (survives en \<longrightarrow> (\<forall>c\<in>set (pp_changes pp). cg_id c \<in> fst ` set ws \<longrightarrow> cg_status (g c) \<in> WRITTEN))
     \<and> (\<forall>dv. pp_config pp' dv \<noteq> pp_config pp dv \<longrightarrow> (\<exists>wr\<in>set ws. \<exists>c. fits_row w en pp wr c \<and> cg_device c = dv)))"

lemma pushed_from:
  assumes "pp_changes pp0 = pp_changes pp" "pp_writes pp0 = pp_writes pp" "pp_live pp0 = pp_live pp" "pp_config pp0 = pp_config pp"
    and "pp_changes pp1 = pp_changes pp'" "pp_writes pp1 = pp_writes pp'" "pp_config pp1 = pp_config pp'"
  shows "pushed w en pp0 pp1 = pushed w en pp pp'"
  by (simp add: pushed_def fits_row_def assms)

lemma job_effect_pushed:
  assumes "wf_pipeline pp" and "job_effect w en dead cs xml pp pp'" and "set cs \<subseteq> set (pp_changes pp)" and "\<And>c. c \<in> set cs \<Longrightarrow> cg_status c = ''scheduled''"
    and "distinct (map cg_id cs)"
  shows "pushed w en pp pp'"
proof -
  obtain g ws where a: "pp_changes pp' = map g (pp_changes pp)" "pp_writes pp' = pp_writes pp @ ws"
    "\<forall>x. core (g x) = core x \<and> (cg_id x \<notin> cg_id ` set cs \<longrightarrow> g x = x) \<and> (cg_status (g x) = cg_status x \<or> cg_status (g x) \<in> ENDED)"
    "\<not> dead \<longrightarrow> (\<forall>x. cg_id x \<in> fst ` set ws \<longrightarrow> cg_status (g x) \<in> WRITTEN)"
    "ws \<noteq> [] \<longrightarrow> pp_live pp" "set ws \<subseteq> (\<lambda>c. (cg_id c, xml)) ` set cs" "distinct (map cg_id cs) \<longrightarrow> distinct (map fst ws)"
    "\<forall>dv. pp_config pp' dv \<noteq> pp_config pp dv \<longrightarrow> (\<exists>c\<in>set cs. cg_device c = dv \<and> cg_id c \<in> fst ` set ws)"
    using assms(2) unfolding job_effect_def effect_def by (elim exE conjE) (rule that)
  have "row_moves c (g c)" if c: "c \<in> set (pp_changes pp)" for c
  proof (cases "cg_id c \<in> cg_id ` set cs")
    case True
    then obtain c' where "c' \<in> set cs" "cg_id c = cg_id c'" by blast
    then have "cg_status c = ''scheduled''" using row_by_id [OF assms(1) c] assms(3,4) by blast
    then show ?thesis using a(3) [rule_format, of c] by (auto simp: row_moves_def moves_def ENDED_def)
  qed (use a(3) in simp)
  moreover have fit: "fits_row w en pp (cg_id c, xml) c" if "ws \<noteq> []" "c \<in> set cs" for c
  proof -
    have "guarded w en cs xml pp" using assms(2) a(2) that(1) by (simp add: job_effect_def)
    then show ?thesis using assms(3,4) a(5) that by (auto simp: guarded_def fits_row_def)
  qed
  moreover have "\<forall>wr\<in>set ws. \<exists>c. fits_row w en pp wr c"
  proof
    fix wr
    assume wr: "wr \<in> set ws"
    then obtain c where "c \<in> set cs" "wr = (cg_id c, xml)" using a(6) by blast
    then show "\<exists>c. fits_row w en pp wr c" using fit [of c] wr by (metis empty_iff list.set(1))
  qed
  moreover have "\<forall>dv. pp_config pp' dv \<noteq> pp_config pp dv \<longrightarrow> (\<exists>wr\<in>set ws. \<exists>c. fits_row w en pp wr c \<and> cg_device c = dv)"
  proof (intro allI impI)
    fix dv
    assume "pp_config pp' dv \<noteq> pp_config pp dv"
    from a(8) [rule_format, OF this] obtain c where c: "c \<in> set cs" "cg_device c = dv" "cg_id c \<in> fst ` set ws" by (rule bexE) simp
    then have "(cg_id c, xml) \<in> set ws" "ws \<noteq> []" using a(6) by fastforce+
    then show "\<exists>wr\<in>set ws. \<exists>c. fits_row w en pp wr c \<and> cg_device c = dv" using fit [OF _ c(1)] c(2) by blast
  qed
  moreover have "survives en \<longrightarrow> (\<forall>c\<in>set (pp_changes pp). cg_id c \<in> fst ` set ws \<longrightarrow> cg_status (g c) \<in> WRITTEN)"
    using a(4) assms(2) unfolding job_effect_def by blast
  ultimately show ?thesis using a(1,2,7) assms(5) unfolding pushed_def by (intro exI conjI) blast+
qed

lemma then_backup_pushed: "pushed w en pp (then_backup dv (pp', dead)) = pushed w en pp pp'"
  by (rule pushed_from) (simp_all add: then_backup_def enqueue_def)

lemma pushed_none: "pp_changes pp' = pp_changes pp \<Longrightarrow> pp_writes pp' = pp_writes pp \<Longrightarrow> pp_config pp' = pp_config pp \<Longrightarrow> pushed w en pp pp'"
  unfolding pushed_def by (intro exI [of _ id] exI [of _ "[]"]) simp

lemma effect_queue: "effect E dead cs xml pp pp' \<Longrightarrow> pp_queue pp' = pp_queue pp"
  unfolding effect_def by (elim exE conjE)

lemma job_effect_queue: "job_effect w en dead cs xml pp pp' \<Longrightarrow> profiles (then_backup dv (pp', d)) = profiles pp"
  using effect_queue [of ENDED dead cs xml pp pp'] by (auto simp: job_effect_def profiles_def then_backup_def enqueue_def)

lemma work_pushed:
  assumes "wf_pipeline pp" and "\<And>ids. j = ApplyProfile ids \<Longrightarrow> members_ok pp ids"
  shows "pushed w en pp (work w en j pp) \<and> profiles (work w en j pp) = profiles pp"
proof (cases j)
  case (ApplyChange i)
  show ?thesis
  proof (cases "change_by_id pp i")
    case (Some c)
    obtain pp' dead where a: "apply_change w en c pp = (pp', dead)" by fastforce
    obtain xml where e: "job_effect w en dead (if cg_status c = ''scheduled'' then [c] else []) xml pp pp'" using apply_change_effect [OF a] by blast
    have "pushed w en pp pp'"
      by (rule job_effect_pushed [OF assms(1) e]) (use change_by_id_row [OF Some] in \<open>auto split: if_splits\<close>)
    then show ?thesis using Some a ApplyChange job_effect_queue [OF e]
      by (auto simp: apply_config_change_def then_backup_pushed pushed_none split: option.split)
  qed (simp add: ApplyChange apply_config_change_def pushed_none)
next
  case (ApplyProfile ids)
  show ?thesis
  proof (cases "List.map_filter (change_by_id pp) ids")
    case (Cons c cs)
    obtain dv b where m: "\<And>x. x \<in> set (c # cs) \<Longrightarrow> cg_device x = dv \<and> cg_baseline x = b" "set (c # cs) \<subseteq> set (pp_changes pp)" "distinct (map cg_id (c # cs))"
      using members_rows [OF assms(1) assms(2) [OF ApplyProfile] Cons [symmetric]] by metis
    obtain pp' dead where a: "apply_profile_sequence w en (c # cs) pp = (pp', dead)" by fastforce
    obtain xml where e: "job_effect w en dead (filter (\<lambda>c. cg_status c = ''scheduled'') (c # cs)) xml pp pp'"
      using apply_profile_sequence_effect [OF a m(1)] by blast
    have "set (filter (\<lambda>c. cg_status c = ''scheduled'') (c # cs)) \<subseteq> set (pp_changes pp)"
      "\<And>x. x \<in> set (filter (\<lambda>c. cg_status c = ''scheduled'') (c # cs)) \<Longrightarrow> cg_status x = ''scheduled''"
      by (rule subset_trans [OF filter_is_subset m(2)]) (simp only: set_filter mem_Collect_eq)
    then have "pushed w en pp pp'" using job_effect_pushed [OF assms(1) e] distinct_map_filter [OF m(3)] by blast
    then show ?thesis using Cons a ApplyProfile job_effect_queue [OF e]
      by (auto simp: apply_profile_changes_def then_backup_pushed pushed_none split: option.split)
  qed (simp add: ApplyProfile apply_profile_changes_def pushed_none)
next
  case (Backup dv)
  then show ?thesis by (auto simp: backup_device_config_def backup_config_def profiles_def intro!: pushed_none split: option.split)
qed

lemma run_job_pushed:
  assumes "wf_pipeline pp"
  shows "pushed w en pp (run_job w en k pp)" and "profiles (run_job w en k pp) \<subseteq> profiles pp"
proof -
  let ?pp = "pp\<lparr>pp_queue := take k (pp_queue pp) @ drop (Suc k) (pp_queue pp)\<rparr>" and ?j = "fst (pp_queue pp ! k)"
  have sub: "set (take k (pp_queue pp) @ drop (Suc k) (pp_queue pp)) \<subseteq> set (pp_queue pp)"
    using set_take_subset set_drop_subset by fastforce
  have prof: "profiles ?pp \<subseteq> profiles pp" using image_mono [OF sub, of fst] by (auto simp: profiles_def)
  have same: "members_ok ?pp ids = members_ok pp ids" for ids by (simp add: members_ok_def)
  have wf: "wf_pipeline ?pp" using assms prof by (auto simp: wf_pipeline_def same)
  have ok: "members_ok ?pp ids" if "?j = ApplyProfile ids" "k < length (pp_queue pp)" for ids
  proof -
    have "ids \<in> profiles pp" using that(1) imageI [OF nth_mem [OF that(2)], of fst] by (simp add: profiles_def)
    then show ?thesis using assms by (simp add: wf_pipeline_def same)
  qed
  have "pushed w en pp (work w en ?j ?pp) \<and> profiles (work w en ?j ?pp) \<subseteq> profiles pp" if k: "k < length (pp_queue pp)"
  proof -
    have "pushed w en ?pp (work w en ?j ?pp)" "profiles (work w en ?j ?pp) = profiles ?pp" using work_pushed [OF wf] ok [OF _ k] by blast+
    moreover have "pushed w en ?pp (work w en ?j ?pp) = pushed w en pp (work w en ?j ?pp)" by (rule pushed_from) simp_all
    ultimately show ?thesis using prof by simp
  qed
  then show "pushed w en pp (run_job w en k pp)" "profiles (run_job w en k pp) \<subseteq> profiles pp"
    by (auto simp: run_job_def pushed_none)
qed

section \<open>Every step\<close>

text \<open>Identifiers are fresh: the database makes them. A profile takes one for each of its members.\<close>

definition change_ids :: "pipeline \<Rightarrow> string set" where
  "change_ids pp = cg_id ` set (pp_changes pp)"

definition fresh_ids :: "env \<Rightarrow> pipeline \<Rightarrow> bool" where
  "fresh_ids en pp \<longleftrightarrow> en_id en \<notin> change_ids pp \<and> distinct (en_ids en) \<and> set (en_ids en) \<inter> change_ids pp = {}"

lemma draft_row_simps [simp]: "cg_id (draft_row en i tenant dv b p) = i" "cg_device (draft_row en i tenant dv b p) = dv"
  "cg_baseline (draft_row en i tenant dv b p) = b" "cg_status (draft_row en i tenant dv b p) = ''draft''"
  by (cases p; simp)+

lemma scheduled_simps [simp]: "cg_id (scheduled t c) = cg_id c" "cg_device (scheduled t c) = cg_device c" "cg_baseline (scheduled t c) = cg_baseline c"
  "core (scheduled t c) = core c" "cg_status (scheduled t c) = ''scheduled''"
  by (simp_all add: scheduled_def core_def)

text \<open>Creating a row and changing it at once appends the changed row.\<close>

lemma create_with:
  assumes "i \<notin> change_ids pp"
  shows "with_change i f (create_change en i tenant dv p pp) = pp\<lparr>pp_changes := pp_changes pp @ [f (draft_row en i tenant dv (baseline_of pp tenant dv) p)]\<rparr>"
proof -
  have "map (\<lambda>c. if cg_id c = i then f c else c) (pp_changes pp) = pp_changes pp"
    by (rule map_idI) (use assms in \<open>auto simp: change_ids_def\<close>)
  then show ?thesis by (simp add: with_change_def create_change_def)
qed

lemma baseline_of_changes [simp]: "baseline_of (pp\<lparr>pp_changes := cs\<rparr>) tenant dv = baseline_of pp tenant dv"
  by (simp add: baseline_of_def latest_snapshot_def)

lemma create_members:
  assumes "distinct ids" and "set ids \<inter> change_ids pp = {}" and "length ids \<le> length ps"
  shows "foldl (\<lambda>pp (i, p). with_change i (scheduled t) (create_change en i tenant dv p pp)) pp (zip ids ps)
    = pp\<lparr>pp_changes := pp_changes pp @ map (\<lambda>(i, p). scheduled t (draft_row en i tenant dv (baseline_of pp tenant dv) p)) (zip ids ps)\<rparr>"
  using assms
proof (induction ids arbitrary: ps pp)
  case (Cons i ids)
  then obtain p ps' where ps: "ps = p # ps'" by (cases ps) auto
  let ?pp = "pp\<lparr>pp_changes := pp_changes pp @ [scheduled t (draft_row en i tenant dv (baseline_of pp tenant dv) p)]\<rparr>"
  have "set ids \<inter> change_ids ?pp = {}" using Cons.prems by (auto simp: change_ids_def)
  then show ?case using Cons.IH [of ?pp ps'] Cons.prems ps by (simp add: create_with)
qed simp

text \<open>Every step moves rows forward and keeps the pipeline well formed.\<close>

definition step_ok :: "pipeline \<Rightarrow> pipeline \<Rightarrow> bool" where
  "step_ok pp pp' \<longleftrightarrow> evolves pp pp' \<and> distinct (map cg_id (pp_changes pp')) \<and> (\<forall>ids\<in>profiles pp'. ids \<in> profiles pp \<or> members_ok pp' ids)"

lemma step_ok_wf: "wf_pipeline pp \<Longrightarrow> step_ok pp pp' \<Longrightarrow> wf_pipeline pp'"
  unfolding step_ok_def by (rule wf_step) auto

lemma step_ok_none: "wf_pipeline pp \<Longrightarrow> pp_changes pp' = pp_changes pp \<Longrightarrow> pp_queue pp' = pp_queue pp \<Longrightarrow> step_ok pp pp'"
  by (simp add: step_ok_def evolves_refl wf_pipeline_def profiles_def)

lemma step_ok_map:
  assumes "wf_pipeline pp" and "pp_changes pp' = map g (pp_changes pp)" and "\<And>c. c \<in> set (pp_changes pp) \<Longrightarrow> row_moves c (g c)"
    and "profiles pp' \<subseteq> profiles pp"
  shows "step_ok pp pp'"
proof -
  have "cg_id (g c) = cg_id c" if "c \<in> set (pp_changes pp)" for c
    using core_same(1) assms(3) [OF that] unfolding row_moves_def by blast
  then have "map cg_id (pp_changes pp') = map cg_id (pp_changes pp)" using assms(2) by simp
  then show ?thesis using assms(1,4) evolves_map [OF assms(2,3)] by (auto simp only: step_ok_def wf_pipeline_def)
qed

lemma step_ok_trans: "wf_pipeline pp \<Longrightarrow> step_ok pp pp1 \<Longrightarrow> step_ok pp1 pp2 \<Longrightarrow> step_ok pp pp2"
  unfolding step_ok_def using evolves_trans members_kept by blast

lemma step_ok_with:
  assumes "wf_pipeline pp" and "c \<in> set (pp_changes pp)" and "row_moves c (f c)"
  shows "step_ok pp (with_change (cg_id c) f pp)"
proof (rule step_ok_map [OF assms(1)])
  show "row_moves x (if cg_id x = cg_id c then f x else x)" if "x \<in> set (pp_changes pp)" for x
    using row_by_id [OF assms(1) that assms(2)] assms(3) by auto
qed (simp_all add: with_change_def profiles_def)

lemma step_ok_enqueue: "step_ok pp pp' \<Longrightarrow> (\<And>ids. j = ApplyProfile ids \<Longrightarrow> members_ok pp' ids) \<Longrightarrow> step_ok pp (enqueue j t pp')"
  by (auto simp: step_ok_def evolves_def enqueue_def profiles_def members_ok_def)

lemma step_ok_create:
  assumes "wf_pipeline pp" and "distinct (map cg_id new)" and "cg_id ` set new \<inter> change_ids pp = {}"
    and "pp' = pp\<lparr>pp_changes := pp_changes pp @ new\<rparr>"
  shows "step_ok pp pp'"
  using assms evolves_append [of pp' pp new] by (auto simp: step_ok_def wf_pipeline_def change_ids_def profiles_def)

text \<open>A new row that is scheduled at once, and its job.\<close>

lemma step_ok_scheduled:
  assumes "wf_pipeline pp" and "i \<notin> change_ids pp" and "\<And>c. cg_id (f c) = cg_id c"
  shows "step_ok pp (enqueue (ApplyChange i) t (with_change i f (create_change en i tenant dv p pp)))"
  by (rule step_ok_enqueue, rule step_ok_create [OF assms(1) _ _ create_with [OF assms(2)]]) (use assms(2,3) in simp_all)

lemma get_change_step:
  assumes "wf_pipeline pp" and "get_change pp tenant i = Some c" and "cg_status c \<in> {''draft'', ''scheduled''}" and "core (f c) = core c" and "cg_status (f c) \<noteq> ''draft''"
  shows "step_ok pp (with_change i f pp)"
proof -
  have c: "c \<in> set (pp_changes pp)" "cg_id c = i" using get_change_row [OF assms(2)] by blast+
  have "row_moves c (f c)" using assms(3-5) by (auto simp: row_moves_def moves_def)
  then show ?thesis using step_ok_with [OF assms(1) c(1), of f] by (simp only: c(2))
qed

lemma schedule_step_ok: "wf_pipeline pp \<Longrightarrow> step_ok pp (fst (schedule_config_change tenant dv i t pp))"
  using get_change_step [of pp tenant i _ "scheduled t"] step_ok_none [of pp pp]
  by (auto simp: schedule_config_change_def intro!: step_ok_enqueue split: option.split)

lemma cancel_ok: "wf_pipeline pp \<Longrightarrow> step_ok pp (fst (cancel_config_change tenant dv i pp))"
  using get_change_step [of pp tenant i _ "\<lambda>c. c\<lparr>cg_status := ''cancelled''\<rparr>"] step_ok_none [of pp pp]
  by (auto simp: cancel_config_change_def set_status_def core_def split: option.split)

lemma revert_ok: "wf_pipeline pp \<Longrightarrow> fresh_ids en pp \<Longrightarrow> step_ok pp (fst (revert_config_change w en tenant dv i t pp))"
  using step_ok_none [of pp pp]
  by (auto simp: revert_config_change_def fresh_ids_def intro!: step_ok_scheduled split: option.split)

lemma template_ok: "wf_pipeline pp \<Longrightarrow> fresh_ids en pp \<Longrightarrow> step_ok pp (fst (apply_template en tenant dv mp t pp))"
  using step_ok_none [of pp pp] by (auto simp: apply_template_def fresh_ids_def intro!: step_ok_scheduled split: option.split)

lemma create_row_ok: "wf_pipeline pp \<Longrightarrow> fresh_ids en pp \<Longrightarrow> step_ok pp (create_change en (en_id en) tenant dv p pp)"
  using step_ok_create [of pp "[draft_row en (en_id en) tenant dv (baseline_of pp tenant dv) p]"]
  by (simp add: fresh_ids_def create_change_def)

lemma create_ok:
  "wf_pipeline pp \<Longrightarrow> fresh_ids en pp \<Longrightarrow> step_ok pp (fst (create_config_change en tenant dv p pp))"
  "wf_pipeline pp \<Longrightarrow> fresh_ids en pp \<Longrightarrow> step_ok pp (fst (create_catalog_change en tenant dv mp pp))"
  using step_ok_none [of pp pp] create_row_ok by (auto simp: create_config_change_def create_catalog_change_def split: option.split)

lemma profile_ok:
  assumes "wf_pipeline pp" and "fresh_ids en pp"
  shows "step_ok pp (fst (apply_profile en tenant dv mps t pp))"
proof (cases "owned pp tenant dv \<and> mps \<noteq> None \<and> mps \<noteq> Some []")
  case True
  then obtain ps where ps: "mps = Some ps" "ps \<noteq> []" by auto
  let ?ids = "take (length ps) (en_ids en)" and ?b = "baseline_of pp tenant dv"
  let ?row = "\<lambda>(i, p). scheduled t (draft_row en i tenant dv (baseline_of pp tenant dv) p)"
  let ?pp = "pp\<lparr>pp_changes := pp_changes pp @ map ?row (zip ?ids ps)\<rparr>"
  have ids: "distinct ?ids" "set ?ids \<inter> change_ids pp = {}" "length ?ids \<le> length ps"
    using assms(2) set_take_subset [of "length ps" "en_ids en"] by (auto simp: fresh_ids_def)
  have row: "map cg_id (map ?row (zip ?ids ps)) = ?ids" using ids(3) by (simp add: o_def case_prod_beta map_fst_zip_take min_def)
  have 1: "step_ok pp ?pp"
    by (rule step_ok_create [OF assms(1) _ _ refl], unfold row set_map [symmetric]) (use ids in simp_all)
  have "\<exists>c\<in>set (pp_changes ?pp). cg_id c = i \<and> cg_baseline c = ?b \<and> cg_device c = dv" if "i \<in> set ?ids" for i
  proof -
    have "i \<in> cg_id ` set (map ?row (zip ?ids ps))" using that row by (metis set_map)
    then obtain p where "(i, p) \<in> set (zip ?ids ps)" by auto
    then show ?thesis by (intro bexI [of _ "?row (i, p)"]) auto
  qed
  then have "members_ok ?pp ?ids" using ids(1) unfolding members_ok_def by blast
  then have "step_ok pp (enqueue (ApplyProfile ?ids) t ?pp)" by (intro step_ok_enqueue [OF 1]) simp
  then show ?thesis using True ps create_members [OF ids] by (simp add: apply_profile_def Let_def)
next
  case False
  then show ?thesis using step_ok_none [OF assms(1)] by (auto simp: apply_profile_def split: option.split)
qed

lemma sweep_row_ok:
  assumes "wf_pipeline pp"
  shows "step_ok pp (sweep_row w en pp i)"
proof (cases "change_by_id pp i")
  case (Some c)
  then have c: "c \<in> set (pp_changes pp)" "cg_id c = i" using change_by_id_row by blast+
  have "row_moves c (c\<lparr>cg_sweep := n\<rparr>)" "cg_status c = ''scheduled'' \<Longrightarrow> row_moves c (c\<lparr>cg_status := ''failed''\<rparr>)" for n
    by (simp_all add: row_moves_def moves_def core_def)
  then show ?thesis
    using Some step_ok_none [OF assms] step_ok_with [OF assms c(1), of "\<lambda>c. c\<lparr>cg_sweep := Suc (cg_sweep c)\<rparr>"]
      step_ok_with [OF assms c(1), of "\<lambda>c. c\<lparr>cg_status := ''failed''\<rparr>"]
    by (auto simp: sweep_row_def set_status_def c(2) intro!: step_ok_enqueue)
qed (simp add: sweep_row_def step_ok_none assms)

lemma sweep_ok: "wf_pipeline pp \<Longrightarrow> step_ok pp (foldl (sweep_row w en) pp is)"
proof (induction "is" arbitrary: pp)
  case (Cons i "is")
  note one = sweep_row_ok [OF Cons.prems, of w en i]
  from Cons.IH [OF step_ok_wf [OF Cons.prems one]] show ?case using step_ok_trans [OF Cons.prems one] by simp
qed (simp add: step_ok_none)

lemma backups_frame:
  "pp_changes (enqueue_config_backups pp) = pp_changes pp" "profiles (enqueue_config_backups pp) = profiles pp"
  "pp_writes (enqueue_config_backups pp) = pp_writes pp" "pp_config (enqueue_config_backups pp) = pp_config pp"
proof -
  have "pp_changes (foldl (\<lambda>pp d. enqueue (Backup (mg_id d)) None pp) q ds) = pp_changes q
    \<and> profiles (foldl (\<lambda>pp d. enqueue (Backup (mg_id d)) None pp) q ds) = profiles q
    \<and> pp_writes (foldl (\<lambda>pp d. enqueue (Backup (mg_id d)) None pp) q ds) = pp_writes q
    \<and> pp_config (foldl (\<lambda>pp d. enqueue (Backup (mg_id d)) None pp) q ds) = pp_config q" for q and ds :: "managed list"
    by (induction ds arbitrary: q) (simp, simp add: enqueue_def profiles_def)
  then show "pp_changes (enqueue_config_backups pp) = pp_changes pp" "profiles (enqueue_config_backups pp) = profiles pp"
    "pp_writes (enqueue_config_backups pp) = pp_writes pp" "pp_config (enqueue_config_backups pp) = pp_config pp"
    by (simp_all add: enqueue_config_backups_def)
qed

lemma backups_ok: "wf_pipeline pp \<Longrightarrow> step_ok pp (enqueue_config_backups pp)"
  by (simp add: step_ok_def backups_frame evolves_refl wf_pipeline_def)

lemma run_job_ok:
  assumes "wf_pipeline pp"
  shows "step_ok pp (run_job w en k pp)"
proof -
  obtain g where "pp_changes (run_job w en k pp) = map g (pp_changes pp)" "\<forall>c\<in>set (pp_changes pp). row_moves c (g c)"
    using run_job_pushed(1) [OF assms, of w en k] unfolding pushed_def by blast
  then show ?thesis using step_ok_map [OF assms] run_job_pushed(2) [OF assms] by blast
qed

lemma pipe_step_ok: "wf_pipeline pp \<Longrightarrow> fresh_ids en pp \<Longrightarrow> step_ok pp (fst (pipe_step w en opn pp))"
  by (cases opn) (simp_all add: create_ok schedule_step_ok cancel_ok revert_ok template_ok profile_ok run_job_ok sweep_ok backups_ok sweep_orphaned_actions_def step_ok_none)

section \<open>Reachable pipelines\<close>

text \<open>Any interleaving of requests, jobs, sweeps and edits by others; \<open>die\<close> tells whether jobs may die on the way.\<close>

inductive reach :: "push_world \<Rightarrow> bool \<Rightarrow> pipeline \<Rightarrow> pipeline \<Rightarrow> bool" for w :: push_world and die :: bool and pp :: pipeline where
  here: "reach w die pp pp"
| later: "reach w die pp pp1 \<Longrightarrow> fresh_ids en pp1 \<Longrightarrow> die \<or> survives en \<Longrightarrow> reach w die pp (fst (pipe_step w en opn pp1))"

definition empty_pipeline :: "pipeline \<Rightarrow> bool" where
  "empty_pipeline pp \<longleftrightarrow> pp_changes pp = [] \<and> pp_queue pp = [] \<and> pp_writes pp = []"

lemma reach_wf: "reach w die pp pp' \<Longrightarrow> wf_pipeline pp \<Longrightarrow> wf_pipeline pp' \<and> evolves pp pp'"
proof (induction rule: reach.induct)
  case (later pp1 en opn)
  then have "step_ok pp1 (fst (pipe_step w en opn pp1))" using pipe_step_ok by blast
  then show ?case using later step_ok_wf evolves_trans unfolding step_ok_def by blast
qed (simp add: evolves_refl)

lemma empty_wf: "empty_pipeline pp \<Longrightarrow> wf_pipeline pp"
  by (simp add: empty_pipeline_def wf_pipeline_def profiles_def)

text \<open>Only jobs write, and only jobs and edits change a configuration.\<close>

lemma frame_simps [simp]:
  "pp_writes (with_change i f pp) = pp_writes pp" "pp_config (with_change i f pp) = pp_config pp"
  "pp_writes (create_change en i tenant dv p pp) = pp_writes pp" "pp_config (create_change en i tenant dv p pp) = pp_config pp"
  "pp_writes (enqueue j t pp) = pp_writes pp" "pp_config (enqueue j t pp) = pp_config pp" "pp_config (set_status st i pp) = pp_config pp"
  by (simp_all add: with_change_def create_change_def enqueue_def set_status_def)

lemma foldl_frame [simp]:
  "pp_writes (foldl (sweep_row w en) pp is) = pp_writes pp" "pp_config (foldl (sweep_row w en) pp is) = pp_config pp"
  "pp_writes (foldl (\<lambda>pp (i, p). with_change i f (create_change en i tenant dv p pp)) pp xs) = pp_writes pp"
  "pp_config (foldl (\<lambda>pp (i, p). with_change i f (create_change en i tenant dv p pp)) pp xs) = pp_config pp"
proof -
  show "pp_writes (foldl (sweep_row w en) pp is) = pp_writes pp" "pp_config (foldl (sweep_row w en) pp is) = pp_config pp"
    by (induction "is" arbitrary: pp) (auto simp: sweep_row_def split: option.split)
  show "pp_writes (foldl (\<lambda>pp (i, p). with_change i f (create_change en i tenant dv p pp)) pp xs) = pp_writes pp"
    "pp_config (foldl (\<lambda>pp (i, p). with_change i f (create_change en i tenant dv p pp)) pp xs) = pp_config pp"
    by (induction xs arbitrary: pp) auto
qed

lemma handler_frames [simp]:
  "pp_writes (fst (create_config_change en tenant dv p pp)) = pp_writes pp" "pp_config (fst (create_config_change en tenant dv p pp)) = pp_config pp"
  "pp_writes (fst (create_catalog_change en tenant dv mp' pp)) = pp_writes pp" "pp_config (fst (create_catalog_change en tenant dv mp' pp)) = pp_config pp"
  "pp_writes (fst (schedule_config_change tenant dv i t pp)) = pp_writes pp" "pp_config (fst (schedule_config_change tenant dv i t pp)) = pp_config pp"
  "pp_writes (fst (cancel_config_change tenant dv i pp)) = pp_writes pp" "pp_config (fst (cancel_config_change tenant dv i pp)) = pp_config pp"
  "pp_writes (fst (revert_config_change w en tenant dv i t pp)) = pp_writes pp" "pp_config (fst (revert_config_change w en tenant dv i t pp)) = pp_config pp"
  "pp_writes (fst (apply_template en tenant dv mp t pp)) = pp_writes pp" "pp_config (fst (apply_template en tenant dv mp t pp)) = pp_config pp"
  "pp_writes (fst (apply_profile en tenant dv mps t pp)) = pp_writes pp" "pp_config (fst (apply_profile en tenant dv mps t pp)) = pp_config pp"
  by (simp_all add: create_config_change_def create_catalog_change_def schedule_config_change_def cancel_config_change_def revert_config_change_def
    apply_template_def apply_profile_def Let_def split: option.split)

lemma quiet_steps:
  assumes "\<And>k. opn \<noteq> RunJob k"
  shows "pp_writes (fst (pipe_step w en opn pp)) = pp_writes pp"
    and "(\<And>cfg. opn \<noteq> DeviceEdit dv cfg) \<Longrightarrow> pp_config (fst (pipe_step w en opn pp)) dv = pp_config pp dv"
proof -
  show "pp_writes (fst (pipe_step w en opn pp)) = pp_writes pp"
    by (cases opn) (use assms in \<open>simp_all add: sweep_orphaned_actions_def backups_frame\<close>)
  assume other: "\<And>cfg. opn \<noteq> DeviceEdit dv cfg"
  show "pp_config (fst (pipe_step w en opn pp)) dv = pp_config pp dv"
  proof (cases opn)
    case (DeviceEdit d cfg)
    then have "d \<noteq> dv" using other by blast
    then show ?thesis using DeviceEdit by simp
  qed (use assms in \<open>simp_all add: sweep_orphaned_actions_def backups_frame\<close>)
qed

text \<open>Runs of concrete steps are reachable if their identifiers are fresh.\<close>

fun run_fresh :: "push_world \<Rightarrow> (env \<times> pipe_op) list \<Rightarrow> pipeline \<Rightarrow> bool" where
  "run_fresh w [] pp = True"
| "run_fresh w ((en, opn) # steps) pp = (fresh_ids en pp \<and> run_fresh w steps (fst (pipe_step w en opn pp)))"

lemma reach_run:
  "reach w die pp0 pp \<Longrightarrow> run_fresh w steps pp \<Longrightarrow> die \<or> list_all survives (map fst steps) \<Longrightarrow> reach w die pp0 (pipe_run w steps pp)"
proof (induction steps arbitrary: pp)
  case (Cons step steps)
  obtain en opn where step: "step = (en, opn)" by fastforce
  have "reach w die pp0 (fst (pipe_step w en opn pp))" using reach.later [OF Cons.prems(1)] Cons.prems(2,3) step by auto
  from Cons.IH [OF this] show ?case using Cons.prems(2,3) step by (auto simp: pipe_run_def)
qed (simp add: pipe_run_def)

text \<open>A device with one snapshot, and a world in which the hash of a configuration is the configuration.\<close>

definition sample_push :: push_world where
  "sample_push = \<lparr>pw_hash = Some, pw_inverse = (\<lambda>_ _. None), pw_grace = 60, pw_max_attempts = 2\<rparr>"

definition sample_env :: "int \<Rightarrow> string \<Rightarrow> env" where
  "sample_env now i = \<lparr>en_now = now, en_id = i, en_ids = [], en_snap = ''s'' @ i, en_free = (\<lambda>_. True), en_readable = True,
     en_outcome = (\<lambda>_. Success ''B'')\<rparr>"

definition sample_pipeline :: pipeline where
  "sample_pipeline = \<lparr>pp_devices = [\<lparr>mg_id = ''d'', mg_tenant = ''t''\<rparr>], pp_changes = [],
     pp_snaps = [\<lparr>sn_id = ''s0'', sn_tenant = ''t'', sn_device = ''d'', sn_hash = ''A'', sn_xml = ''A''\<rparr>],
     pp_live = True, pp_queue = [], pp_config = (\<lambda>_. ''A''), pp_writes = []\<rparr>"

definition sample_scheduled :: pipeline where
  "sample_scheduled = pipe_run sample_push
     [(sample_env 1 ''c'', Propose ''t'' ''d'' (''alias'', ''set'', ''x'', JNull)), (sample_env 2 ''n'', ScheduleChange ''t'' ''d'' ''c'' None)] sample_pipeline"

lemmas sample_push_defs = sample_push_def sample_env_def sample_pipeline_def sample_scheduled_def

lemma sample_survives: "survives (sample_env now i)"
  by (simp add: survives_def sample_env_def)

lemma sample_empty: "empty_pipeline sample_pipeline"
  by code_simp

lemma sample_reached: "reach sample_push False sample_pipeline sample_scheduled"
  unfolding sample_scheduled_def by (rule reach_run [OF reach.here]) (code_simp, simp add: sample_survives)



lemma step_writes:
  assumes "wf_pipeline pp" and "pp' = fst (pipe_step w en opn pp)"
  obtains ws where "pp_writes pp' = pp_writes pp @ ws" "\<forall>wr\<in>set ws. \<exists>c. fits_row w en pp wr c" "distinct (map fst ws)"
    "survives en \<Longrightarrow> \<forall>wr\<in>set ws. \<exists>c\<in>set (pp_changes pp'). cg_id c = fst wr \<and> cg_status c \<in> WRITTEN"
proof (cases "\<exists>k. opn = RunJob k")
  case True
  then obtain k where "pp' = run_job w en k pp" using assms(2) by auto
  then obtain g ws where p: "pp_changes pp' = map g (pp_changes pp)" "pp_writes pp' = pp_writes pp @ ws" "\<forall>c\<in>set (pp_changes pp). row_moves c (g c)"
    "distinct (map fst ws)" "\<forall>wr\<in>set ws. \<exists>c. fits_row w en pp wr c"
    "survives en \<longrightarrow> (\<forall>c\<in>set (pp_changes pp). cg_id c \<in> fst ` set ws \<longrightarrow> cg_status (g c) \<in> WRITTEN)"
    using run_job_pushed(1) [OF assms(1), of w en k] unfolding pushed_def by metis
  have "\<exists>c\<in>set (pp_changes pp'). cg_id c = fst wr \<and> cg_status c \<in> WRITTEN" if "survives en" and wr: "wr \<in> set ws" for wr
  proof -
    obtain c where "fits_row w en pp wr c" using p(5) wr by blast
    then have c: "c \<in> set (pp_changes pp)" "cg_id c = fst wr" by (simp_all add: fits_row_def)
    then have "cg_id (g c) = fst wr" using core_same(1) [of "g c" c] p(3) by (simp add: row_moves_def)
    moreover have "cg_status (g c) \<in> WRITTEN" using p(6) that c by simp
    ultimately show ?thesis using c(1) p(1) by auto
  qed
  then show ?thesis using that [OF p(2,5,4)] by blast
next
  case False
  then have "pp_writes pp' = pp_writes pp @ []" using quiet_steps(1) [of opn w en pp] assms(2) by simp
  then show ?thesis by (rule that) simp_all
qed

text \<open>A change whose status is final is left alone: what follows does not write it.\<close>

lemma final_step:
  assumes "wf_pipeline pp" and "fresh_ids en pp" and "c \<in> set (pp_changes pp)" and "cg_status c \<notin> {''draft'', ''scheduled''}"
    and "pp' = fst (pipe_step w en opn pp)"
  shows "filter (\<lambda>wr. fst wr = cg_id c) (pp_writes pp') = filter (\<lambda>wr. fst wr = cg_id c) (pp_writes pp)"
proof -
  obtain ws where ws: "pp_writes pp' = pp_writes pp @ ws" "\<forall>wr\<in>set ws. \<exists>c. fits_row w en pp wr c"
    using step_writes [OF assms(1,5)] by metis
  have "fst wr \<noteq> cg_id c" if wr: "wr \<in> set ws" for wr
  proof
    assume i: "fst wr = cg_id c"
    obtain c' where "fits_row w en pp wr c'" using ws(2) wr by blast
    then have c': "c' \<in> set (pp_changes pp)" "cg_id c' = cg_id c" "cg_status c' = ''scheduled''" using i by (simp_all add: fits_row_def)
    then show False using row_by_id [OF assms(1) c'(1) assms(3) c'(2)] assms(4) by simp
  qed
  then show ?thesis using ws(1) by simp
qed

lemma final_row:
  assumes "evolves pp pp'" and "wf_pipeline pp'" and "change_by_id pp i = Some c" and "cg_status c \<notin> {''draft'', ''scheduled''}"
  shows "\<exists>c'. change_by_id pp' i = Some c' \<and> core c' = core c \<and> cg_status c' = cg_status c"
proof -
  have c: "c \<in> set (pp_changes pp)" "cg_id c = i" using change_by_id_row [OF assms(3)] by blast+
  obtain c' where c': "c' \<in> set (pp_changes pp')" "row_moves c c'" using evolves_row [OF assms(1) c(1)] by blast
  then have "cg_id c' = i" using core_same(1) [of c' c] c(2) by (simp add: row_moves_def)
  then show ?thesis using change_by_id_of [OF assms(2) c'(1)] c'(2) assms(4) by (auto simp: row_moves_def moves_def)
qed


definition sample_cancelled :: pipeline where
  "sample_cancelled = fst (pipe_step sample_push (sample_env 3 ''n'') (CancelScheduled ''t'' ''d'' ''c'') sample_scheduled)"




section \<open>The sweeper gives up\<close>

lemma change_by_id_with [simp]:
  assumes "\<And>c. cg_id (f c) = cg_id c"
  shows "change_by_id (with_change i f pp) i = map_option f (change_by_id pp i)"
proof -
  have "find (\<lambda>x. cg_id x = i) (map (\<lambda>x. if cg_id x = i then f x else x) cs) = map_option f (find (\<lambda>x. cg_id x = i) cs)" for cs
    using assms by (induction cs) auto
  then show ?thesis by (simp add: change_by_id_def with_change_def)
qed

lemma change_by_id_queue [simp]: "change_by_id (enqueue j t pp) i = change_by_id pp i" "change_by_id (pp\<lparr>pp_queue := q\<rparr>) i = change_by_id pp i"
  by (simp_all add: change_by_id_def enqueue_def)

lemma change_by_id_other:
  assumes "\<And>c. cg_id (f c) = cg_id c" and "j \<noteq> i"
  shows "change_by_id (with_change j f pp) i = change_by_id pp i"
proof -
  have "find (\<lambda>x. cg_id x = i) (map (\<lambda>x. if cg_id x = j then f x else x) cs) = find (\<lambda>x. cg_id x = i) cs" for cs
    using assms by (induction cs) auto
  then show ?thesis by (simp add: change_by_id_def with_change_def)
qed

definition swept :: "push_world \<Rightarrow> change_rec \<Rightarrow> change_rec" where
  "swept w c = (if cg_sweep c < pw_max_attempts w then c\<lparr>cg_sweep := Suc (cg_sweep c)\<rparr> else c\<lparr>cg_status := ''failed''\<rparr>)"

lemma sweep_row_at:
  assumes "change_by_id pp i = Some c" and "cg_status c = ''scheduled''" and "en_free en (cg_device c)"
  shows "change_by_id (sweep_row w en pp i) i = Some (swept w c)"
  using assms by (simp add: sweep_row_def decide_orphan_def set_status_def swept_def)

lemma sweep_row_skips: "change_by_id pp i = Some c \<Longrightarrow> cg_status c \<noteq> ''scheduled'' \<Longrightarrow> change_by_id (sweep_row w en pp j) i = Some c"
  by (cases "j = i") (auto simp: sweep_row_def set_status_def change_by_id_other split: option.split)

lemma sweep_row_other: "j \<noteq> i \<Longrightarrow> change_by_id (sweep_row w en pp j) i = change_by_id pp i"
  by (auto simp: sweep_row_def set_status_def change_by_id_other split: option.split)

lemma sweeps_other: "i \<notin> set js \<Longrightarrow> change_by_id (foldl (sweep_row w en) pp js) i = change_by_id pp i"
  by (induction js arbitrary: pp) (auto simp: sweep_row_other)

lemma sweeps_skip: "change_by_id pp i = Some c \<Longrightarrow> cg_status c \<noteq> ''scheduled'' \<Longrightarrow> change_by_id (foldl (sweep_row w en) pp js) i = Some c"
  by (induction js arbitrary: pp) (simp_all add: sweep_row_skips)

lemma sweeps_at:
  "distinct js \<Longrightarrow> i \<in> set js \<Longrightarrow> change_by_id pp i = Some c \<Longrightarrow> cg_status c = ''scheduled'' \<Longrightarrow> en_free en (cg_device c)
    \<Longrightarrow> change_by_id (foldl (sweep_row w en) pp js) i = Some (swept w c)"
proof (induction js arbitrary: pp)
  case (Cons j js)
  show ?case
  proof (cases "j = i")
    case True
    then show ?thesis using Cons.prems sweep_row_at sweeps_other by simp
  next
    case False
    then show ?thesis using Cons.prems Cons.IH [of "sweep_row w en pp j"] by (simp add: sweep_row_other)
  qed
qed simp

lemma sweep_orphan:
  assumes "wf_pipeline pp" and "change_by_id pp i = Some c" and "overdue w en c" and "en_free en (cg_device c)"
  shows "change_by_id (sweep_orphaned_actions w en pp) i = Some (swept w c)"
proof -
  have c: "c \<in> set (pp_changes pp)" "cg_id c = i" using change_by_id_row [OF assms(2)] by blast+
  have "distinct (map cg_id (filter (overdue w en) (pp_changes pp)))" using assms(1) by (simp add: wf_pipeline_def distinct_map_filter)
  moreover have "i \<in> set (map cg_id (filter (overdue w en) (pp_changes pp)))" using c assms(3) by auto
  ultimately show ?thesis
    unfolding sweep_orphaned_actions_def using sweeps_at [OF _ _ assms(2) _ assms(4)] assms(3) by (simp add: overdue_def)
qed



section \<open>Where the pipeline falls short\<close>

lemma due_job_applies:
  assumes "change_by_id pp i = Some c" and "cg_status c = ''scheduled''" and "device_by_id pp (cg_device c) = Some d"
    and "en_free en (cg_device c)" and "read_config w en (cg_device c) pp = Some (xml, digest)" and "cg_baseline c = [] \<or> digest = cg_baseline c"
    and "cg_kind c \<in> set CHANGE_APPLIERS" and "en_outcome en i = Success cfg"
  shows "\<exists>c'. change_by_id (apply_config_change w en i pp) i = Some c' \<and> cg_status c' = ''applied'' \<and> cg_applied_at c' = Some (en_now en)
    \<and> cg_scheduled_at c' = cg_scheduled_at c"
proof -
  have i: "cg_id c = i" using change_by_id_row [OF assms(1)] by blast
  let ?f = "\<lambda>x. applied en (if pp_live pp then x\<lparr>cg_snapshot := Some (en_snap en)\<rparr> else x)"
  have "pp_changes (apply_config_change w en i pp) = pp_changes (with_change i ?f pp)"
    using assms i by (auto simp: apply_config_change_def apply_change_def apply_for_kind_def Let_def then_backup_def enqueue_def
      with_change_def save_pre_apply_snapshot_def)
  then have "change_by_id (apply_config_change w en i pp) i = change_by_id (with_change i ?f pp) i" by (simp add: change_by_id_def)
  also have "\<dots> = Some (?f c)" using assms(1) change_by_id_with [of ?f i pp] by (simp add: applied_def)
  finally show ?thesis by (simp add: applied_def)
qed

text \<open>C21. Moving a scheduled change to a later time does not delay it: scheduling again puts a second job into the
  queue and leaves the first, and a job does not look at the time the change is scheduled for. So the
  change is applied by the first job, at the time it was first scheduled for, before the time that its row
  shows.\<close>

theorem reschedule_keeps_first_time:
  assumes "get_change pp tenant i = Some c" and "cg_device c = dv" and "cg_status c \<in> {''draft'', ''scheduled''}" and "wf_pipeline pp"
    and "device_by_id pp dv = Some d" and "cg_kind c \<in> set CHANGE_APPLIERS"
    and "pp1 = fst (schedule_config_change tenant dv i (Some t1) pp)" and "pp2 = fst (schedule_config_change tenant dv i (Some t2) pp1)"
    and "t1 \<le> en_now en" and "en_now en < t2" and "en_free en dv" and "en_readable en" and "pw_hash w (pp_config pp dv) = Some digest"
    and "cg_baseline c = [] \<or> digest = cg_baseline c" and "en_outcome en i = Success cfg"
  shows "\<exists>c'. change_by_id (run_job w en (length (pp_queue pp)) pp2) i = Some c' \<and> cg_status c' = ''applied''
    \<and> cg_applied_at c' = Some (en_now en) \<and> cg_scheduled_at c' = Some t2 \<and> en_now en < t2"
proof -
  have c: "c \<in> set (pp_changes pp)" "cg_id c = i" "cg_tenant c = tenant" using get_change_row [OF assms(1)] by blast+
  have find_g: "find (\<lambda>x. cg_id x = i \<and> cg_tenant x = tenant) (map (\<lambda>x. if cg_id x = i then scheduled t x else x) cs)
      = map_option (scheduled t) (find (\<lambda>x. cg_id x = i \<and> cg_tenant x = tenant) cs)" for t cs
    by (induction cs) (auto simp: scheduled_def)
  have p1: "pp1 = enqueue (ApplyChange i) (Some t1) (with_change i (scheduled (Some t1)) pp)" "get_change pp1 tenant i = Some (scheduled (Some t1) c)"
    using assms(1-3,7) by (auto simp: schedule_config_change_def get_change_def enqueue_def with_change_def find_g)
  have p2: "pp2 = enqueue (ApplyChange i) (Some t2) (with_change i (scheduled (Some t2)) pp1)"
    using assms(8) p1(2) assms(2) by (simp add: schedule_config_change_def)
  let ?q = "pp2\<lparr>pp_queue := pp_queue pp @ [(ApplyChange i, Some t2)]\<rparr>"
  have run: "run_job w en (length (pp_queue pp)) pp2 = apply_config_change w en i ?q"
    using assms(9) by (simp add: run_job_def p1(1) p2 enqueue_def with_change_def)
  have c2: "change_by_id ?q i = Some (scheduled (Some t2) (scheduled (Some t1) c))"
    using change_by_id_of [OF assms(4) c(1)] c(2) p1(1) p2 by (simp add: change_by_id_with)
  have rest: "device_by_id ?q dv = Some d" "read_config w en dv ?q = Some (pp_config pp dv, digest)"
    using assms(5,12,13) by (simp_all add: device_by_id_def read_config_def p1(1) p2 enqueue_def with_change_def)
  have "cg_kind (scheduled (Some t2) (scheduled (Some t1) c)) \<in> set CHANGE_APPLIERS" using assms(6) by (simp add: scheduled_def)
  from due_job_applies [OF c2 _ _ _ _ _ this assms(15)] rest assms(2,11,14) show ?thesis
    using assms(10) run by (auto simp: scheduled_def)
qed

definition sample_proposed :: pipeline where
  "sample_proposed = pipe_run sample_push [(sample_env 1 ''c'', Propose ''t'' ''d'' (''alias'', ''set'', ''x'', JNull))] sample_pipeline"

theorem reschedule_keeps_first_time_witness:
  "\<exists>c'. change_by_id (run_job sample_push (sample_env 10 ''n'') 0 (fst (schedule_config_change ''t'' ''d'' ''c'' (Some 1000)
     (fst (schedule_config_change ''t'' ''d'' ''c'' (Some 10) sample_proposed))))) ''c'' = Some c' \<and> cg_applied_at c' = Some 10 \<and> cg_scheduled_at c' = Some 1000"
proof -
  let ?c = "draft_row (sample_env 1 ''c'') ''c'' ''t'' ''d'' ''A'' (''alias'', ''set'', ''x'', JNull)" and ?en = "sample_env 10 ''n''"
  have "reach sample_push False sample_pipeline sample_proposed"
    unfolding sample_proposed_def by (rule reach_run [OF reach.here]) (code_simp, simp add: sample_survives)
  then have wf: "wf_pipeline sample_proposed" using reach_wf [OF _ empty_wf [OF sample_empty]] by blast
  have h: "get_change sample_proposed ''t'' ''c'' = Some ?c" "device_by_id sample_proposed ''d'' = Some \<lparr>mg_id = ''d'', mg_tenant = ''t''\<rparr>"
    "cg_kind ?c \<in> set CHANGE_APPLIERS" "pw_hash sample_push (pp_config sample_proposed ''d'') = Some ''A''" by code_simp+
  have q: "length (pp_queue sample_proposed) = 0" "cg_device ?c = ''d''" "cg_status ?c \<in> {''draft'', ''scheduled''}" "cg_baseline ?c = [] \<or> ''A'' = cg_baseline ?c"
    by (code_simp, simp_all)
  have e: "10 \<le> en_now ?en" "en_now ?en < 1000" "en_free ?en ''d''" "en_readable ?en" "en_outcome ?en ''c'' = Success ''B''" "en_now ?en = 10"
    by (simp_all add: sample_env_def)
  from reschedule_keeps_first_time [OF h(1) q(2,3) wf h(2,3) refl refl e(1-4) h(4) q(4) e(5)] show ?thesis unfolding q(1) e(6) by blast
qed

text \<open>A profile that a busy device left scheduled is put into the queue again member by member: after the first
  member is applied, the next one conflicts with it, although nobody else touched the device.\<close>

definition busy :: "env \<Rightarrow> env" where
  "busy en = en\<lparr>en_free := (\<lambda>_. False)\<rparr>"

definition swept_profile :: pipeline where
  "swept_profile = pipe_run sample_push
     [((sample_env 1 ''n'')\<lparr>en_ids := [''m1'', ''m2'']\<rparr>, FromProfile ''t'' ''d'' (Some [(''alias'', ''set'', ''x'', JNull), (''alias'', ''set'', ''y'', JNull)]) None),
      (busy (sample_env 2 ''n''), RunJob 0), (sample_env 100 ''n'', SweepOrphans), (sample_env 101 ''n'', RunJob 1), (sample_env 102 ''n'', RunJob 1)] sample_pipeline"

lemma swept_profile_conflicts:
  "map (\<lambda>c. (cg_id c, cg_status c)) (pp_changes swept_profile) = [(''m1'', ''applied''), (''m2'', ''conflict'')]"
  by code_simp

text \<open>The row of a job is read before the device is locked. If the change is cancelled in between, the job goes on with
  the row it has: the change is written all the same, and its row says applied.\<close>

lemma cancelled_while_starting:
  "case change_by_id sample_scheduled ''c'' of None \<Rightarrow> False
   | Some c \<Rightarrow> (let pp = fst (apply_change sample_push (sample_env 4 ''n'') c sample_cancelled) in
       map cg_status (pp_changes sample_cancelled) = [''cancelled''] \<and> map cg_status (pp_changes pp) = [''applied''] \<and> pp_writes pp = [(''c'', ''A'')])"
  by code_simp

end
