(* ===== verification/ChangeFlow.thy ===== *)
theory ChangeFlow
  imports ChangePipeline ConfigPages
begin

text \<open>
  The page of configuration changes over the service's pipeline: what the list of a device shows
  (\<^verbatim>\<open>backend/app/api/config.py\<close>, \<^verbatim>\<open>_change_out\<close> and \<^verbatim>\<open>list_config_changes\<close>), and that the
  buttons of a row are those requests that the service takes.
\<close>

definition change_out :: "(int \<Rightarrow> string) \<Rightarrow> change_rec \<Rightarrow> config_change" where
  "change_out stamp c =
     \<lparr>cc_id = cg_id c, cc_kind = cg_kind c, cc_operation = cg_operation c, cc_target = cg_target c, cc_status = cg_status c,
      cc_scheduled_at = map_option stamp (cg_scheduled_at c), cc_reverts = cg_reverts c,
      cc_revertible = (cg_status c \<in> {''applied'', ''failed''} \<and> has_inverse (cg_kind c))\<rparr>"

definition list_config_changes :: "(int \<Rightarrow> string) \<Rightarrow> string \<Rightarrow> string \<Rightarrow> pipeline \<Rightarrow> config_change list" where
  "list_config_changes stamp tenant dv pp =
     map (change_out stamp) (sort_key (\<lambda>c. - cg_created c) (filter (\<lambda>c. cg_tenant c = tenant \<and> cg_device c = dv) (pp_changes pp)))"

lemma get_change_of:
  assumes "wf_pipeline pp" and "c \<in> set (pp_changes pp)"
  shows "get_change pp (cg_tenant c) (cg_id c) = Some c"
proof -
  have "get_change pp (cg_tenant c) (cg_id c) \<noteq> None" using assms(2) by (auto simp: get_change_def find_None_iff)
  then show ?thesis using get_change_row row_by_id [OF assms(1) _ assms(2)] by fastforce
qed

lemma created_row:
  assumes "i \<notin> change_ids pp"
  shows "change_by_id (create_change en i tenant dv p pp) i = Some (draft_row en i tenant dv (baseline_of pp tenant dv) p)"
proof -
  have "find (\<lambda>c. cg_id c = i) (cs @ [x]) = Some x" if "i \<notin> cg_id ` set cs" "cg_id x = i" for cs :: "change_rec list" and x
    using that by (induction cs) auto
  then show ?thesis using assms by (simp add: change_by_id_def create_change_def change_ids_def)
qed

text \<open>C7. The buttons of the changes page are the requests that the service takes. For a row that the service lists,
  to a user who may edit: Schedule and Cancel are shown if and only if the service accepts scheduling and
  cancelling the change; without a Revert button the service refuses to revert it; with one it either
  reverts it, leaving a scheduled change that names it, or answers that it has no inverse.\<close>

theorem buttons_match_service:
  assumes "reach w die pp0 pp" and "empty_pipeline pp0" and "cc \<in> set (list_config_changes stamp tenant dv pp)" and "acts = row_actions True cc"
  shows "(Schedule \<in> set acts \<longleftrightarrow> snd (schedule_config_change tenant dv (cc_id cc) t pp) = Inr ())
    \<and> (CancelChange \<in> set acts \<longleftrightarrow> snd (cancel_config_change tenant dv (cc_id cc) pp) = Inr ())
    \<and> (Revert \<notin> set acts \<longrightarrow> snd (revert_config_change w en tenant dv (cc_id cc) t pp) = Inl 409)
    \<and> (Revert \<in> set acts \<longrightarrow> (case revert_config_change w en tenant dv (cc_id cc) t pp of
         (pp', Inl e) \<Rightarrow> pp' = pp \<and> e = 409 \<and> (\<exists>c. change_by_id pp (cc_id cc) = Some c \<and> inverse_of w c pp = None)
       | (pp', Inr _) \<Rightarrow> en_id en \<notin> change_ids pp \<longrightarrow>
           (\<exists>c'. change_by_id pp' (en_id en) = Some c' \<and> cg_status c' = ''scheduled'' \<and> cg_reverts c' = Some (cc_id cc) \<and> cg_device c' = dv)))"
proof -
  have wf: "wf_pipeline pp" using reach_wf [OF assms(1) empty_wf [OF assms(2)]] by blast
  obtain c where c: "c \<in> set (pp_changes pp)" "cg_tenant c = tenant" "cg_device c = dv" "cc = change_out stamp c"
    using assms(3) by (auto simp: list_config_changes_def)
  have row: "get_change pp tenant (cc_id cc) = Some c" "change_by_id pp (cc_id cc) = Some c"
    using get_change_of [OF wf c(1)] change_by_id_of [OF wf c(1)] c(2,4) by (simp_all add: change_out_def)
  have acts: "Schedule \<in> set acts \<longleftrightarrow> cg_status c \<in> {''draft'', ''scheduled''}" "CancelChange \<in> set acts \<longleftrightarrow> cg_status c \<in> {''draft'', ''scheduled''}"
    "Revert \<in> set acts \<longleftrightarrow> cg_status c \<in> {''applied'', ''failed''} \<and> has_inverse (cg_kind c)"
    using assms(4) c(4) by (simp_all add: row_actions_def ACTIONABLE_def change_out_def)
  have s: "Schedule \<in> set acts \<longleftrightarrow> snd (schedule_config_change tenant dv (cc_id cc) t pp) = Inr ()"
    unfolding acts(1) schedule_config_change_def row(1) using c(3) by simp
  have k: "CancelChange \<in> set acts \<longleftrightarrow> snd (cancel_config_change tenant dv (cc_id cc) pp) = Inr ()"
    unfolding acts(2) cancel_config_change_def row(1) using c(3) by simp
  have r: "Revert \<notin> set acts \<longrightarrow> snd (revert_config_change w en tenant dv (cc_id cc) t pp) = Inl 409"
    unfolding acts(3) revert_config_change_def row(1) using c(3) by (auto simp: inverse_of_def REVERTIBLE_STATES_def)
  have "case revert_config_change w en tenant dv (cc_id cc) t pp of
         (pp', Inl e) \<Rightarrow> pp' = pp \<and> e = 409 \<and> (\<exists>c. change_by_id pp (cc_id cc) = Some c \<and> inverse_of w c pp = None)
       | (pp', Inr _) \<Rightarrow> en_id en \<notin> change_ids pp \<longrightarrow>
           (\<exists>c'. change_by_id pp' (en_id en) = Some c' \<and> cg_status c' = ''scheduled'' \<and> cg_reverts c' = Some (cc_id cc) \<and> cg_device c' = dv)"
  proof (cases "inverse_of w c pp")
    case None
    then show ?thesis using row c(3) by (simp add: revert_config_change_def)
  next
    case (Some p)
    then have "revert_config_change w en tenant dv (cc_id cc) t pp = (enqueue (ApplyChange (en_id en)) t
        (with_change (en_id en) (\<lambda>c'. scheduled t (c'\<lparr>cg_reverts := Some (cc_id cc)\<rparr>)) (create_change en (en_id en) tenant dv p pp)), Inr ())"
      using row(1) c(2,3) by (simp add: revert_config_change_def)
    then show ?thesis using created_row [of "en_id en" pp en tenant dv p] by (auto simp: scheduled_def)
  qed
  then show ?thesis using s k r by blast
qed

theorem buttons_match_service_witness:
  "snd (schedule_config_change ''t'' ''d'' ''c'' None sample_scheduled) = Inr ()
   \<and> snd (revert_config_change sample_push (sample_env 3 ''n'') ''t'' ''d'' ''c'' None sample_scheduled) = Inl 409"
proof -
  let ?cc = "\<lparr>cc_id = ''c'', cc_kind = ''alias'', cc_operation = ''set'', cc_target = ''x'', cc_status = ''scheduled'',
    cc_scheduled_at = None, cc_reverts = None, cc_revertible = False\<rparr>"
  have "list_config_changes (\<lambda>_. []) ''t'' ''d'' sample_scheduled = [?cc]" by code_simp
  then have "?cc \<in> set (list_config_changes (\<lambda>_. []) ''t'' ''d'' sample_scheduled)" by simp
  from buttons_match_service [OF sample_reached sample_empty this refl, of None "sample_env 3 ''n''"]
  show ?thesis by (simp add: row_actions_def ACTIONABLE_def)
qed

end
