(* ===== verification/CatalogService.thy ===== *)
theory CatalogService
  imports Catalog ChangePipeline
begin

text \<open>
  The service behind the configuration editor: how the generator keys the models of a catalog
  (\<^verbatim>\<open>backend/tools/opnsense_catalog/emit.py\<close>), how a model is read and how a proposal is checked
  (\<^verbatim>\<open>backend/app/api/catalog.py\<close>, \<^verbatim>\<open>services/catalog_kind.py\<close>), and the form of the editor put to it. The
  catalogs of the release arrive as objects of models; the live values of the device are a parameter.
\<close>

section \<open>Catalogs\<close>

record served_model =
  sm_schema :: catalog_model
  sm_xml_path :: string
  sm_root :: string
  sm_endpoints :: "string obj"
  sm_grid_endpoints :: "string obj obj"

definition sm_id :: "served_model \<Rightarrow> string" where
  "sm_id m = cm_id (sm_schema m)"

definition path_leaf :: "string \<Rightarrow> string" where
  "path_leaf p = to_lower (last (split_on CHR ''/'' (rev (dropWhile (\<lambda>c. c = CHR ''/'') (rev p)))))"

text \<open>The models of one module have the same id; then the key of each in the catalog is qualified by the end of its
  path. The list is the one sorted by id and path.\<close>

definition model_key :: "served_model list \<Rightarrow> served_model \<Rightarrow> string" where
  "model_key ms m =
     (if 1 < length (filter (\<lambda>x. sm_id x = sm_id m) ms) then sm_id m @ ''.'' @ path_leaf (sm_xml_path m) else sm_id m)"

definition build_catalog :: "served_model list \<Rightarrow> served_model obj" where
  "build_catalog ms = foldl (\<lambda>cat m. obj_set (model_key ms m) m cat) [] ms"

definition catalog_model_of :: "served_model obj \<Rightarrow> served_model obj \<Rightarrow> string \<Rightarrow> served_model option" where
  "catalog_model_of corecat plugins i = (case obj_get corecat i of Some m \<Rightarrow> Some m | None \<Rightarrow> obj_get plugins i)"

definition CATALOG_DENYLIST :: "string list" where
  "CATALOG_DENYLIST = [''interfaces'']"

text \<open>What the device answered: values, rows of the grids and options; \<open>None\<close> if it could not be read.\<close>

type_synonym device_reading = "(live_value obj \<times> grid_row list obj \<times> (string \<times> string) list obj) option"

definition read_catalog_model :: "served_model obj \<Rightarrow> served_model obj \<Rightarrow> device_reading \<Rightarrow> string \<Rightarrow> nat + catalog_live" where
  "read_catalog_model corecat plugins dev i =
     (case catalog_model_of corecat plugins i of
        None \<Rightarrow> Inl 404
      | Some m \<Rightarrow>
          let base = \<lparr>cl_model = sm_schema m, cl_values = [], cl_grids = [], cl_field_options = [], cl_reachable = False,
                      cl_read_only = i \<in> set CATALOG_DENYLIST\<rparr>
          in if cl_read_only base then Inr base
             else case dev of
               None \<Rightarrow> Inr base
             | Some (values, grids, options) \<Rightarrow>
                 Inr (base\<lparr>cl_reachable := True, cl_values := values, cl_grids := grids, cl_field_options := options\<rparr>))"

section \<open>Proposals\<close>

record op_in =
  oi_op :: string
  oi_grid :: string
  oi_uuid :: "string option"
  oi_item :: "string obj option"

record catalog_change_in =
  ci_model_id :: string
  ci_scalars :: "string obj"
  ci_grids :: "op_in list"

text \<open>The body of the editor's request as the service parses it.\<close>

fun parsed_op :: "grid_op \<Rightarrow> op_in" where
  "parsed_op (GAdd g item) = \<lparr>oi_op = ''add'', oi_grid = g, oi_uuid = None, oi_item = Some item\<rparr>"
| "parsed_op (GSet g u item) = \<lparr>oi_op = ''set'', oi_grid = g, oi_uuid = Some u, oi_item = Some item\<rparr>"
| "parsed_op (GDel g u) = \<lparr>oi_op = ''del'', oi_grid = g, oi_uuid = Some u, oi_item = None\<rparr>"

definition parsed_body :: "change_body \<Rightarrow> catalog_change_in" where
  "parsed_body b = \<lparr>ci_model_id = cb_model_id b, ci_scalars = cb_scalars b, ci_grids = map parsed_op (cb_grids b)\<rparr>"

definition texts_json :: "string obj \<Rightarrow> json" where
  "texts_json xs = JObj (map (\<lambda>(k, v). (k, JStr v)) xs)"

definition op_payload :: "served_model \<Rightarrow> op_in \<Rightarrow> json" where
  "op_payload m p =
     JObj [(''op'', JStr (oi_op p)), (''endpoints'', texts_json (nullish_or (obj_get (sm_grid_endpoints m) (oi_grid p)) [])),
           (''row'', JStr (last (split_on CHR ''.'' (oi_grid p)))), (''uuid'', jopt (oi_uuid p)),
           (''item'', case oi_item p of None \<Rightarrow> JNull | Some it \<Rightarrow> texts_json it)]"

fun grids_payload :: "served_model \<Rightarrow> op_in list \<Rightarrow> nat + json list" where
  "grids_payload m [] = Inr []"
| "grids_payload m (p # ps) =
     (if oi_grid p \<notin> cg_path ` set (cm_grids (sm_schema m)) then Inl 422
      else if oi_op p \<in> {''add'', ''set''} \<and> oi_item p = None then Inl 422
      else if oi_op p \<in> {''set'', ''del''} \<and> \<not> struthy (oi_uuid p) then Inl 422
      else case grids_payload m ps of Inl e \<Rightarrow> Inl e | Inr rest \<Rightarrow> Inr (op_payload m p # rest))"

definition build_payload :: "served_model \<Rightarrow> catalog_change_in \<Rightarrow> nat + json" where
  "build_payload m b =
     (if \<not> set (map fst (ci_scalars b)) \<subseteq> set (map cf_path (cm_fields (sm_schema m))) then Inl 422
      else case grids_payload m (ci_grids b) of
        Inl e \<Rightarrow> Inl e
      | Inr gs \<Rightarrow>
          if \<not> struthy (obj_get (sm_endpoints m) ''reconfigure'') then Inl 422
          else Inr (JObj [(''model_id'', JStr (sm_id m)), (''set_path'', JStr (nullish_or (obj_get (sm_endpoints m) ''set'') [])),
                          (''reconfigure_path'', jopt (obj_get (sm_endpoints m) ''reconfigure'')), (''model_root'', JStr (sm_root m)),
                          (''xml_path'', JStr (sm_xml_path m)), (''scalars'', texts_json (ci_scalars b)), (''grids'', JArr gs)]))"

definition catalog_proposal :: "served_model obj \<Rightarrow> served_model obj \<Rightarrow> catalog_change_in \<Rightarrow> nat + (string \<times> json)" where
  "catalog_proposal corecat plugins b =
     (if ci_model_id b \<in> set CATALOG_DENYLIST then Inl 422
      else case catalog_model_of corecat plugins (ci_model_id b) of
        None \<Rightarrow> Inl 422
      | Some m \<Rightarrow> (case build_payload m b of Inl e \<Rightarrow> Inl e | Inr payload \<Rightarrow> Inr (ci_model_id b, payload)))"

text \<open>The handler as a whole: the change enters the pipeline as a draft.\<close>

definition post_catalog_change ::
  "served_model obj \<Rightarrow> served_model obj \<Rightarrow> env \<Rightarrow> string \<Rightarrow> string \<Rightarrow> catalog_change_in \<Rightarrow> pipeline \<Rightarrow> pipeline \<times> (nat + unit)" where
  "post_catalog_change corecat plugins en tenant dv b pp =
     create_catalog_change en tenant dv (case catalog_proposal corecat plugins b of Inl _ \<Rightarrow> None | Inr p \<Rightarrow> Some p) pp"

section \<open>The editor against the service\<close>

text \<open>A form of the editor in use: fields of the model are edited, and the tables of its grids report their
  operations.\<close>

inductive editor_run :: "catalog_live \<Rightarrow> form_state \<Rightarrow> bool" for l where
  mount: "editor_run l (form_mount (cl_model l) (cl_values l))"
| edit: "editor_run l s \<Longrightarrow> f \<in> set (cm_fields (cl_model l)) \<Longrightarrow> editor_run l (edit_field (cf_path f) v s)"
| table: "editor_run l s \<Longrightarrow> g \<in> set (cm_grids (cl_model l))
    \<Longrightarrow> grid_run g (nullish_or (obj_get (cl_grids l) (cg_path g)) []) (\<not> form_editable l) gs
    \<Longrightarrow> editor_run l (onOps (cg_path g) (gs_ops gs) s)"

definition op_fits :: "catalog_live \<Rightarrow> grid_op \<Rightarrow> bool" where
  "op_fits l p \<longleftrightarrow> (\<exists>g\<in>set (cm_grids (cl_model l)). op_ok g (nullish_or (obj_get (cl_grids l) (cg_path g)) []) p)"

definition editor_inv :: "catalog_live \<Rightarrow> form_state \<Rightarrow> bool" where
  "editor_inv l s \<longleftrightarrow> fst ` set (fm_work s) \<subseteq> cf_path ` set (cm_fields (cl_model l))
     \<and> (\<forall>ops\<in>snd ` set (fm_gridOps s). \<forall>p\<in>set ops. op_fits l p)"

lemma seeded_keys: "fst ` set (seeded m vals) \<subseteq> cf_path ` set (cm_fields m)"
proof -
  have "fst ` set (foldl (\<lambda>s f. obj_set (cf_path f) (toStr (obj_get vals (cf_path f))) s) a fs) \<subseteq> fst ` set a \<union> cf_path ` set fs" for a fs
  proof (induction fs arbitrary: a)
    case (Cons f fs)
    from Cons.IH [of "obj_set (cf_path f) (toStr (obj_get vals (cf_path f))) a"] show ?case by (simp add: fst_obj_set)
  qed simp
  from this [of "[]" "cm_fields m"] show ?thesis by (simp add: seeded_def)
qed

lemma snd_obj_set: "snd ` set (obj_set k v ob) \<subseteq> insert v (snd ` set ob)"
  by (induction k v ob rule: obj_set.induct) auto

lemma editor_run_inv: "editor_run l s \<Longrightarrow> editor_inv l s"
proof (induction rule: editor_run.induct)
  case mount
  then show ?case using seeded_keys by (simp add: editor_inv_def form_mount_def)
next
  case (edit s f v)
  then show ?case by (auto simp: editor_inv_def edit_field_def fst_obj_set)
next
  case (table s g gs)
  have "op_fits l p" if "p \<in> set (gs_ops gs)" for p
    using grid_run_inv [OF table(3)] that table(2) by (auto simp: grid_inv_def op_fits_def)
  then show ?case using table(4) snd_obj_set [of "cg_path g" "gs_ops gs" "fm_gridOps s"] by (auto simp: editor_inv_def onOps_def)
qed

lemma scalars_keys: "fst ` set (scalars_loop seed kvs acc) \<subseteq> fst ` set acc \<union> fst ` set kvs"
  by (induction seed kvs acc rule: scalars_loop.induct) (auto simp: fst_obj_set split: if_splits)

lemma build_fits:
  assumes "editor_inv l s"
  shows "fst ` set (cb_scalars (build (cl_model l) vals s)) \<subseteq> cf_path ` set (cm_fields (cl_model l))"
    and "p \<in> set (cb_grids (build (cl_model l) vals s)) \<Longrightarrow> op_fits l p"
proof -
  show "fst ` set (cb_scalars (build (cl_model l) vals s)) \<subseteq> cf_path ` set (cm_fields (cl_model l))"
    using scalars_keys [of "seeded (cl_model l) vals" "obj_entries (fm_work s)" "[]"] assms by (simp add: build_def editor_inv_def) blast
  assume "p \<in> set (cb_grids (build (cl_model l) vals s))"
  then obtain ops where "ops \<in> set (obj_values (fm_gridOps s))" "p \<in> set ops" by (auto simp: build_def)
  then have "ops \<in> snd ` set (fm_gridOps s)" by (simp add: obj_values_def)
  moreover note \<open>p \<in> set ops\<close>
  moreover have "\<forall>ops\<in>snd ` set (fm_gridOps s). \<forall>p\<in>set ops. op_fits l p" using assms by (simp add: editor_inv_def)
  ultimately show "op_fits l p" by (metis (no_types))
qed

lemma grids_accepted:
  assumes "\<forall>p\<in>set ps. oi_grid p \<in> cg_path ` set (cm_grids (sm_schema m)) \<and> (oi_op p \<in> {''add'', ''set''} \<longrightarrow> oi_item p \<noteq> None)
    \<and> (oi_op p \<in> {''set'', ''del''} \<longrightarrow> struthy (oi_uuid p))"
  shows "\<exists>gs. grids_payload m ps = Inr gs"
  using assms by (induction m ps rule: grids_payload.induct) auto

text \<open>C28. What the editor proposes, the service takes. For a model that the service serves under the model's own id,
  outside the deny list and with an endpoint that reloads it: however the form of the editor was used, over
  live rows that have identifiers, its proposal passes every check of the service, and enters the pipeline as
  a draft for that model.\<close>

theorem editor_proposals_accepted:
  assumes "catalog_model_of corecat plugins i = Some m" and "sm_id m = i" and "i \<notin> set CATALOG_DENYLIST"
    and "struthy (obj_get (sm_endpoints m) ''reconfigure'')"
    and "read_catalog_model corecat plugins dev i = Inr l" and "editor_run l s"
    and "\<forall>rows\<in>snd ` set (cl_grids l). \<forall>r\<in>set rows. gr_uuid r \<noteq> []"
    and "owned pp tenant dv" and "b = parsed_body (build (cl_model l) (cl_values l) s)"
  shows "\<exists>payload. catalog_proposal corecat plugins b = Inr (i, payload)
    \<and> post_catalog_change corecat plugins en tenant dv b pp
      = (create_change en (en_id en) tenant dv (''catalog_setting'', ''set'', i, payload) pp, Inr ())"
proof -
  have l: "cl_model l = sm_schema m" using assms(1,3,5) by (auto simp: read_catalog_model_def Let_def split: option.splits)
  have inv: "editor_inv l s" by (rule editor_run_inv [OF assms(6)])
  have id: "ci_model_id b = i" using assms(2,9) l by (simp add: parsed_body_def build_def sm_id_def)
  have rows: "gr_uuid r \<noteq> []" if "r \<in> set (nullish_or (obj_get (cl_grids l) p) [])" for r p
  proof (cases "obj_get (cl_grids l) p")
    case (Some rs)
    then have "rs \<in> snd ` set (cl_grids l)" unfolding obj_get_def using map_of_SomeD by force
    moreover have "r \<in> set rs" using that Some by (simp add: nullish_or_def)
    ultimately show ?thesis using assms(7) by blast
  qed (use that in \<open>simp add: nullish_or_def\<close>)
  have "oi_grid (parsed_op p) \<in> cg_path ` set (cm_grids (sm_schema m)) \<and> (oi_op (parsed_op p) \<in> {''add'', ''set''} \<longrightarrow> oi_item (parsed_op p) \<noteq> None)
    \<and> (oi_op (parsed_op p) \<in> {''set'', ''del''} \<longrightarrow> struthy (oi_uuid (parsed_op p)))" if p: "op_fits l p" for p
  proof -
    obtain g where g: "g \<in> set (cm_grids (sm_schema m))" "op_ok g (nullish_or (obj_get (cl_grids l) (cg_path g)) []) p"
      using p l by (auto simp: op_fits_def)
    then show ?thesis using rows by (cases p) (auto simp: struthy_def)
  qed
  then obtain gs where "grids_payload m (ci_grids b) = Inr gs"
    using grids_accepted [of "ci_grids b" m] build_fits(2) [OF inv] assms(9) by (auto simp: parsed_body_def)
  moreover have "set (map fst (ci_scalars b)) \<subseteq> set (map cf_path (cm_fields (sm_schema m)))"
    using build_fits(1) [OF inv] assms(9) l by (simp add: parsed_body_def)
  ultimately obtain payload where "build_payload m b = Inr payload" using assms(4) by (simp add: build_payload_def)
  then have "catalog_proposal corecat plugins b = Inr (i, payload)" using assms(1,3) id by (simp add: catalog_proposal_def)
  then show ?thesis using assms(8) by (simp add: post_catalog_change_def create_catalog_change_def)
qed

definition sample_served :: served_model where
  "sample_served = \<lparr>sm_schema = sample_model, sm_xml_path = ''OPNsense/M'', sm_root = cm_id sample_model,
     sm_endpoints = [(''reconfigure'', ''m/service/reconfigure'')], sm_grid_endpoints = []\<rparr>"

theorem editor_proposals_accepted_witness:
  "\<exists>payload. catalog_proposal [(cm_id sample_model, sample_served)] []
     (parsed_body (build sample_model [(''port'', LStr ''53'')] (edit_field ''port'' ''54'' (form_mount sample_model [(''port'', LStr ''53'')]))))
     = Inr (cm_id sample_model, payload)"
proof -
  let ?cat = "[(cm_id sample_model, sample_served)]" and ?dev = "Some ([(''port'', LStr ''53'')], [], [])"
  let ?l = "\<lparr>cl_model = sample_model, cl_values = [(''port'', LStr ''53'')], cl_grids = [], cl_field_options = [], cl_reachable = True, cl_read_only = False\<rparr>"
  let ?s = "edit_field ''port'' ''54'' (form_mount sample_model [(''port'', LStr ''53'')])"
  let ?pp = "sample_pipeline"
  have h: "catalog_model_of ?cat [] (cm_id sample_model) = Some sample_served" "sm_id sample_served = cm_id sample_model"
    "cm_id sample_model \<notin> set CATALOG_DENYLIST" "struthy (obj_get (sm_endpoints sample_served) ''reconfigure'')"
    "read_catalog_model ?cat [] ?dev (cm_id sample_model) = Inr ?l" by code_simp+
  obtain f where "f \<in> set (cm_fields sample_model)" "cf_path f = ''port''" by (auto simp: sample_model_def)
  then have run: "editor_run ?l ?s" using editor_run.edit [OF editor_run.mount, of f ?l "''54''"] by simp
  have rest: "\<forall>rows\<in>snd ` set (cl_grids ?l). \<forall>r\<in>set rows. gr_uuid r \<noteq> []" "owned ?pp ''t'' ''d''"
    by (simp, code_simp)
  from editor_proposals_accepted [OF h run rest refl] show ?thesis by auto
qed

section \<open>Models of one module\<close>

definition shared :: "served_model list \<Rightarrow> served_model \<Rightarrow> bool" where
  "shared ms m \<longleftrightarrow> 1 < length (filter (\<lambda>x. sm_id x = sm_id m) ms)"

lemma catalog_keys: "obj_get (build_catalog ms) k = Some x \<Longrightarrow> x \<in> set ms \<and> k = model_key ms x"
proof -
  have "obj_get (foldl (\<lambda>cat m. obj_set (model_key ms m) m cat) a xs) k = Some x \<Longrightarrow> obj_get a k = Some x \<or> (x \<in> set xs \<and> k = model_key ms x)" for a xs
  proof (induction xs arbitrary: a)
    case (Cons y xs)
    then show ?case using Cons.IH [of "obj_set (model_key ms y) y a"] by (auto simp: obj_get_set split: if_splits)
  qed simp
  then show "obj_get (build_catalog ms) k = Some x \<Longrightarrow> x \<in> set ms \<and> k = model_key ms x" unfolding build_catalog_def by fastforce
qed

lemma shared_id_no_key:
  assumes "m \<in> set ms" and "shared ms m" and "\<forall>x\<in>set ms. CHR ''.'' \<notin> set (sm_id x)"
  shows "obj_get (build_catalog ms) (sm_id m) = None"
proof (rule ccontr)
  assume "obj_get (build_catalog ms) (sm_id m) \<noteq> None"
  then obtain x where x: "x \<in> set ms" "sm_id m = model_key ms x" using catalog_keys by blast
  show False
  proof (cases "shared ms x")
    case True
    then have "CHR ''.'' \<in> set (sm_id m)" using x(2) by (simp add: model_key_def shared_def)
    then show False using assms(1,3) by blast
  next
    case False
    then have "sm_id m = sm_id x" using x(2) by (simp add: model_key_def shared_def)
    then show False using assms(2) False by (simp add: shared_def)
  qed
qed

text \<open>C29. A module with several models falls out of both rules of the editor. The catalog keys each of its models by a
  qualified id, while the model keeps the id of the module. So the editor, which proposes under the id of
  the model it was given, is refused whatever was edited; and the deny list, which is compared with the key,
  neither marks the models of a denied module as read-only nor stops a proposal made under the key: what it
  decides there is only what it would decide without the list.\<close>

theorem shared_modules_mishandled:
  assumes "m \<in> set ms" and "shared ms m" and "\<forall>x\<in>set ms. CHR ''.'' \<notin> set (sm_id x)" and "obj_get plugins (sm_id m) = None"
    and "obj_get (build_catalog ms) (model_key ms m) = Some m"
  shows "catalog_proposal (build_catalog ms) plugins (parsed_body (build (sm_schema m) vals s)) = Inl 422
    \<and> (\<exists>l. read_catalog_model (build_catalog ms) plugins dev (model_key ms m) = Inr l \<and> \<not> cl_read_only l)
    \<and> catalog_proposal (build_catalog ms) plugins \<lparr>ci_model_id = model_key ms m, ci_scalars = xs, ci_grids = gs\<rparr>
      = map_sum id (Pair (model_key ms m)) (build_payload m \<lparr>ci_model_id = model_key ms m, ci_scalars = xs, ci_grids = gs\<rparr>)"
proof -
  have "obj_get (build_catalog ms) (sm_id m) = None" by (rule shared_id_no_key [OF assms(1-3)])
  then have none: "catalog_model_of (build_catalog ms) plugins (sm_id m) = None" using assms(4) by (simp add: catalog_model_of_def)
  have "CHR ''.'' \<in> set (model_key ms m)" using assms(2) by (simp add: model_key_def shared_def)
  then have free: "model_key ms m \<notin> set CATALOG_DENYLIST" by (auto simp: CATALOG_DENYLIST_def)
  have some: "catalog_model_of (build_catalog ms) plugins (model_key ms m) = Some m" using assms(5) by (simp add: catalog_model_of_def)
  have "catalog_proposal (build_catalog ms) plugins (parsed_body (build (sm_schema m) vals s)) = Inl 422"
    using none by (simp add: catalog_proposal_def parsed_body_def build_def sm_id_def)
  moreover have "\<exists>l. read_catalog_model (build_catalog ms) plugins dev (model_key ms m) = Inr l \<and> \<not> cl_read_only l"
    using some free by (auto simp: read_catalog_model_def Let_def split: option.splits)
  moreover have "catalog_proposal (build_catalog ms) plugins \<lparr>ci_model_id = model_key ms m, ci_scalars = xs, ci_grids = gs\<rparr>
      = map_sum id (Pair (model_key ms m)) (build_payload m \<lparr>ci_model_id = model_key ms m, ci_scalars = xs, ci_grids = gs\<rparr>)"
    using some free by (auto simp: catalog_proposal_def split: sum.split)
  ultimately show ?thesis by blast
qed

definition sample_member :: "string \<Rightarrow> served_model" where
  "sample_member leaf = \<lparr>sm_schema = sample_model\<lparr>cm_id := ''interfaces''\<rparr>, sm_xml_path = ''OPNsense/Interfaces/'' @ leaf, sm_root = ''interfaces'',
     sm_endpoints = [(''reconfigure'', ''interfaces/service/reconfigure'')], sm_grid_endpoints = []\<rparr>"

theorem shared_modules_mishandled_witness:
  "\<exists>payload. catalog_proposal (build_catalog [sample_member ''loopbacks'', sample_member ''vlans'']) []
     \<lparr>ci_model_id = ''interfaces.vlans'', ci_scalars = [(''port'', ''1'')], ci_grids = []\<rparr> = Inr (''interfaces.vlans'', payload)"
proof -
  let ?ms = "[sample_member ''loopbacks'', sample_member ''vlans'']" and ?m = "sample_member ''vlans''"
  let ?b = "\<lparr>ci_model_id = ''interfaces.vlans'', ci_scalars = [(''port'', ''1'')], ci_grids = []\<rparr>"
  have in_ms: "?m \<in> set ?ms" by simp
  have h: "shared ?ms ?m" "\<forall>x\<in>set ?ms. CHR ''.'' \<notin> set (sm_id x)" "obj_get [] (sm_id ?m) = (None :: served_model option)"
    "obj_get (build_catalog ?ms) (model_key ?ms ?m) = Some ?m" by code_simp+
  have k: "model_key ?ms ?m = ''interfaces.vlans''" by code_simp
  have "\<exists>payload. build_payload ?m ?b = Inr payload" by (simp add: build_payload_def sample_member_def sample_model_def struthy_def obj_get_def)
  then show ?thesis
    using conjunct2 [OF conjunct2 [OF shared_modules_mishandled [OF in_ms h, of _ _ None "[(''port'', ''1'')]" "[]"]]] unfolding k by auto
qed

end
