(* ===== verification/Shell.thy ===== *)
theory Shell
  imports AccountViews
begin

text \<open>
  The nesting of the application: what \<^verbatim>\<open>main.tsx\<close> mounts, the providers around the routes
  (\<^verbatim>\<open>App.tsx\<close>), the shell with its header, navigation and routes (\<^verbatim>\<open>components/AppShell.tsx\<close>)
  and the gate that replaces it (\<^verbatim>\<open>auth/ProtectedRoute.tsx\<close>, \<^verbatim>\<open>security/MfaSetupGate.tsx\<close>), as a tree
  of component names. A component that reads a context outside its provider silently gets the default of
  the context (no tenant, nobody signed in, English), so the tree decides what the components see. The
  elements of the component library have no names of their own here.
\<close>

section \<open>The tree\<close>

datatype mounted = El string "mounted list"

text \<open>The routes of the shell's table that are guarded wrap their page.\<close>

definition guarded_route :: "auth_state \<Rightarrow> string \<Rightarrow> screen \<Rightarrow> mounted list" where
  "guarded_route s pat scr =
     (let inner = (case scr of Page p \<Rightarrow> [El p []] | NavigateTo _ \<Rightarrow> [El ''Navigate'' []] | _ \<Rightarrow> [])
      in if take 7 pat = ''/admin/'' then [El ''RequireSuperadmin'' inner] else inner)"

definition shell_main :: "(string list \<Rightarrow> string \<Rightarrow> string option) \<Rightarrow> auth_state \<Rightarrow> string \<Rightarrow> mounted list" where
  "shell_main pick s path =
     (case pick (map fst (AppShell_routes s)) path of
        None \<Rightarrow> []
      | Some pat \<Rightarrow> (case map_of (AppShell_routes s) pat of None \<Rightarrow> [] | Some scr \<Rightarrow> guarded_route s pat scr))"

definition AppShell :: "(string list \<Rightarrow> string \<Rightarrow> string option) \<Rightarrow> auth_state \<Rightarrow> string \<Rightarrow> mounted" where
  "AppShell pick s path =
     El ''AppShell'' [El ''TenantProvider''
       [El ''Header'' [El ''Wordmark'' [], El ''TenantSwitcher'' [], El ''LanguageSwitcher'' []],
        El ''Navbar'' [El ''AppShellNav'' []],
        El ''Main'' [El ''Suspense'' [El ''Routes'' (shell_main pick s path)]]]]"

definition protected_tree :: "auth_state \<Rightarrow> mounted \<Rightarrow> mounted" where
  "protected_tree s children =
     El ''ProtectedRoute''
       (if as_loading s then []
        else case as_me s of
          None \<Rightarrow> [El ''Navigate'' []]
        | Some m \<Rightarrow> if nullish_or (mfa_setup_required m) False then [El ''MfaSetupGate'' [El ''MfaEnrollFlow'' []]] else [children])"

definition App_tree :: "(string list \<Rightarrow> string \<Rightarrow> string option) \<Rightarrow> auth_state \<Rightarrow> string \<Rightarrow> mounted" where
  "App_tree pick s path =
     El ''AuthProvider'' [El ''Routes''
       [if path = ''/login'' then El ''LoginPage'' [El ''LanguageSwitcher'' []] else protected_tree s (AppShell pick s path)]]"

definition main_tree :: "mounted \<Rightarrow> mounted" where
  "main_tree app =
     El ''StrictMode'' [El ''I18nProvider'' [El ''DirectionProvider'' [El ''MantineProvider''
       [El ''Notifications'' [], El ''DirectionSync'' [], El ''QueryClientProvider'' [El ''BrowserRouter'' [app]]]]]]"

text \<open>The header: the address of the user, the switches, and signing out.\<close>

definition shell_header :: "auth_state \<Rightarrow> tenant_state \<Rightarrow> string \<Rightarrow> unit elem list" where
  "shell_header s ts locale =
     [if tp_tenants ts = [] then Text ''t.tenant.none'' else Choice ''t.tenant.activeLabel'' (TenantSwitcher_options ts) (tp_activeId ts),
      Text (nullish_or (map_option me_email (as_me s)) []), LanguageSwitcher locale, Button ''t.common.logout'' False ()]"

text \<open>An entry of the navigation; only the entry of the front page needs the exact path.\<close>

definition nav_label :: "string \<Rightarrow> string" where
  "nav_label to = nullish_or (map_of
     [(''/'', ''t.nav.overview''), (''/devices'', ''t.nav.devices''), (''/alerts'', ''t.nav.alerts''), (''/perimeter'', ''t.nav.perimeter''),
      (''/reports'', ''t.nav.reports''), (''/logs'', ''t.nav.logs''), (''/reports/settings'', ''t.nav.reportSettings''),
      (''/reports/schedule'', ''t.nav.reportSchedule''), (''/security/sessions'', ''t.nav.sessions''), (''/security/mfa'', ''t.nav.mfa''),
      (''/admin/groups'', ''t.nav.groups''), (''/admin/templates'', ''t.nav.templates''), (''/admin/smtp'', ''t.nav.smtp''),
      (''/admin/log-fleet'', ''t.nav.logFleet''), (''/admin/system'', ''t.nav.system''), (''/admin/audit'', ''t.nav.audit'')] to) []"

definition NavItem :: "string \<Rightarrow> string \<times> string \<times> bool" where
  "NavItem to = (to, nav_label to, to = ''/'')"

definition nav_items :: "auth_state \<Rightarrow> my_tenant list \<Rightarrow> string option \<Rightarrow> (string \<times> string \<times> bool) list" where
  "nav_items s tenants activeId = map NavItem (AppShellNav s tenants activeId)"

section \<open>Contexts\<close>

text \<open>What a provider provides, and what the hooks of a component read. A page behind the shell may read every
  context.\<close>

definition provides :: "string \<Rightarrow> string list" where
  "provides n = nullish_or (map_of
     [(''I18nProvider'', [''i18n'']), (''DirectionProvider'', [''direction'']), (''MantineProvider'', [''mantine'']),
      (''QueryClientProvider'', [''queries'']), (''BrowserRouter'', [''router'']), (''AuthProvider'', [''auth'']), (''TenantProvider'', [''tenant''])] n) []"

definition every_context :: "string list" where
  "every_context = [''i18n'', ''direction'', ''mantine'', ''queries'', ''router'', ''auth'', ''tenant'']"

definition reads :: "string \<Rightarrow> string list" where
  "reads n = nullish_or (map_of
     [(''StrictMode'', []), (''I18nProvider'', []), (''DirectionProvider'', []), (''MantineProvider'', [''direction'']), (''Notifications'', [''mantine'']),
      (''DirectionSync'', [''i18n'', ''direction'']), (''QueryClientProvider'', []), (''BrowserRouter'', []), (''AuthProvider'', [''queries'']),
      (''Routes'', [''router'']), (''Navigate'', [''router'']), (''LoginPage'', [''i18n'', ''auth'', ''router'', ''mantine'']),
      (''ProtectedRoute'', [''auth'', ''router'']), (''MfaSetupGate'', [''i18n'', ''auth'', ''mantine'']), (''MfaEnrollFlow'', [''i18n'', ''queries'', ''mantine'']),
      (''AppShell'', [''auth'', ''queries'', ''router'', ''i18n'']), (''TenantProvider'', [''queries'']), (''Header'', [''mantine'']), (''Navbar'', [''mantine'']),
      (''Main'', [''mantine'']), (''Suspense'', []), (''Wordmark'', [''mantine'']), (''TenantSwitcher'', [''i18n'', ''tenant'', ''mantine'']),
      (''LanguageSwitcher'', [''i18n'', ''mantine'']), (''AppShellNav'', [''i18n'', ''auth'', ''tenant'', ''router'', ''mantine'']),
      (''RequireSuperadmin'', [''auth'', ''router''])] n) every_context"

fun in_context :: "string list \<Rightarrow> mounted \<Rightarrow> bool" where
  "in_context up (El n ts) = (list_all (\<lambda>c. c \<in> set up) (reads n) \<and> list_all (in_context (provides n @ up)) ts)"

fun mounted_names :: "mounted \<Rightarrow> string list" where
  "mounted_names (El n ts) = n # concat (map mounted_names ts)"

section \<open>What is mounted\<close>

definition shell_pages :: "string list" where
  "shell_pages = [''OverviewPage'', ''DevicesPage'', ''DeviceDetailPage'', ''AlertsPage'', ''PerimeterPage'', ''ReportsPage'', ''ReportSettingsPage'',
     ''ReportSchedulePage'', ''LogsPage'', ''SessionsPage'', ''MfaPage'', ''GroupsPage'', ''TemplateLibraryPage'', ''SmtpSettingsPage'', ''LogFleetPage'',
     ''SystemSettingsPage'', ''AuditPage'']"

lemma route_cases:
  assumes "map_of (AppShell_routes s) pat = Some scr"
  shows "(\<exists>p\<in>set shell_pages. scr = Page p) \<or> scr = NavigateTo ''/''"
  using assms by (auto simp: AppShell_routes_def RequireSuperadmin_def shell_pages_def split: if_splits)

lemma shell_main_cases:
  "shell_main pick s path \<in> {[], [El ''Navigate'' []], [El ''RequireSuperadmin'' [El ''Navigate'' []]]}
   \<or> (\<exists>p\<in>set shell_pages. shell_main pick s path \<in> {[El p []], [El ''RequireSuperadmin'' [El p []]]})"
proof (cases "pick (map fst (AppShell_routes s)) path")
  case (Some pat)
  show ?thesis
  proof (cases "map_of (AppShell_routes s) pat")
    case (Some scr)
    with route_cases [OF this] \<open>pick _ _ = Some pat\<close> show ?thesis by (auto simp: shell_main_def guarded_route_def Let_def)
  qed (use Some in \<open>simp add: shell_main_def\<close>)
qed (simp add: shell_main_def)

lemma page_reads: "p \<in> set shell_pages \<Longrightarrow> set (reads p) \<subseteq> set every_context"
  by (auto simp: shell_pages_def reads_def every_context_def)

lemma page_in_context: "p \<in> set shell_pages \<Longrightarrow> set every_context \<subseteq> set up \<Longrightarrow> in_context up (El p [])"
  using page_reads by (auto simp: list_all_iff)

lemma main_in_context:
  assumes "set every_context \<subseteq> set up"
  shows "list_all (in_context up) (shell_main pick s path)"
proof -
  have ctx: "''auth'' \<in> set up" "''router'' \<in> set up" using assms by (simp_all add: every_context_def)
  have "in_context up (El ''Navigate'' [])" "in_context up (El ''RequireSuperadmin'' ts) = list_all (in_context up) ts" for ts
    using ctx by (simp_all add: reads_def provides_def)
  then show ?thesis using shell_main_cases [of pick s path] page_in_context [OF _ assms] by (auto simp del: in_context.simps)
qed


text \<open>The tree mounts the screen that the routes choose: a page of the shell is mounted if and only if the routes
  show it, the gate if and only if they show the gate, and the tenants are asked for only for a user who is
  known and need not enrol.\<close>

lemma not_pages:
  assumes "p \<in> set shell_pages"
  shows "p \<notin> set [''Navigate'', ''RequireSuperadmin'', ''StrictMode'', ''I18nProvider'', ''DirectionProvider'', ''MantineProvider'', ''Notifications'',
    ''DirectionSync'', ''QueryClientProvider'', ''BrowserRouter'', ''AuthProvider'', ''Routes'', ''LoginPage'', ''LanguageSwitcher'', ''ProtectedRoute'',
    ''MfaSetupGate'', ''MfaEnrollFlow'', ''AppShell'', ''TenantProvider'', ''Header'', ''Wordmark'', ''TenantSwitcher'', ''Navbar'', ''AppShellNav'', ''Main'', ''Suspense'']"
  using assms by (auto simp: shell_pages_def)

lemma main_names:
  assumes "p \<in> set shell_pages"
  shows "p \<in> set (concat (map mounted_names (shell_main pick s path))) \<longleftrightarrow>
    (case pick (map fst (AppShell_routes s)) path of None \<Rightarrow> Nothing | Some pat \<Rightarrow> nullish_or (map_of (AppShell_routes s) pat) Nothing) = Page p"
proof (cases "pick (map fst (AppShell_routes s)) path")
  case (Some pat)
  show ?thesis
  proof (cases "map_of (AppShell_routes s) pat")
    case (Some scr)
    have "p \<noteq> ''Navigate''" "p \<noteq> ''RequireSuperadmin''" using not_pages [OF assms] by simp_all
    with route_cases [OF Some] Some \<open>pick _ _ = Some pat\<close> show ?thesis by (auto simp: shell_main_def guarded_route_def Let_def nullish_or_def)
  qed (use Some in \<open>simp add: shell_main_def nullish_or_def\<close>)
qed (simp add: shell_main_def)

theorem tree_shows_screen:
  assumes "p \<in> set shell_pages"
  shows "p \<in> set (mounted_names (main_tree (App_tree pick s path))) \<longleftrightarrow> App pick s path = Page p"
proof -
  have n: "p \<notin> set [''Navigate'', ''RequireSuperadmin'', ''StrictMode'', ''I18nProvider'', ''DirectionProvider'', ''MantineProvider'', ''Notifications'',
    ''DirectionSync'', ''QueryClientProvider'', ''BrowserRouter'', ''AuthProvider'', ''Routes'', ''LoginPage'', ''LanguageSwitcher'', ''ProtectedRoute'',
    ''MfaSetupGate'', ''MfaEnrollFlow'', ''AppShell'', ''TenantProvider'', ''Header'', ''Wordmark'', ''TenantSwitcher'', ''Navbar'', ''AppShellNav'', ''Main'', ''Suspense'']"
    by (rule not_pages [OF assms])
  show ?thesis
    using n main_names [OF assms, of pick s path]
    by (cases "path = ''/login''"; cases "as_loading s"; cases "as_me s")
      (auto simp: main_tree_def App_tree_def App_def protected_tree_def ProtectedRoute_def AppShell_def)
qed

theorem tenants_asked_when_known:
  "''TenantProvider'' \<in> set (mounted_names (main_tree (App_tree pick s path))) \<longleftrightarrow>
   path \<noteq> ''/login'' \<and> \<not> as_loading s \<and> (\<exists>m. as_me s = Some m \<and> \<not> nullish_or (mfa_setup_required m) False)"
proof -
  have "''TenantProvider'' \<notin> set (concat (map mounted_names (shell_main pick s path)))"
    using shell_main_cases [of pick s path] by (auto simp: shell_pages_def)
  then show ?thesis
    by (cases "path = ''/login''"; cases "as_loading s"; cases "as_me s") (auto simp: main_tree_def App_tree_def protected_tree_def AppShell_def)
qed

end
