(* ===== verification/Spec2Isabelle.thy ===== *)
theory Spec2Isabelle
  imports QueryCoherence TemplateViews AdminViews AccountViews OverviewPages SessionKinds SessionCache SignInFlow
    ChangeFlow CatalogService Shell
begin

text \<open>
  Verification of the web frontend of OPNGMS, a multi-tenant manager for fleets of OPNsense firewalls, and
  of the part of its service that decides who may do what (sign-in, sessions, tenant access, the guards of
  the endpoints) and that changes the configuration of the firewalls. The sources of the frontend are under \<^verbatim>\<open>src/frontend/src\<close>, those of the service under
  \<^verbatim>\<open>src/backend/app\<close>; paths below are relative to the former unless they say otherwise.

  \<^bold>\<open>The program.\<close> A React application. The session provider keeps the signed-in user, the
  tenant provider the active tenant; every page reads and writes the service through hooks, which are
  descriptions handed to the query library: a cache key, an enabling condition, a request, how the
  reply is read, and for a mutation the cache entries it invalidates. One HTTP client adds the CSRF
  token to mutating requests. The pages are forms, tables and confirmations over those hooks. The service
  keeps accounts, factors, sessions, memberships and group grants; each of its endpoints stands behind a
  guard that resolves the session of the cookie, checks the token and asks for a right of the user. A change
  of a firewall's configuration is proposed, scheduled and then applied by a worker, which compares the
  device with the snapshot the proposal was based on.

  \<^bold>\<open>How it is modelled.\<close> A component's state is a record, one field per state variable; an
  event handler is a function on it that takes the outcome of its request as an argument (a reply with
  data, error and status, or a request that was rejected), so every branch of a handler, its failures
  included, is a branch of the function. What a handler sends is a separate function with the same
  guards. What a component renders is a function from its state, its permissions and the states of its
  queries to the list of its elements, in which a button carries the event it raises and whether it is
  enabled; layout is left out. Where
  events interleave (replies that land late, tenants that change under a mounted form) the runs are
  event lists or an inductive predicate, and the properties quantify over all of them. Texts are named
  by their dictionary keys.

  \<^bold>\<open>Theories, in the order they build on each other.\<close>
  \<^item> \<open>Prelude\<close>: strings (Latin-1 code units), objects and maps as insertion-ordered association
    lists with the enumeration order of the language, JSON, truthiness, browser storage; the locale
    \<open>keyed_store\<close> (what a read returns after a write), interpreted by objects; the lemmas on
    splitting, trimming and joining that all text inputs use.
  \<^item> \<open>Api\<close>: \<^verbatim>\<open>api/csrf.ts\<close> and \<^verbatim>\<open>api/client.ts\<close>. The regular expression that finds the token is
    modelled as written and proved equal to a specification by cookie pieces. Queries, mutations and
    the ways a reply is read.
  \<^item> \<open>Dates\<close>: time values, \<open>toISOString\<close> by the civil calendar, the ranges of the charts.
  \<^item> \<open>HooksDevice\<close>, \<open>HooksTenant\<close>, \<open>HooksAdmin\<close>: every hook of the application
    (\<^verbatim>\<open>*Hooks.ts\<close>, \<^verbatim>\<open>*/hooks.ts\<close>, and the queries written inside pages and providers).
  \<^item> \<open>QueryCoherence\<close>: the hooks taken together: no two queries share a key with different
    requests, tenant-scoped entries are never shared between tenants, mutations touch keys that are
    read, mutating requests carry the token.
  \<^item> \<open>Session\<close>: \<^verbatim>\<open>auth\<close>, \<^verbatim>\<open>App.tsx\<close>, \<^verbatim>\<open>components/AppShell.tsx\<close>, \<^verbatim>\<open>tenant\<close>, and the
    authorization matrix of the service (\<^verbatim>\<open>src/backend/app/core/rbac.py\<close>), with which the
    permission flags and the navigation are proved to agree.
  \<^item> \<open>I18n\<close>: locale detection, switching and the race of dictionary loads.
  \<^item> \<open>WebAuthn\<close>: base64url and the passkey conversions of \<^verbatim>\<open>security/webauthnClient.ts\<close>.
  \<^item> \<open>Login\<close>, \<open>Mfa\<close>: sign-in, second factors, enrolment, passkeys, trusted devices.
  \<^item> \<open>ConfirmFlow\<close>: the confirmation modal and the locale \<open>confirm_flow\<close>: what a component
    with a confirmation provides, and that the requests sent are then those of the confirmed rows. It is
    interpreted by every such component (passkeys, trusted devices, users, devices, plugins, log
    forwarding, templates, profiles, groups).
  \<^item> \<open>Catalog\<close>: the configuration editor (\<^verbatim>\<open>catalog\<close>): inputs, grids, proposals, menu.
  \<^item> \<open>ConfigPages\<close>: the configuration trees, the list of changes and the alias form; the locale
    \<open>redacting_view\<close> states that a view shows nothing of what redaction removes.
  \<^item> \<open>DevicePages\<close>: device list, actions, firmware, plugins, log forwarding.
  \<^item> \<open>TemplateForms\<close>, \<open>TemplateApply\<close>: the template and profile library; the locale
    \<open>introspected_form\<close> is the contract of the three forms whose fields come from a device.
  \<^item> \<open>Reports\<close>: report settings, schedules, retention. \<open>AdminPages\<close>: audit ledger, runtime
    settings, mail, groups, log fleet. \<open>Monitoring\<close>: sizes, charts, timelines, log search.
  \<^item> \<open>Timeline\<close>: the timelines from the events endpoint of the service
    (\<^verbatim>\<open>src/backend/app/repositories/event.py\<close>) to the rows on screen; loading them page by page is the
    one loop of the sources that may not end, a \<open>partial_function\<close> proved to return.
  \<^item> \<open>View\<close>: the elements of a view, the clicks it offers, and the locale \<open>listing\<close>, the
    contract of a component that shows the list of a query; interpreted by the twelve lists that keep it
    (other pages replace everything by a loader or an error text).
  \<^item> \<open>AttackMap\<close>, \<open>OverviewPages\<close>: the attacker map with its colour ramp on 32-bit integers, and the
    overview, perimeter, reliability, configuration audit and alert views.
  \<^item> \<open>Dictionary\<close>, one theory per locale (\<open>DictEn\<close>, \<open>DictIt\<close>, \<open>DictEs\<close>, \<open>DictFr\<close>, \<open>DictDe\<close>,
    \<open>DictPt\<close>, \<open>DictNl\<close>, \<open>DictRu\<close>, \<open>DictAr\<close>, \<open>DictZh\<close>, \<open>DictZhTW\<close>, \<open>DictJa\<close>), \<open>Dictionaries\<close>:
    the twelve dictionaries (\<^verbatim>\<open>i18n/*.ts\<close>), section by section as written: every key, and for every
    text its placeholders; their common type, and the texts that components fill.
  \<^item> \<open>AdminViews\<close>, \<open>ReportViews\<close>, \<open>DeviceViews\<close>, \<open>TemplateViews\<close>, \<open>AccountViews\<close>: what the pages
    render over the states and handlers of the theories above, that a button is enabled exactly when
    its handler acts, and that what is offered is what the service allows; the return from the OAuth
    provider of the mail page, and the QR code with its cancelled generations.
  \<^item> \<open>Access\<close>: \<^verbatim>\<open>core/access.py\<close>, \<^verbatim>\<open>core/deps.py\<close>, \<^verbatim>\<open>api/me_tenants.py\<close> and the session lookup of
    \<^verbatim>\<open>services/auth.py\<close> of the service: effective roles from memberships and group grants, the tenants a
    user is told, the idle timeout with its throttled writes, the guards. The role the frontend is told is
    the role that is enforced.
  \<^item> \<open>Endpoints\<close>: the thirty routers of the service, route by route, and what a request meets there.
  \<^item> \<open>Pages\<close>: for every component of the frontend the queries it runs and the mutations its visible controls
    can start; \<open>Gateway\<close>: every page put to the endpoints: no read of any page is refused, and which writes
    are. \<open>SessionKinds\<close>: what the sessions that are not full ones reach, and the token on its way from the
    service through cookie and middleware back to it.
  \<^item> \<open>SessionCache\<close>: the query cache of a tab while users come and go in it.
  \<^item> \<open>RateLimit\<close>: \<^verbatim>\<open>core/ratelimit.py\<close> of the service, refining a specification that forgets nothing.
  \<^item> \<open>SignInService\<close>: \<^verbatim>\<open>api/auth.py\<close>, \<^verbatim>\<open>api/mfa.py\<close>, \<^verbatim>\<open>api/setup.py\<close>, \<^verbatim>\<open>api/users.py\<close> and their services as one
    machine over the tables: full sessions are earned, codes work once. \<open>SignInFlow\<close>: that machine behind the
    login page; page, session and reported user agree after each step, up to the end of a forced enrolment.
  \<^item> \<open>ChangePipeline\<close>: \<^verbatim>\<open>api/config.py\<close>, \<^verbatim>\<open>services/config_push.py\<close>, \<^verbatim>\<open>services/config_revert.py\<close>,
    \<^verbatim>\<open>services/config_backup.py\<close> and the jobs of \<^verbatim>\<open>worker.py\<close> of the service that apply changes, with what templates
    and profiles put into them: a machine of requests, jobs, sweeps and foreign edits, whose reachable states are
    an inductive predicate. No push overwrites an unseen configuration, final changes rest, a change is written
    at most once, orphans end. \<open>ChangeFlow\<close>: the buttons of the changes page against that machine.
    \<open>CatalogService\<close>: how catalogs are keyed (\<^verbatim>\<open>src/backend/tools/opnsense_catalog/emit.py\<close>) and how \<^verbatim>\<open>api/catalog.py\<close> reads
    models and checks proposals; every proposal of the editor for a model under its own id is taken.
  \<^item> \<open>Shell\<close>: \<^verbatim>\<open>main.tsx\<close>, \<^verbatim>\<open>App.tsx\<close> and the shell as the tree of what is mounted: every component stands
    below the providers of the contexts it reads.
  \<^item> This theory: the confirmations and the lists of the whole application.

  \<^bold>\<open>Parameters.\<close> Code outside the sources is an argument: \<open>decodeURIComponent\<close>, the clock, the
  parsing of a local date (\<open>parse_local\<close>, \<open>None\<close> for an invalid date), the collation
  \<open>localeCompare\<close> (assumed to be a total preorder where a sorted table is claimed), the
  authenticator (which returns a credential or nothing), the words of the dictionaries' texts, the printing
  of dates, the names of countries and the formatting of JSON by the host, the encoder of QR codes, the
  service's replies (arbitrary everywhere except for the timelines, where they are those of the endpoint
  over any table; the encoding of its cursors is a parameter that decoding inverts; and except for sign-in,
  session, user and tenants, where they are those of the modelled service), the hashes of passwords and
  tokens, one-time passwords, the verification of passkeys and the random values of the service (fresh where
  a new cookie is followed), the order of the tenants in its list, the hash of a configuration, the builders of
  inverse changes and what a write leaves on a device, the catalogs of a release. No fuel is used: every
  other loop of the sources is structural or has a measure (the choice of a size unit ends after the list
  of units). Shares of the attacker map are rational numbers, where the code has floating point.

  \<^bold>\<open>What the properties show where the code does not do what it means to.\<close> A form of the catalog left
  open proposes old values of untouched fields (\<open>stale_form_reverts\<close>); the device list shows an
  HTTP error as an empty list (\<open>device_list_hides_errors\<close>); the report settings form writes one
  tenant's values to another after a switch (\<open>settings_follow_first_tenant\<close>, where the retention
  card does it right, \<open>retention_follows_tenant\<close>); a profile is applied with a binding decided by
  the preview of another one (\<open>profile_binds_preview\<close>); an edited template can change kind
  (\<open>template_kind_switch\<close>); loading more logs mixes new filters with an old cursor
  (\<open>loadMore_reads_edited_filters\<close>); panels of the device page offer a reader writes that the service
  refuses (\<open>actions_admitted\<close>); signing in after an expired session keeps the cache of the previous user
  (\<open>cache_of_own_session\<close>); a session opened for enrolment replaces a factor enrolled meanwhile
  (\<open>late_enrolment_replaces\<close>); disabling the one-time password ignores the policy
  (\<open>disable_ignores_policy\<close>); an administrator's reset keeps the passkeys (\<open>reset_keeps_passkeys\<close>);
  a change moved to a later time is applied at the earlier one (\<open>reschedule_keeps_first_time\<close>); a profile that
  the sweeper picks up conflicts with itself (\<open>swept_profile_conflicts\<close>); a change cancelled while its job starts
  is written all the same (\<open>cancelled_while_starting\<close>); the editor cannot propose for a module with several
  models, and the deny list does not cover such a module (\<open>shared_modules_mishandled\<close>).

  \<^bold>\<open>Not modelled.\<close> Layout and drawing (third-party components, charts, the shapes of the world map),
  the words of the dictionaries, the theme, type
  declarations (\<^verbatim>\<open>api/schema.d.ts\<close> is generated), and of the service the handlers behind the guards (apart
  from sign-in, enrolment, accounts, the list of tenants, the events, the configuration
  changes and the catalog), the other
  jobs of its worker and its connectors: their core is SQL, queues and the devices' interfaces. Within the modelled handlers of the service the audit
  records, the length limits of request bodies, the unique indexes of the database and the locking of rows
  (a request is one step, and so is a job: the window between reading a change and locking its device is
  examined on its own, \<open>cancelled_while_starting\<close>) are left out. Concurrent confirmation clicks are excluded by the disabled state of
  the buttons while a request is pending, so a confirmation is one step. Numbers in number inputs are their
  texts or integers; characters beyond Latin-1 that components write themselves are named as HTML entities,
  others do not occur in the modelled strings.
\<close>

section \<open>Confirmations across the application\<close>


section \<open>Lists across the application\<close>

text \<open>A list shows the state of its query, on every page. The twelve lists below show a loader
  exactly while their query loads, their error text exactly after it failed, their empty text exactly
  when it returned no element, and otherwise one row per element, in the order of the reply and with
  nothing left out; whatever the formatting of dates, the labels and the permissions of the user are.\<close>

theorem lists_show_their_state:
  "shows_query (PerimeterCard display lc kind) (PerimeterCard_row display lc kind)
     (Alert ''red'' ''t.perimeter.loadError'') (Text ''t.perimeter.empty'') q1
   \<and> shows_query (PerimeterTable fmt_in display lc kind) (PerimeterTable_row fmt_in display lc)
     (Alert ''red'' ''t.perimeter.loadError'') (Text ''t.perimeter.empty'') q1
   \<and> shows_query (AttackerCountriesCard display lc h) (country_row display lc)
     (Alert ''red'' ''t.overview.attackerCountries.title'') (Text ''t.overview.attackerCountries.empty'') q2
   \<and> shows_query ReliabilityCard ReliabilityCard_row
     (Alert ''red'' ''t.reliability.loadError'') (Text ''t.reliability.empty'') q3
   \<and> shows_query (ConfigAuditCard channels) (ConfigAuditCard_row channels)
     (Alert ''red'' ''t.configAudit.loadError'') (Text ''t.configAudit.empty'') q3
   \<and> shows_query (ReliabilityTab_list fmt categories severities) (ReliabilityTab_row fmt categories severities)
     (Alert ''red'' ''t.reliability.loadError'') (Text ''t.reliability.empty'') q4
   \<and> shows_query (ConfigAuditTab_list fmt channels) (ConfigAuditTab_row fmt channels)
     (Alert ''red'' ''t.configAudit.loadError'') (Text ''t.configAudit.empty'') q4
   \<and> shows_query (AlertsPage_list fmt mode) (AlertsPage_row fmt)
     (Text ''t.alerts.loadError'') (Text ''t.alerts.noAlerts'') q5
   \<and> shows_query (overview_alerts fmt) (overview_alert_row fmt)
     (Alert ''red'' ''t.overview.alertsLoadError'') (Text ''t.overview.noActiveAlerts'') q5
   \<and> shows_query (TenantDevices_list win) fleet_device_row
     (Alert ''red'' ''t.logFleet.devicesLoadError'') (Text ''t.logFleet.noDevices'') q6
   \<and> shows_query (changes_list canEdit drift rs) (change_cells canEdit drift rs)
     (Alert ''red'' ''t.errors.configChangesLoad'') (Text ''t.config.changes.none'') q7
   \<and> shows_query (audit_list stringify) (audit_row stringify)
     (Alert ''red'' ''t.errors.auditLoad'') (Text ''t.audit.empty'') q8"
  by (intro conjI perimeter_card.faithful perimeter_table.faithful countries_card.faithful reliability_card.faithful
        audit_card.faithful reliability_tab.faithful audit_tab.faithful alerts_page.faithful overview_alert_list.faithful
        tenant_devices.faithful changes_panel.faithful audit_log.faithful)

end
